(* ===== verification/Prelude.thy ===== *)
theory Prelude
  imports Main
begin

text \<open>
  Shared vocabulary of the development: Go's truncated integer division, decimal rendering and
  reading of integers (\<^verbatim>\<open>strconv.FormatInt\<close>, \<^verbatim>\<open>strconv.ParseInt\<close>), and the collections of
  facts that the component theories extend: \<open>prog_defs\<close> (unfoldings of the program combinators),
  \<open>store_defs\<close> (unfoldings of the operations of the relay store) and \<open>row_simps\<close> (equations of
  rows, marshalling and conditions).
\<close>

named_theorems prog_defs "unfoldings of the program combinators"
named_theorems store_defs "unfoldings of the operations of the relay store"
named_theorems row_simps "rows, marshalling, conditions and updates of the table"

section \<open>Integers of the source\<close>

text \<open>Go's \<open>/\<close> on \<^verbatim>\<open>int64\<close> truncates towards zero.\<close>

definition go_div :: "int \<Rightarrow> int \<Rightarrow> int" where
  "go_div a b = sgn a * sgn b * (\<bar>a\<bar> div \<bar>b\<bar>)"

lemma go_div_nonneg: "0 \<le> a \<Longrightarrow> 0 < b \<Longrightarrow> go_div a b = a div b"
  by (cases "a = 0") (auto simp: go_div_def)

lemma go_div_bounds:
  assumes "0 \<le> a" "0 < b"
  shows "go_div a b * b \<le> a" "a < (go_div a b + 1) * b"
proof -
  have m: "0 \<le> a mod b" "a mod b < b" "a div b * b + a mod b = a"
    using assms by simp_all
  have e: "(a div b + 1) * b = a div b * b + b"
    by (simp add: algebra_simps)
  show "go_div a b * b \<le> a" and "a < (go_div a b + 1) * b"
    unfolding go_div_nonneg [OF assms] e using m by linarith+
qed

section \<open>Decimal rendering\<close>

fun digits10 :: "nat \<Rightarrow> string" where
  "digits10 n = (if n < 10 then [char_of (48 + n)]
     else digits10 (n div 10) @ [char_of (48 + n mod 10)])"

declare digits10.simps [simp del]

definition itoa :: "int \<Rightarrow> string" where
  "itoa i = (if i < 0 then CHR ''-'' # digits10 (nat (- i)) else digits10 (nat i))"

definition is_digit :: "char \<Rightarrow> bool" where
  "is_digit c \<longleftrightarrow> 48 \<le> (of_char c :: nat) \<and> (of_char c :: nat) \<le> 57"

definition digit_val :: "char \<Rightarrow> nat" where
  "digit_val c = of_char c - 48"

fun undigits :: "nat \<Rightarrow> string \<Rightarrow> nat option" where
  "undigits acc [] = Some acc"
| "undigits acc (c # cs) =
     (if is_digit c then undigits (acc * 10 + digit_val c) cs else None)"

text \<open>
  \<^verbatim>\<open>strconv.ParseInt(s, 10, 64)\<close>: an optional sign, at least one digit, no other character, and a
  value in the range of \<^verbatim>\<open>int64\<close>; every other input is an error (here \<open>None\<close>).
\<close>

definition int64_range :: "int \<Rightarrow> bool" where
  "int64_range i \<longleftrightarrow> - (2 ^ 63) \<le> i \<and> i < 2 ^ 63"

definition parse_digits :: "string \<Rightarrow> int option" where
  "parse_digits s = (if s = [] then None else map_option int (undigits 0 s))"

definition ParseInt :: "string \<Rightarrow> int option" where
  "ParseInt s =
     (case (case s of
              [] \<Rightarrow> None
            | c # cs \<Rightarrow>
                if c = CHR ''-'' then map_option uminus (parse_digits cs)
                else if c = CHR ''+'' then parse_digits cs
                else parse_digits s) of
        None \<Rightarrow> None
      | Some i \<Rightarrow> if int64_range i then Some i else None)"

lemma is_digit_char_of [simp]: "n < 10 \<Longrightarrow> is_digit (char_of (48 + n))" for n :: nat
  by (simp add: is_digit_def)

lemma digit_val_char_of [simp]: "n < 10 \<Longrightarrow> digit_val (char_of (48 + n)) = n" for n :: nat
  by (simp add: digit_val_def)

lemma undigits_append:
  "undigits acc (xs @ ys) = (case undigits acc xs of None \<Rightarrow> None | Some a \<Rightarrow> undigits a ys)"
  by (induction xs arbitrary: acc) auto

lemma undigits_digits10: "undigits 0 (digits10 n) = Some n"
proof (induction n rule: digits10.induct)
  case (1 n)
  show ?case
  proof (cases "n < 10")
    case True
    then show ?thesis by (simp add: digits10.simps [of n])
  next
    case False
    then have "undigits 0 (digits10 (n div 10)) = Some (n div 10)"
      using "1.IH" by simp
    with False show ?thesis
      by (simp add: digits10.simps [of n] undigits_append)
  qed
qed

lemma digits10_not_Nil [simp]: "digits10 n \<noteq> []"
  by (simp add: digits10.simps [of n])

lemma digits10_digits: "\<forall>c \<in> set (digits10 n). is_digit c"
proof (induction n rule: digits10.induct)
  case (1 n)
  then show ?case by (auto simp: digits10.simps [of n])
qed

lemma digit_not_sign: "is_digit c \<Longrightarrow> c \<noteq> CHR ''-'' \<and> c \<noteq> CHR ''+'' \<and> c \<noteq> CHR ''#''"
  by (auto simp: is_digit_def)

lemma itoa_no_hash: "CHR ''#'' \<notin> set (itoa i)"
proof -
  have "CHR ''#'' \<notin> set (digits10 n)" for n
    using digits10_digits digit_not_sign by blast
  then show ?thesis by (auto simp: itoa_def)
qed

lemma ParseInt_itoa:
  assumes "int64_range i"
  shows "ParseInt (itoa i) = Some i"
proof (cases "i < 0")
  case True
  with assms show ?thesis
    by (simp add: itoa_def ParseInt_def parse_digits_def undigits_digits10)
next
  case False
  obtain c cs where d: "digits10 (nat i) = c # cs"
    by (cases "digits10 (nat i)") auto
  then have "is_digit c"
    using digits10_digits [of "nat i"] by simp
  then have "c \<noteq> CHR ''-''" "c \<noteq> CHR ''+''"
    using digit_not_sign by blast+
  moreover have "undigits 0 (c # cs) = Some (nat i)"
    using undigits_digits10 [of "nat i"] d by simp
  ultimately show ?thesis
    using False assms d by (simp add: itoa_def ParseInt_def parse_digits_def)
qed

lemma itoa_inj: "itoa i = itoa j \<Longrightarrow> i = j"
proof -
  assume eq: "itoa i = itoa j"
  have sign: "(hd (itoa k) = CHR ''-'') = (k < 0)" for k
  proof (cases "k < 0")
    case False
    have "hd (digits10 (nat k)) \<in> set (digits10 (nat k))" by simp
    then have "hd (digits10 (nat k)) \<noteq> CHR ''-''"
      using digits10_digits digit_not_sign by blast
    with False show ?thesis by (simp add: itoa_def)
  qed (simp add: itoa_def)
  have dig: "digits10 m = digits10 n \<Longrightarrow> m = n" for m n
    using undigits_digits10 by (metis option.inject)
  have s: "(i < 0) = (j < 0)"
    using sign [of i] sign [of j] eq by simp
  show "i = j"
  proof (cases "i < 0")
    case True
    with s eq have "nat (- i) = nat (- j)" by (simp add: itoa_def dig)
    with True s show ?thesis by simp
  next
    case False
    with s eq have "nat i = nat j" by (simp add: itoa_def dig)
    with False s show ?thesis by simp
  qed
qed

section \<open>Small facts on lists\<close>

lemma append_hash_inj:
  assumes "CHR ''#'' \<notin> set a" "CHR ''#'' \<notin> set b"
    and "a @ CHR ''#'' # x = b @ CHR ''#'' # y"
  shows "a = b \<and> x = y"
  using assms
proof (induction a arbitrary: b)
  case Nil
  then show ?case by (cases b) auto
next
  case (Cons c cs)
  then show ?case by (cases b) auto
qed

end
