(* ===== verification/Base64.thy ===== *)
theory Base64
  imports Prelude
begin

text \<open>
  \<^verbatim>\<open>base64.RawURLEncoding\<close> of Go's standard library (URL-safe alphabet, no padding) as the program
  uses it, and the canonical decoders built on it: \<^verbatim>\<open>canonicalBase64URL\<close> of
  \<^verbatim>\<open>protocol/protocol.go\<close> and \<^verbatim>\<open>decode32\<close> of \<^verbatim>\<open>internal/companion/companion.go\<close>. Go strings and byte
  slices are both byte sequences, here both \<open>string\<close>. The library decoder skips carriage returns and
  line feeds and ignores the unused low bits of the last character, so several texts decode to the
  same bytes; the canonical decoders accept exactly the text that the encoder prints.
\<close>

section \<open>The alphabet\<close>

definition enc_char :: "nat \<Rightarrow> char" where
  "enc_char s =
     (if s < 26 then char_of (65 + s)
      else if s < 52 then char_of (97 + (s - 26))
      else if s < 62 then char_of (48 + (s - 52))
      else if s = 62 then CHR ''-'' else CHR ''_'')"

definition dec_char :: "char \<Rightarrow> nat option" where
  "dec_char c =
     (let n = of_char c in
      if 65 \<le> n \<and> n \<le> 90 then Some (n - 65)
      else if 97 \<le> n \<and> n \<le> 122 then Some (n - 97 + 26)
      else if 48 \<le> n \<and> n \<le> 57 then Some (n - 48 + 52)
      else if c = CHR ''-'' then Some 62
      else if c = CHR ''_'' then Some 63 else None)"

text \<open>The alphabet, character by character: the 64 cases are evaluated once.\<close>

lemma sextet_cases:
  assumes "s < (64 :: nat)"
  shows "s < 26 \<or> (26 \<le> s \<and> s < 52) \<or> (52 \<le> s \<and> s < 62) \<or> s = 62 \<or> s = 63"
  using assms by linarith

lemma of_char_enc_char:
  assumes "s < 64"
  shows "(of_char (enc_char s) :: nat) =
    (if s < 26 then 65 + s else if s < 52 then 71 + s else if s < 62 then s - 4
     else if s = 62 then 45 else 95)"
  using sextet_cases [OF assms] by (auto simp: enc_char_def)

lemma dec_enc_char [simp]:
  assumes "s < 64"
  shows "dec_char (enc_char s) = Some s"
  using sextet_cases [OF assms]
  by (elim disjE) (auto simp: dec_char_def Let_def of_char_enc_char, simp_all add: enc_char_def)

lemma enc_char_safe:
  assumes "s < 64"
  shows "enc_char s \<noteq> CHR 0x0A" "enc_char s \<noteq> CHR 0x0D" "enc_char s \<noteq> CHR ''#''"
proof -
  have "(of_char (enc_char s) :: nat) \<notin> {10, 13, 35}"
    using sextet_cases [OF assms] by (auto simp: of_char_enc_char)
  then show "enc_char s \<noteq> CHR 0x0A" "enc_char s \<noteq> CHR 0x0D" "enc_char s \<noteq> CHR ''#''"
    by (auto simp del: of_char_enc_char)
qed

lemma dec_char_bound: "dec_char c = Some s \<Longrightarrow> s < 64"
  by (auto simp: dec_char_def Let_def split: if_splits)

section \<open>Encoding and decoding\<close>

text \<open>\<^verbatim>\<open>EncodeToString\<close>: groups of three bytes, then a tail of one or two.\<close>

abbreviation byte_of :: "char \<Rightarrow> nat" where
  "byte_of c \<equiv> of_char c"

fun b64_encode :: "string \<Rightarrow> string" where
  "b64_encode (a # b # c # rest) =
     [enc_char (byte_of a div 4),
      enc_char (byte_of a mod 4 * 16 + byte_of b div 16),
      enc_char (byte_of b mod 16 * 4 + byte_of c div 64),
      enc_char (byte_of c mod 64)] @ b64_encode rest"
| "b64_encode [a, b] =
     [enc_char (byte_of a div 4),
      enc_char (byte_of a mod 4 * 16 + byte_of b div 16),
      enc_char (byte_of b mod 16 * 4)]"
| "b64_encode [a] = [enc_char (byte_of a div 4), enc_char (byte_of a mod 4 * 16)]"
| "b64_encode [] = []"

text \<open>\<^verbatim>\<open>DecodeString\<close> on the sextets of the text; a lone trailing sextet is an error.\<close>

fun join_sextets :: "nat list \<Rightarrow> string option" where
  "join_sextets (p # q # r # s # rest) =
     map_option (\<lambda>out. [char_of (p * 4 + q div 16), char_of (q mod 16 * 16 + r div 4),
        char_of (r mod 4 * 64 + s)] @ out) (join_sextets rest)"
| "join_sextets [p, q, r] =
     Some [char_of (p * 4 + q div 16), char_of (q mod 16 * 16 + r div 4)]"
| "join_sextets [p, q] = Some [char_of (p * 4 + q div 16)]"
| "join_sextets [p] = None"
| "join_sextets [] = Some []"

fun sextets :: "string \<Rightarrow> nat list option" where
  "sextets [] = Some []"
| "sextets (c # cs) =
     (case dec_char c of None \<Rightarrow> None | Some s \<Rightarrow> map_option (Cons s) (sextets cs))"

definition skip_newlines :: "string \<Rightarrow> string" where
  "skip_newlines s = filter (\<lambda>c. c \<noteq> CHR 0x0A \<and> c \<noteq> CHR 0x0D) s"

definition b64_decode :: "string \<Rightarrow> string option" where
  "b64_decode s = (case sextets (skip_newlines s) of None \<Rightarrow> None | Some xs \<Rightarrow> join_sextets xs)"

text \<open>\<^verbatim>\<open>EncodedLen\<close> of the unpadded encoding.\<close>

definition b64_encoded_len :: "nat \<Rightarrow> nat" where
  "b64_encoded_len n = n div 3 * 4 + (n mod 3 * 8 + 5) div 6"

lemma byte_lt [simp]: "(of_char c :: nat) < 256"
  using of_char_mod_256 [of c, where ?'a = nat] by (metis mod_less_divisor zero_less_numeral)

lemma byte_div [simp]:
  "byte_of b div 16 < 16" "byte_of c div 64 < 4" "byte_of a div 4 < 64"
  by (simp_all add: less_mult_imp_div_less)

lemma block [simp]:
  "r < m \<Longrightarrow> (q * m + r) div m = q" "r < m \<Longrightarrow> (q * m + r) mod m = r"
  for m :: nat
  by simp_all

lemma sextet_bounds [simp]:
  "byte_of a mod 4 * 16 + byte_of b div 16 < 64"
  "byte_of b mod 16 * 4 + byte_of c div 64 < 64"
  "byte_of a mod 4 * 16 < 64"
  "byte_of b mod 16 * 4 < 64"
proof -
  have m: "byte_of a mod 4 < 4" "byte_of b mod 16 < 16" by simp_all
  show "byte_of a mod 4 * 16 + byte_of b div 16 < 64"
    "byte_of b mod 16 * 4 + byte_of c div 64 < 64"
    "byte_of a mod 4 * 16 < 64"
    "byte_of b mod 16 * 4 < 64"
    using m byte_div(1) [of b] byte_div(2) [of c] by linarith+
qed

lemma split_bytes:
  "byte_of a div 4 * 4 + (byte_of a mod 4 * 16 + byte_of b div 16) div 16 = byte_of a"
  "(byte_of a mod 4 * 16 + byte_of b div 16) mod 16 * 16
     + (byte_of b mod 16 * 4 + byte_of c div 64) div 4 = byte_of b"
  "(byte_of b mod 16 * 4 + byte_of c div 64) mod 4 * 64 + byte_of c mod 64 = byte_of c"
  "byte_of a div 4 * 4 + byte_of a mod 4 * 16 div 16 = byte_of a"
  "(byte_of a mod 4 * 16 + byte_of b div 16) mod 16 * 16 + byte_of b mod 16 * 4 div 4 = byte_of b"
  by (simp_all only: block [OF byte_div(1)] block [OF byte_div(2)] div_mult_mod_eq
      nonzero_mult_div_cancel_right zero_neq_numeral [symmetric] not_False_eq_True)

lemma skip_newlines_encode [simp]: "skip_newlines (b64_encode bs) = b64_encode bs"
  by (induction bs rule: b64_encode.induct)
    (auto simp: skip_newlines_def enc_char_safe)

lemma sextets_append:
  "sextets (xs @ ys) =
     (case sextets xs of None \<Rightarrow> None | Some a \<Rightarrow> map_option (append a) (sextets ys))"
proof (induction xs)
  case Nil
  then show ?case by (cases "sextets ys") auto
next
  case (Cons c cs)
  then show ?case
    by (cases "sextets ys") (auto split: option.splits)
qed

lemma decode_encode_sextets:
  "\<exists>xs. sextets (b64_encode bs) = Some xs \<and> join_sextets xs = Some bs"
proof (induction bs rule: b64_encode.induct)
  case (1 a b c rest)
  then obtain xs where "sextets (b64_encode rest) = Some xs" "join_sextets xs = Some rest"
    by blast
  then show ?case
    by (simp del: block div_mult_self3 div_mult_self4 mod_mult_self3 mod_mult_self4
        add: split_bytes)
qed (simp_all del: block add: split_bytes)

lemma b64_decode_encode [simp]: "b64_decode (b64_encode bs) = Some bs"
  using decode_encode_sextets [of bs] by (auto simp: b64_decode_def)

lemma b64_encode_inj: "b64_encode a = b64_encode b \<longleftrightarrow> a = b"
  by (metis b64_decode_encode option.inject)

lemma b64_encode_Nil_iff [simp]: "b64_encode bs = [] \<longleftrightarrow> bs = []"
  by (cases bs rule: b64_encode.cases) auto

lemma b64_encoded_len_step: "b64_encoded_len (Suc (Suc (Suc n))) = 4 + b64_encoded_len n"
proof -
  have "Suc (Suc (Suc n)) = n + 3" by simp
  then have "Suc (Suc (Suc n)) div 3 = n div 3 + 1" "Suc (Suc (Suc n)) mod 3 = n mod 3"
    by (simp_all only: div_add_self2 mod_add_self2 zero_neq_numeral [symmetric] not_False_eq_True
        simp_thms)
  then show ?thesis by (simp add: b64_encoded_len_def)
qed

lemma length_b64_encode: "length (b64_encode bs) = b64_encoded_len (length bs)"
  by (induction bs rule: b64_encode.induct) (simp_all add: b64_encoded_len_step, simp_all add: b64_encoded_len_def)

lemma b64_encoded_len_mod: "b64_encoded_len n mod 4 \<noteq> 1"
proof -
  have "n mod 3 = 0 \<or> n mod 3 = 1 \<or> n mod 3 = 2" by presburger
  then show ?thesis by (auto simp: b64_encoded_len_def)
qed

lemma b64_encode_no_hash: "CHR ''#'' \<notin> set (b64_encode bs)"
  by (induction bs rule: b64_encode.induct) (simp_all add: enc_char_safe [symmetric] enc_char_safe [THEN not_sym])

section \<open>Canonical decoders of the program\<close>

text \<open>\<^verbatim>\<open>canonicalBase64URL\<close>: the decoded bytes, or \<open>None\<close> for \<^verbatim>\<open>(nil, false)\<close>.\<close>

definition canonicalBase64URL :: "string \<Rightarrow> string option" where
  "canonicalBase64URL v =
     (if v = '''' \<or> length v mod 4 = 1 then None
      else case b64_decode v of
             None \<Rightarrow> None
           | Some d \<Rightarrow> if b64_encode d \<noteq> v then None else Some d)"

text \<open>\<^verbatim>\<open>decode32\<close> of the companion: exactly 32 canonical bytes.\<close>

definition decode32 :: "string \<Rightarrow> string option" where
  "decode32 v =
     (case b64_decode v of
        None \<Rightarrow> None
      | Some d \<Rightarrow> if length d \<noteq> 32 \<or> b64_encode d \<noteq> v then None else Some d)"

lemma canonicalBase64URL_iff:
  "canonicalBase64URL v = Some d \<longleftrightarrow> d \<noteq> '''' \<and> v = b64_encode d"
proof
  assume a: "canonicalBase64URL v = Some d"
  show "d \<noteq> '''' \<and> v = b64_encode d"
  proof (cases "v = '''' \<or> length v mod 4 = 1")
    case True
    with a show ?thesis by (simp only: canonicalBase64URL_def if_True option.distinct)
  next
    case False
    with a have e: "b64_encode d = v"
      by (simp only: canonicalBase64URL_def if_False) (simp split: option.splits if_splits)
    with False show ?thesis by auto
  qed
next
  assume a: "d \<noteq> '''' \<and> v = b64_encode d"
  have "length (b64_encode d) mod 4 \<noteq> 1"
    unfolding length_b64_encode by (rule b64_encoded_len_mod)
  with a show "canonicalBase64URL v = Some d"
    by (simp add: canonicalBase64URL_def)
qed

lemma decode32_iff: "decode32 v = Some d \<longleftrightarrow> length d = 32 \<and> v = b64_encode d"
  by (auto simp: decode32_def split: option.splits if_splits)

lemma decode32_canonical: "decode32 v = Some d \<longleftrightarrow> canonicalBase64URL v = Some d \<and> length d = 32"
  by (auto simp: decode32_iff canonicalBase64URL_iff)

end
