(* ===== verification/GoText.thy ===== *)
theory GoText
  imports Prelude
begin

text \<open>
  Text of Go's standard library as the companion uses it: a string is a byte sequence, ranging over it
  yields runes (an ill-formed byte counts as one rune U+FFFD), and \<^verbatim>\<open>strings.TrimSpace\<close> removes the white
  space runes at both ends. The categories of \<^verbatim>\<open>unicode\<close> that the code tests are written as ranges.
\<close>

section \<open>Runes\<close>

definition byte_in :: "nat \<Rightarrow> nat \<Rightarrow> char \<Rightarrow> bool" where
  "byte_in lo hi c \<longleftrightarrow> lo \<le> of_char c \<and> of_char c \<le> hi"

text \<open>The number of bytes of the rune that starts with \<open>b\<close> and goes on with \<open>bs\<close> (\<^verbatim>\<open>utf8.DecodeRune\<close>).\<close>

definition rune_size :: "char \<Rightarrow> string \<Rightarrow> nat" where
  "rune_size b bs = (let n = (of_char b :: nat) in
     if 0xC2 \<le> n \<and> n \<le> 0xDF \<and> list_all (byte_in 0x80 0xBF) (take 1 bs) \<and> 1 \<le> length bs then 2
     else if 0xE0 \<le> n \<and> n \<le> 0xEF \<and> 2 \<le> length bs \<and>
       byte_in (if n = 0xE0 then 0xA0 else 0x80) (if n = 0xED then 0x9F else 0xBF) (bs ! 0) \<and>
       byte_in 0x80 0xBF (bs ! 1) then 3
     else if 0xF0 \<le> n \<and> n \<le> 0xF4 \<and> 3 \<le> length bs \<and>
       byte_in (if n = 0xF0 then 0x90 else 0x80) (if n = 0xF4 then 0x8F else 0xBF) (bs ! 0) \<and>
       list_all (byte_in 0x80 0xBF) (take 2 (drop 1 bs)) then 4
     else 1)"

definition rune_value :: "char \<Rightarrow> string \<Rightarrow> nat" where
  "rune_value b bs = (let n = (of_char b :: nat); k = rune_size b bs;
       low = foldl (\<lambda>a c. a * 64 + (of_char c - 0x80)) 0 (take (k - 1) bs) in
     if k = 2 then (n - 0xC0) * 64 + low
     else if k = 3 then (n - 0xE0) * 4096 + low
     else if k = 4 then (n - 0xF0) * 262144 + low
     else if n < 0x80 then n else 0xFFFD)"

text \<open>The runes of a string, each with the bytes it stands on.\<close>

fun segments :: "string \<Rightarrow> (nat \<times> string) list" where
  "segments [] = []"
| "segments (b # bs) =
     (rune_value b bs, b # take (rune_size b bs - 1) bs) # segments (drop (rune_size b bs - 1) bs)"

definition runes :: "string \<Rightarrow> nat list" where
  "runes s = map fst (segments s)"

definition RuneCountInString :: "string \<Rightarrow> nat" where
  "RuneCountInString s = length (segments s)"

section \<open>Categories\<close>

definition in_ranges :: "(nat \<times> nat) list \<Rightarrow> nat \<Rightarrow> bool" where
  "in_ranges rs r \<longleftrightarrow> list_ex (\<lambda>(lo, hi). lo \<le> r \<and> r \<le> hi) rs"

definition IsSpace :: "nat \<Rightarrow> bool" where
  "IsSpace = in_ranges [(0x09, 0x0D), (0x20, 0x20), (0x85, 0x85), (0xA0, 0xA0), (0x1680, 0x1680),
     (0x2000, 0x200A), (0x2028, 0x2029), (0x202F, 0x202F), (0x205F, 0x205F), (0x3000, 0x3000)]"

definition category_Cc :: "nat \<Rightarrow> bool" where
  "category_Cc = in_ranges [(0x00, 0x1F), (0x7F, 0x9F)]"

definition category_Cf :: "nat \<Rightarrow> bool" where
  "category_Cf = in_ranges [(0xAD, 0xAD), (0x600, 0x605), (0x61C, 0x61C), (0x6DD, 0x6DD),
     (0x70F, 0x70F), (0x890, 0x891), (0x8E2, 0x8E2), (0x180E, 0x180E), (0x200B, 0x200F),
     (0x202A, 0x202E), (0x2060, 0x2064), (0x2066, 0x206F), (0xFEFF, 0xFEFF), (0xFFF9, 0xFFFB),
     (0x110BD, 0x110BD), (0x110CD, 0x110CD), (0x13430, 0x1343F), (0x1BCA0, 0x1BCA3),
     (0x1D173, 0x1D17A), (0xE0001, 0xE0001), (0xE0020, 0xE007F)]"

definition category_Zl :: "nat \<Rightarrow> bool" where
  "category_Zl r \<longleftrightarrow> r = 0x2028"

definition category_Zp :: "nat \<Rightarrow> bool" where
  "category_Zp r \<longleftrightarrow> r = 0x2029"

section \<open>Trimming and prefixes\<close>

definition TrimSpace :: "string \<Rightarrow> string" where
  "TrimSpace s =
     (let space = (\<lambda>p. IsSpace (fst p)) in
      concat (map snd (rev (dropWhile space (rev (dropWhile space (segments s)))))))"

definition HasPrefix :: "string \<Rightarrow> string \<Rightarrow> bool" where
  "HasPrefix s p \<longleftrightarrow> take (length p) s = p"

definition TrimPrefix :: "string \<Rightarrow> string \<Rightarrow> string" where
  "TrimPrefix s p = (if HasPrefix s p then drop (length p) s else s)"

lemma concat_segments: "concat (map snd (segments s)) = s"
  by (induction s rule: segments.induct) (simp_all add: append_take_drop_id)

lemma segments_Nil_iff [simp]: "segments s = [] \<longleftrightarrow> s = []"
  by (cases s) simp_all

lemma HasPrefix_append [simp]: "HasPrefix (p @ s) p"
  by (simp add: HasPrefix_def)

lemma TrimPrefix_append [simp]: "TrimPrefix (p @ s) p = s"
  by (simp add: TrimPrefix_def)

text \<open>Plain ASCII text is a sequence of one-byte runes.\<close>

lemma rune_size_ascii: "(of_char b :: nat) < 0x80 \<Longrightarrow> rune_size b bs = 1"
  by (simp add: rune_size_def Let_def)

lemma segments_ascii:
  "list_all (\<lambda>c. (of_char c :: nat) < 0x80) s \<Longrightarrow> segments s = map (\<lambda>c. (of_char c, [c])) s"
  by (induction s rule: segments.induct)
    (simp_all add: rune_size_ascii rune_value_def Let_def)

end
