(* ===== verification/Protocol.thy ===== *)
theory Protocol
  imports Base64 GoText
begin

text \<open>
  The wire contract of \<^verbatim>\<open>protocol/protocol.go\<close>: error codes, device roles, envelopes and bodies,
  the identifiers' pattern, the authorization header, the Noise prologues and the pairing invite's
  lifetime. JSON documents are values of \<open>json\<close>; a number is kept as its token (\<^verbatim>\<open>json.Number\<close>) until
  it is normalised to an \<^verbatim>\<open>int64\<close>. SHA-256 (\<open>sha\<close>) and \<^verbatim>\<open>url.Parse\<close> (\<open>purl\<close>) are parameters.
\<close>

section \<open>Constants and error codes\<close>

definition ProtocolName :: string where
  "ProtocolName = ''remote-davinci.rendezvous''"
definition ProtocolVersion :: int where
  "ProtocolVersion = 1"
definition ControlProtocolName :: string where
  "ControlProtocolName = ''remote-davinci.control''"
definition PairingProtocolName :: string where
  "PairingProtocolName = ''remote-davinci.pairing''"
definition PairingInviteProtocolName :: string where
  "PairingInviteProtocolName = ''remote-davinci.pairing-invite''"
definition PairingAuthorization :: string where
  "PairingAuthorization = ''Pairing rd1''"
definition PairingNoisePrefix :: string where
  "PairingNoisePrefix = ''remote-davinci/pair-qr/v1''"
definition SessionNoisePrefix :: string where
  "SessionNoisePrefix = ''remote-davinci/session/v1''"

definition MaxWebSocketFrameBytes :: nat where
  "MaxWebSocketFrameBytes = 32 * 1024"
definition MaxRelayPayloadBytes :: nat where
  "MaxRelayPayloadBytes = 16 * 1024"
definition MaxRelayReorderFrames :: nat where
  "MaxRelayReorderFrames = 8"
definition MaxRelayReorderBytes :: nat where
  "MaxRelayReorderBytes = MaxRelayPayloadBytes * MaxRelayReorderFrames"
definition MaxControlPlaintextBytes :: nat where
  "MaxControlPlaintextBytes = MaxRelayPayloadBytes - 16"
definition MaxPairingPlaintextBytes :: nat where
  "MaxPairingPlaintextBytes = (MaxRelayPayloadBytes - 23) div 2 - 40"
definition MaxPairingInviteBytes :: nat where
  "MaxPairingInviteBytes = 2 * 1024"
definition PairingTTLSeconds :: int where
  "PairingTTLSeconds = 5 * 60"
definition PairingClockSkewSeconds :: int where
  "PairingClockSkewSeconds = 60"

text \<open>\<^verbatim>\<open>ErrorCode\<close> is an open string type; \<open>OtherCode\<close> holds every string not declared as a code.\<close>

datatype ErrorCode =
    InvalidMessage | UnsupportedVersion | Unauthenticated | Forbidden | PairUnavailable
  | PairFull | PairExpired | PeerOffline | PeerBusy | SessionNotFound | PayloadTooLarge
  | RateLimited | Conflict | Internal | OtherCode string

fun code_string :: "ErrorCode \<Rightarrow> string" where
  "code_string InvalidMessage = ''INVALID_MESSAGE''"
| "code_string UnsupportedVersion = ''UNSUPPORTED_VERSION''"
| "code_string Unauthenticated = ''UNAUTHENTICATED''"
| "code_string Forbidden = ''FORBIDDEN''"
| "code_string PairUnavailable = ''PAIR_UNAVAILABLE''"
| "code_string PairFull = ''PAIR_FULL''"
| "code_string PairExpired = ''PAIR_EXPIRED''"
| "code_string PeerOffline = ''PEER_OFFLINE''"
| "code_string PeerBusy = ''PEER_BUSY''"
| "code_string SessionNotFound = ''SESSION_NOT_FOUND''"
| "code_string PayloadTooLarge = ''PAYLOAD_TOO_LARGE''"
| "code_string RateLimited = ''RATE_LIMITED''"
| "code_string Conflict = ''CONFLICT''"
| "code_string Internal = ''INTERNAL''"
| "code_string (OtherCode s) = s"

definition ErrorCodes :: "ErrorCode list" where
  "ErrorCodes = [InvalidMessage, UnsupportedVersion, Unauthenticated, Forbidden, PairUnavailable,
     PairFull, PairExpired, PeerOffline, PeerBusy, SessionNotFound, PayloadTooLarge,
     RateLimited, Conflict, Internal]"

definition ClientMessageTypes :: "string list" where
  "ClientMessageTypes = [
     ''system.hello'', ''system.ping'', ''pair.create'', ''pair.join'', ''pair.commit'',
     ''pair.cancel'', ''pair.frame'', ''link.get'', ''link.revoke'', ''endpoint.rotate'',
     ''endpoint.revoke'', ''session.open'', ''session.close'', ''session.frame'']"

type_synonym DeviceRole = string

definition Controller :: DeviceRole where
  "Controller = ''controller''"
definition Companion :: DeviceRole where
  "Companion = ''companion''"

lemma roles_distinct [simp]: "Controller \<noteq> Companion" "Companion \<noteq> Controller"
  by (simp_all add: Controller_def Companion_def)

section \<open>JSON and envelopes\<close>

datatype json =
    JNull | JBool bool | JNum string | JInt int | JStr string
  | JArr "json list" | JObj "(string \<times> json) list"

text \<open>The value under a key, as a lookup in a decoded \<^verbatim>\<open>map[string]any\<close> finds it.\<close>

definition jfield :: "string \<Rightarrow> json \<Rightarrow> json option" where
  "jfield k j = (case j of JObj fs \<Rightarrow> map_of fs k | _ \<Rightarrow> None)"

text \<open>
  \<^verbatim>\<open>json.Unmarshal\<close> of a document into the fields of a struct matches keys without regard to case,
  takes them in the order of the document, so that a later one overwrites an earlier one, and leaves
  the field alone on \<^verbatim>\<open>null\<close>; without a key the field keeps Go's zero value, and a value of another kind
  is an error (\<open>None\<close>). \<open>foldName\<close> is the case folding of \<^verbatim>\<open>encoding/json\<close>: besides the ASCII letters, the
  Kelvin sign folds to \<open>k\<close> and the long s to \<open>s\<close>. Struct fields merge the objects of several keys.
\<close>

definition lower_char :: "char \<Rightarrow> char" where
  "lower_char c = (if byte_in 65 90 c then char_of ((of_char c :: nat) + 32) else c)"

definition foldName :: "string \<Rightarrow> string" where
  "foldName s = concat (map (\<lambda>(r, bytes).
     if r = 0x212A then ''k'' else if r = 0x17F then ''s'' else map lower_char bytes) (segments s))"

definition jmatches :: "string \<Rightarrow> json \<Rightarrow> json list" where
  "jmatches k j = (case j of
       JObj fs \<Rightarrow> map snd (filter (\<lambda>(x, v). foldName x = foldName k) fs) | _ \<Rightarrow> [])"

definition jstr :: "string \<Rightarrow> json \<Rightarrow> string option" where
  "jstr k j = foldl (\<lambda>a v. case v of JStr s \<Rightarrow> map_option (\<lambda>_. s) a | JNull \<Rightarrow> a | _ \<Rightarrow> None)
     (Some '''') (jmatches k j)"

definition jint :: "string \<Rightarrow> json \<Rightarrow> int option" where
  "jint k j = foldl (\<lambda>a v. case v of
       JInt i \<Rightarrow> map_option (\<lambda>_. i) a | JNum s \<Rightarrow> Option.bind a (\<lambda>_. ParseInt s) | JNull \<Rightarrow> a | _ \<Rightarrow> None)
     (Some 0) (jmatches k j)"

definition jbool :: "string \<Rightarrow> json \<Rightarrow> bool option" where
  "jbool k j = foldl (\<lambda>a v. case v of JBool b \<Rightarrow> map_option (\<lambda>_. b) a | JNull \<Rightarrow> a | _ \<Rightarrow> None)
     (Some False) (jmatches k j)"

definition jsub :: "string \<Rightarrow> json \<Rightarrow> json option" where
  "jsub k j = map_option JObj (foldl
     (\<lambda>a v. case v of JObj fs \<Rightarrow> map_option (\<lambda>gs. gs @ fs) a | JNull \<Rightarrow> a | _ \<Rightarrow> None)
     (Some []) (jmatches k j))"

text \<open>A map, or a slice of strings: \<^verbatim>\<open>null\<close> empties it.\<close>

definition jmap :: "string \<Rightarrow> json \<Rightarrow> (string \<times> json) list option" where
  "jmap k j = foldl
     (\<lambda>a v. case v of JObj fs \<Rightarrow> map_option (\<lambda>gs. gs @ fs) a | JNull \<Rightarrow> map_option (\<lambda>_. []) a | _ \<Rightarrow> None)
     (Some []) (jmatches k j)"

definition strings_of :: "json list \<Rightarrow> string list option" where
  "strings_of js = (if list_all (\<lambda>v. case v of JStr _ \<Rightarrow> True | JNull \<Rightarrow> True | _ \<Rightarrow> False) js
     then Some (map (\<lambda>v. case v of JStr s \<Rightarrow> s | _ \<Rightarrow> '''') js) else None)"

definition jstrs :: "string \<Rightarrow> json \<Rightarrow> string list option" where
  "jstrs k j = foldl
     (\<lambda>a v. case v of JArr vs \<Rightarrow> Option.bind a (\<lambda>_. strings_of vs) | JNull \<Rightarrow> map_option (\<lambda>_. []) a
        | _ \<Rightarrow> None)
     (Some []) (jmatches k j)"

definition is_struct :: "json \<Rightarrow> bool" where
  "is_struct j = (case j of JObj _ \<Rightarrow> True | JNull \<Rightarrow> True | _ \<Rightarrow> False)"

record Envelope =
  env_Protocol :: string
  env_V :: int
  env_Type :: string
  env_ID :: string
  env_ReplyTo :: string
  env_Body :: json

record ValidationError =
  ve_Code :: ErrorCode
  ve_Message :: string
  ve_Issues :: "string list"

definition validationError :: "ErrorCode \<Rightarrow> string \<Rightarrow> ValidationError" where
  "validationError code message = \<lparr>ve_Code = code, ve_Message = message, ve_Issues = []\<rparr>"

record EndpointCommit =
  ec_EndpointID :: string
  ec_Role :: DeviceRole
  ec_CredentialHash :: string

record RoutingEndpoint =
  re_EndpointID :: string
  re_Role :: DeviceRole

record PairCommitBody =
  pcb_PairID :: string
  pcb_SideID :: string
  pcb_LinkID :: string
  pcb_Self :: EndpointCommit
  pcb_Peer :: RoutingEndpoint

record FrameBody =
  fb_ID :: string
  fb_Seq :: int
  fb_Payload :: string

record PairJoinBody =
  pjb_Locator :: string
  pjb_JoinToken :: string

text \<open>
  \<open>DecodeBody\<close> of an envelope into the body structs that the handlers use. \<open>None\<close> is the error
  that \<^verbatim>\<open>Envelope.DecodeBody\<close> wraps.
\<close>

definition decode_string_body :: "string \<Rightarrow> json \<Rightarrow> string option" where
  "decode_string_body k j = (if is_struct j then jstr k j else None)"

definition decode_PairJoinBody :: "json \<Rightarrow> PairJoinBody option" where
  "decode_PairJoinBody j =
     (if is_struct j then
        case (jstr ''locator'' j, jstr ''joinToken'' j) of
          (Some l, Some t) \<Rightarrow> Some \<lparr>pjb_Locator = l, pjb_JoinToken = t\<rparr>
        | _ \<Rightarrow> None
      else None)"

definition decode_FrameBody :: "string \<Rightarrow> json \<Rightarrow> FrameBody option" where
  "decode_FrameBody idk j =
     (if is_struct j then
        case (jstr idk j, jint ''seq'' j, jstr ''payload'' j) of
          (Some i, Some s, Some p) \<Rightarrow> Some \<lparr>fb_ID = i, fb_Seq = s, fb_Payload = p\<rparr>
        | _ \<Rightarrow> None
      else None)"

definition decode_EndpointCommit :: "json \<Rightarrow> EndpointCommit option" where
  "decode_EndpointCommit j =
     (case (jstr ''endpointId'' j, jstr ''role'' j, jstr ''credentialHash'' j) of
        (Some e, Some r, Some h) \<Rightarrow>
          Some \<lparr>ec_EndpointID = e, ec_Role = r, ec_CredentialHash = h\<rparr>
      | _ \<Rightarrow> None)"

definition decode_RoutingEndpoint :: "json \<Rightarrow> RoutingEndpoint option" where
  "decode_RoutingEndpoint j =
     (case (jstr ''endpointId'' j, jstr ''role'' j) of
        (Some e, Some r) \<Rightarrow> Some \<lparr>re_EndpointID = e, re_Role = r\<rparr>
      | _ \<Rightarrow> None)"

definition decode_PairCommitBody :: "json \<Rightarrow> PairCommitBody option" where
  "decode_PairCommitBody j =
     (if is_struct j then
        case (jstr ''pairId'' j, jstr ''sideId'' j, jstr ''linkId'' j,
              Option.bind (jsub ''self'' j) decode_EndpointCommit,
              Option.bind (jsub ''peer'' j) decode_RoutingEndpoint) of
          (Some p, Some s, Some l, Some a, Some b) \<Rightarrow>
            Some \<lparr>pcb_PairID = p, pcb_SideID = s, pcb_LinkID = l, pcb_Self = a, pcb_Peer = b\<rparr>
        | _ \<Rightarrow> None
      else None)"

section \<open>Identifiers and the authorization header\<close>

definition is_lower_hex :: "char \<Rightarrow> bool" where
  "is_lower_hex c \<longleftrightarrow> c \<in> set ''0123456789abcdef''"

text \<open>The regular expression \<^verbatim>\<open>^[0-9a-f]{8}-[0-9a-f]{4}-[0-9a-f]{4}-[0-9a-f]{4}-[0-9a-f]{12}$\<close>.\<close>

fun match_groups :: "nat list \<Rightarrow> string \<Rightarrow> bool" where
  "match_groups [] s = (s = [])"
| "match_groups [n] s = (length s = n \<and> list_all is_lower_hex s)"
| "match_groups (n # ns) s =
     (length (take n s) = n \<and> list_all is_lower_hex (take n s) \<and>
      (case drop n s of c # rest \<Rightarrow> c = CHR ''-'' \<and> match_groups ns rest | [] \<Rightarrow> False))"

definition uuidPattern :: "string \<Rightarrow> bool" where
  "uuidPattern s = match_groups [8, 4, 4, 4, 12] s"

datatype Scheme = PairingScheme | BearerScheme

record ParsedAuthorization =
  pa_Scheme :: Scheme
  pa_EndpointID :: string
  pa_Secret :: string

text \<open>\<^verbatim>\<open>bearerPattern\<close>: \<^verbatim>\<open>Bearer rd1.\<close>, a UUID, a dot and 43 base64url characters.\<close>

definition bearerPrefix :: string where
  "bearerPrefix = ''Bearer rd1.''"

definition bearerPattern :: "string \<Rightarrow> (string \<times> string) option" where
  "bearerPattern h =
     (let rest = drop (length bearerPrefix) h; uuid = take 36 rest; secret = drop 37 rest in
      if take (length bearerPrefix) h = bearerPrefix \<and> uuidPattern uuid \<and>
         take 1 (drop 36 rest) = ''.'' \<and> length secret = 43 \<and>
         list_all (\<lambda>c. dec_char c \<noteq> None) secret
      then Some (uuid, secret) else None)"

definition ParseAuthorization :: "string \<Rightarrow> ValidationError + ParsedAuthorization" where
  "ParseAuthorization header =
     (let bad = Inl (validationError Unauthenticated ''Authorization header is missing or invalid'') in
      if header = PairingAuthorization
      then Inr \<lparr>pa_Scheme = PairingScheme, pa_EndpointID = '''', pa_Secret = ''''\<rparr>
      else case bearerPattern header of
             None \<Rightarrow> bad
           | Some (uuid, text) \<Rightarrow>
               (case canonicalBase64URL text of
                  None \<Rightarrow> bad
                | Some secret \<Rightarrow>
                    if length secret \<noteq> 32 then bad
                    else Inr \<lparr>pa_Scheme = BearerScheme, pa_EndpointID = uuid, pa_Secret = text\<rparr>))"

section \<open>Hashes and prologues\<close>

definition JoinTokenHash :: "(string \<Rightarrow> string) \<Rightarrow> string \<Rightarrow> ValidationError + string" where
  "JoinTokenHash sha joinToken =
     (case canonicalBase64URL joinToken of
        None \<Rightarrow> Inl (validationError InvalidMessage ''Join token must be 32 canonical base64url bytes'')
      | Some token \<Rightarrow>
          if length token \<noteq> 32
          then Inl (validationError InvalidMessage ''Join token must be 32 canonical base64url bytes'')
          else Inr (b64_encode (sha token)))"

definition NoiseKeyFingerprint :: "(string \<Rightarrow> string) \<Rightarrow> string \<Rightarrow> ValidationError + string" where
  "NoiseKeyFingerprint sha noiseKey =
     (case canonicalBase64URL noiseKey of
        None \<Rightarrow> Inl (validationError InvalidMessage
                   ''Noise public key must be 32 canonical base64url bytes'')
      | Some key \<Rightarrow>
          if length key \<noteq> 32
          then Inl (validationError InvalidMessage
                   ''Noise public key must be 32 canonical base64url bytes'')
          else Inr (''sha256:'' @ b64_encode (sha key)))"

definition newline :: string where
  "newline = [CHR 0x0A]"

definition SessionNoisePrologue :: "string \<Rightarrow> string \<Rightarrow> ValidationError + string" where
  "SessionNoisePrologue linkID sessionID =
     (if \<not> uuidPattern linkID \<or> \<not> uuidPattern sessionID
      then Inl (validationError InvalidMessage ''Noise prologue IDs must be lowercase UUIDs'')
      else Inr (SessionNoisePrefix @ newline @ linkID @ newline @ sessionID))"

text \<open>The fields of a \<^verbatim>\<open>url.URL\<close> that \<^verbatim>\<open>validRelayURL\<close> reads.\<close>

record URL =
  u_Scheme :: string
  u_Host :: string
  u_HasUser :: bool
  u_ForceQuery :: bool
  u_RawQuery :: string
  u_Fragment :: string
  u_String :: string

definition validRelayURL :: "(string \<Rightarrow> URL option) \<Rightarrow> string \<Rightarrow> bool" where
  "validRelayURL purl v =
     (case purl v of
        None \<Rightarrow> False
      | Some u \<Rightarrow> u_Scheme u = ''wss'' \<and> u_Host u \<noteq> '''' \<and> \<not> u_HasUser u \<and>
                  u_RawQuery u = '''' \<and> u_Fragment u = '''' \<and> u_String u = v)"

definition PairingNoisePrologue ::
  "(string \<Rightarrow> URL option) \<Rightarrow> string \<Rightarrow> string \<Rightarrow> string \<Rightarrow> string \<Rightarrow> string \<Rightarrow> int \<Rightarrow>
   ValidationError + string" where
  "PairingNoisePrologue purl relayURL pairID creatorSideID joinerSideID linkID expiresAt =
     (if \<not> validRelayURL purl relayURL \<or>
         \<not> uuidPattern pairID \<or> \<not> uuidPattern creatorSideID \<or>
         \<not> uuidPattern joinerSideID \<or> \<not> uuidPattern linkID \<or>
         expiresAt < 0 \<or> expiresAt > 253402300799
      then Inl (validationError InvalidMessage ''Pairing Noise prologue fields are invalid'')
      else Inr (PairingNoisePrefix @ newline @ relayURL @ newline @ pairID @ newline @
                creatorSideID @ newline @ joinerSideID @ newline @ linkID @ newline @
                itoa expiresAt))"

section \<open>Lemmas on identifiers, prologues and headers\<close>

lemma match_groups_chars:
  "match_groups ns s \<Longrightarrow> \<forall>c \<in> set s. is_lower_hex c \<or> c = CHR ''-''"
proof (induction ns s rule: match_groups.induct)
  case (1 s)
  then show ?case by simp
next
  case (2 n s)
  then show ?case by (simp add: list_all_iff)
next
  case (3 n m ns s)
  then obtain c rest where d: "drop n s = c # rest" "c = CHR ''-''"
    and r: "match_groups (m # ns) rest" and t: "list_all is_lower_hex (take n s)"
    by (auto split: list.splits)
  have "set s = set (take n s) \<union> set (drop n s)"
    by (metis append_take_drop_id set_append)
  with "3.IH" [OF d(1) r] d t show ?case
    by (auto simp: list_all_iff)
qed

lemma match_groups_length:
  "match_groups ns s \<Longrightarrow> ns \<noteq> [] \<Longrightarrow> length s = sum_list ns + (length ns - 1)"
proof (induction ns s rule: match_groups.induct)
  case (3 n m ns s)
  then obtain c rest where d: "drop n s = c # rest"
    and r: "match_groups (m # ns) rest" and t: "length (take n s) = n"
    by (auto split: list.splits)
  have "length rest = sum_list (m # ns) + (length (m # ns) - 1)"
    using "3.IH" [OF d r] by blast
  moreover have "length s = length (take n s) + length (drop n s)"
    by (metis append_take_drop_id length_append)
  ultimately show ?case
    unfolding d t by simp
qed simp_all

lemmas [simp del] = match_groups.simps

lemma uuid_length: "uuidPattern s \<Longrightarrow> length s = 36"
  using match_groups_length [of "[8, 4, 4, 4, 12]" s] by (simp add: uuidPattern_def)

lemma uuid_not_Nil: "uuidPattern s \<Longrightarrow> s \<noteq> ''''"
  using uuid_length by fastforce

lemma uuid_no_newline: "uuidPattern s \<Longrightarrow> CHR 0x0A \<notin> set s"
  unfolding uuidPattern_def
  using match_groups_chars [of "[8, 4, 4, 4, 12]" s]
  by (fastforce simp: is_lower_hex_def)

lemma ParseAuthorization_bearer:
  assumes "ParseAuthorization h = Inr a" and "pa_Scheme a = BearerScheme"
  shows "uuidPattern (pa_EndpointID a)"
    and "\<exists>secret. length secret = 32 \<and> pa_Secret a = b64_encode secret \<and>
           h = bearerPrefix @ pa_EndpointID a @ ''.'' @ pa_Secret a"
proof -
  from assms obtain uuid sec key where
    b: "bearerPattern h = Some (uuid, sec)" and
    c: "canonicalBase64URL sec = Some key" "length key = 32" and
    a: "pa_EndpointID a = uuid" "pa_Secret a = sec"
    by (auto simp: ParseAuthorization_def Let_def split: if_splits option.splits)
  define rest where "rest = drop (length bearerPrefix) h"
  from b have u: "uuidPattern uuid" "uuid = take 36 rest" "sec = drop 37 rest"
    "take 1 (drop 36 rest) = ''.''" "take (length bearerPrefix) h = bearerPrefix"
    by (auto simp: bearerPattern_def Let_def rest_def split: if_splits)
  have "rest = take 36 rest @ take 1 (drop 36 rest) @ drop 1 (drop 36 rest)"
    by (metis append_take_drop_id)
  then have "rest = uuid @ ''.'' @ sec"
    using u by simp
  moreover have "h = bearerPrefix @ rest"
    using u(5) rest_def by (metis append_take_drop_id)
  ultimately show "\<exists>secret. length secret = 32 \<and> pa_Secret a = b64_encode secret \<and>
           h = bearerPrefix @ pa_EndpointID a @ ''.'' @ pa_Secret a"
    using c a by (auto simp: canonicalBase64URL_iff)
  show "uuidPattern (pa_EndpointID a)" using u a by simp
qed

end
