(* ===== verification/Dynamo.thy ===== *)
theory Dynamo
  imports Prelude
begin

text \<open>
  The requests that \<^verbatim>\<open>store.go\<close> sends to DynamoDB, as data: rows named by their key, items as
  attribute maps, condition and update expressions as syntax trees (one constructor per form of
  expression string that the store builds), and the writes of a transaction. The functions
  \<open>cond_holds\<close>, \<open>apply_upd\<close> and \<open>apply_writes\<close> give these expressions their documented meaning; the
  service itself stays a parameter (theory \<open>Program\<close>), whose named laws refer to them.
\<close>

section \<open>Rows and items\<close>

text \<open>
  The kinds of rows, by the prefix of their partition key; \<^verbatim>\<open>itemKey\<close> renders the partition key, and
  two different kinds or ids never share one.
\<close>

datatype kind = KConnection | KEndpoint | KPair | KLink | KSession | KRate | KLocator | KJoin

fun kind_prefix :: "kind \<Rightarrow> string" where
  "kind_prefix KConnection = ''CONNECTION''"
| "kind_prefix KEndpoint = ''ENDPOINT''"
| "kind_prefix KPair = ''PAIR''"
| "kind_prefix KLink = ''LINK''"
| "kind_prefix KSession = ''SESSION''"
| "kind_prefix KRate = ''RATE''"
| "kind_prefix KLocator = ''LOCATOR''"
| "kind_prefix KJoin = ''JOIN''"

type_synonym row_key = "kind \<times> string"

fun itemKey :: "row_key \<Rightarrow> string" where
  "itemKey (k, i) = kind_prefix k @ ''#'' @ i"

lemma kind_prefix_no_hash: "CHR ''#'' \<notin> set (kind_prefix k)"
  by (cases k) simp_all

lemma kind_prefix_inj: "kind_prefix j = kind_prefix k \<Longrightarrow> j = k"
  by (cases j; cases k) simp_all

lemma itemKey_inject: "itemKey j = itemKey k \<longleftrightarrow> j = k"
proof
  assume eq: "itemKey j = itemKey k"
  obtain a x b y where jk: "j = (a, x)" "k = (b, y)" by (metis surj_pair)
  with eq have "kind_prefix a @ CHR ''#'' # x = kind_prefix b @ CHR ''#'' # y" by simp
  with append_hash_inj [OF kind_prefix_no_hash kind_prefix_no_hash]
  have "kind_prefix a = kind_prefix b \<and> x = y" .
  then show "j = k" using jk kind_prefix_inj by blast
qed simp

text \<open>The attribute names: the \<^verbatim>\<open>dynamodbav\<close> tags of \<^verbatim>\<open>model.go\<close> and the names the store adds.\<close>

datatype attr =
    A_connectionId | A_authMode | A_endpointId | A_sourceKey | A_pairingId | A_connectedAt
  | A_expiresAt | A_credentialHash | A_role | A_activeSessionId | A_revokedAt | A_createdAt
  | A_updatedAt | A_sideId | A_linkId | A_self | A_peer | A_pairId | A_locator | A_joinTokenHash
  | A_status | A_sideA | A_sideB | A_commitA | A_commitB | A_controllerId | A_companionId
  | A_sessionId | A_controllerConnectionId | A_companionConnectionId | A_closedAt | A_kind | A_count

datatype av = AvS string | AvN int | AvM "(attr \<times> av) list"

type_synonym item = "attr \<Rightarrow> av option"
type_synonym table = "row_key \<Rightarrow> item option"

section \<open>Condition expressions\<close>

text \<open>
  \<open>row_exists\<close> and \<open>row_not_exists\<close> are \<^verbatim>\<open>attribute_exists(pk)\<close> and \<^verbatim>\<open>attribute_not_exists(pk)\<close>: every
  item has its partition key. A path is a list of attribute names (\<^verbatim>\<open>sideA.connectionId\<close>). A comparison
  of an absent attribute is false, except \<^verbatim>\<open><>\<close>, which is true.
\<close>

datatype cond =
    row_exists | row_not_exists
  | attribute_exists "attr list" | attribute_not_exists "attr list"
  | CEq "attr list" av | CNe "attr list" av
  | CLt "attr list" int | CGt "attr list" int
  | CAnd "cond list" | COr "cond list"

fun path_in :: "attr list \<Rightarrow> item \<Rightarrow> av option" where
  "path_in [] i = None"
| "path_in [a] i = i a"
| "path_in (a # p) i = (case i a of Some (AvM m) \<Rightarrow> path_in p (map_of m) | _ \<Rightarrow> None)"

definition attr_at :: "attr list \<Rightarrow> item option \<Rightarrow> av option" where
  "attr_at p r = Option.bind r (path_in p)"

fun cond_holds :: "cond \<Rightarrow> item option \<Rightarrow> bool" where
  "cond_holds row_exists r = (r \<noteq> None)"
| "cond_holds row_not_exists r = (r = None)"
| "cond_holds (attribute_exists p) r = (attr_at p r \<noteq> None)"
| "cond_holds (attribute_not_exists p) r = (attr_at p r = None)"
| "cond_holds (CEq p v) r = (attr_at p r = Some v)"
| "cond_holds (CNe p v) r = (attr_at p r \<noteq> Some v)"
| "cond_holds (CLt p n) r = (case attr_at p r of Some (AvN m) \<Rightarrow> m < n | _ \<Rightarrow> False)"
| "cond_holds (CGt p n) r = (case attr_at p r of Some (AvN m) \<Rightarrow> m > n | _ \<Rightarrow> False)"
| "cond_holds (CAnd cs) r = list_all (\<lambda>c. cond_holds c r) cs"
| "cond_holds (COr cs) r = list_ex (\<lambda>c. cond_holds c r) cs"

section \<open>Update expressions and writes\<close>

datatype upd =
    SET attr av
  | SET_if_not_exists attr av
  | ADD attr int
  | REMOVE attr

fun apply_upd :: "upd \<Rightarrow> item \<Rightarrow> item" where
  "apply_upd (SET a v) i = i(a := Some v)"
| "apply_upd (SET_if_not_exists a v) i = (if i a = None then i(a := Some v) else i)"
| "apply_upd (ADD a n) i =
     i(a := Some (AvN (case i a of Some (AvN m) \<Rightarrow> m + n | _ \<Rightarrow> n)))"
| "apply_upd (REMOVE a) i = i(a := None)"

definition empty_item :: item where
  "empty_item = (\<lambda>_. None)"

definition update_item :: "upd list \<Rightarrow> item option \<Rightarrow> item" where
  "update_item us r = fold apply_upd us (case r of None \<Rightarrow> empty_item | Some i \<Rightarrow> i)"

text \<open>
  The four kinds of a \<^verbatim>\<open>TransactWriteItem\<close>, each with its condition expression (\<open>CAnd []\<close> for none). An
  update of an absent row creates it.
\<close>

datatype twrite =
    Put row_key item cond
  | Update row_key "upd list" cond
  | Delete row_key cond
  | ConditionCheck row_key cond

fun write_key :: "twrite \<Rightarrow> row_key" where
  "write_key (Put k _ _) = k"
| "write_key (Update k _ _) = k"
| "write_key (Delete k _) = k"
| "write_key (ConditionCheck k _) = k"

fun write_cond :: "twrite \<Rightarrow> cond" where
  "write_cond (Put _ _ c) = c"
| "write_cond (Update _ _ c) = c"
| "write_cond (Delete _ c) = c"
| "write_cond (ConditionCheck _ c) = c"

fun apply_write :: "twrite \<Rightarrow> table \<Rightarrow> table" where
  "apply_write (Put k i _) t = t(k := Some i)"
| "apply_write (Update k us _) t = t(k := Some (update_item us (t k)))"
| "apply_write (Delete k _) t = t(k := None)"
| "apply_write (ConditionCheck _ _) t = t"

definition write_ok :: "table \<Rightarrow> twrite \<Rightarrow> bool" where
  "write_ok t w \<longleftrightarrow> cond_holds (write_cond w) (t (write_key w))"

definition writes_ok :: "twrite list \<Rightarrow> table \<Rightarrow> bool" where
  "writes_ok ws t \<longleftrightarrow> distinct (map write_key ws) \<and> list_all (write_ok t) ws"

definition apply_writes :: "twrite list \<Rightarrow> table \<Rightarrow> table" where
  "apply_writes ws t = fold apply_write ws t"

section \<open>Errors of the AWS APIs\<close>

text \<open>
  \<^verbatim>\<open>ConditionalCheckFailedException\<close> and \<^verbatim>\<open>TransactionCanceledException\<close> with its cancellation reasons
  (\<open>None\<close>: a reason without a code), any other API error with its error code, and an error of
  another kind (a broken connection, an undecodable item).
\<close>

datatype api_error =
    ConditionalCheckFailed
  | TransactionCanceled "string option list"
  | ApiError string
  | OtherFailure string

definition reason_code :: "string option \<Rightarrow> string" where
  "reason_code r = (case r of None \<Rightarrow> '''' | Some c \<Rightarrow> c)"

text \<open>The reasons that a cancelled transaction reports: one for each write, in order.\<close>

definition cancellation_reasons :: "twrite list \<Rightarrow> table \<Rightarrow> string option list" where
  "cancellation_reasons ws t =
     map (\<lambda>w. if write_ok t w then Some ''None'' else Some ''ConditionalCheckFailed'') ws"

section \<open>Lemmas on rows and writes\<close>

lemma attr_at_None [simp]: "attr_at p None = None"
  by (simp add: attr_at_def)

lemma attr_at_single [simp]: "attr_at [a] (Some i) = i a"
  by (simp add: attr_at_def)

lemma attr_at_pair [simp]:
  "attr_at [a, b] (Some i) = (case i a of Some (AvM m) \<Rightarrow> map_of m b | _ \<Rightarrow> None)"
  by (simp add: attr_at_def split: option.splits av.splits)

lemma attr_at_Some_row: "attr_at p r = Some v \<Longrightarrow> \<exists>i. r = Some i"
  by (cases r) auto

lemma apply_writes_Nil [simp]: "apply_writes [] t = t"
  by (simp add: apply_writes_def)

lemma apply_writes_Cons [simp]:
  "apply_writes (w # ws) t = apply_writes ws (apply_write w t)"
  by (simp add: apply_writes_def)

lemma apply_writes_append:
  "apply_writes (as @ bs) t = apply_writes bs (apply_writes as t)"
  by (simp add: apply_writes_def)

lemma writes_ok_Nil [simp]: "writes_ok [] t"
  by (simp add: writes_ok_def)

lemma apply_write_other: "write_key w \<noteq> k \<Longrightarrow> apply_write w t k = t k"
  by (cases w) auto

lemma apply_writes_other: "k \<notin> write_key ` set ws \<Longrightarrow> apply_writes ws t k = t k"
  by (induction ws arbitrary: t) (auto simp: apply_write_other)

text \<open>With distinct keys, the row of a write after the transaction is what that write alone makes.\<close>

lemma apply_writes_at:
  assumes "distinct (map write_key ws)" and "w \<in> set ws"
  shows "apply_writes ws t (write_key w) = apply_write w t (write_key w)"
  using assms
proof (induction ws arbitrary: t)
  case Nil
  then show ?case by simp
next
  case (Cons v vs)
  have local: "apply_write w s (write_key w) = apply_write w s' (write_key w)"
    if "s (write_key w) = s' (write_key w)" for s s'
    using that by (cases w) auto
  show ?case
  proof (cases "w = v")
    case True
    with Cons.prems show ?thesis by (simp add: apply_writes_other)
  next
    case False
    with Cons.prems have v: "w \<in> set vs" "write_key v \<noteq> write_key w"
      and d: "distinct (map write_key vs)" by auto
    have "apply_writes vs (apply_write v t) (write_key w) =
        apply_write w (apply_write v t) (write_key w)"
      using Cons.IH [OF d v(1)] .
    also have "\<dots> = apply_write w t (write_key w)"
      by (rule local) (rule apply_write_other [OF v(2)])
    finally show ?thesis by simp
  qed
qed

end
