(* ===== verification/Program.thy ===== *)
theory Program
  imports Protocol Dynamo "HOL-Library.Multiset"
begin

text \<open>
  Programs: the operations of the relay as values that say, call by call, what they ask of the
  services they run on and how they go on with each answer. The calls are those of the
  \<^verbatim>\<open>DynamoAPI\<close> interface of \<^verbatim>\<open>store.go\<close> and of the \<^verbatim>\<open>HandlerDependencies\<close> of \<^verbatim>\<open>handler.go\<close>, and one
  for the order in which Go ranges over a map, which the language leaves open. The services
  are a record of functions (\<open>world\<close>); the locales \<open>dynamo\<close> and \<open>reliable_dynamo\<close> name what the code
  relies on.
\<close>

section \<open>Messages to clients\<close>

record Message =
  m_Protocol :: string
  m_V :: int
  m_Type :: string
  m_ID :: string
  m_ReplyTo :: string
  m_Body :: json

section \<open>Programs\<close>

datatype 'a prog =
    Ret 'a
  | GetItem row_key "api_error + item option \<Rightarrow> 'a prog"
  | UpdateItem twrite "api_error option \<Rightarrow> 'a prog"
  | TransactWriteItems "twrite list" "api_error option \<Rightarrow> 'a prog"
  | Post string Message "api_error option \<Rightarrow> 'a prog"
  | Drop string "api_error option \<Rightarrow> 'a prog"
  | Now "int \<Rightarrow> 'a prog"
  | NewID "string \<Rightarrow> 'a prog"
  | NewLocator "string \<Rightarrow> 'a prog"
  | RangeMap "string list" "string list \<Rightarrow> 'a prog"

primrec bindP :: "'a prog \<Rightarrow> ('a \<Rightarrow> 'b prog) \<Rightarrow> 'b prog" where
  "bindP (Ret x) f = f x"
| "bindP (GetItem k c) f = GetItem k (\<lambda>r. bindP (c r) f)"
| "bindP (UpdateItem w c) f = UpdateItem w (\<lambda>r. bindP (c r) f)"
| "bindP (TransactWriteItems ws c) f = TransactWriteItems ws (\<lambda>r. bindP (c r) f)"
| "bindP (Post i m c) f = Post i m (\<lambda>r. bindP (c r) f)"
| "bindP (Drop i c) f = Drop i (\<lambda>r. bindP (c r) f)"
| "bindP (Now c) f = Now (\<lambda>r. bindP (c r) f)"
| "bindP (NewID c) f = NewID (\<lambda>r. bindP (c r) f)"
| "bindP (NewLocator c) f = NewLocator (\<lambda>r. bindP (c r) f)"
| "bindP (RangeMap xs c) f = RangeMap xs (\<lambda>r. bindP (c r) f)"

text \<open>
  \<open>bindE\<close> goes on with a result and returns an error at once, as \<^verbatim>\<open>if err != nil { return err }\<close> does.
  The loops of the store try up to five times: an attempt asks for another one (\<^verbatim>\<open>continue\<close>) or
  returns, and \<open>tryR\<close> returns an error from within an attempt.
\<close>

definition bindE :: "('e + 'a) prog \<Rightarrow> ('a \<Rightarrow> ('e + 'b) prog) \<Rightarrow> ('e + 'b) prog" where
  "bindE p f = bindP p (\<lambda>r. case r of Inl e \<Rightarrow> Ret (Inl e) | Inr x \<Rightarrow> f x)"

definition okP :: "'a \<Rightarrow> ('e + 'a) prog" where
  "okP x = Ret (Inr x)"

definition failP :: "'e \<Rightarrow> ('e + 'a) prog" where
  "failP e = Ret (Inl e)"

datatype 'a attempt = Continue | Return 'a

primrec retry :: "nat \<Rightarrow> 'a attempt prog \<Rightarrow> 'a prog \<Rightarrow> 'a prog" where
  "retry 0 body exhausted = exhausted"
| "retry (Suc n) body exhausted =
     bindP body (\<lambda>r. case r of Continue \<Rightarrow> retry n body exhausted | Return x \<Rightarrow> Ret x)"

definition tryR :: "('e + 'a) prog \<Rightarrow> ('a \<Rightarrow> ('e + 'b) attempt prog) \<Rightarrow> ('e + 'b) attempt prog" where
  "tryR p f = bindP p (\<lambda>r. case r of Inl e \<Rightarrow> Ret (Return (Inl e)) | Inr x \<Rightarrow> f x)"

lemmas [prog_defs] = bindE_def okP_def failP_def tryR_def

lemma bindP_assoc: "bindP (bindP p f) g = bindP p (\<lambda>x. bindP (f x) g)"
  by (induction p) simp_all

lemma bindP_Ret [simp]: "bindP p Ret = p"
  by (induction p) simp_all

section \<open>The services as a parameter\<close>

record 's world =
  w_get :: "row_key \<Rightarrow> 's \<Rightarrow> (api_error + item option) \<times> 's"
  w_update :: "twrite \<Rightarrow> 's \<Rightarrow> api_error option \<times> 's"
  w_transact :: "twrite list \<Rightarrow> 's \<Rightarrow> api_error option \<times> 's"
  w_post :: "string \<Rightarrow> Message \<Rightarrow> 's \<Rightarrow> api_error option \<times> 's"
  w_drop :: "string \<Rightarrow> 's \<Rightarrow> api_error option \<times> 's"
  w_now :: "'s \<Rightarrow> int \<times> 's"
  w_id :: "'s \<Rightarrow> string \<times> 's"
  w_locator :: "'s \<Rightarrow> string \<times> 's"
  w_range :: "string list \<Rightarrow> 's \<Rightarrow> string list \<times> 's"

text \<open>
  \<open>step1\<close> performs the next call of a program; \<open>run\<close> runs it to its end, which exists because
  a program is finite along every sequence of answers. \<open>pool_run\<close> interleaves several programs
  (concurrent invocations of the Lambda) by an explicit schedule: the list of the indices of
  the programs that move.
\<close>

primrec step1 :: "'s world \<Rightarrow> 'a prog \<Rightarrow> 's \<Rightarrow> 'a prog \<times> 's" where
  "step1 w (Ret x) s = (Ret x, s)"
| "step1 w (GetItem k c) s = (case w_get w k s of (r, s') \<Rightarrow> (c r, s'))"
| "step1 w (UpdateItem u c) s = (case w_update w u s of (r, s') \<Rightarrow> (c r, s'))"
| "step1 w (TransactWriteItems ws c) s = (case w_transact w ws s of (r, s') \<Rightarrow> (c r, s'))"
| "step1 w (Post i m c) s = (case w_post w i m s of (r, s') \<Rightarrow> (c r, s'))"
| "step1 w (Drop i c) s = (case w_drop w i s of (r, s') \<Rightarrow> (c r, s'))"
| "step1 w (Now c) s = (case w_now w s of (r, s') \<Rightarrow> (c r, s'))"
| "step1 w (NewID c) s = (case w_id w s of (r, s') \<Rightarrow> (c r, s'))"
| "step1 w (NewLocator c) s = (case w_locator w s of (r, s') \<Rightarrow> (c r, s'))"
| "step1 w (RangeMap xs c) s = (case w_range w xs s of (r, s') \<Rightarrow> (c r, s'))"

primrec run :: "'s world \<Rightarrow> 'a prog \<Rightarrow> 's \<Rightarrow> 'a \<times> 's" where
  "run w (Ret x) s = (x, s)"
| "run w (GetItem k c) s = (case w_get w k s of (r, s') \<Rightarrow> run w (c r) s')"
| "run w (UpdateItem u c) s = (case w_update w u s of (r, s') \<Rightarrow> run w (c r) s')"
| "run w (TransactWriteItems ws c) s = (case w_transact w ws s of (r, s') \<Rightarrow> run w (c r) s')"
| "run w (Post i m c) s = (case w_post w i m s of (r, s') \<Rightarrow> run w (c r) s')"
| "run w (Drop i c) s = (case w_drop w i s of (r, s') \<Rightarrow> run w (c r) s')"
| "run w (Now c) s = (case w_now w s of (r, s') \<Rightarrow> run w (c r) s')"
| "run w (NewID c) s = (case w_id w s of (r, s') \<Rightarrow> run w (c r) s')"
| "run w (NewLocator c) s = (case w_locator w s of (r, s') \<Rightarrow> run w (c r) s')"
| "run w (RangeMap xs c) s = (case w_range w xs s of (r, s') \<Rightarrow> run w (c r) s')"

fun pool_run :: "'s world \<Rightarrow> nat list \<Rightarrow> 'a prog list \<Rightarrow> 's \<Rightarrow> 'a prog list \<times> 's" where
  "pool_run w [] ps s = (ps, s)"
| "pool_run w (i # is) ps s =
     (if i < length ps
      then case step1 w (ps ! i) s of (p', s') \<Rightarrow> pool_run w is (ps[i := p']) s'
      else pool_run w is ps s)"

lemma run_bindP: "run w (bindP p f) s = (case run w p s of (x, s') \<Rightarrow> run w (f x) s')"
  by (induction p arbitrary: s) (simp_all split: prod.split)

section \<open>What the code relies on\<close>

text \<open>
  \<open>view\<close> is the table as the service holds it. A strongly consistent read returns the row; a
  conditional write either happens, on a table where its conditions hold and no row is named
  twice, or does not; a rejected condition changes nothing. An error of another kind (a
  timeout) leaves open whether the write happened. The other services do not write the table,
  and ranging over a map visits each key once.
\<close>

definition is_rejection :: "api_error \<Rightarrow> bool" where
  "is_rejection e =
     (case e of ConditionalCheckFailed \<Rightarrow> True | TransactionCanceled rs \<Rightarrow> True | _ \<Rightarrow> False)"

locale dynamo =
  fixes w :: "'s world" and view :: "'s \<Rightarrow> table"
  assumes get_ok: "w_get w k s = (Inr i, s') \<Longrightarrow> i = view s k \<and> view s' = view s"
    and get_err: "w_get w k s = (Inl e, s') \<Longrightarrow> view s' = view s"
    and update_ok: "w_update w u s = (None, s') \<Longrightarrow>
          writes_ok [u] (view s) \<and> view s' = apply_writes [u] (view s)"
    and update_rejected: "w_update w u s = (Some ConditionalCheckFailed, s') \<Longrightarrow>
          \<not> write_ok (view s) u \<and> view s' = view s"
    and update_err: "w_update w u s = (Some e, s') \<Longrightarrow>
          view s' = view s \<or> (writes_ok [u] (view s) \<and> view s' = apply_writes [u] (view s))"
    and transact_ok: "w_transact w ws s = (None, s') \<Longrightarrow>
          writes_ok ws (view s) \<and> view s' = apply_writes ws (view s)"
    and transact_cancelled: "w_transact w ws s = (Some (TransactionCanceled rs), s') \<Longrightarrow>
          view s' = view s \<and>
          (\<forall>i < length rs. rs ! i = Some ''ConditionalCheckFailed'' \<longrightarrow>
             i < length ws \<and> \<not> write_ok (view s) (ws ! i))"
    and transact_err: "w_transact w ws s = (Some e, s') \<Longrightarrow>
          view s' = view s \<or> (writes_ok ws (view s) \<and> view s' = apply_writes ws (view s))"
    and update_unchanged: "w_update w u s = (Some e, s') \<Longrightarrow> is_rejection e \<Longrightarrow> view s' = view s"
    and transact_unchanged: "w_transact w ws s = (Some e, s') \<Longrightarrow> is_rejection e \<Longrightarrow>
          view s' = view s"
    and post_view: "w_post w c m s = (r, s') \<Longrightarrow> view s' = view s"
    and drop_view: "w_drop w c s = (r, s') \<Longrightarrow> view s' = view s"
    and now_view: "w_now w s = (n, s') \<Longrightarrow> view s' = view s"
    and id_view: "w_id w s = (x, s') \<Longrightarrow> view s' = view s"
    and locator_view: "w_locator w s = (x, s') \<Longrightarrow> view s' = view s"
    and range_view: "w_range w xs s = (ys, s') \<Longrightarrow> view s' = view s \<and> mset ys = mset xs"

text \<open>A service that answers every request: what remains is decided by the table.\<close>

locale reliable_dynamo = dynamo +
  assumes get_answers: "\<exists>i s'. w_get w k s = (Inr i, s')"
    and update_answers: "\<exists>s'. w_update w u s =
          (if write_ok (view s) u then None else Some ConditionalCheckFailed, s')"
    and transact_answers: "distinct (map write_key ws) \<Longrightarrow> \<exists>s'. w_transact w ws s =
          (if list_all (write_ok (view s)) ws then None
           else Some (TransactionCanceled (cancellation_reasons ws (view s))), s')"

end
