(* ===== verification/RelayModel.thy ===== *)
theory RelayModel
  imports Program
begin

text \<open>
  The records of \<^verbatim>\<open>services/rendezvous-relay/internal/relay/model.go\<close>, how their \<^verbatim>\<open>dynamodbav\<close> tags lay
  them out as items (\<open>omitempty\<close> fields are absent when they hold Go's zero value), the service
  errors, and the check that two pairing commits describe the same link.
\<close>

section \<open>Errors\<close>

record ServiceError =
  se_Code :: ErrorCode
  se_Retryable :: bool
  se_RetryAfterMS :: "int option"

text \<open>
  The Go errors that cross the relay: validation errors, service errors, errors of an API, other
  errors by their text, and \<^verbatim>\<open>errors.Join\<close>. \<open>EUnfinished\<close> is not an error of the source: it is the value
  of a recursion that used up its fuel.
\<close>

datatype err =
    EValidation ValidationError
  | EService ServiceError
  | EApi api_error
  | EText string
  | EJoin err err
  | EUnfinished

definition serviceError :: "ErrorCode \<Rightarrow> err" where
  "serviceError code = EService \<lparr>se_Code = code, se_Retryable = False, se_RetryAfterMS = None\<rparr>"

definition retryableError :: "ErrorCode \<Rightarrow> err" where
  "retryableError code = EService \<lparr>se_Code = code, se_Retryable = True, se_RetryAfterMS = None\<rparr>"

text \<open>\<^verbatim>\<open>errors.As\<close> finds the first error of the wanted type, depth first.\<close>

fun as_service :: "err \<Rightarrow> ServiceError option" where
  "as_service (EService s) = Some s"
| "as_service (EJoin a b) = (case as_service a of Some s \<Rightarrow> Some s | None \<Rightarrow> as_service b)"
| "as_service _ = None"

fun as_validation :: "err \<Rightarrow> ValidationError option" where
  "as_validation (EValidation v) = Some v"
| "as_validation (EJoin a b) =
     (case as_validation a of Some s \<Rightarrow> Some s | None \<Rightarrow> as_validation b)"
| "as_validation _ = None"

fun errs_As :: "(api_error \<Rightarrow> 'b option) \<Rightarrow> err \<Rightarrow> 'b option" where
  "errs_As f (EApi a) = f a"
| "errs_As f (EJoin a b) = (case errs_As f a of Some s \<Rightarrow> Some s | None \<Rightarrow> errs_As f b)"
| "errs_As f _ = None"

definition service_code :: "err \<Rightarrow> ErrorCode option" where
  "service_code e = map_option se_Code (as_service e)"

section \<open>Records\<close>

record Connection =
  c_ConnectionID :: string
  c_AuthMode :: string
  c_EndpointID :: string
  c_SourceKey :: string
  c_PairingID :: string
  c_ConnectedAt :: int
  c_ExpiresAt :: int

record Endpoint =
  e_EndpointID :: string
  e_CredentialHash :: string
  e_Role :: DeviceRole
  e_ConnectionID :: string
  e_ActiveSessionID :: string
  e_RevokedAt :: int
  e_CreatedAt :: int
  e_UpdatedAt :: int

record PairSide =
  ps_ConnectionID :: string
  ps_SideID :: string

record PairIdentity =
  pi_EndpointID :: string
  pi_Role :: DeviceRole

record PairEndpointCommit =
  pe_EndpointID :: string
  pe_Role :: DeviceRole
  pe_CredentialHash :: string

record PairCommit =
  pc_ConnectionID :: string
  pc_SideID :: string
  pc_LinkID :: string
  pc_Self :: PairEndpointCommit
  pc_Peer :: PairIdentity

record Pair =
  p_PairID :: string
  p_Locator :: string
  p_JoinTokenHash :: string
  p_Status :: string
  p_SideA :: PairSide
  p_SideB :: "PairSide option"
  p_CommitA :: "PairCommit option"
  p_CommitB :: "PairCommit option"
  p_ExpiresAt :: int

record Link =
  l_LinkID :: string
  l_ControllerID :: string
  l_CompanionID :: string
  l_Status :: string
  l_ActiveSessionID :: string
  l_CreatedAt :: int
  l_RevokedAt :: int

record Session =
  s_SessionID :: string
  s_LinkID :: string
  s_ControllerID :: string
  s_CompanionID :: string
  s_ControllerConnectionID :: string
  s_CompanionConnectionID :: string
  s_Status :: string
  s_CreatedAt :: int
  s_ExpiresAt :: int
  s_ClosedAt :: int

record pairPointer =
  pp_PairID :: string
  pp_Locator :: string
  pp_JoinTokenHash :: string
  pp_ExpiresAt :: int

record CloseSessionResult =
  csr_Session :: Session
  csr_ClosedNow :: bool

record DisconnectResult =
  dr_Connection :: Connection
  dr_Session :: "CloseSessionResult option"

record RevokeLinkResult =
  rl_Link :: Link
  rl_Session :: "CloseSessionResult option"

record RevokeEndpointResult =
  rv_Endpoint :: Endpoint
  rv_Session :: "CloseSessionResult option"

record CommitPairResult =
  cp_Pair :: Pair
  cp_Link :: "Link option"
  cp_ActivatedNow :: bool

section \<open>Marshalling\<close>

definition omit_s :: "attr \<Rightarrow> string \<Rightarrow> (attr \<times> av) list" where
  "omit_s a s = (if s = '''' then [] else [(a, AvS s)])"

definition omit_n :: "attr \<Rightarrow> int \<Rightarrow> (attr \<times> av) list" where
  "omit_n a n = (if n = 0 then [] else [(a, AvN n)])"

definition omit_p :: "attr \<Rightarrow> ('x \<Rightarrow> av) \<Rightarrow> 'x option \<Rightarrow> (attr \<times> av) list" where
  "omit_p a f x = (case x of None \<Rightarrow> [] | Some v \<Rightarrow> [(a, f v)])"

definition marshal_Connection :: "Connection \<Rightarrow> (attr \<times> av) list" where
  "marshal_Connection c =
     [(A_connectionId, AvS (c_ConnectionID c)), (A_authMode, AvS (c_AuthMode c))] @
     omit_s A_endpointId (c_EndpointID c) @
     [(A_sourceKey, AvS (c_SourceKey c))] @
     omit_s A_pairingId (c_PairingID c) @
     [(A_connectedAt, AvN (c_ConnectedAt c)), (A_expiresAt, AvN (c_ExpiresAt c))]"

definition marshal_PairSide :: "PairSide \<Rightarrow> av" where
  "marshal_PairSide p =
     AvM [(A_connectionId, AvS (ps_ConnectionID p)), (A_sideId, AvS (ps_SideID p))]"

definition marshal_PairCommit :: "PairCommit \<Rightarrow> av" where
  "marshal_PairCommit c =
     AvM [(A_connectionId, AvS (pc_ConnectionID c)), (A_sideId, AvS (pc_SideID c)),
          (A_linkId, AvS (pc_LinkID c)),
          (A_self, AvM [(A_endpointId, AvS (pe_EndpointID (pc_Self c))),
                        (A_role, AvS (pe_Role (pc_Self c))),
                        (A_credentialHash, AvS (pe_CredentialHash (pc_Self c)))]),
          (A_peer, AvM [(A_endpointId, AvS (pi_EndpointID (pc_Peer c))),
                        (A_role, AvS (pi_Role (pc_Peer c)))])]"

definition marshal_Pair :: "Pair \<Rightarrow> (attr \<times> av) list" where
  "marshal_Pair p =
     [(A_pairId, AvS (p_PairID p))] @
     omit_s A_locator (p_Locator p) @ omit_s A_joinTokenHash (p_JoinTokenHash p) @
     [(A_status, AvS (p_Status p)), (A_sideA, marshal_PairSide (p_SideA p))] @
     omit_p A_sideB marshal_PairSide (p_SideB p) @
     omit_p A_commitA marshal_PairCommit (p_CommitA p) @
     omit_p A_commitB marshal_PairCommit (p_CommitB p) @
     [(A_expiresAt, AvN (p_ExpiresAt p))]"

definition marshal_Link :: "Link \<Rightarrow> (attr \<times> av) list" where
  "marshal_Link l =
     [(A_linkId, AvS (l_LinkID l)), (A_controllerId, AvS (l_ControllerID l)),
      (A_companionId, AvS (l_CompanionID l)), (A_status, AvS (l_Status l))] @
     omit_s A_activeSessionId (l_ActiveSessionID l) @
     [(A_createdAt, AvN (l_CreatedAt l))] @ omit_n A_revokedAt (l_RevokedAt l)"

definition marshal_Session :: "Session \<Rightarrow> (attr \<times> av) list" where
  "marshal_Session s =
     [(A_sessionId, AvS (s_SessionID s)), (A_linkId, AvS (s_LinkID s)),
      (A_controllerId, AvS (s_ControllerID s)), (A_companionId, AvS (s_CompanionID s)),
      (A_controllerConnectionId, AvS (s_ControllerConnectionID s)),
      (A_companionConnectionId, AvS (s_CompanionConnectionID s)),
      (A_status, AvS (s_Status s)), (A_createdAt, AvN (s_CreatedAt s)),
      (A_expiresAt, AvN (s_ExpiresAt s))] @ omit_n A_closedAt (s_ClosedAt s)"

definition marshal_pairPointer :: "pairPointer \<Rightarrow> (attr \<times> av) list" where
  "marshal_pairPointer p =
     [(A_pairId, AvS (pp_PairID p))] @ omit_s A_locator (pp_Locator p) @
     omit_s A_joinTokenHash (pp_JoinTokenHash p) @ [(A_expiresAt, AvN (pp_ExpiresAt p))]"

text \<open>\<^verbatim>\<open>marshalItem\<close>: the fields of the record and its kind (the key is the row's name).\<close>

definition marshalItem :: "string \<Rightarrow> (attr \<times> av) list \<Rightarrow> item" where
  "marshalItem kind fs = (map_of fs)(A_kind := Some (AvS kind))"

text \<open>Unmarshalling leaves Go's zero value in a field whose attribute is absent.\<close>

definition get_s :: "item \<Rightarrow> attr \<Rightarrow> string" where
  "get_s i a = (case i a of Some (AvS s) \<Rightarrow> s | _ \<Rightarrow> '''')"

definition get_n :: "item \<Rightarrow> attr \<Rightarrow> int" where
  "get_n i a = (case i a of Some (AvN n) \<Rightarrow> n | _ \<Rightarrow> 0)"

definition get_m :: "item \<Rightarrow> attr \<Rightarrow> item option" where
  "get_m i a = (case i a of Some (AvM m) \<Rightarrow> Some (map_of m) | _ \<Rightarrow> None)"

definition sub_item :: "item \<Rightarrow> attr \<Rightarrow> item" where
  "sub_item i a = (case get_m i a of Some m \<Rightarrow> m | None \<Rightarrow> empty_item)"

definition unmarshal_Connection :: "item \<Rightarrow> Connection" where
  "unmarshal_Connection i =
     \<lparr>c_ConnectionID = get_s i A_connectionId, c_AuthMode = get_s i A_authMode,
      c_EndpointID = get_s i A_endpointId, c_SourceKey = get_s i A_sourceKey,
      c_PairingID = get_s i A_pairingId, c_ConnectedAt = get_n i A_connectedAt,
      c_ExpiresAt = get_n i A_expiresAt\<rparr>"

definition unmarshal_Endpoint :: "item \<Rightarrow> Endpoint" where
  "unmarshal_Endpoint i =
     \<lparr>e_EndpointID = get_s i A_endpointId, e_CredentialHash = get_s i A_credentialHash,
      e_Role = get_s i A_role, e_ConnectionID = get_s i A_connectionId,
      e_ActiveSessionID = get_s i A_activeSessionId, e_RevokedAt = get_n i A_revokedAt,
      e_CreatedAt = get_n i A_createdAt, e_UpdatedAt = get_n i A_updatedAt\<rparr>"

definition unmarshal_PairSide :: "item \<Rightarrow> PairSide" where
  "unmarshal_PairSide i =
     \<lparr>ps_ConnectionID = get_s i A_connectionId, ps_SideID = get_s i A_sideId\<rparr>"

definition unmarshal_PairCommit :: "item \<Rightarrow> PairCommit" where
  "unmarshal_PairCommit i =
     (let slf = sub_item i A_self; peer = sub_item i A_peer in
      \<lparr>pc_ConnectionID = get_s i A_connectionId, pc_SideID = get_s i A_sideId,
       pc_LinkID = get_s i A_linkId,
       pc_Self = \<lparr>pe_EndpointID = get_s slf A_endpointId, pe_Role = get_s slf A_role,
                  pe_CredentialHash = get_s slf A_credentialHash\<rparr>,
       pc_Peer = \<lparr>pi_EndpointID = get_s peer A_endpointId, pi_Role = get_s peer A_role\<rparr>\<rparr>)"

definition unmarshal_Pair :: "item \<Rightarrow> Pair" where
  "unmarshal_Pair i =
     \<lparr>p_PairID = get_s i A_pairId, p_Locator = get_s i A_locator,
      p_JoinTokenHash = get_s i A_joinTokenHash, p_Status = get_s i A_status,
      p_SideA = unmarshal_PairSide (sub_item i A_sideA),
      p_SideB = map_option unmarshal_PairSide (get_m i A_sideB),
      p_CommitA = map_option unmarshal_PairCommit (get_m i A_commitA),
      p_CommitB = map_option unmarshal_PairCommit (get_m i A_commitB),
      p_ExpiresAt = get_n i A_expiresAt\<rparr>"

definition unmarshal_Link :: "item \<Rightarrow> Link" where
  "unmarshal_Link i =
     \<lparr>l_LinkID = get_s i A_linkId, l_ControllerID = get_s i A_controllerId,
      l_CompanionID = get_s i A_companionId, l_Status = get_s i A_status,
      l_ActiveSessionID = get_s i A_activeSessionId, l_CreatedAt = get_n i A_createdAt,
      l_RevokedAt = get_n i A_revokedAt\<rparr>"

definition unmarshal_Session :: "item \<Rightarrow> Session" where
  "unmarshal_Session i =
     \<lparr>s_SessionID = get_s i A_sessionId, s_LinkID = get_s i A_linkId,
      s_ControllerID = get_s i A_controllerId, s_CompanionID = get_s i A_companionId,
      s_ControllerConnectionID = get_s i A_controllerConnectionId,
      s_CompanionConnectionID = get_s i A_companionConnectionId,
      s_Status = get_s i A_status, s_CreatedAt = get_n i A_createdAt,
      s_ExpiresAt = get_n i A_expiresAt, s_ClosedAt = get_n i A_closedAt\<rparr>"

definition unmarshal_pairPointer :: "item \<Rightarrow> pairPointer" where
  "unmarshal_pairPointer i =
     \<lparr>pp_PairID = get_s i A_pairId, pp_Locator = get_s i A_locator,
      pp_JoinTokenHash = get_s i A_joinTokenHash, pp_ExpiresAt = get_n i A_expiresAt\<rparr>"

lemmas marshal_defs = marshal_Connection_def marshal_Pair_def marshal_PairSide_def
  marshal_PairCommit_def marshal_Link_def marshal_Session_def marshal_pairPointer_def
  marshalItem_def omit_s_def omit_n_def omit_p_def

lemmas unmarshal_defs = unmarshal_Connection_def unmarshal_Endpoint_def unmarshal_PairSide_def
  unmarshal_PairCommit_def unmarshal_Pair_def unmarshal_Link_def unmarshal_Session_def
  unmarshal_pairPointer_def get_s_def get_n_def get_m_def sub_item_def Let_def

lemma Connection_roundtrip: "unmarshal_Connection (marshalItem k (marshal_Connection c)) = c"
  by (simp add: marshal_defs unmarshal_defs)

lemma Link_roundtrip: "unmarshal_Link (marshalItem k (marshal_Link l)) = l"
  by (simp add: marshal_defs unmarshal_defs)

lemma Session_roundtrip: "unmarshal_Session (marshalItem k (marshal_Session s)) = s"
  by (simp add: marshal_defs unmarshal_defs)

lemma pairPointer_roundtrip: "unmarshal_pairPointer (marshalItem k (marshal_pairPointer p)) = p"
  by (simp add: marshal_defs unmarshal_defs)

lemma PairSide_roundtrip:
  "i a = Some (marshal_PairSide p) \<Longrightarrow> map_option unmarshal_PairSide (get_m i a) = Some p"
  by (simp add: marshal_defs unmarshal_defs)

lemma PairCommit_roundtrip:
  "i a = Some (marshal_PairCommit p) \<Longrightarrow> map_option unmarshal_PairCommit (get_m i a) = Some p"
  by (simp add: marshal_defs unmarshal_defs)

lemma Pair_roundtrip: "unmarshal_Pair (marshalItem k (marshal_Pair p)) = p"
proof -
  obtain pid loc jth st a b ca cb ex where
    "p = \<lparr>p_PairID = pid, p_Locator = loc, p_JoinTokenHash = jth, p_Status = st, p_SideA = a,
      p_SideB = b, p_CommitA = ca, p_CommitB = cb, p_ExpiresAt = ex\<rparr>"
    by (cases p) auto
  then show ?thesis
    by (cases b; cases ca; cases cb) (simp_all add: marshal_defs unmarshal_defs)
qed

section \<open>Pairing commits and links\<close>

definition SameCommit :: "PairCommit \<Rightarrow> PairCommit \<Rightarrow> bool" where
  "SameCommit a b \<longleftrightarrow> a = b"

definition ReciprocalCommits :: "PairCommit \<Rightarrow> PairCommit \<Rightarrow> bool" where
  "ReciprocalCommits a b \<longleftrightarrow>
     pc_LinkID a = pc_LinkID b \<and>
     pe_EndpointID (pc_Self a) \<noteq> pi_EndpointID (pc_Peer a) \<and>
     pe_EndpointID (pc_Self a) = pi_EndpointID (pc_Peer b) \<and>
     pi_EndpointID (pc_Peer a) = pe_EndpointID (pc_Self b) \<and>
     pe_Role (pc_Self a) = pi_Role (pc_Peer b) \<and>
     pi_Role (pc_Peer a) = pe_Role (pc_Self b) \<and>
     pe_Role (pc_Self a) \<noteq> pi_Role (pc_Peer a)"

definition LinkFromCommits :: "PairCommit \<Rightarrow> PairCommit \<Rightarrow> int \<Rightarrow> err + Link" where
  "LinkFromCommits a b now =
     (if \<not> ReciprocalCommits a b then Inl (serviceError Conflict)
      else
        let (controller, companion) =
          (if pe_Role (pc_Self b) = Controller then (pc_Self b, pc_Self a)
           else (pc_Self a, pc_Self b)) in
        Inr \<lparr>l_LinkID = pc_LinkID a, l_ControllerID = pe_EndpointID controller,
             l_CompanionID = pe_EndpointID companion, l_Status = ''ACTIVE'',
             l_ActiveSessionID = '''', l_CreatedAt = now, l_RevokedAt = 0\<rparr>)"

lemma ReciprocalCommits_sym: "ReciprocalCommits a b \<longleftrightarrow> ReciprocalCommits b a"
  by (auto simp: ReciprocalCommits_def)

lemma LinkFromCommits_InrD:
  assumes "LinkFromCommits a b now = Inr l"
  shows "ReciprocalCommits a b" "l_LinkID l = pc_LinkID a" "l_LinkID l = pc_LinkID b"
    "l_ControllerID l \<noteq> l_CompanionID l" "l_Status l = ''ACTIVE''" "l_ActiveSessionID l = ''''"
    "{l_ControllerID l, l_CompanionID l} = {pe_EndpointID (pc_Self a), pe_EndpointID (pc_Self b)}"
  using assms
  by (auto simp: LinkFromCommits_def ReciprocalCommits_def Let_def split: if_splits)

end
