(* ===== verification/StoreBase.thy ===== *)
theory StoreBase
  imports RelayModel
begin

text \<open>
  The shared part of \<^verbatim>\<open>services/rendezvous-relay/internal/relay/store.go\<close>: reading rows, classifying
  the errors of conditional writes, rate-limit buckets, fences, and the session transition that
  closes a session together with every pointer to it. A method of \<^verbatim>\<open>DynamoStore\<close> is a program; its
  \<^verbatim>\<open>error\<close> result is the left of a sum.
\<close>

section \<open>Rate windows and the store's limit\<close>

definition defaultPairActivationsPerSourceHour :: int where
  "defaultPairActivationsPerSourceHour = 10"
definition pairActivationsPerDay :: int where
  "pairActivationsPerDay = 10000"
definition minuteRateWindowSeconds :: int where
  "minuteRateWindowSeconds = 60"
definition hourlyRateWindowSeconds :: int where
  "hourlyRateWindowSeconds = 60 * 60"
definition dailyRateWindowSeconds :: int where
  "dailyRateWindowSeconds = 24 * 60 * 60"

text \<open>
  \<^verbatim>\<open>NewDynamoStore\<close> keeps the per-source activation limit; \<open>None\<close> is its panic. \<^verbatim>\<open>main\<close> reads the limit
  from the environment (\<open>None\<close>: its error).
\<close>

definition NewDynamoStore :: "int list \<Rightarrow> int option" where
  "NewDynamoStore limits =
     (let limit = (case limits of [l] \<Rightarrow> l | _ \<Rightarrow> defaultPairActivationsPerSourceHour) in
      if length limits > 1 \<or> limit < 1 \<or> limit > pairActivationsPerDay then None
      else Some limit)"

definition pairActivationsPerSourceHour :: "string \<Rightarrow> int option" where
  "pairActivationsPerSourceHour raw =
     (if raw = '''' then Some 10
      else case ParseInt raw of
             None \<Rightarrow> None
           | Some limit \<Rightarrow> if limit < 1 \<or> limit > 10000 then None else Some limit)"

lemma configured_limit_accepted:
  "pairActivationsPerSourceHour raw = Some l \<Longrightarrow> NewDynamoStore [l] = Some l"
  by (auto simp: pairActivationsPerSourceHour_def NewDynamoStore_def pairActivationsPerDay_def
      split: if_splits option.splits)

section \<open>Reading rows\<close>

definition get :: "row_key \<Rightarrow> (err + item option) prog" where
  "get k = GetItem k (\<lambda>r. Ret (case r of Inl e \<Rightarrow> Inl (EApi e) | Inr i \<Rightarrow> Inr i))"

definition get_as :: "(item \<Rightarrow> 'x) \<Rightarrow> row_key \<Rightarrow> (err + 'x option) prog" where
  "get_as f k = bindE (get k) (\<lambda>i. okP (map_option f i))"

definition GetEndpoint :: "string \<Rightarrow> (err + Endpoint option) prog" where
  "GetEndpoint endpointID = get_as unmarshal_Endpoint (KEndpoint, endpointID)"

definition Store_Link :: "string \<Rightarrow> (err + Link option) prog" where
  "Store_Link linkID = get_as unmarshal_Link (KLink, linkID)"

definition currentEndpoint :: "string \<Rightarrow> string \<Rightarrow> (err + Endpoint) prog" where
  "currentEndpoint endpointID connectionID =
     (if endpointID = '''' \<or> connectionID = '''' then failP (serviceError Unauthenticated)
      else bindE (GetEndpoint endpointID) (\<lambda>endpoint.
        case endpoint of
          None \<Rightarrow> failP (serviceError Unauthenticated)
        | Some e \<Rightarrow>
            if e_RevokedAt e \<noteq> 0 \<or> e_ConnectionID e \<noteq> connectionID
            then failP (serviceError Unauthenticated) else okP e))"

definition Store_Connection :: "string \<Rightarrow> int \<Rightarrow> (err + Connection) prog" where
  "Store_Connection connectionID now =
     bindE (get_as unmarshal_Connection (KConnection, connectionID)) (\<lambda>c.
       case c of
         None \<Rightarrow> failP (serviceError Unauthenticated)
       | Some conn \<Rightarrow>
           if c_ExpiresAt conn \<le> now then failP (serviceError Unauthenticated) else okP conn)"

section \<open>Conditional failures\<close>

fun reasons_failed :: "string option list \<Rightarrow> bool \<Rightarrow> bool" where
  "reasons_failed [] found = found"
| "reasons_failed (r # rs) found =
     (if reason_code r = '''' \<or> reason_code r = ''None'' then reasons_failed rs found
      else if reason_code r = ''ConditionalCheckFailed'' then reasons_failed rs True
      else False)"

definition as_conditional :: "api_error \<Rightarrow> unit option" where
  "as_conditional a = (case a of ConditionalCheckFailed \<Rightarrow> Some () | _ \<Rightarrow> None)"

definition as_cancelled :: "api_error \<Rightarrow> string option list option" where
  "as_cancelled a = (case a of TransactionCanceled rs \<Rightarrow> Some rs | _ \<Rightarrow> None)"

text \<open>\<open>None\<close> is the nil error.\<close>

definition conditionalFailure :: "err option \<Rightarrow> bool" where
  "conditionalFailure e =
     (case e of
        None \<Rightarrow> False
      | Some x \<Rightarrow>
          if errs_As as_conditional x \<noteq> None then True
          else case errs_As as_cancelled x of
                 None \<Rightarrow> False
               | Some rs \<Rightarrow> reasons_failed rs False)"

definition transactionConditionalFailureAt :: "err option \<Rightarrow> nat \<Rightarrow> bool" where
  "transactionConditionalFailureAt e index =
     (case Option.bind e (errs_As as_cancelled) of
        None \<Rightarrow> False
      | Some rs \<Rightarrow>
          index < length rs \<and> reason_code (rs ! index) = ''ConditionalCheckFailed'' \<and>
          list_all (\<lambda>r. reason_code r \<in> {'''', ''None'', ''ConditionalCheckFailed''}) rs)"

definition transactP :: "twrite list \<Rightarrow> err option prog" where
  "transactP ws = TransactWriteItems ws (\<lambda>r. Ret (map_option EApi r))"

definition updateP :: "twrite \<Rightarrow> err option prog" where
  "updateP u = UpdateItem u (\<lambda>r. Ret (map_option EApi r))"

text \<open>
  The two ends of an attempt: \<^verbatim>\<open>if conditionalFailure(err) { continue }; return v, err\<close>, for a write and
  for a session transition.
\<close>

definition afterWrite :: "'v \<Rightarrow> err option \<Rightarrow> (err + 'v) attempt prog" where
  "afterWrite v e =
     (if conditionalFailure e then Ret Continue
      else case e of None \<Rightarrow> Ret (Return (Inr v)) | Some x \<Rightarrow> Ret (Return (Inl x)))"

definition afterTransition :: "(bool \<Rightarrow> 'v) \<Rightarrow> err + bool \<Rightarrow> (err + 'v) attempt prog" where
  "afterTransition f r =
     (case r of
        Inl e \<Rightarrow> if conditionalFailure (Some e) then Ret Continue else Ret (Return (Inl e))
      | Inr closed \<Rightarrow> Ret (Return (Inr (f closed))))"

section \<open>Rate limits\<close>

definition rateRow :: "string \<Rightarrow> string \<Rightarrow> int \<Rightarrow> row_key" where
  "rateRow sourceKey action bucket = (KRate, sourceKey @ ''#'' @ action @ ''#'' @ itoa bucket)"

definition rateLimitUpdate :: "string \<Rightarrow> string \<Rightarrow> int \<Rightarrow> int \<Rightarrow> int \<Rightarrow> twrite \<times> int" where
  "rateLimitUpdate sourceKey action limit windowSeconds now =
     (let bucket = go_div now windowSeconds;
          retryAfter = min (((bucket + 1) * windowSeconds - now) * 1000) 3600000 in
      (Update (rateRow sourceKey action bucket)
         [SET A_expiresAt (AvN ((bucket + 2) * windowSeconds)), ADD A_count 1]
         (COr [attribute_not_exists [A_count], CLt [A_count] limit]), retryAfter))"

definition rateLimit :: "string \<Rightarrow> string \<Rightarrow> int \<Rightarrow> int \<Rightarrow> int \<Rightarrow> (err + unit) prog" where
  "rateLimit sourceKey action limit windowSeconds now =
     (let (update, retryAfter) = rateLimitUpdate sourceKey action limit windowSeconds now in
      bindP (updateP update) (\<lambda>e.
        if conditionalFailure e
        then failP (EService \<lparr>se_Code = RateLimited, se_Retryable = True,
                              se_RetryAfterMS = Some retryAfter\<rparr>)
        else case e of None \<Rightarrow> okP () | Some x \<Rightarrow> failP x))"

definition RateLimit :: "string \<Rightarrow> string \<Rightarrow> int \<Rightarrow> int \<Rightarrow> (err + unit) prog" where
  "RateLimit sourceKey action limit now =
     rateLimit sourceKey action limit minuteRateWindowSeconds now"

section \<open>Fences and the session transition\<close>

definition endpointFence :: "string \<Rightarrow> string \<Rightarrow> twrite" where
  "endpointFence endpointID connectionID =
     ConditionCheck (KEndpoint, endpointID)
       (CAnd [CEq [A_connectionId] (AvS connectionID), attribute_not_exists [A_revokedAt]])"

definition closedSession :: "Session \<Rightarrow> int \<Rightarrow> Session" where
  "closedSession session now = session\<lparr>s_Status := ''CLOSED'', s_ClosedAt := now\<rparr>"

text \<open>
  The writes of \<^verbatim>\<open>transactSessionTransition\<close>. A Go map of fences has one entry at most here and is an
  association list; \<open>omit\<close> is the set of rows that the prefix already writes.
\<close>

definition closeWrite :: "string \<Rightarrow> int \<Rightarrow> twrite" where
  "closeWrite sessionID now =
     Update (KSession, sessionID) [SET A_status (AvS ''CLOSED''), SET A_closedAt (AvN now)]
       (CEq [A_status] (AvS ''ACTIVE''))"

definition unlinkWrite :: "string \<Rightarrow> string \<Rightarrow> twrite" where
  "unlinkWrite linkID sessionID =
     Update (KLink, linkID) [REMOVE A_activeSessionId] (CEq [A_activeSessionId] (AvS sessionID))"

definition unpointWrite :: "string \<Rightarrow> string \<Rightarrow> string option \<Rightarrow> twrite" where
  "unpointWrite endpointID sessionID fence =
     Update (KEndpoint, endpointID) [REMOVE A_activeSessionId]
       (case fence of
          None \<Rightarrow> CEq [A_activeSessionId] (AvS sessionID)
        | Some connectionID \<Rightarrow>
            CAnd [CEq [A_activeSessionId] (AvS sessionID),
                  CEq [A_connectionId] (AvS connectionID), attribute_not_exists [A_revokedAt]])"

definition fence_of :: "(string \<times> string) list \<Rightarrow> string \<Rightarrow> string option" where
  "fence_of fences endpointID =
     (case map_of fences endpointID of
        None \<Rightarrow> None
      | Some connectionID \<Rightarrow> if connectionID = '''' then None else Some connectionID)"

fun endpointOps ::
  "string \<Rightarrow> row_key list \<Rightarrow> (string \<times> string) list \<Rightarrow> string list \<Rightarrow>
   (err + (twrite list \<times> string list)) prog" where
  "endpointOps sessionID omit fences [] = okP ([], [])"
| "endpointOps sessionID omit fences (endpointID # rest) =
     (if endpointID = '''' \<or> (KEndpoint, endpointID) \<in> set omit
      then endpointOps sessionID omit fences rest
      else bindE (GetEndpoint endpointID) (\<lambda>endpoint.
        bindE (endpointOps sessionID omit fences rest) (\<lambda>(ops, fenced).
          case endpoint of
            None \<Rightarrow> okP (ops, fenced)
          | Some e \<Rightarrow>
              if e_ActiveSessionID e = sessionID
              then okP (unpointWrite endpointID sessionID (fence_of fences endpointID) # ops,
                        (if fence_of fences endpointID \<noteq> None then endpointID # fenced
                         else fenced))
              else okP (ops, fenced))))"

definition fenceOps ::
  "row_key list \<Rightarrow> (string \<times> string) list \<Rightarrow> string list \<Rightarrow> twrite list" where
  "fenceOps omit fences fenced =
     map (\<lambda>(e, c). endpointFence e c)
       (filter (\<lambda>(e, c). \<not> (c = '''' \<or> e \<in> set fenced \<or> (KEndpoint, e) \<in> set omit)) fences)"

definition linkOps :: "Session \<Rightarrow> row_key list \<Rightarrow> (err + twrite list) prog" where
  "linkOps session omit =
     (if (KLink, s_LinkID session) \<in> set omit then okP []
      else bindE (Store_Link (s_LinkID session)) (\<lambda>link.
        okP (case link of
               None \<Rightarrow> []
             | Some l \<Rightarrow>
                 if l_ActiveSessionID l = s_SessionID session
                 then [unlinkWrite (s_LinkID session) (s_SessionID session)] else [])))"

definition transactSessionTransition ::
  "Session \<Rightarrow> int \<Rightarrow> twrite list \<Rightarrow> row_key list \<Rightarrow> (string \<times> string) list \<Rightarrow> (err + bool) prog"
where
  "transactSessionTransition session now prefix omit fences =
     (let closing = (s_Status session = ''ACTIVE'');
          close = (if closing then [closeWrite (s_SessionID session) now] else []) in
      bindE (linkOps session omit) (\<lambda>lops.
      bindE (endpointOps (s_SessionID session) omit fences
               [s_ControllerID session, s_CompanionID session]) (\<lambda>(eops, fenced).
        let operations = prefix @ close @ lops @ eops @ fenceOps omit fences fenced in
        if operations = [] then okP False
        else bindP (transactP operations) (\<lambda>e.
               case e of None \<Rightarrow> okP closing | Some x \<Rightarrow> failP x))))"

section \<open>Closing a session\<close>

definition CloseSession_attempt ::
  "string \<Rightarrow> string \<Rightarrow> string \<Rightarrow> int \<Rightarrow> (err + CloseSessionResult option) attempt prog" where
  "CloseSession_attempt sessionID endpointID connectionID now =
     tryR (if endpointID \<noteq> ''''
           then bindE (currentEndpoint endpointID connectionID) (\<lambda>_. okP ())
           else if connectionID \<noteq> '''' then failP (serviceError Unauthenticated) else okP ())
     (\<lambda>_. tryR (get_as unmarshal_Session (KSession, sessionID)) (\<lambda>found.
        case found of
          None \<Rightarrow> Ret (Return (Inr None))
        | Some session \<Rightarrow>
            if endpointID \<noteq> '''' \<and> s_ControllerID session \<noteq> endpointID \<and>
               s_CompanionID session \<noteq> endpointID
            then Ret (Return (Inl (serviceError Forbidden)))
            else
              bindP (transactSessionTransition session now [] []
                       (if endpointID \<noteq> '''' then [(endpointID, connectionID)] else []))
                (afterTransition (\<lambda>closed. Some
                   \<lparr>csr_Session = (if closed then closedSession session now else session),
                    csr_ClosedNow = closed\<rparr>))))"

definition CloseSession ::
  "string \<Rightarrow> string \<Rightarrow> string \<Rightarrow> int \<Rightarrow> (err + CloseSessionResult option) prog" where
  "CloseSession sessionID endpointID connectionID now =
     retry 5 (CloseSession_attempt sessionID endpointID connectionID now)
       (failP (retryableError Conflict))"

text \<open>\<^verbatim>\<open>clearIfEqual\<close>: a failed condition is no error.\<close>

definition clearIfEqual :: "row_key \<Rightarrow> attr \<Rightarrow> string \<Rightarrow> (err + unit) prog" where
  "clearIfEqual k field expected =
     bindP (updateP (Update k [REMOVE field] (CEq [field] (AvS expected)))) (\<lambda>e.
       if conditionalFailure e then okP ()
       else case e of None \<Rightarrow> okP () | Some x \<Rightarrow> failP x)"

end
