(* ===== verification/StoreConnections.thy ===== *)
theory StoreConnections
  imports StoreBase
begin

text \<open>
  Connecting and disconnecting sockets: \<^verbatim>\<open>Connect\<close> and \<^verbatim>\<open>Disconnect\<close> of \<^verbatim>\<open>store.go\<close>. Both run
  as up to five optimistic attempts that read, then write under conditions that what was read
  still holds.
\<close>

section \<open>Connect\<close>

definition connectPut :: "Connection \<Rightarrow> twrite" where
  "connectPut connection =
     Put (KConnection, c_ConnectionID connection)
       (marshalItem ''connection'' (marshal_Connection connection)) row_not_exists"

definition connectEndpointWrite :: "Connection \<Rightarrow> string \<Rightarrow> Endpoint \<Rightarrow> twrite" where
  "connectEndpointWrite connection credentialHash endpoint =
     Update (KEndpoint, c_EndpointID connection)
       ([SET A_connectionId (AvS (c_ConnectionID connection)),
         SET A_updatedAt (AvN (c_ConnectedAt connection))] @
        (if e_ActiveSessionID endpoint \<noteq> '''' then [REMOVE A_activeSessionId] else []))
       (CAnd [row_exists, attribute_not_exists [A_revokedAt],
              CEq [A_credentialHash] (AvS credentialHash),
              (if e_ConnectionID endpoint \<noteq> ''''
               then CEq [A_connectionId] (AvS (e_ConnectionID endpoint))
               else attribute_not_exists [A_connectionId]),
              (if e_ActiveSessionID endpoint \<noteq> ''''
               then CEq [A_activeSessionId] (AvS (e_ActiveSessionID endpoint))
               else attribute_not_exists [A_activeSessionId])])"

definition connectOps :: "Connection \<Rightarrow> string \<Rightarrow> Endpoint \<Rightarrow> bool \<Rightarrow> twrite list" where
  "connectOps connection credentialHash endpoint sameConnection =
     (if \<not> sameConnection then [connectPut connection] else []) @
     [connectEndpointWrite connection credentialHash endpoint] @
     (if e_ConnectionID endpoint \<noteq> '''' \<and> e_ConnectionID endpoint \<noteq> c_ConnectionID connection
      then [Delete (KConnection, e_ConnectionID endpoint) (CAnd [])] else [])"

definition connectCommit ::
  "Connection \<Rightarrow> string \<Rightarrow> Endpoint \<Rightarrow> bool \<Rightarrow> Session option \<Rightarrow>
   (err + CloseSessionResult option) attempt prog" where
  "connectCommit connection credentialHash endpoint sameConnection session =
     (let operations = connectOps connection credentialHash endpoint sameConnection in
      case session of
        Some sess \<Rightarrow>
          if e_ActiveSessionID endpoint \<noteq> '''' \<and>
             (s_ControllerID sess = e_EndpointID endpoint \<or>
              s_CompanionID sess = e_EndpointID endpoint)
          then bindP (transactSessionTransition sess (c_ConnectedAt connection) operations
                        [(KEndpoint, e_EndpointID endpoint)] [])
                 (afterTransition (\<lambda>closed.
                    if closed
                    then Some \<lparr>csr_Session = closedSession sess (c_ConnectedAt connection),
                               csr_ClosedNow = True\<rparr>
                    else None))
          else bindP (transactP operations) (afterWrite None)
      | None \<Rightarrow> bindP (transactP operations) (afterWrite None))"

definition ownsSession :: "Session \<Rightarrow> Endpoint \<Rightarrow> Connection \<Rightarrow> bool" where
  "ownsSession session endpoint connection \<longleftrightarrow>
     s_ControllerID session = e_EndpointID endpoint \<and>
     s_ControllerConnectionID session = c_ConnectionID connection \<or>
     s_CompanionID session = e_EndpointID endpoint \<and>
     s_CompanionConnectionID session = c_ConnectionID connection"

definition sameConnectionRow :: "Connection \<Rightarrow> Endpoint \<Rightarrow> (err + bool) prog" where
  "sameConnectionRow connection endpoint =
     (if e_ConnectionID endpoint = c_ConnectionID connection
      then bindE (get_as unmarshal_Connection (KConnection, c_ConnectionID connection)) (\<lambda>existing.
        okP (case existing of
               None \<Rightarrow> False
             | Some x \<Rightarrow> c_AuthMode x = c_AuthMode connection \<and>
                         c_EndpointID x = c_EndpointID connection))
      else okP False)"

definition Connect_attempt ::
  "Connection \<Rightarrow> string \<Rightarrow> (err + CloseSessionResult option) attempt prog" where
  "Connect_attempt connection credentialHash =
     tryR (GetEndpoint (c_EndpointID connection)) (\<lambda>found.
       case found of
         None \<Rightarrow> Ret (Return (Inl (serviceError Unauthenticated)))
       | Some endpoint \<Rightarrow>
           if e_RevokedAt endpoint \<noteq> 0 \<or> e_CredentialHash endpoint \<noteq> credentialHash
           then Ret (Return (Inl (serviceError Unauthenticated)))
           else
             tryR (sameConnectionRow connection endpoint) (\<lambda>sameConnection.
               if e_ActiveSessionID endpoint \<noteq> '''' then
                 tryR (get_as unmarshal_Session (KSession, e_ActiveSessionID endpoint)) (\<lambda>session.
                   case session of
                     Some sess \<Rightarrow>
                       if sameConnection \<and> s_Status sess = ''ACTIVE'' \<and>
                          ownsSession sess endpoint connection
                       then Ret (Return (Inr None))
                       else connectCommit connection credentialHash endpoint sameConnection session
                   | None \<Rightarrow>
                       connectCommit connection credentialHash endpoint sameConnection session)
               else if sameConnection then Ret (Return (Inr None))
               else connectCommit connection credentialHash endpoint sameConnection None))"

definition Connect :: "Connection \<Rightarrow> string \<Rightarrow> (err + CloseSessionResult option) prog" where
  "Connect connection credentialHash =
     (if c_AuthMode connection = ''endpoint'' \<and>
         (c_EndpointID connection = '''' \<or> credentialHash = '''') \<or>
         c_AuthMode connection = ''pairing'' \<and> c_EndpointID connection \<noteq> ''''
      then failP (serviceError Unauthenticated)
      else if c_EndpointID connection = '''' then
        bindP (transactP [connectPut connection]) (\<lambda>e.
          if conditionalFailure e then failP (serviceError Unauthenticated)
          else case e of None \<Rightarrow> okP None | Some x \<Rightarrow> failP x)
      else retry 5 (Connect_attempt connection credentialHash) (failP (retryableError Conflict)))"

section \<open>Disconnect\<close>

definition deleteConnection :: "string \<Rightarrow> twrite" where
  "deleteConnection connectionID = Delete (KConnection, connectionID) row_exists"

definition pairMember :: "Pair \<Rightarrow> string \<Rightarrow> bool" where
  "pairMember pair connectionID \<longleftrightarrow>
     ps_ConnectionID (p_SideA pair) = connectionID \<or>
     (case p_SideB pair of None \<Rightarrow> False | Some b \<Rightarrow> ps_ConnectionID b = connectionID)"

definition closePairWrite :: "string \<Rightarrow> string \<Rightarrow> twrite" where
  "closePairWrite pairID connectionID =
     Update (KPair, pairID) [SET A_status (AvS ''CLOSED'')]
       (CAnd [CNe [A_status] (AvS ''ACTIVE''),
              COr [CEq [A_sideA, A_connectionId] (AvS connectionID),
                   CEq [A_sideB, A_connectionId] (AvS connectionID)]])"

definition disconnectPairing :: "Connection \<Rightarrow> string \<Rightarrow> (err + twrite list) prog" where
  "disconnectPairing connection connectionID =
     (if c_PairingID connection = '''' then okP [deleteConnection connectionID]
      else bindE (get_as unmarshal_Pair (KPair, c_PairingID connection)) (\<lambda>found.
        okP (case found of
               None \<Rightarrow> [deleteConnection connectionID]
             | Some pair \<Rightarrow>
                 if pairMember pair connectionID \<and> p_Status pair \<noteq> ''ACTIVE'' \<and>
                    p_Status pair \<noteq> ''CLOSED''
                 then [deleteConnection connectionID,
                       closePairWrite (c_PairingID connection) connectionID]
                 else [deleteConnection connectionID])))"

definition removeEndpointWrite :: "string \<Rightarrow> string \<Rightarrow> string \<Rightarrow> twrite" where
  "removeEndpointWrite endpointID connectionID activeSessionID =
     Update (KEndpoint, endpointID) [REMOVE A_connectionId, REMOVE A_activeSessionId]
       (CAnd [CEq [A_connectionId] (AvS connectionID),
              (if activeSessionID \<noteq> '''' then CEq [A_activeSessionId] (AvS activeSessionID)
               else attribute_not_exists [A_activeSessionId])])"

definition disconnectEndpoint ::
  "Connection \<Rightarrow> string \<Rightarrow> int \<Rightarrow> Endpoint \<Rightarrow> (err + DisconnectResult option) attempt prog" where
  "disconnectEndpoint connection connectionID now endpoint =
     (let operations = [deleteConnection connectionID,
            removeEndpointWrite (c_EndpointID connection) connectionID (e_ActiveSessionID endpoint)];
          result = \<lparr>dr_Connection = connection, dr_Session = None\<rparr> in
      if e_ActiveSessionID endpoint = ''''
      then bindP (transactP operations) (afterWrite (Some result))
      else tryR (get_as unmarshal_Session (KSession, e_ActiveSessionID endpoint)) (\<lambda>found.
        case found of
          Some session \<Rightarrow>
            if s_ControllerConnectionID session = connectionID \<or>
               s_CompanionConnectionID session = connectionID
            then bindP (transactSessionTransition session now operations
                          [(KEndpoint, c_EndpointID connection)] [])
                   (afterTransition (\<lambda>closed. Some
                      (if closed
                       then result\<lparr>dr_Session := Some
                              \<lparr>csr_Session = closedSession session now, csr_ClosedNow = True\<rparr>\<rparr>
                       else result)))
            else bindP (transactP operations) (afterWrite (Some result))
        | None \<Rightarrow> bindP (transactP operations) (afterWrite (Some result))))"

definition Disconnect_attempt ::
  "string \<Rightarrow> int \<Rightarrow> (err + DisconnectResult option) attempt prog" where
  "Disconnect_attempt connectionID now =
     tryR (get_as unmarshal_Connection (KConnection, connectionID)) (\<lambda>found.
       case found of
         None \<Rightarrow> Ret (Return (Inr None))
       | Some connection \<Rightarrow>
           if c_EndpointID connection = '''' then
             tryR (disconnectPairing connection connectionID) (\<lambda>operations.
               bindP (transactP operations)
                 (afterWrite (Some \<lparr>dr_Connection = connection, dr_Session = None\<rparr>)))
           else
             tryR (GetEndpoint (c_EndpointID connection)) (\<lambda>ep.
               case ep of
                 None \<Rightarrow>
                   bindP (transactP [deleteConnection connectionID])
                     (afterWrite (Some \<lparr>dr_Connection = connection, dr_Session = None\<rparr>))
               | Some endpoint \<Rightarrow>
                   if e_ConnectionID endpoint \<noteq> connectionID
                   then bindP (transactP [deleteConnection connectionID])
                          (afterWrite (Some \<lparr>dr_Connection = connection, dr_Session = None\<rparr>))
                   else disconnectEndpoint connection connectionID now endpoint))"

definition Disconnect :: "string \<Rightarrow> int \<Rightarrow> (err + DisconnectResult option) prog" where
  "Disconnect connectionID now =
     retry 5 (Disconnect_attempt connectionID now) (failP (retryableError Conflict))"

end
