(* ===== verification/StorePairs.thy ===== *)
theory StorePairs
  imports StoreBase
begin

text \<open>
  Pairing records of \<^verbatim>\<open>store.go\<close>: creating a pair with its admission pointer, finding it by locator or
  join token, joining, committing (the second commit activates the link and both endpoints in
  one transaction) and cancelling.
\<close>

section \<open>Creating and finding pairs\<close>

definition assignPairing :: "string \<Rightarrow> string \<Rightarrow> twrite" where
  "assignPairing connectionID pairID =
     Update (KConnection, connectionID) [SET A_pairingId (AvS pairID)]
       (CAnd [CEq [A_authMode] (AvS ''pairing''), attribute_not_exists [A_pairingId]])"

definition pointerRow :: "Pair \<Rightarrow> row_key" where
  "pointerRow pair =
     (if p_JoinTokenHash pair \<noteq> '''' then (KJoin, p_JoinTokenHash pair)
      else (KLocator, p_Locator pair))"

definition pointerItem :: "Pair \<Rightarrow> item" where
  "pointerItem pair =
     marshalItem (if p_JoinTokenHash pair \<noteq> '''' then ''join'' else ''locator'')
       (marshal_pairPointer
          \<lparr>pp_PairID = p_PairID pair, pp_Locator = p_Locator pair,
           pp_JoinTokenHash = p_JoinTokenHash pair, pp_ExpiresAt = p_ExpiresAt pair\<rparr>)"

definition createPairOps :: "Pair \<Rightarrow> twrite list" where
  "createPairOps pair =
     [Put (KPair, p_PairID pair) (marshalItem ''pair'' (marshal_Pair pair)) row_not_exists,
      Put (pointerRow pair) (pointerItem pair) row_not_exists,
      assignPairing (ps_ConnectionID (p_SideA pair)) (p_PairID pair)]"

definition CreatePair :: "Pair \<Rightarrow> (err + unit) prog" where
  "CreatePair pair =
     (if (p_Locator pair = '''') = (p_JoinTokenHash pair = '''')
      then failP (serviceError InvalidMessage)
      else bindP (transactP (createPairOps pair)) (\<lambda>e.
        if conditionalFailure e then failP (retryableError Conflict)
        else case e of None \<Rightarrow> okP () | Some x \<Rightarrow> failP x))"

definition PairByID :: "string \<Rightarrow> int \<Rightarrow> (err + Pair) prog" where
  "PairByID pairID now =
     bindE (get_as unmarshal_Pair (KPair, pairID)) (\<lambda>found.
       case found of
         None \<Rightarrow> failP (serviceError PairExpired)
       | Some pair \<Rightarrow>
           if p_ExpiresAt pair \<le> now then failP (serviceError PairExpired)
           else if p_PairID pair \<noteq> pairID then failP (serviceError PairUnavailable)
           else okP pair)"

definition pairByAdmission :: "kind \<Rightarrow> string \<Rightarrow> int \<Rightarrow> (err + Pair) prog" where
  "pairByAdmission kind val now =
     bindE (get_as unmarshal_pairPointer (kind, val)) (\<lambda>found.
       case found of
         None \<Rightarrow> failP (serviceError PairExpired)
       | Some pointer \<Rightarrow>
           if pp_ExpiresAt pointer \<le> now then failP (serviceError PairExpired)
           else bindE (PairByID (pp_PairID pointer) now) (\<lambda>pair.
             let legacy = (kind = KLocator) in
             if legacy \<and> (pp_Locator pointer \<noteq> val \<or> p_Locator pair \<noteq> val \<or>
                          pp_JoinTokenHash pointer \<noteq> '''' \<or> p_JoinTokenHash pair \<noteq> '''') \<or>
                \<not> legacy \<and> (pp_JoinTokenHash pointer \<noteq> val \<or> p_JoinTokenHash pair \<noteq> val \<or>
                            pp_Locator pointer \<noteq> '''' \<or> p_Locator pair \<noteq> '''')
             then failP (serviceError PairUnavailable) else okP pair))"

definition PairByLocator :: "string \<Rightarrow> int \<Rightarrow> (err + Pair) prog" where
  "PairByLocator locator now = pairByAdmission KLocator locator now"

definition pairByJoinTokenHash :: "string \<Rightarrow> int \<Rightarrow> (err + Pair) prog" where
  "pairByJoinTokenHash joinTokenHash now = pairByAdmission KJoin joinTokenHash now"

section \<open>Joining\<close>

definition joinOps :: "Pair \<Rightarrow> string \<Rightarrow> string \<Rightarrow> PairSide \<Rightarrow> int \<Rightarrow> twrite list" where
  "joinOps pair locator joinTokenHash side now =
     (let (admission, admissionName, otherAdmissionName) =
            (if joinTokenHash \<noteq> '''' then (joinTokenHash, A_joinTokenHash, A_locator)
             else (locator, A_locator, A_joinTokenHash)) in
      [Update (KPair, p_PairID pair)
         [SET A_sideB (marshal_PairSide side), SET A_status (AvS ''READY'')]
         (CAnd [CEq [A_status] (AvS ''OPEN''), CGt [A_expiresAt] now,
                attribute_not_exists [A_sideB],
                CEq [admissionName] (AvS admission), attribute_not_exists [otherAdmissionName]]),
       assignPairing (ps_ConnectionID side) (p_PairID pair)])"

definition JoinPair :: "string \<Rightarrow> string \<Rightarrow> PairSide \<Rightarrow> int \<Rightarrow> (err + Pair) prog" where
  "JoinPair locator joinTokenHash side now =
     (if (locator = '''') = (joinTokenHash = '''') then failP (serviceError InvalidMessage)
      else bindE (if locator \<noteq> '''' then PairByLocator locator now
                  else pairByJoinTokenHash joinTokenHash now) (\<lambda>pair.
        if p_Status pair \<noteq> ''OPEN'' \<or> p_SideB pair \<noteq> None then failP (serviceError PairFull)
        else bindP (transactP (joinOps pair locator joinTokenHash side now)) (\<lambda>e.
          if conditionalFailure e then failP (serviceError PairFull)
          else case e of
                 None \<Rightarrow> okP (pair\<lparr>p_SideB := Some side, p_Status := ''READY''\<rparr>)
               | Some x \<Rightarrow> failP x)))"

section \<open>Committing\<close>

definition endpointWrite :: "Endpoint \<Rightarrow> twrite" where
  "endpointWrite endpoint =
     Update (KEndpoint, e_EndpointID endpoint)
       [SET_if_not_exists A_endpointId (AvS (e_EndpointID endpoint)),
        SET_if_not_exists A_credentialHash (AvS (e_CredentialHash endpoint)),
        SET_if_not_exists A_role (AvS (e_Role endpoint)),
        SET_if_not_exists A_createdAt (AvN (e_CreatedAt endpoint)),
        SET_if_not_exists A_updatedAt (AvN (e_UpdatedAt endpoint)),
        SET_if_not_exists A_kind (AvS ''endpoint'')]
       (COr [row_not_exists,
             CAnd [CEq [A_credentialHash] (AvS (e_CredentialHash endpoint)),
                   CEq [A_role] (AvS (e_Role endpoint)), attribute_not_exists [A_revokedAt]]])"

definition commitEndpoint :: "PairCommit \<Rightarrow> int \<Rightarrow> Endpoint" where
  "commitEndpoint c now =
     \<lparr>e_EndpointID = pe_EndpointID (pc_Self c), e_CredentialHash = pe_CredentialHash (pc_Self c),
      e_Role = pe_Role (pc_Self c), e_ConnectionID = '''', e_ActiveSessionID = '''',
      e_RevokedAt = 0, e_CreatedAt = now, e_UpdatedAt = now\<rparr>"

datatype Slot = SlotA | SlotB

definition slot_of :: "Pair \<Rightarrow> PairCommit \<Rightarrow> Slot option" where
  "slot_of pair commit =
     (if ps_SideID (p_SideA pair) = pc_SideID commit \<and>
         ps_ConnectionID (p_SideA pair) = pc_ConnectionID commit then Some SlotA
      else case p_SideB pair of
             None \<Rightarrow> None
           | Some b \<Rightarrow>
               if ps_SideID b = pc_SideID commit \<and> ps_ConnectionID b = pc_ConnectionID commit
               then Some SlotB else None)"

fun ownField :: "Slot \<Rightarrow> attr" where
  "ownField SlotA = A_commitA"
| "ownField SlotB = A_commitB"

fun own_commit :: "Slot \<Rightarrow> Pair \<Rightarrow> PairCommit option" where
  "own_commit SlotA p = p_CommitA p"
| "own_commit SlotB p = p_CommitB p"

fun other_commit :: "Slot \<Rightarrow> Pair \<Rightarrow> PairCommit option" where
  "other_commit SlotA p = p_CommitB p"
| "other_commit SlotB p = p_CommitA p"

fun set_commit :: "Slot \<Rightarrow> PairCommit \<Rightarrow> Pair \<Rightarrow> Pair" where
  "set_commit SlotA c p = p\<lparr>p_CommitA := Some c\<rparr>"
| "set_commit SlotB c p = p\<lparr>p_CommitB := Some c\<rparr>"

definition commitWrite :: "string \<Rightarrow> Slot \<Rightarrow> PairCommit \<Rightarrow> string \<Rightarrow> string \<Rightarrow> int \<Rightarrow> twrite" where
  "commitWrite pairID slot commit expected next now =
     Update (KPair, pairID)
       [SET (ownField slot) (marshal_PairCommit commit), SET A_status (AvS next)]
       (CAnd [CEq [A_status] (AvS expected), CGt [A_expiresAt] now,
              attribute_not_exists [ownField slot]])"

definition activationOps ::
  "int \<Rightarrow> Pair \<Rightarrow> Slot \<Rightarrow> PairCommit \<Rightarrow> PairCommit \<Rightarrow> PairCommit \<Rightarrow> Link \<Rightarrow> string \<Rightarrow> int \<Rightarrow> twrite list"
where
  "activationOps limit pair slot commit first second link sourceKey now =
     [commitWrite (p_PairID pair) slot commit ''HALF_COMMITTED'' ''ACTIVE'' now,
      Put (KLink, l_LinkID link) (marshalItem ''link'' (marshal_Link link)) row_not_exists,
      endpointWrite (commitEndpoint first now),
      endpointWrite (commitEndpoint second now),
      fst (rateLimitUpdate sourceKey ''pair.activate'' limit hourlyRateWindowSeconds now),
      fst (rateLimitUpdate ''global'' ''pair.activate'' pairActivationsPerDay
             dailyRateWindowSeconds now)]"

definition rateLimitedError :: "int \<Rightarrow> err" where
  "rateLimitedError retryAfter =
     EService \<lparr>se_Code = RateLimited, se_Retryable = False, se_RetryAfterMS = Some retryAfter\<rparr>"

definition commitFirst :: "Pair \<Rightarrow> Slot \<Rightarrow> PairCommit \<Rightarrow> int \<Rightarrow> (err + CommitPairResult) prog" where
  "commitFirst pair slot commit now =
     bindP (updateP (commitWrite (p_PairID pair) slot commit ''READY'' ''HALF_COMMITTED'' now)) (\<lambda>e.
       if conditionalFailure e then failP (retryableError Conflict)
       else case e of
              Some x \<Rightarrow> failP x
            | None \<Rightarrow> okP
                \<lparr>cp_Pair = (set_commit slot commit pair)\<lparr>p_Status := ''HALF_COMMITTED''\<rparr>,
                 cp_Link = None, cp_ActivatedNow = False\<rparr>)"

text \<open>What \<^verbatim>\<open>CommitPair\<close> returns after the activation transaction, by its error.\<close>

definition afterActivation ::
  "int \<Rightarrow> Pair \<Rightarrow> Slot \<Rightarrow> PairCommit \<Rightarrow> Link \<Rightarrow> string \<Rightarrow> int \<Rightarrow> err option \<Rightarrow> err + CommitPairResult"
where
  "afterActivation limit pair slot commit link sourceKey now e =
     (if transactionConditionalFailureAt e 4
      then Inl (rateLimitedError
             (snd (rateLimitUpdate sourceKey ''pair.activate'' limit hourlyRateWindowSeconds now)))
      else if transactionConditionalFailureAt e 5
      then Inl (rateLimitedError
             (snd (rateLimitUpdate ''global'' ''pair.activate'' pairActivationsPerDay
                     dailyRateWindowSeconds now)))
      else if conditionalFailure e then Inl (retryableError Conflict)
      else case e of
             Some x \<Rightarrow> Inl x
           | None \<Rightarrow> Inr
               \<lparr>cp_Pair = (set_commit slot commit pair)\<lparr>p_Status := ''ACTIVE''\<rparr>,
                cp_Link = Some link, cp_ActivatedNow = True\<rparr>)"

definition commitSecond ::
  "int \<Rightarrow> Pair \<Rightarrow> Slot \<Rightarrow> PairCommit \<Rightarrow> PairCommit \<Rightarrow> string \<Rightarrow> int \<Rightarrow> (err + CommitPairResult) prog"
where
  "commitSecond limit pair slot commit other sourceKey now =
     (let (first, second) = (if slot = SlotA then (commit, other) else (other, commit)) in
      case LinkFromCommits first second now of
        Inl e \<Rightarrow> failP e
      | Inr link \<Rightarrow>
          if sourceKey = '''' then failP (EText ''pair activation source key is required'')
          else
            bindP (transactP (activationOps limit pair slot commit first second link sourceKey now))
              (\<lambda>e. Ret (afterActivation limit pair slot commit link sourceKey now e)))"

definition CommitPair ::
  "int \<Rightarrow> string \<Rightarrow> PairCommit \<Rightarrow> string \<Rightarrow> int \<Rightarrow> (err + CommitPairResult) prog" where
  "CommitPair limit pairID commit sourceKey now =
     bindE (PairByID pairID now) (\<lambda>pair.
       case slot_of pair commit of
         None \<Rightarrow> failP (serviceError Forbidden)
       | Some slot \<Rightarrow>
           (case own_commit slot pair of
              Some own \<Rightarrow>
                if p_Status pair = ''ACTIVE'' \<and> SameCommit own commit
                then bindE (Store_Link (pc_LinkID commit)) (\<lambda>link.
                       okP \<lparr>cp_Pair = pair, cp_Link = link, cp_ActivatedNow = False\<rparr>)
                else if \<not> SameCommit own commit then failP (serviceError Conflict)
                else okP \<lparr>cp_Pair = pair, cp_Link = None, cp_ActivatedNow = False\<rparr>
            | None \<Rightarrow>
                if p_Status pair \<noteq> ''READY'' \<and> p_Status pair \<noteq> ''HALF_COMMITTED''
                then failP (serviceError PairUnavailable)
                else case other_commit slot pair of
                       None \<Rightarrow> commitFirst pair slot commit now
                     | Some other \<Rightarrow> commitSecond limit pair slot commit other sourceKey now))"

section \<open>Cancelling\<close>

definition cancelWrite :: "string \<Rightarrow> twrite" where
  "cancelWrite pairID =
     Update (KPair, pairID) [SET A_status (AvS ''CLOSED'')] (CNe [A_status] (AvS ''ACTIVE''))"

definition pairSideOf :: "Pair \<Rightarrow> string \<Rightarrow> bool" where
  "pairSideOf pair connectionID \<longleftrightarrow>
     ps_ConnectionID (p_SideA pair) = connectionID \<or>
     (case p_SideB pair of None \<Rightarrow> False | Some b \<Rightarrow> ps_ConnectionID b = connectionID)"

definition CancelPair :: "string \<Rightarrow> string \<Rightarrow> int \<Rightarrow> (err + Pair option) prog" where
  "CancelPair pairID connectionID now =
     bindP (PairByID pairID now) (\<lambda>r.
       case r of
         Inl e \<Rightarrow> if service_code e = Some PairExpired then okP None else failP e
       | Inr pair \<Rightarrow>
           if \<not> pairSideOf pair connectionID then failP (serviceError Forbidden)
           else if p_Status pair = ''ACTIVE'' then failP (serviceError Conflict)
           else if p_Status pair = ''CLOSED'' then okP (Some pair)
           else bindP (updateP (cancelWrite (p_PairID pair))) (\<lambda>e.
             if conditionalFailure e then
               bindP (PairByID pairID now) (\<lambda>again.
                 case again of
                   Inr current \<Rightarrow>
                     if p_Status current = ''CLOSED'' then okP (Some current)
                     else failP (serviceError Conflict)
                 | Inl _ \<Rightarrow> failP (serviceError Conflict))
             else case e of
                    Some x \<Rightarrow> failP x
                  | None \<Rightarrow> okP (Some (pair\<lparr>p_Status := ''CLOSED''\<rparr>))))"

end
