(* ===== verification/StoreSessions.thy ===== *)
theory StoreSessions
  imports StoreBase
begin

text \<open>
  Links, endpoints and sessions of \<^verbatim>\<open>store.go\<close>: revoking a link, rotating and revoking an endpoint,
  opening a session (with the repair of stale locks) and reading one.
\<close>

section \<open>Revoking a link\<close>

definition revokeLinkWrite :: "string \<Rightarrow> string \<Rightarrow> int \<Rightarrow> twrite" where
  "revokeLinkWrite linkID activeSessionID now =
     Update (KLink, linkID)
       [SET A_status (AvS ''REVOKED''), SET A_revokedAt (AvN now), REMOVE A_activeSessionId]
       (CAnd [CEq [A_status] (AvS ''ACTIVE''),
              (if activeSessionID \<noteq> '''' then CEq [A_activeSessionId] (AvS activeSessionID)
               else attribute_not_exists [A_activeSessionId])])"

definition dangling_session :: "string \<Rightarrow> Link \<Rightarrow> string \<Rightarrow> Session" where
  "dangling_session sessionID link linkID =
     \<lparr>s_SessionID = sessionID, s_LinkID = linkID, s_ControllerID = l_ControllerID link,
      s_CompanionID = l_CompanionID link, s_ControllerConnectionID = '''',
      s_CompanionConnectionID = '''', s_Status = ''CLOSED'', s_CreatedAt = 0, s_ExpiresAt = 0,
      s_ClosedAt = 0\<rparr>"

definition revokedLink :: "Link \<Rightarrow> int \<Rightarrow> Link" where
  "revokedLink link now =
     link\<lparr>l_Status := ''REVOKED'', l_RevokedAt := now, l_ActiveSessionID := ''''\<rparr>"

definition alreadyRevoked ::
  "string \<Rightarrow> string \<Rightarrow> string \<Rightarrow> int \<Rightarrow> Link \<Rightarrow> (err + RevokeLinkResult) attempt prog" where
  "alreadyRevoked linkID endpointID connectionID now link =
     (if l_ActiveSessionID link = ''''
      then Ret (Return (Inr \<lparr>rl_Link = link, rl_Session = None\<rparr>))
      else tryR (CloseSession (l_ActiveSessionID link) endpointID connectionID now) (\<lambda>closed.
        bindP (clearIfEqual (KLink, linkID) A_activeSessionId (l_ActiveSessionID link)) (\<lambda>_.
          Ret (Return (Inr
            \<lparr>rl_Link = link\<lparr>l_ActiveSessionID := ''''\<rparr>,
             rl_Session = (case closed of
                             Some c \<Rightarrow> if csr_ClosedNow c then Some c else None
                           | None \<Rightarrow> None)\<rparr>)))))"

definition RevokeLink_attempt ::
  "string \<Rightarrow> string \<Rightarrow> string \<Rightarrow> int \<Rightarrow> (err + RevokeLinkResult) attempt prog" where
  "RevokeLink_attempt linkID endpointID connectionID now =
     tryR (currentEndpoint endpointID connectionID) (\<lambda>_.
     tryR (Store_Link linkID) (\<lambda>found.
       case found of
         None \<Rightarrow> Ret (Return (Inl (serviceError Forbidden)))
       | Some link \<Rightarrow>
           if l_ControllerID link \<noteq> endpointID \<and> l_CompanionID link \<noteq> endpointID
           then Ret (Return (Inl (serviceError Forbidden)))
           else if l_Status link = ''REVOKED''
           then alreadyRevoked linkID endpointID connectionID now link
           else if l_ActiveSessionID link = ''''
           then bindP (transactP [revokeLinkWrite linkID (l_ActiveSessionID link) now,
                                  endpointFence endpointID connectionID])
                  (afterWrite \<lparr>rl_Link = revokedLink link now, rl_Session = None\<rparr>)
           else tryR (get_as unmarshal_Session (KSession, l_ActiveSessionID link)) (\<lambda>row.
             let session = (case row of
                   Some s \<Rightarrow> if s_LinkID s \<noteq> linkID
                             then dangling_session (l_ActiveSessionID link) link linkID else s
                 | None \<Rightarrow> dangling_session (l_ActiveSessionID link) link linkID) in
             bindP (transactSessionTransition session now
                      [revokeLinkWrite linkID (l_ActiveSessionID link) now]
                      [(KLink, linkID)] [(endpointID, connectionID)])
               (afterTransition (\<lambda>closed.
                  \<lparr>rl_Link = revokedLink link now,
                   rl_Session = (if closed
                     then Some \<lparr>csr_Session = closedSession session now, csr_ClosedNow = True\<rparr>
                     else None)\<rparr>)))))"

definition RevokeLink ::
  "string \<Rightarrow> string \<Rightarrow> string \<Rightarrow> int \<Rightarrow> (err + RevokeLinkResult) prog" where
  "RevokeLink linkID endpointID connectionID now =
     retry 5 (RevokeLink_attempt linkID endpointID connectionID now)
       (failP (retryableError Conflict))"

section \<open>Endpoints\<close>

definition rotateWrite :: "string \<Rightarrow> string \<Rightarrow> string \<Rightarrow> int \<Rightarrow> twrite" where
  "rotateWrite endpointID connectionID credentialHash now =
     Update (KEndpoint, endpointID)
       [SET A_credentialHash (AvS credentialHash), SET A_updatedAt (AvN now)]
       (CAnd [row_exists, attribute_not_exists [A_revokedAt],
              CEq [A_connectionId] (AvS connectionID)])"

definition RotateEndpoint :: "string \<Rightarrow> string \<Rightarrow> string \<Rightarrow> int \<Rightarrow> (err + unit) prog" where
  "RotateEndpoint endpointID connectionID credentialHash now =
     bindP (updateP (rotateWrite endpointID connectionID credentialHash now)) (\<lambda>e.
       if conditionalFailure e then failP (serviceError Unauthenticated)
       else case e of None \<Rightarrow> okP () | Some x \<Rightarrow> failP x)"

definition revokeEndpointWrite :: "string \<Rightarrow> string \<Rightarrow> string \<Rightarrow> int \<Rightarrow> twrite" where
  "revokeEndpointWrite endpointID connectionID activeSessionID now =
     Update (KEndpoint, endpointID)
       [SET A_revokedAt (AvN now), SET A_updatedAt (AvN now), REMOVE A_connectionId,
        REMOVE A_activeSessionId, REMOVE A_credentialHash]
       (CAnd [attribute_not_exists [A_revokedAt], CEq [A_connectionId] (AvS connectionID),
              (if activeSessionID \<noteq> '''' then CEq [A_activeSessionId] (AvS activeSessionID)
               else attribute_not_exists [A_activeSessionId])])"

definition revokedEndpoint :: "Endpoint \<Rightarrow> int \<Rightarrow> Endpoint" where
  "revokedEndpoint endpoint now =
     endpoint\<lparr>e_CredentialHash := '''', e_ConnectionID := '''', e_ActiveSessionID := '''',
              e_RevokedAt := now, e_UpdatedAt := now\<rparr>"

definition RevokeEndpoint_attempt ::
  "string \<Rightarrow> string \<Rightarrow> int \<Rightarrow> (err + RevokeEndpointResult) attempt prog" where
  "RevokeEndpoint_attempt endpointID connectionID now =
     tryR (currentEndpoint endpointID connectionID) (\<lambda>endpoint.
       let operations =
             [revokeEndpointWrite endpointID connectionID (e_ActiveSessionID endpoint) now,
              Delete (KConnection, connectionID) (CAnd [])];
           result = \<lparr>rv_Endpoint = revokedEndpoint endpoint now, rv_Session = None\<rparr> in
       if e_ActiveSessionID endpoint = ''''
       then bindP (transactP operations) (afterWrite result)
       else tryR (get_as unmarshal_Session (KSession, e_ActiveSessionID endpoint)) (\<lambda>found.
         case found of
           None \<Rightarrow> bindP (transactP operations) (afterWrite result)
         | Some session \<Rightarrow>
             if s_ControllerID session \<noteq> endpointID \<and> s_CompanionID session \<noteq> endpointID
             then bindP (transactP operations) (afterWrite result)
             else bindP (transactSessionTransition session now operations
                           [(KEndpoint, endpointID)] [])
                    (afterTransition (\<lambda>closed.
                       if closed
                       then result\<lparr>rv_Session := Some
                              \<lparr>csr_Session = closedSession session now, csr_ClosedNow = True\<rparr>\<rparr>
                       else result))))"

definition RevokeEndpoint ::
  "string \<Rightarrow> string \<Rightarrow> int \<Rightarrow> (err + RevokeEndpointResult) prog" where
  "RevokeEndpoint endpointID connectionID now =
     retry 5 (RevokeEndpoint_attempt endpointID connectionID now)
       (failP (retryableError Conflict))"

section \<open>Sessions\<close>

definition repairStaleSession :: "string \<Rightarrow> Link \<Rightarrow> int \<Rightarrow> (err + bool) prog" where
  "repairStaleSession sessionID link now =
     bindE (get_as unmarshal_Session (KSession, sessionID)) (\<lambda>found.
       case found of
         Some session \<Rightarrow>
           if s_Status session = ''ACTIVE'' \<and> s_ExpiresAt session > now then okP False
           else bindE (CloseSession sessionID '''' '''' now) (\<lambda>_. okP True)
       | None \<Rightarrow>
           bindP (transactSessionTransition (dangling_session sessionID link (l_LinkID link))
                    now [] [] []) (\<lambda>r.
             case r of
               Inl e \<Rightarrow> if conditionalFailure (Some e) then okP True else failP e
             | Inr _ \<Rightarrow> okP True))"

fun repairAll :: "string list \<Rightarrow> Link \<Rightarrow> int \<Rightarrow> bool \<Rightarrow> (err + bool) prog" where
  "repairAll [] link now repaired = okP repaired"
| "repairAll (staleID # rest) link now repaired =
     bindE (repairStaleSession staleID link now) (\<lambda>fixed.
       if \<not> fixed then failP (retryableError PeerBusy) else repairAll rest link now True)"

definition newSession ::
  "string \<Rightarrow> string \<Rightarrow> string \<Rightarrow> Endpoint \<Rightarrow> Endpoint \<Rightarrow> int \<Rightarrow> Session" where
  "newSession sessionID linkID connectionID controller companion now =
     \<lparr>s_SessionID = sessionID, s_LinkID = linkID, s_ControllerID = e_EndpointID controller,
      s_CompanionID = e_EndpointID companion, s_ControllerConnectionID = connectionID,
      s_CompanionConnectionID = e_ConnectionID companion, s_Status = ''ACTIVE'',
      s_CreatedAt = now, s_ExpiresAt = now + 2 * 60 * 60, s_ClosedAt = 0\<rparr>"

definition lockEndpointWrite :: "string \<Rightarrow> string \<Rightarrow> string \<Rightarrow> twrite" where
  "lockEndpointWrite endpointID connectionID sessionID =
     Update (KEndpoint, endpointID) [SET A_activeSessionId (AvS sessionID)]
       (CAnd [CEq [A_connectionId] (AvS connectionID), attribute_not_exists [A_activeSessionId],
              attribute_not_exists [A_revokedAt]])"

definition openOps :: "Session \<Rightarrow> twrite list" where
  "openOps session =
     [Put (KSession, s_SessionID session)
        (marshalItem ''session'' (marshal_Session session)) row_not_exists,
      Update (KLink, s_LinkID session) [SET A_activeSessionId (AvS (s_SessionID session))]
        (CAnd [CEq [A_status] (AvS ''ACTIVE''), attribute_not_exists [A_activeSessionId]]),
      lockEndpointWrite (s_ControllerID session) (s_ControllerConnectionID session)
        (s_SessionID session),
      lockEndpointWrite (s_CompanionID session) (s_CompanionConnectionID session)
        (s_SessionID session)]"

definition staleLocks :: "Link \<Rightarrow> Endpoint \<Rightarrow> Endpoint \<Rightarrow> string list" where
  "staleLocks link controller companion =
     remdups (filter (\<lambda>x. x \<noteq> '''')
       [l_ActiveSessionID link, e_ActiveSessionID controller, e_ActiveSessionID companion])"

definition openUnlocked ::
  "string \<Rightarrow> string \<Rightarrow> string \<Rightarrow> Link \<Rightarrow> Endpoint \<Rightarrow> Endpoint \<Rightarrow> int \<Rightarrow> (err + Session) attempt prog"
where
  "openUnlocked linkID connectionID sessionID link controller companion now =
     RangeMap (staleLocks link controller companion) (\<lambda>order.
     tryR (repairAll order link now False) (\<lambda>repaired.
       if repaired then Ret Continue
       else if e_RevokedAt controller \<noteq> 0 \<or> e_ConnectionID controller \<noteq> connectionID
       then Ret (Return (Inl (serviceError Unauthenticated)))
       else if e_RevokedAt companion \<noteq> 0 \<or> e_ConnectionID companion = '''' \<or>
               e_ConnectionID companion = connectionID
       then Ret (Return (Inl (retryableError PeerOffline)))
       else
         let session = newSession sessionID linkID connectionID controller companion now in
         bindP (transactP (openOps session)) (afterWrite session)))"

definition OpenSession_attempt ::
  "string \<Rightarrow> string \<Rightarrow> string \<Rightarrow> string \<Rightarrow> int \<Rightarrow> (err + Session) attempt prog" where
  "OpenSession_attempt linkID endpointID connectionID sessionID now =
     tryR (Store_Link linkID) (\<lambda>found.
       case found of
         None \<Rightarrow> Ret (Return (Inl (serviceError Forbidden)))
       | Some link \<Rightarrow>
           if l_Status link \<noteq> ''ACTIVE'' \<or> l_ControllerID link \<noteq> endpointID
           then Ret (Return (Inl (serviceError Forbidden)))
           else
             tryR (GetEndpoint (l_ControllerID link)) (\<lambda>controller.
             tryR (GetEndpoint (l_CompanionID link)) (\<lambda>companion.
               case controller of
                 None \<Rightarrow> Ret (Return (Inl (serviceError Unauthenticated)))
               | Some x \<Rightarrow>
                   (case companion of
                      None \<Rightarrow> Ret (Return (Inl (serviceError Unauthenticated)))
                    | Some y \<Rightarrow>
                        openUnlocked linkID connectionID sessionID link x y now))))"

definition OpenSession ::
  "string \<Rightarrow> string \<Rightarrow> string \<Rightarrow> string \<Rightarrow> int \<Rightarrow> (err + Session) prog" where
  "OpenSession linkID endpointID connectionID sessionID now =
     retry 5 (OpenSession_attempt linkID endpointID connectionID sessionID now)
       (failP (retryableError PeerBusy))"

definition Store_Session :: "string \<Rightarrow> int \<Rightarrow> (err + Session) prog" where
  "Store_Session sessionID now =
     bindE (get_as unmarshal_Session (KSession, sessionID)) (\<lambda>found.
       case found of
         None \<Rightarrow> failP (serviceError SessionNotFound)
       | Some session \<Rightarrow>
           if s_Status session \<noteq> ''ACTIVE'' then failP (serviceError SessionNotFound)
           else if s_ExpiresAt session \<le> now then
             bindE (CloseSession sessionID '''' '''' now)
               (\<lambda>_. failP (serviceError SessionNotFound))
           else okP session)"

end
