(* ===== verification/RelyGuarantee.thy ===== *)
theory RelyGuarantee
  imports Program
begin

text \<open>
  Rely and guarantee for programs. \<open>gs R G p t Q\<close>: whatever the other programs do to the table within
  the rely \<open>R\<close>, every write of \<open>p\<close> that takes place changes the table within the guarantee \<open>G\<close>, and \<open>Q\<close>
  holds of the result when \<open>p\<close> ends. The table moves before each request, a read returns the row of
  that moment or any error, and after a write the program goes on with any answer: a lost
  answer, a timeout of a write that happened, a rejection. Under the laws of \<open>dynamo\<close> a
  pool of such programs keeps the table within \<open>R\<close> for every schedule (\<open>pool_guarantee\<close>).
\<close>

section \<open>The judgement\<close>

type_synonym trel = "table \<Rightarrow> table \<Rightarrow> bool"

primrec gs :: "trel \<Rightarrow> trel \<Rightarrow> 'a prog \<Rightarrow> table \<Rightarrow> ('a \<Rightarrow> table \<Rightarrow> bool) \<Rightarrow> bool" where
  "gs R G (Ret x) t Q = Q x t"
| "gs R G (GetItem k c) t Q =
     (\<forall>t'. R t t' \<longrightarrow> gs R G (c (Inr (t' k))) t' Q \<and> (\<forall>e. gs R G (c (Inl e)) t' Q))"
| "gs R G (UpdateItem u c) t Q =
     (\<forall>t'. R t t' \<longrightarrow>
        (writes_ok [u] t' \<longrightarrow> G t' (apply_writes [u] t')) \<and> (\<forall>r. gs R G (c r) t' Q))"
| "gs R G (TransactWriteItems ws c) t Q =
     (\<forall>t'. R t t' \<longrightarrow>
        (writes_ok ws t' \<longrightarrow> G t' (apply_writes ws t')) \<and> (\<forall>r. gs R G (c r) t' Q))"
| "gs R G (Post i m c) t Q = (\<forall>r. gs R G (c r) t Q)"
| "gs R G (Drop i c) t Q = (\<forall>r. gs R G (c r) t Q)"
| "gs R G (Now c) t Q = (\<forall>n. gs R G (c n) t Q)"
| "gs R G (NewID c) t Q = (\<forall>x. gs R G (c x) t Q)"
| "gs R G (NewLocator c) t Q = (\<forall>x. gs R G (c x) t Q)"
| "gs R G (RangeMap xs c) t Q = (\<forall>ys. mset ys = mset xs \<longrightarrow> gs R G (c ys) t Q)"

lemma gs_mono:
  assumes "gs R G p t Q" and "\<And>x t'. Q x t' \<Longrightarrow> Q' x t'"
  shows "gs R G p t Q'"
  using assms(1) by (induction p arbitrary: t) (auto intro: assms(2))

lemma gs_bindP: "gs R G (bindP p f) t Q \<longleftrightarrow> gs R G p t (\<lambda>x t'. gs R G (f x) t' Q)"
  by (induction p arbitrary: t) simp_all

lemma gs_stable:
  assumes tr: "\<forall>a b c. R a b \<longrightarrow> R b c \<longrightarrow> R a c"
    and Q: "\<forall>x a b. R a b \<longrightarrow> Q x a \<longrightarrow> Q x b"
    and "R t t'" and "gs R G p t Q"
  shows "gs R G p t' Q"
  using assms(3,4)
proof (induction p arbitrary: t t')
  case (Ret x)
  then show ?case using Q by (simp del: split_paired_All)
next
  case (GetItem k c)
  have "R t t''" if "R t' t''" for t'' using tr that GetItem.prems(1) by blast
  then show ?case using GetItem.prems(2) by simp
next
  case (UpdateItem u c)
  have "R t t''" if "R t' t''" for t'' using tr that UpdateItem.prems(1) by blast
  then show ?case using UpdateItem.prems(2) by simp
next
  case (TransactWriteItems ws c)
  have "R t t''" if "R t' t''" for t'' using tr that TransactWriteItems.prems(1) by blast
  then show ?case using TransactWriteItems.prems(2) by simp
qed auto

section \<open>Pools\<close>

context dynamo
begin

lemma step_guarantee:
  assumes R: "\<forall>a. R a a" "\<forall>a b c. R a b \<longrightarrow> R b c \<longrightarrow> R a c"
    and GR: "\<forall>a b. G a b \<longrightarrow> R a b"
    and Q: "\<forall>x a b. R a b \<longrightarrow> Q x a \<longrightarrow> Q x b"
    and p: "gs R G p (view s) Q"
    and step: "step1 w p s = (p', s')"
  shows "R (view s) (view s') \<and> gs R G p' (view s') Q"
proof (cases p)
  case (Ret x)
  then show ?thesis using step p R by simp
next
  case (GetItem k c)
  obtain r where r: "w_get w k s = (r, s')" "p' = c r"
    using step GetItem by (auto split: prod.splits)
  then have "view s' = view s \<and> (\<forall>i. r = Inr i \<longrightarrow> i = view s k)"
    using get_ok get_err by (cases r) auto
  with p GetItem r R(1) show ?thesis by (cases r) auto
next
  case (UpdateItem u c)
  obtain r where r: "w_update w u s = (r, s')" "p' = c r"
    using step UpdateItem by (auto split: prod.splits)
  have c: "gs R G (c r) (view s) Q"
    and g: "writes_ok [u] (view s) \<Longrightarrow> R (view s) (apply_writes [u] (view s))"
    using p UpdateItem R(1) GR by (auto simp del: apply_writes_Cons)
  have "view s' = view s \<or> writes_ok [u] (view s) \<and> view s' = apply_writes [u] (view s)"
    using r update_ok update_err by (cases r) blast+
  then have "R (view s) (view s')" using g R(1) by auto
  with c r show ?thesis using gs_stable [OF R(2) Q] by blast
next
  case (TransactWriteItems ws c)
  obtain r where r: "w_transact w ws s = (r, s')" "p' = c r"
    using step TransactWriteItems by (auto split: prod.splits)
  have c: "gs R G (c r) (view s) Q"
    and g: "writes_ok ws (view s) \<Longrightarrow> R (view s) (apply_writes ws (view s))"
    using p TransactWriteItems R(1) GR by auto
  have "view s' = view s \<or> writes_ok ws (view s) \<and> view s' = apply_writes ws (view s)"
    using r transact_ok transact_err by (cases r) blast+
  then have "R (view s) (view s')" using g R(1) by auto
  with c r show ?thesis using gs_stable [OF R(2) Q] by blast
next
  case (Post i m c)
  then show ?thesis using step p R(1) post_view by (auto split: prod.splits)
next
  case (Drop i c)
  then show ?thesis using step p R(1) drop_view by (auto split: prod.splits)
next
  case (Now c)
  then show ?thesis using step p R(1) now_view by (auto split: prod.splits)
next
  case (NewID c)
  then show ?thesis using step p R(1) id_view by (auto split: prod.splits)
next
  case (NewLocator c)
  then show ?thesis using step p R(1) locator_view by (auto split: prod.splits)
next
  case (RangeMap xs c)
  then show ?thesis using step p R(1) range_view by (auto split: prod.splits)
qed

lemma pool_guarantee:
  assumes R: "\<forall>a. R a a" "\<forall>a b c. R a b \<longrightarrow> R b c \<longrightarrow> R a c"
    and GR: "\<forall>a b. G a b \<longrightarrow> R a b"
    and Q: "\<forall>x a b. R a b \<longrightarrow> Q x a \<longrightarrow> Q x b"
    and ps: "\<And>p. p \<in> set ps \<Longrightarrow> gs R G p (view s) Q"
  shows "R (view s) (view (snd (pool_run w sched ps s))) \<and>
     (\<forall>p \<in> set (fst (pool_run w sched ps s)). gs R G p (view (snd (pool_run w sched ps s))) Q)"
  using ps
proof (induction sched arbitrary: ps s)
  case Nil
  then show ?case using R by simp
next
  case (Cons i sched)
  show ?case
  proof (cases "i < length ps")
    case False
    then show ?thesis using Cons by simp
  next
    case True
    obtain p' s' where step: "step1 w (ps ! i) s = (p', s')" by fastforce
    then have s': "R (view s) (view s')" "gs R G p' (view s') Q"
      using step_guarantee [OF R GR Q _ step] Cons.prems True by auto
    have "gs R G p (view s') Q" if m: "p \<in> set (ps[i := p'])" for p
    proof -
      have "p = p' \<or> p \<in> set ps"
        using m set_update_subset_insert [of ps i p'] by blast
      then show ?thesis
        using s'(2) gs_stable [OF R(2) Q s'(1) Cons.prems] by blast
    qed
    then have "R (view s') (view (snd (pool_run w sched (ps[i := p']) s'))) \<and>
       (\<forall>p \<in> set (fst (pool_run w sched (ps[i := p']) s')).
          gs R G p (view (snd (pool_run w sched (ps[i := p']) s'))) Q)"
      by (rule Cons.IH)
    moreover have "pool_run w (i # sched) ps s = pool_run w sched (ps[i := p']) s'"
      using True step by simp
    ultimately show ?thesis using s'(1) R(2) by metis
  qed
qed

text \<open>The same for a program that runs alone.\<close>

lemma run_guarantee:
  assumes R: "\<forall>a. R a a" "\<forall>a b c. R a b \<longrightarrow> R b c \<longrightarrow> R a c"
    and GR: "\<forall>a b. G a b \<longrightarrow> R a b"
    and Q: "\<forall>x a b. R a b \<longrightarrow> Q x a \<longrightarrow> Q x b"
    and p: "gs R G p (view s) Q" and run: "run w p s = (x, s')"
  shows "R (view s) (view s') \<and> Q x (view s')"
  using p run
proof (induction p arbitrary: s)
  case (Ret y)
  then show ?case using R by simp
next
  case (GetItem k c)
  obtain r s1 where r: "w_get w k s = (r, s1)" by (cases "w_get w k s")
  then have st: "step1 w (GetItem k c) s = (c r, s1)" by simp
  have "run w (c r) s1 = (x, s')" using GetItem.prems(2) r by simp
  with GetItem.IH [OF rangeI] step_guarantee [OF R GR Q GetItem.prems(1) st] R(2) show ?case by blast
next
  case (UpdateItem u c)
  obtain r s1 where r: "w_update w u s = (r, s1)" by (cases "w_update w u s")
  then have st: "step1 w (UpdateItem u c) s = (c r, s1)" by simp
  have "run w (c r) s1 = (x, s')" using UpdateItem.prems(2) r by simp
  with UpdateItem.IH [OF rangeI] step_guarantee [OF R GR Q UpdateItem.prems(1) st] R(2) show ?case by blast
next
  case (TransactWriteItems ws c)
  obtain r s1 where r: "w_transact w ws s = (r, s1)" by (cases "w_transact w ws s")
  then have st: "step1 w (TransactWriteItems ws c) s = (c r, s1)" by simp
  have "run w (c r) s1 = (x, s')" using TransactWriteItems.prems(2) r by simp
  with TransactWriteItems.IH [OF rangeI] step_guarantee [OF R GR Q TransactWriteItems.prems(1) st] R(2) show ?case by blast
next
  case (Post i m c)
  obtain r s1 where r: "w_post w i m s = (r, s1)" by (cases "w_post w i m s")
  then have st: "step1 w (Post i m c) s = (c r, s1)" by simp
  have "run w (c r) s1 = (x, s')" using Post.prems(2) r by simp
  with Post.IH [OF rangeI] step_guarantee [OF R GR Q Post.prems(1) st] R(2) show ?case by blast
next
  case (Drop i c)
  obtain r s1 where r: "w_drop w i s = (r, s1)" by (cases "w_drop w i s")
  then have st: "step1 w (Drop i c) s = (c r, s1)" by simp
  have "run w (c r) s1 = (x, s')" using Drop.prems(2) r by simp
  with Drop.IH [OF rangeI] step_guarantee [OF R GR Q Drop.prems(1) st] R(2) show ?case by blast
next
  case (Now c)
  obtain r s1 where r: "w_now w s = (r, s1)" by (cases "w_now w s")
  then have st: "step1 w (Now c) s = (c r, s1)" by simp
  have "run w (c r) s1 = (x, s')" using Now.prems(2) r by simp
  with Now.IH [OF rangeI] step_guarantee [OF R GR Q Now.prems(1) st] R(2) show ?case by blast
next
  case (NewID c)
  obtain r s1 where r: "w_id w s = (r, s1)" by (cases "w_id w s")
  then have st: "step1 w (NewID c) s = (c r, s1)" by simp
  have "run w (c r) s1 = (x, s')" using NewID.prems(2) r by simp
  with NewID.IH [OF rangeI] step_guarantee [OF R GR Q NewID.prems(1) st] R(2) show ?case by blast
next
  case (NewLocator c)
  obtain r s1 where r: "w_locator w s = (r, s1)" by (cases "w_locator w s")
  then have st: "step1 w (NewLocator c) s = (c r, s1)" by simp
  have "run w (c r) s1 = (x, s')" using NewLocator.prems(2) r by simp
  with NewLocator.IH [OF rangeI] step_guarantee [OF R GR Q NewLocator.prems(1) st] R(2) show ?case by blast
next
  case (RangeMap xs c)
  obtain r s1 where r: "w_range w xs s = (r, s1)" by (cases "w_range w xs s")
  then have st: "step1 w (RangeMap xs c) s = (c r, s1)" by simp
  have "run w (c r) s1 = (x, s')" using RangeMap.prems(2) r by simp
  with RangeMap.IH [OF rangeI] step_guarantee [OF R GR Q RangeMap.prems(1) st] R(2) show ?case by blast
qed

end

end
