(* ===== verification/RelayInv.thy ===== *)
theory RelayInv
  imports StoreConnections StorePairs StoreSessions RelyGuarantee
begin

text \<open>
  What the relay's table promises, whatever requests run concurrently: the form of each kind of
  row, how a row may change over time (\<open>row_mono\<close>), and the consistency of the rows that point at
  each other (\<open>crossInv\<close>). \<open>evolves\<close> is the rely and the guarantee of every operation of the store.
  The rows are taken to stay as long as nobody deletes them: the expiry of rows by DynamoDB's
  time-to-live is outside this invariant.
\<close>

lemmas [simp del] = split_paired_All split_paired_Ex

section \<open>Attributes of rows\<close>

definition at :: "table \<Rightarrow> row_key \<Rightarrow> attr \<Rightarrow> av option" where
  "at t k a = attr_at [a] (t k)"

definition active :: "table \<Rightarrow> string \<Rightarrow> bool" where
  "active t S \<longleftrightarrow> at t (KSession, S) A_status = Some (AvS ''ACTIVE'')"

lemma at_Some: "t k = Some i \<Longrightarrow> at t k a = i a"
  by (simp add: at_def)

lemma at_None: "t k = None \<Longrightarrow> at t k a = None"
  by (simp add: at_def)

lemma at_row: "at t k a = Some v \<Longrightarrow> \<exists>i. t k = Some i \<and> i a = Some v"
  by (cases "t k") (auto simp: at_def)

lemma at_cong: "t k = t' k \<Longrightarrow> at t k a = at t' k a"
  by (simp add: at_def)

lemma active_row: "active t S \<Longrightarrow> \<exists>i. t (KSession, S) = Some i \<and> i A_status = Some (AvS ''ACTIVE'')"
  by (simp add: active_def at_row)

section \<open>The form of each kind of row\<close>

definition session_form :: "string \<Rightarrow> item \<Rightarrow> bool" where
  "session_form S i \<longleftrightarrow>
     i A_sessionId = Some (AvS S) \<and>
     (\<forall>a \<in> {A_linkId, A_controllerId, A_companionId, A_controllerConnectionId,
             A_companionConnectionId}. \<exists>v. i a = Some (AvS v)) \<and>
     i A_controllerId \<noteq> i A_companionId \<and>
     i A_status \<in> {Some (AvS ''ACTIVE''), Some (AvS ''CLOSED'')}"

definition link_form :: "string \<Rightarrow> item \<Rightarrow> bool" where
  "link_form L i \<longleftrightarrow>
     i A_linkId = Some (AvS L) \<and>
     (\<forall>a \<in> {A_controllerId, A_companionId}. \<exists>v. i a = Some (AvS v)) \<and>
     i A_controllerId \<noteq> i A_companionId \<and>
     (i A_status = Some (AvS ''ACTIVE'') \<or>
      i A_status = Some (AvS ''REVOKED'') \<and> i A_activeSessionId = None)"

definition endpoint_form :: "string \<Rightarrow> item \<Rightarrow> bool" where
  "endpoint_form E i \<longleftrightarrow>
     i A_endpointId = Some (AvS E) \<and> (\<exists>v. i A_role = Some (AvS v)) \<and>
     (\<forall>a \<in> {A_createdAt, A_updatedAt, A_kind}. i a \<noteq> None) \<and>
     (i A_revokedAt \<noteq> None \<longrightarrow>
        i A_connectionId = None \<and> i A_activeSessionId = None \<and> i A_credentialHash = None)"

text \<open>
  A pair's commits and second side are present exactly as its status says. A closed pair keeps what
  it had.
\<close>

definition commits_form :: "item \<Rightarrow> bool" where
  "commits_form i \<longleftrightarrow>
     (\<forall>a \<in> {A_commitA, A_commitB}. \<forall>v. i a = Some v \<longrightarrow> (\<exists>c. v = marshal_PairCommit c)) \<and>
     (\<forall>v. i A_sideB = Some v \<longrightarrow> (\<exists>s. v = marshal_PairSide s)) \<and>
     (\<exists>s. i A_sideA = Some (marshal_PairSide s))"

definition pair_status_form :: "item \<Rightarrow> bool" where
  "pair_status_form i \<longleftrightarrow>
     i A_status = Some (AvS ''OPEN'') \<and> i A_sideB = None \<and> i A_commitA = None \<and> i A_commitB = None \<or>
     i A_status = Some (AvS ''READY'') \<and> i A_sideB \<noteq> None \<and> i A_commitA = None \<and> i A_commitB = None \<or>
     i A_status = Some (AvS ''HALF_COMMITTED'') \<and> i A_sideB \<noteq> None \<and>
       (i A_commitA = None) \<noteq> (i A_commitB = None) \<or>
     i A_status = Some (AvS ''ACTIVE'') \<and> i A_sideB \<noteq> None \<and>
       (\<exists>a b. i A_commitA = Some (marshal_PairCommit a) \<and> i A_commitB = Some (marshal_PairCommit b) \<and>
          ReciprocalCommits a b) \<or>
     i A_status = Some (AvS ''CLOSED'')"

definition pair_form :: "string \<Rightarrow> item \<Rightarrow> bool" where
  "pair_form P i \<longleftrightarrow>
     i A_pairId = Some (AvS P) \<and> (\<exists>n. i A_expiresAt = Some (AvN n)) \<and>
     commits_form i \<and> pair_status_form i"

fun row_form :: "row_key \<Rightarrow> item \<Rightarrow> bool" where
  "row_form (KSession, S) i = session_form S i"
| "row_form (KLink, L) i = link_form L i"
| "row_form (KEndpoint, E) i = endpoint_form E i"
| "row_form (KPair, P) i = pair_form P i"
| "row_form _ i = True"

section \<open>How rows change over time\<close>

definition kept :: "attr set \<Rightarrow> item \<Rightarrow> item \<Rightarrow> bool" where
  "kept as i j \<longleftrightarrow> (\<forall>a \<in> as. j a = i a)"

definition once :: "attr set \<Rightarrow> item \<Rightarrow> item \<Rightarrow> bool" where
  "once as i j \<longleftrightarrow> (\<forall>a \<in> as. i a \<noteq> None \<longrightarrow> j a = i a)"

text \<open>
  The life of a pair: \<^verbatim>\<open>OPEN\<close>, \<^verbatim>\<open>READY\<close>, \<^verbatim>\<open>HALF_COMMITTED\<close>, \<^verbatim>\<open>ACTIVE\<close>, and \<^verbatim>\<open>CLOSED\<close> from any of the first
  three. \<^verbatim>\<open>ACTIVE\<close> and \<^verbatim>\<open>CLOSED\<close> are final.
\<close>

fun pair_rank :: "av option \<Rightarrow> nat" where
  "pair_rank (Some (AvS s)) =
     (if s = ''OPEN'' then 0 else if s = ''READY'' then 1 else if s = ''HALF_COMMITTED'' then 2 else 3)"
| "pair_rank _ = 3"

definition status_le :: "av option \<Rightarrow> av option \<Rightarrow> bool" where
  "status_le s s' \<longleftrightarrow> s' = s \<or> pair_rank s < pair_rank s'"

definition item_mono :: "kind \<Rightarrow> item \<Rightarrow> item \<Rightarrow> bool" where
  "item_mono k i j \<longleftrightarrow>
     (case k of
        KSession \<Rightarrow>
          kept {A_sessionId, A_linkId, A_controllerId, A_companionId, A_controllerConnectionId,
                A_companionConnectionId, A_createdAt, A_expiresAt} i j \<and>
          (i A_status = Some (AvS ''CLOSED'') \<longrightarrow> j A_status = i A_status)
      | KLink \<Rightarrow>
          kept {A_linkId, A_controllerId, A_companionId, A_createdAt} i j \<and>
          (i A_status = Some (AvS ''REVOKED'') \<longrightarrow> j A_status = i A_status)
      | KEndpoint \<Rightarrow> kept {A_endpointId, A_role, A_createdAt} i j \<and> once {A_revokedAt} i j
      | KPair \<Rightarrow>
          kept {A_pairId, A_locator, A_joinTokenHash, A_sideA, A_expiresAt} i j \<and>
          once {A_sideB, A_commitA, A_commitB} i j \<and> status_le (i A_status) (j A_status)
      | KLocator \<Rightarrow> j = i
      | KJoin \<Rightarrow> j = i
      | _ \<Rightarrow> True)"

text \<open>A connection may go away; every other row stays.\<close>

definition row_mono :: "row_key \<Rightarrow> item option \<Rightarrow> item option \<Rightarrow> bool" where
  "row_mono k r r' \<longleftrightarrow>
     fst k = KConnection \<or>
     (case r of None \<Rightarrow> True | Some i \<Rightarrow> (\<exists>j. r' = Some j \<and> item_mono (fst k) i j))"

lemma kept_refl [simp]: "kept as i i" and once_refl [simp]: "once as i i"
  by (simp_all add: kept_def once_def)

lemma kept_trans: "kept as i j \<Longrightarrow> kept as j k \<Longrightarrow> kept as i k"
  by (simp add: kept_def)

lemma once_trans: "once as i j \<Longrightarrow> once as j k \<Longrightarrow> once as i k"
  by (simp add: once_def)

lemma status_le_refl [simp]: "status_le s s"
  by (simp add: status_le_def)

lemma status_le_trans: "status_le a b \<Longrightarrow> status_le b c \<Longrightarrow> status_le a c"
  by (auto simp: status_le_def)

lemma item_mono_refl [simp]: "item_mono k i i"
  by (cases k) (simp_all add: item_mono_def)

lemma item_mono_trans: "item_mono k i j \<Longrightarrow> item_mono k j l \<Longrightarrow> item_mono k i l"
  by (cases k) (auto simp: item_mono_def intro: kept_trans once_trans status_le_trans)

lemma row_mono_refl [simp]: "row_mono k r r"
  by (cases r) (simp_all add: row_mono_def)

lemma row_mono_trans: "row_mono k a b \<Longrightarrow> row_mono k b c \<Longrightarrow> row_mono k a c"
  by (auto simp: row_mono_def intro: item_mono_trans split: option.splits)

section \<open>Rows that point at each other\<close>

text \<open>
  An active session holds the lock of its link and of its two endpoints, each on the connection the
  session was opened with; a lock names an active session that its holder belongs to. (The
  empty string is no endpoint id of the protocol, so a lock of such a row is not promised
  to be live.)
\<close>

definition holds_lock :: "table \<Rightarrow> string \<Rightarrow> attr \<Rightarrow> attr \<Rightarrow> bool" where
  "holds_lock t S who conn \<longleftrightarrow>
     (\<exists>E c. at t (KSession, S) who = Some (AvS E) \<and> at t (KSession, S) conn = Some (AvS c) \<and>
        at t (KEndpoint, E) A_activeSessionId = Some (AvS S) \<and>
        at t (KEndpoint, E) A_connectionId = Some (AvS c))"

definition locked :: "table \<Rightarrow> string \<Rightarrow> bool" where
  "locked t S \<longleftrightarrow>
     (\<exists>L. at t (KSession, S) A_linkId = Some (AvS L) \<and>
        at t (KLink, L) A_activeSessionId = Some (AvS S) \<and>
        at t (KLink, L) A_status = Some (AvS ''ACTIVE'')) \<and>
     holds_lock t S A_controllerId A_controllerConnectionId \<and>
     holds_lock t S A_companionId A_companionConnectionId"

definition endpoint_ptr :: "table \<Rightarrow> string \<Rightarrow> bool" where
  "endpoint_ptr t E \<longleftrightarrow>
     (\<forall>v. at t (KEndpoint, E) A_activeSessionId = Some v \<longrightarrow>
        (\<exists>S. v = AvS S \<and> t (KSession, S) \<noteq> None \<and> (E \<noteq> '''' \<longrightarrow> active t S) \<and>
           (at t (KSession, S) A_controllerId = Some (AvS E) \<or>
            at t (KSession, S) A_companionId = Some (AvS E))))"

definition link_ptr :: "table \<Rightarrow> string \<Rightarrow> bool" where
  "link_ptr t L \<longleftrightarrow>
     (\<forall>v. at t (KLink, L) A_activeSessionId = Some v \<longrightarrow>
        (\<exists>S. v = AvS S \<and> active t S \<and> at t (KSession, S) A_linkId = Some (AvS L)))"

definition session_link :: "table \<Rightarrow> string \<Rightarrow> bool" where
  "session_link t S \<longleftrightarrow>
     (\<forall>L. at t (KSession, S) A_linkId = Some (AvS L) \<longrightarrow>
        t (KLink, L) \<noteq> None \<and>
        at t (KLink, L) A_controllerId = at t (KSession, S) A_controllerId \<and>
        at t (KLink, L) A_companionId = at t (KSession, S) A_companionId)"

definition link_ends :: "table \<Rightarrow> string \<Rightarrow> bool" where
  "link_ends t L \<longleftrightarrow>
     (\<forall>E. at t (KLink, L) A_controllerId = Some (AvS E) \<or>
          at t (KLink, L) A_companionId = Some (AvS E) \<longrightarrow> t (KEndpoint, E) \<noteq> None)"

text \<open>An active pair has a link between the two endpoints that its sides committed.\<close>

definition pair_link :: "table \<Rightarrow> string \<Rightarrow> bool" where
  "pair_link t P \<longleftrightarrow>
     (at t (KPair, P) A_status = Some (AvS ''ACTIVE'') \<longrightarrow>
        (\<exists>a b C D. at t (KPair, P) A_commitA = Some (marshal_PairCommit a) \<and>
           at t (KPair, P) A_commitB = Some (marshal_PairCommit b) \<and>
           at t (KLink, pc_LinkID a) A_controllerId = Some (AvS C) \<and>
           at t (KLink, pc_LinkID a) A_companionId = Some (AvS D) \<and>
           {C, D} = {pe_EndpointID (pc_Self a), pe_EndpointID (pc_Self b)}))"

definition formInv :: "table \<Rightarrow> bool" where
  "formInv t \<longleftrightarrow> (\<forall>k i. t k = Some i \<longrightarrow> row_form k i)"

definition lockInv :: "table \<Rightarrow> bool" where
  "lockInv t \<longleftrightarrow> (\<forall>S. active t S \<longrightarrow> locked t S) \<and> (\<forall>E. endpoint_ptr t E) \<and> (\<forall>L. link_ptr t L)"

definition refInv :: "table \<Rightarrow> bool" where
  "refInv t \<longleftrightarrow> (\<forall>S. session_link t S) \<and> (\<forall>L. link_ends t L) \<and> (\<forall>P. pair_link t P)"

definition Inv :: "table \<Rightarrow> bool" where
  "Inv t \<longleftrightarrow> formInv t \<and> lockInv t \<and> refInv t"

definition evolves :: "table \<Rightarrow> table \<Rightarrow> bool" where
  "evolves t t' \<longleftrightarrow> (\<forall>k. row_mono k (t k) (t' k)) \<and> (Inv t \<longrightarrow> Inv t')"

lemma evolves_refl [simp]: "evolves t t"
  by (simp add: evolves_def)

lemma evolves_trans: "evolves a b \<Longrightarrow> evolves b c \<Longrightarrow> evolves a c"
  unfolding evolves_def using row_mono_trans by blast

lemma evolves_Inv: "evolves t t' \<Longrightarrow> Inv t \<Longrightarrow> Inv t'"
  by (simp add: evolves_def)

lemma evolves_row: "evolves t t' \<Longrightarrow> row_mono k (t k) (t' k)"
  by (simp add: evolves_def)

lemma Inv_empty: "Inv (\<lambda>_. None)"
  by (simp add: Inv_def formInv_def lockInv_def refInv_def active_def endpoint_ptr_def link_ptr_def
      session_link_def link_ends_def pair_link_def at_def)

end
