(* ===== verification/RelayPlain.thy ===== *)
theory RelayPlain
  imports RelayInv
begin

text \<open>
  Writes that neither open a session nor activate a pair. \<open>plain t C w\<close>: if the condition of \<open>w\<close> holds,
  it changes its row in order (\<open>row_mono\<close>), to a row of good form, and takes a lock away only from a
  session that is closed already or belongs to \<open>C\<close>, the sessions that the transaction closes.
  \<open>plain_evolves\<close> turns this into the guarantee of a transaction.
\<close>

section \<open>Plain changes of rows\<close>

definition ptr_ok :: "table \<Rightarrow> string set \<Rightarrow> row_key \<Rightarrow> item \<Rightarrow> bool" where
  "ptr_ok t C k j \<longleftrightarrow>
     (j A_activeSessionId = None \<or> j A_activeSessionId = at t k A_activeSessionId) \<and>
     (\<forall>S. at t k A_activeSessionId = Some (AvS S) \<longrightarrow>
        S \<in> C \<or> \<not> active t S \<or>
        (\<forall>a \<in> {A_activeSessionId, A_connectionId, A_status}. j a = at t k a))"

definition plain_row :: "table \<Rightarrow> string set \<Rightarrow> row_key \<Rightarrow> item option \<Rightarrow> bool" where
  "plain_row t C k r' \<longleftrightarrow>
     row_mono k (t k) r' \<and> (\<forall>j. r' = Some j \<longrightarrow> row_form k j) \<and>
     (case fst k of
        KSession \<Rightarrow> t k \<noteq> None \<and>
          (\<forall>j. r' = Some j \<longrightarrow> j A_status = at t k A_status \<or> snd k \<in> C)
      | KLink \<Rightarrow> t k \<noteq> None \<and> (\<forall>j. r' = Some j \<longrightarrow> ptr_ok t C k j)
      | KEndpoint \<Rightarrow> (\<forall>j. r' = Some j \<longrightarrow> ptr_ok t C k j)
      | KPair \<Rightarrow> (\<forall>j. r' = Some j \<longrightarrow> j A_status = Some (AvS ''ACTIVE'') \<longrightarrow>
                   at t k A_status = Some (AvS ''ACTIVE''))
      | _ \<Rightarrow> True)"

definition plain :: "table \<Rightarrow> string set \<Rightarrow> twrite \<Rightarrow> bool" where
  "plain t C w \<longleftrightarrow>
     (write_ok t w \<longrightarrow> apply_write w t (write_key w) = t (write_key w) \<or>
        plain_row t C (write_key w) (apply_write w t (write_key w)))"

definition cleared :: "table \<Rightarrow> string \<Rightarrow> bool" where
  "cleared t S \<longleftrightarrow> \<not> active t S \<and>
     (\<forall>E. E \<noteq> '''' \<longrightarrow> at t (KEndpoint, E) A_activeSessionId \<noteq> Some (AvS S)) \<and>
     (\<forall>L. at t (KLink, L) A_activeSessionId \<noteq> Some (AvS S))"

lemma Inv_form: "Inv t \<Longrightarrow> t k = Some i \<Longrightarrow> row_form k i"
  by (simp add: Inv_def formInv_def)

lemma Inv_locked: "Inv t \<Longrightarrow> active t S \<Longrightarrow> locked t S"
  by (simp add: Inv_def lockInv_def)

lemma Inv_endpoint_ptr: "Inv t \<Longrightarrow> endpoint_ptr t E"
  by (simp add: Inv_def lockInv_def)

lemma Inv_link_ptr: "Inv t \<Longrightarrow> link_ptr t L"
  by (simp add: Inv_def lockInv_def)

lemma Inv_session_link: "Inv t \<Longrightarrow> session_link t S"
  by (simp add: Inv_def refInv_def)

lemma Inv_link_ends: "Inv t \<Longrightarrow> link_ends t L"
  by (simp add: Inv_def refInv_def)

lemma Inv_pair_link: "Inv t \<Longrightarrow> pair_link t P"
  by (simp add: Inv_def refInv_def)

lemma row_mono_exists: "row_mono k r r' \<Longrightarrow> fst k \<noteq> KConnection \<Longrightarrow> r \<noteq> None \<Longrightarrow> r' \<noteq> None"
  by (auto simp: row_mono_def split: option.splits)

lemma session_attr_stable:
  assumes "row_mono (KSession, S) (t (KSession, S)) (t' (KSession, S))" "t (KSession, S) \<noteq> None"
    and "a \<in> {A_sessionId, A_linkId, A_controllerId, A_companionId, A_controllerConnectionId,
                A_companionConnectionId, A_createdAt, A_expiresAt}"
  shows "at t' (KSession, S) a = at t (KSession, S) a"
  using assms by (auto simp: row_mono_def item_mono_def kept_def at_def)

lemma link_attr_stable:
  assumes "row_mono (KLink, L) (t (KLink, L)) (t' (KLink, L))" "t (KLink, L) \<noteq> None"
    and "a \<in> {A_linkId, A_controllerId, A_companionId, A_createdAt}"
  shows "at t' (KLink, L) a = at t (KLink, L) a"
  using assms by (auto simp: row_mono_def item_mono_def kept_def at_def)

text \<open>A step of the table by plain rows.\<close>

definition plain_step :: "table \<Rightarrow> table \<Rightarrow> string set \<Rightarrow> bool" where
  "plain_step t t' C \<longleftrightarrow> Inv t \<and> (\<forall>k. t' k = t k \<or> plain_row t C k (t' k)) \<and>
     (\<forall>S \<in> C. active t S \<longrightarrow> cleared t' S)"

lemma ps_inv: "plain_step t t' C \<Longrightarrow> Inv t"
  by (simp add: plain_step_def)

lemma ps_rows: "plain_step t t' C \<Longrightarrow> t' k = t k \<or> plain_row t C k (t' k)"
  by (simp add: plain_step_def)

lemma ps_clr: "plain_step t t' C \<Longrightarrow> S \<in> C \<Longrightarrow> active t S \<Longrightarrow> cleared t' S"
  by (simp add: plain_step_def)



lemma ps_mono:
  assumes st: "plain_step t t' C"
  shows "row_mono k (t k) (t' k)"
  using ps_rows [OF st, of k] by (auto simp: plain_row_def)

lemma ps_exists_back:
  assumes st: "plain_step t t' C"
    and "k = (KSession, S) \<or> k = (KLink, S)"
    and "t' k \<noteq> None"
  shows "t k \<noteq> None"
  using ps_rows [OF st, of k] assms by (auto simp: plain_row_def)

lemma ps_exists_on:
  assumes st: "plain_step t t' C"
    and "fst k \<noteq> KConnection"
    and "t k \<noteq> None"
  shows "t' k \<noteq> None"
  using row_mono_exists [OF ps_mono [OF st]] assms by blast

lemma ps_form:
  assumes st: "plain_step t t' C"
    and "t' k = Some j"
  shows "row_form k j"
  using ps_rows [OF st, of k] Inv_form [OF ps_inv [OF st], of k j] assms(2) by (auto simp: plain_row_def)

lemma ps_sess:
  assumes st: "plain_step t t' C"
    and "t' (KSession, S) \<noteq> None"
    "a \<in> {A_sessionId, A_linkId, A_controllerId, A_companionId, A_controllerConnectionId,
                A_companionConnectionId, A_createdAt, A_expiresAt}"
  shows "at t' (KSession, S) a = at t (KSession, S) a"
  using session_attr_stable [of S t t', OF ps_mono [OF st]] ps_exists_back [OF st, of _ S] assms
  by blast

lemma ps_active_back:
  assumes st: "plain_step t t' C"
    and "active t' S"
  shows "active t S \<and> S \<notin> C"
proof -
  obtain j where j: "t' (KSession, S) = Some j" "j A_status = Some (AvS ''ACTIVE'')"
    using active_row [OF assms(2)] by blast
  then obtain i where i: "t (KSession, S) = Some i"
    using ps_exists_back [OF st, of "(KSession, S)" S] by auto
  have "session_form S i" using Inv_form [OF ps_inv [OF st] i] by simp
  moreover have "item_mono KSession i j"
    using ps_mono [OF st, of "(KSession, S)"] i j by (simp add: row_mono_def)
  ultimately have "i A_status = Some (AvS ''ACTIVE'')"
    using j(2) by (auto simp: session_form_def item_mono_def)
  then have "active t S" using i by (simp add: active_def at_Some)
  then show ?thesis using ps_clr [OF st, of S] assms by (auto simp: cleared_def)
qed

lemma ps_active_on:
  assumes st: "plain_step t t' C"
    and "active t S" "S \<notin> C"
  shows "active t' S"
proof -
  obtain i where i: "t (KSession, S) = Some i" "i A_status = Some (AvS ''ACTIVE'')"
    using active_row [OF assms(2)] by blast
  obtain j where j: "t' (KSession, S) = Some j"
    using ps_exists_on [OF st, of "(KSession, S)"] i by auto
  show ?thesis
    using ps_rows [OF st, of "(KSession, S)"] assms j i by (auto simp: plain_row_def active_def at_def)
qed

lemma ps_ptr_back:
  assumes st: "plain_step t t' C"
    and "k = (KEndpoint, E) \<or> k = (KLink, E)" and "at t' k A_activeSessionId = Some v"
  shows "at t k A_activeSessionId = Some v"
proof (cases "t' k = t k")
  case True
  then show ?thesis using assms(3) by (simp add: at_def)
next
  case False
  obtain j where "t' k = Some j" "j A_activeSessionId = Some v"
    using at_row [OF assms(3)] by blast
  then show ?thesis
    using False ps_rows [OF st, of k] assms(2) by (auto simp: plain_row_def ptr_ok_def)
qed

lemma ps_core:
  assumes st: "plain_step t t' C"
    and "k = (KEndpoint, E) \<or> k = (KLink, E)"
    and "at t k A_activeSessionId = Some (AvS S)" "active t S" "S \<notin> C"
    and "a \<in> {A_activeSessionId, A_connectionId, A_status}"
  shows "at t' k a = at t k a"
proof (cases "t' k = t k")
  case True
  then show ?thesis by (simp add: at_def)
next
  case False
  obtain i where "t k = Some i" using at_row [OF assms(3)] by blast
  then obtain j where j: "t' k = Some j"
    using ps_exists_on [OF st, of k] assms(2) by auto
  then have "ptr_ok t C k j"
    using ps_rows [OF st, of k] False assms(2) by (auto simp: plain_row_def)
  then have "j a = at t k a"
    using assms(3-6) unfolding ptr_ok_def by blast
  then show ?thesis using j by (simp add: at_def)
qed

lemma ps_holds_lock_on:
  assumes st: "plain_step t t' C"
    and "holds_lock t S who conn" "active t S" "S \<notin> C"
    and "who \<in> {A_controllerId, A_companionId}"
    and "conn \<in> {A_controllerConnectionId, A_companionConnectionId}"
  shows "holds_lock t' S who conn"
proof -
  obtain E c where E: "at t (KSession, S) who = Some (AvS E)" "at t (KSession, S) conn = Some (AvS c)"
      "at t (KEndpoint, E) A_activeSessionId = Some (AvS S)"
      "at t (KEndpoint, E) A_connectionId = Some (AvS c)"
    using assms(2) by (auto simp: holds_lock_def)
  have s: "t' (KSession, S) \<noteq> None"
    using active_row [OF ps_active_on [OF st assms(3,4)]] by auto
  have s': "at t' (KSession, S) a = at t (KSession, S) a" if "a \<in> {who, conn}" for a
    by (rule ps_sess [OF st s]) (use assms(5,6) that in blast)
  have e: "at t' (KEndpoint, E) a = at t (KEndpoint, E) a"
    if "a \<in> {A_activeSessionId, A_connectionId, A_status}" for a
    using ps_core [OF st _ E(3) assms(3,4) that] by blast
  show ?thesis
    unfolding holds_lock_def
    by (intro exI [of _ E] exI [of _ c]) (simp add: s' e E)
qed

lemma ps_locked_on:
  assumes st: "plain_step t t' C"
    and "active t' S"
  shows "locked t' S"
proof -
  have a: "active t S" "S \<notin> C" using ps_active_back [OF st assms(2)] by auto
  have l: "locked t S" using Inv_locked [OF ps_inv [OF st] a(1)] .
  have s: "t' (KSession, S) \<noteq> None"
    using active_row [OF assms(2)] by auto
  obtain L where L: "at t (KSession, S) A_linkId = Some (AvS L)"
      "at t (KLink, L) A_activeSessionId = Some (AvS S)"
      "at t (KLink, L) A_status = Some (AvS ''ACTIVE'')"
    using l by (auto simp: locked_def)
  have "at t' (KSession, S) A_linkId = Some (AvS L)"
    using ps_sess [OF st s] L(1) by auto
  moreover have e: "at t' (KLink, L) b = at t (KLink, L) b"
    if "b \<in> {A_activeSessionId, A_connectionId, A_status}" for b
    using ps_core [OF st _ L(2) a that] by blast
  ultimately have "\<exists>L. at t' (KSession, S) A_linkId = Some (AvS L) \<and>
        at t' (KLink, L) A_activeSessionId = Some (AvS S) \<and>
        at t' (KLink, L) A_status = Some (AvS ''ACTIVE'')"
    using L(2,3) e [of A_activeSessionId] e [of A_status] by auto
  then show ?thesis
    using l ps_holds_lock_on [OF st _ a] by (auto simp: locked_def)
qed

lemma ps_endpoint_ptr_on:
  assumes st: "plain_step t t' C"
  shows "endpoint_ptr t' E"
  unfolding endpoint_ptr_def
proof (intro allI impI)
  fix v assume v: "at t' (KEndpoint, E) A_activeSessionId = Some v"
  have "at t (KEndpoint, E) A_activeSessionId = Some v"
    using ps_ptr_back [OF st _ v] by blast
  then obtain S where S: "v = AvS S" "t (KSession, S) \<noteq> None" "E \<noteq> '''' \<longrightarrow> active t S"
      "at t (KSession, S) A_controllerId = Some (AvS E) \<or>
       at t (KSession, S) A_companionId = Some (AvS E)"
    using Inv_endpoint_ptr [OF ps_inv [OF st], of E] unfolding endpoint_ptr_def by blast
  have s: "t' (KSession, S) \<noteq> None" using ps_exists_on [OF st, of "(KSession, S)"] S(2) by simp
  have "active t' S" if "E \<noteq> ''''"
    using S(1,3) that v ps_clr [OF st, of S] ps_active_on [OF st, of S] by (auto simp: cleared_def)
  then show "\<exists>S. v = AvS S \<and> t' (KSession, S) \<noteq> None \<and> (E \<noteq> '''' \<longrightarrow> active t' S) \<and>
           (at t' (KSession, S) A_controllerId = Some (AvS E) \<or>
            at t' (KSession, S) A_companionId = Some (AvS E))"
    using S(1,4) s ps_sess [OF st s] by auto
qed

lemma ps_link_ptr_on:
  assumes st: "plain_step t t' C"
  shows "link_ptr t' L"
  unfolding link_ptr_def
proof (intro allI impI)
  fix v assume v: "at t' (KLink, L) A_activeSessionId = Some v"
  have "at t (KLink, L) A_activeSessionId = Some v"
    using ps_ptr_back [OF st _ v] by blast
  then obtain S where S: "v = AvS S" "active t S" "at t (KSession, S) A_linkId = Some (AvS L)"
    using Inv_link_ptr [OF ps_inv [OF st], of L] unfolding link_ptr_def by blast
  have "active t' S"
    using S v ps_clr [OF st, of S] ps_active_on [OF st, of S] by (auto simp: cleared_def)
  moreover have "at t' (KSession, S) A_linkId = Some (AvS L)"
    using ps_sess [OF st, of S A_linkId] active_row [OF calculation] S(3) by auto
  ultimately show "\<exists>S. v = AvS S \<and> active t' S \<and> at t' (KSession, S) A_linkId = Some (AvS L)"
    using S(1) by blast
qed

lemma ps_session_link_on:
  assumes st: "plain_step t t' C"
  shows "session_link t' S"
  unfolding session_link_def
proof (intro allI impI)
  fix L assume L: "at t' (KSession, S) A_linkId = Some (AvS L)"
  then have s: "t' (KSession, S) \<noteq> None" using at_row by fastforce
  then have "at t (KSession, S) A_linkId = Some (AvS L)" using ps_sess [OF st] L by auto
  then have l: "t (KLink, L) \<noteq> None"
      "at t (KLink, L) A_controllerId = at t (KSession, S) A_controllerId"
      "at t (KLink, L) A_companionId = at t (KSession, S) A_companionId"
    using Inv_session_link [OF ps_inv [OF st], of S] by (auto simp: session_link_def)
  show "t' (KLink, L) \<noteq> None \<and>
      at t' (KLink, L) A_controllerId = at t' (KSession, S) A_controllerId \<and>
      at t' (KLink, L) A_companionId = at t' (KSession, S) A_companionId"
    using l ps_exists_on [OF st, of "(KLink, L)"] ps_sess [OF st s]
      link_attr_stable [of L t t', OF ps_mono [OF st] l(1)] by auto
qed

lemma ps_link_on:
  assumes st: "plain_step t t' C"
    and "at t (KLink, L) a = Some v" "a \<in> {A_controllerId, A_companionId}"
  shows "at t' (KLink, L) a = Some v"
proof -
  have e: "t (KLink, L) \<noteq> None" using at_row [OF assms(2)] by auto
  have "a \<in> {A_linkId, A_controllerId, A_companionId, A_createdAt}" using assms(3) by blast
  from link_attr_stable [of L t t', OF ps_mono [OF st] e this] assms(2) show ?thesis by simp
qed

lemma ps_link_ends_on:
  assumes st: "plain_step t t' C"
  shows "link_ends t' L"
  unfolding link_ends_def
proof (intro allI impI)
  fix E assume E: "at t' (KLink, L) A_controllerId = Some (AvS E) \<or>
      at t' (KLink, L) A_companionId = Some (AvS E)"
  then have "t' (KLink, L) \<noteq> None" using at_row by fastforce
  then have l: "t (KLink, L) \<noteq> None" using ps_exists_back [OF st] by blast
  have "at t (KLink, L) A_controllerId = Some (AvS E) \<or>
      at t (KLink, L) A_companionId = Some (AvS E)"
    using E link_attr_stable [of L t t', OF ps_mono [OF st] l] by auto
  then have "t (KEndpoint, E) \<noteq> None"
    using Inv_link_ends [OF ps_inv [OF st], of L] unfolding link_ends_def by blast
  then show "t' (KEndpoint, E) \<noteq> None" using ps_exists_on [OF st, of "(KEndpoint, E)"] by simp
qed

lemma ps_pair_link_on:
  assumes st: "plain_step t t' C"
  shows "pair_link t' P"
  unfolding pair_link_def
proof (intro impI)
  assume a: "at t' (KPair, P) A_status = Some (AvS ''ACTIVE'')"
  obtain j where j: "t' (KPair, P) = Some j" "j A_status = Some (AvS ''ACTIVE'')"
    using at_row [OF a] by blast
  have "at t (KPair, P) A_status = Some (AvS ''ACTIVE'')"
    using ps_rows [OF st, of "(KPair, P)"] j a
    by (cases "t' (KPair, P) = t (KPair, P)") (auto simp: plain_row_def at_def)
  then obtain a b C D where c: "at t (KPair, P) A_commitA = Some (marshal_PairCommit a)"
      "at t (KPair, P) A_commitB = Some (marshal_PairCommit b)"
      "at t (KLink, pc_LinkID a) A_controllerId = Some (AvS C)"
      "at t (KLink, pc_LinkID a) A_companionId = Some (AvS D)"
      "{C, D} = {pe_EndpointID (pc_Self a), pe_EndpointID (pc_Self b)}"
    using Inv_pair_link [OF ps_inv [OF st], of P] unfolding pair_link_def by blast
  have e: "at t' (KPair, P) x = at t (KPair, P) x"
    if "x \<in> {A_commitA, A_commitB}" "at t (KPair, P) x \<noteq> None" for x
    using that ps_mono [OF st, of "(KPair, P)"] by (auto simp: row_mono_def item_mono_def once_def at_def
        split: option.splits)
  then show "\<exists>a b C D. at t' (KPair, P) A_commitA = Some (marshal_PairCommit a) \<and>
           at t' (KPair, P) A_commitB = Some (marshal_PairCommit b) \<and>
           at t' (KLink, pc_LinkID a) A_controllerId = Some (AvS C) \<and>
           at t' (KLink, pc_LinkID a) A_companionId = Some (AvS D) \<and>
           {C, D} = {pe_EndpointID (pc_Self a), pe_EndpointID (pc_Self b)}"
    using c e [of A_commitA] e [of A_commitB] ps_link_on [OF st c(3)] ps_link_on [OF st c(4)] by auto
qed

lemma ps_step_evolves:
  assumes st: "plain_step t t' C"
  shows "evolves t t'"
  unfolding evolves_def Inv_def formInv_def lockInv_def refInv_def
  using ps_mono [OF st] ps_form [OF st] ps_locked_on [OF st] ps_endpoint_ptr_on [OF st] ps_link_ptr_on [OF st] ps_session_link_on [OF st] ps_link_ends_on [OF st] ps_pair_link_on [OF st]
  by blast

lemma apply_writes_row:
  assumes "writes_ok ws t"
  shows "apply_writes ws t k = t k \<or>
    (\<exists>w \<in> set ws. write_key w = k \<and> write_ok t w \<and> apply_writes ws t k = apply_write w t k)"
proof (cases "k \<in> write_key ` set ws")
  case False
  then show ?thesis by (simp add: apply_writes_other)
next
  case True
  then obtain w where "w \<in> set ws" "write_key w = k" by blast
  then show ?thesis
    using assms apply_writes_at [of ws w t] by (auto simp: writes_ok_def list_all_iff)
qed

lemma plain_rows:
  assumes "writes_ok ws t" "\<forall>w \<in> set ws. plain t C w"
  shows "apply_writes ws t k = t k \<or> plain_row t C k (apply_writes ws t k)"
  using apply_writes_row [OF assms(1), of k] assms(2) by (auto simp: plain_def)

lemma plain_evolves:
  assumes "Inv t" "writes_ok ws t" "\<forall>w \<in> set ws. plain t C w"
    and "\<forall>S \<in> C. active t S \<longrightarrow> cleared (apply_writes ws t) S"
  shows "evolves t (apply_writes ws t)"
  by (rule ps_step_evolves [of _ _ C]) (use assms plain_rows in \<open>auto simp: plain_step_def\<close>)

end
