(* ===== verification/RelayWrites.thy ===== *)
theory RelayWrites
  imports RelayPlain
begin

text \<open>
  The writes of the store, one by one: under which circumstances each is plain. Most need only the
  condition expression that the code attaches; those that take a lock away need that
  the session of the lock is being closed (\<open>S \<in> C\<close>) or is not active any more.
\<close>

lemmas plain_defs = plain_def plain_row_def ptr_ok_def write_ok_def update_item_def row_mono_def
  item_mono_def kept_def once_def at_def

lemma plain_same: "apply_write w t (write_key w) = t (write_key w) \<Longrightarrow> plain t C w"
  by (simp add: plain_def)

lemma plain_check [simp]: "plain t C (ConditionCheck k c)"
  by (simp add: plain_def)

lemma plain_endpointFence [simp]: "plain t C (endpointFence e c)"
  by (simp add: endpointFence_def)

lemma plain_connection: "fst (write_key w) = KConnection \<Longrightarrow> plain t C w"
  by (cases "write_key w") (auto simp: plain_def plain_row_def row_mono_def)

lemma plain_rate: "plain t C (Update (KRate, r) us c)"
  by (auto simp: plain_defs split: option.splits)

lemma plain_pointer:
  "k = KLocator \<or> k = KJoin \<Longrightarrow> plain t C (Put (k, x) i row_not_exists)"
  by (auto simp: plain_defs split: option.splits)

lemma plain_rateLimitUpdate [simp]: "plain t C (fst (rateLimitUpdate src act lim win now))"
  by (simp add: rateLimitUpdate_def Let_def plain_rate rateRow_def)

section \<open>Sessions, links and endpoints\<close>

lemma plain_closeWrite:
  assumes "Inv t" "S \<in> C"
  shows "plain t C (closeWrite S now)"
  using assms(2) Inv_form [OF assms(1), of "(KSession, S)"]
  by (cases "t (KSession, S)") (auto simp: closeWrite_def plain_defs session_form_def)

lemma plain_unlinkWrite:
  assumes "Inv t" "S \<in> C \<or> \<not> active t S"
  shows "plain t C (unlinkWrite L S)"
  using assms(2) Inv_form [OF assms(1), of "(KLink, L)"]
  by (cases "t (KLink, L)") (auto simp: unlinkWrite_def plain_defs link_form_def)

lemma plain_unpointWrite:
  assumes "Inv t" "S \<in> C \<or> \<not> active t S"
  shows "plain t C (unpointWrite E S f)"
  using assms(2) Inv_form [OF assms(1), of "(KEndpoint, E)"]
  by (cases "t (KEndpoint, E)")
    (auto simp: unpointWrite_def plain_defs endpoint_form_def split: option.splits)

lemma plain_revokeLinkWrite:
  assumes "Inv t" "\<forall>S. at t (KLink, L) A_activeSessionId = Some (AvS S) \<longrightarrow> sid = S \<longrightarrow>
      S \<in> C \<or> \<not> active t S"
  shows "plain t C (revokeLinkWrite L sid now)"
  using assms(2) Inv_form [OF assms(1), of "(KLink, L)"]
  by (cases "t (KLink, L)")
    (auto simp: revokeLinkWrite_def plain_defs link_form_def split: if_splits)

lemma plain_rotateWrite:
  assumes "Inv t"
  shows "plain t C (rotateWrite E c h now)"
  using Inv_form [OF assms(1), of "(KEndpoint, E)"]
  by (cases "t (KEndpoint, E)") (auto simp: rotateWrite_def plain_defs endpoint_form_def)

lemma plain_endpoint_unlock:
  assumes "Inv t" and
    "\<And>S. at t (KEndpoint, E) A_activeSessionId = Some (AvS S) \<Longrightarrow> write_ok t w \<Longrightarrow>
       S \<in> C \<or> \<not> active t S"
    and "w = connectEndpointWrite conn h ep \<and> c_EndpointID conn = E \<or>
      w = removeEndpointWrite E c sid \<or> w = revokeEndpointWrite E c sid now"
  shows "plain t C w"
  using assms(2,3) Inv_form [OF assms(1), of "(KEndpoint, E)"]
  apply (cases "t (KEndpoint, E)")
   apply (force simp: connectEndpointWrite_def removeEndpointWrite_def revokeEndpointWrite_def
      plain_defs split: if_splits)
  apply (elim disjE)
  apply (auto simp: connectEndpointWrite_def removeEndpointWrite_def
      revokeEndpointWrite_def plain_defs endpoint_form_def split: if_splits)
  done

lemma plain_endpointWrite:
  assumes "Inv t"
  shows "plain t C (endpointWrite e)"
  using Inv_form [OF assms(1), of "(KEndpoint, e_EndpointID e)"]
  by (cases "t (KEndpoint, e_EndpointID e)")
    (auto simp: endpointWrite_def plain_defs endpoint_form_def empty_item_def)

section \<open>Pairs\<close>

lemma marshal_PairCommit_inj [simp]: "marshal_PairCommit a = marshal_PairCommit b \<longleftrightarrow> a = b"
  by (cases a; cases b) (auto simp: marshal_PairCommit_def intro!: PairEndpointCommit.equality
      PairIdentity.equality)

lemma marshal_PairSide_inj [simp]: "marshal_PairSide a = marshal_PairSide b \<longleftrightarrow> a = b"
  by (cases a; cases b) (auto simp: marshal_PairSide_def)

lemma plain_closePairWrite:
  assumes "Inv t"
  shows "plain t C (closePairWrite P c)"
  using Inv_form [OF assms(1), of "(KPair, P)"]
  by (cases "t (KPair, P)")
    (auto simp: closePairWrite_def plain_defs pair_form_def pair_status_form_def commits_form_def
      status_le_def)

lemma plain_cancelWrite:
  assumes "Inv t" "t (KPair, P) \<noteq> None"
  shows "plain t C (cancelWrite P)"
  using assms(2) Inv_form [OF assms(1), of "(KPair, P)"]
  by (cases "t (KPair, P)")
    (auto simp: cancelWrite_def plain_defs pair_form_def pair_status_form_def commits_form_def
      status_le_def)

text \<open>Joining, the first commit and the creation of a pair move its status forward by one.\<close>

lemma plain_joinWrite:
  assumes "Inv t"
  shows "plain t C (Update (KPair, P)
         [SET A_sideB (marshal_PairSide side), SET A_status (AvS ''READY'')]
         (CAnd (CEq [A_status] (AvS ''OPEN'') # c # attribute_not_exists [A_sideB] # cs)))"
  using Inv_form [OF assms(1), of "(KPair, P)"]
  by (cases "t (KPair, P)")
    (auto simp: plain_defs pair_form_def pair_status_form_def commits_form_def status_le_def)

lemma plain_assignPairing [simp]: "plain t C (assignPairing c P)"
  by (simp add: assignPairing_def plain_connection)

lemma plain_joinOps:
  assumes "Inv t" "w \<in> set (joinOps pair loc jth side now)"
  shows "plain t C w"
  using assms by (auto simp: joinOps_def Let_def plain_joinWrite split: if_splits)

lemma plain_commitWrite:
  assumes "Inv t"
  shows "plain t C (commitWrite P slot c ''READY'' ''HALF_COMMITTED'' now)"
  using Inv_form [OF assms(1), of "(KPair, P)"]
  by (cases "t (KPair, P)"; cases slot)
    (auto simp: commitWrite_def plain_defs pair_form_def pair_status_form_def commits_form_def
      status_le_def)

definition fresh_pair :: "Pair \<Rightarrow> bool" where
  "fresh_pair p \<longleftrightarrow> p_Status p = ''OPEN'' \<and> p_SideB p = None \<and> p_CommitA p = None \<and> p_CommitB p = None"

lemma fresh_pair_form:
  assumes "fresh_pair pair"
  shows "pair_form (p_PairID pair) (marshalItem ''pair'' (marshal_Pair pair))"
  using assms
  by (auto simp: fresh_pair_def pair_form_def pair_status_form_def commits_form_def
      marshalItem_def marshal_Pair_def omit_s_def omit_p_def)

lemma plain_createPairOps:
  assumes "fresh_pair pair" "w \<in> set (createPairOps pair)"
  shows "plain t C w"
proof -
  consider "w = Put (KPair, p_PairID pair) (marshalItem ''pair'' (marshal_Pair pair)) row_not_exists"
    | "w = Put (pointerRow pair) (pointerItem pair) row_not_exists"
    | "w = assignPairing (ps_ConnectionID (p_SideA pair)) (p_PairID pair)"
    using assms(2) by (auto simp: createPairOps_def)
  then show ?thesis
  proof cases
    case 1
    have "marshalItem ''pair'' (marshal_Pair pair) A_status = Some (AvS ''OPEN'')"
      using assms(1) by (auto simp: fresh_pair_def marshalItem_def marshal_Pair_def omit_s_def
          omit_p_def)
    with 1 show ?thesis
      using fresh_pair_form [OF assms(1)]
      by (auto simp: plain_def plain_row_def write_ok_def row_mono_def)
  next
    case 2
    then show ?thesis by (auto simp: pointerRow_def plain_pointer)
  next
    case 3
    then show ?thesis by (simp add: assignPairing_def plain_connection)
  qed
qed

end
