(* ===== verification/RelaySafe.thy ===== *)
theory RelaySafe
  imports RelayWrites
begin

text \<open>
  Every operation of the store keeps the table within \<open>evolves\<close>, under any interference that does so
  itself. What an operation learned from a row it read stays true as far as the row cannot change
  (\<open>knows\<close>), and the conditions of its writes cover the rest.
\<close>

section \<open>Rules for programs\<close>

abbreviation safe :: "'a prog \<Rightarrow> table \<Rightarrow> ('a \<Rightarrow> table \<Rightarrow> bool) \<Rightarrow> bool" where
  "safe \<equiv> gs evolves evolves"

definition keeps :: "'a prog \<Rightarrow> bool" where
  "keeps p \<longleftrightarrow> (\<forall>t. Inv t \<longrightarrow> safe p t (\<lambda>_ _. True))"

lemma keepsI: "(\<And>t. Inv t \<Longrightarrow> safe p t (\<lambda>_ _. True)) \<Longrightarrow> keeps p"
  by (simp add: keeps_def)

lemma safe_okP [simp]: "safe (okP x) t Q = Q (Inr x) t"
  by (simp add: prog_defs)

lemma safe_failP [simp]: "safe (failP e) t Q = Q (Inl e) t"
  by (simp add: prog_defs)

lemma safe_bindE:
  "safe (bindE p f) t Q \<longleftrightarrow>
     safe p t (\<lambda>r t'. case r of Inl e \<Rightarrow> Q (Inl e) t' | Inr x \<Rightarrow> safe (f x) t' Q)"
  unfolding bindE_def gs_bindP
  by (rule arg_cong [of _ _ "gs evolves evolves p t"]) (auto split: sum.splits)

lemma safe_tryR:
  "safe (tryR p f) t Q \<longleftrightarrow>
     safe p t (\<lambda>r t'. case r of Inl e \<Rightarrow> Q (Return (Inl e)) t' | Inr x \<Rightarrow> safe (f x) t' Q)"
  unfolding tryR_def gs_bindP
  by (rule arg_cong [of _ _ "gs evolves evolves p t"]) (auto split: sum.splits)

lemma safe_get_as:
  assumes "\<And>t'. evolves t t' \<Longrightarrow> Q (Inr (map_option f (t' k))) t'"
    and "\<And>t' e. evolves t t' \<Longrightarrow> Q (Inl e) t'"
  shows "safe (get_as f k) t Q"
  using assms by (simp add: get_as_def get_def safe_bindE)

lemma safe_transactP:
  assumes "\<And>t'. evolves t t' \<Longrightarrow> writes_ok ws t' \<Longrightarrow> evolves t' (apply_writes ws t')"
    and "\<And>r t'. Q r t'"
  shows "safe (transactP ws) t Q"
  using assms by (simp add: transactP_def)

lemma safe_updateP:
  assumes "\<And>t'. evolves t t' \<Longrightarrow> writes_ok [u] t' \<Longrightarrow> evolves t' (apply_writes [u] t')"
    and "\<And>r t'. Q r t'"
  shows "safe (updateP u) t Q"
  using assms by (simp add: updateP_def del: apply_writes_Cons)

lemma safe_weaken: "safe p t Q \<Longrightarrow> (\<And>x t'. Q x t' \<Longrightarrow> Q' x t') \<Longrightarrow> safe p t Q'"
  by (rule gs_mono)

lemma safe_evolved:
  assumes "safe p t Q" "evolves t t'" "\<And>x a b. evolves a b \<Longrightarrow> Q x a \<Longrightarrow> Q x b"
  shows "safe p t' Q"
  by (rule gs_stable [OF _ _ assms(2,1)]) (blast intro: evolves_trans assms(3))+

text \<open>The table a program ends in has evolved from the one it began in.\<close>

lemma safe_reached:
  assumes "safe p t Q"
  shows "safe p t (\<lambda>x t'. evolves t t' \<and> Q x t')"
proof -
  have "safe p t' (\<lambda>x t'. evolves t t' \<and> Q x t')" if "safe p t' Q" "evolves t t'" for t'
    using that
  proof (induction p arbitrary: t')
    case (GetItem k c)
    then show ?case by (auto intro: evolves_trans)
  next
    case (UpdateItem u c)
    then show ?case by (auto intro: evolves_trans)
  next
    case (TransactWriteItems ws c)
    then show ?case by (auto intro: evolves_trans)
  qed auto
  then show ?thesis using assms by simp
qed

lemma safe_retry:
  assumes "keeps body" "keeps ex"
  shows "keeps (retry n body ex)"
proof (rule keepsI)
  fix t assume "Inv t"
  then show "safe (retry n body ex) t (\<lambda>_ _. True)"
  proof (induction n arbitrary: t)
    case 0
    then show ?case using assms(2) by (simp add: keeps_def)
  next
    case (Suc n)
    have "safe body t (\<lambda>r t'. evolves t t' \<and> True)"
      by (rule safe_reached) (use assms(1) Suc.prems in \<open>simp add: keeps_def\<close>)
    then have "safe body t (\<lambda>r t'. Inv t')"
      by (rule safe_weaken) (use Suc.prems evolves_Inv in blast)
    then show ?case
      unfolding retry.simps gs_bindP
      by (rule safe_weaken) (use Suc.IH in \<open>auto split: attempt.splits\<close>)
  qed
qed

lemma keeps_bindE:
  assumes "keeps p" "\<And>x. keeps (f x)"
  shows "keeps (bindE p f)"
proof (rule keepsI)
  fix t assume t: "Inv t"
  have "safe p t (\<lambda>r t'. evolves t t' \<and> True)"
    by (rule safe_reached) (use assms(1) t in \<open>simp add: keeps_def\<close>)
  then show "safe (bindE p f) t (\<lambda>_ _. True)"
    unfolding safe_bindE
    by (rule safe_weaken)
      (use assms(2) t evolves_Inv in \<open>auto simp: keeps_def split: sum.splits\<close>)
qed

lemma safe_afterWrite [simp]: "safe (afterWrite v e) t (\<lambda>_ _. True)"
  by (simp add: afterWrite_def split: option.splits)

lemma safe_afterTransition [simp]: "safe (afterTransition f r) t (\<lambda>_ _. True)"
  by (simp add: afterTransition_def split: sum.splits)

section \<open>Stable knowledge\<close>

definition knows :: "table \<Rightarrow> string \<Rightarrow> Session \<Rightarrow> bool" where
  "knows t S sess \<longleftrightarrow> t (KSession, S) \<noteq> None \<and> s_SessionID sess = S \<and>
     at t (KSession, S) A_linkId = Some (AvS (s_LinkID sess)) \<and>
     at t (KSession, S) A_controllerId = Some (AvS (s_ControllerID sess)) \<and>
     at t (KSession, S) A_companionId = Some (AvS (s_CompanionID sess)) \<and>
     at t (KSession, S) A_controllerConnectionId = Some (AvS (s_ControllerConnectionID sess)) \<and>
     at t (KSession, S) A_companionConnectionId = Some (AvS (s_CompanionConnectionID sess)) \<and>
     (s_Status sess \<noteq> ''ACTIVE'' \<longrightarrow> \<not> active t S)"

lemma knows_read:
  assumes "Inv t" "t (KSession, S) = Some i"
  shows "knows t S (unmarshal_Session i)"
  using Inv_form [OF assms] assms(2)
  by (auto simp: session_form_def knows_def at_def unmarshal_Session_def get_s_def active_def)

lemma exists_stable: "evolves t t' \<Longrightarrow> fst k \<noteq> KConnection \<Longrightarrow> t k \<noteq> None \<Longrightarrow> t' k \<noteq> None"
  using row_mono_exists evolves_row by metis

lemma session_stable:
  assumes "evolves t t'" "t (KSession, S) \<noteq> None"
    and "a \<in> {A_sessionId, A_linkId, A_controllerId, A_companionId, A_controllerConnectionId,
                A_companionConnectionId, A_createdAt, A_expiresAt}"
  shows "at t' (KSession, S) a = at t (KSession, S) a"
  by (rule session_attr_stable [of S t t', OF evolves_row [OF assms(1)] assms(2,3)])

lemma active_before:
  assumes "evolves t t'" "Inv t" "t (KSession, S) \<noteq> None" "active t' S"
  shows "active t S"
proof -
  obtain i where i: "t (KSession, S) = Some i" using assms(3) by blast
  have "session_form S i" using Inv_form [OF assms(2) i] by simp
  then show ?thesis
    using evolves_row [OF assms(1), of "(KSession, S)"] assms(4) i
    by (auto simp: session_form_def row_mono_def item_mono_def active_def at_def)
qed

lemma knows_stable:
  assumes "evolves t t'" "Inv t" "knows t S sess"
  shows "knows t' S sess"
proof -
  have e: "t (KSession, S) \<noteq> None" using assms(3) by (simp add: knows_def)
  have s: "at t' (KSession, S) a = at t (KSession, S) a"
    if "a \<in> {A_linkId, A_controllerId, A_companionId, A_controllerConnectionId,
              A_companionConnectionId}" for a
    by (rule session_stable [OF assms(1) e]) (use that in blast)
  show ?thesis
    using assms(3) active_before [OF assms(1,2) e] exists_stable [OF assms(1), of "(KSession, S)"] e
    by (simp add: knows_def s) blast
qed

lemma link_pointer_read:
  assumes "Inv t" "t (KLink, L) = Some i" "l_ActiveSessionID (unmarshal_Link i) \<noteq> ''''"
  shows "active t (l_ActiveSessionID (unmarshal_Link i))"
    "at t (KSession, l_ActiveSessionID (unmarshal_Link i)) A_linkId = Some (AvS L)"
    "t (KSession, l_ActiveSessionID (unmarshal_Link i)) \<noteq> None"
proof -
  obtain S where S: "i A_activeSessionId = Some (AvS S)" "l_ActiveSessionID (unmarshal_Link i) = S"
    using assms(3) by (auto simp: unmarshal_Link_def get_s_def split: option.splits av.splits)
  then show "active t (l_ActiveSessionID (unmarshal_Link i))"
    "at t (KSession, l_ActiveSessionID (unmarshal_Link i)) A_linkId = Some (AvS L)"
    using Inv_link_ptr [OF assms(1), of L] assms(2) by (auto simp: link_ptr_def at_Some)
  then show "t (KSession, l_ActiveSessionID (unmarshal_Link i)) \<noteq> None"
    using active_row by force
qed

lemma endpoint_pointer_read:
  assumes "Inv t" "t (KEndpoint, E) = Some i" "e_ActiveSessionID (unmarshal_Endpoint i) \<noteq> ''''"
  shows "t (KSession, e_ActiveSessionID (unmarshal_Endpoint i)) \<noteq> None"
    "at t (KSession, e_ActiveSessionID (unmarshal_Endpoint i)) A_controllerId = Some (AvS E) \<or>
     at t (KSession, e_ActiveSessionID (unmarshal_Endpoint i)) A_companionId = Some (AvS E)"
proof -
  obtain S where S: "i A_activeSessionId = Some (AvS S)" "e_ActiveSessionID (unmarshal_Endpoint i) = S"
    using assms(3) by (auto simp: unmarshal_Endpoint_def get_s_def split: option.splits av.splits)
  then show "t (KSession, e_ActiveSessionID (unmarshal_Endpoint i)) \<noteq> None"
    "at t (KSession, e_ActiveSessionID (unmarshal_Endpoint i)) A_controllerId = Some (AvS E) \<or>
     at t (KSession, e_ActiveSessionID (unmarshal_Endpoint i)) A_companionId = Some (AvS E)"
    using Inv_endpoint_ptr [OF assms(1), of E] assms(2) by (auto simp: endpoint_ptr_def at_Some)
qed

lemma endpoint_id_read:
  assumes "Inv t" "t (KEndpoint, E) = Some i"
  shows "e_EndpointID (unmarshal_Endpoint i) = E"
  using Inv_form [OF assms] by (simp add: endpoint_form_def unmarshal_Endpoint_def get_s_def)

lemma link_id_read:
  assumes "Inv t" "t (KLink, L) = Some i"
  shows "l_LinkID (unmarshal_Link i) = L"
  using Inv_form [OF assms] by (auto simp: link_form_def unmarshal_Link_def get_s_def)

end
