(* ===== verification/RelayOps.thy ===== *)
theory RelayOps
  imports RelaySafe
begin

text \<open>
  The session transition \<^verbatim>\<open>transactSessionTransition\<close> keeps the invariant of the table: its reads of the
  link and the endpoints find every lock of a session that is still active when the transaction
  takes place, so that closing a session and releasing its locks happen together. Then the operations
  built on it: \<^verbatim>\<open>CloseSession\<close>, \<^verbatim>\<open>Session\<close> and the commit of \<^verbatim>\<open>Connect\<close>.
\<close>

section \<open>The session transition\<close>

lemma plain_evolves_empty:
  assumes "Inv t" "\<forall>w \<in> set ws. plain t {} w" "writes_ok ws t"
  shows "evolves t (apply_writes ws t)"
  by (rule plain_evolves [of _ _ "{}"]) (use assms in auto)

text \<open>Which writes the two helper programs collect.\<close>

lemma safe_linkOps:
  assumes "Inv t" "knows t S sess"
  shows "safe (linkOps sess omit) t (\<lambda>r t'. \<forall>ops. r = Inr ops \<longrightarrow>
    (\<forall>w \<in> set ops. w = unlinkWrite (s_LinkID sess) S) \<and>
    (\<forall>t''. evolves t' t'' \<longrightarrow> active t'' S \<longrightarrow>
       (KLink, s_LinkID sess) \<in> set omit \<or> unlinkWrite (s_LinkID sess) S \<in> set ops))"
proof (cases "(KLink, s_LinkID sess) \<in> set omit")
  case True
  then show ?thesis by (simp add: linkOps_def)
next
  case False
  have sid: "s_SessionID sess = S" using assms(2) by (simp add: knows_def)
  have "unlinkWrite (s_LinkID sess) S \<in> set (case map_option unmarshal_Link (t' (KLink, s_LinkID sess)) of
      None \<Rightarrow> []
    | Some l \<Rightarrow> if l_ActiveSessionID l = s_SessionID sess
               then [unlinkWrite (s_LinkID sess) (s_SessionID sess)] else [])"
    if e: "evolves t t'" "evolves t' t''" and a: "active t'' S" for t' t''
  proof -
    have i: "Inv t'" and k: "knows t' S sess"
      using evolves_Inv [OF e(1) assms(1)] knows_stable [OF e(1) assms] by auto
    then have "active t' S"
      using active_before [OF e(2) i _ a] by (simp add: knows_def)
    then obtain L where L: "at t' (KSession, S) A_linkId = Some (AvS L)"
        "at t' (KLink, L) A_activeSessionId = Some (AvS S)"
      using Inv_locked [OF i] by (auto simp: locked_def)
    then have "L = s_LinkID sess" using k by (simp add: knows_def)
    then obtain j where "t' (KLink, s_LinkID sess) = Some j" "j A_activeSessionId = Some (AvS S)"
      using at_row [OF L(2)] by blast
    then show ?thesis by (simp add: unmarshal_Link_def get_s_def sid)
  qed
  then show ?thesis
    using False unfolding linkOps_def
    by (simp add: safe_bindE Store_Link_def)
      (rule safe_get_as; auto simp: sid split: option.splits)
qed

definition covers :: "string \<Rightarrow> row_key list \<Rightarrow> string list \<Rightarrow> err + (twrite list \<times> string list) \<Rightarrow>
    table \<Rightarrow> bool" where
  "covers S omit es r t \<longleftrightarrow> (\<forall>ops fenced. r = Inr (ops, fenced) \<longrightarrow>
    (\<forall>w \<in> set ops. \<exists>e f. w = unpointWrite e S f) \<and>
    (\<forall>t' e. evolves t t' \<longrightarrow> active t' S \<longrightarrow> e \<in> set es \<longrightarrow> e \<noteq> '''' \<longrightarrow>
       (KEndpoint, e) \<in> set omit \<or> (\<exists>f. unpointWrite e S f \<in> set ops)))"

lemma endpoint_lock_known:
  assumes "Inv t" "knows t S sess" "active t S" "e \<in> {s_ControllerID sess, s_CompanionID sess}"
  shows "\<exists>j. t (KEndpoint, e) = Some j \<and> e_ActiveSessionID (unmarshal_Endpoint j) = S"
proof -
  have "locked t S" using Inv_locked [OF assms(1,3)] .
  then have "at t (KEndpoint, e) A_activeSessionId = Some (AvS S)"
    using assms(2,4) by (auto simp: locked_def holds_lock_def knows_def)
  then obtain j where "t (KEndpoint, e) = Some j" "j A_activeSessionId = Some (AvS S)"
    using at_row by blast
  then show ?thesis by (simp add: unmarshal_Endpoint_def get_s_def)
qed

lemma safe_endpointOps:
  assumes "Inv t" "knows t S sess" "set es \<subseteq> {s_ControllerID sess, s_CompanionID sess}"
  shows "safe (endpointOps S omit fences es) t (covers S omit es)"
  using assms
proof (induction es arbitrary: t)
  case Nil
  then show ?case by (simp add: covers_def)
next
  case (Cons e es)
  have hd: "e \<in> {s_ControllerID sess, s_CompanionID sess}"
    and tl: "set es \<subseteq> {s_ControllerID sess, s_CompanionID sess}" using Cons.prems by auto
  show ?case
  proof (cases "e = '''' \<or> (KEndpoint, e) \<in> set omit")
    case True
    have "safe (endpointOps S omit fences es) t (covers S omit (e # es))"
      by (rule safe_weaken [OF Cons.IH [OF Cons.prems(1,2) tl]])
        (use True in \<open>auto simp: covers_def\<close>)
    then show ?thesis using True by auto
  next
    case False
    have step: "safe (bindE (endpointOps S omit fences es) (\<lambda>(ops, fenced).
          case map_option unmarshal_Endpoint (t' (KEndpoint, e)) of
            None \<Rightarrow> okP (ops, fenced)
          | Some ep \<Rightarrow>
              if e_ActiveSessionID ep = S
              then okP (unpointWrite e S (fence_of fences e) # ops,
                        (if fence_of fences e \<noteq> None then e # fenced else fenced))
              else okP (ops, fenced))) t' (covers S omit (e # es))"
      if e': "evolves t t'" for t'
    proof -
      have i: "Inv t'" and k: "knows t' S sess"
        using evolves_Inv [OF e' Cons.prems(1)] knows_stable [OF e' Cons.prems(1,2)] by auto
      have ptr: "\<exists>j. t' (KEndpoint, e) = Some j \<and> e_ActiveSessionID (unmarshal_Endpoint j) = S"
        if "evolves t' t''" "active t'' S" for t''
        by (rule endpoint_lock_known [OF i k _ hd])
          (use active_before [OF that(1) i _ that(2)] k in \<open>simp add: knows_def\<close>)
      show ?thesis
        unfolding safe_bindE
      proof (rule safe_weaken [OF safe_reached [OF Cons.IH [OF i k tl]]])
        fix r t1
        assume r: "evolves t' t1 \<and> covers S omit es r t1"
        have "\<exists>j. t' (KEndpoint, e) = Some j \<and> e_ActiveSessionID (unmarshal_Endpoint j) = S"
          if "evolves t1 t''" "active t'' S" for t''
          using ptr that r evolves_trans by blast
        then show "case r of Inl err \<Rightarrow> covers S omit (e # es) (Inl err) t1
          | Inr x \<Rightarrow> safe (case x of (ops, fenced) \<Rightarrow>
              case map_option unmarshal_Endpoint (t' (KEndpoint, e)) of
                None \<Rightarrow> okP (ops, fenced)
              | Some ep \<Rightarrow>
                  if e_ActiveSessionID ep = S
                  then okP (unpointWrite e S (fence_of fences e) # ops,
                            (if fence_of fences e \<noteq> None then e # fenced else fenced))
                  else okP (ops, fenced)) t1 (covers S omit (e # es))"
          using r False
          by (cases r; cases "t' (KEndpoint, e)") (auto simp: covers_def split: prod.splits, blast)
      qed
    qed
    have "safe (GetEndpoint e) t (\<lambda>r t'. case r of
        Inl err \<Rightarrow> covers S omit (e # es) (Inl err) t'
      | Inr endpoint \<Rightarrow> safe (bindE (endpointOps S omit fences es) (\<lambda>(ops, fenced).
          case endpoint of
            None \<Rightarrow> okP (ops, fenced)
          | Some ep \<Rightarrow>
              if e_ActiveSessionID ep = S
              then okP (unpointWrite e S (fence_of fences e) # ops,
                        (if fence_of fences e \<noteq> None then e # fenced else fenced))
              else okP (ops, fenced))) t' (covers S omit (e # es)))"
      unfolding GetEndpoint_def
    proof (rule safe_get_as)
      fix t' assume "evolves t t'"
      from step [OF this] show "case Inr (map_option unmarshal_Endpoint (t' (KEndpoint, e))) of
        Inl err \<Rightarrow> covers S omit (e # es) (Inl err) t'
      | Inr endpoint \<Rightarrow> safe (bindE (endpointOps S omit fences es) (\<lambda>(ops, fenced).
          case endpoint of
            None \<Rightarrow> okP (ops, fenced)
          | Some ep \<Rightarrow>
              if e_ActiveSessionID ep = S
              then okP (unpointWrite e S (fence_of fences e) # ops,
                        (if fence_of fences e \<noteq> None then e # fenced else fenced))
              else okP (ops, fenced))) t' (covers S omit (e # es))"
        unfolding sum.case .
    qed (simp add: covers_def)
    then show ?thesis
      using False by (simp only: endpointOps.simps if_False safe_bindE [of "GetEndpoint e"])
  qed
qed

lemma write_key_unlinkWrite [simp]: "write_key (unlinkWrite L S) = (KLink, L)"
  by (simp add: unlinkWrite_def)

lemma write_key_unpointWrite [simp]: "write_key (unpointWrite E S f) = (KEndpoint, E)"
  by (simp add: unpointWrite_def)

text \<open>A row whose lock a write of the transaction removes has no lock afterwards.\<close>

definition unlocks :: "twrite \<Rightarrow> bool" where
  "unlocks w \<longleftrightarrow> (\<forall>t. at (apply_write w t) (write_key w) A_activeSessionId = None)"

lemma unlocks_unlinkWrite [simp]: "unlocks (unlinkWrite L S)"
  by (simp add: unlocks_def unlinkWrite_def at_def update_item_def)

lemma unlocks_unpointWrite [simp]: "unlocks (unpointWrite E S f)"
  by (simp add: unlocks_def unpointWrite_def at_def update_item_def)

lemma unlocked:
  assumes "writes_ok ws t" "w \<in> set ws" "unlocks w"
  shows "at (apply_writes ws t) (write_key w) A_activeSessionId = None"
proof -
  have "apply_writes ws t (write_key w) = apply_write w t (write_key w)"
    using assms(1,2) by (intro apply_writes_at) (auto simp: writes_ok_def)
  then show ?thesis using assms(3) by (simp add: unlocks_def at_def)
qed

lemma plain_ptr_back:
  assumes "writes_ok ws t" "\<forall>w \<in> set ws. plain t C w" "k = (KEndpoint, E) \<or> k = (KLink, E)"
    and "at (apply_writes ws t) k A_activeSessionId = Some v"
  shows "at t k A_activeSessionId = Some v"
proof (cases "apply_writes ws t k = t k")
  case True
  then show ?thesis using assms(4) by (simp add: at_def)
next
  case False
  obtain j where "apply_writes ws t k = Some j" "j A_activeSessionId = Some v"
    using at_row [OF assms(4)] by blast
  then show ?thesis
    using False plain_rows [OF assms(1,2), of k] assms(3) by (auto simp: plain_row_def ptr_ok_def)
qed

text \<open>A transaction that closes a session and unlocks its link and endpoints leaves no lock on it.\<close>

lemma closing_cleared:
  assumes inv: "Inv t" "active t S" and sess: "knows t S sess"
    and ok: "writes_ok ws t" and pl: "\<forall>w \<in> set ws. plain t {S} w"
    and close: "closeWrite S now \<in> set ws"
    and link: "\<exists>w \<in> set ws. write_key w = (KLink, s_LinkID sess) \<and> unlocks w"
    and eps: "\<And>e. e \<in> {s_ControllerID sess, s_CompanionID sess} \<Longrightarrow> e \<noteq> '''' \<Longrightarrow>
        \<exists>w \<in> set ws. write_key w = (KEndpoint, e) \<and> unlocks w"
  shows "cleared (apply_writes ws t) S"
  unfolding cleared_def
proof (intro conjI allI impI)
  have "apply_writes ws t (write_key (closeWrite S now)) =
      apply_write (closeWrite S now) t (write_key (closeWrite S now))"
    using ok close by (intro apply_writes_at) (auto simp: writes_ok_def)
  then show "\<not> active (apply_writes ws t) S"
    by (simp add: active_def at_def closeWrite_def update_item_def)
next
  fix E :: string assume E: "E \<noteq> ''''"
  show "at (apply_writes ws t) (KEndpoint, E) A_activeSessionId \<noteq> Some (AvS S)"
  proof
    assume a: "at (apply_writes ws t) (KEndpoint, E) A_activeSessionId = Some (AvS S)"
    have "at t (KEndpoint, E) A_activeSessionId = Some (AvS S)"
      by (rule plain_ptr_back [OF ok pl _ a]) simp
    then have "E \<in> {s_ControllerID sess, s_CompanionID sess}"
      using Inv_endpoint_ptr [OF inv(1), of E] sess by (auto simp: endpoint_ptr_def knows_def)
    then obtain w where "w \<in> set ws" "write_key w = (KEndpoint, E)" "unlocks w"
      using eps E by blast
    then show False using unlocked [OF ok] a by fastforce
  qed
next
  fix L
  show "at (apply_writes ws t) (KLink, L) A_activeSessionId \<noteq> Some (AvS S)"
  proof
    assume a: "at (apply_writes ws t) (KLink, L) A_activeSessionId = Some (AvS S)"
    have "at t (KLink, L) A_activeSessionId = Some (AvS S)"
      by (rule plain_ptr_back [OF ok pl _ a]) simp
    then have "L = s_LinkID sess"
      using Inv_link_ptr [OF inv(1), of L] sess by (auto simp: link_ptr_def knows_def)
    then show False using link unlocked [OF ok] a by fastforce
  qed
qed

definition closing :: "Session \<Rightarrow> string set" where
  "closing sess = (if s_Status sess = ''ACTIVE'' then {s_SessionID sess} else {})"

lemma safe_transition:
  assumes inv: "Inv t" and sess: "knows t S sess"
    and pre: "\<And>t' w. evolves t t' \<Longrightarrow> Inv t' \<Longrightarrow> w \<in> set prefix \<Longrightarrow> write_ok t' w \<Longrightarrow>
        plain t' (closing sess) w"
    and om: "\<And>k. k \<in> set omit \<Longrightarrow> \<exists>w \<in> set prefix. write_key w = k \<and> unlocks w"
    and Q: "\<And>r t'. Q r t'"
  shows "safe (transactSessionTransition sess now prefix omit fences) t Q"
proof -
  have sid: "s_SessionID sess = S" using sess by (simp add: knows_def)
  let ?close = "if s_Status sess = ''ACTIVE'' then [closeWrite S now] else []"
  let ?ws = "\<lambda>lops eops fenced. prefix @ ?close @ lops @ eops @ fenceOps omit fences fenced"
  have main: "evolves t3 (apply_writes (?ws lops eops fenced) t3)"
    if e: "evolves t t1" "evolves t1 t2" "evolves t2 t3"
      and l1: "\<forall>w \<in> set lops. w = unlinkWrite (s_LinkID sess) S"
      and l2: "\<forall>t''. evolves t1 t'' \<longrightarrow> active t'' S \<longrightarrow>
         (KLink, s_LinkID sess) \<in> set omit \<or> unlinkWrite (s_LinkID sess) S \<in> set lops"
      and c: "covers S omit [s_ControllerID sess, s_CompanionID sess] (Inr (eops, fenced)) t2"
      and ok: "writes_ok (?ws lops eops fenced) t3"
    for t1 t2 t3 lops eops fenced
  proof -
    have e3: "evolves t t3" and e13: "evolves t1 t3" using e evolves_trans by blast+
    have i: "Inv t3" and k: "knows t3 S sess"
      using evolves_Inv [OF e3 inv] knows_stable [OF e3 inv sess] by auto
    have na: "S \<in> closing sess \<or> \<not> active t3 S"
      using k by (auto simp: closing_def knows_def)
    have pl: "plain t3 (closing sess) w" if w: "w \<in> set (?ws lops eops fenced)" for w
    proof -
      have wok: "write_ok t3 w" using ok w unfolding writes_ok_def list_all_iff by blast
      from w consider (pre) "w \<in> set prefix" | (close) "w \<in> set ?close" | (l) "w \<in> set lops"
        | (e) "w \<in> set eops" | (f) "w \<in> set (fenceOps omit fences fenced)"
        unfolding set_append by blast
      then show ?thesis
      proof cases
        case pre
        then show ?thesis using assms(3) [OF e3 i _ wok] by blast
      next
        case close
        then have "s_Status sess = ''ACTIVE''" "w = closeWrite S now" by (simp_all split: if_splits)
        then show ?thesis using plain_closeWrite [OF i] sid by (simp add: closing_def)
      next
        case l
        then have "w = unlinkWrite (s_LinkID sess) S" using l1 by blast
        then show ?thesis using plain_unlinkWrite [OF i na] by simp
      next
        case e
        then obtain x f where "w = unpointWrite x S f" using c by (auto simp: covers_def)
        then show ?thesis using plain_unpointWrite [OF i na] by simp
      next
        case f
        then show ?thesis by (auto simp: fenceOps_def)
      qed
    qed
    show ?thesis
    proof (rule plain_evolves [OF i ok])
      show "\<forall>w \<in> set (?ws lops eops fenced). plain t3 (closing sess) w" using pl by blast
      show "\<forall>S' \<in> closing sess. active t3 S' \<longrightarrow> cleared (apply_writes (?ws lops eops fenced) t3) S'"
      proof (intro ballI impI)
        fix S' assume S': "S' \<in> closing sess" "active t3 S'"
        then have c': "S' = S" "closing sess = {S}" "s_Status sess = ''ACTIVE''"
          using sid by (auto simp: closing_def split: if_splits)
        have link: "\<exists>w \<in> set (?ws lops eops fenced). write_key w = (KLink, s_LinkID sess) \<and> unlocks w"
        proof (cases "(KLink, s_LinkID sess) \<in> set omit")
          case True
          then show ?thesis using om by fastforce
        next
          case False
          then have "unlinkWrite (s_LinkID sess) S \<in> set lops" using l2 e13 S' c' by blast
          then show ?thesis
            by (intro bexI [of _ "unlinkWrite (s_LinkID sess) S"]) auto
        qed
        have eps: "\<exists>w \<in> set (?ws lops eops fenced). write_key w = (KEndpoint, e) \<and> unlocks w"
          if x: "e \<in> {s_ControllerID sess, s_CompanionID sess}" "e \<noteq> ''''" for e
        proof (cases "(KEndpoint, e) \<in> set omit")
          case True
          then show ?thesis using om by fastforce
        next
          case False
          have a3: "active t3 S" using S' c' by simp
          have "\<forall>t' e. evolves t2 t' \<longrightarrow> active t' S \<longrightarrow>
              e \<in> set [s_ControllerID sess, s_CompanionID sess] \<longrightarrow> e \<noteq> [] \<longrightarrow>
              (KEndpoint, e) \<in> set omit \<or> (\<exists>f. unpointWrite e S f \<in> set eops)"
            using c unfolding covers_def by blast
          from this [rule_format, OF e(3) a3, of e] False x
          obtain f where "unpointWrite e S f \<in> set eops" by auto
          then show ?thesis
            by (intro bexI [of _ "unpointWrite e S f"]) auto
        qed
        show "cleared (apply_writes (?ws lops eops fenced) t3) S'"
          unfolding c'(1)
        proof (rule closing_cleared [OF i _ k ok])
          show "active t3 S" using S' c' by simp
          show "\<forall>w \<in> set (?ws lops eops fenced). plain t3 {S} w" using pl c'(2) by simp
          show "closeWrite S now \<in> set (?ws lops eops fenced)" using c'(3) by simp
        qed (fact link, fact eps)
      qed
    qed
  qed
  show ?thesis
    unfolding transactSessionTransition_def Let_def safe_bindE sid
  proof (rule safe_weaken [OF safe_reached [OF safe_linkOps [OF inv sess]]])
    fix r :: "err + twrite list" and t1
    assume r: "evolves t t1 \<and> (\<forall>ops. r = Inr ops \<longrightarrow>
      (\<forall>w \<in> set ops. w = unlinkWrite (s_LinkID sess) S) \<and>
      (\<forall>t''. evolves t1 t'' \<longrightarrow> active t'' S \<longrightarrow>
         (KLink, s_LinkID sess) \<in> set omit \<or> unlinkWrite (s_LinkID sess) S \<in> set ops))"
    then have i1: "Inv t1" and k1: "knows t1 S sess"
      using evolves_Inv [OF _ inv] knows_stable [OF _ inv sess] by auto
    show "case r of Inl e \<Rightarrow> Q (Inl e) t1
      | Inr lops \<Rightarrow> safe (endpointOps S omit fences [s_ControllerID sess, s_CompanionID sess]) t1
          (\<lambda>r t'. case r of Inl e \<Rightarrow> Q (Inl e) t'
            | Inr x \<Rightarrow> safe (case x of (eops, fenced) \<Rightarrow>
                if ?ws lops eops fenced = [] then okP False
                else bindP (transactP (?ws lops eops fenced))
                  (\<lambda>e. case e of None \<Rightarrow> okP (s_Status sess = ''ACTIVE'') | Some x \<Rightarrow> failP x)) t' Q)"
    proof (cases r)
      case (Inl e)
      then show ?thesis by (simp add: Q)
    next
      case (Inr lops)
      have "safe (endpointOps S omit fences [s_ControllerID sess, s_CompanionID sess]) t1
          (\<lambda>r t'. case r of Inl e \<Rightarrow> Q (Inl e) t'
            | Inr x \<Rightarrow> safe (case x of (eops, fenced) \<Rightarrow>
                if ?ws lops eops fenced = [] then okP False
                else bindP (transactP (?ws lops eops fenced))
                  (\<lambda>e. case e of None \<Rightarrow> okP (s_Status sess = ''ACTIVE'') | Some x \<Rightarrow> failP x)) t' Q)"
      proof (rule safe_weaken [OF safe_reached [OF safe_endpointOps [OF i1 k1]]])
        show "set [s_ControllerID sess, s_CompanionID sess] \<subseteq> {s_ControllerID sess, s_CompanionID sess}"
          by simp
      next
        fix r2 :: "err + (twrite list \<times> string list)" and t2
        assume r2: "evolves t1 t2 \<and> covers S omit [s_ControllerID sess, s_CompanionID sess] r2 t2"
        show "case r2 of Inl e \<Rightarrow> Q (Inl e) t2
            | Inr x \<Rightarrow> safe (case x of (eops, fenced) \<Rightarrow>
                if ?ws lops eops fenced = [] then okP False
                else bindP (transactP (?ws lops eops fenced))
                  (\<lambda>e. case e of None \<Rightarrow> okP (s_Status sess = ''ACTIVE'') | Some x \<Rightarrow> failP x)) t2 Q"
        proof (cases r2)
          case (Inl e)
          then show ?thesis by (simp add: Q)
        next
          case (Inr x)
          obtain eops fenced where x: "x = (eops, fenced)" by fastforce
          have "safe (transactP (?ws lops eops fenced)) t2 Q'" if "\<And>r t'. Q' r t'" for Q'
            by (rule safe_transactP [OF main that])
              (use r r2 Inr x \<open>r = Inr lops\<close> in auto)
          then show ?thesis
            using Inr x by (simp add: Q gs_bindP split: option.splits)
        qed
      qed
      then show ?thesis using Inr by simp
    qed
  qed
qed

section \<open>Transactions without a session to close\<close>

lemma safe_plain_transact:
  assumes "Inv t"
    and "\<And>t' w. evolves t t' \<Longrightarrow> Inv t' \<Longrightarrow> w \<in> set ws \<Longrightarrow> write_ok t' w \<Longrightarrow> plain t' {} w"
    and "\<And>r t'. Q r t'"
  shows "safe (transactP ws) t Q"
proof (rule safe_transactP [OF _ assms(3)])
  fix t' assume e: "evolves t t'" and ok: "writes_ok ws t'"
  have i: "Inv t'" using evolves_Inv [OF e assms(1)] .
  show "evolves t' (apply_writes ws t')"
    by (rule plain_evolves_empty [OF i _ ok])
      (use assms(2) [OF e i] ok in \<open>auto simp: writes_ok_def list_all_iff\<close>)
qed

lemma safe_plain_update:
  assumes "Inv t"
    and "\<And>t'. evolves t t' \<Longrightarrow> Inv t' \<Longrightarrow> write_ok t' u \<Longrightarrow> plain t' {} u"
    and "\<And>r t'. Q r t'"
  shows "safe (updateP u) t Q"
proof (rule safe_updateP [OF _ assms(3)])
  fix t' assume e: "evolves t t'" and ok: "writes_ok [u] t'"
  have i: "Inv t'" using evolves_Inv [OF e assms(1)] .
  show "evolves t' (apply_writes [u] t')"
    by (rule plain_evolves_empty [OF i _ ok])
      (use assms(2) [OF e i] ok in \<open>auto simp: writes_ok_def list_all_iff\<close>)
qed

lemma safe_currentEndpoint:
  assumes "\<And>t' i. evolves t t' \<Longrightarrow> t' (KEndpoint, E) = Some i \<Longrightarrow> E \<noteq> '''' \<Longrightarrow>
        e_ConnectionID (unmarshal_Endpoint i) = c \<Longrightarrow> Q (Inr (unmarshal_Endpoint i)) t'"
    and "\<And>t' e. evolves t t' \<Longrightarrow> Q (Inl e) t'"
  shows "safe (currentEndpoint E c) t Q"
proof (cases "E = '''' \<or> c = ''''")
  case True
  then show ?thesis by (simp add: currentEndpoint_def assms(2))
next
  case False
  then show ?thesis
    by (simp add: currentEndpoint_def safe_bindE GetEndpoint_def)
      (rule safe_get_as; use assms in \<open>auto split: option.splits\<close>)
qed

lemma keeps_GetEndpoint: "keeps (GetEndpoint E)"
  by (rule keepsI) (simp add: GetEndpoint_def, rule safe_get_as, simp_all)

lemma keeps_get_as: "keeps (get_as f k)"
  by (rule keepsI) (rule safe_get_as, simp_all)

lemma keeps_currentEndpoint: "keeps (currentEndpoint E c)"
  by (rule keepsI) (rule safe_currentEndpoint, simp_all)

lemma keeps_failP [simp]: "keeps (failP e)"
  by (simp add: keeps_def)

lemma keeps_okP [simp]: "keeps (okP x)"
  by (simp add: keeps_def)

lemma keeps_bindP:
  assumes "keeps p" "\<And>x. keeps (f x)"
  shows "keeps (bindP p f)"
proof (rule keepsI)
  fix t assume t: "Inv t"
  have "safe p t (\<lambda>r t'. evolves t t' \<and> True)"
    by (rule safe_reached) (use assms(1) t in \<open>simp add: keeps_def\<close>)
  then show "safe (bindP p f) t (\<lambda>_ _. True)"
    unfolding gs_bindP
    by (rule safe_weaken) (use assms(2) t evolves_Inv in \<open>auto simp: keeps_def\<close>)
qed

lemma keeps_tryR:
  assumes "keeps p" "\<And>x. keeps (f x)"
  shows "keeps (tryR p f)"
  unfolding tryR_def
  by (rule keeps_bindP [OF assms(1)]) (use assms(2) in \<open>auto simp: keeps_def split: sum.splits\<close>)

lemma keeps_Ret [simp]: "keeps (Ret x)"
  by (simp add: keeps_def)

lemma keeps_update_plain:
  "(\<And>t. Inv t \<Longrightarrow> plain t {} u) \<Longrightarrow> keeps (updateP u)"
  by (rule keepsI) (rule safe_plain_update, simp_all)

lemma keeps_transact_plain:
  "(\<And>t w. Inv t \<Longrightarrow> w \<in> set ws \<Longrightarrow> plain t {} w) \<Longrightarrow> keeps (transactP ws)"
  by (rule keepsI) (rule safe_plain_transact, simp_all)

text \<open>A session row that was read.\<close>

lemma safe_get_session:
  assumes "Inv t"
    and "\<And>t'. evolves t t' \<Longrightarrow> Inv t' \<Longrightarrow> t' (KSession, S) = None \<Longrightarrow> Q (Inr None) t'"
    and "\<And>t' sess. evolves t t' \<Longrightarrow> Inv t' \<Longrightarrow> knows t' S sess \<Longrightarrow> Q (Inr (Some sess)) t'"
    and "\<And>t' e. Q (Inl e) t'"
  shows "safe (get_as unmarshal_Session (KSession, S)) t Q"
proof (rule safe_get_as)
  fix t' assume e: "evolves t t'"
  have i: "Inv t'" using evolves_Inv [OF e assms(1)] .
  show "Q (Inr (map_option unmarshal_Session (t' (KSession, S)))) t'"
    using assms(2) [OF e i] assms(3) [OF e i knows_read [OF i]] by (cases "t' (KSession, S)") auto
qed (rule assms(4))

section \<open>Sessions\<close>

lemma keeps_CloseSession_attempt: "keeps (CloseSession_attempt S E c now)"
  unfolding CloseSession_attempt_def
proof (rule keeps_tryR)
  show "keeps (if E \<noteq> '''' then bindE (currentEndpoint E c) (\<lambda>_. okP ())
      else if c \<noteq> '''' then failP (serviceError Unauthenticated) else okP ())"
    by (auto intro: keeps_bindE keeps_currentEndpoint)
next
  fix u :: unit
  show "keeps (tryR (get_as unmarshal_Session (KSession, S)) (\<lambda>found.
        case found of
          None \<Rightarrow> Ret (Return (Inr None))
        | Some session \<Rightarrow>
            if E \<noteq> '''' \<and> s_ControllerID session \<noteq> E \<and> s_CompanionID session \<noteq> E
            then Ret (Return (Inl (serviceError Forbidden)))
            else
              bindP (transactSessionTransition session now [] []
                       (if E \<noteq> '''' then [(E, c)] else []))
                (afterTransition (\<lambda>closed. Some
                   \<lparr>csr_Session = (if closed then closedSession session now else session),
                    csr_ClosedNow = closed\<rparr>))))"
    (is "keeps (tryR _ ?body)")
  proof (rule keepsI)
    fix t assume t: "Inv t"
    show "safe (tryR (get_as unmarshal_Session (KSession, S)) ?body) t (\<lambda>_ _. True)"
      unfolding safe_tryR
    proof (rule safe_get_session [OF t])
      fix t' sess assume "Inv t'" "knows t' S sess"
      then have "safe (transactSessionTransition sess now [] [] f) t' Q" if "\<And>r t'. Q r t'" for Q f
        by (rule safe_transition) (simp_all add: that)
      then show "case Inr (Some sess) of Inl e \<Rightarrow> True | Inr x \<Rightarrow> safe (?body x) t' (\<lambda>_ _. True)"
        by (simp add: gs_bindP)
    qed simp_all
  qed
qed

lemma keeps_CloseSession: "keeps (CloseSession S E c now)"
  unfolding CloseSession_def by (intro safe_retry keeps_CloseSession_attempt keeps_failP)

lemma keeps_Store_Session: "keeps (Store_Session S now)"
  unfolding Store_Session_def
  by (intro keeps_bindE keeps_get_as)
    (auto split: option.splits intro: keeps_bindE keeps_CloseSession)

section \<open>Connecting\<close>

lemma connect_lock:
  assumes "write_ok t (connectEndpointWrite conn h ep)"
    and "at t (KEndpoint, c_EndpointID conn) A_activeSessionId = Some (AvS S)"
  shows "S = e_ActiveSessionID ep \<and> S \<noteq> ''''"
  using assms by (auto simp: connectEndpointWrite_def write_ok_def at_def split: if_splits)

lemma plain_connectOps:
  assumes "Inv t" "w \<in> set (connectOps conn h ep same)" "write_ok t w"
    and "e_ActiveSessionID ep \<in> C \<or> \<not> active t (e_ActiveSessionID ep) \<or>
      at t (KEndpoint, c_EndpointID conn) A_activeSessionId \<noteq> Some (AvS (e_ActiveSessionID ep))"
  shows "plain t C w"
proof -
  consider "fst (write_key w) = KConnection" | "w = connectEndpointWrite conn h ep"
    using assms(2) by (auto simp: connectOps_def connectPut_def split: if_splits)
  then show ?thesis
  proof cases
    case 1
    then show ?thesis by (rule plain_connection)
  next
    case 2
    then show ?thesis
      using plain_endpoint_unlock [OF assms(1), of "c_EndpointID conn" w C]
        connect_lock [of t conn h ep] assms(3,4) by blast
  qed
qed

lemma safe_connectCommit:
  assumes t: "Inv t" and id: "e_EndpointID ep = c_EndpointID conn" "c_EndpointID conn \<noteq> ''''"
    and none: "session = None \<Longrightarrow> e_ActiveSessionID ep = ''''"
    and some: "\<And>sess. session = Some sess \<Longrightarrow> knows t (e_ActiveSessionID ep) sess"
  shows "safe (connectCommit conn h ep same session) t (\<lambda>_ _. True)"
proof -
  let ?ops = "connectOps conn h ep same"
  have direct: "safe (bindP (transactP ?ops) (afterWrite v)) t (\<lambda>_ _. True)"
    if "\<And>t'. evolves t t' \<Longrightarrow> Inv t' \<Longrightarrow> e_ActiveSessionID ep \<noteq> '''' \<Longrightarrow>
      at t' (KEndpoint, c_EndpointID conn) A_activeSessionId \<noteq> Some (AvS (e_ActiveSessionID ep))"
    for v :: "CloseSessionResult option"
    unfolding gs_bindP
  proof (rule safe_plain_transact [OF t])
    fix t' w assume w: "evolves t t'" "Inv t'" "w \<in> set ?ops" "write_ok t' w"
    show "plain t' {} w"
    proof (cases "e_ActiveSessionID ep = ''''")
      case True
      have "plain t' {} w" if "w = connectEndpointWrite conn h ep"
        using plain_endpoint_unlock [OF w(2), of "c_EndpointID conn" w] connect_lock [of t' conn h ep]
          that w(4) True by blast
      then show ?thesis
        using w(3) by (auto simp: connectOps_def connectPut_def plain_connection split: if_splits)
    next
      case False
      then show ?thesis using plain_connectOps [OF w(2,3,4)] that [OF w(1,2)] by blast
    qed
  qed simp
  show ?thesis
  proof (cases session)
    case None
    then show ?thesis using direct none by (simp add: connectCommit_def Let_def)
  next
    case (Some sess)
    note k = some [OF Some]
    show ?thesis
    proof (cases "e_ActiveSessionID ep \<noteq> '''' \<and>
        (s_ControllerID sess = e_EndpointID ep \<or> s_CompanionID sess = e_EndpointID ep)")
      case True
      have "safe (transactSessionTransition sess (c_ConnectedAt conn) ?ops
          [(KEndpoint, e_EndpointID ep)] []) t Q" if "\<And>r t'. Q r t'" for Q
      proof (rule safe_transition [OF t k _ _ that])
        fix t' w assume w: "evolves t t'" "Inv t'" "w \<in> set ?ops" "write_ok t' w"
        have "knows t' (e_ActiveSessionID ep) sess" by (rule knows_stable [OF w(1) t k])
        then show "plain t' (closing sess) w"
          by (intro plain_connectOps [OF w(2-4)]) (auto simp: knows_def closing_def)
      next
        fix k assume "k \<in> set [(KEndpoint, e_EndpointID ep)]"
        then show "\<exists>w \<in> set ?ops. write_key w = k \<and> unlocks w"
          using True id
          by (intro bexI [of _ "connectEndpointWrite conn h ep"])
            (auto simp: connectOps_def connectEndpointWrite_def unlocks_def at_def update_item_def)
      qed
      then show ?thesis
        using Some True by (simp add: connectCommit_def Let_def gs_bindP)
    next
      case False
      have "at t' (KEndpoint, c_EndpointID conn) A_activeSessionId \<noteq> Some (AvS (e_ActiveSessionID ep))"
        if e: "evolves t t'" "Inv t'" "e_ActiveSessionID ep \<noteq> ''''" for t'
        using Inv_endpoint_ptr [OF e(2), of "c_EndpointID conn"] knows_stable [OF e(1) t k] False e(3) id
        by (auto simp: endpoint_ptr_def knows_def)
      then have "safe (bindP (transactP ?ops) (afterWrite v)) t (\<lambda>_ _. True)"
        for v :: "CloseSessionResult option"
        by (rule direct)
      then show ?thesis
        by (simp only: connectCommit_def Let_def option.case Some False if_False)
    qed
  qed
qed

end
