(* ===== verification/RelayEvolve.thy ===== *)
theory RelayEvolve
  imports RelayOps
begin

text \<open>
  The two transactions that create what the invariant is about: \<^verbatim>\<open>OpenSession\<close> puts an active session and
  takes the locks of its link and endpoints at once (\<open>open_evolves\<close>), and the second commit of
  a pair puts the link and both endpoints together with the pair's activation (\<open>activate_evolves\<close>).
\<close>

section \<open>Opening a session\<close>

lemma evolvesI:
  assumes "\<And>k. row_mono k (t k) (t' k)" "\<And>k i. t' k = Some i \<Longrightarrow> row_form k i"
    and "\<And>S. active t' S \<Longrightarrow> locked t' S" "\<And>E. endpoint_ptr t' E" "\<And>L. link_ptr t' L"
    and "\<And>S. session_link t' S" "\<And>L. link_ends t' L" "\<And>P. pair_link t' P"
  shows "evolves t t'"
  unfolding evolves_def Inv_def formInv_def lockInv_def refInv_def using assms by blast

lemma locked_cong:
  assumes "locked t S"
    and "\<And>a. a \<in> {A_linkId, A_controllerId, A_companionId, A_controllerConnectionId,
           A_companionConnectionId} \<Longrightarrow> at t' (KSession, S) a = at t (KSession, S) a"
    and "\<And>L a. at t (KLink, L) A_activeSessionId = Some (AvS S) \<Longrightarrow>
           at t' (KLink, L) a = at t (KLink, L) a"
    and "\<And>E a. at t (KEndpoint, E) A_activeSessionId = Some (AvS S) \<Longrightarrow>
           at t' (KEndpoint, E) a = at t (KEndpoint, E) a"
  shows "locked t' S"
proof -
  obtain L where L: "at t (KSession, S) A_linkId = Some (AvS L)"
      "at t (KLink, L) A_activeSessionId = Some (AvS S)"
      "at t (KLink, L) A_status = Some (AvS ''ACTIVE'')"
    using assms(1) by (auto simp: locked_def)
  have h: "holds_lock t' S who conn"
    if w: "holds_lock t S who conn" "who \<in> {A_controllerId, A_companionId}"
      "conn \<in> {A_controllerConnectionId, A_companionConnectionId}" for who conn
  proof -
    obtain E c where E: "at t (KSession, S) who = Some (AvS E)" "at t (KSession, S) conn = Some (AvS c)"
        "at t (KEndpoint, E) A_activeSessionId = Some (AvS S)"
        "at t (KEndpoint, E) A_connectionId = Some (AvS c)"
      using w(1) by (auto simp: holds_lock_def)
    have "at t' (KSession, S) who = at t (KSession, S) who"
      "at t' (KSession, S) conn = at t (KSession, S) conn"
      by (rule assms(2); use w(2,3) in blast)+
    then show ?thesis unfolding holds_lock_def
      by (intro exI [of _ E] exI [of _ c]) (simp add: E assms(4) [OF E(3)])
  qed
  have "at t' (KSession, S) A_linkId = Some (AvS L)"
    using assms(2) [of A_linkId] L(1) by simp
  then show ?thesis
    using assms(1) L h assms(3) [OF L(2)] by (auto simp: locked_def)
qed

lemma open_evolves:
  fixes sess :: Session
  defines "S \<equiv> s_SessionID sess" and "L \<equiv> s_LinkID sess"
    and "C \<equiv> s_ControllerID sess" and "D \<equiv> s_CompanionID sess"
  assumes inv: "Inv t" and ok: "writes_ok (openOps sess) t"
    and st: "s_Status sess = ''ACTIVE''"
    and link: "at t (KLink, L) A_controllerId = Some (AvS C)" "at t (KLink, L) A_companionId = Some (AvS D)"
  shows "evolves t (apply_writes (openOps sess) t)"
proof -
  define t' where "t' = apply_writes (openOps sess) t"
  have CD: "C \<noteq> D"
    using ok by (auto simp: writes_ok_def openOps_def lockEndpointWrite_def C_def D_def)
  have ns: "t (KSession, S) = None"
    using ok by (simp add: writes_ok_def openOps_def write_ok_def S_def)
  obtain li where li: "t (KLink, L) = Some li" "li A_status = Some (AvS ''ACTIVE'')"
      "li A_activeSessionId = None"
    using ok by (cases "t (KLink, L)") (auto simp: writes_ok_def openOps_def write_ok_def L_def)
  obtain ci where ci: "t (KEndpoint, C) = Some ci" "ci A_activeSessionId = None"
      "ci A_connectionId = Some (AvS (s_ControllerConnectionID sess))" "ci A_revokedAt = None"
    using ok by (cases "t (KEndpoint, C)")
      (auto simp: writes_ok_def openOps_def write_ok_def lockEndpointWrite_def C_def)
  obtain di where di: "t (KEndpoint, D) = Some di" "di A_activeSessionId = None"
      "di A_connectionId = Some (AvS (s_CompanionConnectionID sess))" "di A_revokedAt = None"
    using ok by (cases "t (KEndpoint, D)")
      (auto simp: writes_ok_def openOps_def write_ok_def lockEndpointWrite_def D_def)
  let ?si = "marshalItem ''session'' (marshal_Session sess)"
  have t': "t' = t((KSession, S) \<mapsto> ?si, (KLink, L) \<mapsto> li(A_activeSessionId \<mapsto> AvS S),
      (KEndpoint, C) \<mapsto> ci(A_activeSessionId \<mapsto> AvS S),
      (KEndpoint, D) \<mapsto> di(A_activeSessionId \<mapsto> AvS S))"
    using CD li(1) ci(1) di(1)
    by (simp add: t'_def openOps_def lockEndpointWrite_def update_item_def S_def L_def C_def D_def)
  have atS: "at t' (KSession, S) a = ?si a" for a
    by (simp add: t' at_def)
  have atL: "at t' (KLink, L) a = (if a = A_activeSessionId then Some (AvS S) else li a)" for a
    by (simp add: t' at_def)
  have atE: "at t' (KEndpoint, E) a =
      (if a = A_activeSessionId \<and> E \<in> {C, D} then Some (AvS S) else at t (KEndpoint, E) a)" for E a
    using CD ci(1) di(1) by (auto simp: t' at_def)
  have other: "at t' k a = at t k a" if "k \<notin> {(KSession, S), (KLink, L), (KEndpoint, C), (KEndpoint, D)}"
    for k a using that by (auto simp: t' at_def)
  have si: "?si A_sessionId = Some (AvS S)" "?si A_linkId = Some (AvS L)" "?si A_controllerId = Some (AvS C)"
      "?si A_companionId = Some (AvS D)" "?si A_status = Some (AvS ''ACTIVE'')"
      "?si A_controllerConnectionId = Some (AvS (s_ControllerConnectionID sess))"
      "?si A_companionConnectionId = Some (AvS (s_CompanionConnectionID sess))"
    by (simp_all add: marshalItem_def marshal_Session_def S_def L_def C_def D_def st)
  have act: "active t' S' \<longleftrightarrow> S' = S \<or> active t S'" for S'
    using atS [of A_status] si(5) other [of "(KSession, S')" A_status]
    by (cases "S' = S") (simp_all add: active_def)
  have nptr: "at t (KLink, L) A_activeSessionId = None" "at t (KEndpoint, C) A_activeSessionId = None"
      "at t (KEndpoint, D) A_activeSessionId = None"
    using li ci di by (simp_all add: at_Some)
  have mono: "row_mono k (t k) (t' k)" for k
  proof (cases "k \<in> {(KSession, S), (KLink, L), (KEndpoint, C), (KEndpoint, D)}")
    case True
    then show ?thesis
      using ns li(1) ci(1) di(1) CD by (auto simp: t' row_mono_def item_mono_def kept_def once_def)
  next
    case False
    then have "t' k = t k" by (auto simp: t')
    then show ?thesis by simp
  qed
  have form: "row_form k i" if "t' k = Some i" for k i
  proof (cases "k \<in> {(KSession, S), (KLink, L), (KEndpoint, C), (KEndpoint, D)}")
    case True
    then show ?thesis
      using that CD si Inv_form [OF inv li(1)] Inv_form [OF inv ci(1)] Inv_form [OF inv di(1)] li ci di
      by (auto simp: t' session_form_def link_form_def endpoint_form_def)
  next
    case False
    then have "t' k = t k" by (auto simp: t')
    then show ?thesis using that Inv_form [OF inv] by simp
  qed
  have lock: "locked t' S'" if "active t' S'" for S'
  proof (cases "S' = S")
    case True
    have "holds_lock t' S A_controllerId A_controllerConnectionId"
      unfolding holds_lock_def
      by (intro exI [of _ C] exI [of _ "s_ControllerConnectionID sess"])
        (simp add: atS si atE ci at_Some)
    moreover have "holds_lock t' S A_companionId A_companionConnectionId"
      unfolding holds_lock_def
      by (intro exI [of _ D] exI [of _ "s_CompanionConnectionID sess"])
        (simp add: atS si atE di at_Some)
    ultimately show ?thesis
      unfolding True locked_def using li by (simp add: atS atL si)
  next
    case False
    then have a: "active t S'" using that act by simp
    show ?thesis
    proof (rule locked_cong [OF Inv_locked [OF inv a]])
      fix a show "at t' (KSession, S') a = at t (KSession, S') a" using False by (simp add: other)
    next
      fix L' a assume "at t (KLink, L') A_activeSessionId = Some (AvS S')"
      then have "L' \<noteq> L" using nptr by auto
      then show "at t' (KLink, L') a = at t (KLink, L') a" by (simp add: other)
    next
      fix E a assume "at t (KEndpoint, E) A_activeSessionId = Some (AvS S')"
      then have "E \<noteq> C" "E \<noteq> D" using nptr by auto
      then show "at t' (KEndpoint, E) a = at t (KEndpoint, E) a" by (simp add: other)
    qed
  qed
  have sess: "at t' (KSession, S') a = at t (KSession, S') a" "t' (KSession, S') = t (KSession, S')"
    if "S' \<noteq> S" for S' a
    using that by (simp_all add: t' at_def)
  have ep: "endpoint_ptr t' E" for E
    unfolding endpoint_ptr_def
  proof (intro allI impI)
    fix v assume v: "at t' (KEndpoint, E) A_activeSessionId = Some v"
    show "\<exists>S. v = AvS S \<and> t' (KSession, S) \<noteq> None \<and> (E \<noteq> '''' \<longrightarrow> active t' S) \<and>
           (at t' (KSession, S) A_controllerId = Some (AvS E) \<or>
            at t' (KSession, S) A_companionId = Some (AvS E))"
    proof (cases "E \<in> {C, D}")
      case True
      then have "v = AvS S" using v by (simp add: atE)
      moreover have "t' (KSession, S) \<noteq> None" by (simp add: t')
      ultimately show ?thesis using True si act by (auto simp: atS)
    next
      case False
      then have "at t (KEndpoint, E) A_activeSessionId = Some v" using v by (simp add: atE)
      then obtain S' where S': "v = AvS S'" "t (KSession, S') \<noteq> None" "E \<noteq> '''' \<longrightarrow> active t S'"
          "at t (KSession, S') A_controllerId = Some (AvS E) \<or>
           at t (KSession, S') A_companionId = Some (AvS E)"
        using Inv_endpoint_ptr [OF inv, of E] unfolding endpoint_ptr_def by blast
      then have "S' \<noteq> S" using ns by auto
      then show ?thesis using S' act sess by (intro exI [of _ S']) simp
    qed
  qed
  have lp: "link_ptr t' L'" for L'
    unfolding link_ptr_def
  proof (intro allI impI)
    fix v assume v: "at t' (KLink, L') A_activeSessionId = Some v"
    show "\<exists>S. v = AvS S \<and> active t' S \<and> at t' (KSession, S) A_linkId = Some (AvS L')"
    proof (cases "L' = L")
      case True
      then show ?thesis using v si act by (intro exI [of _ S]) (simp add: atL atS)
    next
      case False
      then have "at t (KLink, L') A_activeSessionId = Some v" using v by (simp add: other)
      then obtain S' where S': "v = AvS S'" "active t S'" "at t (KSession, S') A_linkId = Some (AvS L')"
        using Inv_link_ptr [OF inv, of L'] unfolding link_ptr_def by blast
      then have "S' \<noteq> S" using ns active_row by force
      then show ?thesis using S' act sess by (intro exI [of _ S']) simp
    qed
  qed
  have lk: "at t' (KLink, L') a = at t (KLink, L') a" if "a \<noteq> A_activeSessionId" for L' a
    using that li(1) by (cases "L' = L") (auto simp: atL other at_Some)
  have ex: "t' k \<noteq> None" if "t k \<noteq> None" "fst k \<noteq> KConnection" for k
    by (rule row_mono_exists [OF mono that(2,1)])
  have sl: "session_link t' S'" for S'
  proof (cases "S' = S")
    case True
    then show ?thesis
      using link si ex [of "(KLink, L)"] li(1) by (auto simp: session_link_def atS lk)
  next
    case False
    then show ?thesis
      using Inv_session_link [OF inv, of S'] ex by (simp add: session_link_def lk sess(1) [OF False])
  qed
  have le: "link_ends t' L'" for L'
    using Inv_link_ends [OF inv, of L'] ex by (simp add: link_ends_def lk)
  have pl: "pair_link t' P" for P
    using Inv_pair_link [OF inv, of P] by (auto simp: pair_link_def lk other)
  show ?thesis
    unfolding t'_def [symmetric] by (rule evolvesI [OF mono form lock ep lp sl le pl])
qed

section \<open>Activating a pair\<close>

lemma endpointWrite_row:
  assumes "Inv t" "write_ok t (endpointWrite e)"
  shows "t (KEndpoint, e_EndpointID e) \<noteq> None \<and>
      apply_write (endpointWrite e) t (KEndpoint, e_EndpointID e) = t (KEndpoint, e_EndpointID e) \<or>
    t (KEndpoint, e_EndpointID e) = None \<and>
      (\<exists>j. apply_write (endpointWrite e) t (KEndpoint, e_EndpointID e) = Some j \<and>
         endpoint_form (e_EndpointID e) j \<and> j A_activeSessionId = None)"
proof (cases "t (KEndpoint, e_EndpointID e)")
  case None
  then show ?thesis
    by (auto simp: endpointWrite_def update_item_def empty_item_def endpoint_form_def)
next
  case (Some i)
  have "endpoint_form (e_EndpointID e) i" using Inv_form [OF assms(1) Some] by simp
  then have "fold apply_upd
       [SET_if_not_exists A_endpointId (AvS (e_EndpointID e)),
        SET_if_not_exists A_credentialHash (AvS (e_CredentialHash e)),
        SET_if_not_exists A_role (AvS (e_Role e)),
        SET_if_not_exists A_createdAt (AvN (e_CreatedAt e)),
        SET_if_not_exists A_updatedAt (AvN (e_UpdatedAt e)),
        SET_if_not_exists A_kind (AvS ''endpoint'')] i = i"
    using assms(2) Some by (auto simp: endpointWrite_def write_ok_def endpoint_form_def)
  then show ?thesis
    using Some by (simp add: endpointWrite_def update_item_def)
qed

lemma activate_evolves:
  assumes inv: "Inv t"
    and ok: "writes_ok (activationOps lim pair slot commit first second link src now) t"
    and pid: "p_PairID pair = P"
    and link: "LinkFromCommits first second now = Inr link"
    and fs: "(first, second) = (if slot = SlotA then (commit, other) else (other, commit))"
    and oth: "at t (KPair, P) (case slot of SlotA \<Rightarrow> A_commitB | SlotB \<Rightarrow> A_commitA) =
                Some (marshal_PairCommit other)"
  shows "evolves t (apply_writes (activationOps lim pair slot commit first second link src now) t)"
proof -
  let ?ws = "activationOps lim pair slot commit first second link src now"
  define t' where "t' = apply_writes ?ws t"
  have rc: "ReciprocalCommits first second" using LinkFromCommits_InrD [OF link] by simp
  obtain pi where pi: "t (KPair, P) = Some pi" "pi A_status = Some (AvS ''HALF_COMMITTED'')"
      "pi (ownField slot) = None"
    using ok pid
    by (cases "t (KPair, P)") (auto simp: writes_ok_def activationOps_def write_ok_def commitWrite_def)
  let ?pj = "pi(ownField slot \<mapsto> marshal_PairCommit commit, A_status \<mapsto> AvS ''ACTIVE'')"
  have row: "t' k = t k \<or> (\<exists>w \<in> set ?ws. write_key w = k \<and> write_ok t w \<and> t' k = apply_write w t k)"
    for k unfolding t'_def by (rule apply_writes_row [OF ok])
  have rowp: "t' (KPair, P) = Some ?pj"
  proof -
    have "t' (write_key (commitWrite P slot commit ''HALF_COMMITTED'' ''ACTIVE'' now)) =
        apply_write (commitWrite P slot commit ''HALF_COMMITTED'' ''ACTIVE'' now) t
          (write_key (commitWrite P slot commit ''HALF_COMMITTED'' ''ACTIVE'' now))"
      unfolding t'_def
      by (rule apply_writes_at) (use ok pid in \<open>auto simp: writes_ok_def activationOps_def\<close>)
    then show ?thesis by (simp add: commitWrite_def update_item_def pi)
  qed
  have keys: "write_key w \<in> {(KPair, P), (KLink, l_LinkID link),
      (KEndpoint, pe_EndpointID (pc_Self first)), (KEndpoint, pe_EndpointID (pc_Self second))} \<or>
      fst (write_key w) = KRate" if "w \<in> set ?ws" for w
    using that by (auto simp: activationOps_def commitWrite_def endpointWrite_def commitEndpoint_def
        rateLimitUpdate_def rateRow_def Let_def pid)
  let ?L = "l_LinkID link"
  let ?li = "marshalItem ''link'' (marshal_Link link)"
  have nl: "t (KLink, ?L) = None"
    using ok by (simp add: writes_ok_def activationOps_def write_ok_def)
  have rowl: "t' (KLink, ?L) = Some ?li"
  proof -
    have "t' (write_key (Put (KLink, ?L) ?li row_not_exists)) =
        apply_write (Put (KLink, ?L) ?li row_not_exists) t
          (write_key (Put (KLink, ?L) ?li row_not_exists))"
      unfolding t'_def
      by (rule apply_writes_at) (use ok in \<open>auto simp: writes_ok_def activationOps_def\<close>)
    then show ?thesis by simp
  qed
  have rowe: "t (KEndpoint, E) \<noteq> None \<and> t' (KEndpoint, E) = t (KEndpoint, E) \<or>
     t (KEndpoint, E) = None \<and> (t' (KEndpoint, E) = None \<or>
       (\<exists>j. t' (KEndpoint, E) = Some j \<and> endpoint_form E j \<and> j A_activeSessionId = None))" for E
  proof (cases "t' (KEndpoint, E) = t (KEndpoint, E)")
    case False
    then obtain w where w: "w \<in> set ?ws" "write_key w = (KEndpoint, E)" "write_ok t w"
        "t' (KEndpoint, E) = apply_write w t (KEndpoint, E)"
      using row by blast
    then obtain e where e: "w = endpointWrite e"
      by (auto simp: activationOps_def commitWrite_def rateLimitUpdate_def rateRow_def Let_def)
    then have "e_EndpointID e = E" using w(2) by (simp add: endpointWrite_def)
    then show ?thesis using endpointWrite_row [OF inv, of e] w e by auto
  qed auto
  have new: "t' (KEndpoint, E) \<noteq> None"
    if "E \<in> {pe_EndpointID (pc_Self first), pe_EndpointID (pc_Self second)}" for E
  proof -
    have "\<exists>c. (c = first \<or> c = second) \<and> pe_EndpointID (pc_Self c) = E" using that by auto
    then obtain c where c: "c = first \<or> c = second" "pe_EndpointID (pc_Self c) = E" by (elim exE conjE)
    define e where "e = commitEndpoint c now"
    have e: "endpointWrite e \<in> set ?ws" "e_EndpointID e = E"
      using c unfolding activationOps_def e_def by (auto, auto simp: commitEndpoint_def)
    have "t' (write_key (endpointWrite e)) = apply_write (endpointWrite e) t (write_key (endpointWrite e))"
      unfolding t'_def
      by (rule apply_writes_at [OF _ e(1)]) (use ok in \<open>simp only: writes_ok_def\<close>)
    then show ?thesis using e(2) by (simp add: endpointWrite_def)
  qed
  have same: "t' k = t k" if "fst k \<in> {KSession, KConnection, KLocator, KJoin}" for k
    using row [of k] keys that by fastforce
  have samel: "t' (KLink, L) = t (KLink, L)" if "L \<noteq> ?L" for L
    using row [of "(KLink, L)"] keys that by fastforce
  have samep: "t' (KPair, P') = t (KPair, P')" if "P' \<noteq> P" for P'
    using row [of "(KPair, P')"] keys that by fastforce
  have rate: "t (KRate, r) \<noteq> None \<Longrightarrow> t' (KRate, r) \<noteq> None" for r
    using row [of "(KRate, r)"]
    by (auto simp: activationOps_def commitWrite_def endpointWrite_def rateLimitUpdate_def rateRow_def
        Let_def)
  have pform: "pair_form P pi" using Inv_form [OF inv pi(1)] by simp
  have pform': "pair_form P ?pj"
    using pform oth pi fs rc
    by (cases slot) (auto simp: pair_form_def pair_status_form_def commits_form_def at_def
        ReciprocalCommits_sym)
  have mono: "row_mono k (t k) (t' k)" for k
  proof (cases "fst k")
    case KPair
    then obtain P' where k: "k = (KPair, P')" by (cases k) auto
    show ?thesis
    proof (cases "P' = P")
      case True
      have "status_le (Some (AvS ''HALF_COMMITTED'')) (Some (AvS ''ACTIVE''))"
        by (simp add: status_le_def)
      then show ?thesis using pi rowp True k
        by (cases slot) (auto simp: row_mono_def item_mono_def kept_def once_def)
    next
      case False
      then show ?thesis using samep k by simp
    qed
  next
    case KLink
    then obtain L where k: "k = (KLink, L)" by (cases k) auto
    then show ?thesis using nl samel [of L] by (cases "L = ?L") (auto simp: row_mono_def)
  next
    case KEndpoint
    then obtain E where k: "k = (KEndpoint, E)" by (cases k) auto
    then show ?thesis using rowe [of E] by (auto simp: row_mono_def)
  next
    case KRate
    then obtain r where k: "k = (KRate, r)" by (cases k) auto
    then show ?thesis using rate [of r] by (auto simp: row_mono_def item_mono_def split: option.splits)
  qed (use same [of k] in auto)
  have lform: "link_form ?L ?li"
    using LinkFromCommits_InrD [OF link]
    by (auto simp: link_form_def marshalItem_def marshal_Link_def omit_s_def omit_n_def)
  have form: "row_form k i" if i: "t' k = Some i" for k i
  proof (cases "t' k = t k")
    case True
    then show ?thesis using i Inv_form [OF inv] by simp
  next
    case False
    then obtain w where "w \<in> set ?ws" "write_key w = k" using row by blast
    then consider "k = (KPair, P)" | "k = (KLink, ?L)" | E where "k = (KEndpoint, E)" | "fst k = KRate"
      using keys by blast
    then show ?thesis
    proof cases
      case 3
      then show ?thesis using rowe [of E] i False by auto
    next
      case 4
      then show ?thesis by (cases k) auto
    qed (use i rowp pform' rowl lform in auto)
  qed
  have act: "active t' S \<longleftrightarrow> active t S" for S
    using same [of "(KSession, S)"] by (simp add: active_def at_def)
  have ses: "at t' (KSession, S) a = at t (KSession, S) a" for S a
    using same [of "(KSession, S)"] by (simp add: at_def)
  have lk: "at t' (KLink, L) a = at t (KLink, L) a" if "L \<noteq> ?L" for L a
    using samel [OF that] by (simp add: at_def)
  have lknew: "at t' (KLink, ?L) a = ?li a" for a
    using rowl by (simp add: at_def)
  have linkL: "?li A_activeSessionId = None" "?li A_controllerId = Some (AvS (l_ControllerID link))"
      "?li A_companionId = Some (AvS (l_CompanionID link))"
    using LinkFromCommits_InrD [OF link]
    by (simp_all add: marshalItem_def marshal_Link_def omit_s_def omit_n_def)
  have lock: "locked t' S" if "active t' S" for S
  proof (rule locked_cong [OF Inv_locked [OF inv]])
    show "active t S" using that act by simp
  next
    fix L a assume "at t (KLink, L) A_activeSessionId = Some (AvS S)"
    then have "L \<noteq> ?L" using nl by (auto simp: at_def)
    then show "at t' (KLink, L) a = at t (KLink, L) a" by (rule lk)
  next
    fix E a assume "at t (KEndpoint, E) A_activeSessionId = Some (AvS S)"
    then have "t (KEndpoint, E) \<noteq> None" using at_row by fastforce
    then show "at t' (KEndpoint, E) a = at t (KEndpoint, E) a" using rowe [of E] by (auto simp: at_def)
  qed (rule ses)
  have ep: "endpoint_ptr t' E" for E
  proof (cases "t (KEndpoint, E) = None")
    case True
    then have "at t' (KEndpoint, E) A_activeSessionId = None" using rowe [of E] by (auto simp: at_def)
    then show ?thesis by (simp add: endpoint_ptr_def)
  next
    case False
    then have "at t' (KEndpoint, E) a = at t (KEndpoint, E) a" for a
      using rowe [of E] by (auto simp: at_def)
    then show ?thesis
      using Inv_endpoint_ptr [OF inv, of E] same by (simp add: endpoint_ptr_def ses act)
  qed
  have lp: "link_ptr t' L" for L
    using Inv_link_ptr [OF inv, of L] linkL(1) lk [of L]
    by (cases "L = ?L") (simp_all add: link_ptr_def ses act lknew)
  have sl: "session_link t' S" for S
    unfolding session_link_def
  proof (intro allI impI)
    fix L assume "at t' (KSession, S) A_linkId = Some (AvS L)"
    then have l: "t (KLink, L) \<noteq> None \<and>
        at t (KLink, L) A_controllerId = at t (KSession, S) A_controllerId \<and>
        at t (KLink, L) A_companionId = at t (KSession, S) A_companionId"
      using Inv_session_link [OF inv, of S] by (simp add: session_link_def ses)
    then have "L \<noteq> ?L" using nl by auto
    then show "t' (KLink, L) \<noteq> None \<and>
        at t' (KLink, L) A_controllerId = at t' (KSession, S) A_controllerId \<and>
        at t' (KLink, L) A_companionId = at t' (KSession, S) A_companionId"
      using l by (simp add: lk ses samel)
  qed
  have le: "link_ends t' L" for L
  proof (cases "L = ?L")
    case True
    have "{l_ControllerID link, l_CompanionID link} =
        {pe_EndpointID (pc_Self first), pe_EndpointID (pc_Self second)}"
      using LinkFromCommits_InrD [OF link] by simp
    then have "t' (KEndpoint, l_ControllerID link) \<noteq> None" "t' (KEndpoint, l_CompanionID link) \<noteq> None"
      using new by blast+
    then show ?thesis unfolding True link_ends_def lknew linkL by auto
  next
    case False
    have "t' (KEndpoint, E) \<noteq> None" if "t (KEndpoint, E) \<noteq> None" for E
      using that rowe [of E] by auto
    then show ?thesis
      using Inv_link_ends [OF inv, of L] by (simp add: link_ends_def lk [OF False])
  qed
  have pl: "pair_link t' P'" for P'
    unfolding pair_link_def
  proof (intro impI)
    assume a: "at t' (KPair, P') A_status = Some (AvS ''ACTIVE'')"
    show "\<exists>a b C D. at t' (KPair, P') A_commitA = Some (marshal_PairCommit a) \<and>
           at t' (KPair, P') A_commitB = Some (marshal_PairCommit b) \<and>
           at t' (KLink, pc_LinkID a) A_controllerId = Some (AvS C) \<and>
           at t' (KLink, pc_LinkID a) A_companionId = Some (AvS D) \<and>
           {C, D} = {pe_EndpointID (pc_Self a), pe_EndpointID (pc_Self b)}"
    proof (cases "P' = P")
      case True
      have "?pj A_commitA = Some (marshal_PairCommit first)"
        "?pj A_commitB = Some (marshal_PairCommit second)"
        using fs oth pi by (cases slot; simp add: at_def)+
      then show ?thesis
        using LinkFromCommits_InrD [OF link] rowp lknew linkL True
        by (intro exI [of _ first] exI [of _ second] exI [of _ "l_ControllerID link"]
            exI [of _ "l_CompanionID link"]) (simp add: at_Some)
    next
      case False
      have pr: "at t' (KPair, P') a = at t (KPair, P') a" for a
        using samep [OF False] by (simp add: at_def)
      obtain a b C D where c: "at t (KPair, P') A_commitA = Some (marshal_PairCommit a)"
          "at t (KPair, P') A_commitB = Some (marshal_PairCommit b)"
          "at t (KLink, pc_LinkID a) A_controllerId = Some (AvS C)"
          "at t (KLink, pc_LinkID a) A_companionId = Some (AvS D)"
          "{C, D} = {pe_EndpointID (pc_Self a), pe_EndpointID (pc_Self b)}"
        using Inv_pair_link [OF inv, of P'] a unfolding pair_link_def pr by blast
      have "pc_LinkID a \<noteq> ?L" using c(3) nl by (auto simp: at_def)
      then show ?thesis using c by (auto simp: pr lk)
    qed
  qed
  show ?thesis
    unfolding t'_def [symmetric] by (rule evolvesI [OF mono form lock ep lp sl le pl])
qed

end
