(* ===== verification/RelayGuarantees.thy ===== *)
theory RelayGuarantees
  imports RelayEvolve
begin

text \<open>
  The remaining operations of the store, each with its reads: every one keeps the table within
  \<open>evolves\<close>.
\<close>

lemma safe_any:
  assumes "keeps p" "Inv t" "\<And>r t'. evolves t t' \<Longrightarrow> Inv t' \<Longrightarrow> Q r t'"
  shows "safe p t Q"
proof -
  have "safe p t (\<lambda>_ _. True)" using assms(1,2) by (simp add: keeps_def)
  from safe_reached [OF this] show ?thesis
    by (rule safe_weaken) (use assms(2,3) evolves_Inv in blast)
qed

text \<open>The endpoint row that was read: what of it stays true.\<close>

definition saw_endpoint :: "table \<Rightarrow> string \<Rightarrow> Endpoint \<Rightarrow> bool" where
  "saw_endpoint t E ep \<longleftrightarrow> e_EndpointID ep = E \<and>
     (e_ActiveSessionID ep \<noteq> '''' \<longrightarrow> t (KSession, e_ActiveSessionID ep) \<noteq> None)"

lemma saw_endpoint_read:
  "Inv t \<Longrightarrow> t (KEndpoint, E) = Some i \<Longrightarrow> saw_endpoint t E (unmarshal_Endpoint i)"
  using endpoint_pointer_read endpoint_id_read by (simp add: saw_endpoint_def)

lemma saw_endpoint_stable: "evolves t t' \<Longrightarrow> saw_endpoint t E ep \<Longrightarrow> saw_endpoint t' E ep"
  using exists_stable [of t t'] by (auto simp: saw_endpoint_def)

lemma safe_GetEndpoint:
  assumes "Inv t"
    and "\<And>t'. evolves t t' \<Longrightarrow> Inv t' \<Longrightarrow> Q (Inr None) t'"
    and "\<And>t' ep. evolves t t' \<Longrightarrow> Inv t' \<Longrightarrow> saw_endpoint t' E ep \<Longrightarrow> Q (Inr (Some ep)) t'"
    and "\<And>t' e. Q (Inl e) t'"
  shows "safe (GetEndpoint E) t Q"
  unfolding GetEndpoint_def
proof (rule safe_get_as)
  fix t' assume e: "evolves t t'"
  have i: "Inv t'" by (rule evolves_Inv [OF e assms(1)])
  show "Q (Inr (map_option unmarshal_Endpoint (t' (KEndpoint, E)))) t'"
    using assms(2) [OF e i] assms(3) [OF e i saw_endpoint_read [OF i]]
    by (cases "t' (KEndpoint, E)") auto
qed (rule assms(4))

lemma safe_active_session:
  assumes "Inv t" "t (KSession, S) \<noteq> None"
    and "\<And>t' sess. evolves t t' \<Longrightarrow> Inv t' \<Longrightarrow> knows t' S sess \<Longrightarrow> Q (Inr (Some sess)) t'"
    and "\<And>t' e. Q (Inl e) t'"
  shows "safe (get_as unmarshal_Session (KSession, S)) t Q"
proof (rule safe_get_session [OF assms(1) _ assms(3,4)])
  fix t' assume "evolves t t'" "t' (KSession, S) = None"
  then show "Q (Inr None) t'" using exists_stable [of t t' "(KSession, S)"] assms(2) by simp
qed

section \<open>Connect\<close>

lemma keeps_sameConnectionRow: "keeps (sameConnectionRow conn ep)"
  unfolding sameConnectionRow_def by (auto intro: keeps_bindE keeps_get_as)

lemma keeps_Connect_attempt:
  assumes "c_EndpointID conn \<noteq> ''''"
  shows "keeps (Connect_attempt conn h)"
proof (rule keepsI)
  fix t assume t: "Inv t"
  have commit: "safe (connectCommit conn h ep same session) t2 (\<lambda>_ _. True)"
    if "Inv t2" "saw_endpoint t2 (c_EndpointID conn) ep"
      "session = None \<Longrightarrow> e_ActiveSessionID ep = ''''"
      "\<And>sess. session = Some sess \<Longrightarrow> knows t2 (e_ActiveSessionID ep) sess" for t2 ep same session
    by (rule safe_connectCommit) (use that assms in \<open>auto simp: saw_endpoint_def\<close>)
  have body: "safe (tryR (sameConnectionRow conn ep) (\<lambda>same.
      if e_ActiveSessionID ep \<noteq> '''' then
        tryR (get_as unmarshal_Session (KSession, e_ActiveSessionID ep)) (\<lambda>session.
          case session of
            Some sess \<Rightarrow>
              if same \<and> s_Status sess = ''ACTIVE'' \<and> ownsSession sess ep conn
              then Ret (Return (Inr None)) else connectCommit conn h ep same session
          | None \<Rightarrow> connectCommit conn h ep same session)
      else if same then Ret (Return (Inr None)) else connectCommit conn h ep same None))
      t1 (\<lambda>_ _. True)"
    if t1: "Inv t1" "saw_endpoint t1 (c_EndpointID conn) ep" for t1 ep
    unfolding safe_tryR
  proof (rule safe_any [OF keeps_sameConnectionRow t1(1)])
    fix r t2 assume e: "evolves t1 t2" and i: "Inv t2"
    have s: "saw_endpoint t2 (c_EndpointID conn) ep" by (rule saw_endpoint_stable [OF e t1(2)])
    have "safe (get_as unmarshal_Session (KSession, e_ActiveSessionID ep)) t2
       (\<lambda>r t'. case r of Inl e \<Rightarrow> True | Inr session \<Rightarrow> safe (case session of
            Some sess \<Rightarrow>
              if same \<and> s_Status sess = ''ACTIVE'' \<and> ownsSession sess ep conn
              then Ret (Return (Inr None)) else connectCommit conn h ep same session
          | None \<Rightarrow> connectCommit conn h ep same session) t' (\<lambda>_ _. True))"
      if "e_ActiveSessionID ep \<noteq> ''''" for same
    proof (rule safe_active_session [OF i])
      show "t2 (KSession, e_ActiveSessionID ep) \<noteq> None" using s that by (simp add: saw_endpoint_def)
    next
      fix t3 sess assume t3: "evolves t2 t3" "Inv t3" "knows t3 (e_ActiveSessionID ep) sess"
      then have "safe (connectCommit conn h ep same (Some sess)) t3 (\<lambda>_ _. True)"
        by (intro commit saw_endpoint_stable [OF t3(1) s]) auto
      then show "case Inr (Some sess) of Inl e \<Rightarrow> True | Inr session \<Rightarrow> safe (case session of
            Some sess \<Rightarrow>
              if same \<and> s_Status sess = ''ACTIVE'' \<and> ownsSession sess ep conn
              then Ret (Return (Inr None)) else connectCommit conn h ep same session
          | None \<Rightarrow> connectCommit conn h ep same session) t3 (\<lambda>_ _. True)"
        by simp
    qed simp
    moreover have "safe (connectCommit conn h ep same None) t2 (\<lambda>_ _. True)"
      if "e_ActiveSessionID ep = ''''" for same
      by (rule commit [OF i s]) (use that in auto)
    ultimately show "case r of Inl e \<Rightarrow> True | Inr same \<Rightarrow> safe (
      if e_ActiveSessionID ep \<noteq> '''' then
        tryR (get_as unmarshal_Session (KSession, e_ActiveSessionID ep)) (\<lambda>session.
          case session of
            Some sess \<Rightarrow>
              if same \<and> s_Status sess = ''ACTIVE'' \<and> ownsSession sess ep conn
              then Ret (Return (Inr None)) else connectCommit conn h ep same session
          | None \<Rightarrow> connectCommit conn h ep same session)
      else if same then Ret (Return (Inr None)) else connectCommit conn h ep same None) t2 (\<lambda>_ _. True)"
      by (cases r) (auto simp: safe_tryR)
  qed
  show "safe (Connect_attempt conn h) t (\<lambda>_ _. True)"
    unfolding Connect_attempt_def safe_tryR
  proof (rule safe_GetEndpoint [OF t])
    fix t1 ep assume "evolves t t1" "Inv t1" "saw_endpoint t1 (c_EndpointID conn) ep"
    then show "case Inr (Some ep) of Inl e \<Rightarrow> True | Inr found \<Rightarrow> safe (case found of
         None \<Rightarrow> Ret (Return (Inl (serviceError Unauthenticated)))
       | Some endpoint \<Rightarrow>
           if e_RevokedAt endpoint \<noteq> 0 \<or> e_CredentialHash endpoint \<noteq> h
           then Ret (Return (Inl (serviceError Unauthenticated)))
           else tryR (sameConnectionRow conn endpoint) (\<lambda>same.
      if e_ActiveSessionID endpoint \<noteq> '''' then
        tryR (get_as unmarshal_Session (KSession, e_ActiveSessionID endpoint)) (\<lambda>session.
          case session of
            Some sess \<Rightarrow>
              if same \<and> s_Status sess = ''ACTIVE'' \<and> ownsSession sess endpoint conn
              then Ret (Return (Inr None)) else connectCommit conn h endpoint same session
          | None \<Rightarrow> connectCommit conn h endpoint same session)
      else if same then Ret (Return (Inr None)) else connectCommit conn h endpoint same None)) t1
      (\<lambda>_ _. True)"
      using body by simp
  qed simp_all
qed

lemma keeps_Connect: "keeps (Connect conn h)"
proof -
  have "keeps (transactP [connectPut conn])"
    by (rule keeps_transact_plain) (auto simp: connectPut_def intro: plain_connection)
  then show ?thesis
    unfolding Connect_def
    by (auto intro!: keeps_bindP safe_retry keeps_Connect_attempt split: option.splits)
qed

section \<open>Disconnect\<close>

lemma plain_deleteConnection [simp]: "plain t C (deleteConnection c)"
  by (simp add: deleteConnection_def plain_connection)

lemma remove_lock:
  assumes "write_ok t (removeEndpointWrite E c sid)"
    and "at t (KEndpoint, E) A_activeSessionId = Some (AvS S)"
  shows "S = sid \<and> sid \<noteq> '''' \<and> at t (KEndpoint, E) A_connectionId = Some (AvS c)"
  using assms by (auto simp: removeEndpointWrite_def write_ok_def at_def split: if_splits)

lemma session_connection:
  assumes "Inv t" "active t S" "knows t S sess" "at t (KEndpoint, E) A_activeSessionId = Some (AvS S)"
    and "at t (KEndpoint, E) A_connectionId = Some (AvS c)"
  shows "s_ControllerConnectionID sess = c \<or> s_CompanionConnectionID sess = c"
    "s_ControllerID sess = E \<or> s_CompanionID sess = E"
  using Inv_endpoint_ptr [OF assms(1), of E] Inv_locked [OF assms(1,2)] assms(3-5)
  by (auto simp: endpoint_ptr_def locked_def holds_lock_def knows_def)

lemma safe_disconnectEndpoint:
  assumes t: "Inv t" and s: "saw_endpoint t (c_EndpointID conn) ep"
  shows "safe (disconnectEndpoint conn c now ep) t (\<lambda>_ _. True)"
proof -
  let ?sid = "e_ActiveSessionID ep" and ?E = "c_EndpointID conn"
  let ?rm = "removeEndpointWrite ?E c ?sid"
  let ?ops = "[deleteConnection c, ?rm]"
  have direct: "safe (bindP (transactP ?ops) (afterWrite v)) t1 (\<lambda>_ _. True)"
    if i1: "Inv t1" and
      stale: "\<And>t'. evolves t1 t' \<Longrightarrow> Inv t' \<Longrightarrow> ?sid \<noteq> '''' \<Longrightarrow> active t' ?sid \<Longrightarrow>
         at t' (KEndpoint, ?E) A_connectionId = Some (AvS c) \<Longrightarrow>
         at t' (KEndpoint, ?E) A_activeSessionId = Some (AvS ?sid) \<Longrightarrow> False"
    for v :: "DisconnectResult option" and t1
    unfolding gs_bindP
  proof (rule safe_plain_transact [OF i1])
    fix t' w assume w: "evolves t1 t'" "Inv t'" "w \<in> set ?ops" "write_ok t' w"
    have "plain t' {} ?rm" if ok: "write_ok t' ?rm"
      by (rule plain_endpoint_unlock [OF w(2), of ?E]) (use ok remove_lock stale w(1,2) in blast)+
    then show "plain t' {} w" using w(3,4) by auto
  qed simp
  have owned: "safe (bindP (transactSessionTransition sess now ?ops [(KEndpoint, ?E)] [])
      (afterTransition f)) t1 (\<lambda>_ _. True)"
    if "Inv t1" "knows t1 ?sid sess" for t1 sess and f :: "bool \<Rightarrow> DisconnectResult option"
    unfolding gs_bindP
  proof (rule safe_transition [OF that])
    fix t' w assume w: "evolves t1 t'" "Inv t'" "w \<in> set ?ops" "write_ok t' w"
    have k: "knows t' ?sid sess" by (rule knows_stable [OF w(1) that])
    have "?sid \<in> closing sess \<or> \<not> active t' ?sid" using k by (auto simp: knows_def closing_def)
    then have "plain t' (closing sess) ?rm" if "write_ok t' ?rm"
      by (intro plain_endpoint_unlock [OF w(2), of ?E]) (use that remove_lock in blast)+
    then show "plain t' (closing sess) w" using w(3,4) by auto
  next
    fix k assume "k \<in> set [(KEndpoint, ?E)]"
    then show "\<exists>w \<in> set ?ops. write_key w = k \<and> unlocks w"
      by (intro bexI [of _ ?rm])
        (auto simp: removeEndpointWrite_def unlocks_def at_def update_item_def)
  qed simp
  show ?thesis
  proof (cases "?sid = ''''")
    case True
    then show ?thesis
      using direct [OF t] by (simp add: disconnectEndpoint_def Let_def)
  next
    case False
    have "safe (tryR (get_as unmarshal_Session (KSession, ?sid)) (\<lambda>found.
        case found of
          Some session \<Rightarrow>
            if s_ControllerConnectionID session = c \<or> s_CompanionConnectionID session = c
            then bindP (transactSessionTransition session now ?ops [(KEndpoint, ?E)] [])
                   (afterTransition (f session))
            else bindP (transactP ?ops) (afterWrite v)
        | None \<Rightarrow> bindP (transactP ?ops) (afterWrite v))) t (\<lambda>_ _. True)"
      for v :: "DisconnectResult option" and f
      unfolding safe_tryR
    proof (rule safe_active_session [OF t])
      show "t (KSession, ?sid) \<noteq> None" using s False by (simp add: saw_endpoint_def)
    next
      fix t1 sess assume t1: "evolves t t1" "Inv t1" "knows t1 ?sid sess"
      have "False" if "\<not> (s_ControllerConnectionID sess = c \<or> s_CompanionConnectionID sess = c)"
        "evolves t1 t'" "Inv t'" "active t' ?sid"
        "at t' (KEndpoint, ?E) A_connectionId = Some (AvS c)"
        "at t' (KEndpoint, ?E) A_activeSessionId = Some (AvS ?sid)" for t'
        using session_connection [OF that(3,4) knows_stable [OF that(2) t1(2,3)] that(6,5)] that(1)
        by blast
      then show "case Inr (Some sess) of Inl e \<Rightarrow> True | Inr found \<Rightarrow> safe (case found of
          Some session \<Rightarrow>
            if s_ControllerConnectionID session = c \<or> s_CompanionConnectionID session = c
            then bindP (transactSessionTransition session now ?ops [(KEndpoint, ?E)] [])
                   (afterTransition (f session))
            else bindP (transactP ?ops) (afterWrite v)
        | None \<Rightarrow> bindP (transactP ?ops) (afterWrite v)) t1 (\<lambda>_ _. True)"
        using owned [OF t1(2,3)] direct [OF t1(2)] by (simp del: split_paired_All) blast
    qed simp
    then show ?thesis
      using False by (simp add: disconnectEndpoint_def Let_def)
  qed
qed

lemma safe_disconnectPairing:
  "safe (disconnectPairing conn c) t (\<lambda>r _. \<forall>ops. r = Inr ops \<longrightarrow>
     set ops \<subseteq> {deleteConnection c, closePairWrite (c_PairingID conn) c})"
  unfolding disconnectPairing_def
  by (auto simp: safe_bindE intro!: safe_get_as split: option.splits)

lemma keeps_Disconnect_attempt: "keeps (Disconnect_attempt c now)"
  unfolding Disconnect_attempt_def
proof (rule keeps_tryR [OF keeps_get_as])
  fix found :: "Connection option"
  have del: "keeps (bindP (transactP [deleteConnection c]) (afterWrite v))"
    for v :: "DisconnectResult option"
    by (rule keeps_bindP [OF keeps_transact_plain]) (simp_all add: keeps_def)
  have pairing: "keeps (tryR (disconnectPairing conn c) (\<lambda>ops. bindP (transactP ops) (afterWrite v)))"
    for conn and v :: "DisconnectResult option"
  proof (rule keepsI)
    fix t assume t: "Inv t"
    have ops: "keeps (bindP (transactP ops) (afterWrite v))"
      if "set ops \<subseteq> {deleteConnection c, closePairWrite (c_PairingID conn) c}" for ops
      by (rule keeps_bindP [OF keeps_transact_plain])
        (use that plain_closePairWrite in \<open>auto simp: keeps_def\<close>)
    show "safe (tryR (disconnectPairing conn c) (\<lambda>ops. bindP (transactP ops) (afterWrite v))) t
        (\<lambda>_ _. True)"
      unfolding safe_tryR
      by (rule safe_weaken [OF safe_reached [OF safe_disconnectPairing]])
        (use ops evolves_Inv t in \<open>auto simp: keeps_def split: sum.splits\<close>)
  qed
  have endpoint: "keeps (tryR (GetEndpoint (c_EndpointID conn)) (\<lambda>ep.
               case ep of
                 None \<Rightarrow> bindP (transactP [deleteConnection c]) (afterWrite v)
               | Some endpoint \<Rightarrow>
                   if e_ConnectionID endpoint \<noteq> c
                   then bindP (transactP [deleteConnection c]) (afterWrite v)
                   else disconnectEndpoint conn c now endpoint))"
    for conn and v :: "DisconnectResult option"
  proof (rule keepsI)
    fix t assume t: "Inv t"
    show "safe (tryR (GetEndpoint (c_EndpointID conn)) (\<lambda>ep.
               case ep of
                 None \<Rightarrow> bindP (transactP [deleteConnection c]) (afterWrite v)
               | Some endpoint \<Rightarrow>
                   if e_ConnectionID endpoint \<noteq> c
                   then bindP (transactP [deleteConnection c]) (afterWrite v)
                   else disconnectEndpoint conn c now endpoint)) t (\<lambda>_ _. True)"
      unfolding safe_tryR
      by (rule safe_GetEndpoint [OF t])
        (use del in \<open>simp_all add: safe_disconnectEndpoint keeps_def\<close>)
  qed
  show "keeps (case found of
         None \<Rightarrow> Ret (Return (Inr None))
       | Some connection \<Rightarrow>
           if c_EndpointID connection = '''' then
             tryR (disconnectPairing connection c) (\<lambda>operations.
               bindP (transactP operations)
                 (afterWrite (Some \<lparr>dr_Connection = connection, dr_Session = None\<rparr>)))
           else
             tryR (GetEndpoint (c_EndpointID connection)) (\<lambda>ep.
               case ep of
                 None \<Rightarrow>
                   bindP (transactP [deleteConnection c])
                     (afterWrite (Some \<lparr>dr_Connection = connection, dr_Session = None\<rparr>))
               | Some endpoint \<Rightarrow>
                   if e_ConnectionID endpoint \<noteq> c
                   then bindP (transactP [deleteConnection c])
                          (afterWrite (Some \<lparr>dr_Connection = connection, dr_Session = None\<rparr>))
                   else disconnectEndpoint connection c now endpoint))"
    using pairing endpoint by (simp split: option.splits)
qed

lemma keeps_Disconnect: "keeps (Disconnect c now)"
  unfolding Disconnect_def by (intro safe_retry keeps_Disconnect_attempt keeps_failP)

section \<open>Rate limits and rotation\<close>

lemma keeps_rateLimit: "keeps (rateLimit src act lim win now)"
proof -
  have "keeps (updateP (fst (rateLimitUpdate src act lim win now)))"
    by (rule keeps_update_plain) simp
  then show ?thesis
    unfolding rateLimit_def by (auto simp: Let_def split: prod.split option.splits intro!: keeps_bindP)
qed

lemma keeps_RateLimit: "keeps (RateLimit src act lim now)"
  by (simp add: RateLimit_def keeps_rateLimit)

lemma keeps_RotateEndpoint: "keeps (RotateEndpoint E c h now)"
  unfolding RotateEndpoint_def
  by (auto intro!: keeps_bindP keeps_update_plain plain_rotateWrite split: option.splits)

section \<open>Revocation\<close>

lemma revoke_lock:
  assumes "write_ok t (revokeEndpointWrite E c sid now)"
    and "at t (KEndpoint, E) A_activeSessionId = Some (AvS S)"
  shows "S = sid \<and> sid \<noteq> ''''"
  using assms by (auto simp: revokeEndpointWrite_def write_ok_def at_def split: if_splits)

lemma keeps_RevokeEndpoint_attempt: "keeps (RevokeEndpoint_attempt E c now)"
proof (rule keepsI)
  fix t assume t: "Inv t"
  let ?ops = "\<lambda>sid. [revokeEndpointWrite E c sid now, Delete (KConnection, c) (CAnd [])]"
  have direct: "safe (bindP (transactP (?ops sid)) (afterWrite v)) t1 (\<lambda>_ _. True)"
    if i1: "Inv t1" and
      stale: "\<And>t'. evolves t1 t' \<Longrightarrow> Inv t' \<Longrightarrow> sid \<noteq> '''' \<Longrightarrow> active t' sid \<Longrightarrow>
         at t' (KEndpoint, E) A_activeSessionId = Some (AvS sid) \<Longrightarrow> False"
    for v :: RevokeEndpointResult and t1 sid
    unfolding gs_bindP
  proof (rule safe_plain_transact [OF i1])
    fix t' w assume w: "evolves t1 t'" "Inv t'" "w \<in> set (?ops sid)" "write_ok t' w"
    have "plain t' {} (revokeEndpointWrite E c sid now)"
      if ok: "write_ok t' (revokeEndpointWrite E c sid now)"
      by (rule plain_endpoint_unlock [OF w(2), of E]) (use ok revoke_lock stale w(1,2) in blast)+
    then show "plain t' {} w" using w(3,4) by (auto intro: plain_connection)
  qed simp
  have member: "safe (bindP (transactSessionTransition sess now (?ops sid) [(KEndpoint, E)] [])
      (afterTransition f)) t1 (\<lambda>_ _. True)"
    if "Inv t1" "knows t1 sid sess" for t1 sess sid and f :: "bool \<Rightarrow> RevokeEndpointResult"
    unfolding gs_bindP
  proof (rule safe_transition [OF that])
    fix t' w assume w: "evolves t1 t'" "Inv t'" "w \<in> set (?ops sid)" "write_ok t' w"
    have k: "knows t' sid sess" by (rule knows_stable [OF w(1) that])
    have "sid \<in> closing sess \<or> \<not> active t' sid" using k by (auto simp: knows_def closing_def)
    then have "plain t' (closing sess) (revokeEndpointWrite E c sid now)"
      if "write_ok t' (revokeEndpointWrite E c sid now)"
      by (intro plain_endpoint_unlock [OF w(2), of E]) (use that revoke_lock in blast)+
    then show "plain t' (closing sess) w" using w(3,4) by (auto intro: plain_connection)
  next
    fix k assume "k \<in> set [(KEndpoint, E)]"
    then show "\<exists>w \<in> set (?ops sid). write_key w = k \<and> unlocks w"
      by (intro bexI [of _ "revokeEndpointWrite E c sid now"])
        (auto simp: revokeEndpointWrite_def unlocks_def at_def update_item_def)
  qed simp
  show "safe (RevokeEndpoint_attempt E c now) t (\<lambda>_ _. True)"
    unfolding RevokeEndpoint_attempt_def safe_tryR Let_def
  proof (rule safe_currentEndpoint)
    fix t1 i
    assume t1: "evolves t t1" "t1 (KEndpoint, E) = Some i"
    let ?ep = "unmarshal_Endpoint i"
    let ?sid = "e_ActiveSessionID ?ep"
    have i1: "Inv t1" by (rule evolves_Inv [OF t1(1) t])
    have s: "saw_endpoint t1 E ?ep" by (rule saw_endpoint_read [OF i1 t1(2)])
    have stale: "False"
      if "s_ControllerID sess \<noteq> E \<and> s_CompanionID sess \<noteq> E" "knows t2 ?sid sess" "Inv t2"
        "evolves t2 t'" "Inv t'" "active t' ?sid"
        "at t' (KEndpoint, E) A_activeSessionId = Some (AvS ?sid)" for sess t2 t'
      using Inv_endpoint_ptr [OF that(5), of E] that(7,1) knows_stable [OF that(4,3,2)]
      by (auto simp: endpoint_ptr_def knows_def)
    have "safe (get_as unmarshal_Session (KSession, ?sid)) t1 (\<lambda>r t'. case r of
        Inl e \<Rightarrow> True
      | Inr found \<Rightarrow> safe (case found of
          None \<Rightarrow> bindP (transactP (?ops ?sid))
                    (afterWrite \<lparr>rv_Endpoint = revokedEndpoint ?ep now, rv_Session = None\<rparr>)
        | Some session \<Rightarrow>
            if s_ControllerID session \<noteq> E \<and> s_CompanionID session \<noteq> E
            then bindP (transactP (?ops ?sid))
                   (afterWrite \<lparr>rv_Endpoint = revokedEndpoint ?ep now, rv_Session = None\<rparr>)
            else bindP (transactSessionTransition session now (?ops ?sid) [(KEndpoint, E)] [])
                   (afterTransition (\<lambda>closed.
                      if closed
                      then \<lparr>rv_Endpoint = revokedEndpoint ?ep now, rv_Session = None\<rparr>
                             \<lparr>rv_Session := Some
                              \<lparr>csr_Session = closedSession session now, csr_ClosedNow = True\<rparr>\<rparr>
                      else \<lparr>rv_Endpoint = revokedEndpoint ?ep now, rv_Session = None\<rparr>))) t'
          (\<lambda>_ _. True))"
      if "?sid \<noteq> ''''"
    proof (rule safe_active_session [OF i1])
      show "t1 (KSession, ?sid) \<noteq> None" using s that by (simp add: saw_endpoint_def)
    next
      fix t2 sess assume t2: "evolves t1 t2" "Inv t2" "knows t2 ?sid sess"
      show "case Inr (Some sess) of
        Inl e \<Rightarrow> True
      | Inr found \<Rightarrow> safe (case found of
          None \<Rightarrow> bindP (transactP (?ops ?sid))
                    (afterWrite \<lparr>rv_Endpoint = revokedEndpoint ?ep now, rv_Session = None\<rparr>)
        | Some session \<Rightarrow>
            if s_ControllerID session \<noteq> E \<and> s_CompanionID session \<noteq> E
            then bindP (transactP (?ops ?sid))
                   (afterWrite \<lparr>rv_Endpoint = revokedEndpoint ?ep now, rv_Session = None\<rparr>)
            else bindP (transactSessionTransition session now (?ops ?sid) [(KEndpoint, E)] [])
                   (afterTransition (\<lambda>closed.
                      if closed
                      then \<lparr>rv_Endpoint = revokedEndpoint ?ep now, rv_Session = None\<rparr>
                             \<lparr>rv_Session := Some
                              \<lparr>csr_Session = closedSession session now, csr_ClosedNow = True\<rparr>\<rparr>
                      else \<lparr>rv_Endpoint = revokedEndpoint ?ep now, rv_Session = None\<rparr>))) t2
          (\<lambda>_ _. True)"
      proof (cases "s_ControllerID sess \<noteq> E \<and> s_CompanionID sess \<noteq> E")
        case True
        have "safe (bindP (transactP (?ops ?sid))
            (afterWrite \<lparr>rv_Endpoint = revokedEndpoint ?ep now, rv_Session = None\<rparr>)) t2 (\<lambda>_ _. True)"
          by (rule direct [OF t2(2)]) (rule stale [OF True t2(3,2)])
        then show ?thesis using True by simp
      next
        case False
        then show ?thesis
          using member [OF t2(2,3)] by (simp only: sum.case option.case if_False)
      qed
    qed simp
    then show "case Inr ?ep of Inl e \<Rightarrow> True
      | Inr endpoint \<Rightarrow> safe (
        if e_ActiveSessionID endpoint = ''''
        then bindP (transactP (?ops (e_ActiveSessionID endpoint)))
               (afterWrite \<lparr>rv_Endpoint = revokedEndpoint endpoint now, rv_Session = None\<rparr>)
        else tryR (get_as unmarshal_Session (KSession, e_ActiveSessionID endpoint)) (\<lambda>found.
         case found of
          None \<Rightarrow> bindP (transactP (?ops (e_ActiveSessionID endpoint)))
                    (afterWrite \<lparr>rv_Endpoint = revokedEndpoint endpoint now, rv_Session = None\<rparr>)
        | Some session \<Rightarrow>
            if s_ControllerID session \<noteq> E \<and> s_CompanionID session \<noteq> E
            then bindP (transactP (?ops (e_ActiveSessionID endpoint)))
                   (afterWrite \<lparr>rv_Endpoint = revokedEndpoint endpoint now, rv_Session = None\<rparr>)
            else bindP (transactSessionTransition session now (?ops (e_ActiveSessionID endpoint))
                     [(KEndpoint, E)] [])
                   (afterTransition (\<lambda>closed.
                      if closed
                      then \<lparr>rv_Endpoint = revokedEndpoint endpoint now, rv_Session = None\<rparr>
                             \<lparr>rv_Session := Some
                              \<lparr>csr_Session = closedSession session now, csr_ClosedNow = True\<rparr>\<rparr>
                      else \<lparr>rv_Endpoint = revokedEndpoint endpoint now, rv_Session = None\<rparr>))))
          t1 (\<lambda>_ _. True)"
      using direct [OF i1, of ?sid] by (cases "?sid = ''''") (simp_all add: safe_tryR)
  qed simp
qed

lemma keeps_RevokeEndpoint: "keeps (RevokeEndpoint E c now)"
  unfolding RevokeEndpoint_def by (intro safe_retry keeps_RevokeEndpoint_attempt keeps_failP)

text \<open>The link row that was read, and that a link's lock stays on a session of the link.\<close>

definition saw_link :: "table \<Rightarrow> string \<Rightarrow> Link \<Rightarrow> bool" where
  "saw_link t L link \<longleftrightarrow> l_LinkID link = L \<and>
     at t (KLink, L) A_controllerId = Some (AvS (l_ControllerID link)) \<and>
     at t (KLink, L) A_companionId = Some (AvS (l_CompanionID link)) \<and>
     (l_Status link = ''REVOKED'' \<longrightarrow> l_ActiveSessionID link = '''') \<and>
     (l_ActiveSessionID link \<noteq> '''' \<longrightarrow>
        at t (KSession, l_ActiveSessionID link) A_linkId = Some (AvS L))"

lemma saw_link_read:
  assumes "Inv t" "t (KLink, L) = Some i"
  shows "saw_link t L (unmarshal_Link i)"
proof -
  have f: "link_form L i" using Inv_form [OF assms] by simp
  have "l_ActiveSessionID (unmarshal_Link i) \<noteq> '''' \<longrightarrow>
        at t (KSession, l_ActiveSessionID (unmarshal_Link i)) A_linkId = Some (AvS L)"
    using link_pointer_read [OF assms] by blast
  then show ?thesis
    using f assms(2)
    by (auto simp: saw_link_def link_form_def at_def unmarshal_Link_def get_s_def)
qed

lemma saw_link_stable:
  assumes "evolves t t'" "saw_link t L link"
  shows "saw_link t' L link"
proof -
  have l: "t (KLink, L) \<noteq> None" using assms(2) at_row by (fastforce simp: saw_link_def)
  have a: "at t' (KLink, L) a = at t (KLink, L) a" if "a \<in> {A_controllerId, A_companionId}" for a
    by (rule link_attr_stable [of L t t', OF evolves_row [OF assms(1)] l]) (use that in blast)
  have s: "at t' (KSession, S) A_linkId = Some (AvS L)"
    if "at t (KSession, S) A_linkId = Some (AvS L)" for S
  proof -
    have "t (KSession, S) \<noteq> None" using that at_row by fastforce
    then show ?thesis using session_stable [OF assms(1), of S A_linkId] that by simp
  qed
  show ?thesis using assms(2) a s by (auto simp: saw_link_def)
qed

lemma safe_Store_Link:
  assumes "Inv t"
    and "\<And>t'. evolves t t' \<Longrightarrow> Inv t' \<Longrightarrow> Q (Inr None) t'"
    and "\<And>t' link. evolves t t' \<Longrightarrow> Inv t' \<Longrightarrow> saw_link t' L link \<Longrightarrow> Q (Inr (Some link)) t'"
    and "\<And>t' e. Q (Inl e) t'"
  shows "safe (Store_Link L) t Q"
  unfolding Store_Link_def
proof (rule safe_get_as)
  fix t' assume e: "evolves t t'"
  have i: "Inv t'" by (rule evolves_Inv [OF e assms(1)])
  show "Q (Inr (map_option unmarshal_Link (t' (KLink, L)))) t'"
    using assms(2) [OF e i] assms(3) [OF e i saw_link_read [OF i]]
    by (cases "t' (KLink, L)") auto
qed (rule assms(4))

lemma keeps_Store_Link: "keeps (Store_Link L)"
  unfolding Store_Link_def by (rule keeps_get_as)

lemma link_lock:
  assumes "write_ok t (revokeLinkWrite L sid now)"
    and "at t (KLink, L) A_activeSessionId = Some (AvS S)"
  shows "S = sid \<and> sid \<noteq> ''''"
  using assms by (auto simp: revokeLinkWrite_def write_ok_def at_def split: if_splits)

lemma keeps_RevokeLink_attempt: "keeps (RevokeLink_attempt L E c now)"
  unfolding RevokeLink_attempt_def
proof (rule keeps_tryR [OF keeps_currentEndpoint])
  fix ep :: Endpoint
  show "keeps (tryR (Store_Link L) (\<lambda>found.
       case found of
         None \<Rightarrow> Ret (Return (Inl (serviceError Forbidden)))
       | Some link \<Rightarrow>
           if l_ControllerID link \<noteq> E \<and> l_CompanionID link \<noteq> E
           then Ret (Return (Inl (serviceError Forbidden)))
           else if l_Status link = ''REVOKED''
           then alreadyRevoked L E c now link
           else if l_ActiveSessionID link = ''''
           then bindP (transactP [revokeLinkWrite L (l_ActiveSessionID link) now, endpointFence E c])
                  (afterWrite \<lparr>rl_Link = revokedLink link now, rl_Session = None\<rparr>)
           else tryR (get_as unmarshal_Session (KSession, l_ActiveSessionID link)) (\<lambda>row.
             let session = (case row of
                   Some s \<Rightarrow> if s_LinkID s \<noteq> L
                             then dangling_session (l_ActiveSessionID link) link L else s
                 | None \<Rightarrow> dangling_session (l_ActiveSessionID link) link L) in
             bindP (transactSessionTransition session now
                      [revokeLinkWrite L (l_ActiveSessionID link) now] [(KLink, L)] [(E, c)])
               (afterTransition (\<lambda>closed.
                  \<lparr>rl_Link = revokedLink link now,
                   rl_Session = (if closed
                     then Some \<lparr>csr_Session = closedSession session now, csr_ClosedNow = True\<rparr>
                     else None)\<rparr>)))))" (is "keeps (tryR _ ?body)")
  proof (rule keepsI)
    fix t assume t: "Inv t"
    show "safe (tryR (Store_Link L) ?body) t (\<lambda>_ _. True)"
      unfolding safe_tryR
    proof (rule safe_Store_Link [OF t])
      fix t1 link assume t1: "evolves t t1" "Inv t1" "saw_link t1 L link"
      let ?sid = "l_ActiveSessionID link"
      let ?rl = "revokeLinkWrite L ?sid now"
      have idle: "safe (bindP (transactP [?rl, endpointFence E c]) (afterWrite v)) t1 (\<lambda>_ _. True)"
        if "?sid = ''''" for v :: RevokeLinkResult
        unfolding gs_bindP
      proof (rule safe_plain_transact [OF t1(2)])
        fix t' w assume w: "evolves t1 t'" "Inv t'" "w \<in> set [?rl, endpointFence E c]" "write_ok t' w"
        have "plain t' {} ?rl" if "write_ok t' ?rl"
          by (rule plain_revokeLinkWrite [OF w(2)]) (use that link_lock \<open>?sid = ''''\<close> in blast)
        then show "plain t' {} w" using w(3,4) by auto
      qed simp
      have busy: "safe (bindP (transactSessionTransition sess now [?rl] [(KLink, L)] [(E, c)])
          (afterTransition f)) t2 (\<lambda>_ _. True)"
        if "Inv t2" "knows t2 ?sid sess" for t2 sess and f :: "bool \<Rightarrow> RevokeLinkResult"
        unfolding gs_bindP
      proof (rule safe_transition [OF that])
        fix t' w assume w: "evolves t2 t'" "Inv t'" "w \<in> set [?rl]" "write_ok t' w"
        have k: "knows t' ?sid sess" by (rule knows_stable [OF w(1) that])
        have "?sid \<in> closing sess \<or> \<not> active t' ?sid" using k by (auto simp: knows_def closing_def)
        then have "plain t' (closing sess) ?rl"
          by (intro plain_revokeLinkWrite [OF w(2)]) blast
        then show "plain t' (closing sess) w" using w(3) by simp
      next
        fix k assume "k \<in> set [(KLink, L)]"
        then show "\<exists>w \<in> set [?rl]. write_key w = k \<and> unlocks w"
          by (auto simp: revokeLinkWrite_def unlocks_def at_def update_item_def)
      qed simp
      have locked: "safe (tryR (get_as unmarshal_Session (KSession, ?sid)) (\<lambda>row.
             let session = (case row of
                   Some s \<Rightarrow> if s_LinkID s \<noteq> L
                             then dangling_session ?sid link L else s
                 | None \<Rightarrow> dangling_session ?sid link L) in
             bindP (transactSessionTransition session now [?rl] [(KLink, L)] [(E, c)])
               (afterTransition (f session)))) t1 (\<lambda>_ _. True)"
        if "?sid \<noteq> ''''" for f :: "Session \<Rightarrow> bool \<Rightarrow> RevokeLinkResult"
        unfolding safe_tryR
      proof (rule safe_active_session [OF t1(2)])
        have "at t1 (KSession, ?sid) A_linkId = Some (AvS L)"
          using t1(3) that by (simp add: saw_link_def)
        then show "t1 (KSession, ?sid) \<noteq> None" using at_row by fastforce
      next
        fix t2 sess assume t2: "evolves t1 t2" "Inv t2" "knows t2 ?sid sess"
        have "s_LinkID sess = L"
          using saw_link_stable [OF t2(1) t1(3)] t2(3) that by (simp add: saw_link_def knows_def)
        then show "case Inr (Some sess) of Inl e \<Rightarrow> True
          | Inr row \<Rightarrow> safe (let session = (case row of
                   Some s \<Rightarrow> if s_LinkID s \<noteq> L
                             then dangling_session ?sid link L else s
                 | None \<Rightarrow> dangling_session ?sid link L) in
             bindP (transactSessionTransition session now [?rl] [(KLink, L)] [(E, c)])
               (afterTransition (f session))) t2 (\<lambda>_ _. True)"
          using busy [OF t2(2,3)] by simp
      qed simp
      have rv: "?sid = ''''" if "l_Status link = ''REVOKED''"
        using t1(3) that by (simp add: saw_link_def)
      show "case Inr (Some link) of Inl e \<Rightarrow> True | Inr x \<Rightarrow> safe (?body x) t1 (\<lambda>_ _. True)"
        using rv idle locked by (simp add: alreadyRevoked_def)
    qed simp_all
  qed
qed

lemma keeps_RevokeLink: "keeps (RevokeLink L E c now)"
  unfolding RevokeLink_def by (intro safe_retry keeps_RevokeLink_attempt keeps_failP)

section \<open>Opening a session\<close>

lemma keeps_repairStaleSession:
  assumes "Inv t" "t (KSession, S) \<noteq> None"
  shows "safe (repairStaleSession S link now) t (\<lambda>_ _. True)"
  unfolding repairStaleSession_def safe_bindE
proof (rule safe_active_session [OF assms])
  fix t' sess assume "Inv t'"
  moreover have "keeps (bindE (CloseSession S '''' '''' now) (\<lambda>_. okP True))"
    by (rule keeps_bindE [OF keeps_CloseSession keeps_okP])
  ultimately have "safe (bindE (CloseSession S '''' '''' now) (\<lambda>_. okP True)) t' (\<lambda>_ _. True)"
    unfolding keeps_def by blast
  then show "case Inr (Some sess) of Inl e \<Rightarrow> True
    | Inr found \<Rightarrow> safe (case found of
         Some session \<Rightarrow>
           if s_Status session = ''ACTIVE'' \<and> s_ExpiresAt session > now then okP False
           else bindE (CloseSession S '''' '''' now) (\<lambda>_. okP True)
       | None \<Rightarrow>
           bindP (transactSessionTransition (dangling_session S link (l_LinkID link))
                    now [] [] []) (\<lambda>r.
             case r of
               Inl e \<Rightarrow> if conditionalFailure (Some e) then okP True else failP e
             | Inr _ \<Rightarrow> okP True)) t' (\<lambda>_ _. True)"
    by simp
qed simp

lemma safe_repairAll:
  assumes "Inv t" "\<forall>S \<in> set ids. t (KSession, S) \<noteq> None"
  shows "safe (repairAll ids link now r) t (\<lambda>_ _. True)"
  using assms
proof (induction ids arbitrary: t r)
  case (Cons S ids)
  have "safe (repairStaleSession S link now) t (\<lambda>_ _. True)"
    by (rule keeps_repairStaleSession) (use Cons.prems in auto)
  from safe_reached [OF this] show ?case
    unfolding repairAll.simps safe_bindE
  proof (rule safe_weaken)
    fix x t' assume "evolves t t' \<and> True"
    then have "Inv t'" "\<forall>S \<in> set ids. t' (KSession, S) \<noteq> None"
      using evolves_Inv Cons.prems exists_stable [of t t'] by auto
    from Cons.IH [OF this] show "case x of Inl e \<Rightarrow> True
      | Inr fixed \<Rightarrow> safe (if \<not> fixed then failP (retryableError PeerBusy)
          else repairAll ids link now True) t' (\<lambda>_ _. True)"
      by (simp split: sum.splits)
  qed
qed simp

lemma safe_openOps:
  assumes "Inv t" "s_Status sess = ''ACTIVE''" "saw_link t (s_LinkID sess) link"
    and "s_ControllerID sess = l_ControllerID link" "s_CompanionID sess = l_CompanionID link"
  shows "safe (bindP (transactP (openOps sess)) (afterWrite v)) t (\<lambda>_ _. True)"
  unfolding gs_bindP
proof (rule safe_transactP)
  fix t' assume e: "evolves t t'" and ok: "writes_ok (openOps sess) t'"
  have "saw_link t' (s_LinkID sess) link" by (rule saw_link_stable [OF e assms(3)])
  then show "evolves t' (apply_writes (openOps sess) t')"
    by (intro open_evolves [OF evolves_Inv [OF e assms(1)] ok assms(2)])
      (simp_all add: saw_link_def assms(4,5))
qed simp

lemma staleLocks_exist:
  assumes "saw_link t L link" "saw_endpoint t C x" "saw_endpoint t D y"
    and "S \<in> set (staleLocks link x y)"
  shows "t (KSession, S) \<noteq> None"
proof -
  have "at t (KSession, l_ActiveSessionID link) A_linkId = Some (AvS L)"
    if "l_ActiveSessionID link \<noteq> ''''"
    using assms(1) that by (simp add: saw_link_def)
  then have "t (KSession, l_ActiveSessionID link) \<noteq> None" if "l_ActiveSessionID link \<noteq> ''''"
    using at_row that by fastforce
  moreover have "S \<noteq> ''''"
    "S \<in> {l_ActiveSessionID link, e_ActiveSessionID x, e_ActiveSessionID y}"
    using assms(4) by (auto simp: staleLocks_def split: if_splits)
  ultimately show ?thesis using assms(2,3) by (auto simp: saw_endpoint_def)
qed

lemma safe_openUnlocked:
  assumes i: "Inv t" and l: "saw_link t L link" and x: "saw_endpoint t (l_ControllerID link) x"
    and y: "saw_endpoint t (l_CompanionID link) y"
  shows "safe (openUnlocked L c sid link x y now) t (\<lambda>_ _. True)"
proof -
  let ?sess = "newSession sid L c x y now"
  have op: "safe (bindP (transactP (openOps ?sess)) (afterWrite v)) t' (\<lambda>_ _. True)"
    if e: "evolves t t'" for t' and v :: Session
    by (rule safe_openOps [OF evolves_Inv [OF e i], where link = link])
      (use saw_link_stable [OF e l] x y in \<open>simp_all add: newSession_def saw_endpoint_def\<close>)
  have "safe (tryR (repairAll order link now False) (\<lambda>repaired.
       if repaired then Ret Continue
       else if e_RevokedAt x \<noteq> 0 \<or> e_ConnectionID x \<noteq> c
       then Ret (Return (Inl (serviceError Unauthenticated)))
       else if e_RevokedAt y \<noteq> 0 \<or> e_ConnectionID y = '''' \<or> e_ConnectionID y = c
       then Ret (Return (Inl (retryableError PeerOffline)))
       else let session = ?sess in bindP (transactP (openOps session)) (afterWrite session)))
       t (\<lambda>_ _. True)"
    if m: "mset order = mset (staleLocks link x y)" for order
    unfolding safe_tryR
    by (rule safe_weaken [OF safe_reached [OF safe_repairAll [OF i]]])
      (use staleLocks_exist [OF l x y] mset_eq_setD [OF m] op in
        \<open>auto simp: Let_def split: sum.splits\<close>)
  then show ?thesis by (simp add: openUnlocked_def)
qed

lemma keeps_OpenSession_attempt: "keeps (OpenSession_attempt L E c sid now)"
proof (rule keepsI)
  fix t assume t: "Inv t"
  show "safe (OpenSession_attempt L E c sid now) t (\<lambda>_ _. True)"
    unfolding OpenSession_attempt_def safe_tryR
  proof (rule safe_Store_Link [OF t])
    fix t1 link assume t1: "evolves t t1" "Inv t1" "saw_link t1 L link"
    let ?no = "Ret (Return (Inl (serviceError Unauthenticated))) :: (err + Session) attempt prog"
    let ?fin = "\<lambda>ctrl cmp. case ctrl of None \<Rightarrow> ?no | Some x \<Rightarrow>
        (case cmp of None \<Rightarrow> ?no | Some y \<Rightarrow> openUnlocked L c sid link x y now)"
    have second: "safe (tryR (GetEndpoint (l_CompanionID link)) (?fin ctrl)) t2 (\<lambda>_ _. True)"
      if t2: "evolves t1 t2" "Inv t2"
        "\<And>x. ctrl = Some x \<Longrightarrow> saw_endpoint t2 (l_ControllerID link) x" for t2 ctrl
      unfolding safe_tryR
    proof (rule safe_GetEndpoint [OF t2(2)])
      fix t3 y assume t3: "evolves t2 t3" "Inv t3" "saw_endpoint t3 (l_CompanionID link) y"
      have l: "saw_link t3 L link"
        by (rule saw_link_stable [OF t3(1) saw_link_stable [OF t2(1) t1(3)]])
      show "case Inr (Some y) of Inl e \<Rightarrow> True | Inr cmp \<Rightarrow> safe (?fin ctrl cmp) t3 (\<lambda>_ _. True)"
        using safe_openUnlocked [OF t3(2) l saw_endpoint_stable [OF t3(1) t2(3)] t3(3)]
        by (cases ctrl) simp_all
    qed (simp_all split: option.splits)
    have "safe (tryR (GetEndpoint (l_ControllerID link))
        (\<lambda>ctrl. tryR (GetEndpoint (l_CompanionID link)) (?fin ctrl))) t1 (\<lambda>_ _. True)"
      unfolding safe_tryR [of "GetEndpoint (l_ControllerID link)"]
      by (rule safe_GetEndpoint [OF t1(2)]; simp only: sum.case; rule second; simp)
    then show "case Inr (Some link) of Inl e \<Rightarrow> True | Inr found \<Rightarrow> safe (case found of
         None \<Rightarrow> Ret (Return (Inl (serviceError Forbidden)))
       | Some link \<Rightarrow>
           if l_Status link \<noteq> ''ACTIVE'' \<or> l_ControllerID link \<noteq> E
           then Ret (Return (Inl (serviceError Forbidden)))
           else
             tryR (GetEndpoint (l_ControllerID link)) (\<lambda>controller.
             tryR (GetEndpoint (l_CompanionID link)) (\<lambda>companion.
               case controller of
                 None \<Rightarrow> Ret (Return (Inl (serviceError Unauthenticated)))
               | Some x \<Rightarrow>
                   (case companion of
                      None \<Rightarrow> Ret (Return (Inl (serviceError Unauthenticated)))
                    | Some y \<Rightarrow> openUnlocked L c sid link x y now)))) t1 (\<lambda>_ _. True)"
      by auto
  qed simp_all
qed

lemma keeps_OpenSession: "keeps (OpenSession L E c sid now)"
  unfolding OpenSession_def by (intro safe_retry keeps_OpenSession_attempt keeps_failP)

section \<open>Pairs\<close>

text \<open>The pair row that was read: its identity and the commits it already has.\<close>

definition saw_pair :: "table \<Rightarrow> string \<Rightarrow> Pair \<Rightarrow> bool" where
  "saw_pair t P pair \<longleftrightarrow> t (KPair, P) \<noteq> None \<and> p_PairID pair = P \<and>
     (\<forall>c. p_CommitA pair = Some c \<longrightarrow> at t (KPair, P) A_commitA = Some (marshal_PairCommit c)) \<and>
     (\<forall>c. p_CommitB pair = Some c \<longrightarrow> at t (KPair, P) A_commitB = Some (marshal_PairCommit c))"

lemma unmarshal_commit:
  assumes "commits_form i" "a \<in> {A_commitA, A_commitB}"
    and "map_option unmarshal_PairCommit (get_m i a) = Some c"
  shows "i a = Some (marshal_PairCommit c)"
proof -
  obtain v where v: "i a = Some v" using assms(3) by (auto simp: get_m_def split: option.splits)
  then obtain c' where c': "v = marshal_PairCommit c'" using assms(1,2) by (auto simp: commits_form_def)
  then have "map_option unmarshal_PairCommit (get_m i a) = Some c'"
    using PairCommit_roundtrip [of i a c'] v by simp
  then show ?thesis using assms(3) v c' by simp
qed

lemma saw_pair_read:
  assumes "Inv t" "t (KPair, P) = Some i"
  shows "saw_pair t P (unmarshal_Pair i)"
proof -
  have f: "pair_form P i" using Inv_form [OF assms] by simp
  then have c: "commits_form i" by (simp add: pair_form_def)
  show ?thesis
    using f assms(2) unmarshal_commit [OF c, of A_commitA] unmarshal_commit [OF c, of A_commitB]
    by (auto simp: saw_pair_def pair_form_def unmarshal_Pair_def get_s_def at_Some)
qed

lemma saw_pair_stable:
  assumes "evolves t t'" "saw_pair t P pair"
  shows "saw_pair t' P pair"
proof -
  obtain i where i: "t (KPair, P) = Some i" using assms(2) by (auto simp: saw_pair_def)
  then obtain j where j: "t' (KPair, P) = Some j" "item_mono KPair i j"
    using evolves_row [OF assms(1), of "(KPair, P)"] by (auto simp: row_mono_def)
  then show ?thesis
    using assms(2) i by (auto simp: saw_pair_def item_mono_def once_def at_Some)
qed

lemma safe_PairByID:
  assumes "Inv t"
    and "\<And>t' pair. evolves t t' \<Longrightarrow> Inv t' \<Longrightarrow> saw_pair t' P pair \<Longrightarrow> Q (Inr pair) t'"
    and "\<And>t' e. evolves t t' \<Longrightarrow> Q (Inl e) t'"
  shows "safe (PairByID P now) t Q"
  unfolding PairByID_def safe_bindE
proof (rule safe_get_as)
  fix t' assume e: "evolves t t'"
  have i: "Inv t'" by (rule evolves_Inv [OF e assms(1)])
  show "case Inr (map_option unmarshal_Pair (t' (KPair, P))) of Inl e \<Rightarrow> Q (Inl e) t'
    | Inr x \<Rightarrow> safe (case x of
         None \<Rightarrow> failP (serviceError PairExpired)
       | Some pair \<Rightarrow>
           if p_ExpiresAt pair \<le> now then failP (serviceError PairExpired)
           else if p_PairID pair \<noteq> P then failP (serviceError PairUnavailable)
           else okP pair) t' Q"
    using assms(2) [OF e i saw_pair_read [OF i]] assms(3) [OF e]
    by (cases "t' (KPair, P)") simp_all
qed (simp add: assms(3))

lemma keeps_PairByID: "keeps (PairByID P now)"
  by (rule keepsI) (rule safe_PairByID, simp_all)

lemma keeps_pairByAdmission: "keeps (pairByAdmission k v now)"
  unfolding pairByAdmission_def
  by (rule keeps_bindE [OF keeps_get_as])
    (auto simp: Let_def split: option.splits intro!: keeps_bindE keeps_PairByID)

lemma keeps_CreatePair:
  assumes "fresh_pair pair"
  shows "keeps (CreatePair pair)"
proof -
  have "keeps (transactP (createPairOps pair))"
    by (rule keeps_transact_plain) (rule plain_createPairOps [OF assms])
  moreover have "keeps (if conditionalFailure e then failP (retryableError Conflict)
      else case e of None \<Rightarrow> okP () | Some x \<Rightarrow> failP x)" for e :: "err option"
    by (cases e) simp_all
  ultimately show ?thesis
    by (simp add: CreatePair_def keeps_bindP)
qed

lemma keeps_JoinPair: "keeps (JoinPair loc jth side now)"
proof -
  have "keeps (transactP (joinOps pair loc jth side now))" for pair
    by (rule keeps_transact_plain) (rule plain_joinOps)
  then show ?thesis
    unfolding JoinPair_def PairByLocator_def pairByJoinTokenHash_def
    by (auto intro!: keeps_bindP keeps_bindE keeps_pairByAdmission split: option.splits)
qed

lemma keeps_commitFirst: "keeps (commitFirst pair slot commit now)"
  unfolding commitFirst_def
  by (auto intro!: keeps_bindP keeps_update_plain plain_commitWrite split: option.splits)

lemma safe_commitSecond:
  assumes t: "Inv t" and p: "saw_pair t P pair" and oc: "other_commit slot pair = Some other"
  shows "safe (commitSecond lim pair slot commit other src now) t (\<lambda>_ _. True)"
proof -
  obtain first second where fs: "(first, second) = (if slot = SlotA then (commit, other) else (other, commit))"
    by (cases slot) auto
  have tr: "safe (transactP (activationOps lim pair slot commit first second link src now)) t Q"
    if l: "LinkFromCommits first second now = Inr link" and "\<And>r t'. Q r t'" for link Q
  proof (rule safe_transactP [OF _ that(2)])
    fix t' assume e: "evolves t t'"
      and ok: "writes_ok (activationOps lim pair slot commit first second link src now) t'"
    have s: "saw_pair t' P pair" by (rule saw_pair_stable [OF e p])
    then have o: "at t' (KPair, P) (case slot of SlotA \<Rightarrow> A_commitB | SlotB \<Rightarrow> A_commitA) =
        Some (marshal_PairCommit other)"
      using oc by (cases slot) (auto simp: saw_pair_def)
    show "evolves t' (apply_writes (activationOps lim pair slot commit first second link src now) t')"
      using s activate_evolves [OF evolves_Inv [OF e t] ok _ l fs o] by (simp add: saw_pair_def)
  qed
  show ?thesis
    using fs [symmetric]
    by (auto simp: commitSecond_def gs_bindP intro!: tr split: sum.splits option.splits)
qed

lemma keeps_CommitPair: "keeps (CommitPair lim P commit src now)"
proof (rule keepsI)
  fix t assume t: "Inv t"
  show "safe (CommitPair lim P commit src now) t (\<lambda>_ _. True)"
    unfolding CommitPair_def safe_bindE
  proof (rule safe_PairByID [OF t])
    fix t1 pair assume t1: "evolves t t1" "Inv t1" "saw_pair t1 P pair"
    have link: "safe (bindE (Store_Link (pc_LinkID commit)) f) t1 (\<lambda>_ _. True)"
      if "\<And>l. keeps (f l)" for f :: "Link option \<Rightarrow> (err + CommitPairResult) prog"
      using keeps_bindE [OF keeps_Store_Link that] t1(2) by (simp add: keeps_def)
    have first: "safe (commitFirst pair slot commit now) t1 (\<lambda>_ _. True)" for slot
      using keeps_commitFirst t1(2) by (simp add: keeps_def)
    show "case Inr pair of Inl e \<Rightarrow> True | Inr pair \<Rightarrow> safe (case slot_of pair commit of
         None \<Rightarrow> failP (serviceError Forbidden)
       | Some slot \<Rightarrow>
           (case own_commit slot pair of
              Some own \<Rightarrow>
                if p_Status pair = ''ACTIVE'' \<and> SameCommit own commit
                then bindE (Store_Link (pc_LinkID commit)) (\<lambda>link.
                       okP \<lparr>cp_Pair = pair, cp_Link = link, cp_ActivatedNow = False\<rparr>)
                else if \<not> SameCommit own commit then failP (serviceError Conflict)
                else okP \<lparr>cp_Pair = pair, cp_Link = None, cp_ActivatedNow = False\<rparr>
            | None \<Rightarrow>
                if p_Status pair \<noteq> ''READY'' \<and> p_Status pair \<noteq> ''HALF_COMMITTED''
                then failP (serviceError PairUnavailable)
                else case other_commit slot pair of
                       None \<Rightarrow> commitFirst pair slot commit now
                     | Some other \<Rightarrow> commitSecond lim pair slot commit other src now)) t1 (\<lambda>_ _. True)"
      using link first safe_commitSecond [OF t1(2,3)] by (simp split: option.splits)
  qed simp
qed

lemma keeps_CancelPair: "keeps (CancelPair P c now)"
proof (rule keepsI)
  fix t assume t: "Inv t"
  show "safe (CancelPair P c now) t (\<lambda>_ _. True)"
    unfolding CancelPair_def gs_bindP
  proof (rule safe_PairByID [OF t])
    fix t1 pair assume t1: "evolves t t1" "Inv t1" "saw_pair t1 P pair"
    have pid: "p_PairID pair = P" using t1(3) by (simp add: saw_pair_def)
    have upd: "safe (updateP (cancelWrite P)) t1 (\<lambda>_. Inv)"
    proof -
      have "safe (updateP (cancelWrite P)) t1 (\<lambda>_ _. True)"
      proof (rule safe_plain_update [OF t1(2)])
        fix t' assume e: "evolves t1 t'" "Inv t'"
        have "t' (KPair, P) \<noteq> None" using saw_pair_stable [OF e(1) t1(3)] by (simp add: saw_pair_def)
        then show "plain t' {} (cancelWrite P)" by (rule plain_cancelWrite [OF e(2)])
      qed simp
      from safe_reached [OF this] show ?thesis
        by (rule safe_weaken) (use t1(2) evolves_Inv in blast)
    qed
    have again: "keeps (bindP (PairByID P now) (\<lambda>again.
                 case again of
                   Inr current \<Rightarrow>
                     if p_Status current = ''CLOSED'' then okP (Some current)
                     else failP (serviceError Conflict)
                 | Inl _ \<Rightarrow> failP (serviceError Conflict)))"
      by (rule keeps_bindP [OF keeps_PairByID]) (simp split: sum.splits)
    have "safe (bindP (updateP (cancelWrite P)) (\<lambda>e.
             if conditionalFailure e then
               bindP (PairByID P now) (\<lambda>again.
                 case again of
                   Inr current \<Rightarrow>
                     if p_Status current = ''CLOSED'' then okP (Some current)
                     else failP (serviceError Conflict)
                 | Inl _ \<Rightarrow> failP (serviceError Conflict))
             else case e of
                    Some x \<Rightarrow> failP x
                  | None \<Rightarrow> okP (Some (pair\<lparr>p_Status := ''CLOSED''\<rparr>)))) t1 (\<lambda>_ _. True)"
      unfolding gs_bindP [of _ _ "updateP (cancelWrite P)"]
      by (rule safe_weaken [OF upd]) (use again in \<open>simp add: keeps_def split: option.splits\<close>)
    then show "safe (case Inr pair of
         Inl e \<Rightarrow> if service_code e = Some PairExpired then okP None else failP e
       | Inr pair \<Rightarrow>
           if \<not> pairSideOf pair c then failP (serviceError Forbidden)
           else if p_Status pair = ''ACTIVE'' then failP (serviceError Conflict)
           else if p_Status pair = ''CLOSED'' then okP (Some pair)
           else bindP (updateP (cancelWrite (p_PairID pair))) (\<lambda>e.
             if conditionalFailure e then
               bindP (PairByID P now) (\<lambda>again.
                 case again of
                   Inr current \<Rightarrow>
                     if p_Status current = ''CLOSED'' then okP (Some current)
                     else failP (serviceError Conflict)
                 | Inl _ \<Rightarrow> failP (serviceError Conflict))
             else case e of
                    Some x \<Rightarrow> failP x
                  | None \<Rightarrow> okP (Some (pair\<lparr>p_Status := ''CLOSED''\<rparr>)))) t1 (\<lambda>_ _. True)"
      by (simp add: pid)
  qed simp
qed

section \<open>Reads\<close>

lemma keeps_Store_Connection: "keeps (Store_Connection c now)"
  unfolding Store_Connection_def
  by (rule keeps_bindE [OF keeps_get_as]) (simp split: option.splits)

lemmas keeps_store = keeps_GetEndpoint keeps_Connect keeps_Disconnect keeps_Store_Connection
  keeps_RateLimit keeps_CreatePair keeps_PairByID keeps_JoinPair keeps_CommitPair keeps_CancelPair
  keeps_Store_Link keeps_RevokeLink keeps_RotateEndpoint keeps_RevokeEndpoint keeps_OpenSession
  keeps_Store_Session keeps_CloseSession

end
