(* ===== verification/Handler.thy ===== *)
theory Handler
  imports StoreConnections StorePairs StoreSessions
begin

text \<open>
  \<^verbatim>\<open>services/rendezvous-relay/internal/relay/handler.go\<close>: one invocation of the Lambda function, from a
  WebSocket event to its response. The functions of libraries it calls are the fields of \<open>deps\<close>:
  SHA-256, \<^verbatim>\<open>net/netip\<close>, the protocol's parser (JSON and its schema) and the \<^verbatim>\<open>id\<close> field of an
  unparsed body. Logging has no effect on the state and is left out. Notifying a connection that is
  gone cleans it up, which may notify another connection: this recursion carries fuel, and
  \<open>EUnfinished\<close> is the result when it runs out.
\<close>

section \<open>Events, responses and parameters\<close>

record WebSocketEvent =
  ev_ConnectionID :: string
  ev_RouteKey :: string
  ev_SourceIP :: string
  ev_Headers :: "(string \<times> string) list"
  ev_Body :: string

record WebSocketResponse =
  resp_StatusCode :: int
  resp_Body :: "Message option"

text \<open>A \<^verbatim>\<open>netip.Addr\<close> after \<^verbatim>\<open>Unmap\<close>: whether it is IPv6, its text, and the text of its masked /64 prefix.\<close>

record IPAddr =
  ip_Is6 :: bool
  ip_String :: string
  ip_Prefix64 :: string

record deps =
  d_sha256 :: "string \<Rightarrow> string"
  d_ParseAddr :: "string \<Rightarrow> IPAddr option"
  d_ParseClient :: "string \<Rightarrow> ValidationError + Envelope"
  d_bodyID :: "string \<Rightarrow> string option"
  d_pairActivationsPerSourceHour :: int

definition pairingActions :: "string list" where
  "pairingActions = [''system.hello'', ''system.ping'', ''pair.create'', ''pair.join'',
     ''pair.commit'', ''pair.cancel'']"

definition endpointActions :: "string list" where
  "endpointActions = [''system.hello'', ''system.ping'', ''link.get'', ''link.revoke'',
     ''endpoint.rotate'', ''endpoint.revoke'', ''session.open'', ''session.close'']"

definition pairingConnectsPerMinute :: int where
  "pairingConnectsPerMinute = 30"
definition sessionFramesPerMinute :: int where
  "sessionFramesPerMinute = 3600"
definition endpointMessagesPerMinute :: int where
  "endpointMessagesPerMinute = 600"

definition response :: "string \<Rightarrow> json \<Rightarrow> string \<Rightarrow> string \<Rightarrow> Message" where
  "response messageType body i replyTo =
     \<lparr>m_Protocol = ProtocolName, m_V = ProtocolVersion, m_Type = messageType, m_ID = i,
      m_ReplyTo = replyTo, m_Body = body\<rparr>"

definition ok :: "Envelope \<Rightarrow> json \<Rightarrow> string \<Rightarrow> Message" where
  "ok request result i =
     response ''ok'' (JObj [(''requestType'', JStr (env_Type request)), (''result'', result)]) i
       (env_ID request)"

definition failure :: "string \<Rightarrow> err \<Rightarrow> string \<Rightarrow> Message" where
  "failure replyTo e i =
     (let (code, retryable, retryAfter) =
            (case as_validation e of
               Some v \<Rightarrow> (ve_Code v, False, None)
             | None \<Rightarrow>
                 (case as_service e of
                    Some s \<Rightarrow> (se_Code s, se_Retryable s, se_RetryAfterMS s)
                  | None \<Rightarrow> (Internal, True, None)));
          (code, retryable) = (if code \<notin> set ErrorCodes then (Internal, True) else (code, retryable));
          body = [(''code'', JStr (code_string code)), (''retryable'', JBool retryable)] @
            (case retryAfter of None \<Rightarrow> [] | Some ms \<Rightarrow> [(''retryAfterMs'', JInt ms)]) in
      response ''error'' (JObj body) i replyTo)"

section \<open>Peers, keys and header fields\<close>

definition peerConnection :: "Pair \<Rightarrow> string \<Rightarrow> err + string" where
  "peerConnection pair connectionID =
     (if ps_ConnectionID (p_SideA pair) = connectionID
      then Inr (case p_SideB pair of None \<Rightarrow> '''' | Some b \<Rightarrow> ps_ConnectionID b)
      else case p_SideB pair of
             None \<Rightarrow> Inl (serviceError Forbidden)
           | Some b \<Rightarrow> if ps_ConnectionID b = connectionID
                       then Inr (ps_ConnectionID (p_SideA pair))
                       else Inl (serviceError Forbidden))"

definition sessionPeer :: "Session \<Rightarrow> string \<Rightarrow> err + string" where
  "sessionPeer session connectionID =
     (if s_ControllerConnectionID session = connectionID
      then Inr (s_CompanionConnectionID session)
      else if s_CompanionConnectionID session = connectionID
      then Inr (s_ControllerConnectionID session)
      else Inl (serviceError Forbidden))"

definition SourceKey :: "deps \<Rightarrow> string \<Rightarrow> string" where
  "SourceKey d ip =
     b64_encode (d_sha256 d
       (case d_ParseAddr d ip of
          None \<Rightarrow> ip
        | Some a \<Rightarrow> if ip_Is6 a then ip_Prefix64 a else ip_String a))"

definition credentialDigest :: "deps \<Rightarrow> string \<Rightarrow> string" where
  "credentialDigest d secret =
     b64_encode (d_sha256 d (case b64_decode secret of None \<Rightarrow> '''' | Some b \<Rightarrow> b))"

definition constantTimeEqual :: "string \<Rightarrow> string \<Rightarrow> bool" where
  "constantTimeEqual left right \<longleftrightarrow> length left = length right \<and> left = right"

definition ToLower :: "string \<Rightarrow> string" where
  "ToLower s = map (\<lambda>c. if 65 \<le> (of_char c :: nat) \<and> (of_char c :: nat) \<le> 90
                         then char_of ((of_char c :: nat) + 32) else c) s"

text \<open>
  \<^verbatim>\<open>header\<close> ranges over a Go map of headers, so which of several keys that differ only in case it finds
  is open. \<^verbatim>\<open>strings.EqualFold\<close> is compared on ASCII letters: no letter of \<^verbatim>\<open>authorization\<close> folds to a
  character outside ASCII.
\<close>

definition header :: "(string \<times> string) list \<Rightarrow> string \<Rightarrow> string prog" where
  "header headers name =
     RangeMap (remdups (map fst headers)) (\<lambda>keys. Ret
       (case List.find (\<lambda>k. ToLower k = ToLower name) keys of
          None \<Rightarrow> ''''
        | Some k \<Rightarrow> (case map_of headers k of None \<Rightarrow> '''' | Some v \<Rightarrow> v)))"

definition requestIDFromBody :: "deps \<Rightarrow> string \<Rightarrow> string \<Rightarrow> string" where
  "requestIDFromBody d body fallback =
     (case d_bodyID d body of
        None \<Rightarrow> fallback
      | Some i \<Rightarrow> if uuidPattern i then i else fallback)"

definition sourceIP :: "string \<Rightarrow> string" where
  "sourceIP v = (if v = '''' then ''unknown'' else v)"

text \<open>\<^verbatim>\<open>ErrorCode()\<close> of the AWS errors; \<^verbatim>\<open>gone\<close> looks for the first error that has one.\<close>

definition api_code :: "api_error \<Rightarrow> string option" where
  "api_code a =
     (case a of
        ConditionalCheckFailed \<Rightarrow> Some ''ConditionalCheckFailedException''
      | TransactionCanceled _ \<Rightarrow> Some ''TransactionCanceledException''
      | ApiError c \<Rightarrow> Some c
      | OtherFailure _ \<Rightarrow> None)"

definition gone :: "err \<Rightarrow> bool" where
  "gone e \<longleftrightarrow> errs_As api_code e = Some ''GoneException''"

definition joinErrs :: "err option \<Rightarrow> err option \<Rightarrow> err option" where
  "joinErrs a b =
     (case a of None \<Rightarrow> b | Some x \<Rightarrow> (case b of None \<Rightarrow> Some x | Some y \<Rightarrow> Some (EJoin x y)))"

definition validationFailure :: "err \<Rightarrow> bool" where
  "validationFailure e \<longleftrightarrow> as_validation e \<noteq> None"

definition shouldDropFrame :: "string \<Rightarrow> err \<Rightarrow> bool" where
  "shouldDropFrame route e =
     (let frameRoute = (route = ''pair.frame'' \<or> route = ''session.frame''); code = service_code e in
      if frameRoute \<and> validationFailure e then True
      else code = Some RateLimited \<or> frameRoute \<and> code = Some InvalidMessage \<or>
           route = ''session.frame'' \<and> (code = Some Unauthenticated \<or> code = Some Forbidden))"

definition shouldDropDefault :: "err \<Rightarrow> bool" where
  "shouldDropDefault e =
     (let code = service_code e in
      validationFailure e \<or> code = Some RateLimited \<or> code = Some Unauthenticated)"

section \<open>Notifying and cleaning up\<close>

definition postP :: "string \<Rightarrow> Message \<Rightarrow> err option prog" where
  "postP connectionID message = Post connectionID message (\<lambda>r. Ret (map_option EApi r))"

definition dropP :: "string \<Rightarrow> err option prog" where
  "dropP connectionID = Drop connectionID (\<lambda>r. Ret (map_option EApi r))"

definition nowP :: "int prog" where "nowP = Now Ret"
definition idP :: "string prog" where "idP = NewID Ret"
definition locatorP :: "string prog" where "locatorP = NewLocator Ret"

definition errP :: "err option \<Rightarrow> (err + unit) prog" where
  "errP e = Ret (case e of None \<Rightarrow> Inr () | Some x \<Rightarrow> Inl x)"

text \<open>
  \<open>cl\<close> is \<^verbatim>\<open>cleanup\<close> with the fuel that is left: connection, reason, \<^verbatim>\<open>sendPairEvent\<close>.
\<close>

type_synonym cleaner = "string \<Rightarrow> string \<Rightarrow> bool \<Rightarrow> (err + unit) prog"

definition notifyWithPairEvent :: "cleaner \<Rightarrow> string \<Rightarrow> Message \<Rightarrow> bool \<Rightarrow> (err + bool) prog" where
  "notifyWithPairEvent cl connectionID message sendPairEvent =
     (if connectionID = '''' then okP False
      else bindP (postP connectionID message) (\<lambda>e.
        case e of
          None \<Rightarrow> okP True
        | Some x \<Rightarrow>
            if \<not> gone x then failP x
            else bindE (cl connectionID ''peer-disconnected'' sendPairEvent) (\<lambda>_. okP False)))"

definition notify :: "cleaner \<Rightarrow> string \<Rightarrow> Message \<Rightarrow> (err + bool) prog" where
  "notify cl connectionID message = notifyWithPairEvent cl connectionID message False"

fun notifyEach :: "cleaner \<Rightarrow> Message \<Rightarrow> string \<Rightarrow> string list \<Rightarrow> (err + unit) prog" where
  "notifyEach cl message skip [] = okP ()"
| "notifyEach cl message skip (c # cs) =
     (if c \<noteq> skip
      then bindE (notify cl c message) (\<lambda>_. notifyEach cl message skip cs)
      else notifyEach cl message skip cs)"

definition notifyClosedSession ::
  "cleaner \<Rightarrow> CloseSessionResult option \<Rightarrow> string \<Rightarrow> string \<Rightarrow> (err + unit) prog" where
  "notifyClosedSession cl result reason skipConnectionID =
     (case result of
        None \<Rightarrow> okP ()
      | Some r \<Rightarrow>
          if \<not> csr_ClosedNow r then okP ()
          else bindP idP (\<lambda>i.
            notifyEach cl
              (response ''session.closed''
                 (JObj [(''sessionId'', JStr (s_SessionID (csr_Session r))),
                        (''reason'', JStr reason)]) i '''')
              skipConnectionID
              [s_ControllerConnectionID (csr_Session r), s_CompanionConnectionID (csr_Session r)]))"

definition pairClosed :: "string \<Rightarrow> string \<Rightarrow> string \<Rightarrow> Message" where
  "pairClosed pairID reason i =
     response ''pair.closed'' (JObj [(''pairId'', JStr pairID), (''reason'', JStr reason)]) i ''''"

definition cleanupPair ::
  "cleaner \<Rightarrow> string \<Rightarrow> string \<Rightarrow> string \<Rightarrow> bool \<Rightarrow> (err + unit) prog" where
  "cleanupPair cl pairingID connectionID reason sendPairEvent =
     bindP nowP (\<lambda>now.
     bindP (CancelPair pairingID connectionID now) (\<lambda>r.
       case r of
         Inl e \<Rightarrow> if service_code e \<noteq> Some Conflict then failP e else okP ()
       | Inr found \<Rightarrow>
           (case found of
              None \<Rightarrow> okP ()
            | Some pair \<Rightarrow>
                if sendPairEvent \<and> p_Status pair = ''CLOSED'' then
                  (case peerConnection pair connectionID of
                     Inl e \<Rightarrow> failP e
                   | Inr peer \<Rightarrow>
                       bindP idP (\<lambda>i.
                       bindE (notify cl peer (pairClosed (p_PairID pair) reason i)) (\<lambda>_. okP ())))
                else okP ())))"

definition cleanup_step :: "cleaner \<Rightarrow> cleaner" where
  "cleanup_step cl connectionID reason sendPairEvent =
     bindP nowP (\<lambda>now.
     bindE (Disconnect connectionID now) (\<lambda>found.
       case found of
         None \<Rightarrow> okP ()
       | Some result \<Rightarrow>
           bindE (if c_PairingID (dr_Connection result) \<noteq> ''''
                  then cleanupPair cl (c_PairingID (dr_Connection result)) connectionID reason
                         sendPairEvent
                  else okP ()) (\<lambda>_.
           notifyClosedSession cl (dr_Session result) reason connectionID)))"

primrec cleanup :: "nat \<Rightarrow> cleaner" where
  "cleanup 0 = (\<lambda>_ _ _. failP EUnfinished)"
| "cleanup (Suc n) = cleanup_step (cleanup n)"

definition notifyEndpoint :: "cleaner \<Rightarrow> string \<Rightarrow> Message \<Rightarrow> (err + unit) prog" where
  "notifyEndpoint cl endpointID message =
     bindE (GetEndpoint endpointID) (\<lambda>found.
       case found of
         None \<Rightarrow> okP ()
       | Some endpoint \<Rightarrow>
           if e_ConnectionID endpoint \<noteq> '''' \<and> e_RevokedAt endpoint = 0
           then bindE (notify cl (e_ConnectionID endpoint) message) (\<lambda>_. okP ())
           else okP ())"

definition openedMessage :: "Session \<Rightarrow> string \<Rightarrow> string \<Rightarrow> Message" where
  "openedMessage session peerEndpointID i =
     response ''session.opened''
       (JObj [(''sessionId'', JStr (s_SessionID session)), (''linkId'', JStr (s_LinkID session)),
              (''peerEndpointId'', JStr peerEndpointID)]) i ''''"

fun notifyOpened :: "cleaner \<Rightarrow> Session \<Rightarrow> (string \<times> string) list \<Rightarrow> (err + unit) prog" where
  "notifyOpened cl session [] = okP ()"
| "notifyOpened cl session ((c, peer) # rest) =
     bindP idP (\<lambda>i.
     bindE (notify cl c (openedMessage session peer i)) (\<lambda>delivered.
       if \<not> delivered then failP (retryableError PeerOffline)
       else notifyOpened cl session rest))"

definition notifyOpenedSession :: "cleaner \<Rightarrow> Session \<Rightarrow> (err + unit) prog" where
  "notifyOpenedSession cl session =
     notifyOpened cl session
       [(s_CompanionConnectionID session, s_ControllerID session),
        (s_ControllerConnectionID session, s_CompanionID session)]"

definition dropAndCleanup :: "cleaner \<Rightarrow> WebSocketEvent \<Rightarrow> err option prog" where
  "dropAndCleanup cl event =
     bindP (dropP (ev_ConnectionID event)) (\<lambda>e.
     bindP (cl (ev_ConnectionID event) ''peer-disconnected'' True) (\<lambda>r.
       Ret (joinErrs (case e of None \<Rightarrow> None | Some x \<Rightarrow> if gone x then None else Some x)
              (case r of Inl x \<Rightarrow> Some x | Inr _ \<Rightarrow> None))))"

definition rejectAndDrop :: "cleaner \<Rightarrow> string \<Rightarrow> err \<Rightarrow> WebSocketEvent \<Rightarrow> err option prog" where
  "rejectAndDrop cl requestID rejection event =
     bindP idP (\<lambda>i.
     bindP (notify cl (ev_ConnectionID event) (failure requestID rejection i)) (\<lambda>r.
     bindP (dropAndCleanup cl event) (\<lambda>e.
       Ret (joinErrs (case r of Inl x \<Rightarrow> Some x | Inr _ \<Rightarrow> None) e))))"

definition closeAndNotify ::
  "cleaner \<Rightarrow> string \<Rightarrow> string \<Rightarrow> string \<Rightarrow> string \<Rightarrow> string \<Rightarrow> (err + CloseSessionResult option) prog"
where
  "closeAndNotify cl sessionID endpointID connectionID reason skip =
     bindP nowP (\<lambda>now.
     bindE (CloseSession sessionID endpointID connectionID now) (\<lambda>result.
     bindE (notifyClosedSession cl result reason skip) (\<lambda>_. okP result)))"

end
