(* ===== verification/Dispatch.thy ===== *)
theory Dispatch
  imports Handler
begin

text \<open>
  The routes of \<^verbatim>\<open>handler.go\<close>: relaying frames, \<^verbatim>\<open>dispatch\<close> (one function for each message type),
  connecting, and \<^verbatim>\<open>Handle\<close>. A decoding error of a body that the schema has accepted is \<open>decodeError\<close>.
\<close>

section \<open>Relaying frames\<close>

definition decodeError :: err where
  "decodeError = EText ''decode validated body''"

definition deliver :: "cleaner \<Rightarrow> string \<Rightarrow> string \<Rightarrow> json \<Rightarrow> (err + unit) prog" where
  "deliver cl peer messageType body =
     bindP idP (\<lambda>i.
     bindE (notify cl peer (response messageType body i '''')) (\<lambda>delivered.
       if \<not> delivered then failP (retryableError PeerOffline) else okP ()))"

definition relayPairFrame ::
  "deps \<Rightarrow> cleaner \<Rightarrow> Envelope \<Rightarrow> WebSocketEvent \<Rightarrow> (err + unit) prog" where
  "relayPairFrame d cl message event =
     (case decode_FrameBody ''pairId'' (env_Body message) of
        None \<Rightarrow> failP decodeError
      | Some frame \<Rightarrow>
          bindP nowP (\<lambda>now.
          bindE (RateLimit (SourceKey d (sourceIP (ev_SourceIP event))) (env_Type message) 120 now) (\<lambda>_.
          bindP nowP (\<lambda>now'.
          bindE (PairByID (fb_ID frame) now') (\<lambda>pair.
            if p_Status pair \<noteq> ''READY'' \<and> p_Status pair \<noteq> ''HALF_COMMITTED''
            then failP (serviceError PairUnavailable)
            else case peerConnection pair (ev_ConnectionID event) of
                   Inl e \<Rightarrow> failP e
                 | Inr peer \<Rightarrow> deliver cl peer ''pair.frame'' (env_Body message))))))"

definition relaySessionFrame ::
  "cleaner \<Rightarrow> Envelope \<Rightarrow> WebSocketEvent \<Rightarrow> (err + unit) prog" where
  "relaySessionFrame cl message event =
     (case decode_FrameBody ''sessionId'' (env_Body message) of
        None \<Rightarrow> failP decodeError
      | Some frame \<Rightarrow>
          bindP nowP (\<lambda>timestamp.
          bindE (Store_Connection (ev_ConnectionID event) timestamp) (\<lambda>connection.
            if c_AuthMode connection \<noteq> ''endpoint'' \<or> c_EndpointID connection = ''''
            then failP (serviceError Forbidden)
            else
              bindE (RateLimit (c_EndpointID connection) (env_Type message) sessionFramesPerMinute
                       timestamp) (\<lambda>_.
              bindE (Store_Session (fb_ID frame) timestamp) (\<lambda>session.
                case sessionPeer session (ev_ConnectionID event) of
                  Inl e \<Rightarrow> failP e
                | Inr peer \<Rightarrow> deliver cl peer ''session.frame'' (env_Body message))))))"

section \<open>Pairing requests\<close>

definition newPair :: "string \<Rightarrow> string \<Rightarrow> string \<Rightarrow> string \<Rightarrow> string \<Rightarrow> int \<Rightarrow> Pair" where
  "newPair pairID sideID locator joinTokenHash connectionID timestamp =
     \<lparr>p_PairID = pairID, p_Locator = locator, p_JoinTokenHash = joinTokenHash, p_Status = ''OPEN'',
      p_SideA = \<lparr>ps_ConnectionID = connectionID, ps_SideID = sideID\<rparr>, p_SideB = None,
      p_CommitA = None, p_CommitB = None, p_ExpiresAt = timestamp + PairingTTLSeconds\<rparr>"

definition createdBody :: "Pair \<Rightarrow> json" where
  "createdBody pair =
     JObj ([(''pairId'', JStr (p_PairID pair)), (''sideId'', JStr (ps_SideID (p_SideA pair))),
            (''expiresAt'', JInt (p_ExpiresAt pair))] @
           (if p_Locator pair \<noteq> '''' then [(''locator'', JStr (p_Locator pair))] else []))"

text \<open>The attempts that are left; the last one returns its error.\<close>

primrec createAttempts :: "nat \<Rightarrow> string \<Rightarrow> string \<Rightarrow> int \<Rightarrow> (err + json) prog" where
  "createAttempts 0 joinTokenHash connectionID timestamp = failP (retryableError Conflict)"
| "createAttempts (Suc n) joinTokenHash connectionID timestamp =
     bindP idP (\<lambda>pairID.
     bindP idP (\<lambda>sideID.
     bindP (if joinTokenHash = '''' then locatorP else Ret '''') (\<lambda>locator.
       let pair = newPair pairID sideID locator joinTokenHash connectionID timestamp in
       bindP (CreatePair pair) (\<lambda>r.
         case r of
           Inr _ \<Rightarrow> okP (createdBody pair)
         | Inl e \<Rightarrow>
             if service_code e \<noteq> Some Conflict \<or> n = 0 then failP e
             else createAttempts n joinTokenHash connectionID timestamp))))"

definition dispatch_pair_create ::
  "Envelope \<Rightarrow> Connection \<Rightarrow> int \<Rightarrow> (err + json) prog" where
  "dispatch_pair_create message connection timestamp =
     (case decode_string_body ''joinTokenHash'' (env_Body message) of
        None \<Rightarrow> failP decodeError
      | Some joinTokenHash \<Rightarrow>
          bindE (RateLimit (c_SourceKey connection) (env_Type message) 5 timestamp) (\<lambda>_.
          createAttempts 5 joinTokenHash (c_ConnectionID connection) timestamp))"

definition readyMessage :: "Pair \<Rightarrow> string \<Rightarrow> string \<Rightarrow> Message" where
  "readyMessage pair peerSideID i =
     response ''pair.ready''
       (JObj [(''pairId'', JStr (p_PairID pair)), (''peerSideId'', JStr peerSideID),
              (''expiresAt'', JInt (p_ExpiresAt pair))]) i ''''"

definition announceReady ::
  "cleaner \<Rightarrow> Pair \<Rightarrow> PairSide \<Rightarrow> (err + json) prog" where
  "announceReady cl pair side =
     bindP idP (\<lambda>ia.
     bindP idP (\<lambda>ib.
     bindE (notify cl (ps_ConnectionID (p_SideA pair)) (readyMessage pair (ps_SideID side) ia))
       (\<lambda>delivered.
       if \<not> delivered then failP (retryableError PeerOffline)
       else
         bindE (notifyWithPairEvent cl (ps_ConnectionID side)
                  (readyMessage pair (ps_SideID (p_SideA pair)) ib) True) (\<lambda>delivered.
           if \<not> delivered then failP (retryableError PeerOffline)
           else okP (JObj [(''pairId'', JStr (p_PairID pair)), (''sideId'', JStr (ps_SideID side)),
                           (''expiresAt'', JInt (p_ExpiresAt pair))])))))"

definition dispatch_pair_join ::
  "deps \<Rightarrow> cleaner \<Rightarrow> Envelope \<Rightarrow> Connection \<Rightarrow> int \<Rightarrow> (err + json) prog" where
  "dispatch_pair_join d cl message connection timestamp =
     (case decode_PairJoinBody (env_Body message) of
        None \<Rightarrow> failP decodeError
      | Some body \<Rightarrow>
          bindE (RateLimit (c_SourceKey connection) (env_Type message) 20 timestamp) (\<lambda>_.
            case (if pjb_JoinToken body \<noteq> '''' then JoinTokenHash (d_sha256 d) (pjb_JoinToken body)
                  else Inr '''') of
              Inl v \<Rightarrow> failP (EValidation v)
            | Inr joinTokenHash \<Rightarrow>
                bindP idP (\<lambda>sideID.
                  let side = \<lparr>ps_ConnectionID = c_ConnectionID connection, ps_SideID = sideID\<rparr> in
                  bindE (JoinPair (pjb_Locator body) joinTokenHash side timestamp) (\<lambda>pair.
                    announceReady cl pair side))))"

definition commitOf :: "PairCommitBody \<Rightarrow> string \<Rightarrow> PairCommit" where
  "commitOf body connectionID =
     \<lparr>pc_ConnectionID = connectionID, pc_SideID = pcb_SideID body, pc_LinkID = pcb_LinkID body,
      pc_Self = \<lparr>pe_EndpointID = ec_EndpointID (pcb_Self body), pe_Role = ec_Role (pcb_Self body),
                 pe_CredentialHash = ec_CredentialHash (pcb_Self body)\<rparr>,
      pc_Peer = \<lparr>pi_EndpointID = re_EndpointID (pcb_Peer body), pi_Role = re_Role (pcb_Peer body)\<rparr>\<rparr>"

definition completedMessage :: "Pair \<Rightarrow> Link \<Rightarrow> PairCommit \<Rightarrow> string \<Rightarrow> Message" where
  "completedMessage pair link v i =
     response ''pair.completed''
       (JObj [(''pairId'', JStr (p_PairID pair)), (''linkId'', JStr (l_LinkID link)),
              (''peerEndpointId'', JStr (pi_EndpointID (pc_Peer v))),
              (''peerRole'', JStr (pi_Role (pc_Peer v)))]) i ''''"

fun announceCompleted ::
  "cleaner \<Rightarrow> Pair \<Rightarrow> Link \<Rightarrow> PairCommit option list \<Rightarrow> (err + unit) prog" where
  "announceCompleted cl pair link [] = okP ()"
| "announceCompleted cl pair link (None # rest) = announceCompleted cl pair link rest"
| "announceCompleted cl pair link (Some v # rest) =
     bindP idP (\<lambda>i.
     bindE (notify cl (pc_ConnectionID v) (completedMessage pair link v i)) (\<lambda>_.
       announceCompleted cl pair link rest))"

definition dispatch_pair_commit ::
  "deps \<Rightarrow> cleaner \<Rightarrow> Envelope \<Rightarrow> Connection \<Rightarrow> int \<Rightarrow> (err + json) prog" where
  "dispatch_pair_commit d cl message connection timestamp =
     (case decode_PairCommitBody (env_Body message) of
        None \<Rightarrow> failP decodeError
      | Some body \<Rightarrow>
          bindE (CommitPair (d_pairActivationsPerSourceHour d) (pcb_PairID body)
                   (commitOf body (c_ConnectionID connection)) (c_SourceKey connection) timestamp)
            (\<lambda>result.
            case cp_Link result of
              None \<Rightarrow> okP (JObj [(''pending'', JBool True)])
            | Some link \<Rightarrow>
                bindE (announceCompleted cl (cp_Pair result) link
                         [p_CommitA (cp_Pair result), p_CommitB (cp_Pair result)]) (\<lambda>_.
                okP (JObj [(''linkId'', JStr (l_LinkID link)), (''active'', JBool True)]))))"

definition dispatch_pair_cancel ::
  "cleaner \<Rightarrow> Envelope \<Rightarrow> Connection \<Rightarrow> int \<Rightarrow> (err + json) prog" where
  "dispatch_pair_cancel cl message connection timestamp =
     (case decode_string_body ''pairId'' (env_Body message) of
        None \<Rightarrow> failP decodeError
      | Some pairID \<Rightarrow>
          bindE (CancelPair pairID (c_ConnectionID connection) timestamp) (\<lambda>found.
          bindE (case found of
                   None \<Rightarrow> okP ()
                 | Some pair \<Rightarrow>
                     if p_Status pair = ''CLOSED'' then
                       (case peerConnection pair (c_ConnectionID connection) of
                          Inl e \<Rightarrow> failP e
                        | Inr peer \<Rightarrow>
                            bindP idP (\<lambda>i.
                            bindE (notify cl peer (pairClosed (p_PairID pair) ''cancelled'' i))
                              (\<lambda>_. okP ())))
                     else okP ()) (\<lambda>_.
          okP (JObj [(''cancelled'', JBool True)]))))"

section \<open>Link and endpoint requests\<close>

definition effectiveRevocation :: "Link \<Rightarrow> Endpoint option \<Rightarrow> string \<times> int" where
  "effectiveRevocation link peerEndpoint =
     (case peerEndpoint of
        None \<Rightarrow> (''REVOKED'', l_RevokedAt link)
      | Some e \<Rightarrow>
          if e_RevokedAt e \<noteq> 0
          then (''REVOKED'',
                if l_RevokedAt link = 0 \<or> e_RevokedAt e < l_RevokedAt link then e_RevokedAt e
                else l_RevokedAt link)
          else (l_Status link, l_RevokedAt link))"

definition dispatch_link_get :: "Envelope \<Rightarrow> Connection \<Rightarrow> (err + json) prog" where
  "dispatch_link_get message connection =
     (case decode_string_body ''linkId'' (env_Body message) of
        None \<Rightarrow> failP decodeError
      | Some linkID \<Rightarrow>
          bindE (Store_Link linkID) (\<lambda>found.
            case found of
              None \<Rightarrow> failP (serviceError Forbidden)
            | Some link \<Rightarrow>
                if c_EndpointID connection = '''' \<or>
                   l_ControllerID link \<noteq> c_EndpointID connection \<and>
                   l_CompanionID link \<noteq> c_EndpointID connection
                then failP (serviceError Forbidden)
                else
                  let (peerEndpointID, peerRole) =
                        (if l_ControllerID link = c_EndpointID connection
                         then (l_CompanionID link, Companion) else (l_ControllerID link, Controller)) in
                  bindE (GetEndpoint peerEndpointID) (\<lambda>peerEndpoint.
                    let (status, revokedAt) = effectiveRevocation link peerEndpoint in
                    okP (JObj ([(''linkId'', JStr (l_LinkID link)),
                                (''peerEndpointId'', JStr peerEndpointID),
                                (''peerRole'', JStr peerRole), (''status'', JStr (ToLower status))] @
                               (if revokedAt \<noteq> 0 then [(''revokedAt'', JInt revokedAt)] else []))))))"

definition revokedMessage :: "string \<Rightarrow> string \<Rightarrow> Message" where
  "revokedMessage linkID i = response ''link.revoked'' (JObj [(''linkId'', JStr linkID)]) i ''''"

definition dispatch_link_revoke ::
  "cleaner \<Rightarrow> Envelope \<Rightarrow> Connection \<Rightarrow> int \<Rightarrow> (err + json) prog" where
  "dispatch_link_revoke cl message connection timestamp =
     (if c_EndpointID connection = '''' then failP (serviceError Forbidden)
      else case decode_string_body ''linkId'' (env_Body message) of
        None \<Rightarrow> failP decodeError
      | Some linkID \<Rightarrow>
          bindE (RevokeLink linkID (c_EndpointID connection) (c_ConnectionID connection) timestamp)
            (\<lambda>revoked.
          bindE (notifyClosedSession cl (rl_Session revoked) ''revoked'' '''') (\<lambda>_.
            let peerEndpointID =
                  (if l_ControllerID (rl_Link revoked) = c_EndpointID connection
                   then l_CompanionID (rl_Link revoked) else l_ControllerID (rl_Link revoked)) in
            bindP idP (\<lambda>i.
            bindE (notifyEndpoint cl peerEndpointID (revokedMessage (l_LinkID (rl_Link revoked)) i))
              (\<lambda>_. okP (JObj [(''revoked'', JBool True)]))))))"

definition dispatch_endpoint_rotate ::
  "Envelope \<Rightarrow> Connection \<Rightarrow> int \<Rightarrow> (err + json) prog" where
  "dispatch_endpoint_rotate message connection timestamp =
     (if c_EndpointID connection = '''' then failP (serviceError Forbidden)
      else case decode_string_body ''credentialHash'' (env_Body message) of
        None \<Rightarrow> failP decodeError
      | Some credentialHash \<Rightarrow>
          bindE (RotateEndpoint (c_EndpointID connection) (c_ConnectionID connection) credentialHash
                   timestamp)
            (\<lambda>_. okP (JObj [(''rotated'', JBool True)])))"

definition dispatch_endpoint_revoke ::
  "cleaner \<Rightarrow> Connection \<Rightarrow> int \<Rightarrow> (err + json) prog" where
  "dispatch_endpoint_revoke cl connection timestamp =
     (if c_EndpointID connection = '''' then failP (serviceError Forbidden)
      else
        bindE (RevokeEndpoint (c_EndpointID connection) (c_ConnectionID connection) timestamp)
          (\<lambda>revoked.
        bindE (notifyClosedSession cl (rv_Session revoked) ''revoked'' '''') (\<lambda>_.
        bindE (case rv_Session revoked of
                 None \<Rightarrow> okP ()
               | Some r \<Rightarrow>
                   if csr_ClosedNow r then
                     (let session = csr_Session r;
                          peerConnectionID =
                            (if s_ControllerID session = c_EndpointID connection
                             then s_CompanionConnectionID session
                             else s_ControllerConnectionID session) in
                      bindP idP (\<lambda>i.
                      bindE (notify cl peerConnectionID (revokedMessage (s_LinkID session) i))
                        (\<lambda>_. okP ())))
                   else okP ()) (\<lambda>_.
        okP (JObj [(''revoked'', JBool True)])))))"

section \<open>Session requests\<close>

definition dispatch_session_open ::
  "cleaner \<Rightarrow> Envelope \<Rightarrow> Connection \<Rightarrow> int \<Rightarrow> (err + json) prog" where
  "dispatch_session_open cl message connection timestamp =
     (if c_EndpointID connection = '''' then failP (serviceError Forbidden)
      else case decode_string_body ''linkId'' (env_Body message) of
        None \<Rightarrow> failP decodeError
      | Some linkID \<Rightarrow>
          bindP idP (\<lambda>sessionID.
          bindE (OpenSession linkID (c_EndpointID connection) (c_ConnectionID connection) sessionID
                   timestamp) (\<lambda>session.
          bindP (notifyOpenedSession cl session) (\<lambda>r.
            case r of
              Inr _ \<Rightarrow> okP (JObj [(''sessionId'', JStr (s_SessionID session))])
            | Inl notifyErr \<Rightarrow>
                bindP (closeAndNotify cl (s_SessionID session) '''' '''' ''peer-disconnected'' '''')
                  (\<lambda>closed. failP (case closed of Inl e \<Rightarrow> EJoin notifyErr e | Inr _ \<Rightarrow> notifyErr))))))"

definition dispatch_session_close ::
  "cleaner \<Rightarrow> Envelope \<Rightarrow> Connection \<Rightarrow> (err + json) prog" where
  "dispatch_session_close cl message connection =
     (if c_EndpointID connection = '''' then failP (serviceError Forbidden)
      else case decode_string_body ''sessionId'' (env_Body message) of
        None \<Rightarrow> failP decodeError
      | Some sessionID \<Rightarrow>
          bindE (closeAndNotify cl sessionID (c_EndpointID connection) (c_ConnectionID connection)
                   ''requested'' '''') (\<lambda>_.
          okP (JObj [(''closed'', JBool True)])))"

section \<open>Dispatch\<close>

definition actionAllowed :: "Connection \<Rightarrow> string \<Rightarrow> bool" where
  "actionAllowed connection t \<longleftrightarrow>
     \<not> (c_AuthMode connection = ''pairing'' \<and> t \<notin> set pairingActions \<or>
        c_AuthMode connection = ''endpoint'' \<and> t \<notin> set endpointActions)"

definition dispatch ::
  "deps \<Rightarrow> cleaner \<Rightarrow> Envelope \<Rightarrow> Connection \<Rightarrow> (err + json) prog" where
  "dispatch d cl message connection =
     bindP nowP (\<lambda>timestamp.
       let t = env_Type message in
       if \<not> actionAllowed connection t then failP (serviceError Forbidden)
       else if t = ''system.hello'' then
         okP (JObj [(''serverTime'', JInt timestamp), (''protocolVersion'', JInt ProtocolVersion)])
       else if t = ''system.ping'' then okP (JObj [(''receivedAt'', JInt timestamp)])
       else if t = ''pair.create'' then dispatch_pair_create message connection timestamp
       else if t = ''pair.join'' then dispatch_pair_join d cl message connection timestamp
       else if t = ''pair.commit'' then dispatch_pair_commit d cl message connection timestamp
       else if t = ''pair.cancel'' then dispatch_pair_cancel cl message connection timestamp
       else if t = ''link.get'' then dispatch_link_get message connection
       else if t = ''link.revoke'' then dispatch_link_revoke cl message connection timestamp
       else if t = ''endpoint.rotate'' then dispatch_endpoint_rotate message connection timestamp
       else if t = ''endpoint.revoke'' then dispatch_endpoint_revoke cl connection timestamp
       else if t = ''session.open'' then dispatch_session_open cl message connection timestamp
       else if t = ''session.close'' then dispatch_session_close cl message connection
       else failP (serviceError InvalidMessage))"

section \<open>Routes\<close>

definition status :: "int \<Rightarrow> WebSocketResponse" where
  "status n = \<lparr>resp_StatusCode = n, resp_Body = None\<rparr>"

definition connectStatus :: "err \<Rightarrow> int" where
  "connectStatus e =
     (case as_service e of
        None \<Rightarrow> 500
      | Some s \<Rightarrow>
          if se_Code s = Unauthenticated \<or> se_Code s = Forbidden then 401
          else if se_Retryable s then 503 else 500)"

definition acceptConnection ::
  "deps \<Rightarrow> cleaner \<Rightarrow> WebSocketEvent \<Rightarrow> string \<Rightarrow> string \<Rightarrow> string \<Rightarrow> (err + WebSocketResponse) prog"
where
  "acceptConnection d cl event authMode endpointID credentialHash =
     bindP nowP (\<lambda>timestamp.
       let connection =
             \<lparr>c_ConnectionID = ev_ConnectionID event, c_AuthMode = authMode, c_EndpointID = endpointID,
              c_SourceKey = SourceKey d (sourceIP (ev_SourceIP event)), c_PairingID = '''',
              c_ConnectedAt = timestamp, c_ExpiresAt = timestamp + 2 * 60 * 60 + 5 * 60\<rparr> in
       bindP (bindE (if authMode = ''pairing''
                     then RateLimit (c_SourceKey connection) ''pairing.connect''
                            pairingConnectsPerMinute timestamp
                     else okP ()) (\<lambda>_. Connect connection credentialHash)) (\<lambda>r.
         case r of
           Inl e \<Rightarrow> okP (status (connectStatus e))
         | Inr None \<Rightarrow> okP (status 200)
         | Inr (Some closed) \<Rightarrow>
             (let skip = (if s_ControllerID (csr_Session closed) \<noteq> endpointID
                          then s_CompanionConnectionID (csr_Session closed)
                          else s_ControllerConnectionID (csr_Session closed)) in
              bindP (notifyClosedSession cl (Some closed) ''replaced'' skip) (\<lambda>_.
              okP (status 200)))))"

definition handleConnect ::
  "deps \<Rightarrow> cleaner \<Rightarrow> WebSocketEvent \<Rightarrow> (err + WebSocketResponse) prog" where
  "handleConnect d cl event =
     bindP (header (ev_Headers event) ''authorization'') (\<lambda>h.
       case ParseAuthorization h of
         Inl _ \<Rightarrow> okP (status 401)
       | Inr authorization \<Rightarrow>
           (case pa_Scheme authorization of
              PairingScheme \<Rightarrow> acceptConnection d cl event ''pairing'' '''' ''''
            | BearerScheme \<Rightarrow>
                bindE (GetEndpoint (pa_EndpointID authorization)) (\<lambda>found.
                  let credentialHash = credentialDigest d (pa_Secret authorization) in
                  case found of
                    None \<Rightarrow> okP (status 401)
                  | Some endpoint \<Rightarrow>
                      if e_RevokedAt endpoint \<noteq> 0 \<or>
                         \<not> constantTimeEqual (e_CredentialHash endpoint) credentialHash
                      then okP (status 401)
                      else acceptConnection d cl event ''endpoint'' (pa_EndpointID authorization)
                             credentialHash)))"

definition frameResult ::
  "cleaner \<Rightarrow> WebSocketEvent \<Rightarrow> string \<Rightarrow> err option \<Rightarrow> (err + WebSocketResponse) prog" where
  "frameResult cl event requestID e =
     (case e of
        None \<Rightarrow> okP (status 200)
      | Some x \<Rightarrow>
          if shouldDropFrame (ev_RouteKey event) x then
            bindP (rejectAndDrop cl requestID x event) (\<lambda>dropErr.
              case dropErr of None \<Rightarrow> okP (status 200) | Some y \<Rightarrow> failP y)
          else
            bindP idP (\<lambda>i.
            bindE (notify cl (ev_ConnectionID event) (failure requestID x i)) (\<lambda>_.
            okP (status 200))))"

definition handleFrame ::
  "deps \<Rightarrow> cleaner \<Rightarrow> WebSocketEvent \<Rightarrow> (err + WebSocketResponse) prog" where
  "handleFrame d cl event =
     (case d_ParseClient d (ev_Body event) of
        Inl v \<Rightarrow>
          bindP idP (\<lambda>fallback.
            frameResult cl event (requestIDFromBody d (ev_Body event) fallback) (Some (EValidation v)))
      | Inr message \<Rightarrow>
          bindP (if env_Type message \<noteq> ev_RouteKey event then failP (serviceError InvalidMessage)
                 else if env_Type message = ''pair.frame'' then relayPairFrame d cl message event
                 else relaySessionFrame cl message event) (\<lambda>r.
            frameResult cl event (env_ID message)
              (case r of Inl e \<Rightarrow> Some e | Inr _ \<Rightarrow> None)))"

definition messageQuota :: "Connection \<Rightarrow> (err + unit) prog" where
  "messageQuota connection =
     (if c_AuthMode connection = ''pairing'' then
        bindP nowP (\<lambda>now. RateLimit (c_SourceKey connection) ''pairing.message'' 120 now)
      else if c_AuthMode connection = ''endpoint'' then
        (if c_EndpointID connection = '''' then failP (serviceError Unauthenticated)
         else bindP nowP (\<lambda>now.
                RateLimit (c_EndpointID connection) ''endpoint.message'' endpointMessagesPerMinute now))
      else failP (serviceError Unauthenticated))"

definition answer ::
  "deps \<Rightarrow> cleaner \<Rightarrow> Envelope \<Rightarrow> WebSocketEvent \<Rightarrow> (err + Message) prog" where
  "answer d cl message event =
     bindP nowP (\<lambda>now.
     bindE (Store_Connection (ev_ConnectionID event) now) (\<lambda>connection.
     bindE (messageQuota connection) (\<lambda>_.
     bindE (dispatch d cl message connection) (\<lambda>result.
     bindP idP (\<lambda>i. okP (ok message result i))))))"

definition defaultResult ::
  "cleaner \<Rightarrow> WebSocketEvent \<Rightarrow> string \<Rightarrow> err + Message \<Rightarrow> (err + WebSocketResponse) prog" where
  "defaultResult cl event requestID r =
     (case r of
        Inr reply \<Rightarrow> okP \<lparr>resp_StatusCode = 200, resp_Body = Some reply\<rparr>
      | Inl e \<Rightarrow>
          if shouldDropDefault e then
            bindP (rejectAndDrop cl requestID e event) (\<lambda>dropErr.
              case dropErr of None \<Rightarrow> okP (status 200) | Some y \<Rightarrow> failP y)
          else bindP idP (\<lambda>i.
            okP \<lparr>resp_StatusCode = 200, resp_Body = Some (failure requestID e i)\<rparr>))"

definition handleDefault ::
  "deps \<Rightarrow> cleaner \<Rightarrow> WebSocketEvent \<Rightarrow> (err + WebSocketResponse) prog" where
  "handleDefault d cl event =
     (case d_ParseClient d (ev_Body event) of
        Inl v \<Rightarrow>
          bindP idP (\<lambda>fallback.
            defaultResult cl event (requestIDFromBody d (ev_Body event) fallback)
              (Inl (EValidation v)))
      | Inr message \<Rightarrow>
          bindP (answer d cl message event) (defaultResult cl event (env_ID message)))"

text \<open>\<open>Handle_with\<close> is \<^verbatim>\<open>Handle\<close> over any clean-up, \<open>Handle\<close> the one that calls itself.\<close>

definition Handle_with ::
  "deps \<Rightarrow> cleaner \<Rightarrow> WebSocketEvent \<Rightarrow> (err + WebSocketResponse) prog" where
  "Handle_with d cl event =
     (let route = ev_RouteKey event in
      if route = ''$connect'' then handleConnect d cl event
      else if route = ''$disconnect'' then
        bindE (cl (ev_ConnectionID event) ''peer-disconnected'' True) (\<lambda>_. okP (status 200))
      else if route = ''pair.frame'' \<or> route = ''session.frame'' then handleFrame d cl event
      else if route = ''$default'' then handleDefault d cl event
      else okP (status 400))"

definition Handle :: "deps \<Rightarrow> nat \<Rightarrow> WebSocketEvent \<Rightarrow> (err + WebSocketResponse) prog" where
  "Handle d fuel event = Handle_with d (cleanup fuel) event"

end
