(* ===== verification/HandlerSafe.thy ===== *)
theory HandlerSafe
  imports RelayGuarantees Dispatch
begin

text \<open>
  A whole invocation of the Lambda function keeps the invariant of the table: \<open>Handle\<close> only
  composes operations of the store with posts, drops and fresh values.
\<close>

lemma keeps_postP: "keeps (postP c m)"
  by (simp add: keeps_def postP_def)

lemma keeps_dropP: "keeps (dropP c)"
  by (simp add: keeps_def dropP_def)

lemma keeps_nowP: "keeps nowP"
  by (simp add: keeps_def nowP_def)

lemma keeps_idP: "keeps idP"
  by (simp add: keeps_def idP_def)

lemma keeps_locatorP: "keeps locatorP"
  by (simp add: keeps_def locatorP_def)

lemma keeps_header: "keeps (header hs n)"
  by (simp add: keeps_def header_def)

lemma keeps_if: "(b \<Longrightarrow> keeps p) \<Longrightarrow> (\<not> b \<Longrightarrow> keeps q) \<Longrightarrow> keeps (if b then p else q)"
  by simp

lemma keeps_case_option:
  "keeps p \<Longrightarrow> (\<And>x. keeps (f x)) \<Longrightarrow> keeps (case v of None \<Rightarrow> p | Some x \<Rightarrow> f x)"
  by (simp split: option.splits)

lemma keeps_case_sum:
  "(\<And>x. keeps (f x)) \<Longrightarrow> (\<And>y. keeps (g y)) \<Longrightarrow> keeps (case v of Inl x \<Rightarrow> f x | Inr y \<Rightarrow> g y)"
  by (simp split: sum.splits)

lemma keeps_case_prod: "(\<And>x y. keeps (f x y)) \<Longrightarrow> keeps (case p of (x, y) \<Rightarrow> f x y)"
  by (simp split: prod.splits)

lemma keeps_Let: "keeps (f x) \<Longrightarrow> keeps (let y = x in f y)"
  by simp

lemma keeps_fresh: "fresh_pair (newPair a b c d e f)"
  by (simp add: fresh_pair_def newPair_def)

lemmas keeps_rules = keeps_bindP keeps_bindE keeps_if keeps_case_option keeps_case_sum
  keeps_case_prod keeps_Let keeps_okP keeps_failP keeps_Ret keeps_postP keeps_dropP keeps_nowP
  keeps_idP keeps_locatorP keeps_header keeps_store keeps_fresh

definition cleans :: "cleaner \<Rightarrow> bool" where
  "cleans cl \<longleftrightarrow> (\<forall>c reason send. keeps (cl c reason send))"

lemma cleansD: "cleans cl \<Longrightarrow> keeps (cl c reason send)"
  by (simp add: cleans_def)

section \<open>Notifications and clean-up\<close>

lemma keeps_notifyWithPairEvent: "cleans cl \<Longrightarrow> keeps (notifyWithPairEvent cl c m s)"
  unfolding notifyWithPairEvent_def by (intro keeps_rules cleansD)

lemma keeps_notify: "cleans cl \<Longrightarrow> keeps (notify cl c m)"
  unfolding notify_def by (rule keeps_notifyWithPairEvent)

lemma keeps_notifyEach: "cleans cl \<Longrightarrow> keeps (notifyEach cl m skip cs)"
  by (induction cs) (simp_all add: keeps_bindE keeps_notify)

lemma keeps_notifyClosedSession: "cleans cl \<Longrightarrow> keeps (notifyClosedSession cl r reason skip)"
  unfolding notifyClosedSession_def by (intro keeps_rules keeps_notifyEach)

lemma keeps_cleanupPair: "cleans cl \<Longrightarrow> keeps (cleanupPair cl p c reason s)"
  unfolding cleanupPair_def by (intro keeps_rules keeps_notify)

lemma keeps_cleanup_step: "cleans cl \<Longrightarrow> cleans (cleanup_step cl)"
  unfolding cleans_def [of "cleanup_step cl"] cleanup_step_def
  by (intro allI keeps_rules keeps_cleanupPair keeps_notifyClosedSession)

lemma cleans_cleanup: "cleans (cleanup n)"
  by (induction n) (simp_all add: keeps_cleanup_step, simp add: cleans_def)

lemma keeps_notifyEndpoint: "cleans cl \<Longrightarrow> keeps (notifyEndpoint cl e m)"
  unfolding notifyEndpoint_def by (intro keeps_rules keeps_notify)

lemma keeps_notifyOpened: "cleans cl \<Longrightarrow> keeps (notifyOpened cl s ts)"
  by (induction cl s ts rule: notifyOpened.induct) (simp_all, intro keeps_rules keeps_notify)

lemma keeps_notifyOpenedSession: "cleans cl \<Longrightarrow> keeps (notifyOpenedSession cl s)"
  unfolding notifyOpenedSession_def by (rule keeps_notifyOpened)

lemma keeps_dropAndCleanup: "cleans cl \<Longrightarrow> keeps (dropAndCleanup cl e)"
  unfolding dropAndCleanup_def by (intro keeps_rules cleansD)

lemma keeps_rejectAndDrop: "cleans cl \<Longrightarrow> keeps (rejectAndDrop cl i r e)"
  unfolding rejectAndDrop_def by (intro keeps_rules keeps_notify keeps_dropAndCleanup)

lemma keeps_closeAndNotify: "cleans cl \<Longrightarrow> keeps (closeAndNotify cl s e c r k)"
  unfolding closeAndNotify_def by (intro keeps_rules keeps_notifyClosedSession)

lemmas keeps_notify_rules = keeps_notifyWithPairEvent keeps_notify keeps_notifyEach
  keeps_notifyClosedSession keeps_notifyEndpoint keeps_notifyOpenedSession keeps_rejectAndDrop
  keeps_closeAndNotify

section \<open>Routes\<close>

lemma keeps_deliver: "cleans cl \<Longrightarrow> keeps (deliver cl p t b)"
  unfolding deliver_def by (intro keeps_rules keeps_notify)

lemma keeps_relayPairFrame: "cleans cl \<Longrightarrow> keeps (relayPairFrame d cl m e)"
  unfolding relayPairFrame_def by (intro keeps_rules keeps_deliver)

lemma keeps_relaySessionFrame: "cleans cl \<Longrightarrow> keeps (relaySessionFrame cl m e)"
  unfolding relaySessionFrame_def by (intro keeps_rules keeps_deliver)

lemma keeps_createAttempts: "keeps (createAttempts n j c t)"
proof (induction n)
  case (Suc n)
  then show ?case unfolding createAttempts.simps by (intro keeps_rules)
qed simp

lemma keeps_announceReady: "cleans cl \<Longrightarrow> keeps (announceReady cl p s)"
  unfolding announceReady_def by (intro keeps_rules keeps_notify_rules)

lemma keeps_announceCompleted: "cleans cl \<Longrightarrow> keeps (announceCompleted cl p l vs)"
  by (induction cl p l vs rule: announceCompleted.induct)
    (simp_all, intro keeps_rules keeps_notify)

lemma keeps_dispatch:
  assumes "cleans cl"
  shows "keeps (dispatch d cl m c)"
  unfolding dispatch_def dispatch_pair_create_def dispatch_pair_join_def dispatch_pair_commit_def
    dispatch_pair_cancel_def dispatch_link_get_def dispatch_link_revoke_def
    dispatch_endpoint_rotate_def dispatch_endpoint_revoke_def dispatch_session_open_def
    dispatch_session_close_def
  by (intro keeps_rules keeps_notify_rules keeps_createAttempts keeps_announceReady
      keeps_announceCompleted assms)

lemma keeps_acceptConnection: "cleans cl \<Longrightarrow> keeps (acceptConnection d cl e a i h)"
  unfolding acceptConnection_def by (intro keeps_rules keeps_notify_rules)

lemma keeps_Scheme: "keeps p \<Longrightarrow> keeps q \<Longrightarrow> keeps (case s of PairingScheme \<Rightarrow> p | BearerScheme \<Rightarrow> q)"
  by (cases s) simp_all

lemma keeps_handleConnect: "cleans cl \<Longrightarrow> keeps (handleConnect d cl e)"
  unfolding handleConnect_def by (intro keeps_rules keeps_Scheme keeps_acceptConnection)

lemma keeps_frameResult: "cleans cl \<Longrightarrow> keeps (frameResult cl e i x)"
  unfolding frameResult_def by (intro keeps_rules keeps_notify_rules)

lemma keeps_handleFrame: "cleans cl \<Longrightarrow> keeps (handleFrame d cl e)"
  unfolding handleFrame_def
  by (intro keeps_rules keeps_frameResult keeps_relayPairFrame keeps_relaySessionFrame)

lemma keeps_defaultResult: "cleans cl \<Longrightarrow> keeps (defaultResult cl e i x)"
  unfolding defaultResult_def by (intro keeps_rules keeps_notify_rules)

lemma keeps_handleDefault: "cleans cl \<Longrightarrow> keeps (handleDefault d cl e)"
  unfolding handleDefault_def answer_def messageQuota_def
  by (intro keeps_rules keeps_defaultResult keeps_dispatch)

lemma keeps_Handle: "keeps (Handle d fuel e)"
  unfolding Handle_def Handle_with_def
  by (intro keeps_rules keeps_handleConnect keeps_handleFrame keeps_handleDefault cleansD
      cleans_cleanup)

end
