(* ===== verification/Sequential.thy ===== *)
theory Sequential
  imports Program
begin

text \<open>
  Weakest preconditions of a program that runs on its own. \<open>wp rel P p t Q\<close>: from the table \<open>t\<close>, whatever
  the services answer within their laws, \<open>P\<close> holds of every message that \<open>p\<close> posts and \<open>Q\<close> of its
  result and the table it leaves. With
  \<open>rel\<close> the services answer every request (\<open>reliable_dynamo\<close>); without it a request may also fail, and
  a write that failed may have happened (\<open>dynamo\<close>). Inside the locales the judgement is sound for \<open>run\<close>.
\<close>

section \<open>The judgement\<close>

definition may_cancel :: "twrite list \<Rightarrow> table \<Rightarrow> string option list \<Rightarrow> bool" where
  "may_cancel ws t rs \<longleftrightarrow>
     (\<forall>i < length rs. rs ! i = Some ''ConditionalCheckFailed'' \<longrightarrow>
        i < length ws \<and> \<not> write_ok t (ws ! i))"

primrec wp ::
  "bool \<Rightarrow> (string \<Rightarrow> Message \<Rightarrow> bool) \<Rightarrow> 'a prog \<Rightarrow> table \<Rightarrow> ('a \<Rightarrow> table \<Rightarrow> bool) \<Rightarrow> bool" where
  "wp rel P (Ret x) t Q = Q x t"
| "wp rel P (GetItem k c) t Q =
     (wp rel P (c (Inr (t k))) t Q \<and> (\<not> rel \<longrightarrow> (\<forall>e. wp rel P (c (Inl e)) t Q)))"
| "wp rel P (UpdateItem u c) t Q =
     ((write_ok t u \<longrightarrow> wp rel P (c None) (apply_write u t) Q) \<and>
      (\<not> write_ok t u \<longrightarrow> wp rel P (c (Some ConditionalCheckFailed)) t Q) \<and>
      (\<not> rel \<longrightarrow> (\<forall>e. e \<noteq> ConditionalCheckFailed \<longrightarrow> wp rel P (c (Some e)) t Q \<and>
         (\<not> is_rejection e \<and> write_ok t u \<longrightarrow> wp rel P (c (Some e)) (apply_write u t) Q))))"
| "wp rel P (TransactWriteItems ws c) t Q =
     (if rel
      then distinct (map write_key ws) \<and>
        (if list_all (write_ok t) ws then wp rel P (c None) (apply_writes ws t) Q
         else wp rel P (c (Some (TransactionCanceled (cancellation_reasons ws t)))) t Q)
      else
        (writes_ok ws t \<longrightarrow> wp rel P (c None) (apply_writes ws t) Q) \<and>
        (\<forall>e. (\<forall>rs. e = TransactionCanceled rs \<longrightarrow> may_cancel ws t rs) \<longrightarrow>
           wp rel P (c (Some e)) t Q \<and>
           (\<not> is_rejection e \<and> writes_ok ws t \<longrightarrow> wp rel P (c (Some e)) (apply_writes ws t) Q)))"
| "wp rel P (Post i m c) t Q = (P i m \<and> (\<forall>r. wp rel P (c r) t Q))"
| "wp rel P (Drop i c) t Q = (\<forall>r. wp rel P (c r) t Q)"
| "wp rel P (Now c) t Q = (\<forall>n. wp rel P (c n) t Q)"
| "wp rel P (NewID c) t Q = (\<forall>x. wp rel P (c x) t Q)"
| "wp rel P (NewLocator c) t Q = (\<forall>x. wp rel P (c x) t Q)"
| "wp rel P (RangeMap xs c) t Q = (\<forall>ys. mset ys = mset xs \<longrightarrow> wp rel P (c ys) t Q)"

text \<open>The messages that a run posts.\<close>

primrec posts :: "'s world \<Rightarrow> 'a prog \<Rightarrow> 's \<Rightarrow> (string \<times> Message) list" where
  "posts w (Ret x) s = []"
| "posts w (GetItem k c) s = (case w_get w k s of (r, s') \<Rightarrow> posts w (c r) s')"
| "posts w (UpdateItem u c) s = (case w_update w u s of (r, s') \<Rightarrow> posts w (c r) s')"
| "posts w (TransactWriteItems ws c) s = (case w_transact w ws s of (r, s') \<Rightarrow> posts w (c r) s')"
| "posts w (Post i m c) s = (i, m) # (case w_post w i m s of (r, s') \<Rightarrow> posts w (c r) s')"
| "posts w (Drop i c) s = (case w_drop w i s of (r, s') \<Rightarrow> posts w (c r) s')"
| "posts w (Now c) s = (case w_now w s of (r, s') \<Rightarrow> posts w (c r) s')"
| "posts w (NewID c) s = (case w_id w s of (r, s') \<Rightarrow> posts w (c r) s')"
| "posts w (NewLocator c) s = (case w_locator w s of (r, s') \<Rightarrow> posts w (c r) s')"
| "posts w (RangeMap xs c) s = (case w_range w xs s of (r, s') \<Rightarrow> posts w (c r) s')"

lemma wp_bindP: "wp rel P (bindP p f) t Q \<longleftrightarrow> wp rel P p t (\<lambda>x t'. wp rel P (f x) t' Q)"
proof (cases rel)
  case True
  then show ?thesis by (induction p arbitrary: t) simp_all
next
  case False
  then show ?thesis by (induction p arbitrary: t) simp_all
qed

lemma wp_mono:
  assumes "wp rel P p t Q" and "\<And>x t'. Q x t' \<Longrightarrow> Q' x t'"
  shows "wp rel P p t Q'"
proof (cases rel)
  case True
  then show ?thesis using assms(1)
    by (induction p arbitrary: t) (auto simp: assms(2) split: if_splits)
next
  case False
  then show ?thesis using assms(1)
    by (induction p arbitrary: t) (auto simp: assms(2))
qed

lemma wp_okP [simp]: "wp rel P (okP x) t Q = Q (Inr x) t"
  by (simp add: prog_defs)

lemma wp_failP [simp]: "wp rel P (failP e) t Q = Q (Inl e) t"
  by (simp add: prog_defs)

lemma wp_bindE:
  "wp rel P (bindE p f) t Q \<longleftrightarrow>
     wp rel P p t (\<lambda>r t'. case r of Inl e \<Rightarrow> Q (Inl e) t' | Inr x \<Rightarrow> wp rel P (f x) t' Q)"
  unfolding bindE_def wp_bindP
  by (rule arg_cong [of _ _ "wp rel P p t"]) (auto split: sum.splits)

lemma wp_tryR:
  "wp rel P (tryR p f) t Q \<longleftrightarrow>
     wp rel P p t (\<lambda>r t'. case r of Inl e \<Rightarrow> Q (Return (Inl e)) t' | Inr x \<Rightarrow> wp rel P (f x) t' Q)"
  unfolding tryR_def wp_bindP
  by (rule arg_cong [of _ _ "wp rel P p t"]) (auto split: sum.splits)

text \<open>A loop of attempts keeps an invariant of the table; its result comes from the last attempt.\<close>

lemma wp_retry:
  assumes "I t"
    and body: "\<And>t. I t \<Longrightarrow>
      wp rel P body t (\<lambda>r t'. case r of Continue \<Rightarrow> I t' | Return x \<Rightarrow> Q x t')"
    and ex: "\<And>t. I t \<Longrightarrow> wp rel P ex t Q"
  shows "wp rel P (retry n body ex) t Q"
  using assms(1)
proof (induction n arbitrary: t)
  case 0
  then show ?case by (simp add: ex)
next
  case (Suc n)
  show ?case
    unfolding retry.simps wp_bindP
    by (rule wp_mono [OF body [OF Suc.prems]]) (auto simp: Suc.IH split: attempt.splits)
qed

section \<open>Soundness\<close>

context dynamo
begin

lemma wp_step:
  assumes "wp False P p (view s) Q" and "step1 w p s = (p', s')"
  shows "wp False P p' (view s') Q"
proof (cases p)
  case (GetItem k c)
  then obtain r where r: "w_get w k s = (r, s')" "p' = c r"
    using assms(2) by (auto split: prod.splits)
  then have "view s' = view s \<and> (\<forall>i. r = Inr i \<longrightarrow> i = view s k)"
    using get_ok get_err by (cases r) auto
  with assms(1) GetItem r show ?thesis by (cases r) auto
next
  case (UpdateItem u c)
  then obtain r where r: "w_update w u s = (r, s')" "p' = c r"
    using assms(2) by (auto split: prod.splits)
  show ?thesis
  proof (cases r)
    case None
    then show ?thesis
      using assms(1) UpdateItem r update_ok by (auto simp: writes_ok_def)
  next
    case (Some e)
    then have v: "view s' = view s \<or> write_ok (view s) u \<and> view s' = apply_write u (view s)"
      using r update_err [of u s e s'] by (auto simp: writes_ok_def)
    show ?thesis
    proof (cases "e = ConditionalCheckFailed")
      case True
      then show ?thesis
        using assms(1) UpdateItem r Some update_rejected by auto
    next
      case False
      then have w: "wp False P (c (Some e)) (view s) Q"
        "\<not> is_rejection e \<Longrightarrow> write_ok (view s) u \<Longrightarrow> wp False P (c (Some e)) (apply_write u (view s)) Q"
        using assms(1) UpdateItem by simp_all
      have "is_rejection e \<Longrightarrow> view s' = view s" using r Some update_unchanged by blast
      with v show ?thesis using r Some w by (cases "is_rejection e") auto
    qed
  qed
next
  case (TransactWriteItems ws c)
  then obtain r where r: "w_transact w ws s = (r, s')" "p' = c r"
    using assms(2) by (auto split: prod.splits)
  show ?thesis
  proof (cases r)
    case None
    then show ?thesis
      using assms(1) TransactWriteItems r transact_ok by auto
  next
    case (Some e)
    then have v: "view s' = view s \<or> writes_ok ws (view s) \<and> view s' = apply_writes ws (view s)"
      using r transact_err by blast
    have m: "\<forall>rs. e = TransactionCanceled rs \<longrightarrow> may_cancel ws (view s) rs"
      using r Some transact_cancelled unfolding may_cancel_def by blast
    then have w: "wp False P (c (Some e)) (view s) Q"
      "\<not> is_rejection e \<Longrightarrow> writes_ok ws (view s) \<Longrightarrow> wp False P (c (Some e)) (apply_writes ws (view s)) Q"
      using assms(1) TransactWriteItems by simp_all
    have "is_rejection e \<Longrightarrow> view s' = view s" using r Some transact_unchanged by blast
    with v show ?thesis using r Some w by (cases "is_rejection e") auto
  qed
qed (use assms post_view drop_view now_view id_view locator_view range_view in
      \<open>auto split: prod.splits\<close>)

lemma wp_posts:
  assumes "wp False P p (view s) Q"
  shows "\<forall>(i, m) \<in> set (posts w p s). P i m"
  using assms
proof (induction p arbitrary: s)
  case (GetItem k c)
  obtain r s1 where r: "w_get w k s = (r, s1)" by (cases "w_get w k s")
  then have "step1 w (GetItem k c) s = (c r, s1)" by simp
  from GetItem.IH [OF rangeI wp_step [OF GetItem.prems this]] show ?case by (simp add: r)
next
  case (UpdateItem u c)
  obtain r s1 where r: "w_update w u s = (r, s1)" by (cases "w_update w u s")
  then have "step1 w (UpdateItem u c) s = (c r, s1)" by simp
  from UpdateItem.IH [OF rangeI wp_step [OF UpdateItem.prems this]] show ?case by (simp add: r)
next
  case (TransactWriteItems ws c)
  obtain r s1 where r: "w_transact w ws s = (r, s1)" by (cases "w_transact w ws s")
  then have "step1 w (TransactWriteItems ws c) s = (c r, s1)" by simp
  from TransactWriteItems.IH [OF rangeI wp_step [OF TransactWriteItems.prems this]] show ?case by (simp add: r)
next
  case (Post i m c)
  obtain r s1 where r: "w_post w i m s = (r, s1)" by (cases "w_post w i m s")
  then have "step1 w (Post i m c) s = (c r, s1)" by simp
  from Post.IH [OF rangeI wp_step [OF Post.prems this]] show ?case using Post.prems by (simp add: r)
next
  case (Drop i c)
  obtain r s1 where r: "w_drop w i s = (r, s1)" by (cases "w_drop w i s")
  then have "step1 w (Drop i c) s = (c r, s1)" by simp
  from Drop.IH [OF rangeI wp_step [OF Drop.prems this]] show ?case by (simp add: r)
next
  case (Now c)
  obtain r s1 where r: "w_now w s = (r, s1)" by (cases "w_now w s")
  then have "step1 w (Now c) s = (c r, s1)" by simp
  from Now.IH [OF rangeI wp_step [OF Now.prems this]] show ?case by (simp add: r)
next
  case (NewID c)
  obtain r s1 where r: "w_id w s = (r, s1)" by (cases "w_id w s")
  then have "step1 w (NewID c) s = (c r, s1)" by simp
  from NewID.IH [OF rangeI wp_step [OF NewID.prems this]] show ?case by (simp add: r)
next
  case (NewLocator c)
  obtain r s1 where r: "w_locator w s = (r, s1)" by (cases "w_locator w s")
  then have "step1 w (NewLocator c) s = (c r, s1)" by simp
  from NewLocator.IH [OF rangeI wp_step [OF NewLocator.prems this]] show ?case by (simp add: r)
next
  case (RangeMap xs c)
  obtain r s1 where r: "w_range w xs s = (r, s1)" by (cases "w_range w xs s")
  then have "step1 w (RangeMap xs c) s = (c r, s1)" by simp
  from RangeMap.IH [OF rangeI wp_step [OF RangeMap.prems this]] show ?case by (simp add: r)
qed simp

lemma wp_sound:
  assumes "wp False P p (view s) Q" and "run w p s = (x, s')"
  shows "Q x (view s')"
  using assms
proof (induction p arbitrary: s)
  case (GetItem k c)
  then show ?case
    using wp_step [OF GetItem.prems(1)] by (auto split: prod.splits simp del: wp.simps)
next
  case (UpdateItem u c)
  then show ?case
    using wp_step [OF UpdateItem.prems(1)] by (auto split: prod.splits simp del: wp.simps)
next
  case (TransactWriteItems ws c)
  then show ?case
    using wp_step [OF TransactWriteItems.prems(1)] by (auto split: prod.splits simp del: wp.simps)
next
  case (Post i m c)
  then show ?case
    using wp_step [OF Post.prems(1)] by (auto split: prod.splits simp del: wp.simps)
next
  case (Drop i c)
  then show ?case
    using wp_step [OF Drop.prems(1)] by (auto split: prod.splits simp del: wp.simps)
next
  case (Now c)
  then show ?case
    using wp_step [OF Now.prems(1)] by (auto split: prod.splits simp del: wp.simps)
next
  case (NewID c)
  then show ?case
    using wp_step [OF NewID.prems(1)] by (auto split: prod.splits simp del: wp.simps)
next
  case (NewLocator c)
  then show ?case
    using wp_step [OF NewLocator.prems(1)] by (auto split: prod.splits simp del: wp.simps)
next
  case (RangeMap xs c)
  then show ?case
    using wp_step [OF RangeMap.prems(1)] by (auto split: prod.splits simp del: wp.simps)
qed simp

end

context reliable_dynamo
begin

lemma wp_reliable_step:
  assumes "wp True P p (view s) Q" and "step1 w p s = (p', s')"
  shows "wp True P p' (view s') Q"
proof (cases p)
  case (GetItem k c)
  then obtain r where r: "w_get w k s = (r, s')" "p' = c r"
    using assms(2) by (auto split: prod.splits)
  then obtain i where i: "r = Inr i" using get_answers [of k s] by auto
  then have "i = view s k" "view s' = view s" using r get_ok by auto
  with assms(1) GetItem r i show ?thesis by simp
next
  case (UpdateItem u c)
  then obtain r where r: "w_update w u s = (r, s')" "p' = c r"
    using assms(2) by (auto split: prod.splits)
  have e: "r = (if write_ok (view s) u then None else Some ConditionalCheckFailed)"
    using r update_answers [of u s] by auto
  show ?thesis
  proof (cases "write_ok (view s) u")
    case True
    then have "r = None" using e by simp
    moreover from this have "view s' = apply_write u (view s)" using r update_ok by simp
    ultimately show ?thesis using assms(1) UpdateItem r True by simp
  next
    case False
    then have "r = Some ConditionalCheckFailed" using e by simp
    moreover from this have "view s' = view s" using r update_rejected by simp
    ultimately show ?thesis using assms(1) UpdateItem r False by simp
  qed
next
  case (TransactWriteItems ws c)
  then obtain r where r: "w_transact w ws s = (r, s')" "p' = c r"
    using assms(2) by (auto split: prod.splits)
  have d: "distinct (map write_key ws)" using assms(1) TransactWriteItems by simp
  show ?thesis
  proof (cases "list_all (write_ok (view s)) ws")
    case True
    then have "r = None" using r transact_answers [OF d, of s] by auto
    then show ?thesis
      using True assms(1) TransactWriteItems r transact_ok [of ws s s'] by simp
  next
    case False
    then have "r = Some (TransactionCanceled (cancellation_reasons ws (view s)))"
      using r transact_answers [OF d, of s] by auto
    then show ?thesis
      using False assms(1) TransactWriteItems r transact_cancelled [of ws s _ s'] by auto
  qed
qed (use assms post_view drop_view now_view id_view locator_view range_view in
      \<open>auto split: prod.splits\<close>)

lemma wp_reliable_posts:
  assumes "wp True P p (view s) Q"
  shows "\<forall>(i, m) \<in> set (posts w p s). P i m"
  using assms
proof (induction p arbitrary: s)
  case (GetItem k c)
  obtain r s1 where r: "w_get w k s = (r, s1)" by (cases "w_get w k s")
  then have "step1 w (GetItem k c) s = (c r, s1)" by simp
  from GetItem.IH [OF rangeI wp_reliable_step [OF GetItem.prems this]] show ?case by (simp add: r)
next
  case (UpdateItem u c)
  obtain r s1 where r: "w_update w u s = (r, s1)" by (cases "w_update w u s")
  then have "step1 w (UpdateItem u c) s = (c r, s1)" by simp
  from UpdateItem.IH [OF rangeI wp_reliable_step [OF UpdateItem.prems this]] show ?case by (simp add: r)
next
  case (TransactWriteItems ws c)
  obtain r s1 where r: "w_transact w ws s = (r, s1)" by (cases "w_transact w ws s")
  then have "step1 w (TransactWriteItems ws c) s = (c r, s1)" by simp
  from TransactWriteItems.IH [OF rangeI wp_reliable_step [OF TransactWriteItems.prems this]] show ?case by (simp add: r)
next
  case (Post i m c)
  obtain r s1 where r: "w_post w i m s = (r, s1)" by (cases "w_post w i m s")
  then have "step1 w (Post i m c) s = (c r, s1)" by simp
  from Post.IH [OF rangeI wp_reliable_step [OF Post.prems this]] show ?case using Post.prems by (simp add: r)
next
  case (Drop i c)
  obtain r s1 where r: "w_drop w i s = (r, s1)" by (cases "w_drop w i s")
  then have "step1 w (Drop i c) s = (c r, s1)" by simp
  from Drop.IH [OF rangeI wp_reliable_step [OF Drop.prems this]] show ?case by (simp add: r)
next
  case (Now c)
  obtain r s1 where r: "w_now w s = (r, s1)" by (cases "w_now w s")
  then have "step1 w (Now c) s = (c r, s1)" by simp
  from Now.IH [OF rangeI wp_reliable_step [OF Now.prems this]] show ?case by (simp add: r)
next
  case (NewID c)
  obtain r s1 where r: "w_id w s = (r, s1)" by (cases "w_id w s")
  then have "step1 w (NewID c) s = (c r, s1)" by simp
  from NewID.IH [OF rangeI wp_reliable_step [OF NewID.prems this]] show ?case by (simp add: r)
next
  case (NewLocator c)
  obtain r s1 where r: "w_locator w s = (r, s1)" by (cases "w_locator w s")
  then have "step1 w (NewLocator c) s = (c r, s1)" by simp
  from NewLocator.IH [OF rangeI wp_reliable_step [OF NewLocator.prems this]] show ?case by (simp add: r)
next
  case (RangeMap xs c)
  obtain r s1 where r: "w_range w xs s = (r, s1)" by (cases "w_range w xs s")
  then have "step1 w (RangeMap xs c) s = (c r, s1)" by simp
  from RangeMap.IH [OF rangeI wp_reliable_step [OF RangeMap.prems this]] show ?case by (simp add: r)
qed simp

lemma wp_reliable_sound:
  assumes "wp True P p (view s) Q" and "run w p s = (x, s')"
  shows "Q x (view s')"
  using assms
proof (induction p arbitrary: s)
  case (GetItem k c)
  then show ?case
    using wp_reliable_step [OF GetItem.prems(1)] by (auto split: prod.splits simp del: wp.simps)
next
  case (UpdateItem u c)
  then show ?case
    using wp_reliable_step [OF UpdateItem.prems(1)] by (auto split: prod.splits simp del: wp.simps)
next
  case (TransactWriteItems ws c)
  then show ?case
    using wp_reliable_step [OF TransactWriteItems.prems(1)] by (auto split: prod.splits simp del: wp.simps)
next
  case (Post i m c)
  then show ?case
    using wp_reliable_step [OF Post.prems(1)] by (auto split: prod.splits simp del: wp.simps)
next
  case (Drop i c)
  then show ?case
    using wp_reliable_step [OF Drop.prems(1)] by (auto split: prod.splits simp del: wp.simps)
next
  case (Now c)
  then show ?case
    using wp_reliable_step [OF Now.prems(1)] by (auto split: prod.splits simp del: wp.simps)
next
  case (NewID c)
  then show ?case
    using wp_reliable_step [OF NewID.prems(1)] by (auto split: prod.splits simp del: wp.simps)
next
  case (NewLocator c)
  then show ?case
    using wp_reliable_step [OF NewLocator.prems(1)] by (auto split: prod.splits simp del: wp.simps)
next
  case (RangeMap xs c)
  then show ?case
    using wp_reliable_step [OF RangeMap.prems(1)] by (auto split: prod.splits simp del: wp.simps)
qed simp

end

end
