(* ===== verification/World.thy ===== *)
theory World
  imports HandlerSafe Sequential
begin

text \<open>
  A reference implementation of the services: a table in memory that evaluates conditions and
  writes as documented, a clock that stands still, identifiers that count up, an outbox,
  and a set of sockets that are gone. It interprets the locales of the services, so every law
  that the development assumes is met by it, and the witnesses run on it.
\<close>

record ref_state =
  rs_table :: table
  rs_now :: int
  rs_next :: nat
  rs_sent :: "(string \<times> Message) list"
  rs_gone :: "string list"

definition ref_get :: "row_key \<Rightarrow> ref_state \<Rightarrow> (api_error + item option) \<times> ref_state" where
  "ref_get k s = (Inr (rs_table s k), s)"

definition ref_update :: "twrite \<Rightarrow> ref_state \<Rightarrow> api_error option \<times> ref_state" where
  "ref_update u s =
     (if write_ok (rs_table s) u then (None, s\<lparr>rs_table := apply_write u (rs_table s)\<rparr>)
      else (Some ConditionalCheckFailed, s))"

definition ref_transact :: "twrite list \<Rightarrow> ref_state \<Rightarrow> api_error option \<times> ref_state" where
  "ref_transact ws s =
     (if \<not> distinct (map write_key ws) then (Some (ApiError ''ValidationException''), s)
      else if list_all (write_ok (rs_table s)) ws
      then (None, s\<lparr>rs_table := apply_writes ws (rs_table s)\<rparr>)
      else (Some (TransactionCanceled (cancellation_reasons ws (rs_table s))), s))"

definition ref_post :: "string \<Rightarrow> Message \<Rightarrow> ref_state \<Rightarrow> api_error option \<times> ref_state" where
  "ref_post c m s =
     (if c \<in> set (rs_gone s) then (Some (ApiError ''GoneException''), s)
      else (None, s\<lparr>rs_sent := rs_sent s @ [(c, m)]\<rparr>))"

definition ref_drop :: "string \<Rightarrow> ref_state \<Rightarrow> api_error option \<times> ref_state" where
  "ref_drop c s =
     (if c \<in> set (rs_gone s) then (Some (ApiError ''GoneException''), s)
      else (None, s\<lparr>rs_gone := c # rs_gone s\<rparr>))"

definition ref_fresh :: "ref_state \<Rightarrow> string \<times> ref_state" where
  "ref_fresh s = (''id-'' @ itoa (int (rs_next s)), s\<lparr>rs_next := Suc (rs_next s)\<rparr>)"

definition ref_world :: "ref_state world" where
  "ref_world =
     \<lparr>w_get = ref_get, w_update = ref_update, w_transact = ref_transact, w_post = ref_post,
      w_drop = ref_drop, w_now = (\<lambda>s. (rs_now s, s)), w_id = ref_fresh, w_locator = ref_fresh,
      w_range = (\<lambda>xs s. (xs, s))\<rparr>"

lemma ref_world_simps [simp]:
  "w_get ref_world = ref_get" "w_update ref_world = ref_update"
  "w_transact ref_world = ref_transact" "w_post ref_world = ref_post"
  "w_drop ref_world = ref_drop" "w_now ref_world = (\<lambda>s. (rs_now s, s))"
  "w_id ref_world = ref_fresh" "w_locator ref_world = ref_fresh"
  "w_range ref_world = (\<lambda>xs s. (xs, s))"
  by (simp_all add: ref_world_def)

interpretation ref: reliable_dynamo ref_world rs_table
proof unfold_locales
  fix k ws s
  show "\<exists>i s'. w_get ref_world k s = (Inr i, s')"
    by (simp add: ref_get_def)
  show "distinct (map write_key ws) \<Longrightarrow> \<exists>s'. w_transact ref_world ws s =
      (if list_all (write_ok (rs_table s)) ws then None
       else Some (TransactionCanceled (cancellation_reasons ws (rs_table s))), s')"
    by (simp add: ref_transact_def)
next
  fix u s
  show "\<exists>s'. w_update ref_world u s =
      (if write_ok (rs_table s) u then None else Some ConditionalCheckFailed, s')"
    by (simp add: ref_update_def)
next
  fix ws s s' rs
  assume "w_transact ref_world ws s = (Some (TransactionCanceled rs), s')"
  then show "rs_table s' = rs_table s \<and>
      (\<forall>i < length rs. rs ! i = Some ''ConditionalCheckFailed'' \<longrightarrow>
         i < length ws \<and> \<not> write_ok (rs_table s) (ws ! i))"
    by (auto simp: ref_transact_def cancellation_reasons_def split: if_splits)
qed (auto simp: ref_get_def ref_update_def ref_transact_def ref_post_def ref_drop_def ref_fresh_def
    writes_ok_def is_rejection_def split: if_splits)

definition ref_start :: ref_state where
  "ref_start = \<lparr>rs_table = (\<lambda>_. None), rs_now = 1000, rs_next = 0, rs_sent = [], rs_gone = []\<rparr>"

text \<open>Parameters for the witnesses: the identity for the hash, no address, one parser answer.\<close>

definition ref_deps :: "ValidationError + Envelope \<Rightarrow> deps" where
  "ref_deps m =
     \<lparr>d_sha256 = (\<lambda>x. x), d_ParseAddr = (\<lambda>_. None), d_ParseClient = (\<lambda>_. m),
      d_bodyID = (\<lambda>_. None), d_pairActivationsPerSourceHour = 10\<rparr>"

definition sample_deps :: deps where
  "sample_deps = ref_deps (Inl (validationError InvalidMessage ''malformed''))"

definition event :: "string \<Rightarrow> string \<Rightarrow> WebSocketEvent" where
  "event c route =
     \<lparr>ev_ConnectionID = c, ev_RouteKey = route, ev_SourceIP = ''192.0.2.1'', ev_Headers = [],
      ev_Body = ''''\<rparr>"

definition pairing_event :: "string \<Rightarrow> WebSocketEvent" where
  "pairing_event c = (event c ''$connect'')\<lparr>ev_Headers := [(''Authorization'', ''Pairing rd1'')]\<rparr>"

section \<open>A table in use\<close>

text \<open>Two endpoints, their link, an active session, and the pair that made the link.\<close>

definition sample_endpoint :: "string \<Rightarrow> string \<Rightarrow> string \<Rightarrow> item" where
  "sample_endpoint i role c = map_of
     [(A_endpointId, AvS i), (A_role, AvS role), (A_credentialHash, AvS (i @ ''-hash'')),
      (A_connectionId, AvS c), (A_activeSessionId, AvS ''session''), (A_createdAt, AvN 1),
      (A_updatedAt, AvN 1), (A_kind, AvS ''endpoint'')]"

definition sample_session :: Session where
  "sample_session =
     \<lparr>s_SessionID = ''session'', s_LinkID = ''link'', s_ControllerID = ''ctl'', s_CompanionID = ''cmp'',
      s_ControllerConnectionID = ''c1'', s_CompanionConnectionID = ''c2'', s_Status = ''ACTIVE'',
      s_CreatedAt = 10, s_ExpiresAt = 7210, s_ClosedAt = 0\<rparr>"

definition sample_link :: Link where
  "sample_link =
     \<lparr>l_LinkID = ''link'', l_ControllerID = ''ctl'', l_CompanionID = ''cmp'', l_Status = ''ACTIVE'',
      l_ActiveSessionID = ''session'', l_CreatedAt = 5, l_RevokedAt = 0\<rparr>"

definition sample_commit :: "string \<Rightarrow> string \<Rightarrow> string \<Rightarrow> string \<Rightarrow> string \<Rightarrow> string \<Rightarrow> PairCommit" where
  "sample_commit c side slf srole peer prole =
     \<lparr>pc_ConnectionID = c, pc_SideID = side, pc_LinkID = ''link'',
      pc_Self = \<lparr>pe_EndpointID = slf, pe_Role = srole, pe_CredentialHash = slf @ ''-hash''\<rparr>,
      pc_Peer = \<lparr>pi_EndpointID = peer, pi_Role = prole\<rparr>\<rparr>"

definition sample_pair :: Pair where
  "sample_pair =
     \<lparr>p_PairID = ''pair'', p_Locator = '''', p_JoinTokenHash = ''token'', p_Status = ''ACTIVE'',
      p_SideA = \<lparr>ps_ConnectionID = ''pa'', ps_SideID = ''a''\<rparr>,
      p_SideB = Some \<lparr>ps_ConnectionID = ''pb'', ps_SideID = ''b''\<rparr>,
      p_CommitA = Some (sample_commit ''pa'' ''a'' ''cmp'' Companion ''ctl'' Controller),
      p_CommitB = Some (sample_commit ''pb'' ''b'' ''ctl'' Controller ''cmp'' Companion),
      p_ExpiresAt = 300\<rparr>"

definition sample_table :: table where
  "sample_table =
     [(KEndpoint, ''ctl'') \<mapsto> sample_endpoint ''ctl'' Controller ''c1'',
      (KEndpoint, ''cmp'') \<mapsto> sample_endpoint ''cmp'' Companion ''c2'',
      (KLink, ''link'') \<mapsto> marshalItem ''link'' (marshal_Link sample_link),
      (KSession, ''session'') \<mapsto> marshalItem ''session'' (marshal_Session sample_session),
      (KPair, ''pair'') \<mapsto> marshalItem ''pair'' (marshal_Pair sample_pair)]"

lemmas sample_defs = sample_table_def sample_endpoint_def sample_session_def sample_link_def
  sample_pair_def marshalItem_def marshal_Link_def marshal_Session_def marshal_Pair_def omit_s_def
  omit_n_def omit_p_def

lemma sample_form: "formInv sample_table"
proof -
  have "row_form k i" if "sample_table k = Some i" for k i
  proof -
    have "ReciprocalCommits (sample_commit ''pa'' ''a'' ''cmp'' Companion ''ctl'' Controller)
        (sample_commit ''pb'' ''b'' ''ctl'' Controller ''cmp'' Companion)"
      by (simp add: ReciprocalCommits_def sample_commit_def)
    then show ?thesis
      using that
      by (auto simp: sample_defs endpoint_form_def link_form_def session_form_def pair_form_def
          pair_status_form_def commits_form_def split: if_splits)
  qed
  then show ?thesis by (simp add: formInv_def)
qed

lemma sample_active: "active sample_table S \<longleftrightarrow> S = ''session''"
  by (auto simp: active_def at_def sample_defs)

lemma sample_Inv: "Inv sample_table"
proof -
  have "locked sample_table ''session''"
    by (simp add: locked_def holds_lock_def at_def sample_defs)
  moreover have "endpoint_ptr sample_table E" for E
    unfolding endpoint_ptr_def sample_active by (auto simp: at_def sample_defs)
  moreover have "link_ptr sample_table L" for L
    unfolding link_ptr_def sample_active by (auto simp: at_def sample_defs)
  moreover have "session_link sample_table S" for S
    by (auto simp: session_link_def at_def sample_defs)
  moreover have "link_ends sample_table L" for L
    by (auto simp: link_ends_def at_def sample_defs)
  moreover have "pair_link sample_table P" for P
    by (auto simp: pair_link_def at_def sample_defs sample_commit_def)
  ultimately show ?thesis
    by (simp add: Inv_def lockInv_def refInv_def sample_form sample_active)
qed

definition sample_state :: ref_state where
  "sample_state = ref_start\<lparr>rs_table := sample_table\<rparr>"

lemma sample_state_table [simp]: "rs_table sample_state = sample_table"
  by (simp add: sample_state_def)

end
