(* ===== verification/RelayConcurrency.thy ===== *)
theory RelayConcurrency
  imports World
begin

text \<open>
  What the relay promises for concurrent invocations: any number of them, interleaved call by call in
  any order, on services that may fail and time out (\<open>dynamo\<close>). The first lemma puts the
  guarantees of all programs together; the properties after it read off what the invariant and
  the order of each row say about links, endpoints, sessions and pairs.
\<close>

definition relay_pool :: "'s world \<Rightarrow> deps \<Rightarrow> nat \<Rightarrow> nat list \<Rightarrow> WebSocketEvent list \<Rightarrow> 's \<Rightarrow> 's" where
  "relay_pool w d fuel sched events s = snd (pool_run w sched (map (Handle d fuel) events) s)"

lemma pool_evolves:
  assumes "dynamo w view" "Inv (view s)"
  shows "evolves (view s) (view (relay_pool w d fuel sched events s))"
proof -
  have "\<forall>p \<in> set (map (Handle d fuel) events). gs evolves evolves p (view s) (\<lambda>_ _. True)"
    using keeps_Handle assms(2) by (auto simp: keeps_def)
  then show ?thesis
    unfolding relay_pool_def
    by (intro dynamo.pool_guarantee [OF assms(1), THEN conjunct1, of evolves evolves "\<lambda>_ _. True"])
      (auto intro: evolves_trans)
qed

lemma pool_Inv:
  "dynamo w view \<Longrightarrow> Inv (view s) \<Longrightarrow> Inv (view (relay_pool w d fuel sched events s))"
  by (rule evolves_Inv [OF pool_evolves])

lemmas ref_dynamo = ref.dynamo_axioms

section \<open>One session per link and endpoint\<close>

definition participant :: "table \<Rightarrow> string \<Rightarrow> string \<Rightarrow> bool" where
  "participant t S E \<longleftrightarrow>
     at t (KSession, S) A_controllerId = Some (AvS E) \<or> at t (KSession, S) A_companionId = Some (AvS E)"

lemma active_unique_endpoint:
  assumes "Inv t" "active t S" "active t S'" "participant t S E" "participant t S' E"
  shows "S = S'"
  using Inv_locked [OF assms(1,2)] Inv_locked [OF assms(1,3)] assms(4,5)
  by (auto simp: locked_def holds_lock_def participant_def)

lemma active_unique_link:
  assumes "Inv t" "active t S" "active t S'" "at t (KSession, S) A_linkId = Some (AvS L)"
    "at t (KSession, S') A_linkId = Some (AvS L)"
  shows "S = S'"
  using Inv_locked [OF assms(1,2)] Inv_locked [OF assms(1,3)] assms(4,5)
  by (auto simp: locked_def)

section \<open>Properties\<close>

text \<open>C1: the invariant of the relay's table (form of every row, locks of active sessions, references
  between links, endpoints, sessions and pairs) holds after any interleaving of any invocations
  of \<^verbatim>\<open>Handle\<close>, whatever of their requests fail.\<close>

theorem relay_invariant:
  assumes "dynamo w view" and "Inv (view s)"
  shows "Inv (view (snd (pool_run w sched (map (Handle d fuel) events) s)))"
  using pool_Inv [OF assms] by (simp add: relay_pool_def)

theorem relay_invariant_witness:
  "Inv (rs_table (snd (pool_run ref_world [0, 1, 1, 0, 0, 1]
     (map (Handle sample_deps 2) [pairing_event ''a'', event ''b'' ''$default'']) ref_start)))"
  by (rule relay_invariant [OF ref_dynamo]) (simp add: ref_start_def Inv_empty)

text \<open>C2: no interleaving of invocations leads to two different active sessions that share an endpoint (in
  whatever role) or a link.\<close>

theorem one_active_session:
  assumes "dynamo w view" and "Inv (view s)"
    and "t = view (relay_pool w d fuel sched events s)" and "active t S" and "active t S'"
    and "participant t S E \<and> participant t S' E \<or>
      at t (KSession, S) A_linkId = Some (AvS L) \<and> at t (KSession, S') A_linkId = Some (AvS L)"
  shows "S = S'"
proof -
  have "Inv t" unfolding assms(3) by (rule pool_Inv [OF assms(1,2)])
  then show ?thesis
    using assms(6) active_unique_endpoint [OF _ assms(4,5)] active_unique_link [OF _ assms(4,5)] by blast
qed

theorem one_active_session_witness:
  "{S. active sample_table S \<and> participant sample_table S ''ctl''} = {''session''}"
proof -
  have t: "rs_table (relay_pool ref_world sample_deps 1 [0] [event ''x'' ''other''] sample_state) =
      sample_table"
    by (simp add: relay_pool_def Handle_def Handle_with_def event_def okP_def)
  have p: "participant sample_table ''session'' ''ctl''"
    by (simp add: participant_def at_def sample_defs)
  have a: "active sample_table ''session''" by (simp add: sample_active)
  have "Inv (rs_table sample_state)" using sample_Inv by simp
  from one_active_session [OF ref_dynamo, OF this t [symmetric]] p a show ?thesis by blast
qed

text \<open>C3: a revoked endpoint stays revoked with the same time, without connection, lock and credential, and
  takes part in no active session, whatever runs afterwards.\<close>

theorem endpoint_revocation_permanent:
  assumes "dynamo w view" and "Inv (view s)"
    and "at (view s) (KEndpoint, E) A_revokedAt = Some v"
    and "t = view (relay_pool w d fuel sched events s)"
  shows "at t (KEndpoint, E) A_revokedAt = Some v \<and> at t (KEndpoint, E) A_connectionId = None \<and>
    at t (KEndpoint, E) A_credentialHash = None \<and> at t (KEndpoint, E) A_activeSessionId = None \<and>
    \<not> (\<exists>S. active t S \<and> participant t S E)"
proof -
  have e: "evolves (view s) t" unfolding assms(4) by (rule pool_evolves [OF assms(1,2)])
  have i: "Inv t" by (rule evolves_Inv [OF e assms(2)])
  obtain r where r: "view s (KEndpoint, E) = Some r" "r A_revokedAt = Some v"
    using at_row [OF assms(3)] by blast
  then obtain j where j: "t (KEndpoint, E) = Some j" "j A_revokedAt = Some v"
    using evolves_row [OF e, of "(KEndpoint, E)"]
    by (auto simp: row_mono_def item_mono_def once_def)
  have f: "endpoint_form E j" using Inv_form [OF i j(1)] by simp
  have n: "at t (KEndpoint, E) A_activeSessionId = None"
    using f j by (simp add: endpoint_form_def at_Some)
  have "\<not> (active t S \<and> participant t S E)" for S
    using Inv_locked [OF i, of S] n by (auto simp: locked_def holds_lock_def participant_def)
  then show ?thesis using f j n by (auto simp: endpoint_form_def at_Some)
qed

definition revoked_table :: table where
  "revoked_table = [(KEndpoint, ''old'') \<mapsto> map_of
     [(A_endpointId, AvS ''old''), (A_role, AvS Companion), (A_createdAt, AvN 1), (A_updatedAt, AvN 9),
      (A_kind, AvS ''endpoint''), (A_revokedAt, AvN 9)],
     (KEndpoint, ''ctl'') \<mapsto> map_of
     [(A_endpointId, AvS ''ctl''), (A_role, AvS Controller), (A_createdAt, AvN 1), (A_updatedAt, AvN 1),
      (A_kind, AvS ''endpoint''), (A_credentialHash, AvS ''h'')],
     (KLink, ''gone'') \<mapsto> map_of
     [(A_linkId, AvS ''gone''), (A_controllerId, AvS ''ctl''), (A_companionId, AvS ''old''),
      (A_status, AvS ''REVOKED''), (A_createdAt, AvN 1), (A_revokedAt, AvN 9)]]"

lemma revoked_Inv: "Inv revoked_table"
proof -
  have "formInv revoked_table"
    by (auto simp: formInv_def revoked_table_def endpoint_form_def link_form_def split: if_splits)
  moreover have na: "\<not> active revoked_table S" for S
    by (simp add: active_def at_def revoked_table_def)
  moreover have "endpoint_ptr revoked_table E" for E
    by (auto simp: endpoint_ptr_def at_def revoked_table_def)
  moreover have "link_ptr revoked_table L" for L
    by (auto simp: link_ptr_def at_def revoked_table_def)
  moreover have "session_link revoked_table S" for S
    by (auto simp: session_link_def at_def revoked_table_def)
  moreover have "link_ends revoked_table L" for L
    by (auto simp: link_ends_def at_def revoked_table_def)
  moreover have "pair_link revoked_table P" for P
    by (auto simp: pair_link_def at_def revoked_table_def)
  ultimately show ?thesis by (simp add: Inv_def lockInv_def refInv_def)
qed

theorem endpoint_revocation_permanent_witness:
  "at (rs_table (relay_pool ref_world sample_deps 2 [0, 1, 0, 1]
        [pairing_event ''a'', event ''b'' ''$disconnect''] (ref_start\<lparr>rs_table := revoked_table\<rparr>)))
     (KEndpoint, ''old'') A_credentialHash = None"
proof -
  have "Inv (rs_table (ref_start\<lparr>rs_table := revoked_table\<rparr>))"
    "at (rs_table (ref_start\<lparr>rs_table := revoked_table\<rparr>)) (KEndpoint, ''old'') A_revokedAt = Some (AvN 9)"
    using revoked_Inv by (simp_all add: at_def revoked_table_def)
  from endpoint_revocation_permanent [OF ref_dynamo, OF this refl] show ?thesis by blast
qed

text \<open>C4: a revoked link stays revoked and carries no active session, whatever runs afterwards.\<close>

theorem link_revocation_permanent:
  assumes "dynamo w view" and "Inv (view s)"
    and "at (view s) (KLink, L) A_status = Some (AvS ''REVOKED'')"
    and "t = view (relay_pool w d fuel sched events s)"
  shows "at t (KLink, L) A_status = Some (AvS ''REVOKED'') \<and>
    \<not> (\<exists>S. active t S \<and> at t (KSession, S) A_linkId = Some (AvS L))"
proof -
  have e: "evolves (view s) t" unfolding assms(4) by (rule pool_evolves [OF assms(1,2)])
  have i: "Inv t" by (rule evolves_Inv [OF e assms(2)])
  have "at t (KLink, L) A_status = Some (AvS ''REVOKED'')"
    using evolves_row [OF e, of "(KLink, L)"] at_row [OF assms(3)]
    by (auto simp: row_mono_def item_mono_def at_Some)
  moreover have "\<not> (active t S \<and> at t (KSession, S) A_linkId = Some (AvS L))" for S
    using Inv_locked [OF i, of S] calculation by (auto simp: locked_def)
  ultimately show ?thesis by blast
qed

theorem link_revocation_permanent_witness:
  "at (rs_table (relay_pool ref_world sample_deps 2 [0, 1, 0, 1]
        [pairing_event ''a'', event ''b'' ''$disconnect''] (ref_start\<lparr>rs_table := revoked_table\<rparr>)))
     (KLink, ''gone'') A_status = Some (AvS ''REVOKED'')"
proof -
  have "Inv (rs_table (ref_start\<lparr>rs_table := revoked_table\<rparr>))"
    "at (rs_table (ref_start\<lparr>rs_table := revoked_table\<rparr>)) (KLink, ''gone'') A_status =
       Some (AvS ''REVOKED'')"
    using revoked_Inv by (simp_all add: at_def revoked_table_def)
  from link_revocation_permanent [OF ref_dynamo, OF this refl] show ?thesis by blast
qed

text \<open>C5: a session keeps its link, endpoints, connections and times for ever, and once closed it is never
  active again.\<close>

theorem session_history:
  assumes "dynamo w view" and "Inv (view s)" and "view s (KSession, S) \<noteq> None"
    and "t = view (relay_pool w d fuel sched events s)"
  shows "(active t S \<longrightarrow> active (view s) S) \<and>
    (\<forall>a \<in> {A_sessionId, A_linkId, A_controllerId, A_companionId, A_controllerConnectionId,
            A_companionConnectionId, A_createdAt, A_expiresAt}.
       at t (KSession, S) a = at (view s) (KSession, S) a)"
proof -
  have e: "evolves (view s) t" unfolding assms(4) by (rule pool_evolves [OF assms(1,2)])
  show ?thesis
    using active_before [OF e assms(2,3)] session_stable [OF e assms(3)] by blast
qed

theorem session_history_witness:
  "at (rs_table (relay_pool ref_world sample_deps 2 [0, 1, 0, 1, 0, 0, 0]
        [event ''c1'' ''$disconnect'', event ''b'' ''$disconnect''] sample_state))
     (KSession, ''session'') A_controllerId = Some (AvS ''ctl'')"
proof -
  have i: "Inv (rs_table sample_state)" using sample_Inv by simp
  have r: "rs_table sample_state (KSession, ''session'') \<noteq> None" by (simp add: sample_table_def)
  have "at (rs_table sample_state) (KSession, ''session'') A_controllerId = Some (AvS ''ctl'')"
    by (simp add: at_def sample_defs)
  then show ?thesis
    using session_history [OF ref_dynamo, OF i r refl] by simp
qed

section \<open>The life of a pair\<close>

datatype phase = Open | Ready | HalfCommitted | Active | Closed

definition phase_of :: "av option \<Rightarrow> phase" where
  "phase_of s =
     (if s = Some (AvS ''OPEN'') then Open else if s = Some (AvS ''READY'') then Ready
      else if s = Some (AvS ''HALF_COMMITTED'') then HalfCommitted
      else if s = Some (AvS ''ACTIVE'') then Active else Closed)"

text \<open>The abstract state machine: one step for each operation that changes a pair.\<close>

inductive pair_step :: "phase \<Rightarrow> phase \<Rightarrow> bool" where
  join: "pair_step Open Ready"
| first_commit: "pair_step Ready HalfCommitted"
| second_commit: "pair_step HalfCommitted Active"
| cancel: "p \<in> {Open, Ready, HalfCommitted} \<Longrightarrow> pair_step p Closed"

inductive_cases pair_step_from_Active: "pair_step Active p"
inductive_cases pair_step_from_Closed: "pair_step Closed p"
inductive_simps pair_step_from_Open: "pair_step Open p"

lemma pair_step_final: "pair_step\<^sup>*\<^sup>* p q \<Longrightarrow> p = Active \<or> p = Closed \<Longrightarrow> q = p"
  by (induction rule: converse_rtranclp_induct)
    (auto elim: pair_step_from_Active pair_step_from_Closed)

lemma pair_steps:
  "pair_step\<^sup>*\<^sup>* Open Ready" "pair_step\<^sup>*\<^sup>* Ready HalfCommitted" "pair_step\<^sup>*\<^sup>* HalfCommitted Active"
  "pair_step\<^sup>*\<^sup>* Open HalfCommitted" "pair_step\<^sup>*\<^sup>* Open Active" "pair_step\<^sup>*\<^sup>* Ready Active"
  "pair_step\<^sup>*\<^sup>* Open Closed" "pair_step\<^sup>*\<^sup>* Ready Closed" "pair_step\<^sup>*\<^sup>* HalfCommitted Closed"
proof -
  show 1: "pair_step\<^sup>*\<^sup>* Open Ready" "pair_step\<^sup>*\<^sup>* Ready HalfCommitted"
    "pair_step\<^sup>*\<^sup>* HalfCommitted Active" "pair_step\<^sup>*\<^sup>* Open Closed" "pair_step\<^sup>*\<^sup>* Ready Closed"
    "pair_step\<^sup>*\<^sup>* HalfCommitted Closed"
    by (simp_all add: pair_step.intros r_into_rtranclp)
  show "pair_step\<^sup>*\<^sup>* Open HalfCommitted" "pair_step\<^sup>*\<^sup>* Open Active" "pair_step\<^sup>*\<^sup>* Ready Active"
    using 1 rtranclp_trans by metis+
qed

lemma status_le_steps:
  assumes "pair_status_form i" "pair_status_form j" "status_le (i A_status) (j A_status)"
  shows "pair_step\<^sup>*\<^sup>* (phase_of (i A_status)) (phase_of (j A_status))"
proof -
  have "i A_status \<in> (Some \<circ> AvS) ` {''OPEN'', ''READY'', ''HALF_COMMITTED'', ''ACTIVE'', ''CLOSED''}"
    "j A_status \<in> (Some \<circ> AvS) ` {''OPEN'', ''READY'', ''HALF_COMMITTED'', ''ACTIVE'', ''CLOSED''}"
    using assms(1,2) by (auto simp: pair_status_form_def)
  then show ?thesis
    using assms(3) by (auto simp: status_le_def phase_of_def pair_steps)
qed

text \<open>C6: the stored status of a pair refines the abstract state machine: over any interleaving of
  invocations it moves along \<open>pair_step\<close>, and its sides, identity and commits never change once set.\<close>

theorem pair_refines_machine:
  assumes "dynamo w view" and "Inv (view s)" and "view s (KPair, P) = Some i"
    and "t = view (relay_pool w d fuel sched events s)"
  shows "\<exists>j. t (KPair, P) = Some j \<and> pair_step\<^sup>*\<^sup>* (phase_of (i A_status)) (phase_of (j A_status)) \<and>
    (\<forall>a \<in> {A_pairId, A_locator, A_joinTokenHash, A_sideA, A_expiresAt}. j a = i a) \<and>
    (\<forall>a \<in> {A_sideB, A_commitA, A_commitB}. i a = None \<or> j a = i a)"
proof -
  have e: "evolves (view s) t" unfolding assms(4) by (rule pool_evolves [OF assms(1,2)])
  have v: "Inv t" by (rule evolves_Inv [OF e assms(2)])
  obtain j where j: "t (KPair, P) = Some j" "item_mono KPair i j"
    using evolves_row [OF e, of "(KPair, P)"] assms(3) by (auto simp: row_mono_def)
  have "pair_status_form i" "pair_status_form j"
    using Inv_form [OF assms(2,3)] Inv_form [OF v j(1)] by (simp_all add: pair_form_def)
  then have "pair_step\<^sup>*\<^sup>* (phase_of (i A_status)) (phase_of (j A_status))"
    using status_le_steps j(2) by (simp add: item_mono_def)
  then show ?thesis
    using j by (auto simp: item_mono_def kept_def once_def)
qed

theorem pair_refines_machine_witness:
  "\<exists>j. rs_table (relay_pool ref_world sample_deps 2 [0, 0, 0, 1]
        [event ''pa'' ''$disconnect'', event ''pb'' ''$disconnect''] sample_state) (KPair, ''pair'') = Some j \<and>
     pair_step\<^sup>*\<^sup>* Active (phase_of (j A_status))"
proof -
  have i: "Inv (rs_table sample_state)" using sample_Inv by simp
  have "rs_table sample_state (KPair, ''pair'') = Some (marshalItem ''pair'' (marshal_Pair sample_pair))"
    by (simp add: sample_table_def)
  from pair_refines_machine [OF ref_dynamo, OF i this refl]
  have "\<exists>j. rs_table (relay_pool ref_world sample_deps 2 [0, 0, 0, 1]
        [event ''pa'' ''$disconnect'', event ''pb'' ''$disconnect''] sample_state) (KPair, ''pair'') = Some j \<and>
     pair_step\<^sup>*\<^sup>* (phase_of (marshalItem ''pair'' (marshal_Pair sample_pair) A_status)) (phase_of (j A_status))"
    by blast
  moreover have "phase_of (marshalItem ''pair'' (marshal_Pair sample_pair) A_status) = Active"
    by (simp add: phase_of_def sample_defs)
  ultimately show ?thesis by simp
qed

text \<open>C7: a pair that is active has two commits that name each other, and the link between exactly
  these two endpoints and both endpoints exist.\<close>

theorem active_pair_is_linked:
  assumes "dynamo w view" and "Inv (view s)"
    and "t = view (relay_pool w d fuel sched events s)"
    and "at t (KPair, P) A_status = Some (AvS ''ACTIVE'')"
  shows "\<exists>a b C D. at t (KPair, P) A_commitA = Some (marshal_PairCommit a) \<and>
    at t (KPair, P) A_commitB = Some (marshal_PairCommit b) \<and> ReciprocalCommits a b \<and>
    at t (KLink, pc_LinkID a) A_controllerId = Some (AvS C) \<and>
    at t (KLink, pc_LinkID a) A_companionId = Some (AvS D) \<and>
    {C, D} = {pe_EndpointID (pc_Self a), pe_EndpointID (pc_Self b)} \<and>
    t (KEndpoint, C) \<noteq> None \<and> t (KEndpoint, D) \<noteq> None"
proof -
  have i: "Inv t" unfolding assms(3) by (rule pool_Inv [OF assms(1,2)])
  obtain a b C D where l: "at t (KPair, P) A_commitA = Some (marshal_PairCommit a)"
      "at t (KPair, P) A_commitB = Some (marshal_PairCommit b)"
      "at t (KLink, pc_LinkID a) A_controllerId = Some (AvS C)"
      "at t (KLink, pc_LinkID a) A_companionId = Some (AvS D)"
      "{C, D} = {pe_EndpointID (pc_Self a), pe_EndpointID (pc_Self b)}"
    using Inv_pair_link [OF i, of P] assms(4) unfolding pair_link_def by blast
  obtain r where r: "t (KPair, P) = Some r" using at_row [OF assms(4)] by blast
  have "ReciprocalCommits a b"
    using Inv_form [OF i r] r assms(4) l(1,2)
    by (auto simp: pair_form_def pair_status_form_def at_Some)
  moreover have "t (KEndpoint, C) \<noteq> None" "t (KEndpoint, D) \<noteq> None"
    using Inv_link_ends [OF i, of "pc_LinkID a"] l(3,4) unfolding link_ends_def by blast+
  ultimately show ?thesis using l by blast
qed

theorem active_pair_is_linked_witness:
  "at sample_table (KPair, ''pair'') A_status = Some (AvS ''ACTIVE'') \<and>
   (\<exists>C. sample_table (KEndpoint, C) \<noteq> None)"
proof -
  have t: "rs_table (relay_pool ref_world sample_deps 1 [0] [event ''x'' ''other''] sample_state) =
      sample_table"
    by (simp add: relay_pool_def Handle_def Handle_with_def event_def okP_def)
  have a: "at sample_table (KPair, ''pair'') A_status = Some (AvS ''ACTIVE'')"
    by (simp add: at_def sample_defs)
  have "Inv (rs_table sample_state)" using sample_Inv by simp
  from active_pair_is_linked [OF ref_dynamo, OF this t [symmetric] a] show ?thesis using a by blast
qed

text \<open>
  DynamoDB deletes rows whose \<^verbatim>\<open>expiresAt\<close> has passed (the table's time-to-live attribute); endpoints and links
  have no such field. \<open>expired_gone now t t'\<close>: any of the expired rows of \<open>t\<close> are gone in \<open>t'\<close>.
\<close>

definition expired_gone :: "int \<Rightarrow> table \<Rightarrow> table \<Rightarrow> bool" where
  "expired_gone now t t' \<longleftrightarrow>
     (\<forall>k. t' k = t k \<or>
        t' k = None \<and> fst k \<notin> {KEndpoint, KLink} \<and>
        (\<exists>n. at t k A_expiresAt = Some (AvN n) \<and> n \<le> now))"

lemma expired_gone_at:
  assumes "expired_gone now t t'"
  shows "at t' (KEndpoint, E) a = at t (KEndpoint, E) a"
    and "t' (KSession, S) \<noteq> None \<Longrightarrow> active t' S = active t S \<and> participant t' S E = participant t S E"
    and "t' (KSession, S) = None \<Longrightarrow> \<not> active t' S"
  using assms unfolding expired_gone_def at_def active_def participant_def
  by (metis fst_conv insertI1, metis, simp)

text \<open>C8: while only the relay writes to the table, the lock of an endpoint names a session exactly when the
  endpoint takes part in that session and the session is active; a closed or foreign session never blocks
  an endpoint. After DynamoDB then deleted any expired rows, the one further case of a lock is that of a
  session which was active, with the endpoint, until its expired row went: the dangling lock that
  \<^verbatim>\<open>repairStaleSession\<close> is there for.\<close>

theorem lock_iff_active:
  assumes "dynamo w view" and "Inv (view s)" and "E \<noteq> ''''"
    and "t = view (relay_pool w d fuel sched events s)" and "expired_gone now t t'"
  shows "(at t (KEndpoint, E) A_activeSessionId = Some (AvS S) \<longleftrightarrow> active t S \<and> participant t S E) \<and>
    (at t' (KEndpoint, E) A_activeSessionId = Some (AvS S) \<longleftrightarrow>
       active t' S \<and> participant t' S E \<or>
       t' (KSession, S) = None \<and> active t S \<and> participant t S E \<and>
       (\<exists>n. at t (KSession, S) A_expiresAt = Some (AvN n) \<and> n \<le> now))"
proof -
  have i: "Inv t" unfolding assms(4) by (rule pool_Inv [OF assms(1,2)])
  have l: "at t (KEndpoint, E) A_activeSessionId = Some (AvS S) \<longleftrightarrow> active t S \<and> participant t S E"
    using Inv_endpoint_ptr [OF i, of E] Inv_locked [OF i, of S] assms(3)
    by (auto simp: endpoint_ptr_def locked_def holds_lock_def participant_def)
  have "\<exists>n. at t (KSession, S) A_expiresAt = Some (AvN n) \<and> n \<le> now"
    if "t' (KSession, S) = None" "active t S"
    using assms(5) that unfolding expired_gone_def by (metis active_row option.distinct(1))
  with l expired_gone_at [OF assms(5)] show ?thesis by (cases "t' (KSession, S)") auto
qed

theorem lock_iff_active_witness:
  "at sample_table (KEndpoint, ''ctl'') A_activeSessionId = Some (AvS ''session'') \<and>
   participant sample_table ''session'' ''ctl'' \<and>
   expired_gone 100000 sample_table (sample_table((KSession, ''session'') := None)) \<and>
   active sample_table ''session''"
proof -
  have t: "rs_table (relay_pool ref_world sample_deps 1 [0] [event ''x'' ''other''] sample_state) =
      sample_table"
    by (simp add: relay_pool_def Handle_def Handle_with_def event_def okP_def)
  have a: "at sample_table (KEndpoint, ''ctl'') A_activeSessionId = Some (AvS ''session'')"
    by (simp add: at_def sample_defs)
  have g: "expired_gone 100000 sample_table (sample_table((KSession, ''session'') := None))"
    by (simp add: expired_gone_def at_def sample_defs)
  have "Inv (rs_table sample_state)" using sample_Inv by simp
  from lock_iff_active [OF ref_dynamo, OF this _ t [symmetric] g, of "''ctl''" "''session''"]
  show ?thesis using a g by simp
qed

end
