(* ===== verification/StoreLogic.thy ===== *)
theory StoreLogic
  imports StoreBase Sequential
begin

text \<open>
  Rules of the weakest preconditions for the store's requests: reads, updates and transactions, the
  classification of their errors, and the two ends of an attempt.
\<close>

abbreviation any_post :: "string \<Rightarrow> Message \<Rightarrow> bool" where
  "any_post \<equiv> \<lambda>_ _. True"

lemma wp_get_as [simp]:
  "wp rel P (get_as f k) t Q \<longleftrightarrow>
     Q (Inr (map_option f (t k))) t \<and> (\<not> rel \<longrightarrow> (\<forall>e. Q (Inl (EApi e)) t))"
  by (simp add: get_as_def get_def wp_bindE)

lemmas wp_reads = GetEndpoint_def Store_Link_def

lemma wp_get_asI:
  assumes "Q (Inr (map_option f (t k))) t" "\<And>e. Q (Inl (EApi e)) t"
  shows "wp rel P (get_as f k) t Q"
  using assms by simp

section \<open>Errors\<close>

lemma conditionalFailure_None [simp]: "\<not> conditionalFailure None"
  by (simp add: conditionalFailure_def)

lemma conditionalFailure_rejection: "conditionalFailure (Some (EApi e)) \<Longrightarrow> is_rejection e"
  by (cases e) (simp_all add: conditionalFailure_def as_conditional_def as_cancelled_def is_rejection_def)

lemma conditionalFailure_check [simp]: "conditionalFailure (Some (EApi ConditionalCheckFailed))"
  by (simp add: conditionalFailure_def as_conditional_def)

lemma failureAt_None [simp]: "\<not> transactionConditionalFailureAt None i"
  by (simp add: transactionConditionalFailureAt_def)

lemma failureAt_rejection: "transactionConditionalFailureAt (Some (EApi e)) i \<Longrightarrow> is_rejection e"
  by (cases e) (simp_all add: transactionConditionalFailureAt_def as_cancelled_def is_rejection_def)

text \<open>The write at that position is one whose condition failed.\<close>

lemma failureAt_condition:
  assumes "transactionConditionalFailureAt (Some (EApi e)) i"
    and "\<And>rs. e = TransactionCanceled rs \<Longrightarrow> may_cancel ws t rs"
  shows "i < length ws \<and> \<not> write_ok t (ws ! i)"
proof -
  obtain rs where rs: "e = TransactionCanceled rs" "i < length rs"
      "reason_code (rs ! i) = ''ConditionalCheckFailed''"
    using assms(1)
    by (cases e) (simp_all add: transactionConditionalFailureAt_def as_cancelled_def)
  have "rs ! i = Some ''ConditionalCheckFailed''"
    using rs(3) by (auto simp: reason_code_def split: option.splits)
  then show ?thesis using assms(2) rs by (auto simp: may_cancel_def)
qed

lemma reasons_failed_cancellation:
  "reasons_failed (cancellation_reasons ws t) b \<longleftrightarrow> b \<or> \<not> list_all (write_ok t) ws"
  by (induction ws arbitrary: b) (auto simp: cancellation_reasons_def reason_code_def)

lemma conditionalFailure_cancellation [simp]:
  "conditionalFailure (Some (EApi (TransactionCanceled (cancellation_reasons ws t)))) \<longleftrightarrow>
     \<not> list_all (write_ok t) ws"
  by (simp add: conditionalFailure_def as_conditional_def as_cancelled_def
      reasons_failed_cancellation)

lemma failureAt_cancellation:
  "transactionConditionalFailureAt (Some (EApi (TransactionCanceled (cancellation_reasons ws t)))) i \<longleftrightarrow>
     i < length ws \<and> \<not> write_ok t (ws ! i)"
  by (auto simp: transactionConditionalFailureAt_def as_cancelled_def cancellation_reasons_def
      reason_code_def list_all_iff)

lemma service_code_api [simp]: "service_code (EApi e) = None" "service_code (EText x) = None"
  by (simp_all add: service_code_def)

lemma service_code_service [simp]:
  "service_code (serviceError c) = Some c" "service_code (retryableError c) = Some c"
  by (simp_all add: service_code_def serviceError_def retryableError_def)

section \<open>Writes\<close>

lemma wp_transactP:
  assumes "writes_ok ws t \<Longrightarrow> Q None (apply_writes ws t)"
    and "\<And>e. (\<And>rs. e = TransactionCanceled rs \<Longrightarrow> may_cancel ws t rs) \<Longrightarrow> Q (Some (EApi e)) t"
    and "\<And>e. \<not> is_rejection e \<Longrightarrow> writes_ok ws t \<Longrightarrow> Q (Some (EApi e)) (apply_writes ws t)"
  shows "wp False P (transactP ws) t Q"
  using assms by (simp add: transactP_def)

lemma wp_updateP:
  assumes "write_ok t u \<Longrightarrow> Q None (apply_write u t)"
    and "\<And>e. (e = ConditionalCheckFailed \<Longrightarrow> \<not> write_ok t u) \<Longrightarrow> Q (Some (EApi e)) t"
    and "\<And>e. \<not> is_rejection e \<Longrightarrow> write_ok t u \<Longrightarrow> Q (Some (EApi e)) (apply_write u t)"
  shows "wp False P (updateP u) t Q"
  using assms by (auto simp: updateP_def)

lemma wp_transactP_reliable [simp]:
  "wp True P (transactP ws) t Q \<longleftrightarrow> distinct (map write_key ws) \<and>
     (if list_all (write_ok t) ws then Q None (apply_writes ws t)
      else Q (Some (EApi (TransactionCanceled (cancellation_reasons ws t)))) t)"
  by (simp add: transactP_def)

lemma wp_updateP_reliable [simp]:
  "wp True P (updateP u) t Q \<longleftrightarrow>
     (if write_ok t u then Q None (apply_write u t) else Q (Some (EApi ConditionalCheckFailed)) t)"
  by (simp add: updateP_def)

lemma wp_afterWrite:
  "wp rel P (afterWrite v e) t Q \<longleftrightarrow>
     (if conditionalFailure e then Q Continue t
      else case e of None \<Rightarrow> Q (Return (Inr v)) t | Some x \<Rightarrow> Q (Return (Inl x)) t)"
  by (simp add: afterWrite_def split: option.splits)

lemma wp_afterTransition:
  "wp rel P (afterTransition f r) t Q \<longleftrightarrow>
     (case r of
        Inl e \<Rightarrow> if conditionalFailure (Some e) then Q Continue t else Q (Return (Inl e)) t
      | Inr c \<Rightarrow> Q (Return (Inr (f c))) t)"
  by (simp add: afterTransition_def split: sum.splits)

text \<open>An attempt that ends in a transaction: it succeeds, is tried again unchanged, or fails.\<close>

lemma wp_commit_attempt:
  assumes "writes_ok ws t \<Longrightarrow> Q (Return (Inr v)) (apply_writes ws t)"
    and "Q Continue t"
    and "\<And>e. Q (Return (Inl (EApi e))) t"
    and "\<And>e. writes_ok ws t \<Longrightarrow> Q (Return (Inl (EApi e))) (apply_writes ws t)"
  shows "wp False P (bindP (transactP ws) (afterWrite v)) t Q"
  unfolding wp_bindP wp_afterWrite
  by (rule wp_transactP) (use assms conditionalFailure_rejection in auto)

section \<open>Rows after a transaction\<close>

lemma write_ok_put: "write_ok t (Put k i row_not_exists) \<longleftrightarrow> t k = None"
  by (simp add: write_ok_def)

lemma writes_ok_member: "writes_ok ws t \<Longrightarrow> w \<in> set ws \<Longrightarrow> write_ok t w"
  by (auto simp: writes_ok_def list_all_iff)

lemma apply_writes_member:
  assumes "writes_ok ws t" "w \<in> set ws"
  shows "apply_writes ws t (write_key w) = apply_write w t (write_key w)"
  using assms apply_writes_at by (auto simp: writes_ok_def)

end
