(* ===== verification/RateLimits.thy ===== *)
theory RateLimits
  imports StoreLogic World
begin

text \<open>
  Rate limits: what one call of \<^verbatim>\<open>rateLimit\<close> decides, when it asks the caller to come back, and that a
  window never admits more calls than its limit, however the calls are interleaved.
\<close>

definition rate_count :: "table \<Rightarrow> row_key \<Rightarrow> int" where
  "rate_count t k = (case attr_at [A_count] (t k) of Some (AvN n) \<Rightarrow> n | _ \<Rightarrow> 0)"

definition rate_admits :: "table \<Rightarrow> row_key \<Rightarrow> int \<Rightarrow> bool" where
  "rate_admits t k limit \<longleftrightarrow>
     (case attr_at [A_count] (t k) of None \<Rightarrow> True | Some (AvN n) \<Rightarrow> n < limit | _ \<Rightarrow> False)"

definition rate_retry :: "int \<Rightarrow> int \<Rightarrow> int" where
  "rate_retry windowSeconds now =
     min (((go_div now windowSeconds + 1) * windowSeconds - now) * 1000) 3600000"

lemma rateLimitUpdate_ok:
  "write_ok t (fst (rateLimitUpdate key act limit win now)) \<longleftrightarrow>
     rate_admits t (rateRow key act (go_div now win)) limit"
  by (auto simp: rateLimitUpdate_def write_ok_def rate_admits_def Let_def
      split: option.splits av.splits)

lemma rateLimitUpdate_snd: "snd (rateLimitUpdate key act limit win now) = rate_retry win now"
  by (simp add: rateLimitUpdate_def rate_retry_def Let_def)

lemma rateLimitUpdate_key:
  "write_key (fst (rateLimitUpdate key act limit win now)) = rateRow key act (go_div now win)"
  by (simp add: rateLimitUpdate_def Let_def)

lemma rateLimitUpdate_row:
  assumes "rate_admits t (rateRow key act (go_div now win)) limit"
  shows "rate_count (apply_write (fst (rateLimitUpdate key act limit win now)) t)
      (rateRow key act (go_div now win)) = rate_count t (rateRow key act (go_div now win)) + 1"
  using assms
  by (cases "t (rateRow key act (go_div now win))")
    (auto simp: rateLimitUpdate_def rate_count_def rate_admits_def Let_def update_item_def
      empty_item_def split: option.splits av.splits)

lemma rateLimitUpdate_other:
  "k \<noteq> rateRow key act (go_div now win) \<Longrightarrow>
     apply_write (fst (rateLimitUpdate key act limit win now)) t k = t k"
  by (rule apply_write_other) (auto simp: rateLimitUpdate_key)

lemma rateLimit_eq:
  "rateLimit key act limit win now =
     bindP (updateP (fst (rateLimitUpdate key act limit win now))) (\<lambda>e.
       if conditionalFailure e
       then failP (EService \<lparr>se_Code = RateLimited, se_Retryable = True,
              se_RetryAfterMS = Some (rate_retry win now)\<rparr>)
       else case e of None \<Rightarrow> okP () | Some x \<Rightarrow> failP x)"
  by (simp only: rateLimit_def rateLimitUpdate_def rate_retry_def Let_def prod.case fst_conv)

section \<open>One call\<close>

lemma wp_rateLimit:
  "wp True P (rateLimit key act limit win now) t (\<lambda>r t'.
     if rate_admits t (rateRow key act (go_div now win)) limit
     then r = Inr () \<and>
       rate_count t' (rateRow key act (go_div now win)) =
         rate_count t (rateRow key act (go_div now win)) + 1 \<and>
       (\<forall>k. k \<noteq> rateRow key act (go_div now win) \<longrightarrow> t' k = t k)
     else r = Inl (EService \<lparr>se_Code = RateLimited, se_Retryable = True,
                   se_RetryAfterMS = Some (rate_retry win now)\<rparr>) \<and> t' = t)"
  by (simp add: rateLimit_eq wp_bindP rateLimitUpdate_ok rateLimitUpdate_row rateLimitUpdate_other
      del: apply_write.simps split_paired_All)

text \<open>C9: with services that answer, a call of \<^verbatim>\<open>rateLimit\<close> is admitted exactly when its window has a count
  below the limit; then it counts one more there and changes no other row, otherwise it fails as
  rate limited and changes nothing.\<close>

theorem rate_limit_decision:
  assumes "reliable_dynamo w view"
    and "run w (rateLimit key act limit win now) s = (r, s')"
    and "k = rateRow key act (go_div now win)"
  shows "if rate_admits (view s) k limit
     then r = Inr () \<and> rate_count (view s') k = rate_count (view s) k + 1 \<and>
       (\<forall>j. j \<noteq> k \<longrightarrow> view s' j = view s j)
     else r = Inl (EService \<lparr>se_Code = RateLimited, se_Retryable = True,
                   se_RetryAfterMS = Some (rate_retry win now)\<rparr>) \<and> view s' = view s"
  using reliable_dynamo.wp_reliable_sound [OF assms(1) wp_rateLimit [of any_post] assms(2)]
  by (simp add: assms(3))

theorem rate_limit_decision_witness:
  "fst (run ref_world (rateLimit ''source'' ''pair.create'' 5 60 120) ref_start) = Inr ()"
proof -
  obtain r s' where r: "run ref_world (rateLimit ''source'' ''pair.create'' 5 60 120) ref_start = (r, s')"
    by (cases "run ref_world (rateLimit ''source'' ''pair.create'' 5 60 120) ref_start")
  have "rate_admits (rs_table ref_start) (rateRow ''source'' ''pair.create'' (go_div 120 60)) 5"
    by (simp add: rate_admits_def ref_start_def)
  then show ?thesis
    using rate_limit_decision [OF ref.reliable_dynamo_axioms r refl] r by simp
qed

section \<open>When to come back\<close>

text \<open>C10: the delay that a rejected caller is given is positive, and it ends where the next window begins
  or an hour from now, whichever comes first: so exactly at the next window for windows of up to an hour
  (and never later than it for the day of the activation quota). The bucket's row outlives its window.\<close>

theorem rate_limit_retry:
  assumes "0 \<le> now" and "0 < win"
    and "rateLimitUpdate key act limit win now = (Update k us c, ms)"
  shows "0 < ms \<and> ms \<le> 3600000 \<and>
    now * 1000 + ms = min ((now div win + 1) * win * 1000) (now * 1000 + 3600000) \<and>
    (win \<le> 3600 \<longrightarrow> now * 1000 + ms = (now div win + 1) * win * 1000) \<and>
    (\<exists>expires. SET A_expiresAt (AvN expires) \<in> set us \<and> expires = (now div win + 1) * win + win)"
proof -
  define b where "b = now div win"
  define x where "x = b * win"
  have d: "go_div now win = b" using assms(1,2) by (simp add: go_div_nonneg b_def)
  have e: "(b + 1) * win = x + win" "(b + 2) * win = x + win + win"
    by (simp_all add: x_def algebra_simps)
  have x: "x \<le> now" "now < x + win"
    using go_div_bounds [OF assms(1,2)] unfolding d e by (simp_all add: x_def)
  have r: "ms = min ((x + win - now) * 1000) 3600000"
    and us: "us = [SET A_expiresAt (AvN (x + win + win)), ADD A_count 1]"
    using assms(3) by (auto simp only: rateLimitUpdate_def Let_def d e prod.inject twrite.inject)
  have "0 < ms" "ms \<le> 3600000" using r x by simp_all
  moreover have "now * 1000 + ms = min ((x + win) * 1000) (now * 1000 + 3600000)" using r x by simp
  moreover have "win \<le> 3600 \<Longrightarrow> now * 1000 + ms = (x + win) * 1000" using r x by simp
  ultimately show ?thesis unfolding b_def [symmetric] e us by simp
qed

theorem rate_limit_retry_witness:
  "snd (rateLimitUpdate ''source'' ''pair.create'' 5 60 150) = 30000 \<and>
   150 * 1000 + snd (rateLimitUpdate ''source'' ''pair.create'' 5 60 150) = (150 div 60 + 1) * 60 * (1000 :: int) \<and>
   150 * 1000 + snd (rateLimitUpdate ''global'' ''activation.day'' 5 86400 150) = (150 * 1000 + 3600000 :: int)"
proof -
  obtain k us c ms where
    u: "rateLimitUpdate ''source'' ''pair.create'' 5 60 150 = (Update k us c, ms)"
    by (simp add: rateLimitUpdate_def Let_def)
  obtain k' us' c' ms' where
    v: "rateLimitUpdate ''global'' ''activation.day'' 5 86400 150 = (Update k' us' c', ms')"
    by (simp add: rateLimitUpdate_def Let_def)
  show ?thesis
    using rate_limit_retry [OF _ _ u] rate_limit_retry [OF _ _ v] u v
    by (simp add: rateLimitUpdate_snd rate_retry_def go_div_def)
qed

section \<open>Any number of calls\<close>

definition admitted :: "(err + unit) prog \<Rightarrow> bool" where
  "admitted p \<longleftrightarrow> (case p of Ret r \<Rightarrow> (case r of Inr _ \<Rightarrow> True | Inl _ \<Rightarrow> False) | _ \<Rightarrow> False)"

definition rate_form :: "table \<Rightarrow> row_key \<Rightarrow> bool" where
  "rate_form t k \<longleftrightarrow> (case attr_at [A_count] (t k) of None \<Rightarrow> True | Some (AvN n) \<Rightarrow> True | _ \<Rightarrow> False)"

lemma rate_form_row:
  "rate_admits t (rateRow key act (go_div now win)) limit \<Longrightarrow>
   rate_form (apply_write (fst (rateLimitUpdate key act limit win now)) t) (rateRow key act (go_div now win))"
  by (auto simp: rate_form_def rateLimitUpdate_def Let_def update_item_def)

lemma rate_admits_count:
  "rate_admits t k limit \<Longrightarrow> rate_form t k \<Longrightarrow> 1 \<le> limit \<Longrightarrow> rate_count t k + 1 \<le> limit"
  by (auto simp: rate_admits_def rate_form_def rate_count_def split: option.splits av.splits)

lemma rateLimit_step:
  assumes "dynamo w view" "step1 w (rateLimit key act limit win now) s = (p', s')"
    and "rate_form (view s) k" "k = rateRow key act (go_div now win)"
    and "rate_count (view s) k \<le> limit" "1 \<le> limit"
  shows "(\<exists>r. p' = Ret r) \<and> rate_form (view s') k \<and> rate_count (view s') k \<le> limit \<and>
    rate_count (view s) k + (if admitted p' then 1 else 0) \<le> rate_count (view s') k"
proof -
  define u where "u = fst (rateLimitUpdate key act limit win now)"
  obtain r where r: "w_update w u s = (r, s')"
      "p' = (if conditionalFailure (map_option EApi r)
        then failP (EService \<lparr>se_Code = RateLimited, se_Retryable = True,
               se_RetryAfterMS = Some (rate_retry win now)\<rparr>)
        else case map_option EApi r of None \<Rightarrow> okP () | Some x \<Rightarrow> failP x)"
    using assms(2) by (auto simp: rateLimit_eq updateP_def u_def split: prod.splits)
  have ended: "\<exists>x. p' = Ret x"
    unfolding r(2) by (auto simp: prog_defs split: option.split)
  have ok: "write_ok (view s) u \<longleftrightarrow> rate_admits (view s) k limit"
    unfolding u_def assms(4) by (rule rateLimitUpdate_ok)
  have written: "rate_form (view s') k \<and> rate_count (view s') k = rate_count (view s) k + 1 \<and>
      rate_count (view s') k \<le> limit"
    if "write_ok (view s) u" "view s' = apply_write u (view s)"
    using that rateLimitUpdate_row rate_form_row rate_admits_count [OF _ assms(3,6)]
    unfolding ok unfolding u_def assms(4) by simp
  show ?thesis
  proof (cases r)
    case None
    then have "write_ok (view s) u" "view s' = apply_write u (view s)"
      using dynamo.update_ok [OF assms(1)] r(1) by (simp_all add: writes_ok_def)
    with written ended show ?thesis by simp
  next
    case (Some e)
    then have "\<not> admitted p'"
      unfolding r(2) by (simp add: prog_defs admitted_def)
    moreover have "view s' = view s \<or> write_ok (view s) u \<and> view s' = apply_write u (view s)"
      using dynamo.update_err [OF assms(1)] r(1) Some by (auto simp: writes_ok_def)
    ultimately show ?thesis
      using written ended assms(3,5) by auto
  qed
qed

lemma filter_update_count:
  assumes "i < length xs"
  shows "length (filter P (xs[i := y])) + (if P (xs ! i) then 1 else 0) =
    length (filter P xs) + (if P y then 1 else 0)"
  using assms
proof (induction xs arbitrary: i)
  case (Cons x xs)
  show ?case
  proof (cases i)
    case (Suc j)
    have "j < length xs" using Cons.prems Suc by simp
    from Cons.IH [OF this] show ?thesis unfolding Suc by (cases "P x") simp_all
  qed simp
qed simp

lemma rate_pool:
  assumes "dynamo w view" "1 \<le> limit"
    and "\<And>p. p \<in> set ps \<Longrightarrow> (\<exists>r. p = Ret r) \<or>
      (\<exists>now. p = rateLimit key act limit win now \<and> k = rateRow key act (go_div now win))"
    and "rate_form (view s) k" "rate_count (view s) k \<le> limit"
    and "int (length (filter admitted ps)) \<le> rate_count (view s) k"
  shows "int (length (filter admitted (fst (pool_run w sched ps s)))) \<le> limit"
  using assms(3-)
proof (induction sched arbitrary: ps s)
  case Nil
  then show ?case by simp
next
  case (Cons i sched)
  show ?case
  proof (cases "i < length ps")
    case False
    then show ?thesis using Cons by simp
  next
    case True
    obtain p' s' where st: "step1 w (ps ! i) s = (p', s')" by fastforce
    have n: "length (filter admitted (ps[i := p'])) + (if admitted (ps ! i) then 1 else 0) =
        length (filter admitted ps) + (if admitted p' then 1 else 0)"
      by (rule filter_update_count [OF True])
    have P: "\<And>p. p \<in> set (ps[i := p']) \<Longrightarrow> p = p' \<or> p \<in> set ps"
      using set_update_subset_insert [of ps i p'] by blast
    have "int (length (filter admitted (fst (pool_run w sched (ps[i := p']) s')))) \<le> limit"
    proof (cases "\<exists>r. ps ! i = Ret r")
      case True
      then have "p' = ps ! i" "s' = s" using st by auto
      then show ?thesis using Cons by simp
    next
      case False
      then obtain now where now: "ps ! i = rateLimit key act limit win now"
          "k = rateRow key act (go_div now win)"
        using Cons.prems(1) [of "ps ! i"] True by auto
      have "\<not> admitted (ps ! i)"
        using False by (cases "ps ! i") (simp_all add: admitted_def)
      then have m: "int (length (filter admitted (ps[i := p']))) =
          int (length (filter admitted ps)) + (if admitted p' then 1 else 0)"
        using n by simp
      have S: "(\<exists>r. p' = Ret r) \<and> rate_form (view s') k \<and> rate_count (view s') k \<le> limit \<and>
          rate_count (view s) k + (if admitted p' then 1 else 0) \<le> rate_count (view s') k"
        by (rule rateLimit_step [OF assms(1) st [unfolded now(1)] Cons.prems(2) now(2)
              Cons.prems(3) assms(2)])
      show ?thesis
        by (rule Cons.IH) (use S P m Cons.prems in \<open>auto split: if_splits\<close>)
    qed
    then show ?thesis using True st by simp
  qed
qed

text \<open>C11: however many calls for one window run concurrently, on services that fail and time out as they
  like, at most the limit of them are admitted.\<close>

theorem rate_limit_bound:
  assumes "dynamo w view" and "1 \<le> limit"
    and "\<forall>now \<in> set nows. go_div now win = b"
    and "view s (rateRow key act b) = None"
  shows "int (length (filter admitted
     (fst (pool_run w sched (map (rateLimit key act limit win) nows) s)))) \<le> limit"
proof (rule rate_pool [OF assms(1,2), where k = "rateRow key act b"])
  have "\<not> admitted (rateLimit key act limit win now)" for now
    by (simp add: rateLimit_eq updateP_def admitted_def)
  then have "filter admitted (map (rateLimit key act limit win) nows) = []"
    by (induction nows) auto
  then show "int (length (filter admitted (map (rateLimit key act limit win) nows)))
      \<le> rate_count (view s) (rateRow key act b)"
    using assms(4) by (simp add: rate_count_def)
qed (use assms(2-) in \<open>auto simp: rate_form_def rate_count_def\<close>)

theorem rate_limit_bound_witness:
  "int (length (filter admitted (fst (pool_run ref_world [2, 0, 1]
     (map (rateLimit ''source'' ''pair.create'' 2 60) [120, 121, 179]) ref_start)))) \<le> 2"
  by (rule rate_limit_bound [OF ref.dynamo_axioms, where b = 2])
    (simp_all add: go_div_def ref_start_def)

end
