(* ===== verification/Pairing.thy ===== *)
theory Pairing
  imports RateLimits
begin

text \<open>
  What the pairing operations of the store promise to their caller: an activation that is refused for
  its quota did not happen, one that is confirmed wrote the pair, the link, both endpoints and both
  counters, and a pair that was created can be joined once with its admission.
\<close>

section \<open>Activation\<close>

abbreviation source_bucket :: "string \<Rightarrow> int \<Rightarrow> row_key" where
  "source_bucket sourceKey now \<equiv>
     rateRow sourceKey ''pair.activate'' (go_div now hourlyRateWindowSeconds)"

abbreviation global_bucket :: "int \<Rightarrow> row_key" where
  "global_bucket now \<equiv> rateRow ''global'' ''pair.activate'' (go_div now dailyRateWindowSeconds)"

definition quota_exhausted :: "table \<Rightarrow> int \<Rightarrow> string \<Rightarrow> int \<Rightarrow> bool" where
  "quota_exhausted t limit sourceKey now \<longleftrightarrow>
     \<not> rate_admits t (source_bucket sourceKey now) limit \<or>
     \<not> rate_admits t (global_bucket now) pairActivationsPerDay"

definition endpoint_of :: "table \<Rightarrow> PairCommit \<Rightarrow> bool" where
  "endpoint_of t c \<longleftrightarrow>
     at t (KEndpoint, pe_EndpointID (pc_Self c)) A_credentialHash = Some (AvS (pe_CredentialHash (pc_Self c))) \<and>
     at t (KEndpoint, pe_EndpointID (pc_Self c)) A_role = Some (AvS (pe_Role (pc_Self c))) \<and>
     at t (KEndpoint, pe_EndpointID (pc_Self c)) A_revokedAt = None"

text \<open>
  A pair with one commit, to which \<open>commit\<close> is the reciprocal one: \<open>awaits_second t pair slot commit other now\<close>.
  A source key is a hash in base64url (\<^verbatim>\<open>SourceKey\<close>), so it is not \<^verbatim>\<open>global\<close> and has no \<^verbatim>\<open>#\<close>.
\<close>

definition by_slot :: "Slot \<Rightarrow> PairCommit \<Rightarrow> PairCommit \<Rightarrow> PairCommit \<times> PairCommit" where
  "by_slot slot commit other = (if slot = SlotA then (commit, other) else (other, commit))"

definition awaits_second :: "table \<Rightarrow> Pair \<Rightarrow> Slot \<Rightarrow> PairCommit \<Rightarrow> PairCommit \<Rightarrow> int \<Rightarrow> bool" where
  "awaits_second t pair slot commit other now \<longleftrightarrow>
     t (KPair, p_PairID pair) = Some (marshalItem ''pair'' (marshal_Pair pair)) \<and>
     p_Status pair = ''HALF_COMMITTED'' \<and> now < p_ExpiresAt pair \<and>
     slot_of pair commit = Some slot \<and> own_commit slot pair = None \<and>
     other_commit slot pair = Some other \<and> ReciprocalCommits commit other"

definition proper_source :: "string \<Rightarrow> bool" where
  "proper_source sourceKey \<longleftrightarrow> sourceKey \<noteq> '''' \<and> sourceKey \<noteq> ''global'' \<and> CHR ''#'' \<notin> set sourceKey"

lemma buckets_differ:
  assumes "proper_source sourceKey"
  shows "source_bucket sourceKey now \<noteq> global_bucket now"
proof
  assume e: "source_bucket sourceKey now = global_bucket now"
  let ?t = "takeWhile (\<lambda>c. c \<noteq> CHR ''#'')"
  have split: "?t (k @ ''#'' @ r) = k" if "CHR ''#'' \<notin> set k" for k r :: string
    using that by (induction k) auto
  have "?t (snd (source_bucket sourceKey now)) = sourceKey"
    unfolding rateRow_def snd_conv by (rule split) (use assms in \<open>simp add: proper_source_def\<close>)
  moreover have "?t (snd (global_bucket now)) = ''global''"
    unfolding rateRow_def snd_conv by (rule split) simp
  ultimately show False using e assms by (simp add: proper_source_def)
qed

text \<open>What an activation does to the table: the pair is active with both commits, the link is stored and is the
  one of the two endpoints, both endpoints have the credentials and roles of their commits, each counter
  went up by one, and no other row changed.\<close>

definition activation ::
  "table \<Rightarrow> table \<Rightarrow> Pair \<Rightarrow> Slot \<Rightarrow> PairCommit \<Rightarrow> PairCommit \<Rightarrow> Link \<Rightarrow> string \<Rightarrow> int \<Rightarrow> bool" where
  "activation t t' pair slot commit other link sourceKey now \<longleftrightarrow>
     t' (KPair, p_PairID pair) = Some (marshalItem ''pair'' (marshal_Pair
       ((set_commit slot commit pair)\<lparr>p_Status := ''ACTIVE''\<rparr>))) \<and>
     t' (KLink, pc_LinkID commit) = Some (marshalItem ''link'' (marshal_Link link)) \<and>
     l_LinkID link = pc_LinkID commit \<and> l_Status link = ''ACTIVE'' \<and>
     {l_ControllerID link, l_CompanionID link} =
       {pe_EndpointID (pc_Self commit), pe_EndpointID (pc_Self other)} \<and>
     endpoint_of t' commit \<and> endpoint_of t' other \<and>
     rate_count t' (source_bucket sourceKey now) = rate_count t (source_bucket sourceKey now) + 1 \<and>
     rate_count t' (global_bucket now) = rate_count t (global_bucket now) + 1 \<and>
     (\<forall>k. k \<notin> {(KPair, p_PairID pair), (KLink, pc_LinkID commit),
         (KEndpoint, pe_EndpointID (pc_Self commit)), (KEndpoint, pe_EndpointID (pc_Self other)),
         source_bucket sourceKey now, global_bucket now} \<longrightarrow> t' k = t k)"

text \<open>The rows that the activation is to write are free for it.\<close>

definition free_for :: "table \<Rightarrow> PairCommit \<Rightarrow> PairCommit \<Rightarrow> bool" where
  "free_for t commit other \<longleftrightarrow> t (KLink, pc_LinkID commit) = None \<and>
     (\<forall>c \<in> {commit, other}. t (KEndpoint, pe_EndpointID (pc_Self c)) = None \<or> endpoint_of t c)"

lemma activated_endpoint_row:
  assumes "write_ok t (endpointWrite (commitEndpoint c now))"
  shows "endpoint_of (apply_write (endpointWrite (commitEndpoint c now)) t) c"
  using assms
  by (cases "t (KEndpoint, pe_EndpointID (pc_Self c))")
    (auto simp: endpointWrite_def commitEndpoint_def write_ok_def endpoint_of_def at_def
      update_item_def empty_item_def)

lemma activationOps_nth:
  "length (activationOps limit pair slot commit first second link sourceKey now) = 6"
  "activationOps limit pair slot commit first second link sourceKey now ! 4 =
     fst (rateLimitUpdate sourceKey ''pair.activate'' limit hourlyRateWindowSeconds now)"
  "activationOps limit pair slot commit first second link sourceKey now ! 5 =
     fst (rateLimitUpdate ''global'' ''pair.activate'' pairActivationsPerDay dailyRateWindowSeconds now)"
  by (simp_all add: activationOps_def numeral_eq_Suc)

lemma endpointWrite_free:
  assumes "t (KEndpoint, pe_EndpointID (pc_Self c)) = None \<or> endpoint_of t c"
  shows "write_ok t (endpointWrite (commitEndpoint c now))"
  using assms
  by (cases "t (KEndpoint, pe_EndpointID (pc_Self c))")
    (auto simp: endpointWrite_def commitEndpoint_def write_ok_def endpoint_of_def at_def)

lemma activationOps_keys:
  "map write_key (activationOps limit pair slot commit first second link sourceKey now) =
     [(KPair, p_PairID pair), (KLink, l_LinkID link), (KEndpoint, pe_EndpointID (pc_Self first)),
      (KEndpoint, pe_EndpointID (pc_Self second)), source_bucket sourceKey now, global_bucket now]"
  by (simp add: activationOps_def rateLimitUpdate_key commitWrite_def endpointWrite_def commitEndpoint_def)

lemma ready_link:
  assumes "awaits_second t pair slot commit other now" "by_slot slot commit other = (first, second)"
  obtains link where "LinkFromCommits first second now = Inr link" "l_LinkID link = pc_LinkID commit"
    "l_Status link = ''ACTIVE''" "pe_EndpointID (pc_Self first) \<noteq> pe_EndpointID (pc_Self second)"
    "{l_ControllerID link, l_CompanionID link} =
      {pe_EndpointID (pc_Self commit), pe_EndpointID (pc_Self other)}"
proof -
  have r: "ReciprocalCommits first second" "{first, second} = {commit, other}"
    "pc_LinkID first = pc_LinkID commit"
    using assms ReciprocalCommits_sym
    by (auto simp: awaits_second_def by_slot_def ReciprocalCommits_def split: if_splits)
  then obtain link where l: "LinkFromCommits first second now = Inr link"
    by (cases "pe_Role (pc_Self second) = Controller") (simp_all add: LinkFromCommits_def)
  have "{pe_EndpointID (pc_Self first), pe_EndpointID (pc_Self second)} =
      (\<lambda>c. pe_EndpointID (pc_Self c)) ` {commit, other}"
    unfolding r(2) [symmetric] by simp
  with that [OF l] LinkFromCommits_InrD [OF l] r show ?thesis by (auto simp: ReciprocalCommits_def)
qed

lemma marshal_Pair_commit:
  "own_commit slot p = None \<Longrightarrow>
     (marshalItem ''pair'' (marshal_Pair p))(ownField slot := Some (marshal_PairCommit c), A_status := Some (AvS st)) =
     marshalItem ''pair'' (marshal_Pair ((set_commit slot c p)\<lparr>p_Status := st\<rparr>))"
  by (rule ext, cases slot; cases "p_CommitA p"; cases "p_CommitB p"; cases "p_SideB p")
    (auto simp: marshalItem_def marshal_Pair_def omit_s_def omit_p_def)

lemma commitWrite_ready:
  assumes "awaits_second t pair slot commit other now"
  shows "write_ok t (commitWrite (p_PairID pair) slot commit ''HALF_COMMITTED'' ''ACTIVE'' now)"
    and "apply_write (commitWrite (p_PairID pair) slot commit ''HALF_COMMITTED'' ''ACTIVE'' now) t
      (KPair, p_PairID pair) = Some (marshalItem ''pair'' (marshal_Pair
        ((set_commit slot commit pair)\<lparr>p_Status := ''ACTIVE''\<rparr>)))"
proof -
  have r: "t (KPair, p_PairID pair) = Some (marshalItem ''pair'' (marshal_Pair pair))"
    and o: "own_commit slot pair = None"
    and s: "p_Status pair = ''HALF_COMMITTED''" "now < p_ExpiresAt pair"
    using assms by (simp_all add: awaits_second_def)
  have f: "marshalItem ''pair'' (marshal_Pair pair) A_status = Some (AvS ''HALF_COMMITTED'')"
    "marshalItem ''pair'' (marshal_Pair pair) A_expiresAt = Some (AvN (p_ExpiresAt pair))"
    "marshalItem ''pair'' (marshal_Pair pair) (ownField slot) = None"
    using o s(1) by (cases slot; cases "p_CommitA pair"; cases "p_CommitB pair"; cases "p_SideB pair";
      simp add: marshalItem_def marshal_Pair_def omit_s_def omit_p_def)+
  show "write_ok t (commitWrite (p_PairID pair) slot commit ''HALF_COMMITTED'' ''ACTIVE'' now)"
    using r f s by (simp add: commitWrite_def write_ok_def)
  show "apply_write (commitWrite (p_PairID pair) slot commit ''HALF_COMMITTED'' ''ACTIVE'' now) t
      (KPair, p_PairID pair) = Some (marshalItem ''pair'' (marshal_Pair
        ((set_commit slot commit pair)\<lparr>p_Status := ''ACTIVE''\<rparr>)))"
    using marshal_Pair_commit [OF o, of commit "''ACTIVE''"] by (simp add: commitWrite_def r update_item_def)
qed

text \<open>The run of \<^verbatim>\<open>CommitPair\<close> for a reciprocal commit comes down to its transaction.\<close>

lemma wp_CommitPair_second:
  assumes "awaits_second t pair slot commit other now" "sourceKey \<noteq> ''''"
    and "by_slot slot commit other = (first, second)" "LinkFromCommits first second now = Inr link"
    and "wp rel P (transactP (activationOps limit pair slot commit first second link sourceKey now)) t
      (\<lambda>e. Q (afterActivation limit pair slot commit link sourceKey now e))"
    and "\<And>e. \<not> rel \<Longrightarrow> Q (Inl (EApi e)) t"
  shows "wp rel P (CommitPair limit (p_PairID pair) commit sourceKey now) t Q"
proof -
  have second: "wp rel P (commitSecond limit pair slot commit other sourceKey now) t Q"
    using assms(2-5) by (simp add: commitSecond_def by_slot_def wp_bindP)
  show ?thesis
    using assms(1,6) second
    by (simp add: CommitPair_def PairByID_def wp_bindE awaits_second_def Pair_roundtrip)
qed

lemma activation_written:
  assumes "awaits_second t pair slot commit other now"
    and bs: "by_slot slot commit other = (first, second)"
    and l: "LinkFromCommits first second now = Inr link" "l_LinkID link = pc_LinkID commit"
      "l_Status link = ''ACTIVE''"
      "{l_ControllerID link, l_CompanionID link} =
        {pe_EndpointID (pc_Self commit), pe_EndpointID (pc_Self other)}"
    and ok: "writes_ok (activationOps limit pair slot commit first second link sourceKey now) t"
  shows "activation t (apply_writes (activationOps limit pair slot commit first second link sourceKey now) t)
    pair slot commit other link sourceKey now"
proof -
  let ?ops = "activationOps limit pair slot commit first second link sourceKey now"
  let ?t = "apply_writes ?ops t"
  have row: "w \<in> set ?ops \<Longrightarrow> ?t (write_key w) = apply_write w t (write_key w)" for w
    by (rule apply_writes_member [OF ok])
  have cond: "w \<in> set ?ops \<Longrightarrow> write_ok t w" for w
    by (rule writes_ok_member [OF ok])
  have mem: "commitWrite (p_PairID pair) slot commit ''HALF_COMMITTED'' ''ACTIVE'' now \<in> set ?ops"
    "Put (KLink, l_LinkID link) (marshalItem ''link'' (marshal_Link link)) row_not_exists \<in> set ?ops"
    by (simp_all add: activationOps_def)
  have "?t (KPair, p_PairID pair) = Some (marshalItem ''pair'' (marshal_Pair
      ((set_commit slot commit pair)\<lparr>p_Status := ''ACTIVE''\<rparr>)))"
    using row [OF mem(1)] commitWrite_ready(2) [OF assms(1)] by (simp add: commitWrite_def)
  moreover have "?t (KLink, pc_LinkID commit) = Some (marshalItem ''link'' (marshal_Link link))"
    using row [OF mem(2)] l(2) by simp
  moreover have "endpoint_of ?t c" if "c \<in> {commit, other}" for c
  proof -
    have m: "endpointWrite (commitEndpoint c now) \<in> set ?ops"
      using that bs by (auto simp: activationOps_def by_slot_def split: if_splits)
    then show ?thesis
      using activated_endpoint_row [OF cond [OF m]] row [OF m]
      by (simp add: endpoint_of_def at_def endpointWrite_def commitEndpoint_def)
  qed
  moreover have "rate_count ?t (source_bucket sourceKey now) = rate_count t (source_bucket sourceKey now) + 1"
    "rate_count ?t (global_bucket now) = rate_count t (global_bucket now) + 1"
  proof -
    have m: "?ops ! 4 \<in> set ?ops" "?ops ! 5 \<in> set ?ops" by (rule nth_mem, simp add: activationOps_nth)+
    have c: "rate_count ?t k = rate_count (apply_write u t) k" if "?t k = apply_write u t k" for k u
      by (simp only: rate_count_def that)
    note r = cond [OF m(1)] cond [OF m(2)] row [OF m(1)] row [OF m(2)]
    from rateLimitUpdate_row [OF r(1) [unfolded activationOps_nth rateLimitUpdate_ok]]
      rateLimitUpdate_row [OF r(2) [unfolded activationOps_nth rateLimitUpdate_ok]]
      c [OF r(3) [unfolded activationOps_nth rateLimitUpdate_key]]
      c [OF r(4) [unfolded activationOps_nth rateLimitUpdate_key]]
    show "rate_count ?t (source_bucket sourceKey now) = rate_count t (source_bucket sourceKey now) + 1"
      "rate_count ?t (global_bucket now) = rate_count t (global_bucket now) + 1"
      by simp_all
  qed
  moreover have "?t k = t k" if "k \<notin> {(KPair, p_PairID pair), (KLink, pc_LinkID commit),
      (KEndpoint, pe_EndpointID (pc_Self commit)), (KEndpoint, pe_EndpointID (pc_Self other)),
      source_bucket sourceKey now, global_bucket now}" for k
  proof (rule apply_writes_other)
    have "k \<notin> set (map write_key ?ops)"
      using that bs l(2) unfolding activationOps_keys by (auto simp: by_slot_def split: if_splits)
    then show "k \<notin> write_key ` set ?ops" by simp
  qed
  ultimately show ?thesis
    unfolding activation_def using l(2-4) by (simp del: split_paired_All)
qed

lemma quota_after_transaction:
  assumes "quota_exhausted t limit sourceKey now"
    and "ops = activationOps limit pair slot commit first second link sourceKey now"
  shows "\<not> list_all (write_ok t) ops"
    and "afterActivation limit pair slot commit link sourceKey now
      (Some (EApi (TransactionCanceled (cancellation_reasons ops t)))) =
      Inl (rateLimitedError (rate_retry (if rate_admits t (source_bucket sourceKey now) limit
        then dailyRateWindowSeconds else hourlyRateWindowSeconds) now))"
proof -
  have f: "write_ok t (ops ! 4) \<longleftrightarrow> rate_admits t (source_bucket sourceKey now) limit"
    "write_ok t (ops ! 5) \<longleftrightarrow> rate_admits t (global_bucket now) pairActivationsPerDay" "length ops = 6"
    unfolding assms(2) activationOps_nth rateLimitUpdate_ok by (rule refl)+
  have "write_ok t (ops ! i)" if "list_all (write_ok t) ops" "i < 6" for i
    using that f(3) by (simp add: list_all_length)
  from this [of 4] this [of 5] f assms(1) show "\<not> list_all (write_ok t) ops"
    by (auto simp: quota_exhausted_def)
  show "afterActivation limit pair slot commit link sourceKey now
      (Some (EApi (TransactionCanceled (cancellation_reasons ops t)))) =
      Inl (rateLimitedError (rate_retry (if rate_admits t (source_bucket sourceKey now) limit
        then dailyRateWindowSeconds else hourlyRateWindowSeconds) now))"
    using assms(1) f unfolding afterActivation_def failureAt_cancellation rateLimitUpdate_snd
    by (auto simp: quota_exhausted_def)
qed

lemma afterActivation_error: "\<exists>x. afterActivation limit pair slot commit link sourceKey now (Some e) = Inl x"
  by (simp add: afterActivation_def)

text \<open>C12: a reciprocal commit that would activate its pair beyond a quota, the one of its source in this hour or
  the one of all sources on this day, fails and changes no row at all, so the activation does not
  happen in part either, even on services that fail; when they answer, the error is that of the rate limit
  and carries the delay of the first exhausted window.\<close>

theorem commit_quota_atomic:
  assumes "dynamo w view"
    and "run w (CommitPair limit (p_PairID pair) commit sourceKey now) s = (r, s')"
    and "awaits_second (view s) pair slot commit other now" and "proper_source sourceKey"
    and "quota_exhausted (view s) limit sourceKey now"
  shows "view s' = view s \<and> (\<exists>e. r = Inl e) \<and>
    (reliable_dynamo w view \<longrightarrow> r = Inl (rateLimitedError (rate_retry
       (if rate_admits (view s) (source_bucket sourceKey now) limit
        then dailyRateWindowSeconds else hourlyRateWindowSeconds) now)))"
proof -
  obtain first second where bs: "by_slot slot commit other = (first, second)" by fastforce
  obtain link where l: "LinkFromCommits first second now = Inr link" "l_LinkID link = pc_LinkID commit"
      "pe_EndpointID (pc_Self first) \<noteq> pe_EndpointID (pc_Self second)"
    by (rule ready_link [OF assms(3) bs]) auto
  have k: "sourceKey \<noteq> ''''" using assms(4) by (simp add: proper_source_def)
  define ops where "ops = activationOps limit pair slot commit first second link sourceKey now"
  note q = quota_after_transaction [OF assms(5) ops_def]
  have "wp False any_post (CommitPair limit (p_PairID pair) commit sourceKey now) (view s)
      (\<lambda>r t. t = view s \<and> (\<exists>e. r = Inl e))"
  proof (rule wp_CommitPair_second [OF assms(3) k bs l(1), where limit = limit, folded ops_def])
    show "wp False any_post (transactP ops) (view s) (\<lambda>e t. t = view s \<and>
        (\<exists>x. afterActivation limit pair slot commit link sourceKey now e = Inl x))"
      by (rule wp_transactP) (use q(1) afterActivation_error in \<open>auto simp: writes_ok_def\<close>)
  qed simp
  from dynamo.wp_sound [OF assms(1) this assms(2)] have "view s' = view s \<and> (\<exists>e. r = Inl e)" .
  moreover have "r = Inl (rateLimitedError (rate_retry
      (if rate_admits (view s) (source_bucket sourceKey now) limit
       then dailyRateWindowSeconds else hourlyRateWindowSeconds) now))" if rel: "reliable_dynamo w view"
  proof -
    have "distinct (map write_key ops)"
      using l(3) buckets_differ [OF assms(4)] unfolding ops_def activationOps_keys by (simp add: rateRow_def)
    then have "wp True any_post (CommitPair limit (p_PairID pair) commit sourceKey now) (view s)
      (\<lambda>r t. r = Inl (rateLimitedError (rate_retry
        (if rate_admits (view s) (source_bucket sourceKey now) limit
         then dailyRateWindowSeconds else hourlyRateWindowSeconds) now)))"
      by (intro wp_CommitPair_second [OF assms(3) k bs l(1), where limit = limit, folded ops_def])
        (simp_all only: wp_transactP_reliable q if_False not_True_eq_False)
    from reliable_dynamo.wp_reliable_sound [OF rel this assms(2)] show ?thesis .
  qed
  ultimately show ?thesis by blast
qed

text \<open>A pair that waits for its second commit; the hour's counter of the source stands at five.\<close>

definition half_pair :: Pair where
  "half_pair = sample_pair\<lparr>p_Status := ''HALF_COMMITTED'', p_CommitB := None\<rparr>"

definition half_commit :: PairCommit where
  "half_commit = sample_commit ''pb'' ''b'' ''ctl'' Controller ''cmp'' Companion"

definition half_table :: table where
  "half_table =
     [(KPair, ''pair'') \<mapsto> marshalItem ''pair'' (marshal_Pair half_pair),
      source_bucket ''source'' 0 \<mapsto> [A_count \<mapsto> AvN 5]]"

definition half_state :: ref_state where
  "half_state = ref_start\<lparr>rs_table := half_table\<rparr>"

lemma half_PairByID: "unmarshal_Pair (marshalItem ''pair'' (marshal_Pair half_pair)) = half_pair"
  by (rule Pair_roundtrip)

lemma half_row:
  "rs_table half_state (KPair, ''pair'') = Some (marshalItem ''pair'' (marshal_Pair half_pair))"
  by (simp add: half_state_def half_table_def rateRow_def)

lemma half_awaits:
  "awaits_second (rs_table half_state) half_pair SlotB half_commit
     (sample_commit ''pa'' ''a'' ''cmp'' Companion ''ctl'' Controller) 0"
  by (simp add: awaits_second_def half_row [unfolded half_pair_def sample_pair_def] half_pair_def sample_pair_def
      half_commit_def sample_commit_def slot_of_def ReciprocalCommits_def)

lemma half_buckets:
  "rate_admits (rs_table half_state) (source_bucket ''source'' 0) limit \<longleftrightarrow> 5 < limit"
  "rate_admits (rs_table half_state) (global_bucket 0) pairActivationsPerDay"
  by (simp_all add: rate_admits_def half_state_def half_table_def) (simp add: rateRow_def)

theorem commit_quota_atomic_witness:
  "\<exists>s'. run ref_world (CommitPair 5 ''pair'' half_commit ''source'' 0) half_state =
     (Inl (rateLimitedError 3600000), s') \<and> rs_table s' = half_table"
proof -
  obtain r s' where r: "run ref_world (CommitPair 5 ''pair'' half_commit ''source'' 0) half_state = (r, s')"
    by (cases "run ref_world (CommitPair 5 ''pair'' half_commit ''source'' 0) half_state")
  have i: "p_PairID half_pair = ''pair''" by (simp add: half_pair_def sample_pair_def)
  have "quota_exhausted (rs_table half_state) 5 ''source'' 0" "proper_source ''source''"
    by (simp_all add: quota_exhausted_def half_buckets proper_source_def)
  from commit_quota_atomic [OF ref.dynamo_axioms r [folded i] half_awaits this(2,1)] r
  show ?thesis
    by (simp add: half_buckets(1) [of 5, simplified] ref.reliable_dynamo_axioms i)
      (simp add: half_state_def rate_retry_def go_div_def hourlyRateWindowSeconds_def)
qed

text \<open>C13: a reciprocal commit within both quotas, whose link is new and whose endpoints are free for its
  credentials, activates the pair: when the services answer, the caller is told so with the new link, and
  the table holds the active pair with both commits, that link and both endpoints, each counter is one higher, and
  nothing else changed. On services that fail, an answer of success is that same answer and means the
  same.\<close>

theorem commit_activates:
  assumes "dynamo w view"
    and "run w (CommitPair limit (p_PairID pair) commit sourceKey now) s = (r, s')"
    and "awaits_second (view s) pair slot commit other now" and "proper_source sourceKey"
    and "\<not> quota_exhausted (view s) limit sourceKey now" and "free_for (view s) commit other"
  shows "(reliable_dynamo w view \<longrightarrow> (\<exists>res. r = Inr res)) \<and>
    (\<forall>res. r = Inr res \<longrightarrow> (\<exists>link.
       res = \<lparr>cp_Pair = (set_commit slot commit pair)\<lparr>p_Status := ''ACTIVE''\<rparr>, cp_Link = Some link,
              cp_ActivatedNow = True\<rparr> \<and>
       activation (view s) (view s') pair slot commit other link sourceKey now))"
proof -
  obtain first second where bs: "by_slot slot commit other = (first, second)" by fastforce
  obtain link where l: "LinkFromCommits first second now = Inr link" "l_LinkID link = pc_LinkID commit"
      "l_Status link = ''ACTIVE''" "{l_ControllerID link, l_CompanionID link} =
        {pe_EndpointID (pc_Self commit), pe_EndpointID (pc_Self other)}"
      "pe_EndpointID (pc_Self first) \<noteq> pe_EndpointID (pc_Self second)"
    by (rule ready_link [OF assms(3) bs]) auto
  have k: "sourceKey \<noteq> ''''" using assms(4) by (simp add: proper_source_def)
  define ops where "ops = activationOps limit pair slot commit first second link sourceKey now"
  define outcome where "outcome r t = (\<forall>res. r = Inr res \<longrightarrow> res = \<lparr>cp_Pair = (set_commit slot commit pair)\<lparr>p_Status := ''ACTIVE''\<rparr>,
      cp_Link = Some link, cp_ActivatedNow = True\<rparr> \<and>
      activation (view s) t pair slot commit other link sourceKey now)" for r :: "err + CommitPairResult" and t
  have ok: "list_all (write_ok (view s)) ops"
    using assms(5,6) commitWrite_ready(1) [OF assms(3)] endpointWrite_free bs l(2)
    by (auto simp: ops_def activationOps_def rateLimitUpdate_ok quota_exhausted_def free_for_def by_slot_def
        write_ok_put split: if_splits)
  have "distinct (map write_key ops)"
    using l(5) buckets_differ [OF assms(4)] unfolding ops_def activationOps_keys by (simp add: rateRow_def)
  then have w: "writes_ok ops (view s)" using ok by (simp add: writes_ok_def)
  have "outcome (afterActivation limit pair slot commit link sourceKey now None) (apply_writes ops (view s))"
    using activation_written [OF assms(3) bs l(1-4) w [unfolded ops_def]]
    by (simp add: afterActivation_def outcome_def ops_def)
  moreover have "outcome (afterActivation limit pair slot commit link sourceKey now (Some e)) t" for e t
    by (simp add: afterActivation_def outcome_def)
  ultimately have "wp False any_post (CommitPair limit (p_PairID pair) commit sourceKey now) (view s) outcome"
    by (intro wp_CommitPair_second [OF assms(3) k bs l(1), where limit = limit, folded ops_def] wp_transactP)
      (assumption | simp add: outcome_def)+
  from dynamo.wp_sound [OF assms(1) this assms(2)] have "outcome r (view s')" .
  moreover have "\<exists>res. r = Inr res" if rel: "reliable_dynamo w view"
  proof -
    have "wp True any_post (CommitPair limit (p_PairID pair) commit sourceKey now) (view s)
        (\<lambda>r t. \<exists>res. r = Inr res)"
      by (rule wp_CommitPair_second [OF assms(3) k bs l(1), where limit = limit, folded ops_def])
        (use ok w in \<open>simp_all add: writes_ok_def afterActivation_def\<close>)
    from reliable_dynamo.wp_reliable_sound [OF rel this assms(2)] show ?thesis .
  qed
  ultimately show ?thesis unfolding outcome_def by blast
qed

theorem commit_activates_witness:
  "\<exists>s' link. run ref_world (CommitPair 6 ''pair'' half_commit ''source'' 0) half_state =
     (Inr \<lparr>cp_Pair = (set_commit SlotB half_commit half_pair)\<lparr>p_Status := ''ACTIVE''\<rparr>,
           cp_Link = Some link, cp_ActivatedNow = True\<rparr>, s') \<and>
   activation half_table (rs_table s') half_pair SlotB half_commit
     (sample_commit ''pa'' ''a'' ''cmp'' Companion ''ctl'' Controller) link ''source'' 0"
proof -
  obtain r s' where r: "run ref_world (CommitPair 6 ''pair'' half_commit ''source'' 0) half_state = (r, s')"
    by (cases "run ref_world (CommitPair 6 ''pair'' half_commit ''source'' 0) half_state")
  have i: "p_PairID half_pair = ''pair''" by (simp add: half_pair_def sample_pair_def)
  have "\<not> quota_exhausted (rs_table half_state) 6 ''source'' 0" "proper_source ''source''"
    by (simp_all add: quota_exhausted_def half_buckets proper_source_def)
  moreover have "free_for (rs_table half_state) half_commit
      (sample_commit ''pa'' ''a'' ''cmp'' Companion ''ctl'' Controller)"
    by (simp add: free_for_def half_state_def half_table_def rateRow_def half_commit_def sample_commit_def)
  ultimately show ?thesis
    using commit_activates [OF ref.dynamo_axioms r [folded i] half_awaits] r
    by (auto simp: ref.reliable_dynamo_axioms half_state_def)
qed

section \<open>Creating and joining\<close>

definition waiting :: "table \<Rightarrow> string \<Rightarrow> bool" where
  "waiting t c \<longleftrightarrow> at t (KConnection, c) A_authMode = Some (AvS ''pairing'') \<and>
     at t (KConnection, c) A_pairingId = None"

lemma assignPairing_ok: "write_ok t (assignPairing c pairID) \<longleftrightarrow> waiting t c"
  by (cases "t (KConnection, c)") (simp_all add: assignPairing_def write_ok_def waiting_def at_def)

lemma waiting_attr:
  "waiting t c \<longleftrightarrow> attr_at [A_authMode] (t (KConnection, c)) = Some (AvS ''pairing'') \<and>
     attr_at [A_pairingId] (t (KConnection, c)) = None"
  by (cases "t (KConnection, c)") (simp_all add: waiting_def at_def)

lemma marshal_Pair_fields:
  "marshalItem ''pair'' (marshal_Pair p) A_status = Some (AvS (p_Status p))"
  "marshalItem ''pair'' (marshal_Pair p) A_expiresAt = Some (AvN (p_ExpiresAt p))"
  "marshalItem ''pair'' (marshal_Pair p) A_sideB = map_option marshal_PairSide (p_SideB p)"
  "marshalItem ''pair'' (marshal_Pair p) A_locator =
     (if p_Locator p = '''' then None else Some (AvS (p_Locator p)))"
  "marshalItem ''pair'' (marshal_Pair p) A_joinTokenHash =
     (if p_JoinTokenHash p = '''' then None else Some (AvS (p_JoinTokenHash p)))"
  by (cases "p_SideB p"; cases "p_CommitA p"; cases "p_CommitB p";
      simp add: marshalItem_def marshal_Pair_def omit_s_def omit_p_def)+

lemma marshal_Pair_join:
  "(marshalItem ''pair'' (marshal_Pair p))(A_sideB := Some (marshal_PairSide side),
      A_status := Some (AvS st)) =
   marshalItem ''pair'' (marshal_Pair (p\<lparr>p_SideB := Some side, p_Status := st\<rparr>))"
  by (rule ext, cases "p_CommitA p"; cases "p_CommitB p"; cases "p_SideB p")
    (auto simp: marshalItem_def marshal_Pair_def omit_s_def omit_p_def)

definition admits :: "Pair \<Rightarrow> int \<Rightarrow> bool" where
  "admits pair now \<longleftrightarrow> (p_Locator pair = '''') \<noteq> (p_JoinTokenHash pair = '''') \<and>
     p_Status pair = ''OPEN'' \<and> p_SideB pair = None \<and> now < p_ExpiresAt pair"

definition admission_rows :: "table \<Rightarrow> Pair \<Rightarrow> bool" where
  "admission_rows t pair \<longleftrightarrow>
     t (KPair, p_PairID pair) = Some (marshalItem ''pair'' (marshal_Pair pair)) \<and>
     t (pointerRow pair) = Some (pointerItem pair)"

lemma pointer_roundtrip: "unmarshal_pairPointer (pointerItem pair) =
    \<lparr>pp_PairID = p_PairID pair, pp_Locator = p_Locator pair,
     pp_JoinTokenHash = p_JoinTokenHash pair, pp_ExpiresAt = p_ExpiresAt pair\<rparr>"
  by (simp add: pointerItem_def pairPointer_roundtrip)

lemma wp_admission:
  assumes "admits pair now" "admission_rows t pair"
  shows "wp True P (if p_Locator pair \<noteq> '''' then PairByLocator (p_Locator pair) now
      else pairByJoinTokenHash (p_JoinTokenHash pair) now) t (\<lambda>r t'. r = Inr pair \<and> t' = t)"
  using assms
  by (auto simp: admits_def admission_rows_def PairByLocator_def pairByJoinTokenHash_def
      pairByAdmission_def wp_bindE pointerRow_def pointer_roundtrip PairByID_def Pair_roundtrip Let_def)

lemma joinOps_ok:
  assumes "admits pair now" "admission_rows t pair" "waiting t (ps_ConnectionID side)"
  shows "list_all (write_ok t) (joinOps pair (p_Locator pair) (p_JoinTokenHash pair) side now)"
    and "distinct (map write_key (joinOps pair (p_Locator pair) (p_JoinTokenHash pair) side now))"
    and "apply_writes (joinOps pair (p_Locator pair) (p_JoinTokenHash pair) side now) t
      (KPair, p_PairID pair) =
      Some (marshalItem ''pair'' (marshal_Pair (pair\<lparr>p_SideB := Some side, p_Status := ''READY''\<rparr>)))"
  using assms
  by (auto simp: joinOps_def admits_def admission_rows_def write_ok_def Let_def
      marshal_Pair_fields assignPairing_def waiting_attr)
    (auto simp: assignPairing_def update_item_def marshal_Pair_join split: if_splits)

lemma createPairOps_ok:
  assumes "admits pair now" "t (KPair, p_PairID pair) = None" "t (pointerRow pair) = None"
    and "waiting t (ps_ConnectionID (p_SideA pair))"
  shows "list_all (write_ok t) (createPairOps pair)" "distinct (map write_key (createPairOps pair))"
    and "admission_rows (apply_writes (createPairOps pair) t) pair"
    and "c \<noteq> ps_ConnectionID (p_SideA pair) \<Longrightarrow> waiting (apply_writes (createPairOps pair) t) c = waiting t c"
  using assms
  by (auto simp: createPairOps_def write_ok_def assignPairing_def waiting_attr admission_rows_def
      pointerRow_def)

text \<open>C14: a pair that was created is joined by its admission (locator or join token hash, whichever it has) from
  another waiting connection: the caller gets the pair as ready with its side, and the stored row
  is exactly that pair.\<close>

theorem create_join_roundtrip:
  assumes "reliable_dynamo w view"
    and "run w (bindE (CreatePair pair) (\<lambda>_. JoinPair (p_Locator pair) (p_JoinTokenHash pair) side now)) s
      = (r, s')"
    and "admits pair now"
    and "view s (KPair, p_PairID pair) = None" and "view s (pointerRow pair) = None"
    and "waiting (view s) (ps_ConnectionID (p_SideA pair))" and "waiting (view s) (ps_ConnectionID side)"
    and "ps_ConnectionID side \<noteq> ps_ConnectionID (p_SideA pair)"
  shows "r = Inr (pair\<lparr>p_SideB := Some side, p_Status := ''READY''\<rparr>) \<and>
    view s' (KPair, p_PairID pair) =
      Some (marshalItem ''pair'' (marshal_Pair (pair\<lparr>p_SideB := Some side, p_Status := ''READY''\<rparr>)))"
proof -
  let ?t = "apply_writes (createPairOps pair) (view s)"
  have ad: "\<not> ((p_Locator pair = '''') = (p_JoinTokenHash pair = ''''))" using assms(3) by (simp add: admits_def)
  note c = createPairOps_ok [OF assms(3-6)]
  have w: "waiting ?t (ps_ConnectionID side)" using c(4) assms(7,8) by blast
  have "wp True any_post (JoinPair (p_Locator pair) (p_JoinTokenHash pair) side now) ?t (\<lambda>r t'.
      r = Inr (pair\<lparr>p_SideB := Some side, p_Status := ''READY''\<rparr>) \<and> t' (KPair, p_PairID pair) =
      Some (marshalItem ''pair'' (marshal_Pair (pair\<lparr>p_SideB := Some side, p_Status := ''READY''\<rparr>))))"
    unfolding JoinPair_def if_not_P [OF ad] wp_bindE
    by (rule wp_mono [OF wp_admission [OF assms(3) c(3)]])
      (use assms(3) joinOps_ok [OF assms(3) c(3) w] in \<open>simp add: admits_def wp_bindP\<close>)
  then have "wp True any_post (bindE (CreatePair pair)
      (\<lambda>_. JoinPair (p_Locator pair) (p_JoinTokenHash pair) side now)) (view s) (\<lambda>r t'.
      r = Inr (pair\<lparr>p_SideB := Some side, p_Status := ''READY''\<rparr>) \<and> t' (KPair, p_PairID pair) =
      Some (marshalItem ''pair'' (marshal_Pair (pair\<lparr>p_SideB := Some side, p_Status := ''READY''\<rparr>))))"
    unfolding CreatePair_def if_not_P [OF ad] wp_bindE using c(1,2) by (simp add: wp_bindP)
  from reliable_dynamo.wp_reliable_sound [OF assms(1) this assms(2)] show ?thesis .
qed

definition fresh_created :: Pair where
  "fresh_created =
     \<lparr>p_PairID = ''pair'', p_Locator = '''', p_JoinTokenHash = ''hash'', p_Status = ''OPEN'',
      p_SideA = \<lparr>ps_ConnectionID = ''ca'', ps_SideID = ''a''\<rparr>, p_SideB = None, p_CommitA = None,
      p_CommitB = None, p_ExpiresAt = 400\<rparr>"

definition joiner :: PairSide where
  "joiner = \<lparr>ps_ConnectionID = ''cb'', ps_SideID = ''b''\<rparr>"

definition lobby :: ref_state where
  "lobby = ref_start\<lparr>rs_table :=
     [(KConnection, ''ca'') \<mapsto> [A_authMode \<mapsto> AvS ''pairing''],
      (KConnection, ''cb'') \<mapsto> [A_authMode \<mapsto> AvS ''pairing'']]\<rparr>"

lemma fresh_created_admits: "admits fresh_created 100" "ps_ConnectionID joiner \<noteq> ps_ConnectionID (p_SideA fresh_created)"
  by (simp_all add: admits_def fresh_created_def joiner_def)

lemma lobby_rows: "rs_table lobby (KPair, p_PairID fresh_created) = None"
  "rs_table lobby (pointerRow fresh_created) = None"
  "waiting (rs_table lobby) (ps_ConnectionID (p_SideA fresh_created))"
  "waiting (rs_table lobby) (ps_ConnectionID joiner)"
  by (simp_all add: lobby_def fresh_created_def joiner_def waiting_attr pointerRow_def)

theorem create_join_roundtrip_witness:
  "fst (run ref_world (bindE (CreatePair fresh_created)
     (\<lambda>_. JoinPair (p_Locator fresh_created) (p_JoinTokenHash fresh_created) joiner 100)) lobby) =
     Inr (fresh_created\<lparr>p_SideB := Some joiner, p_Status := ''READY''\<rparr>)"
proof -
  let ?p = "bindE (CreatePair fresh_created)
     (\<lambda>_. JoinPair (p_Locator fresh_created) (p_JoinTokenHash fresh_created) joiner 100)"
  obtain r s' where r: "run ref_world ?p lobby = (r, s')" by (cases "run ref_world ?p lobby")
  from create_join_roundtrip [OF ref.reliable_dynamo_axioms r fresh_created_admits(1) lobby_rows
      fresh_created_admits(2)] r
  show ?thesis by simp
qed

definition admission_row :: "string \<Rightarrow> string \<Rightarrow> row_key" where
  "admission_row locator joinTokenHash =
     (if locator \<noteq> '''' then (KLocator, locator) else (KJoin, joinTokenHash))"

text \<open>After a join the pair that the admission points to is no longer open.\<close>

definition taken :: "string \<Rightarrow> string \<Rightarrow> table \<Rightarrow> bool" where
  "taken locator joinTokenHash t \<longleftrightarrow>
     (\<exists>i. t (admission_row locator joinTokenHash) = Some i \<and>
        at t (KPair, get_s i A_pairId) A_status = Some (AvS ''READY''))"

lemma joinOps_taken:
  assumes "t (admission_row loc tok) = Some i" "get_s i A_pairId = p_PairID pair"
    and "writes_ok (joinOps pair loc tok side now) t"
  shows "taken loc tok (apply_writes (joinOps pair loc tok side now) t)"
proof -
  have "apply_writes (joinOps pair loc tok side now) t (admission_row loc tok) = t (admission_row loc tok)"
    by (rule apply_writes_other) (auto simp: joinOps_def assignPairing_def admission_row_def Let_def)
  moreover have "at (apply_writes (joinOps pair loc tok side now) t) (KPair, p_PairID pair) A_status =
      Some (AvS ''READY'')"
    by (simp add: joinOps_def assignPairing_def at_def update_item_def Let_def split: prod.split)
  ultimately show ?thesis using assms(1,2) by (simp add: taken_def)
qed

lemma wp_PairByID:
  assumes "\<And>i. t (KPair, pairID) = Some i \<Longrightarrow> p_PairID (unmarshal_Pair i) = pairID \<Longrightarrow>
      now < p_ExpiresAt (unmarshal_Pair i) \<Longrightarrow> Q (Inr (unmarshal_Pair i)) t"
    and "\<And>e. service_code e \<in> {None, Some PairExpired, Some PairUnavailable} \<Longrightarrow> Q (Inl e) t"
  shows "wp False P (PairByID pairID now) t Q"
  using assms
  by (cases "t (KPair, pairID)") (simp_all add: PairByID_def wp_bindE not_le)

lemma found_PairByID:
  "wp False P (PairByID pairID now) t (\<lambda>r t'. t' = t \<and>
     (\<forall>p. r = Inr p \<longrightarrow> (\<exists>j. t (KPair, pairID) = Some j \<and> p = unmarshal_Pair j \<and> p_PairID p = pairID)))"
  by (rule wp_PairByID) simp_all

lemma found_admission:
  "wp False P (pairByAdmission kind val now) t (\<lambda>r t'. t' = t \<and>
     (\<forall>p. r = Inr p \<longrightarrow> (\<exists>i j. t (kind, val) = Some i \<and> t (KPair, get_s i A_pairId) = Some j \<and>
        p = unmarshal_Pair j \<and> p_PairID p = get_s i A_pairId)))"
proof (cases "t (kind, val)")
  case None
  then show ?thesis by (simp add: pairByAdmission_def wp_bindE)
next
  case (Some i)
  show ?thesis
    unfolding pairByAdmission_def wp_bindE Let_def
    by (simp add: Some wp_bindE, intro impI conjI)
      (rule wp_mono [OF found_PairByID], auto simp: unmarshal_pairPointer_def split: sum.split)
qed

definition admission_find :: "string \<Rightarrow> string \<Rightarrow> int \<Rightarrow> (err + Pair) prog" where
  "admission_find loc tok now = (if loc \<noteq> '''' then PairByLocator loc now else pairByJoinTokenHash tok now)"

lemma found_pair:
  "wp False P (admission_find loc tok now) t (\<lambda>r t'. t' = t \<and>
     (\<forall>p. r = Inr p \<longrightarrow> (\<exists>i j. t (admission_row loc tok) = Some i \<and> t (KPair, get_s i A_pairId) = Some j \<and>
        p = unmarshal_Pair j \<and> p_PairID p = get_s i A_pairId)))"
  using found_admission
  by (simp add: admission_find_def admission_row_def PairByLocator_def pairByJoinTokenHash_def)

lemma wp_JoinPair_first:
  "wp False P (JoinPair loc tok side now) t (\<lambda>r t'. \<forall>p. r = Inr p \<longrightarrow> taken loc tok t')"
proof -
  have join: "wp False P (bindP (transactP (joinOps p loc tok side now)) (\<lambda>e.
          if conditionalFailure e then failP (serviceError PairFull)
          else case e of
                 None \<Rightarrow> okP (p\<lparr>p_SideB := Some side, p_Status := ''READY''\<rparr>)
               | Some x \<Rightarrow> failP x)) t (\<lambda>r t'. \<forall>p. r = Inr p \<longrightarrow> taken loc tok t')"
    if "t (admission_row loc tok) = Some i" "get_s i A_pairId = p_PairID p" for p i
    unfolding wp_bindP
    by (rule wp_transactP) (use joinOps_taken [where t = t, OF that] in auto)
  show ?thesis
    unfolding JoinPair_def admission_find_def [symmetric] wp_bindE
    by (simp add: wp_bindE, intro impI, rule wp_mono [OF found_pair])
      (use join in \<open>auto split: sum.split\<close>)
qed

lemma wp_JoinPair_taken:
  assumes "taken loc tok t"
  shows "wp False P (JoinPair loc tok side now) t (\<lambda>r t'. (\<exists>e. r = Inl e) \<and> t' = t)"
proof -
  have ready: "p_Status (unmarshal_Pair j) = ''READY''"
    if "t (admission_row loc tok) = Some i" "t (KPair, get_s i A_pairId) = Some j" for i j
    using assms that by (auto simp: taken_def at_def unmarshal_Pair_def get_s_def)
  show ?thesis
    unfolding JoinPair_def admission_find_def [symmetric] wp_bindE
    by (simp add: wp_bindE, intro impI, rule wp_mono [OF found_pair])
      (use ready in \<open>auto split: sum.split\<close>)
qed

text \<open>C15: an admission is good for one join. After a join with a locator or a join token hash succeeded,
  another one with the same admission, by whatever connection and at whatever time, fails and
  changes nothing.\<close>

theorem join_single_use:
  assumes "dynamo w view"
    and "run w (JoinPair locator joinTokenHash side now) s = (Inr pair, s1)"
    and "run w (JoinPair locator joinTokenHash side' now') s1 = (r, s2)"
  shows "(\<exists>e. r = Inl e) \<and> view s2 = view s1"
proof -
  have "taken locator joinTokenHash (view s1)"
    using dynamo.wp_sound [OF assms(1) wp_JoinPair_first [of any_post] assms(2)] by simp
  from dynamo.wp_sound [OF assms(1) wp_JoinPair_taken [OF this, of any_post] assms(3)]
  show ?thesis .
qed

theorem join_single_use_witness:
  "\<exists>s1 e s2. run ref_world (bindE (CreatePair fresh_created)
     (\<lambda>_. JoinPair '''' ''hash'' joiner 100)) lobby =
       (Inr (fresh_created\<lparr>p_SideB := Some joiner, p_Status := ''READY''\<rparr>), s1) \<and>
     run ref_world (JoinPair '''' ''hash'' joiner 101) s1 = (Inl e, s2) \<and> rs_table s2 = rs_table s1"
proof -
  let ?p = "bindE (CreatePair fresh_created) (\<lambda>_. JoinPair '''' ''hash'' joiner 100)"
  obtain r1 s0 where c: "run ref_world (CreatePair fresh_created) lobby = (r1, s0)"
    by (cases "run ref_world (CreatePair fresh_created) lobby")
  have v: "r1 = Inr () \<and> rs_table s0 = apply_writes (createPairOps fresh_created) (rs_table lobby)"
    using ref.wp_reliable_sound [OF _ c, of any_post "\<lambda>r t. r = Inr () \<and>
        t = apply_writes (createPairOps fresh_created) (rs_table lobby)"]
      createPairOps_ok [OF fresh_created_admits(1) lobby_rows(1-3)]
    by (simp add: CreatePair_def wp_bindP fresh_created_def)
  obtain r s1 where j: "run ref_world (JoinPair '''' ''hash'' joiner 100) s0 = (r, s1)"
    by (cases "run ref_world (JoinPair '''' ''hash'' joiner 100) s0")
  have "run ref_world ?p lobby = (r, s1)"
    using c j v by (simp add: bindE_def run_bindP)
  moreover have "r = Inr (fresh_created\<lparr>p_SideB := Some joiner, p_Status := ''READY''\<rparr>)"
  proof -
    have w: "waiting (rs_table s0) (ps_ConnectionID joiner)"
      using v createPairOps_ok(4) [OF fresh_created_admits(1) lobby_rows(1-3) fresh_created_admits(2)]
        lobby_rows(4) by simp
    have a: "admission_rows (rs_table s0) fresh_created"
      using v createPairOps_ok(3) [OF fresh_created_admits(1) lobby_rows(1-3)] by simp
    have "wp True any_post (JoinPair '''' ''hash'' joiner 100) (rs_table s0) (\<lambda>r t'.
        r = Inr (fresh_created\<lparr>p_SideB := Some joiner, p_Status := ''READY''\<rparr>))"
      using wp_admission [OF fresh_created_admits(1) a, of any_post]
        joinOps_ok(1,2) [OF fresh_created_admits(1) a w]
      by (auto simp: JoinPair_def wp_bindE wp_bindP fresh_created_def elim: wp_mono)
    from ref.wp_reliable_sound [OF this j] show ?thesis .
  qed
  moreover obtain r2 s2 where k: "run ref_world (JoinPair '''' ''hash'' joiner 101) s1 = (r2, s2)"
    by (cases "run ref_world (JoinPair '''' ''hash'' joiner 101) s1")
  ultimately show ?thesis
    using join_single_use [OF ref.dynamo_axioms _ k, of joiner 100 s0] j by auto
qed

end
