(* ===== verification/Refusals.thy ===== *)
theory Refusals
  imports Pairing
begin

text \<open>
  Refusals are atomic: when an operation of the store answers with a service error (a refusal, as
  opposed to a failed request, whose effect is unknown), the table is as it was before. The
  exceptions are \<^verbatim>\<open>OpenSession\<close> and \<^verbatim>\<open>Session\<close>, which repair stale rows before they refuse: what they
  may leave is \<open>repaired\<close>.
\<close>

definition refused :: "table \<Rightarrow> err + 'a \<Rightarrow> table \<Rightarrow> bool" where
  "refused t r t' \<longleftrightarrow> (\<forall>e. r = Inl e \<longrightarrow> service_code e \<noteq> None \<longrightarrow> t' = t)"

abbreviation atomic :: "(err + 'a) prog \<Rightarrow> bool" where
  "atomic p \<equiv> \<forall>P t. wp False P p t (refused t)"

lemma refused_Inr [simp]: "refused t (Inr x) t'"
  by (simp add: refused_def)

lemma refused_same [simp]: "refused t r t"
  by (simp add: refused_def)

lemma refused_api [simp]: "refused t (Inl (EApi e)) t'" "refused t (Inl (EText x)) t'"
  by (simp_all add: refused_def)

section \<open>Rules\<close>

lemma atomic_update:
  assumes "\<And>x. wp False P (f None) x (refused t)"
    and "\<And>e. wp False P (f (Some (EApi e))) t (refused t)"
    and "\<And>e t'. \<not> conditionalFailure (Some (EApi e)) \<Longrightarrow> wp False P (f (Some (EApi e))) t' (refused t)"
  shows "wp False P (bindP (updateP u) f) t (refused t)"
  unfolding wp_bindP
  by (rule wp_updateP) (use assms conditionalFailure_rejection in blast)+

lemma atomic_transact:
  assumes "\<And>x. wp False P (f None) x (refused t)"
    and "\<And>e. wp False P (f (Some (EApi e))) t (refused t)"
    and "\<And>e t'. \<not> conditionalFailure (Some (EApi e)) \<Longrightarrow>
      \<not> transactionConditionalFailureAt (Some (EApi e)) 4 \<Longrightarrow>
      \<not> transactionConditionalFailureAt (Some (EApi e)) 5 \<Longrightarrow> wp False P (f (Some (EApi e))) t' (refused t)"
  shows "wp False P (bindP (transactP ws) f) t (refused t)"
  unfolding wp_bindP
  by (rule wp_transactP) (use assms conditionalFailure_rejection failureAt_rejection in blast)+

text \<open>Reading keeps the table, so the rest of a program is judged at the same one.\<close>

definition reads :: "'a prog \<Rightarrow> bool" where
  "reads p \<longleftrightarrow> (\<forall>P t. wp False P p t (\<lambda>r t'. t' = t))"

lemma reads_bindE: "reads p \<Longrightarrow> (\<And>x. reads (f x)) \<Longrightarrow> reads (bindE p f)"
  unfolding reads_def wp_bindE
proof (intro allI)
  fix P t
  assume p: "\<forall>P t. wp False P p t (\<lambda>r t'. t' = t)"
    and f: "\<And>x. \<forall>P t. wp False P (f x) t (\<lambda>r t'. t' = t)"
  show "wp False P p t (\<lambda>r t'. case r of Inl e \<Rightarrow> t' = t | Inr x \<Rightarrow> wp False P (f x) t' (\<lambda>r t'. t' = t))"
    by (rule wp_mono [OF p [rule_format]]) (use f in \<open>auto split: sum.split\<close>)
qed

lemma reads_get_as [simp]: "reads (get_as f k)"
  by (simp add: reads_def)

lemma reads_GetEndpoint [simp]: "reads (GetEndpoint E)"
  by (simp add: GetEndpoint_def)

lemma reads_Store_Link [simp]: "reads (Store_Link L)"
  by (simp add: Store_Link_def)

lemma reads_ok [simp]: "reads (okP x)" "reads (failP e)"
  by (simp_all add: reads_def)

lemma reads_currentEndpoint [simp]: "reads (currentEndpoint E c)"
  unfolding currentEndpoint_def by (auto intro!: reads_bindE split: option.split)

lemma reads_PairByID [simp]: "reads (PairByID p now)"
  unfolding PairByID_def by (auto intro!: reads_bindE split: option.split)

lemma reads_pairByAdmission [simp]: "reads (pairByAdmission k v now)"
  unfolding pairByAdmission_def by (auto intro!: reads_bindE simp: Let_def split: option.split)

lemma reads_admission [simp]: "reads (PairByLocator l now)" "reads (pairByJoinTokenHash l now)"
  by (simp_all add: PairByLocator_def pairByJoinTokenHash_def)

lemma reads_linkOps [simp]: "reads (linkOps s omit)"
  unfolding linkOps_def by (auto intro!: reads_bindE)

lemma reads_endpointOps [simp]: "reads (endpointOps s omit fences es)"
  by (induction s omit fences es rule: endpointOps.induct)
    (auto intro!: reads_bindE split: prod.split option.split)

lemma reads_sameConnectionRow [simp]: "reads (sameConnectionRow c e)"
  unfolding sameConnectionRow_def by (auto intro!: reads_bindE)

lemma reads_disconnectPairing [simp]: "reads (disconnectPairing c i)"
  unfolding disconnectPairing_def by (auto intro!: reads_bindE)

lemma atomic_reads_E:
  assumes "reads p" and "\<And>x. wp False P (f x) t (refused t)"
  shows "wp False P (bindE p f) t (refused t)"
  unfolding wp_bindE
  by (rule wp_mono [OF assms(1) [unfolded reads_def, rule_format]])
    (use assms(2) in \<open>auto split: sum.split\<close>)

lemma atomic_if: "atomic p \<Longrightarrow> atomic q \<Longrightarrow> atomic (if b then p else q)"
  by simp

section \<open>Attempts\<close>

text \<open>An attempt that asks for another one has changed nothing.\<close>

definition undone :: "table \<Rightarrow> (err + 'a) attempt \<Rightarrow> table \<Rightarrow> bool" where
  "undone t r t' \<longleftrightarrow> (case r of Continue \<Rightarrow> t' = t | Return x \<Rightarrow> refused t x t')"

lemma undone_simps [simp]:
  "undone t Continue t' \<longleftrightarrow> t' = t" "undone t (Return x) t' \<longleftrightarrow> refused t x t'"
  by (simp_all add: undone_def)

lemma atomic_retry:
  assumes "\<And>P. wp False P body t (undone t)"
  shows "wp False P (retry n body (failP e)) t (refused t)"
  by (rule wp_retry [where I = "\<lambda>t'. t' = t"])
    (use assms in \<open>simp_all add: undone_def [abs_def]\<close>)

lemma undone_reads:
  assumes "reads p" and "\<And>x. wp False P (f x) t (undone t)"
  shows "wp False P (tryR p f) t (undone t)"
  unfolding wp_tryR
  by (rule wp_mono [OF assms(1) [unfolded reads_def, rule_format]])
    (use assms(2) in \<open>auto split: sum.split\<close>)

lemma undone_commit: "wp False P (bindP (transactP ws) (afterWrite v)) t (undone t)"
  by (rule wp_commit_attempt) simp_all

lemma refused_transition:
  "wp False P (transactSessionTransition sess now pre omit fences) t (\<lambda>r t'.
     \<forall>e. r = Inl e \<longrightarrow> service_code e = None \<and> (conditionalFailure (Some e) \<longrightarrow> t' = t))"
proof -
  let ?Q = "\<lambda>r t'. \<forall>e. r = Inl e \<longrightarrow> service_code e = None \<and> (conditionalFailure (Some e) \<longrightarrow> t' = t)"
  have api: "wp False P p t (\<lambda>r t'. t' = t \<and> (\<forall>e. r = Inl e \<longrightarrow> service_code e = None))"
    if "p = linkOps sess omit" for p P
    using that by (auto simp: linkOps_def wp_bindE wp_reads)
  have eops: "wp False P (endpointOps i omit fences es) t
      (\<lambda>r t'. t' = t \<and> (\<forall>e. r = Inl e \<longrightarrow> service_code e = None))" for i es P
  proof (induction i omit fences es rule: endpointOps.induct)
    case (2 i omit fences e es)
    then show ?case
      by (auto simp: wp_bindE wp_reads elim!: wp_mono split: sum.split option.split)
  qed simp
  have tr: "wp False P (bindP (transactP ws)
      (\<lambda>e. case e of None \<Rightarrow> okP b | Some x \<Rightarrow> failP x)) t ?Q" for ws b
    unfolding wp_bindP by (rule wp_transactP) (use conditionalFailure_rejection in auto)
  show ?thesis
    unfolding transactSessionTransition_def Let_def wp_bindE
  proof (rule wp_mono [OF api [OF refl]], goal_cases)
    case (1 r t')
    then show ?case
      by (cases r) (auto simp: tr simp del: endpointOps.simps intro!: wp_mono [OF eops] split: sum.split)
  qed
qed

lemma undone_transition:
  "wp False P (bindP (transactSessionTransition sess now pre omit fences) (afterTransition f)) t (undone t)"
  unfolding wp_bindP wp_afterTransition
  by (rule wp_mono [OF refused_transition]) (auto simp: refused_def split: sum.split)

lemma undone_Ret: "wp False P (Ret (Return (Inl e))) t (undone t)" "wp False P (Ret (Return (Inr x))) t (undone t)"
  by simp_all

section \<open>The operations of the store\<close>

lemma atomic_rateLimit: "atomic (rateLimit key act limit win now)"
  unfolding rateLimit_eq by (intro allI atomic_update) simp_all

lemma atomic_CreatePair: "atomic (CreatePair pair)"
  unfolding CreatePair_def by (intro atomic_if) (auto intro!: atomic_transact)

lemma atomic_JoinPair: "atomic (JoinPair loc tok side now)"
  unfolding JoinPair_def
  by (intro atomic_if allI atomic_reads_E) (auto intro!: atomic_transact)

lemma atomic_commitFirst: "atomic (commitFirst pair slot commit now)"
  unfolding commitFirst_def by (intro allI atomic_update) simp_all

lemma atomic_commitSecond: "atomic (commitSecond limit pair slot commit other sourceKey now)"
  unfolding commitSecond_def
  by (auto intro!: atomic_transact simp: afterActivation_def split: sum.split)

lemma atomic_CommitPair: "atomic (CommitPair limit pairID commit sourceKey now)"
  unfolding CommitPair_def
  by (intro allI atomic_reads_E)
    (auto intro!: atomic_reads_E atomic_commitFirst [rule_format] atomic_commitSecond [rule_format]
      split: option.split)

lemma atomic_RotateEndpoint: "atomic (RotateEndpoint E c h now)"
  unfolding RotateEndpoint_def by (intro allI atomic_update) simp_all

lemma atomic_CancelPair: "atomic (CancelPair pairID c now)"
proof (intro allI)
  fix P t
  have again: "wp False P (bindP (PairByID pairID now) (\<lambda>again.
       case again of
         Inr current \<Rightarrow> if p_Status current = ''CLOSED'' then okP (Some current) else failP (serviceError Conflict)
       | Inl _ \<Rightarrow> failP (serviceError Conflict))) t (refused t)"
    unfolding wp_bindP
    by (rule wp_mono [OF reads_PairByID [unfolded reads_def, rule_format]]) (auto split: sum.split)
  have pair: "wp False P (if \<not> pairSideOf pair c then failP (serviceError Forbidden)
           else if p_Status pair = ''ACTIVE'' then failP (serviceError Conflict)
           else if p_Status pair = ''CLOSED'' then okP (Some pair)
           else bindP (updateP (cancelWrite (p_PairID pair))) (\<lambda>e.
             if conditionalFailure e then
               bindP (PairByID pairID now) (\<lambda>again.
                 case again of
                   Inr current \<Rightarrow>
                     if p_Status current = ''CLOSED'' then okP (Some current)
                     else failP (serviceError Conflict)
                 | Inl _ \<Rightarrow> failP (serviceError Conflict))
             else case e of
                    Some x \<Rightarrow> failP x
                  | None \<Rightarrow> okP (Some (pair\<lparr>p_Status := ''CLOSED''\<rparr>)))) t (refused t)" for pair
    using again by (auto intro!: atomic_update)
  show "wp False P (CancelPair pairID c now) t (refused t)"
    unfolding CancelPair_def wp_bindP
    by (rule wp_mono [OF reads_PairByID [unfolded reads_def, rule_format]])
      (use pair in \<open>auto split: sum.split\<close>)
qed

lemma atomic_CloseSession: "atomic (CloseSession sessionID E c now)"
  unfolding CloseSession_def
proof (intro allI atomic_retry)
  fix P t
  show "wp False P (CloseSession_attempt sessionID E c now) t (undone t)"
    unfolding CloseSession_attempt_def
    by (intro undone_reads) (auto intro!: reads_bindE undone_transition split: option.split)
qed

lemma undone_atomic:
  assumes "atomic p" and "\<And>x t'. wp False P (f x) t' (\<lambda>r t''. \<exists>v. r = Return (Inr v))"
  shows "wp False P (tryR p f) t (undone t)"
  unfolding wp_tryR
  by (rule wp_mono [OF assms(1) [rule_format]])
    (auto intro!: wp_mono [OF assms(2)] simp: refused_def split: sum.split)

lemma undone_alreadyRevoked: "wp False P (alreadyRevoked linkID E c now link) t (undone t)"
  unfolding alreadyRevoked_def
proof (cases "l_ActiveSessionID link = []", simp, simp only: if_False,
    intro undone_atomic atomic_CloseSession)
  fix x t'
  have "wp False P (clearIfEqual (KLink, linkID) A_activeSessionId (l_ActiveSessionID link)) t' (\<lambda>_ _. True)"
    unfolding clearIfEqual_def wp_bindP by (rule wp_updateP) (simp_all split: option.split)
  then show "wp False P (bindP (clearIfEqual (KLink, linkID) A_activeSessionId (l_ActiveSessionID link))
      (\<lambda>_. Ret (Return (Inr \<lparr>rl_Link = link\<lparr>l_ActiveSessionID := ''''\<rparr>,
           rl_Session = (case x of Some c \<Rightarrow> if csr_ClosedNow c then Some c else None | None \<Rightarrow> None)\<rparr>)))) t'
      (\<lambda>r t''. \<exists>v. r = Return (Inr v))"
    unfolding wp_bindP by (rule wp_mono) simp
qed

lemma atomic_RevokeLink: "atomic (RevokeLink linkID E c now)"
  unfolding RevokeLink_def
proof (intro allI atomic_retry)
  fix P t
  show "wp False P (RevokeLink_attempt linkID E c now) t (undone t)"
    unfolding RevokeLink_attempt_def
    by (intro undone_reads)
      (auto intro!: undone_reads undone_commit undone_transition undone_alreadyRevoked
        simp: Let_def split: option.split)
qed

lemma atomic_RevokeEndpoint: "atomic (RevokeEndpoint E c now)"
  unfolding RevokeEndpoint_def
proof (intro allI atomic_retry)
  fix P t
  show "wp False P (RevokeEndpoint_attempt E c now) t (undone t)"
    unfolding RevokeEndpoint_attempt_def Let_def
    by (intro undone_reads)
      (auto intro!: undone_reads undone_commit undone_transition split: option.split)
qed

lemma atomic_Connect: "atomic (Connect connection h)"
proof -
  have "wp False P (Connect_attempt connection h) t (undone t)" for P t
    unfolding Connect_attempt_def
    by (intro undone_reads)
      (auto intro!: undone_reads undone_commit undone_transition simp: connectCommit_def Let_def
        split: option.split)
  then have "atomic (retry 5 (Connect_attempt connection h) (failP (retryableError Conflict)))"
    by (intro allI atomic_retry)
  then show ?thesis
    unfolding Connect_def by (intro atomic_if) (auto intro!: atomic_transact)
qed

lemma atomic_Disconnect: "atomic (Disconnect c now)"
  unfolding Disconnect_def
proof (intro allI atomic_retry)
  fix P t
  show "wp False P (Disconnect_attempt c now) t (undone t)"
    unfolding Disconnect_attempt_def disconnectEndpoint_def Let_def
    by (intro undone_reads)
      (auto intro!: undone_reads undone_commit undone_transition split: option.split)
qed

section \<open>Repairs\<close>

text \<open>
  A session is stale when its row is gone, closed or expired. A repair closes expired sessions and takes the
  locks that name a stale session off links and endpoints, and touches nothing else.
\<close>

definition stale :: "int \<Rightarrow> table \<Rightarrow> string \<Rightarrow> bool" where
  "stale now t S \<longleftrightarrow>
     (case t (KSession, S) of
        None \<Rightarrow> True
      | Some i \<Rightarrow> s_Status (unmarshal_Session i) \<noteq> ''ACTIVE'' \<or> s_ExpiresAt (unmarshal_Session i) \<le> now)"

definition repaired_row :: "int \<Rightarrow> table \<Rightarrow> row_key \<Rightarrow> item option \<Rightarrow> bool" where
  "repaired_row now t k r \<longleftrightarrow>
     (\<exists>i. t k = Some i \<and>
        (fst k = KSession \<and> stale now t (snd k) \<and> i A_status = Some (AvS ''ACTIVE'') \<and>
           r = Some (i(A_status \<mapsto> AvS ''CLOSED'', A_closedAt \<mapsto> AvN now)) \<or>
         fst k \<in> {KLink, KEndpoint} \<and>
           (\<exists>S. i A_activeSessionId = Some (AvS S) \<and> stale now t S) \<and>
           r = Some (i(A_activeSessionId := None))))"

definition repaired :: "int \<Rightarrow> table \<Rightarrow> table \<Rightarrow> bool" where
  "repaired now t t' \<longleftrightarrow> (\<forall>k. t' k = t k \<or> repaired_row now t k (t' k))"

definition session_ids :: "table \<Rightarrow> bool" where
  "session_ids t \<longleftrightarrow> (\<forall>S i. t (KSession, S) = Some i \<longrightarrow> get_s i A_sessionId = S)"

lemma repaired_refl [simp]: "repaired now t t"
  by (simp add: repaired_def)

lemma repaired_stale:
  assumes "repaired now t t'" "stale now t' S"
  shows "stale now t S"
proof (cases "t' (KSession, S) = t (KSession, S)")
  case False
  then have "repaired_row now t (KSession, S) (t' (KSession, S))"
    using assms(1) unfolding repaired_def by blast
  then show ?thesis by (auto simp: repaired_row_def)
qed (use assms(2) in \<open>simp add: stale_def\<close>)

text \<open>A repaired row is as the repair leaves it: a second one finds nothing to do there.\<close>

lemma repaired_row_final:
  assumes "repaired_row now t k (t' k)"
  shows "\<not> repaired_row now t' k r"
  using assms by (auto simp: repaired_row_def)

lemma repaired_trans:
  assumes "repaired now t t1" "repaired now t1 t2"
  shows "repaired now t t2"
  unfolding repaired_def
proof
  fix k
  consider "t2 k = t1 k" | "t1 k = t k" "repaired_row now t1 k (t2 k)" | "repaired_row now t k (t1 k)" "repaired_row now t1 k (t2 k)"
    using assms unfolding repaired_def by blast
  then show "t2 k = t k \<or> repaired_row now t k (t2 k)"
  proof cases
    case 1
    then show ?thesis using assms(1) unfolding repaired_def by metis
  next
    case 2
    then show ?thesis using repaired_stale [OF assms(1)] unfolding repaired_row_def by auto
  next
    case 3
    then show ?thesis using repaired_row_final by blast
  qed
qed

lemma repaired_session_ids:
  assumes "session_ids t" "repaired now t t'"
  shows "session_ids t'"
  unfolding session_ids_def
proof (intro allI impI)
  fix S i assume i: "t' (KSession, S) = Some i"
  have "t' (KSession, S) = t (KSession, S) \<or> repaired_row now t (KSession, S) (t' (KSession, S))"
    using assms(2) unfolding repaired_def by blast
  then show "get_s i A_sessionId = S"
    using i assms(1) by (auto simp: session_ids_def repaired_row_def get_s_def)
qed

definition mending :: "int \<Rightarrow> table \<Rightarrow> twrite \<Rightarrow> bool" where
  "mending now t u \<longleftrightarrow>
     (\<exists>S. stale now t S \<and>
        (u = closeWrite S now \<or> (\<exists>L. u = unlinkWrite L S) \<or> (\<exists>E. u = unpointWrite E S None)))"

lemma mending_row:
  assumes "mending now t u" "write_ok t u"
  shows "repaired_row now t (write_key u) (apply_write u t (write_key u))"
proof -
  obtain S where S: "stale now t S" and
    u: "u = closeWrite S now \<or> (\<exists>L. u = unlinkWrite L S) \<or> (\<exists>E. u = unpointWrite E S None)"
    using assms(1) unfolding mending_def by blast
  have c: "\<exists>i. t (write_key u) = Some i \<and> i a = Some v"
    if "write_cond u = CEq [a] v" for a v
    using that assms(2) by (cases "t (write_key u)") (auto simp: write_ok_def)
  from u S c show ?thesis
    by (auto simp: repaired_row_def closeWrite_def unlinkWrite_def unpointWrite_def update_item_def)
qed

lemma mending_writes:
  assumes "writes_ok ws t" "\<forall>u \<in> set ws. mending now t u"
  shows "repaired now t (apply_writes ws t)"
  unfolding repaired_def
proof
  fix k
  show "apply_writes ws t k = t k \<or> repaired_row now t k (apply_writes ws t k)"
  proof (cases "k \<in> write_key ` set ws")
    case True
    then obtain u where u: "u \<in> set ws" "k = write_key u" by blast
    with mending_row [OF assms(2) [rule_format] writes_ok_member [OF assms(1)]] apply_writes_member [OF assms(1)]
    show ?thesis by simp
  qed (simp add: apply_writes_other)
qed

lemma wp_both:
  assumes "wp False P p t Q" "wp False P p t R"
  shows "wp False P p t (\<lambda>r t'. Q r t' \<and> R r t')"
  using assms by (induction p arbitrary: t) simp_all

text \<open>The transition of a stale session, without prefix and fences, is a repair.\<close>

lemma mending_transition:
  assumes "stale now t (s_SessionID sess)"
  shows "wp False P (transactSessionTransition sess now [] [] []) t (\<lambda>r t'. repaired now t t')"
proof -
  let ?S = "s_SessionID sess"
  have l: "wp False P (linkOps sess []) t (\<lambda>r t'. t' = t \<and>
      (\<forall>ws. r = Inr ws \<longrightarrow> (\<forall>u \<in> set ws. mending now t u)))" for P
    using assms by (auto simp: linkOps_def wp_bindE wp_reads mending_def split: option.split)
  have e: "wp False P (endpointOps ?S [] [] es) t (\<lambda>r t'. t' = t \<and>
      (\<forall>ws fs. r = Inr (ws, fs) \<longrightarrow> (\<forall>u \<in> set ws. mending now t u)))" for es P
  proof (induction es)
    case (Cons e es)
    then show ?case
      using assms by (auto simp: wp_bindE wp_reads fence_of_def mending_def elim!: wp_mono
          split: sum.split option.split)
  qed simp
  have tr: "wp False P (bindP (transactP ws) (\<lambda>e. case e of None \<Rightarrow> okP b | Some x \<Rightarrow> failP x)) t
      (\<lambda>r t'. repaired now t t')" if "\<forall>u \<in> set ws. mending now t u" for ws b
    unfolding wp_bindP by (rule wp_transactP) (use mending_writes that in auto)
  have c: "mending now t (closeWrite ?S now)" using assms by (auto simp: mending_def)
  show ?thesis
    unfolding transactSessionTransition_def Let_def wp_bindE
  proof (rule wp_mono [OF l], goal_cases)
    case (1 r t')
    then show ?case
      by (cases r) (auto simp: fenceOps_def c simp del: endpointOps.simps intro!: tr wp_mono [OF e]
          split: sum.split)
  qed
qed

lemma mended_CloseSession:
  assumes "stale now t S" "session_ids t"
  shows "wp False P (CloseSession S '''' '''' now) t (\<lambda>r t'. repaired now t t')"
  unfolding CloseSession_def
proof (rule wp_retry [where I = "\<lambda>t'. t' = t"])
  fix t' assume [simp]: "t' = t"
  have "wp False P (bindP (transactSessionTransition (unmarshal_Session i) now [] [] []) (afterTransition f)) t
      (\<lambda>r t'. case r of Continue \<Rightarrow> t' = t | Return x \<Rightarrow> repaired now t t')"
    if "t (KSession, S) = Some i" for i and f :: "bool \<Rightarrow> CloseSessionResult option"
  proof -
    have "s_SessionID (unmarshal_Session i) = S"
      using assms(2) that by (simp add: session_ids_def unmarshal_Session_def)
    then have "stale now t (s_SessionID (unmarshal_Session i))" using assms(1) by simp
    from wp_both [OF mending_transition [OF this] refused_transition]
    show ?thesis
      unfolding wp_bindP wp_afterTransition by (rule wp_mono) (auto split: sum.split)
  qed
  then show "wp False P (CloseSession_attempt S [] [] now) t'
      (\<lambda>r t'. case r of Continue \<Rightarrow> t' = t | Return x \<Rightarrow> repaired now t t')"
    by (auto simp: CloseSession_attempt_def wp_tryR split: option.split)
qed simp_all

lemma mended_Store_Session:
  assumes "session_ids t"
  shows "wp False P (Store_Session S now) t (\<lambda>r t'. repaired now t t' \<and> (\<forall>x. r = Inr x \<longrightarrow> t' = t))"
proof -
  have "wp False P (bindE (CloseSession S '''' '''' now) (\<lambda>_. failP (serviceError SessionNotFound))) t
      (\<lambda>r t'. repaired now t t' \<and> (\<forall>x. r = Inr x \<longrightarrow> t' = t))" if "stale now t S"
    unfolding wp_bindE
    by (rule wp_mono [OF mended_CloseSession [OF that assms]]) (auto split: sum.split)
  then show ?thesis
    by (auto simp: Store_Session_def wp_bindE stale_def split: option.split)
qed

lemma mended_repairStaleSession:
  assumes "session_ids t"
  shows "wp False P (repairStaleSession S link now) t (\<lambda>r t'. repaired now t t')"
proof (cases "t (KSession, S)")
  case None
  then have stale: "stale now t (s_SessionID (dangling_session S link (l_LinkID link)))"
    by (simp add: stale_def dangling_session_def)
  have "wp False P (bindP (transactSessionTransition (dangling_session S link (l_LinkID link)) now [] [] [])
      (\<lambda>r. case r of Inl e \<Rightarrow> if conditionalFailure (Some e) then okP True else failP e | Inr _ \<Rightarrow> okP True)) t
      (\<lambda>r t'. repaired now t t')"
    unfolding wp_bindP by (rule wp_mono [OF mending_transition [OF stale]]) (auto split: sum.split)
  with None show ?thesis by (simp add: repairStaleSession_def wp_bindE)
next
  case (Some i)
  have "wp False P (bindE (CloseSession S '''' '''' now) (\<lambda>_. okP True)) t (\<lambda>r t'. repaired now t t')"
    if "stale now t S"
    unfolding wp_bindE
    by (rule wp_mono [OF mended_CloseSession [OF that assms]]) (auto split: sum.split)
  with Some show ?thesis
    by (auto simp: repairStaleSession_def wp_bindE stale_def split: option.split)
qed

definition mended :: "int \<Rightarrow> table \<Rightarrow> table \<Rightarrow> bool" where
  "mended now t t' \<longleftrightarrow> session_ids t' \<and> repaired now t t'"

lemma mended_step: "mended now t t1 \<Longrightarrow> repaired now t1 t2 \<Longrightarrow> mended now t t2"
  unfolding mended_def using repaired_trans repaired_session_ids by blast

lemma mended_repairAll:
  "mended now t t1 \<Longrightarrow> wp False P (repairAll Ss link now b) t1 (\<lambda>r t'. mended now t t')"
proof (induction Ss arbitrary: t1 b)
  case (Cons S Ss)
  have "session_ids t1" using Cons.prems by (simp add: mended_def)
  show ?case
    unfolding repairAll.simps wp_bindE
    by (rule wp_mono [OF mended_repairStaleSession [OF \<open>session_ids t1\<close>]])
      (use Cons.IH mended_step [OF Cons.prems] in \<open>auto split: sum.split\<close>)
qed simp

definition mended_attempt :: "int \<Rightarrow> table \<Rightarrow> (err + 'a) attempt \<Rightarrow> table \<Rightarrow> bool" where
  "mended_attempt now t r t' \<longleftrightarrow>
     (case r of
        Continue \<Rightarrow> mended now t t'
      | Return x \<Rightarrow> (\<forall>e. x = Inl e \<longrightarrow> service_code e \<noteq> None \<longrightarrow> mended now t t'))"

lemma mended_attempt_simps [simp]:
  "mended_attempt now t Continue t' \<longleftrightarrow> mended now t t'" "mended_attempt now t (Return (Inr x)) t'"
  "mended_attempt now t (Return (Inl (EApi a))) t'"
  by (simp_all add: mended_attempt_def)

lemma mended_refusal: "mended now t t' \<Longrightarrow> mended_attempt now t r t'"
  by (simp add: mended_attempt_def split: attempt.split)

lemma mended_reads:
  assumes "reads p" "mended now t t1" and "\<And>x. wp False P (f x) t1 (mended_attempt now t)"
  shows "wp False P (tryR p f) t1 (mended_attempt now t)"
  unfolding wp_tryR
  by (rule wp_mono [OF assms(1) [unfolded reads_def, rule_format]])
    (use assms(2,3) in \<open>auto intro: mended_refusal split: sum.split\<close>)

lemma mended_openUnlocked:
  assumes "mended now t t1"
  shows "wp False P (openUnlocked linkID c S link x y now) t1 (mended_attempt now t)"
proof -
  have commit: "wp False P (bindP (transactP (openOps sess)) (afterWrite sess)) t2 (mended_attempt now t)"
    if "mended now t t2" for sess :: Session and t2
    by (rule wp_commit_attempt) (simp_all add: that)
  show ?thesis
    unfolding openUnlocked_def wp.simps wp_tryR
    by (intro allI impI, rule wp_mono [OF mended_repairAll [OF assms]])
      (auto simp: Let_def intro: mended_refusal commit split: sum.split)
qed

lemma mended_OpenSession:
  assumes "session_ids t"
  shows "wp False P (OpenSession linkID E c S now) t
    (\<lambda>r t'. \<forall>e. r = Inl e \<longrightarrow> service_code e \<noteq> None \<longrightarrow> repaired now t t')"
  unfolding OpenSession_def
proof (rule wp_retry [where I = "mended now t"])
  show "mended now t t" using assms by (simp add: mended_def)
next
  fix t1 assume m: "mended now t t1"
  have "wp False P (OpenSession_attempt linkID E c S now) t1 (mended_attempt now t)"
    unfolding OpenSession_attempt_def
    by (intro mended_reads m)
      (auto intro!: mended_reads m mended_refusal mended_openUnlocked split: option.split)
  then show "wp False P (OpenSession_attempt linkID E c S now) t1
      (\<lambda>r t'. case r of Continue \<Rightarrow> mended now t t'
        | Return x \<Rightarrow> \<forall>e. x = Inl e \<longrightarrow> service_code e \<noteq> None \<longrightarrow> repaired now t t')"
    by (rule wp_mono) (auto simp: mended_attempt_def mended_def split: attempt.splits)
qed (simp add: mended_def)

lemma Inv_session_ids: "Inv t \<Longrightarrow> session_ids t"
  unfolding Inv_def formInv_def session_ids_def
  by (metis get_s_def av.simps(10) option.simps(5) row_form.simps(1) session_form_def)

lemma refusal_unchanged:
  assumes "dynamo w view" "atomic p" "run w p s = (Inl e, s')" "service_code e \<noteq> None"
  shows "view s' = view s"
  using dynamo.wp_sound [OF assms(1) assms(2) [rule_format, of any_post] assms(3)] assms(4)
  by (simp add: refused_def)

lemma Session_refusal:
  assumes "dynamo w view" "session_ids (view s)" "run w (Store_Session S now) s = (r, s')"
  shows "repaired now (view s) (view s')"
  using dynamo.wp_sound [OF assms(1) mended_Store_Session [OF assms(2), of any_post] assms(3)] by blast

lemma OpenSession_refusal:
  assumes "dynamo w view" "session_ids (view s)" "run w (OpenSession linkID E c S now) s = (Inl e, s')"
    and "service_code e \<noteq> None"
  shows "repaired now (view s) (view s')"
  using dynamo.wp_sound [OF assms(1) mended_OpenSession [OF assms(2), of any_post] assms(3)] assms(4) by blast

text \<open>C16: a service error of a store operation (connecting, disconnecting, rate limiting, creating, joining,
  committing and cancelling a pair, revoking a link, rotating and revoking an endpoint, closing a
  session) means that the operation changed nothing. Opening and reading a session may have repaired the
  table before they refuse: at most, expired sessions are closed and locks that name a stale session are
  gone, and every other row is as it was.\<close>

theorem refusal_changes_nothing:
  assumes "dynamo w view" and "service_code e = Some code"
  shows "(run w (Connect connection h) s = (Inl e, s') \<longrightarrow> view s' = view s) \<and>
    (run w (Disconnect c now) s = (Inl e, s') \<longrightarrow> view s' = view s) \<and>
    (run w (RateLimit key act limit now) s = (Inl e, s') \<longrightarrow> view s' = view s) \<and>
    (run w (CreatePair pair) s = (Inl e, s') \<longrightarrow> view s' = view s) \<and>
    (run w (JoinPair loc tok side now) s = (Inl e, s') \<longrightarrow> view s' = view s) \<and>
    (run w (CommitPair lim pairID commit key now) s = (Inl e, s') \<longrightarrow> view s' = view s) \<and>
    (run w (CancelPair pairID c now) s = (Inl e, s') \<longrightarrow> view s' = view s) \<and>
    (run w (RevokeLink linkID E c now) s = (Inl e, s') \<longrightarrow> view s' = view s) \<and>
    (run w (RotateEndpoint E c h now) s = (Inl e, s') \<longrightarrow> view s' = view s) \<and>
    (run w (RevokeEndpoint E c now) s = (Inl e, s') \<longrightarrow> view s' = view s) \<and>
    (run w (CloseSession sessionID E c now) s = (Inl e, s') \<longrightarrow> view s' = view s) \<and>
    (session_ids (view s) \<longrightarrow> run w (Store_Session sessionID now) s = (Inl e, s') \<longrightarrow>
       repaired now (view s) (view s')) \<and>
    (session_ids (view s) \<longrightarrow> run w (OpenSession linkID E c sessionID now) s = (Inl e, s') \<longrightarrow>
       repaired now (view s) (view s'))"
proof -
  have svc: "service_code e \<noteq> None" using assms(2) by simp
  note U = refusal_unchanged [OF assms(1) _ _ svc]
  note U [OF atomic_Connect] U [OF atomic_Disconnect] U [OF atomic_rateLimit]
    U [OF atomic_CreatePair] U [OF atomic_JoinPair] U [OF atomic_CommitPair] U [OF atomic_CancelPair]
    U [OF atomic_RevokeLink] U [OF atomic_RotateEndpoint] U [OF atomic_RevokeEndpoint]
    U [OF atomic_CloseSession] Session_refusal [OF assms(1)] OpenSession_refusal [OF assms(1) _ _ svc]
  note facts = this
  show ?thesis unfolding RateLimit_def by (intro conjI impI) (rule facts; assumption)+
qed

text \<open>A session that expired at 10, and whose link and endpoints are gone.\<close>

definition lone_session :: Session where
  "lone_session =
     \<lparr>s_SessionID = ''s'', s_LinkID = ''l'', s_ControllerID = ''ctl'', s_CompanionID = ''cmp'',
      s_ControllerConnectionID = ''c1'', s_CompanionConnectionID = ''c2'', s_Status = ''ACTIVE'',
      s_CreatedAt = 1, s_ExpiresAt = 10, s_ClosedAt = 0\<rparr>"

definition lone_state :: ref_state where
  "lone_state = ref_start\<lparr>rs_table := [(KSession, ''s'') \<mapsto> marshalItem ''session'' (marshal_Session lone_session)]\<rparr>"

lemma lone_rows:
  "rs_table lone_state (KSession, ''s'') = Some (marshalItem ''session'' (marshal_Session lone_session))"
  "S \<noteq> ''s'' \<Longrightarrow> rs_table lone_state (KSession, S) = None"
  "rs_table lone_state (KLink, k) = None" "rs_table lone_state (KEndpoint, k) = None"
  by (simp_all add: lone_state_def)

lemma lone_ids: "session_ids (rs_table lone_state)"
proof -
  have "get_s (marshalItem ''session'' (marshal_Session lone_session)) A_sessionId = ''s''"
    by (simp add: lone_session_def marshal_Session_def marshalItem_def get_s_def)
  then show ?thesis
    unfolding session_ids_def using lone_rows(1,2) by (metis option.distinct(1) option.inject)
qed

lemma lone_expired:
  "fst (run ref_world (Store_Session ''s'' 20) lone_state) = Inl (serviceError SessionNotFound)"
proof -
  obtain r s' where r: "run ref_world (Store_Session ''s'' 20) lone_state = (r, s')"
    by (cases "run ref_world (Store_Session ''s'' 20) lone_state")
  note t = lone_rows(1,3,4)
  have a: "marshalItem ''session'' (marshal_Session lone_session) A_status = Some (AvS ''ACTIVE'')"
    by (simp add: lone_session_def marshal_Session_def marshalItem_def)
  have "wp True any_post (Store_Session ''s'' 20) (rs_table lone_state)
      (\<lambda>r t. r = Inl (serviceError SessionNotFound))"
    by (simp add: Store_Session_def wp_bindE t Session_roundtrip CloseSession_def CloseSession_attempt_def
        eval_nat_numeral wp_bindP wp_tryR transactSessionTransition_def linkOps_def wp_reads)
      (simp add: lone_session_def wp_bindP wp_bindE wp_reads t a [unfolded lone_session_def] fenceOps_def closeWrite_def write_ok_def wp_afterTransition)
  from ref.wp_reliable_sound [OF this r] show ?thesis using r by simp
qed

theorem refusal_changes_nothing_witness:
  "(\<exists>s'. run ref_world (CloseSession ''session'' ''cmp'' ''stale'' 20) sample_state =
      (Inl (serviceError Unauthenticated), s') \<and> rs_table s' = sample_table) \<and>
   (\<exists>s'. run ref_world (Store_Session ''s'' 20) lone_state = (Inl (serviceError SessionNotFound), s') \<and>
      repaired 20 (rs_table lone_state) (rs_table s'))"
proof
  obtain r s' where "run ref_world (Store_Session ''s'' 20) lone_state = (r, s')"
    by (cases "run ref_world (Store_Session ''s'' 20) lone_state")
  with lone_expired have r: "run ref_world (Store_Session ''s'' 20) lone_state = (Inl (serviceError SessionNotFound), s')"
    by simp
  have "service_code (serviceError SessionNotFound) = Some SessionNotFound" by simp
  from refusal_changes_nothing [OF ref.dynamo_axioms this] r lone_ids
  show "\<exists>s'. run ref_world (Store_Session ''s'' 20) lone_state = (Inl (serviceError SessionNotFound), s') \<and>
      repaired 20 (rs_table lone_state) (rs_table s')"
    by (metis (no_types))
next
  let ?p = "CloseSession ''session'' ''cmp'' ''stale'' 20"
  obtain r s' where r: "run ref_world ?p sample_state = (r, s')" by (cases "run ref_world ?p sample_state")
  have "fst (run ref_world ?p sample_state) = Inl (serviceError Unauthenticated)"
    by (simp add: CloseSession_def CloseSession_attempt_def eval_nat_numeral prog_defs currentEndpoint_def
        GetEndpoint_def get_as_def get_def ref_get_def sample_defs unmarshal_Endpoint_def get_s_def get_n_def
        run_bindP)
  then have e: "r = Inl (serviceError Unauthenticated)" using r by simp
  have "service_code (serviceError Unauthenticated) = Some Unauthenticated" by simp
  from refusal_changes_nothing [OF ref.dynamo_axioms this] r e
  show "\<exists>s'. run ref_world ?p sample_state = (Inl (serviceError Unauthenticated), s') \<and> rs_table s' = sample_table"
    by (metis sample_state_table)
qed

end
