(* ===== verification/CompanionModel.thy ===== *)
theory CompanionModel
  imports GoText Protocol "HOL-Library.Word"
begin

text \<open>
  \<^verbatim>\<open>internal/companion/companion.go\<close>: the configuration of the companion and its checks, identifiers,
  enrollment requests, permissions and the operations on the host. Cryptography and the parsers of
  libraries are the fields of \<open>cdeps\<close>; running a command is a function argument. Errors are values of
  \<open>goerr\<close>: one constructor per error value that the code tells apart, the rest by their text.
\<close>

unbundle bit_operations_syntax

section \<open>Errors\<close>

datatype goerr =
    ErrorText string
  | OperationError string
  | RelayUpgradeError int
  | RelayResponseError string ErrorCode "bool option" "int option"
  | EnrollmentTerminal string
  | ConfigPersistence string
  | PairingCommitRejected string
  | PairingCancelled
  | PairingRejected
  | ContextCanceled
  | DeadlineExceeded
  | NotExist
  | ConfigStoreMismatch
  | KeychainUnavailable
  | ProtocolError ValidationError
  | Wrapped string goerr
  | Joined goerr goerr

text \<open>The tree of errors that \<^verbatim>\<open>errors.Is\<close> and \<^verbatim>\<open>errors.As\<close> visit, in their order.\<close>

fun error_chain :: "goerr \<Rightarrow> goerr list" where
  "error_chain (Wrapped t e) = Wrapped t e # error_chain e"
| "error_chain (Joined a b) = Joined a b # error_chain a @ error_chain b"
| "error_chain e = [e]"

definition errors_Is :: "goerr \<Rightarrow> (goerr \<Rightarrow> bool) \<Rightarrow> bool" where
  "errors_Is e p \<longleftrightarrow> list_ex p (error_chain e)"

definition operation_code :: "goerr \<Rightarrow> string option" where
  "operation_code e =
     (case List.find (\<lambda>x. case x of OperationError _ \<Rightarrow> True | _ \<Rightarrow> False) (error_chain e) of
        Some (OperationError c) \<Rightarrow> Some c | _ \<Rightarrow> None)"

definition upgrade_status :: "goerr \<Rightarrow> int option" where
  "upgrade_status e =
     (case List.find (\<lambda>x. case x of RelayUpgradeError _ \<Rightarrow> True | _ \<Rightarrow> False) (error_chain e) of
        Some (RelayUpgradeError n) \<Rightarrow> Some n | _ \<Rightarrow> None)"

definition response_code :: "goerr \<Rightarrow> ErrorCode option" where
  "response_code e =
     (case List.find (\<lambda>x. case x of RelayResponseError _ _ _ _ \<Rightarrow> True | _ \<Rightarrow> False) (error_chain e) of
        Some (RelayResponseError _ c _ _) \<Rightarrow> Some c | _ \<Rightarrow> None)"

section \<open>Libraries\<close>

text \<open>
  \<open>k_x25519\<close> is the X25519 function of \<^verbatim>\<open>crypto/ecdh\<close>, private key first: \<open>None\<close> is its error on a
  non-contributory public key. \<open>k_public\<close> derives the public key of a private one (the noise library);
  \<open>k_json\<close> reads a text that is exactly one JSON document.
\<close>

record cdeps =
  k_sha256 :: "string \<Rightarrow> string"
  k_url :: "string \<Rightarrow> URL option"
  k_x25519 :: "string \<Rightarrow> string \<Rightarrow> string option"
  k_public :: "string \<Rightarrow> goerr + string"
  k_json :: "string \<Rightarrow> json option"

section \<open>Identifiers\<close>

definition hex_digit :: "nat \<Rightarrow> char" where
  "hex_digit n = ''0123456789abcdef'' ! (n mod 16)"

definition hex_encode :: "string \<Rightarrow> string" where
  "hex_encode s = concat (map (\<lambda>c. [hex_digit (of_char c div 16), hex_digit (of_char c)]) s)"

text \<open>\<^verbatim>\<open>randomUUID\<close> after its 16 random bytes have been read.\<close>

definition uuid_of_bytes :: "string \<Rightarrow> string" where
  "uuid_of_bytes random =
     (let value = random[6 := char_of (((of_char (random ! 6) :: nat) AND 0x0F) OR 0x40)];
          value = value[8 := char_of (((of_char (value ! 8) :: nat) AND 0x3F) OR 0x80)];
          encoded = hex_encode value in
      take 8 encoded @ ''-'' @ take 4 (drop 8 encoded) @ ''-'' @ take 4 (drop 12 encoded) @ ''-'' @
      take 4 (drop 16 encoded) @ ''-'' @ drop 20 encoded)"

section \<open>Configuration\<close>

record Config =
  cf_V :: int
  cf_RelayURL :: string
  cf_LinkID :: string
  cf_EndpointID :: string
  cf_Secret :: string
  cf_NoisePrivateKey :: string
  cf_ControllerEndpointID :: string
  cf_ControllerNoiseKey :: string
  cf_ControllerFingerprint :: string
  cf_ControllerLabel :: string
  cf_PermissionMask :: "8 word"
  cf_ActivationPending :: bool
  cf_LinkRevoked :: bool

definition zero_Config :: Config where
  "zero_Config = \<lparr>cf_V = 0, cf_RelayURL = '''', cf_LinkID = '''', cf_EndpointID = '''',
     cf_Secret = '''', cf_NoisePrivateKey = '''', cf_ControllerEndpointID = '''',
     cf_ControllerNoiseKey = '''', cf_ControllerFingerprint = '''', cf_ControllerLabel = '''',
     cf_PermissionMask = 0, cf_ActivationPending = False, cf_LinkRevoked = False\<rparr>"

record EnrollmentRequest =
  er_V :: int
  er_ControllerEndpointID :: string
  er_ControllerCredentialHash :: string
  er_ControllerNoiseKey :: string
  er_DeviceLabel :: string

record EnrollmentResponse =
  en_V :: int
  en_RelayURL :: string
  en_LinkID :: string
  en_ControllerEndpointID :: string
  en_CompanionEndpointID :: string
  en_CompanionNoiseKey :: string
  en_Warning :: string

definition manualEnrollmentResponse :: "cdeps \<Rightarrow> Config \<Rightarrow> goerr + EnrollmentResponse" where
  "manualEnrollmentResponse d config =
     (case decode32 (cf_NoisePrivateKey config) of
        None \<Rightarrow> Inl (ErrorText ''value must be 32 canonical base64url bytes'')
      | Some privateKey \<Rightarrow>
          (case k_public d privateKey of
             Inl e \<Rightarrow> Inl e
           | Inr public \<Rightarrow> Inr
               \<lparr>en_V = cf_V config, en_RelayURL = cf_RelayURL config, en_LinkID = cf_LinkID config,
                en_ControllerEndpointID = cf_ControllerEndpointID config,
                en_CompanionEndpointID = cf_EndpointID config,
                en_CompanionNoiseKey = b64_encode public, en_Warning = ''''\<rparr>))"

definition allPermissionBits :: "8 word" where
  "allPermissionBits = word_of_int (push_bit 8 1 - 1)"

definition contributoryX25519PublicKey :: "cdeps \<Rightarrow> string \<Rightarrow> string \<Rightarrow> bool" where
  "contributoryX25519PublicKey d publicKey privateKey \<longleftrightarrow>
     length privateKey = 32 \<and> length publicKey = 32 \<and> k_x25519 d privateKey publicKey \<noteq> None"

definition relayURL :: "cdeps \<Rightarrow> string \<Rightarrow> goerr + URL" where
  "relayURL d v =
     (let bad = Inl (ErrorText ''relay URL must be a credential-free wss URL'') in
      case k_url d v of
        None \<Rightarrow> bad
      | Some u \<Rightarrow>
          if u_Scheme u \<noteq> ''wss'' \<or> u_Host u = '''' \<or> u_HasUser u \<or> u_ForceQuery u \<or>
             u_RawQuery u \<noteq> '''' \<or> u_Fragment u \<noteq> '''' \<or> u_String u \<noteq> v
          then bad else Inr u)"

definition Config_validate :: "cdeps \<Rightarrow> Config \<Rightarrow> goerr option" where
  "Config_validate d config =
     (let bad = Some (ErrorText ''invalid companion configuration'') in
      if cf_V config \<noteq> 1 \<or> \<not> uuidPattern (cf_LinkID config) \<or>
         \<not> uuidPattern (cf_EndpointID config) \<or> \<not> uuidPattern (cf_ControllerEndpointID config)
      then bad
      else case relayURL d (cf_RelayURL config) of Inl e \<Rightarrow> Some e | Inr u \<Rightarrow>
        (case decode32 (cf_Secret config) of None \<Rightarrow> bad | Some secret \<Rightarrow>
        (case decode32 (cf_NoisePrivateKey config) of None \<Rightarrow> bad | Some privateKey \<Rightarrow>
        (case decode32 (cf_ControllerNoiseKey config) of None \<Rightarrow> bad | Some controllerKey \<Rightarrow>
           if \<not> contributoryX25519PublicKey d controllerKey privateKey then bad
           else if cf_ControllerFingerprint config \<noteq> '''' \<and>
             NoiseKeyFingerprint (k_sha256 d) (cf_ControllerNoiseKey config) \<noteq>
               Inr (cf_ControllerFingerprint config)
           then bad
           else if cf_PermissionMask config AND NOT allPermissionBits \<noteq> 0 then bad
           else if length secret \<noteq> 32 then bad
           else None))))"

section \<open>Device labels\<close>

definition validDeviceLabel :: "string \<Rightarrow> bool" where
  "validDeviceLabel v =
     (if v \<noteq> TrimSpace v \<or> RuneCountInString v < 1 \<or> RuneCountInString v > 80 then False
      else list_all (\<lambda>r. \<not> (category_Cc r \<or> category_Cf r \<or> category_Zl r \<or> category_Zp r))
             (runes v))"

definition displayDeviceLabel :: "string \<Rightarrow> string" where
  "displayDeviceLabel v = (if validDeviceLabel v then v else ''Unknown controller'')"

section \<open>Enrollment requests\<close>

text \<open>A point of the curve to test a public key against (\<^verbatim>\<open>x25519ValidationPrivate\<close>).\<close>

definition x25519ValidationPrivate :: string where
  "x25519ValidationPrivate = char_of (1 :: nat) # replicate 31 (char_of (0 :: nat))"

definition validateEnrollment :: "cdeps \<Rightarrow> EnrollmentRequest \<Rightarrow> goerr option" where
  "validateEnrollment d request =
     (let bad = Some (ErrorText ''invalid enrollment request'') in
      if er_V request \<noteq> 1 \<or> \<not> uuidPattern (er_ControllerEndpointID request) \<or>
         \<not> validDeviceLabel (er_DeviceLabel request) then bad
      else if decode32 (er_ControllerCredentialHash request) = None then bad
      else case decode32 (er_ControllerNoiseKey request) of
             None \<Rightarrow> bad
           | Some key \<Rightarrow>
               if \<not> contributoryX25519PublicKey d key x25519ValidationPrivate then bad else None)"

text \<open>
  A decoder with \<^verbatim>\<open>DisallowUnknownFields\<close> on a text that is one document: the object, or \<open>None\<close> for its
  error. \<^verbatim>\<open>null\<close> leaves the zero value.
\<close>

definition strict_object :: "string list \<Rightarrow> json option \<Rightarrow> json option" where
  "strict_object names document = (case document of
       Some (JObj fs) \<Rightarrow>
         if list_all (\<lambda>(k, v). list_ex (\<lambda>n. foldName k = foldName n) names) fs
         then Some (JObj fs) else None
     | Some JNull \<Rightarrow> Some (JObj [])
     | _ \<Rightarrow> None)"

definition decode_EnrollmentRequest :: "json \<Rightarrow> EnrollmentRequest option" where
  "decode_EnrollmentRequest j =
     (case (jint ''v'' j, jstr ''controllerEndpointId'' j, jstr ''controllerCredentialHash'' j,
            jstr ''controllerNoiseKey'' j, jstr ''deviceLabel'' j) of
        (Some v, Some e, Some h, Some k, Some l) \<Rightarrow> Some
          \<lparr>er_V = v, er_ControllerEndpointID = e, er_ControllerCredentialHash = h,
           er_ControllerNoiseKey = k, er_DeviceLabel = l\<rparr>
      | _ \<Rightarrow> None)"

definition ParseEnrollmentRequest :: "cdeps \<Rightarrow> string \<Rightarrow> goerr + EnrollmentRequest" where
  "ParseEnrollmentRequest d bytes =
     (if length bytes > 16 * 1024 then Inl (ErrorText ''enrollment request is too large'')
      else case Option.bind (strict_object
             [''v'', ''controllerEndpointId'', ''controllerCredentialHash'', ''controllerNoiseKey'',
              ''deviceLabel''] (k_json d bytes)) decode_EnrollmentRequest of
             None \<Rightarrow> Inl (ErrorText ''invalid enrollment request'')
           | Some request \<Rightarrow>
               (case validateEnrollment d request of Some e \<Rightarrow> Inl e | None \<Rightarrow> Inr request))"

section \<open>Operations and permissions\<close>

definition supportedOperations :: "string list" where
  "supportedOperations = [
     ''resolve.page.cut'', ''resolve.page.edit'', ''resolve.page.fusion'', ''resolve.page.color'',
     ''host.volume.toggle-mute'',
     ''resolve.page.media'', ''resolve.page.fairlight'', ''resolve.page.deliver'']"

definition grantedPermissions :: "8 word \<Rightarrow> string list" where
  "grantedPermissions bits =
     (let granted = (if bits = 0 then allPermissionBits else bits) in
      map snd (filter (\<lambda>(i, operation). granted AND push_bit i 1 \<noteq> 0)
        (enumerate 0 supportedOperations)))"

definition requestedPermissionMask :: "string list \<Rightarrow> 8 word" where
  "requestedPermissionMask requested =
     foldl (\<lambda>bits (i, supported). if supported \<in> set requested then bits OR push_bit i 1 else bits)
       0 (enumerate 0 supportedOperations)"

definition resolvePageForOperation :: "string \<Rightarrow> string option" where
  "resolvePageForOperation operation =
     (if operation \<in> set [''resolve.page.media'', ''resolve.page.cut'', ''resolve.page.edit'',
           ''resolve.page.fusion'', ''resolve.page.color'', ''resolve.page.fairlight'',
           ''resolve.page.deliver'']
      then Some (TrimPrefix operation ''resolve.page.'') else None)"

definition supportedResolvePage :: "string \<Rightarrow> bool" where
  "supportedResolvePage page = (resolvePageForOperation (''resolve.page.'' @ page) \<noteq> None)"

definition parseMuteResult :: "goerr + string \<Rightarrow> goerr + json" where
  "parseMuteResult output =
     (case output of
        Inl e \<Rightarrow> Inl (OperationError ''host.control-failed'')
      | Inr text \<Rightarrow>
          (let result = TrimSpace text in
           if result = ''unsupported'' then Inl (OperationError ''host.mute-unsupported'')
           else if result = ''true'' then Inr (JObj [(''muted'', JBool True)])
           else if result = ''false'' then Inr (JObj [(''muted'', JBool False)])
           else Inl (OperationError ''host.control-failed'')))"

text \<open>
  \<open>output\<close> runs a command on the host; the two scripts that the code embeds are given by name. The
  logging around the operation is left out.
\<close>

datatype script = ResolvePageScript string | ToggleMuteScript

definition executeOperation ::
  "(script \<Rightarrow> 'h \<Rightarrow> (goerr + string) \<times> 'h) \<Rightarrow> string \<Rightarrow> 'h \<Rightarrow> (goerr + json) \<times> 'h" where
  "executeOperation output operation h =
     (case resolvePageForOperation operation of
        Some page \<Rightarrow>
          (case output (ResolvePageScript page) h of (readback, h) \<Rightarrow>
             (case readback of
                Inl e \<Rightarrow> (Inl (OperationError ''resolve.unavailable''), h)
              | Inr text \<Rightarrow>
                  if TrimSpace text \<noteq> page then (Inl (OperationError ''resolve.unavailable''), h)
                  else (Inr (JObj [(''page'', JStr page)]), h)))
      | None \<Rightarrow>
          if operation = ''host.volume.toggle-mute''
          then (case output ToggleMuteScript h of (r, h) \<Rightarrow> (parseMuteResult r, h))
          else (Inl (OperationError ''operation.unsupported''), h))"

section \<open>Pages reported by the host\<close>

text \<open>A \<^verbatim>\<open>time.Time\<close> in nanoseconds of the Unix epoch; \<open>None\<close> is the zero time, before every other one.\<close>

type_synonym time = "int option"

definition time_after :: "time \<Rightarrow> time \<Rightarrow> bool" where
  "time_after t u \<longleftrightarrow>
     (case (t, u) of (None, _) \<Rightarrow> False | (Some _, None) \<Rightarrow> True | (Some a, Some b) \<Rightarrow> b < a)"

record resolvePageObservation =
  ob_page :: string
  ob_observedAt :: time

definition resolvePageMonitorRetryDelay :: "int \<Rightarrow> bool \<Rightarrow> int" where
  "resolvePageMonitorRetryDelay previous observed =
     (if observed \<or> previous = 0 then 1000000000 else min (previous * 2) (15 * 60 * 1000000000))"

text \<open>\<^verbatim>\<open>strings.SplitN(line, "\t", 2)\<close>: the text before and after the first tab, if there is one.\<close>

definition split_tab :: "string \<Rightarrow> (string \<times> string) option" where
  "split_tab line =
     (case dropWhile (\<lambda>c. c \<noteq> CHR 0x09) line of
        [] \<Rightarrow> None
      | c # rest \<Rightarrow> Some (takeWhile (\<lambda>c. c \<noteq> CHR 0x09) line, rest))"

definition parseResolvePageObservation :: "string \<Rightarrow> goerr + resolvePageObservation" where
  "parseResolvePageObservation line =
     (let bad = Inl (ErrorText ''invalid Resolve page observation'') in
      case split_tab line of
        None \<Rightarrow> bad
      | Some (stamp, page) \<Rightarrow>
          (case ParseInt stamp of
             None \<Rightarrow> bad
           | Some nanoseconds \<Rightarrow>
               if nanoseconds \<le> 0 \<or> TrimSpace page = '''' then bad
               else Inr \<lparr>ob_page = TrimSpace page, ob_observedAt = Some nanoseconds\<rparr>))"

section \<open>Identifiers are version 4 UUIDs\<close>

lemma hex_digit_lower [simp]: "is_lower_hex (hex_digit n)"
proof -
  have "n mod 16 < length ''0123456789abcdef''" by simp
  then have "hex_digit n \<in> set ''0123456789abcdef''"
    unfolding hex_digit_def by (rule nth_mem)
  then show ?thesis by (simp only: is_lower_hex_def)
qed

lemma length_hex_encode [simp]: "length (hex_encode s) = 2 * length s"
  by (induction s) (simp_all add: hex_encode_def)

lemma hex_encode_lower: "list_all is_lower_hex (hex_encode s)"
  by (induction s) (simp_all add: hex_encode_def)

lemma hex_encode_nth:
  "i < length s \<Longrightarrow> hex_encode s ! (2 * i) = hex_digit (of_char (s ! i) div 16)"
proof (induction s arbitrary: i)
  case (Cons c s)
  then show ?case by (cases i) (simp_all add: hex_encode_def)
qed simp

lemma list_all_sub: "list_all P xs \<Longrightarrow> list_all P (take n xs) \<and> list_all P (drop n xs)"
  by (auto simp: list_all_iff dest: in_set_takeD in_set_dropD)

lemma hex_groups:
  assumes "list_all is_lower_hex e" and "length e = 32"
  shows "match_groups [8, 4, 4, 4, 12]
     (take 8 e @ ''-'' @ take 4 (drop 8 e) @ ''-'' @ take 4 (drop 12 e) @ ''-'' @
      take 4 (drop 16 e) @ ''-'' @ drop 20 e)"
  using assms by (simp add: match_groups.simps list_all_sub)

lemma or_exp: "k \<le> j \<Longrightarrow> take_bit k n OR 2 ^ j = take_bit k n + 2 ^ j" for n :: nat
  by (rule disjunctive_add [symmetric]) (auto simp: bit_take_bit_iff bit_exp_iff)

lemma low_nibble: "(n AND 0x0F) OR 0x40 = 64 + n mod 16" for n :: nat
proof -
  have "n AND 0x0F = take_bit 4 n"
    by (simp add: take_bit_eq_mask mask_eq_exp_minus_1)
  with or_exp [of 4 6 n] show ?thesis by (simp add: take_bit_eq_mod)
qed

lemma low_six: "(n AND 0x3F) OR 0x80 = 128 + n mod 64" for n :: nat
proof -
  have "n AND 0x3F = take_bit 6 n"
    by (simp add: take_bit_eq_mask mask_eq_exp_minus_1)
  with or_exp [of 6 7 n] show ?thesis by (simp add: take_bit_eq_mod)
qed

lemma version_digit: "hex_digit (of_char (char_of (64 + n mod 16) :: char) div 16) = CHR ''4''"
  for n :: nat
proof -
  have "64 + n mod 16 < 256" "(64 + n mod 16) div 16 = 4" by simp_all
  then show ?thesis by (simp add: hex_digit_def)
qed

lemma variant_digit: "hex_digit (of_char (char_of (128 + n mod 64) :: char) div 16) \<in> set ''89ab''"
  for n :: nat
proof -
  have b: "128 + n mod 64 < 256" and d: "(128 + n mod 64) div 16 = 8 + n mod 64 div 16" by simp_all
  have "n mod 64 div 16 < 4" by (simp add: less_mult_imp_div_less)
  then have "n mod 64 div 16 \<in> {0, 1, 2, 3}" by auto
  with b show ?thesis by (auto simp: hex_digit_def d)
qed

text \<open>C40: a random identifier is a UUID of version 4 and of the RFC variant, whatever the random bytes.\<close>

theorem random_uuid_format:
  assumes "length random = 16"
  shows "uuidPattern (uuid_of_bytes random) \<and> uuid_of_bytes random ! 14 = CHR ''4'' \<and>
    uuid_of_bytes random ! 19 \<in> set ''89ab''"
proof -
  define bytes where "bytes = random[6 := char_of (64 + (of_char (random ! 6) :: nat) mod 16),
    8 := char_of (128 + (of_char (random ! 8) :: nat) mod 64)]"
  define e where "e = hex_encode bytes"
  have len: "length bytes = 16" "length e = 32" and lower: "list_all is_lower_hex e"
    using assms by (simp_all add: bytes_def e_def hex_encode_lower)
  have u: "uuid_of_bytes random = take 8 e @ ''-'' @ take 4 (drop 8 e) @ ''-'' @
    take 4 (drop 12 e) @ ''-'' @ take 4 (drop 16 e) @ ''-'' @ drop 20 e"
    by (simp add: uuid_of_bytes_def Let_def low_nibble low_six e_def bytes_def)
  have "e ! (2 * 6) = CHR ''4''" "e ! (2 * 8) \<in> set ''89ab''"
    using len assms version_digit variant_digit
    by (simp_all only: e_def hex_encode_nth) (simp_all add: bytes_def)
  with len hex_groups [OF lower len(2)] show ?thesis
    unfolding u uuidPattern_def by (simp add: nth_append)
qed

theorem random_uuid_format_witness:
  "uuidPattern (uuid_of_bytes (replicate 16 CHR 0xFF)) \<and>
   uuid_of_bytes (replicate 16 CHR 0xFF) ! 14 = CHR ''4'' \<and>
   uuid_of_bytes (replicate 16 CHR 0xFF) ! 19 \<in> set ''89ab''"
  by (rule random_uuid_format) simp

section \<open>Permissions are kept as bits\<close>

lemma granted_bits:
  "grantedPermissions bits = map snd (filter (\<lambda>(i, operation).
     bit (if bits = 0 then allPermissionBits else bits) i) (enumerate 0 supportedOperations))"
  unfolding grantedPermissions_def Let_def bit_iff_and_push_bit_not_eq_0 ..

lemma length_supported: "length supportedOperations = 8"
  by (simp add: supportedOperations_def)

lemma distinct_supported: "distinct supportedOperations"
  by (simp add: supportedOperations_def)

lemma supported_enumerate: "(i, operation) \<in> set (enumerate 0 supportedOperations) \<longleftrightarrow>
    i < 8 \<and> operation = supportedOperations ! i"
  by (auto simp: in_set_enumerate_eq length_supported)

lemma bit_set: "bit (b OR push_bit i 1) n \<longleftrightarrow> bit b n \<or> (n = i \<and> n < 8)" for b :: "8 word"
  by (auto simp: bit_or_iff bit_exp_iff)

lemma requested_bits_fold:
  "bit (foldl (\<lambda>bits (i, supported). if supported \<in> R then bits OR push_bit i 1 else bits) b ops) n \<longleftrightarrow>
   bit b n \<or> (n < 8 \<and> (\<exists>operation \<in> R. (n, operation) \<in> set ops))" for b :: "8 word"
proof (induction ops arbitrary: b)
  case (Cons p ops)
  then show ?case by (cases p) (auto simp only: foldl.simps prod.case bit_set list.set insert_iff
      prod.inject if_split_mem1 split: if_split)
qed simp

lemma requested_bits:
  "bit (requestedPermissionMask requested) n \<longleftrightarrow>
   n < 8 \<and> supportedOperations ! n \<in> set requested"
  unfolding requestedPermissionMask_def requested_bits_fold by (auto simp: supported_enumerate)

lemma all_bits: "bit allPermissionBits n \<longleftrightarrow> n < 8"
proof -
  have "allPermissionBits = mask 8" by (simp add: allPermissionBits_def mask_eq_exp_minus_1)
  then show ?thesis unfolding \<open>allPermissionBits = mask 8\<close> by (auto simp: bit_mask_iff)
qed

lemma filter_enumerate: "map snd (filter (\<lambda>(i, x). P (xs ! i)) (enumerate 0 xs)) = filter P xs"
proof -
  have "filter (\<lambda>(i, x). P (xs ! i)) (enumerate 0 xs) = filter (P \<circ> snd) (enumerate 0 xs)"
    by (rule filter_cong) (auto simp: in_set_enumerate_eq)
  then show ?thesis by (simp add: filter_map [symmetric])
qed

lemma granted_requested:
  "grantedPermissions (requestedPermissionMask requested) =
     (if requestedPermissionMask requested = 0 then supportedOperations
      else filter (\<lambda>operation. operation \<in> set requested) supportedOperations)"
proof -
  have "filter (\<lambda>(i, operation). bit (if b = 0 then allPermissionBits else b) i)
       (enumerate 0 supportedOperations) =
     filter (\<lambda>(i, operation). b = 0 \<or> supportedOperations ! i \<in> set requested)
       (enumerate 0 supportedOperations)" if "b = requestedPermissionMask requested" for b
    unfolding that
    by (rule filter_cong) (auto simp: supported_enumerate all_bits requested_bits)
  from this [OF refl] show ?thesis
    unfolding granted_bits
    using filter_enumerate [of "\<lambda>x. x \<in> set requested" supportedOperations] by simp
qed

lemma requested_granted:
  "requestedPermissionMask (grantedPermissions bits) =
     (if bits = 0 then allPermissionBits else bits)"
proof -
  define b where "b = (if bits = 0 then allPermissionBits else bits)"
  have "n < 8 \<and> supportedOperations ! n \<in> set (grantedPermissions bits) \<longleftrightarrow> bit b n" for n
  proof -
    have "supportedOperations ! n \<in> set (grantedPermissions bits) \<longleftrightarrow> bit b n" if n: "n < 8"
      unfolding granted_bits b_def [symmetric]
      using n distinct_supported
      by (auto simp: supported_enumerate image_iff nth_eq_iff_index_eq length_supported)
    moreover have "bit b n \<Longrightarrow> n < 8"
      using bit_imp_le_length [of b n] by simp
    ultimately show ?thesis by blast
  qed
  then have "requestedPermissionMask (grantedPermissions bits) = b"
    by (intro bit_eqI) (simp only: requested_bits)
  then show ?thesis by (simp add: b_def)
qed

lemma requested_mask_zero:
  "requestedPermissionMask requested = 0 \<longleftrightarrow> set requested \<inter> set supportedOperations = {}"
proof -
  have "requestedPermissionMask requested = 0 \<longleftrightarrow>
      (\<forall>n. \<not> bit (requestedPermissionMask requested) n)"
    by (metis bit_0_eq bit_eqI bot_apply bot_bool_def)
  also have "\<dots> \<longleftrightarrow> (\<forall>n < 8. supportedOperations ! n \<notin> set requested)"
    unfolding requested_bits by blast
  also have "\<dots> \<longleftrightarrow> set requested \<inter> set supportedOperations = {}"
    unfolding disjoint_iff by (metis in_set_conv_nth length_supported)
  finally show ?thesis .
qed

text \<open>The permission bits of an enrollment stand for the supported operations that the controller
  requested, in the order of the table; no bit is set exactly when none of the requested operations is
  supported, and the bits 0 stand for every operation.\<close>

theorem permission_bits_roundtrip:
  "requestedPermissionMask (grantedPermissions bits) =
     (if bits = 0 then allPermissionBits else bits) \<and>
   grantedPermissions (requestedPermissionMask requested) =
     (if set requested \<inter> set supportedOperations = {} then supportedOperations
      else filter (\<lambda>operation. operation \<in> set requested) supportedOperations)"
  using requested_granted granted_requested requested_mask_zero by simp

end
