(* ===== verification/Validation.thy ===== *)
theory Validation
  imports Protocol Complex_Main
begin

text \<open>
  \<^verbatim>\<open>protocol/validate.go\<close>: the pipeline that every frame passes before it is decoded. The JSON decoder and
  the schema validator are libraries, here the fields of \<open>parser\<close>; \<open>parse\<close> returns the document whose
  encoding the code hands to \<^verbatim>\<open>json.Unmarshal\<close>, with the keys of each object in the order in which
  \<^verbatim>\<open>json.Marshal\<close> prints a map. \<open>v_json\<close> is \<^verbatim>\<open>json.Unmarshal\<close> of a text into a document.
\<close>

section \<open>The libraries\<close>

datatype schema =
    ClientSchema | ServerSchema | RendezvousSchema | ControlSchema | PairingSchema
  | PairingInviteSchema | WormholeSchema

text \<open>A \<^verbatim>\<open>jsonschema.ValidationError\<close>: the location in the instance and the causes.\<close>

datatype SchemaError = SchemaError "string list" "SchemaError list"

text \<open>What \<^verbatim>\<open>inputJSON\<close> is given: bytes, or another value, whose encoding may fail.\<close>

datatype input = Bytes string | Value json

record parser =
  v_Unmarshal :: "string \<Rightarrow> json option"
  v_Validate :: "schema \<Rightarrow> json \<Rightarrow> SchemaError option"
  v_Marshal :: "json \<Rightarrow> string option"
  v_json :: "string \<Rightarrow> json option"
  v_sha256 :: "string \<Rightarrow> string"
  v_url :: "string \<Rightarrow> URL option"

definition inputJSON :: "parser \<Rightarrow> input \<Rightarrow> string option" where
  "inputJSON v input = (case input of Bytes bytes \<Rightarrow> Some bytes | Value value \<Rightarrow> v_Marshal v value)"

section \<open>Numbers\<close>

definition maxJSONNumberBytes :: nat where
  "maxJSONNumberBytes = 128"
definition maxJSONNumberExponent :: int where
  "maxJSONNumberExponent = 4096"

definition is_exponent_mark :: "char \<Rightarrow> bool" where
  "is_exponent_mark c \<longleftrightarrow> c = CHR ''e'' \<or> c = CHR ''E''"

definition number_within_limits :: "string \<Rightarrow> bool" where
  "number_within_limits literal =
     (if length literal > maxJSONNumberBytes then False
      else case dropWhile (\<lambda>c. \<not> is_exponent_mark c) literal of
             [] \<Rightarrow> True
           | marker # rest \<Rightarrow>
               (case ParseInt rest of
                  None \<Rightarrow> False
                | Some exponent \<Rightarrow>
                    - maxJSONNumberExponent \<le> exponent \<and> exponent \<le> maxJSONNumberExponent))"

fun numbersWithinLimits :: "json \<Rightarrow> bool" where
  "numbersWithinLimits (JObj fs) = list_all (\<lambda>p. numbersWithinLimits (snd p)) fs"
| "numbersWithinLimits (JArr vs) = list_all numbersWithinLimits vs"
| "numbersWithinLimits (JNum literal) = number_within_limits literal"
| "numbersWithinLimits _ = True"

text \<open>
  \<^verbatim>\<open>big.Rat.SetString\<close> on a JSON number: a mantissa and a power of ten. \<open>None\<close> is a literal that is not a
  JSON number, which the decoder never yields.
\<close>

definition split_digits :: "string \<Rightarrow> string \<times> string" where
  "split_digits s = (takeWhile is_digit s, dropWhile is_digit s)"

definition literal_exponent :: "string \<Rightarrow> int option" where
  "literal_exponent s = (case s of [] \<Rightarrow> Some 0
     | c # rest \<Rightarrow> if is_exponent_mark c then ParseInt rest else None)"

definition SetString :: "string \<Rightarrow> (int \<times> int) option" where
  "SetString literal =
     (let negative = (take 1 literal = ''-'');
          (whole, rest) = split_digits (if negative then drop 1 literal else literal);
          (fraction, rest') = (if take 1 rest = ''.'' then split_digits (drop 1 rest) else ([], rest)) in
      if whole = [] \<or> (take 1 rest = ''.'' \<and> fraction = []) then None
      else case (undigits 0 (whole @ fraction), literal_exponent rest') of
             (Some m, Some e) \<Rightarrow>
               Some (if negative then - int m else int m, e - int (length fraction))
           | _ \<Rightarrow> None)"

text \<open>\<^verbatim>\<open>IsInt\<close> and \<^verbatim>\<open>Num\<close> of the rational number.\<close>

definition rat_integer :: "int \<times> int \<Rightarrow> int option" where
  "rat_integer r = (case r of (m, e) \<Rightarrow>
     if 0 \<le> e then Some (m * 10 ^ nat e)
     else if 10 ^ nat (- e) dvd m then Some (m div 10 ^ nat (- e)) else None)"

definition normalize_number :: "string \<Rightarrow> json" where
  "normalize_number literal =
     (case Option.bind (SetString literal) rat_integer of
        Some i \<Rightarrow> if int64_range i then JInt i else JNum literal
      | None \<Rightarrow> JNum literal)"

fun normalizeIntegers :: "json \<Rightarrow> json" where
  "normalizeIntegers (JObj fs) = JObj (map (\<lambda>p. (fst p, normalizeIntegers (snd p))) fs)"
| "normalizeIntegers (JArr vs) = JArr (map normalizeIntegers vs)"
| "normalizeIntegers (JNum literal) = normalize_number literal"
| "normalizeIntegers j = j"

section \<open>The checks around the schema\<close>

text \<open>\<^verbatim>\<open>fmt.Sprint\<close> of a decoded value is \<open>1\<close> for the number and for the string \<open>1\<close> only.\<close>

definition unsupportedVersion :: "json \<Rightarrow> bool" where
  "unsupportedVersion j =
     (case j of
        JObj fs \<Rightarrow>
          (let protocol = (case map_of fs ''protocol'' of Some (JStr s) \<Rightarrow> s | _ \<Rightarrow> '''') in
           case map_of fs ''v'' of
             None \<Rightarrow> False
           | Some version \<Rightarrow>
               if protocol \<noteq> ProtocolName \<and> protocol \<noteq> ControlProtocolName \<and>
                  protocol \<noteq> PairingProtocolName \<and> protocol \<noteq> PairingInviteProtocolName
               then False
               else version \<noteq> JNum ''1'' \<and> version \<noteq> JInt 1 \<and> version \<noteq> JStr ''1'')
      | _ \<Rightarrow> False)"

text \<open>The paths of the leaves of a schema error.\<close>

definition issue_path :: "string list \<Rightarrow> string" where
  "issue_path location = ''/'' @ concat (case location of [] \<Rightarrow> []
     | x # xs \<Rightarrow> x # map (\<lambda>y. ''/'' @ y) xs)"

fun schemaIssues :: "SchemaError \<Rightarrow> string list" where
  "schemaIssues (SchemaError location causes) =
     (if causes = [] then [issue_path location] else concat (map schemaIssues causes))"

definition preflightFramePayload :: "json \<Rightarrow> ValidationError option" where
  "preflightFramePayload j =
     (case j of
        JObj fs \<Rightarrow>
          if map_of fs ''protocol'' \<noteq> Some (JStr ProtocolName) then None
          else if map_of fs ''type'' \<noteq> Some (JStr ''pair.frame'') \<and>
                  map_of fs ''type'' \<noteq> Some (JStr ''session.frame'') then None
          else (case map_of fs ''body'' of
                  Some (JObj body) \<Rightarrow>
                    (case map_of body ''payload'' of
                       Some (JStr payload) \<Rightarrow>
                         (case canonicalBase64URL payload of
                            None \<Rightarrow> Some (validationError InvalidMessage
                              ''Relay payload must be canonical unpadded base64url'')
                          | Some decoded \<Rightarrow>
                              if length decoded > MaxRelayPayloadBytes
                              then Some (validationError PayloadTooLarge
                                ''Decoded relay payload exceeds 16 KiB'')
                              else None)
                     | _ \<Rightarrow> None)
                | _ \<Rightarrow> None)
      | _ \<Rightarrow> None)"

definition rendezvousSemantics :: "Envelope \<Rightarrow> ValidationError option" where
  "rendezvousSemantics envelope =
     (if env_Type envelope = ''pair.commit'' then
        (case decode_PairCommitBody (env_Body envelope) of
           None \<Rightarrow> Some (validationError InvalidMessage
             ''Protocol frame does not match the v1 contract'')
         | Some body \<Rightarrow>
             if ec_EndpointID (pcb_Self body) = re_EndpointID (pcb_Peer body) \<or>
                ec_Role (pcb_Self body) = re_Role (pcb_Peer body)
             then Some (validationError InvalidMessage
               ''Pairing endpoints must be distinct and have opposite roles'')
             else None)
      else None)"

text \<open>\<^verbatim>\<open>json.Marshal\<close> prints the keys of a map in byte order; the decoder's maps have no key twice.\<close>

fun string_le :: "string \<Rightarrow> string \<Rightarrow> bool" where
  "string_le [] b = True"
| "string_le (x # xs) [] = False"
| "string_le (x # xs) (y # ys) \<longleftrightarrow>
     (of_char x :: nat) < of_char y \<or> (x = y \<and> string_le xs ys)"

fun insert_key :: "string \<times> json \<Rightarrow> (string \<times> json) list \<Rightarrow> (string \<times> json) list" where
  "insert_key p [] = [p]"
| "insert_key p (q # qs) = (if string_le (fst p) (fst q) then p # q # qs else q # insert_key p qs)"

fun marshal_order :: "json \<Rightarrow> json" where
  "marshal_order (JObj fs) =
     JObj (foldr insert_key (map (\<lambda>p. (fst p, marshal_order (snd p))) fs) [])"
| "marshal_order (JArr vs) = JArr (map marshal_order vs)"
| "marshal_order j = j"

definition parse :: "parser \<Rightarrow> input \<Rightarrow> schema \<Rightarrow> nat \<Rightarrow> ValidationError + json" where
  "parse v input schema maxBytes =
     (case inputJSON v input of
        None \<Rightarrow> Inl (validationError InvalidMessage ''Protocol frame is not JSON-serializable'')
      | Some bytes \<Rightarrow>
          if length bytes > maxBytes
          then Inl (validationError PayloadTooLarge ''Protocol frame exceeds its byte limit'')
          else (case v_Unmarshal v bytes of
            None \<Rightarrow> Inl (validationError InvalidMessage ''Protocol frame is not valid JSON'')
          | Some document \<Rightarrow>
              if \<not> numbersWithinLimits document
              then Inl (validationError InvalidMessage ''Protocol frame does not match the v1 contract'')
              else (case preflightFramePayload document of
                Some e \<Rightarrow> Inl e
              | None \<Rightarrow>
                  (case v_Validate v schema document of
                     Some e \<Rightarrow>
                       if unsupportedVersion document
                       then Inl (validationError UnsupportedVersion ''Protocol version is not supported'')
                       else Inl ((validationError InvalidMessage
                         ''Protocol frame does not match the v1 contract'')
                         \<lparr>ve_Issues := schemaIssues e\<rparr>)
                   | None \<Rightarrow> Inr (marshal_order (normalizeIntegers document))))))"

section \<open>Typed messages\<close>

definition jraw :: "string \<Rightarrow> json \<Rightarrow> json" where
  "jraw k j = (case rev (jmatches k j) of [] \<Rightarrow> JNull | v # _ \<Rightarrow> v)"

definition decode_Envelope :: "json \<Rightarrow> Envelope option" where
  "decode_Envelope j =
     (if is_struct j then
        case (jstr ''protocol'' j, jint ''v'' j, jstr ''type'' j, jstr ''id'' j, jstr ''replyTo'' j) of
          (Some p, Some v, Some t, Some i, Some r) \<Rightarrow> Some
            \<lparr>env_Protocol = p, env_V = v, env_Type = t, env_ID = i, env_ReplyTo = r,
             env_Body = jraw ''body'' j\<rparr>
        | _ \<Rightarrow> None
      else None)"

record PairingIdentityBody =
  pib_LinkID :: string
  pib_EndpointID :: string
  pib_Role :: DeviceRole
  pib_NoiseKey :: string
  pib_NoiseFingerprint :: string
  pib_DeviceLabel :: string
  pib_Permissions :: "string list"
  pib_Capabilities :: "string list"

record PairingIdentityEnvelope =
  pie_Protocol :: string
  pie_V :: int
  pie_Type :: string
  pie_ID :: string
  pie_Body :: PairingIdentityBody

record PairingInvite =
  inv_Protocol :: string
  inv_V :: int
  inv_RelayURL :: string
  inv_PairID :: string
  inv_CreatorSideID :: string
  inv_LinkID :: string
  inv_JoinToken :: string
  inv_PSK :: string
  inv_ExpiresAt :: int

record ControlRequestBody =
  crb_Operation :: string
  crb_Args :: "(string \<times> json) list"
  crb_SentAt :: int
  crb_ExpiresAt :: int

record ControlHelloBody =
  chb_Role :: DeviceRole
  chb_Capabilities :: "string list"
  chb_AppVersion :: string

record WormholeMessage =
  wm_Phase :: string
  wm_Body :: string

definition decode_PairingIdentityBody :: "json \<Rightarrow> PairingIdentityBody option" where
  "decode_PairingIdentityBody j =
     (case (jstr ''linkId'' j, jstr ''endpointId'' j, jstr ''role'' j, jstr ''noiseKey'' j,
            jstr ''noiseFingerprint'' j, jstr ''deviceLabel'' j, jstrs ''permissions'' j,
            jstrs ''capabilities'' j) of
        (Some l, Some e, Some r, Some k, Some f, Some d, Some p, Some c) \<Rightarrow> Some
          \<lparr>pib_LinkID = l, pib_EndpointID = e, pib_Role = r, pib_NoiseKey = k,
           pib_NoiseFingerprint = f, pib_DeviceLabel = d, pib_Permissions = p,
           pib_Capabilities = c\<rparr>
      | _ \<Rightarrow> None)"

definition decode_PairingIdentityEnvelope :: "json \<Rightarrow> PairingIdentityEnvelope option" where
  "decode_PairingIdentityEnvelope j =
     (if is_struct j then
        case (jstr ''protocol'' j, jint ''v'' j, jstr ''type'' j, jstr ''id'' j,
              Option.bind (jsub ''body'' j) decode_PairingIdentityBody) of
          (Some p, Some v, Some t, Some i, Some b) \<Rightarrow> Some
            \<lparr>pie_Protocol = p, pie_V = v, pie_Type = t, pie_ID = i, pie_Body = b\<rparr>
        | _ \<Rightarrow> None
      else None)"

definition decode_PairingInvite :: "json \<Rightarrow> PairingInvite option" where
  "decode_PairingInvite j =
     (if is_struct j then
        case (jstr ''protocol'' j, jint ''v'' j, jstr ''relayUrl'' j, jstr ''pairId'' j,
              jstr ''creatorSideId'' j, jstr ''linkId'' j, jstr ''joinToken'' j, jstr ''psk'' j,
              jint ''expiresAt'' j) of
          (Some p, Some v, Some u, Some i, Some s, Some l, Some t, Some k, Some x) \<Rightarrow> Some
            \<lparr>inv_Protocol = p, inv_V = v, inv_RelayURL = u, inv_PairID = i, inv_CreatorSideID = s,
             inv_LinkID = l, inv_JoinToken = t, inv_PSK = k, inv_ExpiresAt = x\<rparr>
        | _ \<Rightarrow> None
      else None)"

definition marshal_PairingInvite :: "PairingInvite \<Rightarrow> json" where
  "marshal_PairingInvite i = JObj
     [(''protocol'', JStr (inv_Protocol i)), (''v'', JInt (inv_V i)),
      (''relayUrl'', JStr (inv_RelayURL i)), (''pairId'', JStr (inv_PairID i)),
      (''creatorSideId'', JStr (inv_CreatorSideID i)), (''linkId'', JStr (inv_LinkID i)),
      (''joinToken'', JStr (inv_JoinToken i)), (''psk'', JStr (inv_PSK i)),
      (''expiresAt'', JInt (inv_ExpiresAt i))]"

definition decode_ControlRequestBody :: "json \<Rightarrow> ControlRequestBody option" where
  "decode_ControlRequestBody j =
     (if is_struct j then
        case (jstr ''operation'' j, jmap ''args'' j, jint ''sentAt'' j, jint ''expiresAt'' j) of
          (Some p, Some a, Some s, Some x) \<Rightarrow> Some
            \<lparr>crb_Operation = p, crb_Args = a, crb_SentAt = s, crb_ExpiresAt = x\<rparr>
        | _ \<Rightarrow> None
      else None)"

definition decode_ControlHelloBody :: "json \<Rightarrow> ControlHelloBody option" where
  "decode_ControlHelloBody j =
     (if is_struct j then
        case (jstr ''role'' j, jstrs ''capabilities'' j, jstr ''appVersion'' j) of
          (Some r, Some c, Some a) \<Rightarrow> Some
            \<lparr>chb_Role = r, chb_Capabilities = c, chb_AppVersion = a\<rparr>
        | _ \<Rightarrow> None
      else None)"

definition decode_WormholeMessage :: "json \<Rightarrow> WormholeMessage option" where
  "decode_WormholeMessage j =
     (if is_struct j then
        case (jstr ''phase'' j, jstr ''body'' j) of
          (Some p, Some b) \<Rightarrow> Some \<lparr>wm_Phase = p, wm_Body = b\<rparr> | _ \<Rightarrow> None
      else None)"

section \<open>The parsers\<close>

definition not_json :: ValidationError where
  "not_json = validationError InvalidMessage ''Protocol frame is not valid JSON''"

definition not_v1 :: ValidationError where
  "not_v1 = validationError InvalidMessage ''Protocol frame does not match the v1 contract''"

definition parse_rendezvous :: "parser \<Rightarrow> schema \<Rightarrow> input \<Rightarrow> ValidationError + Envelope" where
  "parse_rendezvous v schema input =
     (case parse v input schema MaxWebSocketFrameBytes of
        Inl e \<Rightarrow> Inl e
      | Inr document \<Rightarrow>
          (case decode_Envelope document of
             None \<Rightarrow> Inl not_json
           | Some envelope \<Rightarrow>
               (case rendezvousSemantics envelope of Some e \<Rightarrow> Inl e | None \<Rightarrow> Inr envelope)))"

definition ParseClient :: "parser \<Rightarrow> input \<Rightarrow> ValidationError + Envelope" where
  "ParseClient v = parse_rendezvous v ClientSchema"

definition ParseServer :: "parser \<Rightarrow> input \<Rightarrow> ValidationError + Envelope" where
  "ParseServer v = parse_rendezvous v ServerSchema"

definition ParseRendezvous :: "parser \<Rightarrow> input \<Rightarrow> ValidationError + Envelope" where
  "ParseRendezvous v = parse_rendezvous v RendezvousSchema"

definition ParseControl :: "parser \<Rightarrow> input \<Rightarrow> ValidationError + Envelope" where
  "ParseControl v input =
     (case parse v input ControlSchema MaxControlPlaintextBytes of
        Inl e \<Rightarrow> Inl e
      | Inr document \<Rightarrow>
          (case decode_Envelope document of
             None \<Rightarrow> Inl not_json
           | Some envelope \<Rightarrow>
               if env_Type envelope = ''request'' then
                 (case decode_ControlRequestBody (env_Body envelope) of
                    None \<Rightarrow> Inl not_v1
                  | Some body \<Rightarrow>
                      if crb_ExpiresAt body < crb_SentAt body
                      then Inl (validationError InvalidMessage
                        ''Request expiresAt must not precede sentAt'')
                      else Inr envelope)
               else Inr envelope))"

definition ParsePairing :: "parser \<Rightarrow> input \<Rightarrow> ValidationError + PairingIdentityEnvelope" where
  "ParsePairing v input =
     (case parse v input PairingSchema MaxPairingPlaintextBytes of
        Inl e \<Rightarrow> Inl e
      | Inr document \<Rightarrow>
          (case decode_PairingIdentityEnvelope document of
             None \<Rightarrow> Inl not_json
           | Some envelope \<Rightarrow>
               if NoiseKeyFingerprint (v_sha256 v) (pib_NoiseKey (pie_Body envelope)) \<noteq>
                    Inr (pib_NoiseFingerprint (pie_Body envelope))
               then Inl (validationError InvalidMessage
                 ''Noise fingerprint does not match the public key'')
               else Inr envelope))"

definition is_32_bytes :: "string option \<Rightarrow> bool" where
  "is_32_bytes x = (case x of None \<Rightarrow> False | Some b \<Rightarrow> length b = 32)"

definition ParsePairingInvite :: "parser \<Rightarrow> input \<Rightarrow> ValidationError + PairingInvite" where
  "ParsePairingInvite v input =
     (case parse v input PairingInviteSchema MaxPairingInviteBytes of
        Inl e \<Rightarrow> Inl e
      | Inr document \<Rightarrow>
          (case decode_PairingInvite document of
             None \<Rightarrow> Inl (validationError InvalidMessage ''Pairing invite is not valid JSON'')
           | Some invite \<Rightarrow>
               if \<not> validRelayURL (v_url v) (inv_RelayURL invite) \<or>
                  \<not> is_32_bytes (canonicalBase64URL (inv_JoinToken invite)) \<or>
                  \<not> is_32_bytes (canonicalBase64URL (inv_PSK invite)) \<or>
                  inv_JoinToken invite = inv_PSK invite
               then Inl (validationError InvalidMessage
                 ''Pairing invite contains invalid security fields'')
               else Inr invite))"

definition ValidatePairingInviteAt :: "parser \<Rightarrow> PairingInvite \<Rightarrow> int \<Rightarrow> ValidationError option" where
  "ValidatePairingInviteAt v invite now =
     (case ParsePairingInvite v (Value (marshal_PairingInvite invite)) of
        Inl e \<Rightarrow> Some e
      | Inr _ \<Rightarrow>
          if now < 0 \<or> inv_ExpiresAt invite \<le> now \<or>
             inv_ExpiresAt invite - now > PairingTTLSeconds + PairingClockSkewSeconds
          then Some (validationError PairExpired ''Pairing invite is expired or outside its lifetime'')
          else None)"

definition hex_value :: "char \<Rightarrow> nat option" where
  "hex_value c = (let n = of_char c in
     if 48 \<le> n \<and> n \<le> 57 then Some (n - 48)
     else if 97 \<le> n \<and> n \<le> 102 then Some (n - 87)
     else if 65 \<le> n \<and> n \<le> 70 then Some (n - 55) else None)"

fun hex_decode :: "string \<Rightarrow> string option" where
  "hex_decode [] = Some []"
| "hex_decode [c] = None"
| "hex_decode (a # b # rest) =
     (case (hex_value a, hex_value b, hex_decode rest) of
        (Some x, Some y, Some out) \<Rightarrow> Some (char_of (x * 16 + y) # out) | _ \<Rightarrow> None)"

definition valid_pake_wrapper :: "parser \<Rightarrow> string \<Rightarrow> bool" where
  "valid_pake_wrapper v body =
     (case v_json v body of
        None \<Rightarrow> False
      | Some document \<Rightarrow>
          (case (if is_struct document then jstr ''pake_v1'' document else None) of
             None \<Rightarrow> False
           | Some pake \<Rightarrow>
               pake \<noteq> '''' \<and>
               (case hex_decode pake of
                  None \<Rightarrow> False
                | Some decoded \<Rightarrow>
                    decoded \<noteq> [] \<and> even (length pake) \<and> map lower_char pake = pake)))"

definition ParseWormhole :: "parser \<Rightarrow> input \<Rightarrow> ValidationError + WormholeMessage" where
  "ParseWormhole v input =
     (case parse v input WormholeSchema MaxRelayPayloadBytes of
        Inl e \<Rightarrow> Inl e
      | Inr document \<Rightarrow>
          (case decode_WormholeMessage document of
             None \<Rightarrow> Inl not_json
           | Some message \<Rightarrow>
               (case hex_decode (wm_Body message) of
                  None \<Rightarrow> Inl not_v1
                | Some body \<Rightarrow>
                    if wm_Phase message = ''pake'' then
                      (if valid_pake_wrapper v body then Inr message
                       else Inl (validationError InvalidMessage
                         ''PAKE phase does not contain a valid pake_v1 wrapper''))
                    else if length body < 40
                    then Inl (validationError InvalidMessage
                      ''Encrypted Wormhole phases require a SecretBox nonce and tag'')
                    else Inr message)))"

section \<open>Which fields the schema checks\<close>

text \<open>
  The schema checks the value under a key as it is written; the decoder takes the last value whose key
  folds to the name of the field. For a name without a capital letter, without \<open>k\<close> and without \<open>s\<close>
  the two agree, since every other key that folds to it comes before it in byte order.
\<close>

definition plain_name :: "string \<Rightarrow> bool" where
  "plain_name k \<longleftrightarrow> list_all (\<lambda>c. (of_char c :: nat) < 128 \<and> \<not> byte_in 65 90 c \<and>
     c \<noteq> CHR ''k'' \<and> c \<noteq> CHR ''s'') k"

lemma string_le_refl [simp]: "string_le a a"
  by (induction a) simp_all

lemma string_le_antisym: "string_le a b \<Longrightarrow> string_le b a \<Longrightarrow> a = b"
  by (induction a b rule: string_le.induct) (auto elim: string_le.elims)

lemma string_le_trans: "string_le a b \<Longrightarrow> string_le b c \<Longrightarrow> string_le a c"
proof (induction a b arbitrary: c rule: string_le.induct)
  case (3 x xs y ys)
  then show ?case by (cases c) auto
qed simp_all

lemma string_le_total: "string_le a b \<or> string_le b a"
proof (induction a b rule: string_le.induct)
  case (3 x xs y ys)
  have "(of_char x :: nat) < of_char y \<or> (of_char y :: nat) < of_char x \<or> x = y"
    by (metis linorder_neqE_nat of_char_eq_iff)
  with 3 show ?case by auto
qed simp_all

lemma set_insert_key [simp]: "set (insert_key p qs) = insert p (set qs)"
  by (induction qs) auto

lemma sorted_insert_key:
  "sorted_wrt (\<lambda>p q. string_le (fst p) (fst q)) qs \<Longrightarrow>
   sorted_wrt (\<lambda>p q. string_le (fst p) (fst q)) (insert_key p qs)"
proof (induction qs)
  case (Cons q qs)
  then show ?case
    using string_le_total [of "fst p" "fst q"] by (auto intro: string_le_trans)
qed simp

lemma distinct_insert_key:
  "fst p \<notin> fst ` set qs \<Longrightarrow> distinct (map fst qs) \<Longrightarrow> distinct (map fst (insert_key p qs))"
  by (induction qs) (auto simp: image_iff)

lemma map_of_insert_key:
  "fst p \<notin> fst ` set qs \<Longrightarrow> map_of (insert_key p qs) = map_of (p # qs)"
proof (induction qs)
  case (Cons q qs)
  then show ?case by (cases p; cases q) (auto simp: fun_upd_twist)
qed simp

lemma insert_keys:
  assumes "distinct (map fst fs)"
  shows "sorted_wrt (\<lambda>p q. string_le (fst p) (fst q)) (foldr insert_key fs []) \<and>
    distinct (map fst (foldr insert_key fs [])) \<and> set (foldr insert_key fs []) = set fs \<and>
    map_of (foldr insert_key fs []) = map_of fs"
  using assms
proof (induction fs)
  case (Cons p fs)
  then show ?case
    by (cases p) (simp add: sorted_insert_key distinct_insert_key map_of_insert_key)
qed simp

lemma lower_le: "string_le x (map lower_char x)"
proof (induction x)
  case (Cons c x)
  have "lower_char c = c \<or> (of_char c :: nat) < of_char (lower_char c)"
    by (auto simp: lower_char_def byte_in_def)
  with Cons show ?case by auto
qed simp

lemma foldName_pieces:
  assumes "CHR ''k'' \<notin> set (foldName x)" and "CHR ''s'' \<notin> set (foldName x)"
  shows "foldName x = map lower_char x"
proof -
  have "(if r = 0x212A then ''k'' else if r = 0x17F then ''s'' else map lower_char bytes) =
      map lower_char bytes" if "(r, bytes) \<in> set (segments x)" for r bytes
    using assms that unfolding foldName_def by fastforce
  then have "foldName x = concat (map (\<lambda>p. map lower_char (snd p)) (segments x))"
    unfolding foldName_def by (intro arg_cong [of _ _ concat] map_cong refl) auto
  also have "\<dots> = map lower_char (concat (map snd (segments x)))"
    by (simp add: map_concat comp_def)
  finally show ?thesis by (simp add: concat_segments)
qed

lemma foldName_ascii:
  assumes "list_all (\<lambda>c. (of_char c :: nat) < 0x80) x"
  shows "foldName x = map lower_char x"
proof -
  have "foldName x = concat (map (\<lambda>c. [lower_char c]) x)"
    unfolding foldName_def segments_ascii [OF assms] map_map
  proof (intro arg_cong [of _ _ concat] map_cong refl)
    fix c assume "c \<in> set x"
    with assms have "(of_char c :: nat) < 0x80" by (simp add: list_all_iff)
    then show "((\<lambda>(r, bytes). if r = 0x212A then ''k'' else if r = 0x17F then ''s''
        else map lower_char bytes) \<circ> (\<lambda>c. (of_char c :: nat, [c]))) c = [lower_char c]"
      by simp
  qed
  then show ?thesis by simp
qed

lemma foldName_plain:
  assumes "plain_name k" shows "foldName k = k"
proof -
  have "list_all (\<lambda>c. (of_char c :: nat) < 0x80) k"
    using assms by (auto simp: plain_name_def list_all_iff)
  moreover have "map lower_char k = k"
    by (rule map_idI) (use assms in \<open>simp add: plain_name_def list_all_iff lower_char_def\<close>)
  ultimately show ?thesis by (simp add: foldName_ascii)
qed

lemma foldName_le:
  assumes "plain_name k" and "foldName x = foldName k"
  shows "string_le x k"
proof -
  have "foldName x = k" using assms foldName_plain by simp
  moreover have "CHR ''k'' \<notin> set k" "CHR ''s'' \<notin> set k"
    using assms(1) by (auto simp: plain_name_def list_all_iff)
  ultimately show ?thesis using foldName_pieces [of x] lower_le [of x] by simp
qed

lemma exact_field:
  assumes "plain_name k" and "distinct (map fst fs)"
    and "sorted_wrt (\<lambda>p q. string_le (fst p) (fst q)) fs" and "map_of fs k = Some v"
  shows "\<exists>vs. jmatches k (JObj fs) = vs @ [v]"
proof -
  obtain xs ys where fs: "fs = xs @ (k, v) # ys"
    using assms(4) by (meson map_of_SomeD split_list)
  have "foldName y \<noteq> foldName k" if "(y, u) \<in> set ys" for y u
  proof
    assume "foldName y = foldName k"
    then have "string_le y k" by (rule foldName_le [OF assms(1)])
    moreover have "string_le k y" using assms(3) that fs by (auto simp: sorted_wrt_append)
    ultimately have "y = k" by (rule string_le_antisym)
    with that fs assms(2) show False by (auto simp: image_iff)
  qed
  then have "filter (\<lambda>(x, v). foldName x = foldName k) ys = []"
    by (auto simp: filter_empty_conv)
  then show ?thesis by (simp add: jmatches_def fs)
qed

section \<open>Accepted frames carry a bounded canonical payload\<close>

fun keys_distinct :: "json \<Rightarrow> bool" where
  "keys_distinct (JObj fs) \<longleftrightarrow> distinct (map fst fs) \<and> list_all (\<lambda>p. keys_distinct (snd p)) fs"
| "keys_distinct (JArr vs) \<longleftrightarrow> list_all keys_distinct vs"
| "keys_distinct _ \<longleftrightarrow> True"

text \<open>What the rendezvous schema requires of a frame, as far as it matters for its payload.\<close>

definition text_at :: "string \<Rightarrow> (string \<times> json) list \<Rightarrow> string option" where
  "text_at k fs = (case map_of fs k of Some (JStr s) \<Rightarrow> Some s | _ \<Rightarrow> None)"

definition object_at :: "string \<Rightarrow> (string \<times> json) list \<Rightarrow> (string \<times> json) list option" where
  "object_at k fs = (case map_of fs k of Some (JObj b) \<Rightarrow> Some b | _ \<Rightarrow> None)"

lemma text_at_Some: "text_at k fs = Some s \<longleftrightarrow> map_of fs k = Some (JStr s)"
  by (auto simp: text_at_def split: option.splits json.splits)

lemma object_at_Some: "object_at k fs = Some b \<longleftrightarrow> map_of fs k = Some (JObj b)"
  by (auto simp: object_at_def split: option.splits json.splits)

definition frame_required :: "json \<Rightarrow> bool" where
  "frame_required j =
     (case j of
        JObj fs \<Rightarrow>
          text_at ''protocol'' fs = Some ProtocolName \<and> text_at ''type'' fs \<noteq> None \<and>
          (text_at ''type'' fs \<in> {Some ''pair.frame'', Some ''session.frame''} \<longrightarrow>
             (case object_at ''body'' fs of Some b \<Rightarrow> text_at ''payload'' b \<noteq> None | None \<Rightarrow> False))
      | _ \<Rightarrow> False)"

definition frame_schema :: "parser \<Rightarrow> schema \<Rightarrow> bool" where
  "frame_schema v schema \<longleftrightarrow>
     (\<forall>bytes j. v_Unmarshal v bytes = Some j \<longrightarrow> keys_distinct j) \<and>
     (\<forall>j. v_Validate v schema j = None \<longrightarrow> frame_required j)"

lemma map_of_map_snd: "map_of (map (\<lambda>p. (fst p, f (snd p))) fs) k = map_option f (map_of fs k)"
  by (induction fs) auto

lemma encoded_object:
  assumes "distinct (map fst fs)"
  shows "\<exists>gs. marshal_order (normalizeIntegers (JObj fs)) = JObj gs \<and> distinct (map fst gs) \<and>
    sorted_wrt (\<lambda>p q. string_le (fst p) (fst q)) gs \<and>
    (\<forall>k. map_of gs k = map_option (\<lambda>j. marshal_order (normalizeIntegers j)) (map_of fs k))"
proof -
  define hs where "hs = map (\<lambda>p. (fst p, marshal_order (normalizeIntegers (snd p)))) fs"
  have "marshal_order (normalizeIntegers (JObj fs)) = JObj (foldr insert_key hs [])"
    by (simp add: hs_def comp_def)
  moreover have "distinct (map fst hs)" using assms by (simp add: hs_def comp_def)
  moreover have "map_of hs k = map_option (\<lambda>j. marshal_order (normalizeIntegers j)) (map_of fs k)" for k
    unfolding hs_def by (rule map_of_map_snd)
  ultimately show ?thesis using insert_keys [of hs] by auto
qed

lemma decoded_string:
  assumes "jmatches k j = vs @ [JStr s]" and "jstr k j = Some x"
  shows "x = s"
  using assms by (auto simp: jstr_def)

lemma decoded_raw: "jmatches k j = vs @ [v] \<Longrightarrow> jraw k j = v"
  by (simp add: jraw_def)

lemma plain_names: "plain_name ''type''" "plain_name ''body''" "plain_name ''payload''"
  by (simp_all add: plain_name_def byte_in_def)

lemma payload_checked:
  assumes j: "keys_distinct j" and r: "frame_required j" and p: "preflightFramePayload j = None"
    and e: "decode_Envelope (marshal_order (normalizeIntegers j)) = Some env"
    and t: "env_Type env = ''session.frame'' \<or> env_Type env = ''pair.frame''"
    and f: "decode_FrameBody idk (env_Body env) = Some frame"
  shows "\<exists>d. canonicalBase64URL (fb_Payload frame) = Some d \<and> length d \<le> MaxRelayPayloadBytes"
proof -
  obtain fs t' where fs: "j = JObj fs" "map_of fs ''protocol'' = Some (JStr ProtocolName)"
      "map_of fs ''type'' = Some (JStr t')"
    using r by (auto simp: frame_required_def text_at_Some split: json.splits)
  obtain gs where gs: "marshal_order (normalizeIntegers j) = JObj gs" "distinct (map fst gs)"
      "sorted_wrt (\<lambda>p q. string_le (fst p) (fst q)) gs"
      "\<And>k. map_of gs k = map_option (\<lambda>j. marshal_order (normalizeIntegers j)) (map_of fs k)"
    using encoded_object j fs(1) by fastforce
  have "env_Type env = t'"
    using exact_field [OF plain_names(1) gs(2,3)] gs(1,4) fs(3) e decoded_string
    by (fastforce simp: decode_Envelope_def split: if_splits option.splits)
  with t have frame: "t' = ''session.frame'' \<or> t' = ''pair.frame''" by simp
  then obtain body payload where b: "map_of fs ''body'' = Some (JObj body)"
      "map_of body ''payload'' = Some (JStr payload)"
    using r fs by (auto simp: frame_required_def text_at_def object_at_Some
        split: json.splits option.splits)
  have kb: "distinct (map fst body)"
    using j fs(1) b(1) by (auto simp: list_all_iff dest: map_of_SomeD)
  obtain hs where hs: "marshal_order (normalizeIntegers (JObj body)) = JObj hs" "distinct (map fst hs)"
      "sorted_wrt (\<lambda>p q. string_le (fst p) (fst q)) hs"
      "\<And>k. map_of hs k = map_option (\<lambda>j. marshal_order (normalizeIntegers j)) (map_of body k)"
    using encoded_object [OF kb] by blast
  have "map_of gs ''body'' = Some (JObj hs)" using gs(4) b(1) hs(1) by simp
  then have body: "env_Body env = JObj hs"
    using exact_field [OF plain_names(2) gs(2,3)] gs(1) e decoded_raw
    by (fastforce simp: decode_Envelope_def split: if_splits option.splits)
  have "map_of hs ''payload'' = Some (JStr payload)" using hs(4) b(2) by simp
  then have "fb_Payload frame = payload"
    using exact_field [OF plain_names(3) hs(2,3)] f decoded_string unfolding body
    by (fastforce simp: decode_FrameBody_def split: if_splits option.splits)
  with p frame fs b show ?thesis
    by (auto simp: preflightFramePayload_def split: if_splits option.splits)
qed

text \<open>C22: whatever the length of the frame and the spelling of its keys, a pair or session frame that
  the server or client parser accepts decodes to a payload that is canonical base64url of at most 16 KiB.\<close>

theorem accepted_frame_payload:
  assumes "frame_schema v schema" and "parse_rendezvous v schema (Bytes bytes) = Inr env"
    and "env_Type env = ''session.frame'' \<or> env_Type env = ''pair.frame''"
    and "decode_FrameBody idk (env_Body env) = Some frame"
  shows "\<exists>d. canonicalBase64URL (fb_Payload frame) = Some d \<and> length d \<le> MaxRelayPayloadBytes"
proof -
  obtain j where "v_Unmarshal v bytes = Some j" "preflightFramePayload j = None"
      "v_Validate v schema j = None" "decode_Envelope (marshal_order (normalizeIntegers j)) = Some env"
    using assms(2)
    by (auto simp: parse_rendezvous_def parse_def inputJSON_def split: option.splits if_splits)
  then show ?thesis
    using payload_checked [of j env idk frame] assms(1,3,4) unfolding frame_schema_def by blast
qed

text \<open>A library that knows one text, and a schema that checks what \<open>frame_schema\<close> needs and nothing else.\<close>

definition one_text :: "json \<Rightarrow> parser" where
  "one_text j =
     \<lparr>v_Unmarshal = (\<lambda>bytes. if bytes = ''frame'' then Some j else None),
      v_Validate = (\<lambda>schema k. if frame_required k then None else Some (SchemaError [] [])),
      v_Marshal = (\<lambda>k. None), v_json = (\<lambda>bytes. None), v_sha256 = (\<lambda>bytes. bytes),
      v_url = (\<lambda>bytes. None)\<rparr>"

definition session_id :: string where
  "session_id = ''00000000-0000-4000-8000-000000000000''"

text \<open>A session frame with a second, unknown key that folds to \<open>seq\<close>: its \<open>s\<close> is the long s, U+017F.\<close>

definition shadowed_frame :: json where
  "shadowed_frame = JObj
     [(''protocol'', JStr ProtocolName), (''v'', JNum ''1''), (''type'', JStr ''session.frame''),
      (''id'', JStr session_id),
      (''body'', JObj
        [(''payload'', JStr ''AA''), (''seq'', JNum ''1''), (''sessionId'', JStr session_id),
         ([CHR 0xC5, CHR 0xBF] @ ''eq'', JNum ''-5'')])]"

definition shadowed_body :: json where
  "shadowed_body = JObj
     [(''payload'', JStr ''AA''), (''seq'', JInt 1), (''sessionId'', JStr session_id),
      ([CHR 0xC5, CHR 0xBF] @ ''eq'', JInt (- 5))]"

definition shadowed_document :: json where
  "shadowed_document = JObj
     [(''body'', shadowed_body), (''id'', JStr session_id), (''protocol'', JStr ProtocolName),
      (''type'', JStr ''session.frame''), (''v'', JInt 1)]"

definition shadowed_env :: Envelope where
  "shadowed_env =
     \<lparr>env_Protocol = ProtocolName, env_V = 1, env_Type = ''session.frame'', env_ID = session_id,
      env_ReplyTo = '''', env_Body = shadowed_body\<rparr>"

lemma shadowed_numbers: "normalize_number ''1'' = JInt 1" "normalize_number ''-5'' = JInt (- 5)"
  by code_simp+

lemma shadowed_encoding: "marshal_order (normalizeIntegers shadowed_frame) = shadowed_document"
  by (simp add: shadowed_frame_def shadowed_document_def shadowed_body_def shadowed_numbers)

text \<open>The keys of the example and what they fold to.\<close>

lemma lower_TI: "lower_char CHR ''T'' = CHR ''t''" "lower_char CHR ''I'' = CHR ''i''"
  by code_simp+

lemma folded_keys:
  "foldName ''protocol'' = ''protocol''" "foldName ''v'' = ''v''" "foldName ''type'' = ''type''"
  "foldName ''id'' = ''id''" "foldName ''replyTo'' = ''replyto''" "foldName ''body'' = ''body''"
  "foldName ''payload'' = ''payload''" "foldName ''seq'' = ''seq''"
  "foldName ''sessionId'' = ''sessionid''"
  by (simp_all add: foldName_ascii lower_TI) (simp_all add: lower_char_def byte_in_def)

lemma folded_shadow: "foldName (CHR 0xC5 # CHR 0xBF # ''eq'') = ''seq''"
  by code_simp

lemmas field_simps_of = jstr_def jint_def jraw_def jmatches_def folded_keys folded_shadow

lemma shadowed_passes:
  "decode_Envelope shadowed_document = Some shadowed_env"
  by (simp add: decode_Envelope_def field_simps_of shadowed_document_def is_struct_def shadowed_env_def)

lemma shadowed_decodes:
  "decode_FrameBody ''sessionId'' (env_Body shadowed_env) =
     Some \<lparr>fb_ID = session_id, fb_Seq = - 5, fb_Payload = ''AA''\<rparr>"
  by (simp add: decode_FrameBody_def field_simps_of shadowed_body_def is_struct_def shadowed_env_def)

lemma shadowed_limits: "numbersWithinLimits shadowed_frame"
  by (simp add: shadowed_frame_def number_within_limits_def maxJSONNumberBytes_def is_exponent_mark_def)

lemma decode_AA: "canonicalBase64URL ''AA'' = Some [CHR 0x00]"
  by code_simp

lemma shadowed_preflight: "preflightFramePayload shadowed_frame = None"
  by (simp add: preflightFramePayload_def shadowed_frame_def decode_AA MaxRelayPayloadBytes_def)

lemma shadowed_distinct: "keys_distinct shadowed_frame"
  by (simp add: shadowed_frame_def)

lemma shadowed_required: "frame_required shadowed_frame"
  by (simp add: shadowed_frame_def frame_required_def text_at_def object_at_def)

lemma shadowed_parse:
  assumes "v_Unmarshal v bytes = Some shadowed_frame" and "length bytes \<le> MaxWebSocketFrameBytes"
    and "v_Validate v schema shadowed_frame = None"
  shows "parse_rendezvous v schema (Bytes bytes) = Inr shadowed_env"
  using assms shadowed_limits shadowed_preflight shadowed_passes shadowed_encoding
  by (simp add: parse_rendezvous_def parse_def inputJSON_def rendezvousSemantics_def shadowed_env_def)

lemma one_text_parse: "parse_rendezvous (one_text shadowed_frame) schema (Bytes ''frame'') = Inr shadowed_env"
  by (rule shadowed_parse)
    (simp_all add: one_text_def shadowed_required MaxWebSocketFrameBytes_def)

theorem accepted_frame_payload_witness:
  "\<exists>d. canonicalBase64URL ''AA'' = Some d \<and> length d \<le> MaxRelayPayloadBytes"
proof -
  have schema: "frame_schema (one_text shadowed_frame) ServerSchema"
    using shadowed_distinct by (auto simp: frame_schema_def one_text_def split: if_splits)
  show ?thesis
    using accepted_frame_payload [OF schema one_text_parse _ shadowed_decodes]
    by (simp add: shadowed_env_def)
qed














section \<open>Integers of a document\<close>

definition literal_value :: "int \<times> int \<Rightarrow> rat" where
  "literal_value r = of_int (fst r) * 10 powi snd r"

lemma rat_integer_iff: "rat_integer r = Some i \<longleftrightarrow> literal_value r = of_int i"
proof (cases r)
  case (Pair m e)
  show ?thesis
  proof (cases "0 \<le> e")
    case True
    then have "(10 :: rat) powi e = of_int (10 ^ nat e)" by (simp add: power_int_def)
    then have "literal_value r = of_int (m * 10 ^ nat e)" by (simp add: literal_value_def Pair)
    then show ?thesis
      using True unfolding Pair by (simp only: rat_integer_def prod.case if_True option.inject of_int_eq_iff)
  next
    case False
    define p :: int where "p = 10 ^ nat (- e)"
    have p: "p \<noteq> 0" by (simp add: p_def)
    have "(10 :: rat) powi e = inverse (of_int p)" using False by (simp add: power_int_def p_def power_one_over inverse_eq_divide)
    then have "literal_value r = of_int m / of_int p"
      by (simp add: literal_value_def Pair divide_inverse)
    then have "literal_value r = of_int i \<longleftrightarrow> (of_int m :: rat) = of_int (i * p)"
      using p by (simp add: divide_eq_eq)
    also have "\<dots> \<longleftrightarrow> m = i * p" by (simp only: of_int_eq_iff)
    finally show ?thesis
      using False p unfolding Pair by (auto simp: rat_integer_def p_def [symmetric])
  qed
qed

text \<open>C24: a number of a document becomes an integer exactly when its value is an integer that fits 64
  bits, however it is written (1.0, 10e-1), and that integer is its value; other numbers stay as they
  are, and printing an integer and reading it back gives the integer.\<close>

theorem integers_normalized:
  "(normalizeIntegers (JNum literal) = JInt i \<longleftrightarrow>
     (\<exists>r. SetString literal = Some r \<and> literal_value r = of_int i \<and> int64_range i)) \<and>
   normalizeIntegers (normalizeIntegers j) = normalizeIntegers j"
proof
  show "normalizeIntegers (JNum literal) = JInt i \<longleftrightarrow>
     (\<exists>r. SetString literal = Some r \<and> literal_value r = of_int i \<and> int64_range i)"
    by (auto simp: normalize_number_def rat_integer_iff [symmetric]
        split: option.splits bind_splits)
  have n: "normalizeIntegers (normalize_number l) = normalize_number l" for l
    by (simp add: normalize_number_def split: option.splits)
  show "normalizeIntegers (normalizeIntegers j) = normalizeIntegers j"
    by (induction j rule: normalizeIntegers.induct) (auto simp: n)
qed

end
