(* ===== verification/ControlProcessor.thy ===== *)
theory ControlProcessor
  imports CompanionModel Validation "HOL-Library.AList"
begin

text \<open>
  The control processor of \<^verbatim>\<open>internal/companion/companion.go\<close>: the companion's end of the encrypted control
  protocol. It answers each request once and repeats the stored answer when the identifier of a request
  comes again, executes only operations that the enrollment permits, and wants the controller's hello
  first. The clock, the random identifiers, the execution of an operation and \<^verbatim>\<open>json.Marshal\<close> are the
  fields of \<open>control_env\<close>; a handled plaintext yields an answer to send, no answer, or an error.
\<close>

section \<open>Handling a plaintext\<close>

record 'h control_env =
  ce_parser :: parser
  ce_now :: "'h \<Rightarrow> int \<times> 'h"
  ce_uuid :: "'h \<Rightarrow> (goerr + string) \<times> 'h"
  ce_execute :: "int \<Rightarrow> string \<Rightarrow> 'h \<Rightarrow> (goerr + json) \<times> 'h"
  ce_marshal :: "json \<Rightarrow> goerr + string"

record controlProcessor =
  cp_allowed :: "string list"
  cp_peerHello :: bool
  cp_cache :: "(string \<times> string) list"

definition newControlProcessor :: "string list option \<Rightarrow> controlProcessor" where
  "newControlProcessor permissions =
     \<lparr>cp_allowed = (case permissions of None \<Rightarrow> supportedOperations | Some granted \<Rightarrow> granted),
      cp_peerHello = False, cp_cache = []\<rparr>"

definition response_body :: "goerr + json \<Rightarrow> json" where
  "response_body result =
     (case result of
        Inr v \<Rightarrow> JObj [(''ok'', JBool True), (''result'', v)]
      | Inl e \<Rightarrow> JObj [(''ok'', JBool False),
          (''error'', JObj
            [(''code'', JStr (case operation_code e of None \<Rightarrow> ''operation.failed'' | Some c \<Rightarrow> c)),
             (''retryable'', JBool False)])])"

definition response_message :: "string \<Rightarrow> string \<Rightarrow> json \<Rightarrow> json" where
  "response_message i replyTo body = JObj
     [(''protocol'', JStr ControlProtocolName), (''v'', JInt 1), (''type'', JStr ''response''),
      (''id'', JStr i), (''replyTo'', JStr replyTo), (''body'', body)]"

type_synonym 'h handled = "(goerr + string option) \<times> controlProcessor \<times> 'h"

definition processor_response ::
  "'h control_env \<Rightarrow> controlProcessor \<Rightarrow> string \<Rightarrow> goerr + json \<Rightarrow> 'h \<Rightarrow> 'h handled" where
  "processor_response env p replyTo result h =
     (case ce_uuid env h of
        (Inl e, h) \<Rightarrow> (Inl e, p, h)
      | (Inr i, h) \<Rightarrow>
          (case ce_marshal env (response_message i replyTo (response_body result)) of
             Inl e \<Rightarrow> (Inl e, p, h)
           | Inr bytes \<Rightarrow>
               (Inr (Some bytes), p\<lparr>cp_cache := AList.update replyTo bytes (cp_cache p)\<rparr>, h)))"

definition request_invalid :: "ControlRequestBody \<Rightarrow> int \<Rightarrow> bool" where
  "request_invalid body now \<longleftrightarrow>
     crb_ExpiresAt body \<le> now \<or> crb_SentAt body > now + 30000 \<or> crb_Args body \<noteq> []"

definition handle_request ::
  "'h control_env \<Rightarrow> controlProcessor \<Rightarrow> Envelope \<Rightarrow> 'h \<Rightarrow> 'h handled" where
  "handle_request env p envelope h =
     (case map_of (cp_cache p) (env_ID envelope) of
        Some cached \<Rightarrow> (Inr (Some cached), p, h)
      | None \<Rightarrow>
          if length (cp_cache p) \<ge> 256
          then (Inl (ErrorText ''session request limit reached''), p, h)
          else (case decode_ControlRequestBody (env_Body envelope) of
            None \<Rightarrow> (Inl (ErrorText ''decode validated request body''), p, h)
          | Some body \<Rightarrow>
              if \<not> cp_peerHello p then (Inl (ErrorText ''control hello must be first''), p, h)
              else (case ce_now env h of (now, h) \<Rightarrow>
                if request_invalid body now
                then processor_response env p (env_ID envelope) (Inl (OperationError ''request.invalid'')) h
                else if crb_Operation body \<notin> set (cp_allowed p)
                then processor_response env p (env_ID envelope)
                       (Inl (OperationError ''operation.forbidden'')) h
                else (case ce_execute env (crb_ExpiresAt body) (crb_Operation body) h of
                  (result, h) \<Rightarrow> processor_response env p (env_ID envelope) result h))))"

definition handle_hello :: "controlProcessor \<Rightarrow> Envelope \<Rightarrow> goerr + controlProcessor" where
  "handle_hello p envelope =
     (if cp_peerHello p then Inl (ErrorText ''unexpected control hello'')
      else case decode_ControlHelloBody (env_Body envelope) of
             None \<Rightarrow> Inl (ErrorText ''unexpected control hello'')
           | Some body \<Rightarrow>
               if chb_Role body \<noteq> Controller then Inl (ErrorText ''unexpected control hello'')
               else Inr (p\<lparr>cp_peerHello := True\<rparr>))"

definition processor_handle ::
  "'h control_env \<Rightarrow> controlProcessor \<Rightarrow> string \<Rightarrow> 'h \<Rightarrow> 'h handled" where
  "processor_handle env p plaintext h =
     (case ParseControl (ce_parser env) (Bytes plaintext) of
        Inl e \<Rightarrow> (Inl (ProtocolError e), p, h)
      | Inr envelope \<Rightarrow>
          if env_Type envelope = ''hello'' then
            (case handle_hello p envelope of
               Inl e \<Rightarrow> (Inl e, p, h) | Inr p' \<Rightarrow> (Inr None, p', h))
          else if env_Type envelope = ''request'' then handle_request env p envelope h
          else (Inl (ErrorText ''unexpected control message''), p, h))"

text \<open>The companion's own hello, sent first after the handshake.\<close>

definition Version :: string where
  "Version = ''0.1.0''"

definition controlHello :: "'h control_env \<Rightarrow> 'h \<Rightarrow> (goerr + string) \<times> 'h" where
  "controlHello env h =
     (case ce_uuid env h of
        (Inl e, h) \<Rightarrow> (Inl e, h)
      | (Inr i, h) \<Rightarrow>
          (ce_marshal env (JObj
             [(''protocol'', JStr ControlProtocolName), (''v'', JInt 1), (''type'', JStr ''hello''),
              (''id'', JStr i),
              (''body'', JObj [(''role'', JStr Companion),
                 (''capabilities'', JArr (map JStr supportedOperations)),
                 (''appVersion'', JStr Version)])]), h))"

section \<open>The state of a processor\<close>

definition cache_ok :: "controlProcessor \<Rightarrow> bool" where
  "cache_ok p \<longleftrightarrow> distinct (map fst (cp_cache p)) \<and> length (cp_cache p) \<le> 256"

text \<open>A step is a plaintext handled without an error; an error ends the session.\<close>

inductive processor_step :: "'h control_env \<Rightarrow> controlProcessor \<Rightarrow> controlProcessor \<Rightarrow> bool"
  for env where
  step: "processor_handle env p plaintext h = (Inr answer, p', h') \<Longrightarrow> processor_step env p p'"

inductive_cases stepE: "processor_step env p p'"

lemmas handle_defs = processor_handle_def handle_request_def handle_hello_def processor_response_def

lemma AList_update_new: "map_of xs k = None \<Longrightarrow> AList.update k v xs = xs @ [(k, v)]"
  by (induction xs) (auto split: if_splits)

text \<open>A handled plaintext leaves the processor alone, takes note of the hello, or stores one new answer.\<close>

lemma handle_effect:
  assumes "processor_handle env p plaintext h = (result, p', h')"
  obtains (same) "p' = p"
    | (hello) "p' = p\<lparr>cp_peerHello := True\<rparr>" "h' = h" "result = Inr None"
    | (stored) i bytes where "p' = p\<lparr>cp_cache := cp_cache p @ [(i, bytes)]\<rparr>"
        "map_of (cp_cache p) i = None" "length (cp_cache p) < 256" "result = Inr (Some bytes)"
  using assms
  by (auto simp: handle_defs AList_update_new
      split: sum.splits prod.splits option.splits if_splits)

lemma handle_cache_ok:
  assumes "cache_ok p" and "processor_handle env p plaintext h = (result, p', h')"
  shows "cache_ok p'"
  using assms(2) by (rule handle_effect)
    (use assms(1) in \<open>auto simp: cache_ok_def map_of_eq_None_iff\<close>)

lemma handle_keeps_answers:
  assumes "processor_handle env p plaintext h = (result, p', h')"
    and "map_of (cp_cache p) i = Some bytes"
  shows "map_of (cp_cache p') i = Some bytes"
  using assms(1) by (rule handle_effect) (use assms(2) in \<open>auto simp: map_add_Some_iff\<close>)

lemma steps_keep_answers:
  assumes "(processor_step env)\<^sup>*\<^sup>* p p'" and "map_of (cp_cache p) i = Some bytes"
  shows "map_of (cp_cache p') i = Some bytes"
  using assms by (induction rule: rtranclp_induct) (auto elim!: stepE dest: handle_keeps_answers)

text \<open>A request that was answered has its answer in the cache.\<close>

lemma handle_request_stored:
  assumes "handle_request env p envelope h = (Inr (Some bytes), p', h')"
  shows "map_of (cp_cache p') (env_ID envelope) = Some bytes"
  using assms
  by (auto simp: handle_request_def processor_response_def AList_update_new map_add_Some_iff
      split: sum.splits prod.splits option.splits if_splits)

lemma handle_request_cached:
  "map_of (cp_cache p) (env_ID envelope) = Some bytes \<Longrightarrow>
   handle_request env p envelope h = (Inr (Some bytes), p, h)"
  by (simp add: handle_request_def)

section \<open>Replays, permissions and the number of executions\<close>

text \<open>C19: once a request has been answered, every later request with the same identifier, whatever its
  content, gets the stored answer again; it changes neither the processor nor the host, so that no
  operation is executed a second time.\<close>

theorem request_executes_once:
  assumes "processor_handle env p plaintext h = (Inr (Some answer), p', h')"
    and "ParseControl (ce_parser env) (Bytes plaintext) = Inr request"
    and "(processor_step env)\<^sup>*\<^sup>* p' q"
    and "ParseControl (ce_parser env) (Bytes again) = Inr replay" and "env_Type replay = ''request''"
    and "env_ID replay = env_ID request"
  shows "processor_handle env q again k = (Inr (Some answer), q, k)"
proof -
  have "handle_request env p request h = (Inr (Some answer), p', h')"
    using assms(1,2)
    by (auto simp: processor_handle_def split: if_splits sum.splits)
  then have "map_of (cp_cache p') (env_ID request) = Some answer" by (rule handle_request_stored)
  with assms(3) have "map_of (cp_cache q) (env_ID replay) = Some answer"
    using assms(6) steps_keep_answers by metis
  with assms(4,5) show ?thesis
    by (simp add: processor_handle_def handle_request_cached)
qed

text \<open>C20: an operation outside the permissions of the enrollment is never executed, and none is before
  the controller's hello: what the processor does depends on the execution of the permitted operations
  only.\<close>

theorem only_permitted_operations:
  assumes "\<And>deadline operation k. cp_peerHello p \<Longrightarrow> operation \<in> set (cp_allowed p) \<Longrightarrow>
    execute deadline operation k = ce_execute env deadline operation k"
  shows "processor_handle (env\<lparr>ce_execute := execute\<rparr>) p plaintext h = processor_handle env p plaintext h"
  using assms
  by (auto simp: handle_defs split: sum.split option.split prod.split)

text \<open>A session handles plaintexts until the first error; \<open>counted\<close> counts the executions.\<close>

fun handle_all ::
  "'h control_env \<Rightarrow> controlProcessor \<Rightarrow> string list \<Rightarrow> 'h \<Rightarrow> goerr option \<times> controlProcessor \<times> 'h" where
  "handle_all env p [] h = (None, p, h)"
| "handle_all env p (x # xs) h =
     (case processor_handle env p x h of
        (Inl e, p', h') \<Rightarrow> (Some e, p', h')
      | (Inr answer, p', h') \<Rightarrow> handle_all env p' xs h')"

definition counted :: "'h control_env \<Rightarrow> ('h \<times> nat) control_env" where
  "counted env =
     \<lparr>ce_parser = ce_parser env,
      ce_now = (\<lambda>(h, n). case ce_now env h of (t, h) \<Rightarrow> (t, (h, n))),
      ce_uuid = (\<lambda>(h, n). case ce_uuid env h of (i, h) \<Rightarrow> (i, (h, n))),
      ce_execute = (\<lambda>deadline operation (h, n).
        case ce_execute env deadline operation h of (r, h) \<Rightarrow> (r, (h, Suc n))),
      ce_marshal = ce_marshal env\<rparr>"

lemma counted_step:
  assumes "processor_handle (counted env) p x (h, n) = (result, p', (h', n'))"
  shows "n' = n \<and> length (cp_cache p) \<le> length (cp_cache p') \<or>
    n' = Suc n \<and> length (cp_cache p) < 256 \<and>
      (isl result \<or> length (cp_cache p') = Suc (length (cp_cache p)))"
  using assms
  by (auto simp: handle_defs counted_def AList_update_new
      split: sum.splits prod.splits option.splits if_splits)

lemma counted_all:
  assumes "handle_all (counted env) p xs (h, n) = (r, p', (h', n'))"
    and "n \<le> length (cp_cache p)" and "cache_ok p"
  shows "n' \<le> 256"
  using assms
proof (induction xs arbitrary: p h n)
  case Nil
  then show ?case by (simp add: cache_ok_def)
next
  case (Cons x xs)
  obtain result q k m where step: "processor_handle (counted env) p x (h, n) = (result, q, (k, m))"
    by (metis surj_pair)
  note ok = handle_cache_ok [OF Cons.prems(3) step]
  show ?case
  proof (cases result)
    case (Inl e)
    with Cons.prems step counted_step [OF step] show ?thesis by (auto simp: cache_ok_def)
  next
    case (Inr answer)
    with Cons.prems(1) step have "handle_all (counted env) q xs (k, m) = (r, p', (h', n'))" by simp
    moreover have "m \<le> length (cp_cache q)"
      using counted_step [OF step] Cons.prems(2) Inr by auto
    ultimately show ?thesis using Cons.IH ok by blast
  qed
qed

text \<open>C21: in a session the companion executes at most 256 operations, whatever it receives.\<close>

theorem executions_bounded:
  "snd (snd (snd (handle_all (counted env) (newControlProcessor permissions) xs (h, 0)))) \<le> 256"
proof -
  obtain r p' h' n' where
    "handle_all (counted env) (newControlProcessor permissions) xs (h, 0) = (r, p', (h', n'))"
    by (metis surj_pair)
  with counted_all [of env "newControlProcessor permissions" xs h 0] show ?thesis
    by (simp add: newControlProcessor_def cache_ok_def)
qed

section \<open>A session with one request\<close>

definition cut_request :: json where
  "cut_request = JObj
     [(''protocol'', JStr ControlProtocolName), (''v'', JNum ''1''), (''type'', JStr ''request''),
      (''id'', JStr session_id),
      (''body'', JObj [(''operation'', JStr ''resolve.page.cut''), (''args'', JObj []),
         (''sentAt'', JNum ''1000''), (''expiresAt'', JNum ''9000'')])]"

definition cut_body :: json where
  "cut_body = JObj [(''args'', JObj []), (''expiresAt'', JInt 9000),
     (''operation'', JStr ''resolve.page.cut''), (''sentAt'', JInt 1000)]"

definition cut_envelope :: Envelope where
  "cut_envelope = \<lparr>env_Protocol = ControlProtocolName, env_V = 1, env_Type = ''request'',
     env_ID = session_id, env_ReplyTo = '''', env_Body = cut_body\<rparr>"

definition sample_env :: "nat control_env" where
  "sample_env =
     \<lparr>ce_parser = (one_text cut_request)\<lparr>v_Validate := (\<lambda>schema j. None)\<rparr>,
      ce_now = (\<lambda>h. (2000, h)), ce_uuid = (\<lambda>h. (Inr session_id, h)),
      ce_execute = (\<lambda>deadline operation h. (Inr (JObj []), Suc h)),
      ce_marshal = (\<lambda>j. Inr ''answer'')\<rparr>"

lemma cut_numbers: "normalize_number ''1000'' = JInt 1000" "normalize_number ''9000'' = JInt 9000"
  by code_simp+

lemma cut_encoding: "marshal_order (normalizeIntegers cut_request) = JObj
    [(''body'', cut_body), (''id'', JStr session_id), (''protocol'', JStr ControlProtocolName),
     (''type'', JStr ''request''), (''v'', JInt 1)]"
  by (simp add: cut_request_def cut_body_def cut_numbers shadowed_numbers)

lemma cut_lowered: "lower_char CHR ''A'' = CHR ''a''"
  by code_simp

lemma folded_request_keys:
  "foldName ''operation'' = ''operation''" "foldName ''args'' = ''args''"
  "foldName ''sentAt'' = ''sentat''" "foldName ''expiresAt'' = ''expiresat''"
  by (simp_all add: foldName_ascii cut_lowered) (simp_all add: lower_char_def byte_in_def)

lemma cut_decoded:
  "decode_ControlRequestBody cut_body = Some \<lparr>crb_Operation = ''resolve.page.cut'', crb_Args = [],
     crb_SentAt = 1000, crb_ExpiresAt = 9000\<rparr>"
  by (simp add: decode_ControlRequestBody_def field_simps_of jmap_def folded_request_keys cut_body_def
      is_struct_def)

lemma cut_parsed: "ParseControl (ce_parser sample_env) (Bytes ''frame'') = Inr cut_envelope"
proof -
  have "decode_Envelope (marshal_order (normalizeIntegers cut_request)) = Some cut_envelope"
    by (simp add: cut_encoding decode_Envelope_def field_simps_of is_struct_def cut_envelope_def)
  moreover have "numbersWithinLimits cut_request"
    by (simp add: cut_request_def number_within_limits_def maxJSONNumberBytes_def
        is_exponent_mark_def)
  moreover have "preflightFramePayload cut_request = None"
    by (simp add: preflightFramePayload_def cut_request_def ProtocolName_def ControlProtocolName_def)
  moreover have "decode_ControlRequestBody (env_Body cut_envelope) = Some \<lparr>crb_Operation =
      ''resolve.page.cut'', crb_Args = [], crb_SentAt = 1000, crb_ExpiresAt = 9000\<rparr>"
    by (simp add: cut_envelope_def cut_decoded)
  ultimately show ?thesis
    by (simp add: ParseControl_def parse_def inputJSON_def sample_env_def one_text_def
        MaxControlPlaintextBytes_def MaxRelayPayloadBytes_def)
qed

definition greeted :: controlProcessor where
  "greeted = (newControlProcessor None)\<lparr>cp_peerHello := True\<rparr>"

lemma cut_handled:
  "processor_handle sample_env greeted ''frame'' 0 =
     (Inr (Some ''answer''), greeted\<lparr>cp_cache := [(session_id, ''answer'')]\<rparr>, 1)"
  unfolding processor_handle_def cut_parsed
  by (simp add: cut_envelope_def handle_request_def cut_decoded processor_response_def
      request_invalid_def sample_env_def greeted_def newControlProcessor_def supportedOperations_def)

theorem request_executes_once_witness:
  "processor_handle sample_env (greeted\<lparr>cp_cache := [(session_id, ''answer'')]\<rparr>) ''frame'' 7 =
     (Inr (Some ''answer''), greeted\<lparr>cp_cache := [(session_id, ''answer'')]\<rparr>, 7)"
  by (rule request_executes_once [OF cut_handled cut_parsed rtranclp.rtrancl_refl cut_parsed])
    (simp_all add: cut_envelope_def)

theorem only_permitted_operations_witness:
  "processor_handle (sample_env\<lparr>ce_execute := \<lambda>deadline operation h. (Inl NotExist, h)\<rparr>)
     (greeted\<lparr>cp_allowed := []\<rparr>) ''frame'' 0 =
   processor_handle sample_env (greeted\<lparr>cp_allowed := []\<rparr>) ''frame'' 0"
  by (rule only_permitted_operations) simp

end
