(* ===== verification/SecureChannel.thy ===== *)
theory SecureChannel
  imports ControlProcessor
begin

text \<open>
  The secure channel of \<^verbatim>\<open>internal/companion/relay.go\<close>: session frames arrive in any order, are put back
  into sequence, decrypted and handed to the control processor, and the packets to send are numbered.
  The Noise library is a record of functions over its own handshake and cipher states; \<open>None\<close> is its
  error. \<open>receive\<close> takes the delivery of one packet as an argument; \<open>receivePacket\<close> is the one the code uses.
\<close>

section \<open>The channel\<close>

record ('k, 'c) noise =
  n_new :: "string \<Rightarrow> string \<Rightarrow> 'k option"
  n_read :: "'k \<Rightarrow> string \<Rightarrow> (string \<times> string \<times> 'k) option"
  n_write :: "'k \<Rightarrow> (string \<times> 'c \<times> 'c \<times> 'k) option"
  n_encrypt :: "'c \<Rightarrow> string \<Rightarrow> (goerr + string) \<times> 'c"
  n_decrypt :: "'c \<Rightarrow> string \<Rightarrow> (goerr + string) \<times> 'c"

record ('k, 'c) secureChannel =
  sc_sessionID :: string
  sc_expectedIn :: int
  sc_nextOut :: int
  sc_peerKey :: string
  sc_handshake :: 'k
  sc_sendCipher :: "'c option"
  sc_receiveCipher :: "'c option"
  sc_processor :: controlProcessor
  sc_pending :: "(int \<times> string) list"
  sc_pendingBytes :: nat
  sc_lastPageCommandAt :: time
  sc_lastResolvePage :: string

definition newSecureChannel ::
  "('k, 'c) noise \<Rightarrow> Config \<Rightarrow> string \<Rightarrow> goerr + ('k, 'c) secureChannel" where
  "newSecureChannel ns config sessionID =
     (case decode32 (cf_NoisePrivateKey config) of
        None \<Rightarrow> Inl (ErrorText ''value must be 32 canonical base64url bytes'')
      | Some privateKey \<Rightarrow>
          (case decode32 (cf_ControllerNoiseKey config) of
             None \<Rightarrow> Inl (ErrorText ''value must be 32 canonical base64url bytes'')
           | Some peerKey \<Rightarrow>
               (case SessionNoisePrologue (cf_LinkID config) sessionID of
                  Inl e \<Rightarrow> Inl (ProtocolError e)
                | Inr prologue \<Rightarrow>
                    (case n_new ns prologue privateKey of
                       None \<Rightarrow> Inl (ErrorText ''noise'')
                     | Some handshake \<Rightarrow> Inr
                         \<lparr>sc_sessionID = sessionID, sc_expectedIn = 1, sc_nextOut = 1,
                          sc_peerKey = peerKey, sc_handshake = handshake, sc_sendCipher = None,
                          sc_receiveCipher = None,
                          sc_processor = newControlProcessor
                            (Some (grantedPermissions (cf_PermissionMask config))),
                          sc_pending = [], sc_pendingBytes = 0, sc_lastPageCommandAt = None,
                          sc_lastResolvePage = ''''\<rparr>))))"

text \<open>
  The processor of a channel executes on the host and notes the time of a successful page command
  (\<^verbatim>\<open>recordSuccessfulPageCommand\<close>); that time is state that the host of the processor carries along.
\<close>

definition channel_env ::
  "'h control_env \<Rightarrow> ('h \<Rightarrow> int \<times> 'h) \<Rightarrow> ('h \<times> time) control_env" where
  "channel_env env clock =
     \<lparr>ce_parser = ce_parser env,
      ce_now = (\<lambda>(h, t). case ce_now env h of (n, h) \<Rightarrow> (n, (h, t))),
      ce_uuid = (\<lambda>(h, t). case ce_uuid env h of (i, h) \<Rightarrow> (i, (h, t))),
      ce_execute = (\<lambda>deadline operation (h, t).
        case ce_execute env deadline operation h of
          (Inl e, h) \<Rightarrow> (Inl e, (h, t))
        | (Inr r, h) \<Rightarrow>
            (case clock h of (completedAt, h) \<Rightarrow>
               (Inr r, (h, if resolvePageForOperation operation \<noteq> None then Some completedAt else t)))),
      ce_marshal = ce_marshal env\<rparr>"

type_synonym ('k, 'c, 'h) received =
  "(goerr + string list \<times> bool) \<times> ('k, 'c) secureChannel \<times> 'h"

definition receiveHandshake ::
  "('k, 'c) noise \<Rightarrow> 'h control_env \<Rightarrow> ('k, 'c) secureChannel \<Rightarrow> string \<Rightarrow> 'h \<Rightarrow> ('k, 'c, 'h) received"
  where
  "receiveHandshake ns env ch packet h =
     (let failed = Inl (ErrorText ''controller Noise identity check failed'') in
      case n_read ns (sc_handshake ch) packet of
        None \<Rightarrow> (failed, ch, h)
      | Some (payload, peerStatic, k) \<Rightarrow>
          let ch = ch\<lparr>sc_handshake := k\<rparr> in
          if payload \<noteq> [] \<or> peerStatic \<noteq> sc_peerKey ch then (failed, ch, h)
          else (case n_write ns k of
            None \<Rightarrow> (Inl (ErrorText ''noise''), ch, h)
          | Some (response, incoming, outgoing, k) \<Rightarrow>
              let ch = ch\<lparr>sc_handshake := k, sc_receiveCipher := Some incoming,
                sc_sendCipher := Some outgoing\<rparr> in
              (case controlHello env h of
                 (Inl e, h) \<Rightarrow> (Inl e, ch, h)
               | (Inr hello, h) \<Rightarrow>
                   (case n_encrypt ns outgoing hello of
                      (Inl e, c) \<Rightarrow> (Inl e, ch\<lparr>sc_sendCipher := Some c\<rparr>, h)
                    | (Inr encryptedHello, c) \<Rightarrow>
                        (Inr ([response, encryptedHello], False), ch\<lparr>sc_sendCipher := Some c\<rparr>, h)))))"

definition receiveEncrypted ::
  "('k, 'c) noise \<Rightarrow> 'h control_env \<Rightarrow> ('h \<Rightarrow> int \<times> 'h) \<Rightarrow> ('k, 'c) secureChannel \<Rightarrow> 'c \<Rightarrow> 'c \<Rightarrow>
   string \<Rightarrow> 'h \<Rightarrow> ('k, 'c, 'h) received"
  where
  "receiveEncrypted ns env clock ch sendCipher receiveCipher packet h =
     (case n_decrypt ns receiveCipher packet of
        (Inl e, c) \<Rightarrow> (Inl e, ch\<lparr>sc_receiveCipher := Some c\<rparr>, h)
      | (Inr plaintext, c) \<Rightarrow>
          let ch = ch\<lparr>sc_receiveCipher := Some c\<rparr> in
          (case processor_handle (channel_env env clock) (sc_processor ch) plaintext
                  (h, sc_lastPageCommandAt ch) of
             (answer, p, (h, t)) \<Rightarrow>
               let ch = ch\<lparr>sc_processor := p, sc_lastPageCommandAt := t\<rparr> in
               (case answer of
                  Inl e \<Rightarrow> (Inl e, ch, h)
                | Inr None \<Rightarrow> (Inr ([], cp_peerHello p), ch, h)
                | Inr (Some response) \<Rightarrow>
                    (case n_encrypt ns sendCipher response of
                       (Inl e, c) \<Rightarrow> (Inl e, ch\<lparr>sc_sendCipher := Some c\<rparr>, h)
                     | (Inr encrypted, c) \<Rightarrow>
                         (Inr ([encrypted], cp_peerHello p), ch\<lparr>sc_sendCipher := Some c\<rparr>, h)))))"

text \<open>Both ciphers are set together, by the handshake.\<close>

definition receivePacket ::
  "('k, 'c) noise \<Rightarrow> 'h control_env \<Rightarrow> ('h \<Rightarrow> int \<times> 'h) \<Rightarrow> ('k, 'c) secureChannel \<Rightarrow> string \<Rightarrow> 'h \<Rightarrow>
   ('k, 'c, 'h) received"
  where
  "receivePacket ns env clock ch packet h =
     (case (sc_sendCipher ch, sc_receiveCipher ch) of
        (Some sendCipher, Some receiveCipher) \<Rightarrow>
          receiveEncrypted ns env clock ch sendCipher receiveCipher packet h
      | _ \<Rightarrow> receiveHandshake ns env ch packet h)"

lemma waiting_shrinks: "map_of xs k = Some v \<Longrightarrow> length (AList.delete k xs) < length xs"
proof (induction xs)
  case (Cons p xs)
  then show ?case
    using AList.length_delete_le [of k xs] by (cases p) (auto split: if_splits)
qed simp

section \<open>Receiving frames in any order\<close>

text \<open>
  The loop of \<^verbatim>\<open>receive\<close>: deliver the packet in turn, then the next one if it waits in the buffer. The
  waiting packets are an argument of their own, which becomes shorter with every turn.
\<close>

function drain ::
  "(('k, 'c) secureChannel \<Rightarrow> string \<Rightarrow> 'h \<Rightarrow> ('k, 'c, 'h) received) \<Rightarrow> ('k, 'c) secureChannel \<Rightarrow>
   (int \<times> string) list \<Rightarrow> string \<Rightarrow> string list \<Rightarrow> 'h \<Rightarrow> ('k, 'c, 'h) received" where
  "drain deliver ch waiting packet outgoing h =
     (case deliver ch packet h of
        (Inl e, ch, h) \<Rightarrow> (Inl e, ch, h)
      | (Inr (packets, ready), ch, h) \<Rightarrow>
          let outgoing = outgoing @ packets; ch = ch\<lparr>sc_expectedIn := sc_expectedIn ch + 1\<rparr> in
          (case map_of waiting (sc_expectedIn ch) of
             None \<Rightarrow> (Inr (outgoing, ready), ch, h)
           | Some p \<Rightarrow>
               let waiting = AList.delete (sc_expectedIn ch) waiting in
               drain deliver
                 (ch\<lparr>sc_pending := waiting, sc_pendingBytes := sc_pendingBytes ch - length p\<rparr>)
                 waiting p outgoing h))"
  by pat_completeness auto

termination drain
  by (relation "measure (\<lambda>(deliver, ch, waiting, packet, outgoing, h). length waiting)")
    (auto dest: waiting_shrinks)

declare drain.simps [simp del]

definition receive ::
  "(('k, 'c) secureChannel \<Rightarrow> string \<Rightarrow> 'h \<Rightarrow> ('k, 'c, 'h) received) \<Rightarrow> ('k, 'c) secureChannel \<Rightarrow>
   int \<Rightarrow> string \<Rightarrow> 'h \<Rightarrow> ('k, 'c, 'h) received" where
  "receive deliver ch sequence encoded h =
     (if sequence < sc_expectedIn ch then (Inl (ErrorText ''old session frame sequence''), ch, h)
      else if map_of (sc_pending ch) sequence \<noteq> None
      then (Inl (ErrorText ''duplicate session frame sequence''), ch, h)
      else if sequence - sc_expectedIn ch > int MaxRelayReorderFrames
      then (Inl (ErrorText ''session frame exceeds reorder window''), ch, h)
      else if length encoded > b64_encoded_len MaxRelayPayloadBytes
      then (Inl (ErrorText ''invalid session frame payload''), ch, h)
      else case b64_decode encoded of
        None \<Rightarrow> (Inl (ErrorText ''invalid session frame payload''), ch, h)
      | Some packet \<Rightarrow>
          if length packet > MaxRelayPayloadBytes \<or> b64_encode packet \<noteq> encoded
          then (Inl (ErrorText ''invalid session frame payload''), ch, h)
          else if sequence > sc_expectedIn ch then
            (if length (sc_pending ch) \<ge> MaxRelayReorderFrames \<or>
                sc_pendingBytes ch + length packet > MaxRelayReorderBytes
             then (Inl (ErrorText ''session frame reorder buffer full''), ch, h)
             else (Inr ([], sc_sendCipher ch \<noteq> None \<and> cp_peerHello (sc_processor ch)),
               ch\<lparr>sc_pending := (sequence, packet) # sc_pending ch,
                  sc_pendingBytes := sc_pendingBytes ch + length packet\<rparr>, h))
          else drain deliver ch (sc_pending ch) packet [] h)"

section \<open>Sending\<close>

definition wireEnvelope :: "string \<Rightarrow> string \<Rightarrow> json \<Rightarrow> json" where
  "wireEnvelope messageType i body = JObj
     [(''protocol'', JStr ProtocolName), (''v'', JInt ProtocolVersion), (''type'', JStr messageType),
      (''id'', JStr i), (''body'', body)]"

definition frame_json :: "string \<Rightarrow> string \<Rightarrow> int \<Rightarrow> string \<Rightarrow> json" where
  "frame_json idk i sequence payload =
     JObj [(idk, JStr i), (''seq'', JInt sequence), (''payload'', JStr payload)]"

definition pageChangedEvent ::
  "('k, 'c) noise \<Rightarrow> 'h control_env \<Rightarrow> ('k, 'c) secureChannel \<Rightarrow> resolvePageObservation \<Rightarrow> 'h \<Rightarrow>
   (goerr + string option) \<times> ('k, 'c) secureChannel \<times> 'h" where
  "pageChangedEvent ns env ch observation h =
     (case sc_sendCipher ch of
        None \<Rightarrow> (Inl (ErrorText ''cannot send Resolve page event''), ch, h)
      | Some sendCipher \<Rightarrow>
          if \<not> cp_peerHello (sc_processor ch) \<or> ob_page observation = '''' \<or>
             ob_observedAt observation = None
          then (Inl (ErrorText ''cannot send Resolve page event''), ch, h)
          else if \<not> time_after (ob_observedAt observation) (sc_lastPageCommandAt ch)
          then (Inr None, ch, h)
          else if ob_page observation = sc_lastResolvePage ch then (Inr None, ch, h)
          else let ch = ch\<lparr>sc_lastResolvePage := ob_page observation\<rparr> in
            if \<not> supportedResolvePage (ob_page observation) then (Inr None, ch, h)
            else (case ce_uuid env h of
              (Inl e, h) \<Rightarrow> (Inl e, ch, h)
            | (Inr i, h) \<Rightarrow>
                (case ce_marshal env (JObj
                   [(''protocol'', JStr ControlProtocolName), (''v'', JInt 1), (''type'', JStr ''event''),
                    (''id'', JStr i),
                    (''body'', JObj [(''name'', JStr ''resolve.page.changed''),
                       (''data'', JObj [(''page'', JStr (ob_page observation))])])]) of
                   Inl e \<Rightarrow> (Inl e, ch, h)
                 | Inr plaintext \<Rightarrow>
                     (case n_encrypt ns sendCipher plaintext of
                        (Inl e, c) \<Rightarrow> (Inl e, ch\<lparr>sc_sendCipher := Some c\<rparr>, h)
                      | (Inr packet, c) \<Rightarrow>
                          (Inr (Some packet), ch\<lparr>sc_sendCipher := Some c\<rparr>, h)))))"

text \<open>\<open>transmit\<close> writes a message to the connection.\<close>

definition sendPacket ::
  "'h control_env \<Rightarrow> (json \<Rightarrow> 'h \<Rightarrow> goerr option \<times> 'h) \<Rightarrow> ('k, 'c) secureChannel \<Rightarrow> string \<Rightarrow> 'h \<Rightarrow>
   goerr option \<times> ('k, 'c) secureChannel \<times> 'h" where
  "sendPacket env transmit ch packet h =
     (case ce_uuid env h of
        (Inl e, h) \<Rightarrow> (Some e, ch, h)
      | (Inr i, h) \<Rightarrow>
          (case transmit (wireEnvelope ''session.frame'' i
                  (frame_json ''sessionId'' (sc_sessionID ch) (sc_nextOut ch) (b64_encode packet))) h of
             (r, h) \<Rightarrow> (r, ch\<lparr>sc_nextOut := sc_nextOut ch + 1\<rparr>, h)))"

definition currentSessionFrame ::
  "Envelope \<Rightarrow> ('k, 'c) secureChannel option \<Rightarrow> goerr + FrameBody option" where
  "currentSessionFrame envelope secure =
     (case decode_FrameBody ''sessionId'' (env_Body envelope) of
        None \<Rightarrow> Inl (ErrorText ''relay returned an invalid session frame'')
      | Some frame \<Rightarrow>
          (case secure of
             None \<Rightarrow> Inr None
           | Some ch \<Rightarrow> if fb_ID frame \<noteq> sc_sessionID ch then Inr None else Inr (Some frame)))"

end
