(* ===== verification/ChannelOrder.thy ===== *)
theory ChannelOrder
  imports SecureChannel
begin

text \<open>
  The reordering of session frames (\<^verbatim>\<open>secureChannel.receive\<close> of \<^verbatim>\<open>internal/companion/relay.go\<close>): whatever the
  order of arrival, the packets are delivered once each, in the order of their sequence numbers, and
  the buffer stays within its bounds. The argument uses of the delivery only that it leaves the
  bookkeeping of the buffer alone (locale \<open>delivery\<close>).
\<close>

section \<open>The interface of a delivery\<close>

locale delivery =
  fixes deliver :: "('k, 'c) secureChannel \<Rightarrow> string \<Rightarrow> 'h \<Rightarrow> ('k, 'c, 'h) received"
  assumes bookkeeping: "deliver ch packet h = (r, ch', h') \<Longrightarrow>
    sc_expectedIn ch' = sc_expectedIn ch \<and> sc_pending ch' = sc_pending ch \<and>
    sc_pendingBytes ch' = sc_pendingBytes ch"

text \<open>The delivery with a note of the packets it was given, and a session: frames until an error.\<close>

definition noting ::
  "(('k, 'c) secureChannel \<Rightarrow> string \<Rightarrow> 'h \<Rightarrow> ('k, 'c, 'h) received) \<Rightarrow>
   ('k, 'c) secureChannel \<Rightarrow> string \<Rightarrow> 'h \<times> string list \<Rightarrow> ('k, 'c, 'h \<times> string list) received" where
  "noting deliver ch packet h =
     (case deliver ch packet (fst h) of (r, ch', h') \<Rightarrow> (r, ch', (h', snd h @ [packet])))"

fun receive_all ::
  "(('k, 'c) secureChannel \<Rightarrow> string \<Rightarrow> 'h \<Rightarrow> ('k, 'c, 'h) received) \<Rightarrow> ('k, 'c) secureChannel \<Rightarrow>
   (int \<times> string) list \<Rightarrow> 'h \<Rightarrow> goerr option \<times> ('k, 'c) secureChannel \<times> 'h" where
  "receive_all deliver ch [] h = (None, ch, h)"
| "receive_all deliver ch (f # fs) h =
     (case receive deliver ch (fst f) (snd f) h of
        (Inl e, ch', h') \<Rightarrow> (Some e, ch', h')
      | (Inr out, ch', h') \<Rightarrow> receive_all deliver ch' fs h')"

definition frame_packet :: "int \<times> string \<Rightarrow> int \<times> string" where
  "frame_packet f = (fst f, case b64_decode (snd f) of None \<Rightarrow> '''' | Some p \<Rightarrow> p)"

definition delivered :: "string list \<Rightarrow> (int \<times> string) set" where
  "delivered seen = set (map (\<lambda>(k, p). (int k + 1, p)) (enumerate 0 seen))"

definition buffer_ok :: "('k, 'c) secureChannel \<Rightarrow> bool" where
  "buffer_ok ch \<longleftrightarrow> distinct (map fst (sc_pending ch)) \<and>
     (\<forall>f \<in> set (sc_pending ch). sc_expectedIn ch < fst f \<and>
        fst f \<le> sc_expectedIn ch + int MaxRelayReorderFrames) \<and>
     length (sc_pending ch) \<le> MaxRelayReorderFrames \<and>
     sc_pendingBytes ch = sum_list (map (\<lambda>f. length (snd f)) (sc_pending ch)) \<and>
     sc_pendingBytes ch \<le> MaxRelayReorderBytes"

text \<open>\<open>accepted\<close> are the frames taken so far: those delivered, in order, and those that wait.\<close>

definition in_order :: "('k, 'c) secureChannel \<Rightarrow> string list \<Rightarrow> (int \<times> string) set \<Rightarrow> bool" where
  "in_order ch seen accepted \<longleftrightarrow> buffer_ok ch \<and> sc_expectedIn ch = int (length seen) + 1 \<and>
     accepted = delivered seen \<union> set (sc_pending ch)"

lemma delivered_snoc: "delivered (seen @ [p]) = insert (int (length seen) + 1, p) (delivered seen)"
  by (auto simp: delivered_def enumerate_append_eq)

lemma delivered_mem: "(i, p) \<in> delivered seen \<longleftrightarrow> (\<exists>k < length seen. i = int k + 1 \<and> p = seen ! k)"
proof -
  have "(k, q) \<in> set (enumerate 0 seen) \<longleftrightarrow> k < length seen \<and> q = seen ! k" for k q
    by (auto simp: in_set_enumerate_eq)
  then show ?thesis unfolding delivered_def by force
qed

lemma delivered_bound: "f \<in> delivered seen \<Longrightarrow> 1 \<le> fst f \<and> fst f \<le> int (length seen)"
  by (cases f) (auto simp: delivered_mem)

lemma delete_split:
  assumes "distinct (map fst xs)" and "map_of xs k = Some v"
  shows "set xs = insert (k, v) (set (AList.delete k xs)) \<and>
    length xs = Suc (length (AList.delete k xs)) \<and>
    sum_list (map (\<lambda>f. length (snd f)) xs) =
      length v + sum_list (map (\<lambda>f. length (snd f)) (AList.delete k xs))"
proof -
  obtain as bs where xs: "xs = as @ (k, v) # bs"
    using assms(2) by (meson map_of_SomeD split_list)
  have "AList.delete k as = as" "AList.delete k bs = bs"
    using assms(1) unfolding xs by (auto simp: AList.delete_eq filter_id_conv image_iff)
  then have "AList.delete k xs = as @ bs"
    unfolding xs by (simp add: AList.delete_eq)
  then show ?thesis by (simp add: xs)
qed

context delivery
begin

lemma noting_bookkeeping: "delivery (noting deliver)"
  by unfold_locales (auto simp: noting_def bookkeeping split: prod.splits)

lemma drain_in_order:
  assumes "drain (noting deliver) ch waiting packet outgoing (h, seen) = (Inr r, ch', (h', seen'))"
    and "sc_pending ch = waiting" and "buffer_ok ch" and "sc_expectedIn ch = int (length seen) + 1"
  shows "in_order ch' seen' (insert (sc_expectedIn ch, packet) (delivered seen \<union> set waiting))"
  using assms
proof (induction "length waiting" arbitrary: ch waiting packet outgoing h seen rule: less_induct)
  case less
  obtain packets ready ch1 h1 where d: "deliver ch packet h = (Inr (packets, ready), ch1, h1)"
    using less.prems(1)
    by (subst (asm) drain.simps) (auto simp: noting_def split: prod.splits sum.splits)
  note keep = bookkeeping [OF d]
  define e where "e = sc_expectedIn ch + 1"
  have snoc: "delivered (seen @ [packet]) = insert (sc_expectedIn ch, packet) (delivered seen)"
    using less.prems(4) by (simp add: delivered_snoc)
  have keys: "\<forall>f \<in> set waiting. e \<le> fst f \<and> fst f \<le> e + int MaxRelayReorderFrames"
    and dist: "distinct (map fst waiting)"
    using less.prems(2,3) by (fastforce simp: buffer_ok_def e_def)+
  show ?case
  proof (cases "map_of waiting e")
    case None
    then have fresh: "e \<notin> fst ` set waiting" by (simp add: map_of_eq_None_iff)
    have res: "ch' = ch1\<lparr>sc_expectedIn := e\<rparr>" "seen' = seen @ [packet]"
      using less.prems(1) d keep None
      by (subst (asm) drain.simps; auto simp: noting_def e_def Let_def)+
    have "\<forall>f \<in> set waiting. e < fst f"
      using fresh keys by (metis antisym_conv1 image_eqI)
    with less.prems(2,3,4) keep keys show ?thesis
      unfolding in_order_def buffer_ok_def res snoc e_def by simp
  next
    case (Some p)
    define rest where "rest = AList.delete e waiting"
    define ch2 where "ch2 = ch1\<lparr>sc_expectedIn := e, sc_pending := rest,
      sc_pendingBytes := sc_pendingBytes ch1 - length p\<rparr>"
    have run: "drain (noting deliver) ch2 rest p (outgoing @ packets) (h1, seen @ [packet]) =
        (Inr r, ch', (h', seen'))"
      using less.prems(1) d keep Some
      by (subst (asm) drain.simps) (simp add: noting_def e_def Let_def ch2_def rest_def)
    note split = delete_split [OF dist Some, folded rest_def]
    have "distinct (map fst rest)" and "\<forall>f \<in> set rest. fst f \<noteq> e"
      using dist by (auto simp: rest_def AList.delete_eq distinct_map_filter)
    then have "buffer_ok ch2"
      using less.prems(2,3) keep split keys
      unfolding buffer_ok_def ch2_def by (fastforce simp: order.strict_iff_order)
    moreover have "length rest < length waiting" using split by simp
    ultimately have "in_order ch' seen' (insert (e, p) (delivered (seen @ [packet]) \<union> set rest))"
      using less.hyps [of rest ch2 p "outgoing @ packets" h1 "seen @ [packet]"] run less.prems(4)
      by (simp add: ch2_def e_def)
    moreover have "insert (e, p) (delivered (seen @ [packet]) \<union> set rest) =
        insert (sc_expectedIn ch, packet) (delivered seen \<union> set waiting)"
      using split snoc by auto
    ultimately show ?thesis by simp
  qed
qed

lemma receive_in_order:
  assumes "receive (noting deliver) ch sequence encoded (h, seen) = (Inr r, ch', (h', seen'))"
    and "in_order ch seen accepted"
  shows "in_order ch' seen' (insert (frame_packet (sequence, encoded)) accepted) \<and>
    frame_packet (sequence, encoded) \<notin> accepted \<and> sequence \<notin> fst ` accepted"
proof -
  obtain packet where p: "b64_decode encoded = Some packet"
    and new: "sc_expectedIn ch \<le> sequence" "map_of (sc_pending ch) sequence = None"
      "sequence - sc_expectedIn ch \<le> int MaxRelayReorderFrames"
    using assms(1) by (auto simp: receive_def split: if_splits option.splits)
  have f: "frame_packet (sequence, encoded) = (sequence, packet)"
    by (simp add: frame_packet_def p)
  have "fst f < sequence" if "f \<in> delivered seen" for f
    using delivered_bound [OF that] new(1) assms(2) by (simp add: in_order_def)
  then have fresh: "sequence \<notin> fst ` accepted"
    using assms(2) new(2) by (auto simp: in_order_def map_of_eq_None_iff)
  have "in_order ch' seen' (insert (sequence, packet) accepted)"
  proof (cases "sequence = sc_expectedIn ch")
    case True
    then have "drain (noting deliver) ch (sc_pending ch) packet [] (h, seen) = (Inr r, ch', (h', seen'))"
      using assms(1) p by (auto simp: receive_def split: if_splits)
    from drain_in_order [OF this refl] show ?thesis
      using assms(2) True by (simp add: in_order_def)
  next
    case False
    then show ?thesis
      using assms p new by (auto simp: receive_def in_order_def buffer_ok_def map_of_eq_None_iff
          split: if_splits) (metis fst_conv)+
  qed
  with fresh show ?thesis unfolding f by force
qed

lemma receive_all_in_order:
  assumes "receive_all (noting deliver) ch frames (h, seen) = (None, ch', (h', seen'))"
    and "in_order ch seen accepted"
  shows "in_order ch' seen' (accepted \<union> frame_packet ` set frames) \<and> distinct (map fst frames) \<and>
    fst ` set frames \<inter> fst ` accepted = {}"
  using assms
proof (induction frames arbitrary: ch h seen accepted)
  case (Cons f frames)
  obtain out ch1 h1 seen1 where
    r: "receive (noting deliver) ch (fst f) (snd f) (h, seen) = (Inr out, ch1, (h1, seen1))"
    using Cons.prems(1) by (auto split: prod.splits sum.splits)
  have rest: "receive_all (noting deliver) ch1 frames (h1, seen1) = (None, ch', (h', seen'))"
    using Cons.prems(1) r by simp
  note step = receive_in_order [OF r Cons.prems(2), unfolded prod.collapse]
  have "fst (frame_packet f) = fst f" by (simp add: frame_packet_def)
  moreover from step have "in_order ch1 seen1 (insert (frame_packet f) accepted)" by simp
  note Cons.IH [OF rest this]
  ultimately show ?case using step by auto
qed simp

end

lemma in_order_unique:
  assumes "in_order ch seen accepted" and "in_order ch' seen' accepted"
    and inj: "\<And>i p q. (i, p) \<in> accepted \<Longrightarrow> (i, q) \<in> accepted \<Longrightarrow> p = q"
  shows "length seen \<le> length seen' \<and> (\<forall>k < length seen. seen ! k = seen' ! k)"
proof -
  have shorter: "length seen \<le> length seen'"
  proof (rule ccontr)
    assume "\<not> ?thesis"
    then have "(int (length seen') + 1, seen ! length seen') \<in> accepted"
      using assms(1) by (auto simp: in_order_def delivered_mem)
    with assms(2) show False by (auto simp: in_order_def buffer_ok_def delivered_mem)
  qed
  have "seen ! k = seen' ! k" if "k < length seen" for k
  proof (rule inj)
    show "(int k + 1, seen ! k) \<in> accepted"
      using assms(1) that by (auto simp: in_order_def delivered_mem)
    have "(int k + 1, seen' ! k) \<in> delivered seen'"
      using that shorter by (auto simp: delivered_mem)
    then show "(int k + 1, seen' ! k) \<in> accepted" using assms(2) by (simp add: in_order_def)
  qed
  with shorter show ?thesis by simp
qed

section \<open>The channel of the code\<close>

lemma receivePacket_bookkeeping:
  "receivePacket ns env clock ch packet h = (r, ch', h') \<Longrightarrow>
    sc_expectedIn ch' = sc_expectedIn ch \<and> sc_pending ch' = sc_pending ch \<and>
    sc_pendingBytes ch' = sc_pendingBytes ch"
  by (auto simp: receivePacket_def receiveHandshake_def receiveEncrypted_def Let_def
      split: option.splits prod.splits sum.splits if_splits)

interpretation packets: delivery "receivePacket ns env clock"
  by unfold_locales (rule receivePacket_bookkeeping)

definition fresh_channel :: "('k, 'c) secureChannel \<Rightarrow> bool" where
  "fresh_channel ch \<longleftrightarrow> sc_expectedIn ch = 1 \<and> sc_pending ch = [] \<and> sc_pendingBytes ch = 0"

lemma fresh_in_order: "fresh_channel ch \<Longrightarrow> in_order ch [] {}"
  by (auto simp: fresh_channel_def in_order_def buffer_ok_def delivered_def)

lemma newSecureChannel_fresh: "newSecureChannel ns config sessionID = Inr ch \<Longrightarrow> fresh_channel ch"
  by (auto simp: newSecureChannel_def fresh_channel_def split: option.splits sum.splits)

text \<open>C17: however the session frames of a fresh channel arrive, as long as none is refused: no sequence
  number occurs twice, the packets that were delivered are those of the sequence numbers 1, 2, 3 up to
  the next one expected, in this order and once each, every other frame waits in the buffer, and the
  buffer keeps its bounds of 8 frames, 8 sequence numbers ahead and 128 KiB.\<close>

theorem frames_delivered_in_order:
  assumes "fresh_channel ch"
    and "receive_all (noting (receivePacket ns env clock)) ch frames (h, []) = (None, ch', (h', seen))"
  shows "distinct (map fst frames) \<and>
    frame_packet ` set frames = delivered seen \<union> set (sc_pending ch') \<and>
    sc_expectedIn ch' = int (length seen) + 1 \<and> buffer_ok ch'"
  using packets.receive_all_in_order [OF assms(2) fresh_in_order [OF assms(1)]]
  by (simp add: in_order_def)

text \<open>C18: the order of arrival does not matter: two sessions that receive the same frames, each in its own
  order and without a refusal, deliver the same packets in the same order.\<close>

theorem arrival_order_irrelevant:
  assumes "fresh_channel ch" and "set frames = set frames'"
    and "receive_all (noting (receivePacket ns env clock)) ch frames (h, []) = (None, ch1, (h1, seen1))"
    and "receive_all (noting (receivePacket ns env clock)) ch frames' (h, []) = (None, ch2, (h2, seen2))"
  shows "seen1 = seen2"
proof -
  note fresh = fresh_in_order [OF assms(1)]
  have ord: "in_order ch1 seen1 (frame_packet ` set frames)" "distinct (map fst frames)"
      "in_order ch2 seen2 (frame_packet ` set frames)"
    using packets.receive_all_in_order [OF assms(3) fresh]
      packets.receive_all_in_order [OF assms(4) fresh] assms(2) by simp_all
  have "p = q" if "(i, p) \<in> frame_packet ` set frames" "(i, q) \<in> frame_packet ` set frames" for i p q
    using that ord(2) by (auto simp: frame_packet_def distinct_map inj_on_def)
  with in_order_unique [OF ord(1,3)] in_order_unique [OF ord(3,1)] show ?thesis
    by (meson le_antisym nth_equalityI)
qed

section \<open>A channel at work\<close>

definition plain_noise :: "(unit, unit) noise" where
  "plain_noise = \<lparr>n_new = (\<lambda>p k. Some ()), n_read = (\<lambda>k m. Some ([], ''peer'', ())),
     n_write = (\<lambda>k. Some (''reply'', (), (), ())), n_encrypt = (\<lambda>c m. (Inr m, c)),
     n_decrypt = (\<lambda>c m. (Inr m, c))\<rparr>"

definition sample_channel :: "(unit, unit) secureChannel" where
  "sample_channel = \<lparr>sc_sessionID = session_id, sc_expectedIn = 1, sc_nextOut = 1,
     sc_peerKey = ''peer'', sc_handshake = (), sc_sendCipher = None, sc_receiveCipher = None,
     sc_processor = newControlProcessor None, sc_pending = [], sc_pendingBytes = 0,
     sc_lastPageCommandAt = None, sc_lastResolvePage = ''''\<rparr>"

definition sample_run :: "(int \<times> string) list \<Rightarrow>
    goerr option \<times> (unit, unit) secureChannel \<times> (nat \<times> string list)" where
  "sample_run frames = receive_all (noting (receivePacket plain_noise sample_env (\<lambda>h. (0, h))))
     sample_channel frames (0, [])"

lemma AA_bytes: "b64_decode ''AA'' = Some [CHR 0x00]" "b64_encode [CHR 0x00] = ''AA''"
  by code_simp+

lemma AA_char: "enc_char 0 = CHR ''A''"
  by code_simp

lemma sample_channel_fresh: "fresh_channel sample_channel"
  by (simp add: fresh_channel_def sample_channel_def)

definition after_handshake :: "(unit, unit) secureChannel" where
  "after_handshake = sample_channel\<lparr>sc_sendCipher := Some (), sc_receiveCipher := Some (),
     sc_expectedIn := 2, sc_pending := [(3, [CHR 0x00])], sc_pendingBytes := 1\<rparr>"

lemmas sample_run_simps = sample_run_def receive_def AA_bytes AA_char b64_encoded_len_def sample_channel_def
  after_handshake_def drain.simps noting_def receivePacket_def receiveHandshake_def Let_def
  plain_noise_def controlHello_def sample_env_def MaxRelayReorderFrames_def MaxRelayPayloadBytes_def
  MaxRelayReorderBytes_def

lemma sample_late: "sample_run [(3, ''AA''), (1, ''AA'')] = (None, after_handshake, (0, [[CHR 0x00]]))"
  by (simp add: sample_run_simps)

lemma sample_straight: "sample_run [(1, ''AA''), (3, ''AA'')] = (None, after_handshake, (0, [[CHR 0x00]]))"
  by (simp add: sample_run_simps)

theorem frames_delivered_in_order_witness:
  "frame_packet ` {(3, ''AA''), (1, ''AA'')} = delivered [[CHR 0x00]] \<union> set (sc_pending after_handshake)"
  using frames_delivered_in_order [OF sample_channel_fresh sample_late [unfolded sample_run_def]]
  by simp

theorem arrival_order_irrelevant_witness:
  "\<exists>seen. snd (snd (snd (sample_run [(3, ''AA''), (1, ''AA'')]))) = seen \<and>
     snd (snd (snd (sample_run [(1, ''AA''), (3, ''AA'')]))) = seen"
  using arrival_order_irrelevant [OF sample_channel_fresh _ sample_late [unfolded sample_run_def]
      sample_straight [unfolded sample_run_def]]
    sample_late sample_straight by auto

end
