(* ===== verification/ConfigStorage.thy ===== *)
theory ConfigStorage
  imports CompanionModel
begin

text \<open>
  Where the companion keeps its credentials: \<^verbatim>\<open>internal/companion/storage.go\<close> and the Go part of
  \<^verbatim>\<open>storage_keychain_darwin.go\<close>. The file system and the Keychain service are records of functions over
  a state; the JSON text of a configuration is given by the codec of \<open>config_codec\<close>. Closing a file after
  reading it has no effect on the result and is left out.
\<close>

section \<open>The codec and the interface of a store\<close>

text \<open>\<open>print_indent\<close> and \<open>print\<close> are \<^verbatim>\<open>json.MarshalIndent\<close> and \<^verbatim>\<open>json.Marshal\<close> of a configuration, \<open>read_json\<close>
  is \<^verbatim>\<open>json.Unmarshal\<close> into one.\<close>

record config_codec =
  cc_deps :: cdeps
  cc_print_indent :: "Config \<Rightarrow> goerr + string"
  cc_print :: "Config \<Rightarrow> goerr + string"
  cc_read_json :: "string \<Rightarrow> Config option"

record 's ConfigStore =
  cs_Load :: "'s \<Rightarrow> (goerr + Config) \<times> 's"
  cs_Save :: "Config \<Rightarrow> 's \<Rightarrow> goerr option \<times> 's"
  cs_Delete :: "'s \<Rightarrow> goerr option \<times> 's"

definition maxStoredConfigBytes :: nat where
  "maxStoredConfigBytes = 64 * 1024"

definition invalid_config :: goerr where
  "invalid_config = ErrorText ''invalid companion configuration''"

definition is_NotExist :: "goerr \<Rightarrow> bool" where
  "is_NotExist e = errors_Is e (\<lambda>x. x = NotExist)"

definition decodeStoredConfig :: "config_codec \<Rightarrow> string \<Rightarrow> goerr + Config" where
  "decodeStoredConfig cc bytes =
     (if bytes = [] \<or> length bytes > maxStoredConfigBytes then Inl invalid_config
      else case cc_read_json cc bytes of
        None \<Rightarrow> Inl invalid_config
      | Some config \<Rightarrow>
          (case Config_validate (cc_deps cc) config of Some e \<Rightarrow> Inl e | None \<Rightarrow> Inr config))"

definition encodeStoredConfig :: "config_codec \<Rightarrow> Config \<Rightarrow> goerr + string" where
  "encodeStoredConfig cc config =
     (case Config_validate (cc_deps cc) config of
        Some e \<Rightarrow> Inl e
      | None \<Rightarrow>
          (case cc_print cc config of
             Inl e \<Rightarrow> Inl e
           | Inr bytes \<Rightarrow>
               if length bytes > maxStoredConfigBytes then Inl invalid_config else Inr bytes))"

section \<open>The file store\<close>

text \<open>\<open>fs_dir\<close> is \<^verbatim>\<open>filepath.Dir\<close>; the modes 384 and 448 are the octal 600 and 700 of the code.\<close>

record fileInfo =
  fi_regular :: bool
  fi_perm :: nat
  fi_identity :: nat

record 's fs =
  fs_dir :: "string \<Rightarrow> string"
  fs_lstat :: "string \<Rightarrow> 's \<Rightarrow> (goerr + fileInfo) \<times> 's"
  fs_open :: "string \<Rightarrow> 's \<Rightarrow> (goerr + nat) \<times> 's"
  fs_stat :: "nat \<Rightarrow> 's \<Rightarrow> (goerr + fileInfo) \<times> 's"
  fs_read :: "nat \<Rightarrow> nat \<Rightarrow> 's \<Rightarrow> (goerr + string) \<times> 's"
  fs_mkdirAll :: "string \<Rightarrow> nat \<Rightarrow> 's \<Rightarrow> goerr option \<times> 's"
  fs_createTemp :: "string \<Rightarrow> 's \<Rightarrow> (goerr + string \<times> nat) \<times> 's"
  fs_chmod :: "nat \<Rightarrow> nat \<Rightarrow> 's \<Rightarrow> goerr option \<times> 's"
  fs_write :: "nat \<Rightarrow> string \<Rightarrow> 's \<Rightarrow> goerr option \<times> 's"
  fs_sync :: "nat \<Rightarrow> 's \<Rightarrow> goerr option \<times> 's"
  fs_close :: "nat \<Rightarrow> 's \<Rightarrow> goerr option \<times> 's"
  fs_rename :: "string \<Rightarrow> string \<Rightarrow> 's \<Rightarrow> goerr option \<times> 's"
  fs_remove :: "string \<Rightarrow> 's \<Rightarrow> goerr option \<times> 's"

text \<open>No permission for the group and for others: \<^verbatim>\<open>Perm() & 0o077 == 0\<close>.\<close>

definition private_file :: "fileInfo \<Rightarrow> bool" where
  "private_file i \<longleftrightarrow> fi_regular i \<and> fi_perm i mod 64 = 0"

definition insecure_file :: goerr where
  "insecure_file = ErrorText ''refusing insecure companion configuration file''"

definition file_Load :: "config_codec \<Rightarrow> 's fs \<Rightarrow> string \<Rightarrow> 's \<Rightarrow> (goerr + Config) \<times> 's" where
  "file_Load cc fs path s =
     (case fs_lstat fs path s of
        (Inl e, s) \<Rightarrow> (Inl e, s)
      | (Inr pathInfo, s) \<Rightarrow>
          if \<not> private_file pathInfo then (Inl insecure_file, s)
          else (case fs_open fs path s of
            (Inl e, s) \<Rightarrow> (Inl e, s)
          | (Inr file, s) \<Rightarrow>
              (case fs_stat fs file s of
                 (Inl e, s) \<Rightarrow> (Inl e, s)
               | (Inr openedInfo, s) \<Rightarrow>
                   if \<not> private_file openedInfo \<or> fi_identity pathInfo \<noteq> fi_identity openedInfo
                   then (Inl insecure_file, s)
                   else (case fs_read fs file (maxStoredConfigBytes + 1) s of
                     (Inl e, s) \<Rightarrow> (Inl e, s)
                   | (Inr bytes, s) \<Rightarrow> (decodeStoredConfig cc bytes, s)))))"

text \<open>\<open>after\<close> goes on when a step has no error, \<open>or_close\<close> closes the temporary file otherwise.\<close>

definition after :: "goerr option \<times> 's \<Rightarrow> ('s \<Rightarrow> goerr option \<times> 's) \<Rightarrow> goerr option \<times> 's" where
  "after r f = (case r of (Some e, s) \<Rightarrow> (Some e, s) | (None, s) \<Rightarrow> f s)"

definition or_close ::
  "'s fs \<Rightarrow> nat \<Rightarrow> goerr option \<times> 's \<Rightarrow> ('s \<Rightarrow> goerr option \<times> 's) \<Rightarrow> goerr option \<times> 's" where
  "or_close fs file r f =
     (case r of (Some e, s) \<Rightarrow> (Some e, snd (fs_close fs file s)) | (None, s) \<Rightarrow> f s)"

definition write_temporary ::
  "'s fs \<Rightarrow> string \<Rightarrow> string \<Rightarrow> nat \<Rightarrow> string \<Rightarrow> 's \<Rightarrow> goerr option \<times> 's" where
  "write_temporary fs path temporaryPath file bytes s =
     or_close fs file (fs_chmod fs file 384 s) (\<lambda>s.
     or_close fs file (fs_write fs file bytes s) (\<lambda>s.
     or_close fs file (fs_sync fs file s) (\<lambda>s.
     after (fs_close fs file s) (\<lambda>s. fs_rename fs temporaryPath path s))))"

definition file_Save :: "config_codec \<Rightarrow> 's fs \<Rightarrow> string \<Rightarrow> Config \<Rightarrow> 's \<Rightarrow> goerr option \<times> 's" where
  "file_Save cc fs path config s =
     (case Config_validate (cc_deps cc) config of
        Some e \<Rightarrow> (Some e, s)
      | None \<Rightarrow>
          after (fs_mkdirAll fs (fs_dir fs path) 448 s) (\<lambda>s.
            case cc_print_indent cc config of
              Inl e \<Rightarrow> (Some e, s)
            | Inr text \<Rightarrow>
                let bytes = text @ [CHR 0x0A] in
                if length bytes > maxStoredConfigBytes then (Some invalid_config, s)
                else (case fs_createTemp fs (fs_dir fs path) s of
                  (Inl e, s) \<Rightarrow> (Some e, s)
                | (Inr (temporaryPath, file), s) \<Rightarrow>
                    (case write_temporary fs path temporaryPath file bytes s of
                       (r, s) \<Rightarrow> (r, snd (fs_remove fs temporaryPath s))))))"

definition file_Delete :: "'s fs \<Rightarrow> string \<Rightarrow> 's \<Rightarrow> goerr option \<times> 's" where
  "file_Delete fs path s =
     (case fs_remove fs path s of
        (None, s) \<Rightarrow> (None, s)
      | (Some e, s) \<Rightarrow> if is_NotExist e then (None, s) else (Some e, s))"

definition FileConfigStore :: "config_codec \<Rightarrow> 's fs \<Rightarrow> string \<Rightarrow> 's ConfigStore" where
  "FileConfigStore cc fs path =
     \<lparr>cs_Load = file_Load cc fs path, cs_Save = file_Save cc fs path, cs_Delete = file_Delete fs path\<rparr>"

section \<open>The Keychain store\<close>

datatype keychain_status = SecSuccess | SecItemNotFound | SecOther int

record 's keychain =
  kc_load :: "string \<Rightarrow> string \<Rightarrow> 's \<Rightarrow> (keychain_status \<times> string) \<times> 's"
  kc_save :: "string \<Rightarrow> string \<Rightarrow> string \<Rightarrow> 's \<Rightarrow> keychain_status \<times> 's"
  kc_delete :: "string \<Rightarrow> string \<Rightarrow> 's \<Rightarrow> keychain_status \<times> 's"

definition DefaultKeychainService :: string where
  "DefaultKeychainService = ''dev.remote-davinci.companion''"
definition DefaultKeychainAccount :: string where
  "DefaultKeychainAccount = ''configuration-v1''"

definition keychain_identifiers :: "string \<Rightarrow> string \<Rightarrow> goerr + string \<times> string" where
  "keychain_identifiers service account =
     (let service = (if service = '''' then DefaultKeychainService else service);
          account = (if account = '''' then DefaultKeychainAccount else account) in
      if CHR 0x00 \<in> set service \<or> CHR 0x00 \<in> set account
      then Inl (ErrorText ''invalid Keychain item identifier'')
      else Inr (service, account))"

text \<open>The number of a status in the Security framework: \<^verbatim>\<open>errSecSuccess\<close> and \<^verbatim>\<open>errSecItemNotFound\<close>.\<close>

fun status_number :: "keychain_status \<Rightarrow> int" where
  "status_number SecSuccess = 0"
| "status_number SecItemNotFound = -25300"
| "status_number (SecOther n) = n"

definition keychainStatusError :: "string \<Rightarrow> keychain_status \<Rightarrow> goerr" where
  "keychainStatusError operation status = ErrorText
     (''Keychain '' @ operation @ '' failed (status '' @ itoa (status_number status) @ '')'')"

definition keychain_Load ::
  "config_codec \<Rightarrow> 's keychain \<Rightarrow> string \<Rightarrow> string \<Rightarrow> 's \<Rightarrow> (goerr + Config) \<times> 's" where
  "keychain_Load cc kc service account s =
     (case keychain_identifiers service account of
        Inl e \<Rightarrow> (Inl e, s)
      | Inr (service, account) \<Rightarrow>
          (case kc_load kc service account s of ((status, bytes), s) \<Rightarrow>
             if status = SecItemNotFound then (Inl NotExist, s)
             else if status \<noteq> SecSuccess then (Inl (keychainStatusError ''load'' status), s)
             else if bytes = [] \<or> length bytes > maxStoredConfigBytes then (Inl invalid_config, s)
             else (decodeStoredConfig cc bytes, s)))"

definition keychain_Save ::
  "config_codec \<Rightarrow> 's keychain \<Rightarrow> string \<Rightarrow> string \<Rightarrow> Config \<Rightarrow> 's \<Rightarrow> goerr option \<times> 's" where
  "keychain_Save cc kc service account config s =
     (case keychain_identifiers service account of
        Inl e \<Rightarrow> (Some e, s)
      | Inr (service, account) \<Rightarrow>
          (case encodeStoredConfig cc config of
             Inl e \<Rightarrow> (Some e, s)
           | Inr bytes \<Rightarrow>
               (case kc_save kc service account bytes s of (status, s) \<Rightarrow>
                  if status \<noteq> SecSuccess then (Some (keychainStatusError ''save'' status), s) else (None, s))))"

definition keychain_Delete ::
  "'s keychain \<Rightarrow> string \<Rightarrow> string \<Rightarrow> 's \<Rightarrow> goerr option \<times> 's" where
  "keychain_Delete kc service account s =
     (case keychain_identifiers service account of
        Inl e \<Rightarrow> (Some e, s)
      | Inr (service, account) \<Rightarrow>
          (case kc_delete kc service account s of (status, s) \<Rightarrow>
             if status = SecSuccess \<or> status = SecItemNotFound then (None, s)
             else (Some (keychainStatusError ''delete'' status), s)))"

definition KeychainConfigStore ::
  "config_codec \<Rightarrow> 's keychain \<Rightarrow> string \<Rightarrow> string \<Rightarrow> 's ConfigStore" where
  "KeychainConfigStore cc kc service account =
     \<lparr>cs_Load = keychain_Load cc kc service account, cs_Save = keychain_Save cc kc service account,
      cs_Delete = keychain_Delete kc service account\<rparr>"

text \<open>The build without the Keychain.\<close>

definition UnavailableConfigStore :: "'s ConfigStore" where
  "UnavailableConfigStore = \<lparr>cs_Load = (\<lambda>s. (Inl KeychainUnavailable, s)),
     cs_Save = (\<lambda>config s. (Some KeychainUnavailable, s)),
     cs_Delete = (\<lambda>s. (Some KeychainUnavailable, s))\<rparr>"

section \<open>Migration\<close>

definition remove_legacy :: "'s ConfigStore \<Rightarrow> 's \<Rightarrow> goerr option \<times> 's" where
  "remove_legacy legacy s =
     (case cs_Delete legacy s of
        (Some e, s) \<Rightarrow> (Some (Wrapped ''remove migrated legacy configuration'' e), s)
      | (None, s) \<Rightarrow> (None, s))"

definition migrate_present ::
  "cdeps \<Rightarrow> 's ConfigStore \<Rightarrow> Config \<Rightarrow> 's \<Rightarrow> goerr option \<times> 's" where
  "migrate_present d legacy secure s =
     (case Config_validate d secure of
        Some e \<Rightarrow> (Some (Wrapped ''validate Keychain configuration'' e), s)
      | None \<Rightarrow>
          (case cs_Load legacy s of
             (Inl e, s) \<Rightarrow>
               if is_NotExist e then (None, s) else (Some (Wrapped ''load legacy configuration'' e), s)
           | (Inr old, s) \<Rightarrow>
               (case Config_validate d old of
                  Some e \<Rightarrow> (Some (Wrapped ''validate legacy configuration'' e), s)
                | None \<Rightarrow>
                    if old \<noteq> secure then (Some ConfigStoreMismatch, s)
                    else remove_legacy legacy s)))"

definition migrate_verify ::
  "cdeps \<Rightarrow> 's ConfigStore \<Rightarrow> 's ConfigStore \<Rightarrow> Config \<Rightarrow> 's \<Rightarrow> goerr option \<times> 's" where
  "migrate_verify d legacy keychain old s =
     (case cs_Load keychain s of
        (Inl e, s) \<Rightarrow> (Some (Wrapped ''verify Keychain configuration'' e), s)
      | (Inr verified, s) \<Rightarrow>
          (case Config_validate d verified of
             Some e \<Rightarrow> (Some (Wrapped ''validate verified Keychain configuration'' e), s)
           | None \<Rightarrow>
               if verified \<noteq> old then (Some ConfigStoreMismatch, s)
               else remove_legacy legacy s))"

definition migrate_absent ::
  "cdeps \<Rightarrow> 's ConfigStore \<Rightarrow> 's ConfigStore \<Rightarrow> 's \<Rightarrow> goerr option \<times> 's" where
  "migrate_absent d legacy keychain s =
     (case cs_Load legacy s of
        (Inl e, s) \<Rightarrow>
          if is_NotExist e then (None, s) else (Some (Wrapped ''load legacy configuration'' e), s)
      | (Inr old, s) \<Rightarrow>
          (case Config_validate d old of
             Some e \<Rightarrow> (Some (Wrapped ''validate legacy configuration'' e), s)
           | None \<Rightarrow>
               (case cs_Save keychain old s of
                  (Some e, s) \<Rightarrow> (Some (Wrapped ''save Keychain configuration'' e), s)
                | (None, s) \<Rightarrow> migrate_verify d legacy keychain old s)))"

definition MigrateConfigStore ::
  "cdeps \<Rightarrow> 's ConfigStore option \<Rightarrow> 's ConfigStore option \<Rightarrow> 's \<Rightarrow> goerr option \<times> 's" where
  "MigrateConfigStore d legacy keychain s =
     (case (legacy, keychain) of
        (Some legacy, Some keychain) \<Rightarrow>
          (case cs_Load keychain s of
             (Inr secure, s) \<Rightarrow> migrate_present d legacy secure s
           | (Inl e, s) \<Rightarrow>
               if \<not> is_NotExist e then (Some (Wrapped ''load Keychain configuration'' e), s)
               else migrate_absent d legacy keychain s)
      | _ \<Rightarrow> (Some (ErrorText ''configuration stores are required''), s))"

end
