(* ===== verification/RelayClient.thy ===== *)
theory RelayClient
  imports SecureChannel
begin

text \<open>
  The companion as a client of the relay (\<^verbatim>\<open>relayPeer\<close>, \<^verbatim>\<open>RevokeEnrollment\<close> and \<^verbatim>\<open>Provision\<close> of
  \<^verbatim>\<open>internal/companion/companion.go\<close>). The network, the random source and the key generator are the fields
  of \<open>net\<close>; a connection is a number. The wait for a reply reads at most 33 messages, because every
  other message is kept for later and at most 32 are kept: the recursion ends without fuel.
  Request timeouts are errors of the network.
\<close>

section \<open>Peers and requests\<close>

record 'h net =
  net_parser :: parser
  net_uuid :: "'h \<Rightarrow> (goerr + string) \<times> 'h"
  net_random32 :: "'h \<Rightarrow> (goerr + string) \<times> 'h"
  net_keypair :: "'h \<Rightarrow> (goerr + string \<times> string) \<times> 'h"
  net_dial :: "string \<Rightarrow> string \<Rightarrow> 'h \<Rightarrow> ((goerr \<times> int option) + nat) \<times> 'h"
  net_transmit :: "nat \<Rightarrow> json \<Rightarrow> 'h \<Rightarrow> goerr option \<times> 'h"
  net_receive :: "nat \<Rightarrow> 'h \<Rightarrow> (goerr + string) \<times> 'h"
  net_close :: "nat \<Rightarrow> 'h \<Rightarrow> 'h"

record relayPeer =
  rp_connection :: nat
  rp_pending :: "string list"
  rp_pendingBytes :: nat

definition maxPendingRelayResponses :: nat where
  "maxPendingRelayResponses = 32"
definition maxPendingRelayWireBytes :: nat where
  "maxPendingRelayWireBytes = MaxWebSocketFrameBytes * MaxRelayReorderFrames"

definition relayResponseFailure :: "Envelope \<Rightarrow> string \<Rightarrow> goerr" where
  "relayResponseFailure envelope requestType =
     (let body = env_Body envelope;
          code = (case jstr ''code'' body of Some c \<Rightarrow> c | None \<Rightarrow> '''');
          retryable = (if jraw ''retryable'' body = JNull then None else jbool ''retryable'' body);
          retryAfter = (if jraw ''retryAfterMs'' body = JNull then None else jint ''retryAfterMs'' body) in
      RelayResponseError requestType
        (if code = '''' then Internal
         else case List.find (\<lambda>e. code_string e = code) ErrorCodes of
                Some e \<Rightarrow> e | None \<Rightarrow> OtherCode code)
        retryable retryAfter)"

definition dialRelay :: "'h net \<Rightarrow> string \<Rightarrow> string \<Rightarrow> 'h \<Rightarrow> (goerr + relayPeer) \<times> 'h" where
  "dialRelay n relay authorization h =
     (case net_dial n relay authorization h of
        (Inl (e, Some status), h) \<Rightarrow> (Inl (RelayUpgradeError status), h)
      | (Inl (e, None), h) \<Rightarrow> (Inl (Wrapped ''relay WebSocket upgrade failed'' e), h)
      | (Inr connection, h) \<Rightarrow>
          (Inr \<lparr>rp_connection = connection, rp_pending = [], rp_pendingBytes = 0\<rparr>, h))"

definition queuePending :: "relayPeer \<Rightarrow> string \<Rightarrow> goerr + relayPeer" where
  "queuePending peer raw =
     (if length (rp_pending peer) \<ge> maxPendingRelayResponses \<or>
         rp_pendingBytes peer + length raw > maxPendingRelayWireBytes
      then Inl (ErrorText ''relay returned too many unmatched responses'')
      else Inr (peer\<lparr>rp_pending := rp_pending peer @ [raw],
             rp_pendingBytes := rp_pendingBytes peer + length raw\<rparr>))"

definition reply_result :: "Envelope \<Rightarrow> string \<Rightarrow> goerr + json" where
  "reply_result envelope messageType =
     (if env_Type envelope = ''error'' then Inl (relayResponseFailure envelope messageType)
      else if env_Type envelope \<noteq> ''ok'' \<or> \<not> is_struct (env_Body envelope) \<or>
              jstr ''requestType'' (env_Body envelope) \<noteq> Some messageType
      then Inl (ErrorText ''relay returned an invalid response'')
      else Inr (jraw ''result'' (env_Body envelope)))"

function await_reply ::
  "'h net \<Rightarrow> relayPeer \<Rightarrow> string \<Rightarrow> string \<Rightarrow> 'h \<Rightarrow> (goerr + json) \<times> relayPeer \<times> 'h" where
  "await_reply n peer i messageType h =
     (case net_receive n (rp_connection peer) h of
        (Inl e, h) \<Rightarrow> (Inl e, peer, h)
      | (Inr raw, h) \<Rightarrow>
          (case ParseServer (net_parser n) (Bytes raw) of
             Inl e \<Rightarrow> (Inl (ErrorText ''relay returned an invalid response''), peer, h)
           | Inr envelope \<Rightarrow>
               if env_ReplyTo envelope \<noteq> i then
                 (case queuePending peer raw of
                    Inl e \<Rightarrow> (Inl e, peer, h)
                  | Inr peer' \<Rightarrow> await_reply n peer' i messageType h)
               else (reply_result envelope messageType, peer, h)))"
  by pat_completeness auto
termination await_reply
  by (relation "measure (\<lambda>(n, peer, i, messageType, h). maxPendingRelayResponses - length (rp_pending peer))")
    (auto simp: queuePending_def split: if_splits)

declare await_reply.simps [simp del]

definition request ::
  "'h net \<Rightarrow> relayPeer \<Rightarrow> string \<Rightarrow> json \<Rightarrow> 'h \<Rightarrow> (goerr + json) \<times> relayPeer \<times> 'h" where
  "request n peer messageType body h =
     (case net_uuid n h of
        (Inl e, h) \<Rightarrow> (Inl e, peer, h)
      | (Inr i, h) \<Rightarrow>
          (case net_transmit n (rp_connection peer) (wireEnvelope messageType i body) h of
             (Some e, h) \<Rightarrow> (Inl e, peer, h)
           | (None, h) \<Rightarrow> await_reply n peer i messageType h))"

text \<open>A request whose result is decoded into a struct.\<close>

definition request_into ::
  "'h net \<Rightarrow> relayPeer \<Rightarrow> string \<Rightarrow> json \<Rightarrow> (json \<Rightarrow> 'a option) \<Rightarrow> 'h \<Rightarrow>
   (goerr + 'a) \<times> relayPeer \<times> 'h" where
  "request_into n peer messageType body decode h =
     (case request n peer messageType body h of
        (Inl e, peer, h) \<Rightarrow> (Inl e, peer, h)
      | (Inr result, peer, h) \<Rightarrow>
          (case decode result of
             None \<Rightarrow> (Inl (ErrorText ''json''), peer, h)
           | Some x \<Rightarrow> (Inr x, peer, h)))"

section \<open>Revoking an enrollment\<close>

definition decode_Revoked :: "json \<Rightarrow> bool option" where
  "decode_Revoked j = (if is_struct j then jbool ''revoked'' j else None)"

definition bearer :: "Config \<Rightarrow> string" where
  "bearer config = ''Bearer rd1.'' @ cf_EndpointID config @ ''.'' @ cf_Secret config"

definition checkpoint_revocation ::
  "(Config \<Rightarrow> 'h \<Rightarrow> goerr option \<times> 'h) \<Rightarrow> Config \<Rightarrow> 'h \<Rightarrow> goerr option \<times> 'h" where
  "checkpoint_revocation persist config h =
     (case persist (config\<lparr>cf_LinkRevoked := True\<rparr>) h of
        (Some e, h) \<Rightarrow> (Some (ConfigPersistence ''''), h)
      | (None, h) \<Rightarrow> (None, h))"

definition revoke_link ::
  "'h net \<Rightarrow> (Config \<Rightarrow> 'h \<Rightarrow> goerr option \<times> 'h) \<Rightarrow> Config \<Rightarrow> relayPeer \<Rightarrow> 'h \<Rightarrow>
   goerr option \<times> relayPeer \<times> 'h" where
  "revoke_link n persist config peer h =
     (if cf_LinkRevoked config then (None, peer, h)
      else case request_into n peer ''link.revoke'' (JObj [(''linkId'', JStr (cf_LinkID config))])
                  decode_Revoked h of
             (Inl e, peer, h) \<Rightarrow> (Some e, peer, h)
           | (Inr revoked, peer, h) \<Rightarrow>
               if \<not> revoked
               then (Some (ErrorText ''relay did not acknowledge link revocation''), peer, h)
               else (case checkpoint_revocation persist config h of (r, h) \<Rightarrow> (r, peer, h)))"

definition RevokeEnrollment ::
  "cdeps \<Rightarrow> 'h net \<Rightarrow> Config \<Rightarrow> (Config \<Rightarrow> 'h \<Rightarrow> goerr option \<times> 'h) option \<Rightarrow> 'h \<Rightarrow>
   goerr option \<times> 'h" where
  "RevokeEnrollment d n config persist h =
     (case Config_validate d config of
        Some e \<Rightarrow> (Some e, h)
      | None \<Rightarrow>
          (case persist of
             None \<Rightarrow> (Some (ErrorText ''revocation checkpoint is required''), h)
           | Some persist \<Rightarrow>
               (case dialRelay n (cf_RelayURL config) (bearer config) h of
                  (Inl e, h) \<Rightarrow>
                    if cf_LinkRevoked config then (None, h)
                    else if cf_ActivationPending config \<and> upgrade_status e = Some 401
                    then checkpoint_revocation persist config h
                    else (Some e, h)
                | (Inr peer, h) \<Rightarrow>
                    (case revoke_link n persist config peer h of
                       (Some e, peer, h) \<Rightarrow> (Some e, net_close n (rp_connection peer) h)
                     | (None, peer, h) \<Rightarrow>
                         (case request_into n peer ''endpoint.revoke'' (JObj []) decode_Revoked h of
                            (_, peer, h) \<Rightarrow> (None, net_close n (rp_connection peer) h))))))"

section \<open>Provisioning\<close>

type_synonym provisioned = "Config \<times> EnrollmentResponse \<times> goerr option"

definition zero_EnrollmentResponse :: EnrollmentResponse where
  "zero_EnrollmentResponse = \<lparr>en_V = 0, en_RelayURL = '''', en_LinkID = '''',
     en_ControllerEndpointID = '''', en_CompanionEndpointID = '''', en_CompanionNoiseKey = '''',
     en_Warning = ''''\<rparr>"

definition failed :: "goerr \<Rightarrow> provisioned" where
  "failed e = (zero_Config, zero_EnrollmentResponse, Some e)"

text \<open>
  \<^verbatim>\<open>if err != nil { return Config{}, EnrollmentResponse{}, err }\<close>, for a step and for a request, and the
  deferred closing of a connection.
\<close>

definition or_fail :: "(goerr + 'a) \<times> 'h \<Rightarrow> ('a \<Rightarrow> 'h \<Rightarrow> provisioned \<times> 'h) \<Rightarrow> provisioned \<times> 'h" where
  "or_fail r f = (case r of (Inl e, h) \<Rightarrow> (failed e, h) | (Inr x, h) \<Rightarrow> f x h)"

definition or_fail_peer ::
  "(goerr + 'a) \<times> relayPeer \<times> 'h \<Rightarrow> ('a \<Rightarrow> relayPeer \<Rightarrow> 'h \<Rightarrow> provisioned \<times> 'h) \<Rightarrow> provisioned \<times> 'h"
  where
  "or_fail_peer r f = (case r of (Inl e, peer, h) \<Rightarrow> (failed e, h) | (Inr x, peer, h) \<Rightarrow> f x peer h)"

definition then_close :: "'h net \<Rightarrow> relayPeer \<Rightarrow> 'a \<times> 'h \<Rightarrow> 'a \<times> 'h" where
  "then_close n peer r = (case r of (x, h) \<Rightarrow> (x, net_close n (rp_connection peer) h))"

record CreatedPair =
  cr_PairID :: string
  cr_SideID :: string
  cr_Locator :: string
  cr_ExpiresAt :: int

definition decode_CreatedPair :: "json \<Rightarrow> CreatedPair option" where
  "decode_CreatedPair j =
     (if is_struct j then
        case (jstr ''pairId'' j, jstr ''sideId'' j, jstr ''locator'' j, jint ''expiresAt'' j) of
          (Some p, Some s, Some l, Some x) \<Rightarrow> Some
            \<lparr>cr_PairID = p, cr_SideID = s, cr_Locator = l, cr_ExpiresAt = x\<rparr>
        | _ \<Rightarrow> None
      else None)"

definition decode_JoinedPair :: "json \<Rightarrow> (string \<times> string) option" where
  "decode_JoinedPair j =
     (if is_struct j then
        case (jstr ''pairId'' j, jstr ''sideId'' j) of (Some p, Some s) \<Rightarrow> Some (p, s) | _ \<Rightarrow> None
      else None)"

definition decode_Pending :: "json \<Rightarrow> bool option" where
  "decode_Pending j = (if is_struct j then jbool ''pending'' j else None)"

definition decode_Active :: "json \<Rightarrow> (string \<times> bool) option" where
  "decode_Active j =
     (if is_struct j then
        case (jstr ''linkId'' j, jbool ''active'' j) of (Some l, Some a) \<Rightarrow> Some (l, a) | _ \<Rightarrow> None
      else None)"

definition marshal_PairCommitBody :: "PairCommitBody \<Rightarrow> json" where
  "marshal_PairCommitBody b = JObj
     [(''pairId'', JStr (pcb_PairID b)), (''sideId'', JStr (pcb_SideID b)),
      (''linkId'', JStr (pcb_LinkID b)),
      (''self'', JObj [(''endpointId'', JStr (ec_EndpointID (pcb_Self b))),
         (''role'', JStr (ec_Role (pcb_Self b))),
         (''credentialHash'', JStr (ec_CredentialHash (pcb_Self b)))]),
      (''peer'', JObj [(''endpointId'', JStr (re_EndpointID (pcb_Peer b))),
         (''role'', JStr (re_Role (pcb_Peer b)))])]"

definition commitBody ::
  "string \<Rightarrow> string \<Rightarrow> string \<Rightarrow> string \<Rightarrow> string \<Rightarrow> string \<Rightarrow> string \<Rightarrow> string \<Rightarrow> json" where
  "commitBody pairID sideID linkID self role credentialHash peer peerRole = marshal_PairCommitBody
     \<lparr>pcb_PairID = pairID, pcb_SideID = sideID, pcb_LinkID = linkID,
      pcb_Self = \<lparr>ec_EndpointID = self, ec_Role = role, ec_CredentialHash = credentialHash\<rparr>,
      pcb_Peer = \<lparr>re_EndpointID = peer, re_Role = peerRole\<rparr>\<rparr>"

text \<open>Saving the enrollment, when a callback is given; the error keeps what the caller has so far.\<close>

definition save_with ::
  "(Config \<Rightarrow> 'h \<Rightarrow> goerr option \<times> 'h) option \<Rightarrow> Config \<Rightarrow> 'h \<Rightarrow> goerr option \<times> 'h" where
  "save_with persist config h = (case persist of None \<Rightarrow> (None, h) | Some p \<Rightarrow> p config h)"

definition activate ::
  "'h net \<Rightarrow> (Config \<Rightarrow> 'h \<Rightarrow> goerr option \<times> 'h) option \<Rightarrow> Config \<Rightarrow> EnrollmentResponse \<Rightarrow> relayPeer \<Rightarrow>
   json \<Rightarrow> 'h \<Rightarrow> provisioned \<times> 'h" where
  "activate n persist config response joiner controllerCommit h =
     (case request_into n joiner ''pair.commit'' controllerCommit decode_Active h of
        (Inl e, joiner, h) \<Rightarrow> ((config, response, Some e), h)
      | (Inr (linkID, active), joiner, h) \<Rightarrow>
          if \<not> active \<or> linkID \<noteq> cf_LinkID config
          then ((config, response, Some (ErrorText ''relay did not activate the link'')), h)
          else if persist = None then ((config, response, None), h)
          else (case save_with persist (config\<lparr>cf_ActivationPending := False\<rparr>) h of
                  (Some e, h) \<Rightarrow>
                    ((config\<lparr>cf_ActivationPending := True\<rparr>, response,
                      Some (ConfigPersistence '' after relay activation'')), h)
                | (None, h) \<Rightarrow> ((config\<lparr>cf_ActivationPending := False\<rparr>, response, None), h)))"

definition commit_both ::
  "'h net \<Rightarrow> (Config \<Rightarrow> 'h \<Rightarrow> goerr option \<times> 'h) option \<Rightarrow> Config \<Rightarrow> EnrollmentResponse \<Rightarrow> relayPeer \<Rightarrow>
   relayPeer \<Rightarrow> json \<Rightarrow> json \<Rightarrow> 'h \<Rightarrow> provisioned \<times> 'h" where
  "commit_both n persist config response creator joiner companionCommit controllerCommit h =
     or_fail_peer (request_into n creator ''pair.commit'' companionCommit decode_Pending h)
       (\<lambda>pending creator h.
          if \<not> pending
          then (failed (ErrorText ''relay did not hold the first pairing commit''), h)
          else if persist = None then activate n persist config response joiner controllerCommit h
          else let config = config\<lparr>cf_ActivationPending := True\<rparr> in
            (case save_with persist config h of
               (Some e, h) \<Rightarrow> (failed (ConfigPersistence ''''), h)
             | (None, h) \<Rightarrow> activate n persist config response joiner controllerCommit h))"

definition provision_joined ::
  "cdeps \<Rightarrow> 'h net \<Rightarrow> string \<Rightarrow> EnrollmentRequest \<Rightarrow> (Config \<Rightarrow> 'h \<Rightarrow> goerr option \<times> 'h) option \<Rightarrow>
   string \<Rightarrow> string \<Rightarrow> string \<Rightarrow> string \<Rightarrow> CreatedPair \<Rightarrow> string \<times> string \<Rightarrow> relayPeer \<Rightarrow> relayPeer \<Rightarrow>
   'h \<Rightarrow> provisioned \<times> 'h" where
  "provision_joined d n relay req persist companionEndpointID linkID secret private created joined
     creator joiner h =
     (if fst joined \<noteq> cr_PairID created
      then (failed (ErrorText ''relay paired mismatched records''), h)
      else
        let companionCommit = commitBody (cr_PairID created) (cr_SideID created) linkID
              companionEndpointID Companion (b64_encode (k_sha256 d secret))
              (er_ControllerEndpointID req) Controller;
            controllerCommit = commitBody (cr_PairID created) (snd joined) linkID
              (er_ControllerEndpointID req) Controller (er_ControllerCredentialHash req)
              companionEndpointID Companion;
            config = zero_Config\<lparr>cf_V := 1, cf_RelayURL := relay, cf_LinkID := linkID,
              cf_EndpointID := companionEndpointID, cf_Secret := b64_encode secret,
              cf_NoisePrivateKey := b64_encode private,
              cf_ControllerEndpointID := er_ControllerEndpointID req,
              cf_ControllerNoiseKey := er_ControllerNoiseKey req,
              cf_ControllerLabel := er_DeviceLabel req\<rparr> in
        (case manualEnrollmentResponse d config of
           Inl e \<Rightarrow> (failed e, h)
         | Inr response \<Rightarrow>
             commit_both n persist config response creator joiner companionCommit controllerCommit h))"

definition provision_paired ::
  "cdeps \<Rightarrow> 'h net \<Rightarrow> string \<Rightarrow> EnrollmentRequest \<Rightarrow> (Config \<Rightarrow> 'h \<Rightarrow> goerr option \<times> 'h) option \<Rightarrow>
   string \<Rightarrow> string \<Rightarrow> string \<Rightarrow> string \<Rightarrow> 'h \<Rightarrow> provisioned \<times> 'h" where
  "provision_paired d n relay req persist companionEndpointID linkID secret private h =
     or_fail (dialRelay n relay PairingAuthorization h) (\<lambda>creator h. then_close n creator
       (or_fail_peer (request_into n creator ''pair.create'' (JObj []) decode_CreatedPair h)
         (\<lambda>created creator h.
            or_fail (dialRelay n relay PairingAuthorization h) (\<lambda>joiner h. then_close n joiner
              (or_fail_peer (request_into n joiner ''pair.join''
                  (JObj [(''locator'', JStr (cr_Locator created))]) decode_JoinedPair h)
                (\<lambda>joined joiner h. provision_joined d n relay req persist companionEndpointID linkID
                   secret private created joined creator joiner h))))))"

definition Provision ::
  "cdeps \<Rightarrow> 'h net \<Rightarrow> string \<Rightarrow> EnrollmentRequest \<Rightarrow>
   (Config \<Rightarrow> 'h \<Rightarrow> goerr option \<times> 'h) option list \<Rightarrow> 'h \<Rightarrow> provisioned \<times> 'h" where
  "Provision d n relay req persistence h =
     (if length persistence > 1 \<or> persistence = [None]
      then (failed (ErrorText ''invalid configuration persistence callback''), h)
      else case relayURL d relay of
        Inl e \<Rightarrow> (failed e, h)
      | Inr u \<Rightarrow>
          (case validateEnrollment d req of
             Some e \<Rightarrow> (failed e, h)
           | None \<Rightarrow>
               or_fail (net_uuid n h) (\<lambda>companionEndpointID h.
               or_fail (net_uuid n h) (\<lambda>linkID h.
               or_fail (net_random32 n h) (\<lambda>secret h.
               or_fail (net_keypair n h) (\<lambda>keypair h.
                 provision_paired d n relay req (case persistence of [] \<Rightarrow> None | p # _ \<Rightarrow> p)
                   companionEndpointID linkID secret (fst keypair) h))))))"

end
