(* ===== verification/Enrollment.thy ===== *)
theory Enrollment
  imports RelayClient
begin

text \<open>
  What enrolling and revoking guarantee of the stored credentials (\<^verbatim>\<open>Provision\<close> and \<^verbatim>\<open>RevokeEnrollment\<close> of
  \<^verbatim>\<open>internal/companion/companion.go\<close>): the order of what is stored and what is sent, whatever the relay
  answers and wherever the network, the random source or the storage fails.
\<close>

section \<open>A trace of what is stored and sent\<close>

datatype net_event = Saved Config | Sent nat json

definition tracing :: "'h net \<Rightarrow> ('h \<times> net_event list) net" where
  "tracing n =
     \<lparr>net_parser = net_parser n,
      net_uuid = (\<lambda>(h, t). case net_uuid n h of (r, h) \<Rightarrow> (r, (h, t))),
      net_random32 = (\<lambda>(h, t). case net_random32 n h of (r, h) \<Rightarrow> (r, (h, t))),
      net_keypair = (\<lambda>(h, t). case net_keypair n h of (r, h) \<Rightarrow> (r, (h, t))),
      net_dial = (\<lambda>u a (h, t). case net_dial n u a h of (r, h) \<Rightarrow> (r, (h, t))),
      net_transmit = (\<lambda>c m (h, t). case net_transmit n c m h of (r, h) \<Rightarrow> (r, (h, t @ [Sent c m]))),
      net_receive = (\<lambda>c (h, t). case net_receive n c h of (r, h) \<Rightarrow> (r, (h, t))),
      net_close = (\<lambda>c (h, t). (net_close n c h, t))\<rparr>"

definition tracing_save ::
  "(Config \<Rightarrow> 'h \<Rightarrow> goerr option \<times> 'h) \<Rightarrow> Config \<Rightarrow> 'h \<times> net_event list \<Rightarrow>
   goerr option \<times> ('h \<times> net_event list)" where
  "tracing_save save config s =
     (case save config (fst s) of
        (None, h) \<Rightarrow> (None, (h, snd s @ [Saved config]))
      | (Some e, h) \<Rightarrow> (Some e, (h, snd s)))"

definition is_commit :: "net_event \<Rightarrow> bool" where
  "is_commit e = (case e of Sent c m \<Rightarrow> jfield ''type'' m = Some (JStr ''pair.commit'') | Saved c \<Rightarrow> False)"

definition commits :: "net_event list \<Rightarrow> nat" where
  "commits t = length (filter is_commit t)"

lemma commits_simps [simp]:
  "commits [] = 0" "commits (e # t) = (if is_commit e then Suc (commits t) else commits t)"
  "commits (t @ t') = commits t + commits t'" "\<not> is_commit (Saved c)"
  by (simp_all add: commits_def is_commit_def)

lemma is_commit_wire: "is_commit (Sent c (wireEnvelope t i body)) \<longleftrightarrow> t = ''pair.commit''"
  by (simp add: is_commit_def wireEnvelope_def jfield_def)

lemma tracing_sel [simp]:
  "net_parser (tracing n) = net_parser n"
  "net_uuid (tracing n) s = (case net_uuid n (fst s) of (r, h) \<Rightarrow> (r, (h, snd s)))"
  "net_random32 (tracing n) s = (case net_random32 n (fst s) of (r, h) \<Rightarrow> (r, (h, snd s)))"
  "net_keypair (tracing n) s = (case net_keypair n (fst s) of (r, h) \<Rightarrow> (r, (h, snd s)))"
  "net_dial (tracing n) u a s = (case net_dial n u a (fst s) of (r, h) \<Rightarrow> (r, (h, snd s)))"
  "net_transmit (tracing n) c m s =
     (case net_transmit n c m (fst s) of (r, h) \<Rightarrow> (r, (h, snd s @ [Sent c m])))"
  "net_receive (tracing n) c s = (case net_receive n c (fst s) of (r, h) \<Rightarrow> (r, (h, snd s)))"
  "net_close (tracing n) c s = (net_close n c (fst s), snd s)"
  by (simp_all add: tracing_def split: prod.splits)

lemma queuePending_Inr: "queuePending peer raw = Inr peer' \<Longrightarrow>
    rp_connection peer' = rp_connection peer \<and> length (rp_pending peer') = Suc (length (rp_pending peer)) \<and>
    length (rp_pending peer') \<le> maxPendingRelayResponses"
  by (auto simp: queuePending_def split: if_splits)

lemma await_reply_trace:
  "await_reply (tracing n) peer i t s = (r, peer', s') \<Longrightarrow>
   rp_connection peer' = rp_connection peer \<and> snd s' = snd s"
proof (induction "maxPendingRelayResponses - length (rp_pending peer)" arbitrary: peer s rule: less_induct)
  case less
  obtain answer h where a: "net_receive n (rp_connection peer) (fst s) = (answer, h)"
    by (metis surj_pair)
  have step: "await_reply (tracing n) q i t (h, snd s) = (r, peer', s') \<Longrightarrow>
      rp_connection peer' = rp_connection peer \<and> snd s' = snd s" if "queuePending peer raw = Inr q"
    for q raw
  proof -
    assume run: "await_reply (tracing n) q i t (h, snd s) = (r, peer', s')"
    note q = queuePending_Inr [OF that]
    then have "maxPendingRelayResponses - length (rp_pending q) <
        maxPendingRelayResponses - length (rp_pending peer)" by linarith
    from less.hyps [OF this run] q show ?thesis by simp
  qed
  show ?case
    using less.prems a
    by (subst (asm) await_reply.simps)
      (auto split: sum.splits if_splits dest: step)
qed

lemma request_trace:
  assumes "request (tracing n) peer t body s = (r, peer', s')"
  shows "rp_connection peer' = rp_connection peer \<and>
    (snd s' = snd s \<and> isl r \<or> (\<exists>i. snd s' = snd s @ [Sent (rp_connection peer) (wireEnvelope t i body)]))"
  using assms
  by (auto simp: request_def split: prod.splits sum.splits option.splits dest!: await_reply_trace)

lemma request_into_trace:
  assumes "request_into (tracing n) peer t body decode s = (r, peer', s')"
  shows "rp_connection peer' = rp_connection peer \<and>
    (snd s' = snd s \<and> isl r \<or> (\<exists>i. snd s' = snd s @ [Sent (rp_connection peer) (wireEnvelope t i body)]))"
  using assms request_trace [of n peer t body s]
  by (auto simp: request_into_def split: prod.splits sum.splits option.splits)

lemma dialRelay_trace: "dialRelay (tracing n) u a s = (r, s') \<Longrightarrow> snd s' = snd s"
  by (auto simp: dialRelay_def split: prod.splits sum.splits option.splits)

lemma closing_trace [simp]: "snd (snd (then_close (tracing n) peer r)) = snd (snd r)"
  "fst (then_close (tracing n) peer r) = fst r"
  by (simp_all add: then_close_def split: prod.splits)

section \<open>Provisioning stores the enrollment before it can become active\<close>

text \<open>
  The two outcomes, from a trace \<open>t\<close> on: the caller gets the enrollment, which was saved as pending after
  the first commit and before the second one, and once more as active if there is no error; or the
  caller gets nothing, and at most the first commit was sent.
\<close>

definition stored_first :: "provisioned \<Rightarrow> net_event list \<Rightarrow> net_event list \<Rightarrow> bool" where
  "stored_first res t t' \<longleftrightarrow>
     (case res of (config, response, err) \<Rightarrow>
       (cf_V config = 1 \<and> (\<exists>pre c m post. t' = t @ pre @ [Sent c m, Saved (config\<lparr>cf_ActivationPending := True\<rparr>)] @ post \<and>
          commits pre = 0 \<and> commits post \<le> 1 \<and>
          (err = None \<longrightarrow> \<not> cf_ActivationPending config \<and> Saved config \<in> set post))) \<or>
       (config = zero_Config \<and> err \<noteq> None \<and> (\<exists>post. t' = t @ post \<and> commits post \<le> 1)))"

lemma stored_first_failed: "stored_first (failed e) t t"
  by (auto simp: stored_first_def failed_def)

lemma stored_first_after:
  assumes "stored_first res (t @ pre) t'" and "commits pre = 0"
  shows "stored_first res t t'"
proof -
  obtain config response err where res: "res = (config, response, err)" by (metis surj_pair)
  from assms(1) consider
      (kept) pre' c m post where "cf_V config = 1"
        "t' = t @ (pre @ pre') @ [Sent c m, Saved (config\<lparr>cf_ActivationPending := True\<rparr>)] @ post"
        "commits pre' = 0" "commits post \<le> 1"
        "err = None \<longrightarrow> \<not> cf_ActivationPending config \<and> Saved config \<in> set post"
    | (none) post where "config = zero_Config" "err \<noteq> None" "t' = t @ pre @ post" "commits post \<le> 1"
    unfolding stored_first_def res by auto
  then show ?thesis
  proof cases
    case kept
    moreover have "commits (pre @ pre') = 0" using assms(2) kept(3) by simp
    ultimately show ?thesis unfolding stored_first_def res by blast
  next
    case none
    then show ?thesis using assms(2) unfolding stored_first_def res by auto
  qed
qed

lemma activate_trace:
  assumes "activate (tracing n) (Some (tracing_save save)) config response joiner m s = ((config', r, err), s')"
    and "cf_V config = 1" and "cf_ActivationPending config"
  shows "cf_V config' = 1 \<and> config'\<lparr>cf_ActivationPending := True\<rparr> = config \<and>
    (\<exists>post. snd s' = snd s @ post \<and> commits post \<le> 1 \<and>
       (err = None \<longrightarrow> \<not> cf_ActivationPending config' \<and> Saved config' \<in> set post))"
  using assms
  by (auto simp: activate_def save_with_def tracing_save_def is_commit_wire
      split: prod.splits sum.splits option.splits if_splits dest!: request_into_trace)

lemma commit_both_trace:
  assumes "commit_both (tracing n) (Some (tracing_save save)) config response creator joiner m m' s = (res, s')"
    and "cf_V config = 1"
  shows "stored_first res (snd s) (snd s')"
proof -
  obtain r creator' s1 where r: "request_into (tracing n) creator ''pair.commit'' m decode_Pending s = (r, creator', s1)"
    by (metis surj_pair)
  note t1 = request_into_trace [OF r]
  show ?thesis
  proof (cases "\<exists>h. r = Inr True \<and> save (config\<lparr>cf_ActivationPending := True\<rparr>) (fst s1) = (None, h)")
    case False
    then have "\<exists>e. res = failed e \<and> snd s' = snd s1"
      using assms(1) r
      by (auto simp: commit_both_def or_fail_peer_def Let_def save_with_def tracing_save_def
          split: sum.splits prod.splits option.splits if_splits)
    with t1 show ?thesis by (auto simp: stored_first_def failed_def is_commit_wire)
  next
    case True
    then obtain h i where ok: "r = Inr True" "save (config\<lparr>cf_ActivationPending := True\<rparr>) (fst s1) = (None, h)"
      and s1: "snd s1 = snd s @ [Sent (rp_connection creator) (wireEnvelope ''pair.commit'' i m)]"
      using t1 by auto
    define config1 where "config1 = config\<lparr>cf_ActivationPending := True\<rparr>"
    obtain config' response' err where res: "res = (config', response', err)" by (metis surj_pair)
    have "activate (tracing n) (Some (tracing_save save)) config1 response joiner m' (h, snd s1 @ [Saved config1]) =
        ((config', response', err), s')"
      using assms(1) r ok res
      by (simp add: commit_both_def or_fail_peer_def Let_def save_with_def tracing_save_def config1_def)
    from activate_trace [OF this] assms(2) s1 show ?thesis
      unfolding stored_first_def res by (fastforce simp: config1_def)
  qed
qed

lemma provision_joined_trace:
  assumes "provision_joined d (tracing n) relay req (Some (tracing_save save)) e l secret private created
    joined creator joiner s = (res, s')"
  shows "stored_first res (snd s) (snd s')"
  using assms
  by (auto simp: provision_joined_def Let_def stored_first_failed
      split: sum.splits if_splits dest!: commit_both_trace)

text \<open>The rules for the combinators of \<^verbatim>\<open>Provision\<close>.\<close>

definition orderly :: "('h \<times> net_event list \<Rightarrow> provisioned \<times> ('h \<times> net_event list)) \<Rightarrow> bool" where
  "orderly f \<longleftrightarrow> (\<forall>s. stored_first (fst (f s)) (snd s) (snd (snd (f s))))"

lemma orderlyI: "(\<And>s res s'. f s = (res, s') \<Longrightarrow> stored_first res (snd s) (snd s')) \<Longrightarrow> orderly f"
  unfolding orderly_def by (metis prod.collapse)

lemma orderlyD: "orderly f \<Longrightarrow> f s = (res, s') \<Longrightarrow> stored_first res (snd s) (snd s')"
  unfolding orderly_def by (metis fst_conv snd_conv)

lemma orderly_or_fail:
  assumes "\<And>s. snd (snd (g s)) = snd s" and "\<And>x. orderly (f x)"
  shows "orderly (\<lambda>s. or_fail (g s) f)"
proof (rule orderlyI)
  fix s res s' assume run: "or_fail (g s) f = (res, s')"
  obtain r s1 where g: "g s = (r, s1)" by (metis surj_pair)
  with assms(1) [of s] have "snd s1 = snd s" by simp
  with run g show "stored_first res (snd s) (snd s')"
    using orderlyD [OF assms(2)] by (auto simp: or_fail_def stored_first_failed split: sum.splits)
      (metis orderlyD [OF assms(2)])
qed

lemma orderly_request:
  assumes "t \<noteq> ''pair.commit''" and "\<And>x p. orderly (f x p)"
  shows "orderly (\<lambda>s. or_fail_peer (request_into (tracing n) peer t body decode s) f)"
proof (rule orderlyI)
  fix s res s' assume run: "or_fail_peer (request_into (tracing n) peer t body decode s) f = (res, s')"
  obtain r p s1 where r: "request_into (tracing n) peer t body decode s = (r, p, s1)"
    by (metis surj_pair)
  obtain pre where pre: "snd s1 = snd s @ pre" "commits pre = 0"
    using request_into_trace [OF r] assms(1) by (auto simp: is_commit_wire)
  have "stored_first res (snd s1) (snd s')"
    using run r orderlyD [OF assms(2)]
    by (auto simp: or_fail_peer_def stored_first_failed split: sum.splits)
  then show "stored_first res (snd s) (snd s')" using stored_first_after pre by metis
qed

lemma orderly_fail: "orderly (\<lambda>s. (failed e, s))"
  by (rule orderlyI) (auto simp: stored_first_failed)

lemma orderly_closing: "orderly f \<Longrightarrow> orderly (\<lambda>s. then_close (tracing n) peer (f s))"
  unfolding orderly_def by simp

lemma orderly_paired:
  "orderly (\<lambda>s. provision_paired d (tracing n) relay req (Some (tracing_save save)) e l secret private s)"
  unfolding provision_paired_def
  by (intro orderly_or_fail orderly_request orderly_closing orderlyI)
    (auto dest: dialRelay_trace provision_joined_trace simp: dialRelay_trace [OF prod.collapse [symmetric]])

text \<open>C27: provisioning with a storage callback, whatever the relay answers: either the caller gets the
  enrollment, and then it was saved, marked as pending, after the first commit and before the second one
  that can make the relay activate it (and saved once more, as active, when there is no error); or the
  caller gets no enrollment, and the second commit was never sent.\<close>

theorem provision_stores_first:
  assumes "Provision d (tracing n) relay req [Some (tracing_save save)] (h, []) =
    ((config, response, err), (h', trace))"
  shows "(cf_V config = 1 \<and>
      (\<exists>pre c m post. trace = pre @ [Sent c m, Saved (config\<lparr>cf_ActivationPending := True\<rparr>)] @ post \<and>
        commits pre = 0 \<and> commits post \<le> 1 \<and>
        (err = None \<longrightarrow> \<not> cf_ActivationPending config \<and> Saved config \<in> set post))) \<or>
    (config = zero_Config \<and> err \<noteq> None \<and> commits trace \<le> 1)"
proof -
  have "orderly (\<lambda>s. Provision d (tracing n) relay req [Some (tracing_save save)] s)"
    unfolding Provision_def
    by (cases "relayURL d relay"; cases "validateEnrollment d req")
      (simp_all add: orderly_fail, intro orderly_or_fail orderly_paired, simp_all split: prod.splits)
  from orderlyD [OF this assms] have "stored_first (config, response, err) [] trace" by simp
  then show ?thesis by (auto simp: stored_first_def)
qed

section \<open>A relay that answers\<close>

text \<open>A scripted network: the state is the list of the texts that will be received.\<close>

definition ok_reply :: "string \<Rightarrow> json \<Rightarrow> json" where
  "ok_reply t result = JObj
     [(''body'', JObj [(''requestType'', JStr t), (''result'', result)]), (''id'', JStr session_id),
      (''protocol'', JStr ProtocolName), (''replyTo'', JStr session_id), (''type'', JStr ''ok''),
      (''v'', JNum ''1'')]"

definition script_document :: "string \<Rightarrow> json option" where
  "script_document raw =
     (if raw = ''created'' then Some (ok_reply ''pair.create'' (JObj [(''pairId'', JStr ''pair'')]))
      else if raw = ''joined'' then Some (ok_reply ''pair.join'' (JObj [(''pairId'', JStr ''pair'')]))
      else if raw = ''pending'' then Some (ok_reply ''pair.commit'' (JObj [(''pending'', JBool True)]))
      else if raw = ''active'' then Some (ok_reply ''pair.commit''
        (JObj [(''active'', JBool True), (''linkId'', JStr session_id)]))
      else if raw = ''revoked'' then Some (ok_reply ''link.revoke'' (JObj [(''revoked'', JBool True)]))
      else None)"

definition script_net :: "string list net" where
  "script_net =
     \<lparr>net_parser = \<lparr>v_Unmarshal = script_document, v_Validate = (\<lambda>schema j. None),
        v_Marshal = (\<lambda>k. None), v_json = (\<lambda>bytes. None), v_sha256 = (\<lambda>bytes. bytes),
        v_url = (\<lambda>bytes. None)\<rparr>,
      net_uuid = (\<lambda>h. (Inr session_id, h)), net_random32 = (\<lambda>h. (Inr (replicate 32 CHR 0x01), h)),
      net_keypair = (\<lambda>h. (Inr (replicate 32 CHR 0x02, replicate 32 CHR 0x03), h)),
      net_dial = (\<lambda>u a h. (Inr 1, h)), net_transmit = (\<lambda>c m h. (None, h)),
      net_receive = (\<lambda>c h. case h of [] \<Rightarrow> (Inl (ErrorText ''closed''), []) | x # xs \<Rightarrow> (Inr x, xs)),
      net_close = (\<lambda>c h. h)\<rparr>"

definition sample_cdeps :: cdeps where
  "sample_cdeps = \<lparr>k_sha256 = (\<lambda>b. b), k_url = (\<lambda>u. Some \<lparr>u_Scheme = ''wss'', u_Host = ''relay'',
       u_HasUser = False, u_ForceQuery = False, u_RawQuery = '''', u_Fragment = '''', u_String = u\<rparr>),
     k_x25519 = (\<lambda>a b. Some b), k_public = (\<lambda>k. Inr k), k_json = (\<lambda>t. None)\<rparr>"

definition sample_key :: string where
  "sample_key = b64_encode (replicate 32 CHR 0x05)"

definition sample_request :: EnrollmentRequest where
  "sample_request = \<lparr>er_V = 1, er_ControllerEndpointID = session_id,
     er_ControllerCredentialHash = sample_key, er_ControllerNoiseKey = sample_key,
     er_DeviceLabel = ''iPad''\<rparr>"

lemma session_id_uuid: "uuidPattern session_id"
  by (simp add: uuidPattern_def session_id_def match_groups.simps is_lower_hex_def)

lemma iPad_segments: "segments ''iPad'' = map (\<lambda>c. (of_char c, [c])) ''iPad''"
  by (rule segments_ascii) simp

lemma iPad_valid: "validDeviceLabel ''iPad''"
  unfolding validDeviceLabel_def TrimSpace_def RuneCountInString_def runes_def iPad_segments Let_def
  by (simp add: IsSpace_def category_Cc_def category_Cf_def category_Zl_def category_Zp_def
      in_ranges_def)

lemma script_net_sel [simp]:
  "net_uuid script_net h = (Inr session_id, h)"
  "net_random32 script_net h = (Inr (replicate 32 CHR 0x01), h)"
  "net_keypair script_net h = (Inr (replicate 32 CHR 0x02, replicate 32 CHR 0x03), h)"
  "net_dial script_net u a h = (Inr 1, h)" "net_transmit script_net c m h = (None, h)"
  "net_receive script_net c (x # h) = (Inr x, h)" "net_close script_net c h = h"
  by (simp_all add: script_net_def)

lemma sample_key_decodes: "decode32 sample_key = Some (replicate 32 CHR 0x05)"
  by (simp add: decode32_iff sample_key_def)

lemma sample_request_valid: "validateEnrollment sample_cdeps sample_request = None"
  by (simp add: validateEnrollment_def sample_request_def session_id_uuid iPad_valid
      sample_key_decodes contributoryX25519PublicKey_def sample_cdeps_def x25519ValidationPrivate_def)

lemma folded_reply_keys:
  "foldName ''requestType'' = ''requesttype''" "foldName ''result'' = ''result''"
  "foldName ''pairId'' = ''pairid''" "foldName ''sideId'' = ''sideid''"
  "foldName ''locator'' = ''locator''" "foldName ''pending'' = ''pending''"
  "foldName ''active'' = ''active''" "foldName ''linkId'' = ''linkid''"
  "foldName ''revoked'' = ''revoked''"
  by (simp_all add: foldName_ascii lower_TI) (simp_all add: lower_char_def byte_in_def)

definition reply_envelope :: "string \<Rightarrow> json \<Rightarrow> Envelope" where
  "reply_envelope t result = \<lparr>env_Protocol = ProtocolName, env_V = 1, env_Type = ''ok'',
     env_ID = session_id, env_ReplyTo = session_id,
     env_Body = JObj [(''requestType'', JStr t), (''result'', result)]\<rparr>"

lemma reply_parsed:
  assumes "script_document raw = Some (ok_reply t result)" and "length raw < 9"
    and "numbersWithinLimits result" and "marshal_order (normalizeIntegers result) = result"
  shows "ParseServer (net_parser script_net) (Bytes raw) = Inr (reply_envelope t result)"
proof -
  have e: "marshal_order (normalizeIntegers (ok_reply t result)) = JObj
      [(''body'', JObj [(''requestType'', JStr t), (''result'', result)]), (''id'', JStr session_id),
       (''protocol'', JStr ProtocolName), (''replyTo'', JStr session_id), (''type'', JStr ''ok''),
       (''v'', JInt 1)]"
    using assms(4) by (simp add: ok_reply_def shadowed_numbers)
  have "decode_Envelope (marshal_order (normalizeIntegers (ok_reply t result))) =
      Some (reply_envelope t result)"
    unfolding e by (simp add: decode_Envelope_def field_simps_of is_struct_def reply_envelope_def)
  moreover have "numbersWithinLimits (ok_reply t result)"
    using assms(3) by (simp add: ok_reply_def number_within_limits_def maxJSONNumberBytes_def
        is_exponent_mark_def)
  moreover have "preflightFramePayload (ok_reply t result) = None"
    by (simp add: preflightFramePayload_def ok_reply_def)
  ultimately show ?thesis
    using assms(1,2)
    by (simp add: ParseServer_def parse_rendezvous_def parse_def inputJSON_def script_net_def
        MaxWebSocketFrameBytes_def rendezvousSemantics_def reply_envelope_def)
qed

lemma scripted_request:
  assumes "script_document raw = Some (ok_reply t result)" and "length raw < 9"
    and "numbersWithinLimits result" and "marshal_order (normalizeIntegers result) = result"
    and "decode result = Some x"
  shows "request_into (tracing script_net) peer t body decode (raw # h, tr) =
    (Inr x, peer, (h, tr @ [Sent (rp_connection peer) (wireEnvelope t session_id body)]))"
proof -
  note p = reply_parsed [OF assms(1-4)]
  have "reply_result (reply_envelope t result) t = Inr result"
    by (simp add: reply_result_def reply_envelope_def is_struct_def jstr_def jraw_def jmatches_def
        folded_reply_keys)
  then show ?thesis
    using assms(5) p
    by (simp add: request_into_def request_def await_reply.simps reply_envelope_def)
qed

lemmas script_simps = script_document_def jstr_def jint_def jbool_def jmatches_def folded_reply_keys
  folded_keys is_struct_def

lemma created_decodes: "decode_CreatedPair (JObj [(''pairId'', JStr ''pair'')]) =
    Some \<lparr>cr_PairID = ''pair'', cr_SideID = '''', cr_Locator = '''', cr_ExpiresAt = 0\<rparr>"
  by (simp add: decode_CreatedPair_def script_simps folded_request_keys)

lemma joined_decodes: "decode_JoinedPair (JObj [(''pairId'', JStr ''pair'')]) = Some (''pair'', '''')"
  by (simp add: decode_JoinedPair_def script_simps)

lemma pending_decodes: "decode_Pending (JObj [(''pending'', JBool True)]) = Some True"
  by (simp add: decode_Pending_def script_simps)

lemma active_decodes:
  "decode_Active (JObj [(''active'', JBool True), (''linkId'', JStr session_id)]) = Some (session_id, True)"
  by (simp add: decode_Active_def script_simps)

lemma revoked_decodes: "decode_Revoked (JObj [(''revoked'', JBool True)]) = Some True"
  by (simp add: decode_Revoked_def script_simps)

lemma reply_created:
  "request_into (tracing script_net) peer ''pair.create'' m decode_CreatedPair (''created'' # h, tr) =
     (Inr \<lparr>cr_PairID = ''pair'', cr_SideID = '''', cr_Locator = '''', cr_ExpiresAt = 0\<rparr>, peer,
      (h, tr @ [Sent (rp_connection peer) (wireEnvelope ''pair.create'' session_id m)]))"
  by (rule scripted_request [where result = "JObj [(''pairId'', JStr ''pair'')]"])
    (simp_all add: script_document_def created_decodes)

lemma reply_joined:
  "request_into (tracing script_net) peer ''pair.join'' m decode_JoinedPair (''joined'' # h, tr) =
     (Inr (''pair'', ''''), peer,
      (h, tr @ [Sent (rp_connection peer) (wireEnvelope ''pair.join'' session_id m)]))"
  by (rule scripted_request [where result = "JObj [(''pairId'', JStr ''pair'')]"])
    (simp_all add: script_document_def joined_decodes)

lemma reply_pending:
  "request_into (tracing script_net) peer ''pair.commit'' m decode_Pending (''pending'' # h, tr) =
     (Inr True, peer,
      (h, tr @ [Sent (rp_connection peer) (wireEnvelope ''pair.commit'' session_id m)]))"
  by (rule scripted_request [where result = "JObj [(''pending'', JBool True)]"])
    (simp_all add: script_document_def pending_decodes)

lemma reply_active:
  "request_into (tracing script_net) peer ''pair.commit'' m decode_Active (''active'' # h, tr) =
     (Inr (session_id, True), peer,
      (h, tr @ [Sent (rp_connection peer) (wireEnvelope ''pair.commit'' session_id m)]))"
  by (rule scripted_request [where result = "JObj [(''active'', JBool True), (''linkId'', JStr session_id)]"])
    (simp_all add: script_document_def active_decodes)

lemma reply_revoked:
  "request_into (tracing script_net) peer ''link.revoke'' m decode_Revoked (''revoked'' # h, tr) =
     (Inr True, peer,
      (h, tr @ [Sent (rp_connection peer) (wireEnvelope ''link.revoke'' session_id m)]))"
  by (rule scripted_request [where result = "JObj [(''revoked'', JBool True)]"])
    (simp_all add: script_document_def revoked_decodes)

lemmas script_replies = reply_created reply_joined reply_pending reply_active reply_revoked

definition sample_config :: Config where
  "sample_config = zero_Config\<lparr>cf_V := 1, cf_RelayURL := ''wss://relay'', cf_LinkID := session_id,
     cf_EndpointID := session_id, cf_Secret := b64_encode (replicate 32 CHR 0x01),
     cf_NoisePrivateKey := b64_encode (replicate 32 CHR 0x02),
     cf_ControllerEndpointID := session_id, cf_ControllerNoiseKey := sample_key,
     cf_ControllerLabel := ''iPad''\<rparr>"

lemma sample_dial: "dialRelay (tracing script_net) u a s =
    (Inr \<lparr>rp_connection = 1, rp_pending = [], rp_pendingBytes = 0\<rparr>, s)"
  by (simp add: dialRelay_def)

lemma sample_provisioned:
  "\<exists>r tr. Provision sample_cdeps (tracing script_net) ''wss://relay'' sample_request
     [Some (tracing_save (\<lambda>c h. (None, h)))] ([''created'', ''joined'', ''pending'', ''active''], []) =
     ((sample_config, r, None), ([], tr))"
proof -
  have url: "\<exists>u. relayURL sample_cdeps ''wss://relay'' = Inr u"
    by (simp add: relayURL_def sample_cdeps_def)
  have key: "decode32 (b64_encode (replicate 32 CHR 0x02)) = Some (replicate 32 CHR 0x02)"
    by (simp add: decode32_iff)
  have public: "k_public sample_cdeps k = Inr k" for k by (simp add: sample_cdeps_def)
  show ?thesis
    using url
    by (auto simp: Provision_def sample_request_valid or_fail_def provision_paired_def sample_dial
        then_close_def or_fail_peer_def script_replies provision_joined_def Let_def
        manualEnrollmentResponse_def key public commit_both_def save_with_def tracing_save_def activate_def
        sample_config_def)
      (simp add: zero_Config_def sample_request_def)
qed

theorem provision_stores_first_witness:
  "\<exists>trace pre c m post.
     trace = pre @ [Sent c m, Saved (sample_config\<lparr>cf_ActivationPending := True\<rparr>)] @ post \<and>
     commits pre = 0 \<and> commits post \<le> 1 \<and> Saved sample_config \<in> set post"
proof -
  obtain r tr where run: "Provision sample_cdeps (tracing script_net) ''wss://relay'' sample_request
     [Some (tracing_save (\<lambda>c h. (None, h)))] ([''created'', ''joined'', ''pending'', ''active''], []) =
     ((sample_config, r, None), ([], tr))"
    using sample_provisioned by blast
  from provision_stores_first [OF run] show ?thesis by auto
qed

section \<open>Revoking leaves a durable mark before the credentials may go\<close>

text \<open>
  A trace that also has what is heard: a dial that was refused with a status (an error may carry one, too) or
  that reached a connection, each message sent, each text received, and each configuration saved.
\<close>

datatype talk = Turned_away "int option" | Reached nat | Said nat json | Heard nat string | Marked Config

definition hearing :: "'h net \<Rightarrow> ('h \<times> talk list) net" where
  "hearing n =
     \<lparr>net_parser = net_parser n,
      net_uuid = (\<lambda>(h, t). case net_uuid n h of (r, h) \<Rightarrow> (r, (h, t))),
      net_random32 = (\<lambda>(h, t). case net_random32 n h of (r, h) \<Rightarrow> (r, (h, t))),
      net_keypair = (\<lambda>(h, t). case net_keypair n h of (r, h) \<Rightarrow> (r, (h, t))),
      net_dial = (\<lambda>u a (h, t). case net_dial n u a h of
        (Inl (e, st), h) \<Rightarrow> (Inl (e, st), (h, t @ [Turned_away (if st = None then upgrade_status e else st)]))
      | (Inr c, h) \<Rightarrow> (Inr c, (h, t @ [Reached c]))),
      net_transmit = (\<lambda>c m (h, t). case net_transmit n c m h of (r, h) \<Rightarrow> (r, (h, t @ [Said c m]))),
      net_receive = (\<lambda>c (h, t). case net_receive n c h of
        (Inl e, h) \<Rightarrow> (Inl e, (h, t)) | (Inr raw, h) \<Rightarrow> (Inr raw, (h, t @ [Heard c raw]))),
      net_close = (\<lambda>c (h, t). (net_close n c h, t))\<rparr>"

definition marking ::
  "(Config \<Rightarrow> 'h \<Rightarrow> goerr option \<times> 'h) \<Rightarrow> Config \<Rightarrow> 'h \<times> talk list \<Rightarrow>
   goerr option \<times> ('h \<times> talk list)" where
  "marking save config s =
     (case save config (fst s) of
        (None, h) \<Rightarrow> (None, (h, snd s @ [Marked config]))
      | (Some e, h) \<Rightarrow> (Some e, (h, snd s)))"

lemma hearing_sel [simp]:
  "net_parser (hearing n) = net_parser n"
  "net_uuid (hearing n) s = (case net_uuid n (fst s) of (r, h) \<Rightarrow> (r, (h, snd s)))"
  "net_dial (hearing n) u a s = (case net_dial n u a (fst s) of
        (Inl (e, st), h) \<Rightarrow> (Inl (e, st), (h, snd s @ [Turned_away (if st = None then upgrade_status e else st)]))
      | (Inr c, h) \<Rightarrow> (Inr c, (h, snd s @ [Reached c])))"
  "net_transmit (hearing n) c m s =
     (case net_transmit n c m (fst s) of (r, h) \<Rightarrow> (r, (h, snd s @ [Said c m])))"
  "net_receive (hearing n) c s = (case net_receive n c (fst s) of
        (Inl e, h) \<Rightarrow> (Inl e, (h, snd s)) | (Inr raw, h) \<Rightarrow> (Inr raw, (h, snd s @ [Heard c raw])))"
  "net_close (hearing n) c s = (net_close n c (fst s), snd s)"
  by (simp_all add: hearing_def case_prod_beta)

text \<open>A text that answers the request \<open>i\<close> of type \<open>t\<close> with a result.\<close>

definition answers :: "parser \<Rightarrow> string \<Rightarrow> string \<Rightarrow> string \<Rightarrow> json \<Rightarrow> bool" where
  "answers v i t raw result \<longleftrightarrow>
     (\<exists>env. ParseServer v (Bytes raw) = Inr env \<and> env_ReplyTo env = i \<and> reply_result env t = Inr result)"

lemma await_reply_step:
  assumes "await_reply (hearing n) peer i t s = (r, peer', s')"
    and "net_receive n (rp_connection peer) (fst s) = (answer, h)"
  shows "answer = Inl e \<Longrightarrow> isl r \<and> peer' = peer \<and> snd s' = snd s"
    and "answer = Inr raw \<Longrightarrow> ParseServer (net_parser n) (Bytes raw) = Inl e2 \<Longrightarrow>
      isl r \<and> peer' = peer \<and> snd s' = snd s @ [Heard (rp_connection peer) raw]"
    and "answer = Inr raw \<Longrightarrow> ParseServer (net_parser n) (Bytes raw) = Inr env \<Longrightarrow> env_ReplyTo env = i \<Longrightarrow>
      r = reply_result env t \<and> peer' = peer \<and> snd s' = snd s @ [Heard (rp_connection peer) raw]"
    and "answer = Inr raw \<Longrightarrow> ParseServer (net_parser n) (Bytes raw) = Inr env \<Longrightarrow> env_ReplyTo env \<noteq> i \<Longrightarrow>
      queuePending peer raw = Inl e3 \<Longrightarrow>
      isl r \<and> peer' = peer \<and> snd s' = snd s @ [Heard (rp_connection peer) raw]"
    and "answer = Inr raw \<Longrightarrow> ParseServer (net_parser n) (Bytes raw) = Inr env \<Longrightarrow> env_ReplyTo env \<noteq> i \<Longrightarrow>
      queuePending peer raw = Inr q \<Longrightarrow>
      await_reply (hearing n) q i t (h, snd s @ [Heard (rp_connection peer) raw]) = (r, peer', s')"
  using assms unfolding await_reply.simps [of "hearing n" peer i t s] by auto

lemma await_reply_heard:
  "await_reply (hearing n) peer i t s = (r, peer', s') \<Longrightarrow>
   rp_connection peer' = rp_connection peer \<and>
   (\<exists>hs. snd s' = snd s @ map (Heard (rp_connection peer)) hs \<and>
      (\<forall>result. r = Inr result \<longrightarrow> (\<exists>gs raw. hs = gs @ [raw] \<and> answers (net_parser n) i t raw result)))"
proof (induction "maxPendingRelayResponses - length (rp_pending peer)" arbitrary: peer s rule: less_induct)
  case less
  let ?c = "rp_connection peer"
  obtain answer h where a: "net_receive n ?c (fst s) = (answer, h)" by (metis surj_pair)
  note st = await_reply_step [OF less.prems a]
  have one: "rp_connection peer' = ?c \<and> (\<exists>hs. snd s' = snd s @ map (Heard ?c) hs \<and>
      (\<forall>result. r = Inr result \<longrightarrow> (\<exists>gs raw. hs = gs @ [raw] \<and> answers (net_parser n) i t raw result)))"
    if "isl r \<and> peer' = peer \<and> snd s' = snd s @ map (Heard ?c) hs" for hs
    using that by auto
  show ?case
  proof (cases answer)
    case (Inl e)
    then show ?thesis using st(1) one [of "[]"] by simp
  next
    case (Inr raw)
    show ?thesis
    proof (cases "ParseServer (net_parser n) (Bytes raw)")
      case (Inl e)
      then show ?thesis using st(2) [OF Inr] one [of "[raw]"] by simp
    next
      case env: (Inr env)
      consider "env_ReplyTo env = i" | x where "env_ReplyTo env \<noteq> i" "queuePending peer raw = Inl x"
        | q where "env_ReplyTo env \<noteq> i" "queuePending peer raw = Inr q"
        by (cases "queuePending peer raw") auto
      then show ?thesis
      proof cases
        case 1
        have "r = Inr result \<Longrightarrow> answers (net_parser n) i t raw result" for result
          using st(3) [OF Inr env 1] env 1 by (auto simp: answers_def)
        with st(3) [OF Inr env 1] show ?thesis by (intro conjI exI [of _ "[raw]"]) auto
      next
        case 2
        then show ?thesis using st(4) [OF Inr env] one [of "[raw]"] by simp
      next
        case 3
        note qq = queuePending_Inr [OF 3(2)]
        then have m: "maxPendingRelayResponses - length (rp_pending q) <
            maxPendingRelayResponses - length (rp_pending peer)" by linarith
        from less.hyps [OF m st(5) [OF Inr env 3]] qq obtain hs where c: "rp_connection peer' = ?c"
            "snd s' = (snd s @ [Heard ?c raw]) @ map (Heard ?c) hs"
            "\<forall>result. r = Inr result \<longrightarrow> (\<exists>gs raw. hs = gs @ [raw] \<and> answers (net_parser n) i t raw result)"
          by auto
        then have "\<forall>result. r = Inr result \<longrightarrow>
            (\<exists>gs raw'. raw # hs = gs @ [raw'] \<and> answers (net_parser n) i t raw' result)"
          by (metis append_Cons)
        with c show ?thesis by (intro conjI exI [of _ "raw # hs"]) auto
      qed
    qed
  qed
qed

text \<open>A request leaves what it said, if it got that far, and what it heard; a result comes from the last text heard.\<close>

definition asked :: "parser \<Rightarrow> nat \<Rightarrow> string \<Rightarrow> json \<Rightarrow> json \<Rightarrow> talk list \<Rightarrow> bool" where
  "asked v c t body result us \<longleftrightarrow>
     (\<exists>i gs raw. us = Said c (wireEnvelope t i body) # map (Heard c) gs @ [Heard c raw] \<and>
        answers v i t raw result)"

lemma request_heard:
  assumes "request (hearing n) peer t body s = (r, peer', s')"
  shows "rp_connection peer' = rp_connection peer \<and> (\<exists>us. snd s' = snd s @ us \<and>
    (\<forall>result. r = Inr result \<longrightarrow> asked (net_parser n) (rp_connection peer) t body result us))"
proof -
  let ?c = "rp_connection peer"
  obtain x h where u: "net_uuid n (fst s) = (x, h)" by (metis surj_pair)
  show ?thesis
  proof (cases x)
    case (Inl e)
    with assms u have "isl r" "peer' = peer" "snd s' = snd s" by (auto simp: request_def)
    then show ?thesis by (intro conjI exI [of _ "[]"]) auto
  next
    case (Inr i)
    let ?m = "wireEnvelope t i body"
    obtain y h1 where w: "net_transmit n ?c ?m h = (y, h1)" by (metis surj_pair)
    show ?thesis
    proof (cases y)
      case (Some e)
      with assms u Inr w have "isl r" "peer' = peer" "snd s' = snd s @ [Said ?c ?m]" by (auto simp: request_def)
      then show ?thesis by (intro conjI exI [of _ "[Said ?c ?m]"]) auto
    next
      case None
      have "await_reply (hearing n) peer i t (h1, snd s @ [Said ?c ?m]) = (r, peer', s')"
        using assms u Inr w None by (simp add: request_def)
      from await_reply_heard [OF this] obtain hs where a: "rp_connection peer' = ?c"
          "snd s' = (snd s @ [Said ?c ?m]) @ map (Heard ?c) hs"
          "\<forall>result. r = Inr result \<longrightarrow> (\<exists>gs raw. hs = gs @ [raw] \<and> answers (net_parser n) i t raw result)"
        by auto
      then have "\<forall>result. r = Inr result \<longrightarrow> asked (net_parser n) ?c t body result (Said ?c ?m # map (Heard ?c) hs)"
        unfolding asked_def by fastforce
      with a show ?thesis by (intro conjI exI [of _ "Said ?c ?m # map (Heard ?c) hs"]) auto
    qed
  qed
qed

lemma request_into_heard:
  assumes "request_into (hearing n) peer t body decode s = (r, peer', s')"
  shows "rp_connection peer' = rp_connection peer \<and> (\<exists>us. snd s' = snd s @ us \<and>
    (\<forall>x. r = Inr x \<longrightarrow> (\<exists>result. decode result = Some x \<and>
       asked (net_parser n) (rp_connection peer) t body result us)))"
proof -
  obtain y p s1 where q: "request (hearing n) peer t body s = (y, p, s1)" by (metis surj_pair)
  from request_heard [OF q] assms q show ?thesis
    by (cases y) (auto simp: request_into_def split: option.splits)
qed

definition marked_revoked :: "Config \<Rightarrow> Config" where
  "marked_revoked config = config\<lparr>cf_LinkRevoked := True\<rparr>"

lemma checkpoint_heard:
  assumes "checkpoint_revocation (marking save) config s = (None, s')"
  shows "snd s' = snd s @ [Marked (marked_revoked config)]"
  using assms by (auto simp: checkpoint_revocation_def marking_def marked_revoked_def split: prod.splits option.splits)

lemma revoke_link_heard:
  assumes "revoke_link (hearing n) (marking save) config peer s = (None, peer', s')" and "\<not> cf_LinkRevoked config"
  shows "\<exists>result us. decode_Revoked result = Some True \<and>
    asked (net_parser n) (rp_connection peer) ''link.revoke'' (JObj [(''linkId'', JStr (cf_LinkID config))]) result us \<and>
    snd s' = snd s @ us @ [Marked (marked_revoked config)]"
proof -
  obtain x p s1 where q: "request_into (hearing n) peer ''link.revoke'' (JObj [(''linkId'', JStr (cf_LinkID config))])
      decode_Revoked s = (x, p, s1)" by (metis surj_pair)
  with assms have x: "x = Inr True" and c: "checkpoint_revocation (marking save) config s1 = (None, s')"
    by (auto simp: revoke_link_def split: sum.splits if_splits prod.splits)
  from request_into_heard [OF q] x checkpoint_heard [OF c] show ?thesis by fastforce
qed

text \<open>C28: revoking an enrollment succeeds only when the link was already marked as revoked; or the relay was
  asked to revoke this link, the last text heard from it before the mark is its answer to that very request
  with an acknowledgement, and then the mark was stored; or (without any acknowledgement) the dial with the
  credentials of an enrollment whose activation was never confirmed was refused with status 401, and then the mark
  was stored.\<close>

theorem revocation_is_marked:
  assumes "RevokeEnrollment d (hearing n) config (Some (marking save)) (h, []) = (None, (h', trail))"
  shows "cf_LinkRevoked config \<or>
    (cf_ActivationPending config \<and>
       trail = [Turned_away (Some 401), Marked (config\<lparr>cf_LinkRevoked := True\<rparr>)]) \<or>
    (\<exists>c i gs raw result post.
       trail = [Reached c, Said c (wireEnvelope ''link.revoke'' i (JObj [(''linkId'', JStr (cf_LinkID config))]))] @
         map (Heard c) gs @ [Heard c raw, Marked (config\<lparr>cf_LinkRevoked := True\<rparr>)] @ post \<and>
       answers (net_parser n) i ''link.revoke'' raw result \<and> decode_Revoked result = Some True)"
proof (cases "cf_LinkRevoked config")
  case False
  obtain x h1 where d: "net_dial n (cf_RelayURL config) (bearer config) h = (x, h1)" by (metis surj_pair)
  show ?thesis
  proof (cases x)
    case (Inl p)
    obtain e st where p: "p = (e, st)" by fastforce
    define e' where "e' = (case st of Some status \<Rightarrow> RelayUpgradeError status
        | None \<Rightarrow> Wrapped ''relay WebSocket upgrade failed'' e)"
    have up: "upgrade_status e' = (if st = None then upgrade_status e else st)"
      by (cases st) (simp_all add: e'_def upgrade_status_def)
    define tr where "tr = [Turned_away (upgrade_status e')]"
    have dial: "dialRelay (hearing n) (cf_RelayURL config) (bearer config) (h, []) = (Inl e', (h1, tr))"
      using d Inl p up by (cases st) (auto simp: dialRelay_def e'_def tr_def)
    have "cf_ActivationPending config \<and> upgrade_status e' = Some 401 \<and>
        checkpoint_revocation (marking save) config (h1, tr) = (None, (h', trail))"
      using assms dial False by (auto simp: RevokeEnrollment_def split: option.splits if_splits)
    with checkpoint_heard [of save config "(h1, tr)"] show ?thesis by (auto simp: marked_revoked_def tr_def)
  next
    case (Inr c)
    define peer where "peer = \<lparr>rp_connection = c, rp_pending = [], rp_pendingBytes = 0\<rparr>"
    have dial: "dialRelay (hearing n) (cf_RelayURL config) (bearer config) (h, []) = (Inr peer, (h1, [Reached c]))"
      using d Inr by (simp add: dialRelay_def peer_def)
    obtain y peer' s2 where l: "revoke_link (hearing n) (marking save) config peer (h1, [Reached c]) = (y, peer', s2)"
      by (metis surj_pair)
    obtain z p s3 where q: "request_into (hearing n) peer' ''endpoint.revoke'' (JObj []) decode_Revoked s2 = (z, p, s3)"
      by (metis surj_pair)
    have y: "y = None" "trail = snd s3"
      using assms dial l q by (auto simp: RevokeEnrollment_def split: option.splits)
    from request_into_heard [OF q] obtain post where "snd s3 = snd s2 @ post" by auto
    with revoke_link_heard [OF l [unfolded y(1)] False] y(2) show ?thesis
      by (fastforce simp: asked_def marked_revoked_def peer_def)
  qed
qed simp

lemma sample_config_valid: "Config_validate sample_cdeps sample_config = None"
proof -
  have "decode32 (b64_encode (replicate 32 c)) = Some (replicate 32 c)" for c
    by (simp add: decode32_iff)
  moreover have "relayURL sample_cdeps ''wss://relay'' = Inr (the (k_url sample_cdeps ''wss://relay''))"
    by (simp add: relayURL_def sample_cdeps_def)
  ultimately show ?thesis
    by (simp add: Config_validate_def sample_config_def zero_Config_def session_id_uuid
        sample_key_decodes contributoryX25519PublicKey_def) (simp add: sample_cdeps_def)
qed

lemma scripted_revocation:
  "request_into (hearing script_net) peer ''link.revoke'' m decode_Revoked (''revoked'' # h, tr) =
     (Inr True, peer, (h, tr @ [Said (rp_connection peer) (wireEnvelope ''link.revoke'' session_id m),
        Heard (rp_connection peer) ''revoked'']))"
proof -
  have p: "ParseServer (net_parser script_net) (Bytes ''revoked'') =
      Inr (reply_envelope ''link.revoke'' (JObj [(''revoked'', JBool True)]))"
    by (rule reply_parsed) (simp_all add: script_document_def)
  have "reply_result (reply_envelope ''link.revoke'' result) ''link.revoke'' = Inr result" for result
    by (simp add: reply_result_def reply_envelope_def is_struct_def jstr_def jraw_def jmatches_def
        folded_reply_keys)
  then show ?thesis
    using p by (simp add: request_into_def request_def await_reply.simps reply_envelope_def revoked_decodes)
qed

theorem revocation_is_marked_witness:
  "\<exists>c i raw result post trail.
     trail = [Reached c, Said c (wireEnvelope ''link.revoke'' i (JObj [(''linkId'', JStr session_id)]))] @
       [Heard c raw, Marked (sample_config\<lparr>cf_LinkRevoked := True\<rparr>)] @ post \<and>
     answers (net_parser script_net) i ''link.revoke'' raw result \<and> decode_Revoked result = Some True"
proof -
  have "\<exists>h. RevokeEnrollment sample_cdeps (hearing script_net) sample_config
      (Some (marking (\<lambda>c h. (None, h)))) ([''revoked''], []) = (None, h)"
    by (simp add: RevokeEnrollment_def sample_config_valid dialRelay_def revoke_link_def scripted_revocation
        checkpoint_revocation_def marking_def split: prod.split)
  then obtain h trail where run: "RevokeEnrollment sample_cdeps (hearing script_net) sample_config
      (Some (marking (\<lambda>c h. (None, h)))) ([''revoked''], []) = (None, (h, trail))"
    by (metis surj_pair)
  from revocation_is_marked [OF this] show ?thesis
    by (auto simp: sample_config_def zero_Config_def)
qed

end
