(* ===== verification/Migration.thy ===== *)
theory Migration
  imports ConfigStorage Enrollment
begin

text \<open>
  What a configuration store promises (locales \<open>config_store\<close>, on records, and \<open>byte_store\<close>, on the bytes kept
  and with calls that may fail), what the migration from the file to the Keychain makes of the second (locale
  \<open>migration\<close>: nothing is lost), a machine with files and Keychain items on which the two stores of the code
  keep the first, and the same machine with any calls of the system failing, on which they keep the second.
\<close>

section \<open>The promises of a store\<close>

text \<open>\<open>held\<close> is the record a store holds, \<open>rest\<close> the part of the state that belongs to somebody else.\<close>

locale config_store =
  fixes store :: "'s ConfigStore" and held :: "'s \<Rightarrow> Config option" and rest :: "'s \<Rightarrow> 'r"
  assumes load_ok: "cs_Load store s = (Inr c, s') \<Longrightarrow> held s = Some c"
    and load_none: "cs_Load store s = (Inl e, s') \<Longrightarrow> is_NotExist e \<Longrightarrow> held s = None"
    and load_keeps: "cs_Load store s = (r, s') \<Longrightarrow> held s' = held s \<and> rest s' = rest s"
    and save_rest: "cs_Save store c s = (x, s') \<Longrightarrow> rest s' = rest s"
    and delete_ok: "cs_Delete store s = (None, s') \<Longrightarrow> held s' = None"
    and delete_failed: "cs_Delete store s = (Some e, s') \<Longrightarrow> held s' = held s"
    and delete_rest: "cs_Delete store s = (x, s') \<Longrightarrow> rest s' = rest s"

text \<open>The same for a store whose calls may fail. \<open>kept\<close> is what is stored, readable or not, and \<open>decode\<close> the
  record in it. A failed load says nothing about \<open>kept\<close> unless it says that there is nothing; a failed save may
  leave anything, a failed removal may have happened.\<close>

locale byte_store =
  fixes store :: "'s ConfigStore" and kept :: "'s \<Rightarrow> 'b option" and decode :: "'b \<Rightarrow> Config option"
    and others :: "'s \<Rightarrow> 'r"
  assumes load_ok: "cs_Load store s = (Inr c, s') \<Longrightarrow> \<exists>b. kept s = Some b \<and> decode b = Some c"
    and load_none: "cs_Load store s = (Inl e, s') \<Longrightarrow> is_NotExist e \<Longrightarrow> kept s = None"
    and load_keeps: "cs_Load store s = (r, s') \<Longrightarrow> kept s' = kept s \<and> others s' = others s"
    and save_others: "cs_Save store c s = (x, s') \<Longrightarrow> others s' = others s"
    and delete_ok: "cs_Delete store s = (None, s') \<Longrightarrow> kept s' = None"
    and delete_failed: "cs_Delete store s = (Some e, s') \<Longrightarrow> kept s' = kept s \<or> kept s' = None"
    and delete_others: "cs_Delete store s = (x, s') \<Longrightarrow> others s' = others s"
begin

definition record_of :: "'s \<Rightarrow> Config option" where
  "record_of s = Option.bind (kept s) decode"

lemma load_record: "cs_Load store s = (Inr c, s') \<Longrightarrow> kept s \<noteq> None \<and> record_of s = Some c"
  using load_ok by (fastforce simp: record_of_def)

lemma record_cong: "kept s' = kept s \<Longrightarrow> record_of s' = record_of s"
  by (simp add: record_of_def)

lemma no_record: "kept s = None \<Longrightarrow> record_of s = None"
  by (simp add: record_of_def)

end

locale migration =
  legacy: byte_store legacy kept_legacy decode_legacy kept_keychain +
  keychain: byte_store keychain kept_keychain decode_keychain kept_legacy
  for legacy keychain :: "'s ConfigStore" and kept_legacy :: "'s \<Rightarrow> 'f option"
    and kept_keychain :: "'s \<Rightarrow> 'k option" and decode_legacy decode_keychain
begin

lemma remove_legacy_effect:
  assumes "remove_legacy legacy s = (r, s')"
  shows "kept_keychain s' = kept_keychain s \<and> (kept_legacy s' = kept_legacy s \<or> kept_legacy s' = None) \<and>
    (r = None \<longrightarrow> kept_legacy s' = None)"
  using assms legacy.delete_ok legacy.delete_failed legacy.delete_others
  by (fastforce simp: remove_legacy_def split: prod.splits option.splits)

text \<open>What the Keychain keeps is not touched, read or unread; the legacy record goes only when the Keychain
  holds it; success says that it is gone.\<close>

definition migrated :: "'s \<Rightarrow> 's \<Rightarrow> goerr option \<Rightarrow> bool" where
  "migrated s s' r \<longleftrightarrow>
     (kept_keychain s \<noteq> None \<or> kept_legacy s = None \<longrightarrow> kept_keychain s' = kept_keychain s) \<and>
     (kept_legacy s' = kept_legacy s \<or>
      kept_legacy s' = None \<and> legacy.record_of s \<noteq> None \<and> keychain.record_of s' = legacy.record_of s) \<and>
     (r = None \<longrightarrow> kept_legacy s' = None \<and>
        (if kept_keychain s = None then keychain.record_of s' = legacy.record_of s
         else keychain.record_of s' \<noteq> None))"

lemma migrate_present_effect:
  assumes "migrate_present d legacy secure s = (r, s')"
    and "kept_keychain s \<noteq> None" "keychain.record_of s = Some secure"
  shows "migrated s s' r"
proof -
  obtain l s1 where l: "cs_Load legacy s = (l, s1)" by (metis surj_pair)
  note keep = legacy.load_keeps [OF l]
  show ?thesis
  proof (cases l)
    case (Inl e)
    then show ?thesis
      using assms l keep legacy.load_none [of s e s1] keychain.record_cong [of s1 s]
      by (auto simp: migrate_present_def migrated_def split: option.splits if_splits)
  next
    case (Inr old)
    with l legacy.load_record have "legacy.record_of s = Some old" by blast
    then show ?thesis
      using assms l keep Inr remove_legacy_effect [of s1] keychain.record_cong [of s' s]
      by (auto simp: migrate_present_def migrated_def split: option.splits if_splits)
  qed
qed

lemma migrate_verify_effect:
  assumes "migrate_verify d legacy keychain old s = (r, s')"
  shows "(kept_legacy s' = kept_legacy s \<or> kept_legacy s' = None \<and> keychain.record_of s' = Some old) \<and>
    (r = None \<longrightarrow> kept_legacy s' = None \<and> keychain.record_of s' = Some old)"
proof -
  obtain v s1 where v: "cs_Load keychain s = (v, s1)" by (metis surj_pair)
  note keep = keychain.load_keeps [OF v]
  show ?thesis
    using assms v keep keychain.load_record [of s _ s1] remove_legacy_effect [of s1]
      keychain.record_cong [of s' s]
    by (auto simp: migrate_verify_def split: sum.splits option.splits if_splits)
qed

lemma migrate_absent_effect:
  assumes "migrate_absent d legacy keychain s = (r, s')" and "kept_keychain s = None"
  shows "migrated s s' r"
proof -
  obtain l s1 where l: "cs_Load legacy s = (l, s1)" by (metis surj_pair)
  note keep = legacy.load_keeps [OF l]
  show ?thesis
  proof (cases l)
    case (Inl e)
    then show ?thesis
      using assms l keep legacy.load_none [of s e s1] keychain.no_record [of s1] legacy.no_record [of s]
      by (auto simp: migrate_absent_def migrated_def split: if_splits)
  next
    case (Inr old)
    with l legacy.load_record have held: "kept_legacy s \<noteq> None" "legacy.record_of s = Some old" by blast+
    obtain x s2 where x: "cs_Save keychain old s1 = (x, s2)" by (metis surj_pair)
    note others = keychain.save_others [OF x]
    show ?thesis
      using assms l keep Inr held x others migrate_verify_effect [of d old s2]
      by (auto simp: migrate_absent_def migrated_def split: option.splits)
  qed
qed

lemma migrate_effect:
  assumes "MigrateConfigStore d (Some legacy) (Some keychain) s = (r, s')"
  shows "migrated s s' r"
proof -
  obtain k s1 where k: "cs_Load keychain s = (k, s1)" by (metis surj_pair)
  note keep = keychain.load_keeps [OF k]
  have same: "keychain.record_of s1 = keychain.record_of s" "legacy.record_of s1 = legacy.record_of s"
    using keep keychain.record_cong legacy.record_cong by blast+
  have "migrated s1 s' r \<or> s' = s1 \<and> r \<noteq> None"
    using assms k keep same keychain.load_record [of s _ s1] keychain.load_none [of s _ s1]
      migrate_present_effect [of d _ s1 r s'] migrate_absent_effect [of d s1 r s']
    by (auto simp: MigrateConfigStore_def split: sum.splits if_splits)
  then show ?thesis using keep same by (auto simp: migrated_def)
qed

end

section \<open>A machine with files and Keychain items\<close>

record machine =
  mc_files :: "(string \<times> fileInfo \<times> string) list"
  mc_items :: "((string \<times> string) \<times> string) list"
  mc_handles :: "string list"
  mc_next :: nat

definition mc_file :: "machine \<Rightarrow> string \<Rightarrow> (fileInfo \<times> string) option" where
  "mc_file s path = map_of (mc_files s) path"

definition mc_put :: "string \<Rightarrow> fileInfo \<times> string \<Rightarrow> machine \<Rightarrow> machine" where
  "mc_put path f s = s\<lparr>mc_files := (path, f) # filter (\<lambda>p. fst p \<noteq> path) (mc_files s)\<rparr>"

definition mc_drop :: "string \<Rightarrow> machine \<Rightarrow> machine" where
  "mc_drop path s = s\<lparr>mc_files := filter (\<lambda>p. fst p \<noteq> path) (mc_files s)\<rparr>"

definition at_handle :: "machine \<Rightarrow> nat \<Rightarrow> (string \<times> fileInfo \<times> string) option" where
  "at_handle s handle =
     (if handle < length (mc_handles s)
      then map_option (\<lambda>f. (mc_handles s ! handle, f)) (mc_file s (mc_handles s ! handle)) else None)"

definition bad_handle :: goerr where
  "bad_handle = ErrorText ''bad file descriptor''"

definition mc_edit ::
  "(fileInfo \<times> string \<Rightarrow> fileInfo \<times> string) \<Rightarrow> nat \<Rightarrow> machine \<Rightarrow> goerr option \<times> machine" where
  "mc_edit f handle s = (case at_handle s handle of
     None \<Rightarrow> (Some bad_handle, s) | Some (path, x) \<Rightarrow> (None, mc_put path (f x) s))"

definition machine_fs :: "machine fs" where
  "machine_fs =
     \<lparr>fs_dir = (\<lambda>path. path),
      fs_lstat = (\<lambda>path s. (case mc_file s path of
        None \<Rightarrow> Inl NotExist | Some (i, b) \<Rightarrow> Inr i, s)),
      fs_open = (\<lambda>path s. case mc_file s path of
        None \<Rightarrow> (Inl NotExist, s)
      | Some f \<Rightarrow> (Inr (length (mc_handles s)), s\<lparr>mc_handles := mc_handles s @ [path]\<rparr>)),
      fs_stat = (\<lambda>handle s. (case at_handle s handle of
        None \<Rightarrow> Inl bad_handle | Some (path, i, b) \<Rightarrow> Inr i, s)),
      fs_read = (\<lambda>handle limit s. (case at_handle s handle of
        None \<Rightarrow> Inl bad_handle | Some (path, i, b) \<Rightarrow> Inr (take limit b), s)),
      fs_mkdirAll = (\<lambda>path mode s. (None, s)),
      fs_createTemp = (\<lambda>path s.
        let name = path @ ''/.companion-'' @ itoa (int (mc_next s)) @ ''.json'' in
        if mc_file s name \<noteq> None then (Inl (ErrorText ''file exists''), s)
        else (Inr (name, length (mc_handles s)),
          mc_put name (\<lparr>fi_regular = True, fi_perm = 384, fi_identity = mc_next s\<rparr>, [])
            (s\<lparr>mc_handles := mc_handles s @ [name], mc_next := Suc (mc_next s)\<rparr>))),
      fs_chmod = (\<lambda>handle mode. mc_edit (\<lambda>(i, b). (i\<lparr>fi_perm := mode\<rparr>, b)) handle),
      fs_write = (\<lambda>handle bytes. mc_edit (\<lambda>(i, b). (i, b @ bytes)) handle),
      fs_sync = (\<lambda>handle s. (None, s)), fs_close = (\<lambda>handle s. (None, s)),
      fs_rename = (\<lambda>old new s. case mc_file s old of
        None \<Rightarrow> (Some NotExist, s) | Some f \<Rightarrow> (None, mc_put new f (mc_drop old s))),
      fs_remove = (\<lambda>path s.
        if mc_file s path = None then (Some NotExist, s) else (None, mc_drop path s))\<rparr>"

definition machine_keychain :: "machine keychain" where
  "machine_keychain =
     \<lparr>kc_load = (\<lambda>service account s. (case map_of (mc_items s) (service, account) of
        None \<Rightarrow> (SecItemNotFound, []) | Some b \<Rightarrow> (SecSuccess, b), s)),
      kc_save = (\<lambda>service account bytes s.
        (SecSuccess, s\<lparr>mc_items := ((service, account), bytes) # mc_items s\<rparr>)),
      kc_delete = (\<lambda>service account s.
        if map_of (mc_items s) (service, account) = None then (SecItemNotFound, s)
        else (SecSuccess, s\<lparr>mc_items := filter (\<lambda>p. fst p \<noteq> (service, account)) (mc_items s)\<rparr>))\<rparr>"

text \<open>The records that the two stores hold: what the bytes of the file or of the item decode to.\<close>

definition decoded :: "config_codec \<Rightarrow> string option \<Rightarrow> Config option" where
  "decoded cc bytes = (case bytes of None \<Rightarrow> None | Some b \<Rightarrow>
     (case decodeStoredConfig cc b of Inl e \<Rightarrow> None | Inr c \<Rightarrow> Some c))"

definition file_held :: "config_codec \<Rightarrow> string \<Rightarrow> machine \<Rightarrow> Config option" where
  "file_held cc path s = decoded cc (map_option snd (mc_file s path))"

definition item_held :: "config_codec \<Rightarrow> machine \<Rightarrow> Config option" where
  "item_held cc s =
     decoded cc (map_of (mc_items s) (DefaultKeychainService, DefaultKeychainAccount))"

lemma validate_text: "Config_validate d config = Some e \<Longrightarrow> \<not> is_NotExist e"
  by (auto simp: Config_validate_def relayURL_def Let_def is_NotExist_def errors_Is_def
      split: if_splits sum.splits option.splits)

lemma decode_text: "decodeStoredConfig cc b = Inl e \<Longrightarrow> \<not> is_NotExist e"
  by (auto simp: decodeStoredConfig_def invalid_config_def is_NotExist_def errors_Is_def
      split: if_splits option.splits dest: validate_text)

lemma decode_limited: "decodeStoredConfig cc (take (Suc maxStoredConfigBytes) b) = decodeStoredConfig cc b"
  by (cases "length b \<le> maxStoredConfigBytes") (auto simp: decodeStoredConfig_def)

lemma map_of_drop: "map_of (filter (\<lambda>p. fst p \<noteq> k) xs) x = (if x = k then None else map_of xs x)"
  by (induction xs) auto

lemma mc_file_simps [simp]:
  "mc_file (mc_put path f s) p = (if p = path then Some f else mc_file s p)"
  "mc_file (mc_drop path s) p = (if p = path then None else mc_file s p)"
  "mc_file (s\<lparr>mc_handles := hs\<rparr>) p = mc_file s p" "mc_file (s\<lparr>mc_next := n\<rparr>) p = mc_file s p"
  "mc_file (s\<lparr>mc_items := items\<rparr>) p = mc_file s p"
  by (simp_all add: mc_file_def mc_put_def mc_drop_def map_of_drop)

lemma mc_items_simps [simp]:
  "mc_items (mc_put path f s) = mc_items s" "mc_items (mc_drop path s) = mc_items s"
  by (simp_all add: mc_put_def mc_drop_def)

lemma mc_edit_items: "mc_edit f handle s = (r, s') \<Longrightarrow> mc_items s' = mc_items s"
  by (auto simp: mc_edit_def split: option.splits prod.splits)

lemmas machine_defs = machine_fs_def at_handle_def Let_def

lemma write_temporary_items:
  "write_temporary machine_fs path t file bytes s = (r, s') \<Longrightarrow> mc_items s' = mc_items s"
  by (auto simp: write_temporary_def or_close_def after_def machine_fs_def
      split: prod.splits option.splits if_splits dest!: mc_edit_items)

lemma file_Save_items: "file_Save cc machine_fs path c s = (x, s') \<Longrightarrow> mc_items s' = mc_items s"
proof -
  have keep: "mc_items (snd (fs_remove machine_fs p s)) = mc_items s" for p s
    by (simp add: machine_fs_def)
  have temp: "fs_createTemp machine_fs p s = (r, s') \<Longrightarrow> mc_items s' = mc_items s" for p s r s'
    by (auto simp: machine_fs_def Let_def split: if_splits)
  have mkdir: "fs_mkdirAll machine_fs p m s = (None, s)" for p m s
    by (simp add: machine_fs_def)
  assume "file_Save cc machine_fs path c s = (x, s')"
  then show ?thesis
    by (auto simp: file_Save_def after_def mkdir Let_def keep
        split: option.splits sum.splits if_splits prod.splits
        dest!: temp write_temporary_items)
qed

lemma file_Load_effect:
  assumes "file_Load cc machine_fs path s = (r, s')"
  shows "mc_files s' = mc_files s \<and> mc_items s' = mc_items s \<and>
    (case r of Inr c \<Rightarrow> file_held cc path s = Some c
     | Inl e \<Rightarrow> is_NotExist e \<longrightarrow> file_held cc path s = None)"
proof (cases "mc_file s path")
  case None
  with assms show ?thesis
    by (auto simp: file_Load_def machine_fs_def file_held_def decoded_def)
next
  case (Some f)
  obtain i b where f: "f = (i, b)" by (cases f)
  define s1 where "s1 = s\<lparr>mc_handles := mc_handles s @ [path]\<rparr>"
  have content: "mc_file s1 path = Some (i, b)" using Some f by (simp add: s1_def)
  have h: "at_handle s1 (length (mc_handles s)) = Some (path, i, b)"
    using content by (simp add: at_handle_def s1_def)
  have "(r, s') = (if private_file i then (decodeStoredConfig cc b, s1) else (Inl insecure_file, s))"
    using assms Some f h
    by (simp add: file_Load_def machine_fs_def s1_def [symmetric] decode_limited split: if_splits)
  then show ?thesis
    using Some f by (auto simp: file_held_def decoded_def s1_def insecure_file_def is_NotExist_def
        errors_Is_def dest: decode_text split: if_splits sum.splits)
qed

lemma held_cong:
  "mc_files s' = mc_files s \<Longrightarrow> file_held cc path s' = file_held cc path s"
  "mc_items s' = mc_items s \<Longrightarrow> item_held cc s' = item_held cc s"
  by (simp_all add: file_held_def item_held_def mc_file_def)

interpretation file_store: config_store "FileConfigStore cc machine_fs path" "file_held cc path" "item_held cc"
proof
  fix s c s'
  assume "cs_Load (FileConfigStore cc machine_fs path) s = (Inr c, s')"
  then show "file_held cc path s = Some c" using file_Load_effect [of cc path s "Inr c" s'] by (simp add: FileConfigStore_def)
next
  fix s e s'
  assume "cs_Load (FileConfigStore cc machine_fs path) s = (Inl e, s')" and "is_NotExist e"
  then show "file_held cc path s = None"
    using file_Load_effect [of cc path s "Inl e" s'] by (simp add: FileConfigStore_def)
next
  fix s r s'
  assume "cs_Load (FileConfigStore cc machine_fs path) s = (r, s')"
  then show "file_held cc path s' = file_held cc path s \<and> item_held cc s' = item_held cc s"
    using file_Load_effect [of cc path s r s'] held_cong [of s' s] by (simp add: FileConfigStore_def)
next
  fix c s x s'
  assume "cs_Save (FileConfigStore cc machine_fs path) c s = (x, s')"
  then show "item_held cc s' = item_held cc s"
    using file_Save_items [of cc path c s x s'] held_cong(2) [of s' s cc] by (simp add: FileConfigStore_def)
qed (auto simp: FileConfigStore_def file_Delete_def machine_fs_def file_held_def item_held_def
    decoded_def is_NotExist_def errors_Is_def split: if_splits)

lemma default_identifiers: "keychain_identifiers [] [] =
    Inr (DefaultKeychainService, DefaultKeychainAccount)"
  by (simp add: keychain_identifiers_def DefaultKeychainService_def DefaultKeychainAccount_def)

interpretation keychain_store: config_store "KeychainConfigStore cc machine_keychain [] []"
  "item_held cc" "file_held cc path"
  by unfold_locales
    (auto simp: KeychainConfigStore_def keychain_Load_def keychain_Save_def keychain_Delete_def
      default_identifiers machine_keychain_def item_held_def file_held_def decoded_def map_of_drop
      keychainStatusError_def invalid_config_def is_NotExist_def errors_Is_def
      split: option.splits if_splits sum.splits dest: decode_text)

section \<open>The machine when its calls fail\<close>

text \<open>Each call of the operating system takes the next fault of a list: none, a failure without effect, or an
  effect that is reported as an error. The number is the status of the Keychain or the error number of the file
  system; none of them says that a file or an item does not exist. No fault is left when the list has ended.\<close>

datatype fault = Fine | Failing int | Unconfirmed int

definition troubled ::
  "(int \<Rightarrow> 'r) \<Rightarrow> (machine \<Rightarrow> 'r \<times> machine) \<Rightarrow> machine \<times> fault list \<Rightarrow> 'r \<times> machine \<times> fault list" where
  "troubled fails call s = (case s of
     (m, []) \<Rightarrow> (case call m of (r, m) \<Rightarrow> (r, m, []))
   | (m, Fine # faults) \<Rightarrow> (case call m of (r, m) \<Rightarrow> (r, m, faults))
   | (m, Failing n # faults) \<Rightarrow> (fails n, m, faults)
   | (m, Unconfirmed n # faults) \<Rightarrow> (fails n, snd (call m), faults))"

definition io_error :: "int \<Rightarrow> goerr" where
  "io_error n = ErrorText (''input/output error '' @ itoa n)"

definition flaky_fs :: "(machine \<times> fault list) fs" where
  "flaky_fs =
     \<lparr>fs_dir = fs_dir machine_fs,
      fs_lstat = (\<lambda>path. troubled (\<lambda>n. Inl (io_error n)) (fs_lstat machine_fs path)),
      fs_open = (\<lambda>path. troubled (\<lambda>n. Inl (io_error n)) (fs_open machine_fs path)),
      fs_stat = (\<lambda>handle. troubled (\<lambda>n. Inl (io_error n)) (fs_stat machine_fs handle)),
      fs_read = (\<lambda>handle limit. troubled (\<lambda>n. Inl (io_error n)) (fs_read machine_fs handle limit)),
      fs_mkdirAll = (\<lambda>path mode. troubled (\<lambda>n. Some (io_error n)) (fs_mkdirAll machine_fs path mode)),
      fs_createTemp = (\<lambda>path. troubled (\<lambda>n. Inl (io_error n)) (fs_createTemp machine_fs path)),
      fs_chmod = (\<lambda>handle mode. troubled (\<lambda>n. Some (io_error n)) (fs_chmod machine_fs handle mode)),
      fs_write = (\<lambda>handle bytes. troubled (\<lambda>n. Some (io_error n)) (fs_write machine_fs handle bytes)),
      fs_sync = (\<lambda>handle. troubled (\<lambda>n. Some (io_error n)) (fs_sync machine_fs handle)),
      fs_close = (\<lambda>handle. troubled (\<lambda>n. Some (io_error n)) (fs_close machine_fs handle)),
      fs_rename = (\<lambda>old new. troubled (\<lambda>n. Some (io_error n)) (fs_rename machine_fs old new)),
      fs_remove = (\<lambda>path. troubled (\<lambda>n. Some (io_error n)) (fs_remove machine_fs path))\<rparr>"

definition flaky_keychain :: "(machine \<times> fault list) keychain" where
  "flaky_keychain =
     \<lparr>kc_load = (\<lambda>service account.
        troubled (\<lambda>n. (SecOther n, [])) (kc_load machine_keychain service account)),
      kc_save = (\<lambda>service account bytes. troubled SecOther (kc_save machine_keychain service account bytes)),
      kc_delete = (\<lambda>service account. troubled SecOther (kc_delete machine_keychain service account))\<rparr>"

text \<open>The bytes of the item, whether they are a configuration or not.\<close>

definition item_bytes :: "machine \<Rightarrow> string option" where
  "item_bytes m = map_of (mc_items m) (DefaultKeychainService, DefaultKeychainAccount)"

definition record_in :: "config_codec \<Rightarrow> string \<Rightarrow> Config option" where
  "record_in cc bytes = decoded cc (Some bytes)"

text \<open>A call under trouble either is the call or has failed, with or without its effect.\<close>

lemma troubled_simps:
  "troubled fails call (m, []) = (fst (call m), snd (call m), [])"
  "troubled fails call (m, Fine # faults) = (fst (call m), snd (call m), faults)"
  "troubled fails call (m, Failing n # faults) = (fails n, m, faults)"
  "troubled fails call (m, Unconfirmed n # faults) = (fails n, snd (call m), faults)"
  by (simp_all add: troubled_def split: prod.split)

lemma troubled_cases:
  assumes "troubled fails call s = (r, t)"
  obtains (went) "r = fst (call (fst s))" "fst t = snd (call (fst s))"
    | (failed) n where "r = fails n" "fst t = fst s \<or> fst t = snd (call (fst s))"
  using assms by (auto simp: troubled_def split: prod.splits list.splits fault.splits)

lemma troubled_keeps:
  assumes "troubled fails call s = (r, t)" and "Q (snd (call (fst s))) = Q (fst s)"
  shows "Q (fst t) = Q (fst s)"
  using assms(1) by (cases rule: troubled_cases) (use assms(2) in auto)

lemma io_error_text [simp]: "\<not> is_NotExist (io_error n)" "io_error n \<noteq> NotExist"
  by (simp_all add: io_error_def is_NotExist_def errors_Is_def)

lemma status_error_text [simp]: "\<not> is_NotExist (keychainStatusError operation status)"
  by (simp add: keychainStatusError_def is_NotExist_def errors_Is_def)

lemma lstat_flaky:
  assumes "fs_lstat flaky_fs path s = (r, t)"
  shows "fst t = fst s \<and> (case r of Inl e \<Rightarrow> is_NotExist e \<longrightarrow> mc_file (fst s) path = None
    | Inr i \<Rightarrow> \<exists>b. mc_file (fst s) path = Some (i, b))"
  using assms
  by (auto simp: flaky_fs_def machine_fs_def is_NotExist_def errors_Is_def io_error_def
      elim!: troubled_cases split: option.splits)

lemma open_flaky:
  assumes "fs_open flaky_fs path s = (r, t)"
  shows "mc_files (fst t) = mc_files (fst s) \<and> mc_items (fst t) = mc_items (fst s) \<and>
    (case r of Inl e \<Rightarrow> is_NotExist e \<longrightarrow> mc_file (fst s) path = None
     | Inr h \<Rightarrow> h < length (mc_handles (fst t)) \<and> mc_handles (fst t) ! h = path)"
  using assms
  by (auto simp: flaky_fs_def machine_fs_def is_NotExist_def errors_Is_def io_error_def
      elim!: troubled_cases split: option.splits)

lemma stat_flaky:
  assumes "fs_stat flaky_fs h s = (r, t)"
  shows "fst t = fst s \<and> (\<forall>e. r = Inl e \<longrightarrow> \<not> is_NotExist e)"
  using assms
  by (auto simp: flaky_fs_def machine_fs_def is_NotExist_def errors_Is_def io_error_def bad_handle_def
      elim!: troubled_cases split: option.splits)

lemma read_flaky:
  assumes "fs_read flaky_fs h limit s = (r, t)"
    and "h < length (mc_handles (fst s))" "mc_handles (fst s) ! h = path"
  shows "fst t = fst s \<and> (case r of Inl e \<Rightarrow> \<not> is_NotExist e
    | Inr bytes \<Rightarrow> \<exists>i b. mc_file (fst s) path = Some (i, b) \<and> bytes = take limit b)"
  using assms
  by (auto simp: flaky_fs_def machine_fs_def is_NotExist_def errors_Is_def io_error_def bad_handle_def
      at_handle_def elim!: troubled_cases split: option.splits)

lemma file_Load_flaky:
  assumes "file_Load cc flaky_fs path s = (r, t)"
  shows "mc_files (fst t) = mc_files (fst s) \<and> mc_items (fst t) = mc_items (fst s) \<and>
    (case r of Inr c \<Rightarrow> file_held cc path (fst s) = Some c
     | Inl e \<Rightarrow> is_NotExist e \<longrightarrow> mc_file (fst s) path = None)"
proof -
  obtain i s1 where lstat: "fs_lstat flaky_fs path s = (i, s1)" by (metis surj_pair)
  obtain h s2 where opn: "fs_open flaky_fs path s1 = (h, s2)" by (metis surj_pair)
  obtain si s3 where stat: "fs_stat flaky_fs (projr h) s2 = (si, s3)" by (metis surj_pair)
  obtain b s4 where read: "fs_read flaky_fs (projr h) (maxStoredConfigBytes + 1) s3 = (b, s4)" by (metis surj_pair)
  note steps = lstat_flaky [OF lstat] open_flaky [OF opn] stat_flaky [OF stat]
  have same: "mc_file (fst s2) path = mc_file (fst s) path"
    using steps by (simp add: mc_file_def)
  show ?thesis
  proof (cases "\<exists>pathInfo h'. i = Inr pathInfo \<and> private_file pathInfo \<and> h = Inr h'")
    case False
    then show ?thesis
      using assms lstat opn steps
      by (auto simp: file_Load_def insecure_file_def is_NotExist_def errors_Is_def
          split: sum.splits if_splits)
  next
    case True
    then obtain pathInfo h' where i: "i = Inr pathInfo" "private_file pathInfo" and h: "h = Inr h'" by blast
    have s3: "fst s3 = fst s2" using steps by simp
    have content: "fst s4 = fst s2" "case b of Inl e \<Rightarrow> \<not> is_NotExist e
        | Inr bytes \<Rightarrow> \<exists>f c. mc_file (fst s) path = Some (f, c) \<and> bytes = take (maxStoredConfigBytes + 1) c"
      using read_flaky [OF read, of path] steps h by (cases b; simp add: s3 same)+
    show ?thesis
      using assms lstat opn stat read steps i h content
      by (auto simp: file_Load_def insecure_file_def is_NotExist_def errors_Is_def file_held_def decoded_def
          decode_limited split: sum.splits if_splits dest: decode_text)
  qed
qed

lemma file_Delete_flaky:
  assumes "file_Delete flaky_fs path s = (r, t)"
  shows "mc_items (fst t) = mc_items (fst s) \<and> (r = None \<longrightarrow> mc_file (fst t) path = None) \<and>
    (mc_file (fst t) path = mc_file (fst s) path \<or> mc_file (fst t) path = None)"
proof -
  obtain x u where remove: "fs_remove flaky_fs path s = (x, u)" by (metis surj_pair)
  have "mc_items (fst u) = mc_items (fst s) \<and>
    (mc_file (fst u) path = mc_file (fst s) path \<or> mc_file (fst u) path = None) \<and>
    (case x of None \<Rightarrow> mc_file (fst u) path = None | Some e \<Rightarrow> is_NotExist e \<longrightarrow> mc_file (fst u) path = None)"
    using remove by (auto simp: flaky_fs_def machine_fs_def elim!: troubled_cases split: if_splits)
  then show ?thesis
    using assms remove by (auto simp: file_Delete_def split: option.splits if_splits)
qed

lemma keychain_Load_flaky:
  assumes "keychain_Load cc flaky_keychain [] [] s = (r, t)"
  shows "fst t = fst s \<and> (case r of Inr c \<Rightarrow> item_held cc (fst s) = Some c
    | Inl e \<Rightarrow> is_NotExist e \<longrightarrow> item_bytes (fst s) = None)"
proof -
  obtain status bytes t' where load: "kc_load flaky_keychain DefaultKeychainService DefaultKeychainAccount s =
    ((status, bytes), t')" by (metis surj_pair)
  have "fst t' = fst s \<and> (case status of SecItemNotFound \<Rightarrow> item_bytes (fst s) = None
    | SecSuccess \<Rightarrow> item_bytes (fst s) = Some bytes | SecOther n \<Rightarrow> True)"
    using load
    by (auto simp: flaky_keychain_def machine_keychain_def item_bytes_def elim!: troubled_cases
        split: option.splits)
  then show ?thesis
    using assms load
    by (auto simp: keychain_Load_def default_identifiers item_held_def decoded_def item_bytes_def
        invalid_config_def is_NotExist_def errors_Is_def keychainStatusError_def
        split: if_splits sum.splits keychain_status.splits dest: decode_text)
qed

lemma keychain_Save_flaky:
  assumes "keychain_Save cc flaky_keychain [] [] c s = (r, t)"
  shows "mc_files (fst t) = mc_files (fst s)"
  using assms
  by (auto simp: keychain_Save_def default_identifiers flaky_keychain_def machine_keychain_def
      split: sum.splits prod.splits if_splits elim!: troubled_cases)

lemma keychain_Delete_flaky:
  assumes "keychain_Delete flaky_keychain [] [] s = (r, t)"
  shows "mc_files (fst t) = mc_files (fst s) \<and> (r = None \<longrightarrow> item_bytes (fst t) = None) \<and>
    (item_bytes (fst t) = item_bytes (fst s) \<or> item_bytes (fst t) = None)"
  using assms
  by (auto simp: keychain_Delete_def default_identifiers flaky_keychain_def machine_keychain_def
      item_bytes_def map_of_drop split: prod.splits if_splits elim!: troubled_cases)

lemma flaky_items:
  "fs_mkdirAll flaky_fs p mode s = (x, t) \<Longrightarrow> mc_items (fst t) = mc_items (fst s)"
  "fs_createTemp flaky_fs p s = (y, t) \<Longrightarrow> mc_items (fst t) = mc_items (fst s)"
  "fs_chmod flaky_fs h mode s = (x, t) \<Longrightarrow> mc_items (fst t) = mc_items (fst s)"
  "fs_write flaky_fs h bytes s = (x, t) \<Longrightarrow> mc_items (fst t) = mc_items (fst s)"
  "fs_sync flaky_fs h s = (x, t) \<Longrightarrow> mc_items (fst t) = mc_items (fst s)"
  "fs_close flaky_fs h s = (x, t) \<Longrightarrow> mc_items (fst t) = mc_items (fst s)"
  "fs_rename flaky_fs p q s = (x, t) \<Longrightarrow> mc_items (fst t) = mc_items (fst s)"
  "fs_remove flaky_fs p s = (x, t) \<Longrightarrow> mc_items (fst t) = mc_items (fst s)"
  by (auto simp: flaky_fs_def machine_fs_def Let_def mc_edit_def split: option.splits prod.splits
      elim!: troubled_keeps)

lemma flaky_items_snd:
  "mc_items (fst (snd (fs_close flaky_fs h s))) = mc_items (fst s)"
  "mc_items (fst (snd (fs_remove flaky_fs p s))) = mc_items (fst s)"
  using flaky_items(6,8) by (metis prod.collapse)+

lemma write_temporary_flaky:
  "write_temporary flaky_fs path p h bytes s = (x, t) \<Longrightarrow> mc_items (fst t) = mc_items (fst s)"
  by (auto simp: write_temporary_def or_close_def after_def flaky_items_snd split: prod.splits option.splits
      dest!: flaky_items)

lemma file_Save_flaky:
  assumes "file_Save cc flaky_fs path c s = (x, t)"
  shows "mc_items (fst t) = mc_items (fst s)"
  using assms
  by (auto simp: file_Save_def after_def Let_def flaky_items_snd
      split: option.splits sum.splits if_splits prod.splits dest!: flaky_items write_temporary_flaky)

interpretation flaky_file: byte_store "FileConfigStore cc flaky_fs path" "\<lambda>s. mc_file (fst s) path"
  "\<lambda>f. record_in cc (snd f)" "\<lambda>s. item_bytes (fst s)"
  by unfold_locales
    (auto simp: FileConfigStore_def item_bytes_def file_held_def record_in_def mc_file_def decoded_def
      split: option.splits
      dest!: file_Load_flaky file_Delete_flaky file_Save_flaky)

interpretation flaky_item: byte_store "KeychainConfigStore cc flaky_keychain [] []"
  "\<lambda>s. item_bytes (fst s)" "record_in cc" "\<lambda>s. mc_file (fst s) path"
  by unfold_locales
    (auto simp: KeychainConfigStore_def item_held_def item_bytes_def record_in_def mc_file_def decoded_def
      split: option.splits
      dest!: keychain_Load_flaky keychain_Delete_flaky keychain_Save_flaky)

interpretation flaky_migration: migration "FileConfigStore cc flaky_fs path"
  "KeychainConfigStore cc flaky_keychain [] []" "\<lambda>s. mc_file (fst s) path" "\<lambda>s. item_bytes (fst s)"
  "\<lambda>f. record_in cc (snd f)" "record_in cc"
  by unfold_locales

section \<open>Nothing is lost\<close>

text \<open>C30: the migration of a configuration from the file to the Keychain loses nothing, whichever calls of
  the file system and of the Keychain fail, with or without their effect. What the Keychain item holds stays as
  it is, also when it cannot be read or is no configuration, and nothing is written where there is no file. The
  file stays as it is, or it is gone and held a configuration that the Keychain now holds. When the migration
  reports success the file is gone and the Keychain holds a configuration that it had before or, where it had
  no item, the one of the file, if there was one.\<close>

theorem migration_loses_nothing:
  assumes "MigrateConfigStore d (Some (FileConfigStore cc flaky_fs path))
    (Some (KeychainConfigStore cc flaky_keychain [] [])) (s, faults) = (r, s', faults')"
  shows "(item_bytes s \<noteq> None \<or> mc_file s path = None \<longrightarrow> item_bytes s' = item_bytes s) \<and>
    (mc_file s' path = mc_file s path \<or>
     mc_file s' path = None \<and> file_held cc path s \<noteq> None \<and> item_held cc s' = file_held cc path s) \<and>
    (r = None \<longrightarrow> mc_file s' path = None \<and>
       (if item_bytes s = None then item_held cc s' = file_held cc path s else item_held cc s' \<noteq> None))"
proof -
  have in_file: "flaky_file.record_of path cc (t, f) = file_held cc path t" for t f
    unfolding flaky_file.record_of_def
    by (cases "mc_file t path") (simp_all add: file_held_def record_in_def decoded_def)
  have in_item: "flaky_item.record_of cc (t, f) = item_held cc t" for t f
    unfolding flaky_item.record_of_def
    by (cases "item_bytes t") (simp_all add: item_held_def record_in_def decoded_def item_bytes_def)
  show ?thesis
    using flaky_migration.migrate_effect [OF assms] unfolding flaky_migration.migrated_def in_file in_item by simp
qed

definition sample_codec :: config_codec where
  "sample_codec = \<lparr>cc_deps = sample_cdeps, cc_print_indent = (\<lambda>c. Inr ''config''),
     cc_print = (\<lambda>c. Inr ''config''), cc_read_json = (\<lambda>b. Some sample_config)\<rparr>"

definition sample_machine :: machine where
  "sample_machine = \<lparr>mc_files = [(''file'', \<lparr>fi_regular = True, fi_perm = 384, fi_identity = 0\<rparr>, ''config'')],
     mc_items = [], mc_handles = [], mc_next = 1\<rparr>"

text \<open>The sample machine with an item in a Keychain that is locked.\<close>

definition locked_machine :: machine where
  "locked_machine = sample_machine\<lparr>mc_items := [((DefaultKeychainService, DefaultKeychainAccount), ''other'')]\<rparr>"

definition seven_calls :: "fault list" where
  "seven_calls = [Fine, Fine, Fine, Fine, Fine, Fine, Fine]"

lemma sample_decodes: "decodeStoredConfig sample_codec ''config'' = Inr sample_config"
  by (simp add: decodeStoredConfig_def sample_codec_def sample_config_valid maxStoredConfigBytes_def)

lemma sample_encodes: "encodeStoredConfig sample_codec sample_config = Inr ''config''"
  by (simp add: encodeStoredConfig_def sample_codec_def sample_config_valid maxStoredConfigBytes_def)

lemmas migration_run = MigrateConfigStore_def KeychainConfigStore_def keychain_Load_def default_identifiers
  machine_keychain_def flaky_keychain_def flaky_fs_def troubled_simps sample_machine_def locked_machine_def
  is_NotExist_def errors_Is_def migrate_absent_def keychainStatusError_def
  FileConfigStore_def file_Load_def machine_fs_def mc_file_def at_handle_def private_file_def
  maxStoredConfigBytes_def sample_decodes sample_config_valid keychain_Save_def sample_encodes
  migrate_verify_def remove_legacy_def file_Delete_def io_error_def mc_drop_def

text \<open>Without faults the record moves; with a removal that fails after its effect it has moved although an error
  is reported; with a locked Keychain nothing changes.\<close>

abbreviation sample_migration :: "machine \<times> fault list \<Rightarrow> goerr option \<times> machine \<times> fault list" where
  "sample_migration \<equiv> MigrateConfigStore sample_cdeps (Some (FileConfigStore sample_codec flaky_fs ''file''))
    (Some (KeychainConfigStore sample_codec flaky_keychain [] []))"

lemma sample_legacy:
  "\<exists>s'. sample_migration (sample_machine, []) = (None, s', [])"
  "\<exists>e s'. sample_migration (sample_machine, seven_calls @ [Unconfirmed 5]) = (Some e, s', []) \<and>
     mc_file s' ''file'' = None"
  "\<exists>e. sample_migration (locked_machine, [Failing (-25308)]) = (Some e, locked_machine, [])"
  by (simp_all add: migration_run seven_calls_def)

theorem migration_loses_nothing_witness:
  "(\<exists>s'. sample_migration (sample_machine, []) = (None, s', []) \<and>
     mc_file s' ''file'' = None \<and> item_held sample_codec s' = Some sample_config) \<and>
   (\<exists>e s'. sample_migration (sample_machine, seven_calls @ [Unconfirmed 5]) = (Some e, s', []) \<and>
     mc_file s' ''file'' = None \<and> item_held sample_codec s' = Some sample_config) \<and>
   (\<exists>e s'. sample_migration (locked_machine, [Failing (-25308)]) = (Some e, s', []) \<and>
     item_bytes s' = Some ''other'')"
proof -
  have held: "file_held sample_codec ''file'' sample_machine = Some sample_config"
    "item_bytes sample_machine = None" "None \<noteq> mc_file sample_machine ''file''"
    "item_bytes locked_machine = Some ''other''"
    by (simp_all add: file_held_def decoded_def sample_machine_def locked_machine_def mc_file_def
        item_bytes_def sample_decodes)
  obtain s' where moved: "sample_migration (sample_machine, []) = (None, s', [])"
    using sample_legacy(1) by blast
  obtain e t where late: "sample_migration (sample_machine, seven_calls @ [Unconfirmed 5]) = (Some e, t, [])"
    "mc_file t ''file'' = None"
    using sample_legacy(2) by blast
  obtain e' where locked: "sample_migration (locked_machine, [Failing (-25308)]) = (Some e', locked_machine, [])"
    using sample_legacy(3) by blast
  show ?thesis
    using moved late locked migration_loses_nothing [OF moved] migration_loses_nothing [OF late(1)]
      migration_loses_nothing [OF locked]
    by (auto simp: held)
qed

end
