(* ===== verification/RelayLoop.thy ===== *)
theory RelayLoop
  imports RelayClient
begin

text \<open>
  The relay connection of the companion (\<^verbatim>\<open>RunRelay\<close> and \<^verbatim>\<open>runRelayConnection\<close> of
  \<^verbatim>\<open>internal/companion/relay.go\<close>): one connection as a loop over the events its \<^verbatim>\<open>select\<close> receives, and
  the reconnection with its backoff. The goroutines (reader, pings, page monitor, timer) are seen through
  the events they send; which event is taken next is a choice of the host. Both loops can run as long as
  the process, so they carry fuel: \<open>None\<close> is a run that has not returned yet. Times are in nanoseconds.
\<close>

section \<open>Statuses, events and the host\<close>

record RelayStatus =
  rs_Connected :: bool
  rs_Secure :: bool
  rs_Message :: string

datatype relay_event =
    ContextDone goerr
  | PingFailed goerr
  | PageEvent "resolvePageObservation option"
  | MessageReady
  | ReaderStopped

text \<open>
  \<open>rh_random n\<close> draws a number below \<open>n\<close>, \<open>rh_timer\<close> waits for a time unless the context is cancelled,
  \<open>rh_connected\<close> starts the timer, the pings and the reader of a connection, \<open>rh_startPages\<close> and \<open>rh_stopPages\<close>
  the page monitor, and \<open>rh_select\<close>, which learns whether page events are awaited, picks the next event.
\<close>

record ('k, 'c, 'h) relay_host =
  rh_net :: "'h net"
  rh_env :: "'h control_env"
  rh_noise :: "('k, 'c) noise"
  rh_clock :: "'h \<Rightarrow> int \<times> 'h"
  rh_cancelled :: "'h \<Rightarrow> bool \<times> 'h"
  rh_random :: "int \<Rightarrow> 'h \<Rightarrow> (goerr + int) \<times> 'h"
  rh_timer :: "int \<Rightarrow> 'h \<Rightarrow> goerr option \<times> 'h"
  rh_connected :: "nat \<Rightarrow> int \<Rightarrow> 'h \<Rightarrow> 'h"
  rh_select :: "bool \<Rightarrow> 'h \<Rightarrow> relay_event \<times> 'h"
  rh_startPages :: "'h \<Rightarrow> 'h"
  rh_stopPages :: "'h \<Rightarrow> 'h"

text \<open>The callback of a connection, with the variables it captures.\<close>

type_synonym ('u, 'h) status_update = "RelayStatus \<Rightarrow> 'u \<Rightarrow> 'h \<Rightarrow> 'u \<times> 'h"

record ('k, 'c, 'u) relay_loop =
  rl_secure :: "('k, 'c) secureChannel option"
  rl_pages :: bool
  rl_monitor :: bool
  rl_pending :: "string list"
  rl_captured :: 'u

definition seconds :: "int \<Rightarrow> int" where
  "seconds n = n * 1000000000"

text \<open>\<open>age\<close> is the random number, if there is one: the connection lives 90 to 110 minutes.\<close>

definition randomConnectionAge :: "goerr + int \<Rightarrow> int" where
  "randomConnectionAge value =
     (case value of Inl e \<Rightarrow> 100 * seconds 60 | Inr v \<Rightarrow> (90 + v) * seconds 60)"

section \<open>One connection\<close>

text \<open>The character of three dots, in UTF-8.\<close>

definition ellipsis :: string where
  "ellipsis = [CHR 0xE2, CHR 0x80, CHR 0xA6]"

definition waiting_status :: RelayStatus where
  "waiting_status = \<lparr>rs_Connected = True, rs_Secure = False,
     rs_Message = ''Relay connected; waiting for controller''\<rparr>"

definition report :: "('u, 'h) status_update \<Rightarrow> RelayStatus \<Rightarrow> ('k, 'c, 'u) relay_loop \<Rightarrow> 'h \<Rightarrow>
    ('k, 'c, 'u) relay_loop \<times> 'h" where
  "report update status l h =
     (case update status (rl_captured l) h of (u, h) \<Rightarrow> (l\<lparr>rl_captured := u\<rparr>, h))"

definition stopMonitoring :: "('k, 'c, 'h) relay_host \<Rightarrow> ('k, 'c, 'u) relay_loop \<Rightarrow> 'h \<Rightarrow>
    ('k, 'c, 'u) relay_loop \<times> 'h" where
  "stopMonitoring rh l h =
     (l\<lparr>rl_pages := False, rl_monitor := False\<rparr>, if rl_monitor l then rh_stopPages rh h else h)"

text \<open>The result of handling an event: the error that ends the connection, or none.\<close>

type_synonym ('k, 'c, 'u, 'h) looped = "goerr option \<times> ('k, 'c, 'u) relay_loop \<times> 'h"

fun send_packets :: "('k, 'c, 'h) relay_host \<Rightarrow> nat \<Rightarrow> ('k, 'c) secureChannel \<Rightarrow> string list \<Rightarrow> 'h \<Rightarrow>
    goerr option \<times> ('k, 'c) secureChannel \<times> 'h" where
  "send_packets rh connection ch [] h = (None, ch, h)"
| "send_packets rh connection ch (packet # packets) h =
     (case sendPacket (rh_env rh) (net_transmit (rh_net rh) connection) ch packet h of
        (Some e, ch, h) \<Rightarrow> (Some e, ch, h)
      | (None, ch, h) \<Rightarrow> send_packets rh connection ch packets h)"

text \<open>Page events are awaited only while there is a channel; without one the receiver is nil.\<close>

definition on_page :: "('k, 'c, 'h) relay_host \<Rightarrow> nat \<Rightarrow> resolvePageObservation option \<Rightarrow>
    ('k, 'c, 'u) relay_loop \<Rightarrow> 'h \<Rightarrow> ('k, 'c, 'u, 'h) looped" where
  "on_page rh connection observation l h =
     (case (observation, rl_secure l) of
        (None, _) \<Rightarrow> (None, l\<lparr>rl_pages := False\<rparr>, h)
      | (Some observation, None) \<Rightarrow> (Some (ErrorText ''nil pointer dereference''), l, h)
      | (Some observation, Some ch) \<Rightarrow>
          (case pageChangedEvent (rh_noise rh) (rh_env rh) ch observation h of
             (Inl e, ch, h) \<Rightarrow> (Some e, l\<lparr>rl_secure := Some ch\<rparr>, h)
           | (Inr None, ch, h) \<Rightarrow> (None, l\<lparr>rl_secure := Some ch\<rparr>, h)
           | (Inr (Some packet), ch, h) \<Rightarrow>
               (case sendPacket (rh_env rh) (net_transmit (rh_net rh) connection) ch packet h of
                  (r, ch, h) \<Rightarrow> (r, l\<lparr>rl_secure := Some ch\<rparr>, h))))"

definition decode_opened :: "json \<Rightarrow> (string \<times> string \<times> string) option" where
  "decode_opened j =
     (if is_struct j then
        case (jstr ''sessionId'' j, jstr ''linkId'' j, jstr ''peerEndpointId'' j) of
          (Some s, Some l, Some p) \<Rightarrow> Some (s, l, p) | _ \<Rightarrow> None
      else None)"

definition on_opened :: "('k, 'c, 'h) relay_host \<Rightarrow> Config \<Rightarrow> ('u, 'h) status_update \<Rightarrow> Envelope \<Rightarrow>
    ('k, 'c, 'u) relay_loop \<Rightarrow> 'h \<Rightarrow> ('k, 'c, 'u, 'h) looped" where
  "on_opened rh config update envelope l h =
     (let unexpected = (Some (ErrorText ''relay opened an unexpected session''), l, h) in
      case decode_opened (env_Body envelope) of
        None \<Rightarrow> unexpected
      | Some (sessionID, linkID, peerEndpointID) \<Rightarrow>
          if linkID \<noteq> cf_LinkID config \<or> peerEndpointID \<noteq> cf_ControllerEndpointID config then unexpected
          else (case stopMonitoring rh l h of (l, h) \<Rightarrow>
            (case newSecureChannel (rh_noise rh) config sessionID of
               Inl e \<Rightarrow> (Some e, l\<lparr>rl_secure := None\<rparr>, h)
             | Inr ch \<Rightarrow> (None, report update
                 \<lparr>rs_Connected = True, rs_Secure = False,
                  rs_Message = ''Controller connected; securing session'' @ ellipsis\<rparr>
                 (l\<lparr>rl_secure := Some ch\<rparr>) h))))"

definition secured :: "('k, 'c, 'h) relay_host \<Rightarrow> ('u, 'h) status_update \<Rightarrow> ('k, 'c, 'u) relay_loop \<Rightarrow>
    'h \<Rightarrow> ('k, 'c, 'u) relay_loop \<times> 'h" where
  "secured rh update l h = report update
     \<lparr>rs_Connected = True, rs_Secure = True, rs_Message = ''Secure controller session''\<rparr>
     (l\<lparr>rl_pages := True, rl_monitor := rl_monitor l \<or> \<not> rl_pages l\<rparr>)
     (if rl_pages l then h else rh_startPages rh h)"

definition on_frame :: "('k, 'c, 'h) relay_host \<Rightarrow> nat \<Rightarrow> ('u, 'h) status_update \<Rightarrow> Envelope \<Rightarrow>
    ('k, 'c, 'u) relay_loop \<Rightarrow> 'h \<Rightarrow> ('k, 'c, 'u, 'h) looped" where
  "on_frame rh connection update envelope l h =
     (case (currentSessionFrame envelope (rl_secure l), rl_secure l) of
        (Inl e, _) \<Rightarrow> (Some e, l, h)
      | (Inr (Some frame), Some ch) \<Rightarrow>
          (case receive (receivePacket (rh_noise rh) (rh_env rh) (rh_clock rh)) ch
                  (fb_Seq frame) (fb_Payload frame) h of
             (Inl e, ch, h) \<Rightarrow> (Some e, l\<lparr>rl_secure := Some ch\<rparr>, h)
           | (Inr (packets, ready), ch, h) \<Rightarrow>
               (case send_packets rh connection ch packets h of
                  (Some e, ch, h) \<Rightarrow> (Some e, l\<lparr>rl_secure := Some ch\<rparr>, h)
                | (None, ch, h) \<Rightarrow>
                    let l = l\<lparr>rl_secure := Some ch\<rparr> in
                    (None, if ready then secured rh update l h else (l, h))))
      | _ \<Rightarrow> (None, l, h))"

definition on_closed :: "('k, 'c, 'h) relay_host \<Rightarrow> ('u, 'h) status_update \<Rightarrow> Envelope \<Rightarrow>
    ('k, 'c, 'u) relay_loop \<Rightarrow> 'h \<Rightarrow> ('k, 'c, 'u, 'h) looped" where
  "on_closed rh update envelope l h =
     (let j = env_Body envelope in
      if \<not> is_struct j then (Some (ErrorText ''relay closed an invalid session''), l, h)
      else case jstr ''sessionId'' j of
        None \<Rightarrow> (Some (ErrorText ''relay closed an invalid session''), l, h)
      | Some sessionID \<Rightarrow>
          if rl_secure l = None \<or> sessionID \<noteq> sc_sessionID (the (rl_secure l)) then (None, l, h)
          else (case stopMonitoring rh l h of (l, h) \<Rightarrow>
            (None, report update waiting_status (l\<lparr>rl_secure := None\<rparr>) h)))"

definition on_message :: "('k, 'c, 'h) relay_host \<Rightarrow> Config \<Rightarrow> nat \<Rightarrow> ('u, 'h) status_update \<Rightarrow> string \<Rightarrow>
    ('k, 'c, 'u) relay_loop \<Rightarrow> 'h \<Rightarrow> ('k, 'c, 'u, 'h) looped" where
  "on_message rh config connection update raw l h =
     (case ParseServer (net_parser (rh_net rh)) (Bytes raw) of
        Inl e \<Rightarrow> (Some (ProtocolError e), l, h)
      | Inr envelope \<Rightarrow>
          if env_Type envelope = ''session.opened'' then on_opened rh config update envelope l h
          else if env_Type envelope = ''session.frame'' then on_frame rh connection update envelope l h
          else if env_Type envelope = ''session.closed'' then on_closed rh update envelope l h
          else if env_Type envelope = ''link.revoked''
          then (Some (EnrollmentTerminal ''controller link was revoked''), l, h)
          else if env_Type envelope = ''error''
          then (Some (ErrorText ''relay rejected a session message''), l, h)
          else (None, l, h))"

text \<open>The reader hands over the messages that waited during the request, then those of the connection.\<close>

definition next_message :: "'h net \<Rightarrow> nat \<Rightarrow> string list \<Rightarrow> 'h \<Rightarrow> (goerr + string) \<times> string list \<times> 'h" where
  "next_message n connection pending h =
     (case pending of
        raw # rest \<Rightarrow> (Inr raw, rest, h)
      | [] \<Rightarrow> (case net_receive n connection h of (r, h) \<Rightarrow> (r, [], h)))"

definition relay_step :: "('k, 'c, 'h) relay_host \<Rightarrow> Config \<Rightarrow> nat \<Rightarrow> ('u, 'h) status_update \<Rightarrow>
    relay_event \<Rightarrow> ('k, 'c, 'u) relay_loop \<Rightarrow> 'h \<Rightarrow> ('k, 'c, 'u, 'h) looped" where
  "relay_step rh config connection update event l h =
     (case event of
        ContextDone e \<Rightarrow> (Some e, l, h)
      | PingFailed e \<Rightarrow> (Some e, l, h)
      | PageEvent observation \<Rightarrow>
          if rl_pages l then on_page rh connection observation l h else (None, l, h)
      | ReaderStopped \<Rightarrow> (Some (ErrorText ''relay reader stopped''), l, h)
      | MessageReady \<Rightarrow>
          (case next_message (rh_net rh) connection (rl_pending l) h of
             (Inl e, pending, h) \<Rightarrow> (Some e, l\<lparr>rl_pending := pending\<rparr>, h)
           | (Inr raw, pending, h) \<Rightarrow>
               on_message rh config connection update raw (l\<lparr>rl_pending := pending\<rparr>) h))"

fun relay_events :: "('k, 'c, 'h) relay_host \<Rightarrow> Config \<Rightarrow> nat \<Rightarrow> ('u, 'h) status_update \<Rightarrow> nat \<Rightarrow>
    ('k, 'c, 'u) relay_loop \<Rightarrow> 'h \<Rightarrow> ('k, 'c, 'u, 'h) looped" where
  "relay_events rh config connection update 0 l h = (None, l, h)"
| "relay_events rh config connection update (Suc fuel) l h =
     (case rh_select rh (rl_pages l) h of (event, h) \<Rightarrow>
        (case relay_step rh config connection update event l h of
           (Some e, l, h) \<Rightarrow> (Some e, l, h)
         | (None, l, h) \<Rightarrow> relay_events rh config connection update fuel l h))"

record configured_link =
  gl_LinkID :: string
  gl_PeerEndpointID :: string
  gl_PeerRole :: string
  gl_Status :: string

definition decode_link :: "json \<Rightarrow> configured_link option" where
  "decode_link j =
     (if is_struct j then
        case (jstr ''linkId'' j, jstr ''peerEndpointId'' j, jstr ''peerRole'' j, jstr ''status'' j) of
          (Some l, Some p, Some r, Some s) \<Rightarrow> Some
            \<lparr>gl_LinkID = l, gl_PeerEndpointID = p, gl_PeerRole = r, gl_Status = s\<rparr>
        | _ \<Rightarrow> None
      else None)"

text \<open>The link that the relay reports must be the enrolled one, and active.\<close>

definition check_link :: "Config \<Rightarrow> configured_link \<Rightarrow> goerr option" where
  "check_link config link =
     (if gl_LinkID link \<noteq> cf_LinkID config \<or> gl_PeerEndpointID link \<noteq> cf_ControllerEndpointID config \<or>
         gl_PeerRole link \<noteq> Controller
      then Some (ErrorText ''relay returned an unexpected configured link'')
      else if gl_Status link \<noteq> ''active''
      then Some (EnrollmentTerminal (''link status '' @ gl_Status link))
      else None)"

definition link_rejection :: "goerr \<Rightarrow> goerr" where
  "link_rejection e =
     (if response_code e = Some Forbidden \<or> response_code e = Some Unauthenticated
      then EnrollmentTerminal ''configured link rejected'' else e)"

definition dial_rejection :: "goerr \<Rightarrow> goerr" where
  "dial_rejection e =
     (if upgrade_status e = Some 401 then EnrollmentTerminal ''bearer credentials rejected'' else e)"

text \<open>The error that ended the connection, or \<open>None\<close> while it goes on; then the captured variables.\<close>

definition serve_connection :: "('k, 'c, 'h) relay_host \<Rightarrow> Config \<Rightarrow> ('u, 'h) status_update \<Rightarrow> nat \<Rightarrow>
    relayPeer \<Rightarrow> 'u \<Rightarrow> 'h \<Rightarrow> goerr option \<times> 'u \<times> 'h" where
  "serve_connection rh config update fuel peer u h =
     (case rh_random rh 21 h of (age, h) \<Rightarrow>
      let h = rh_connected rh (rp_connection peer) (randomConnectionAge age) h in
      (case report update waiting_status
          \<lparr>rl_secure = None, rl_pages = False, rl_monitor = False, rl_pending = rp_pending peer,
           rl_captured = u\<rparr> h of (l, h) \<Rightarrow>
         (case relay_events rh config (rp_connection peer) update fuel l h of
            (None, l, h) \<Rightarrow> (None, rl_captured l, h)
          | (Some e, l, h) \<Rightarrow>
              (case stopMonitoring rh l h of (l, h) \<Rightarrow>
                 (Some e, rl_captured l, net_close (rh_net rh) (rp_connection peer) h)))))"

definition runRelayConnection :: "('k, 'c, 'h) relay_host \<Rightarrow> Config \<Rightarrow> ('u, 'h) status_update \<Rightarrow> nat \<Rightarrow>
    'u \<Rightarrow> 'h \<Rightarrow> goerr option \<times> 'u \<times> 'h" where
  "runRelayConnection rh config update fuel u h =
     (case dialRelay (rh_net rh) (cf_RelayURL config) (bearer config) h of
        (Inl e, h) \<Rightarrow> (Some (dial_rejection e), u, h)
      | (Inr peer, h) \<Rightarrow>
          (case request_into (rh_net rh) peer ''link.get''
                  (JObj [(''linkId'', JStr (cf_LinkID config))]) decode_link h of
             (Inl e, peer, h) \<Rightarrow>
               (Some (link_rejection e), u, net_close (rh_net rh) (rp_connection peer) h)
           | (Inr link, peer, h) \<Rightarrow>
               (case check_link config link of
                  Some e \<Rightarrow> (Some e, u, net_close (rh_net rh) (rp_connection peer) h)
                | None \<Rightarrow> serve_connection rh config update fuel peer u h)))"

section \<open>Reconnecting\<close>

definition relayReconnectStability :: int where
  "relayReconnectStability = seconds 30"

definition relayConnectionHadStableUptime :: "bool \<Rightarrow> time \<Rightarrow> int \<Rightarrow> bool" where
  "relayConnectionHadStableUptime alreadyStable connectedSince observedAt \<longleftrightarrow>
     alreadyStable \<or> (case connectedSince of None \<Rightarrow> False
       | Some since \<Rightarrow> observedAt - since \<ge> relayReconnectStability)"

definition resetRelayReconnectDelay :: "int \<Rightarrow> bool \<Rightarrow> int" where
  "resetRelayReconnectDelay delay hadStableConnection =
     (if hadStableConnection then seconds 1 else delay)"

definition growRelayReconnectDelay :: "int \<Rightarrow> int" where
  "growRelayReconnectDelay delay =
     (if delay < seconds (15 * 60) then min (delay * 2) (seconds (15 * 60)) else delay)"

definition fullJitterSleep :: "('k, 'c, 'h) relay_host \<Rightarrow> int \<Rightarrow> 'h \<Rightarrow> goerr option \<times> 'h" where
  "fullJitterSleep rh maximum h =
     (case rh_random rh (maximum + 1) h of
        (Inl e, h) \<Rightarrow> (Some e, h) | (Inr v, h) \<Rightarrow> rh_timer rh v h)"

record uptime =
  up_connectedSince :: time
  up_hadStable :: bool

text \<open>The callback that \<^verbatim>\<open>RunRelay\<close> gives to a connection.\<close>

definition track_uptime :: "('k, 'c, 'h) relay_host \<Rightarrow> (RelayStatus \<Rightarrow> 'h \<Rightarrow> 'h) \<Rightarrow> (uptime, 'h) status_update" where
  "track_uptime rh update status u h =
     (case rh_clock rh h of (now, h) \<Rightarrow>
        (if rs_Connected status
         then u\<lparr>up_connectedSince := (case up_connectedSince u of None \<Rightarrow> Some now | t \<Rightarrow> t)\<rparr>
         else \<lparr>up_connectedSince = None, up_hadStable =
                 relayConnectionHadStableUptime (up_hadStable u) (up_connectedSince u) now\<rparr>,
         update status h))"

definition message_status :: "string \<Rightarrow> RelayStatus" where
  "message_status m = \<lparr>rs_Connected = False, rs_Secure = False, rs_Message = m\<rparr>"

definition is_terminal :: "goerr \<Rightarrow> bool" where
  "is_terminal e = errors_Is e (\<lambda>x. case x of EnrollmentTerminal _ \<Rightarrow> True | _ \<Rightarrow> False)"

text \<open>What a round of the reconnection does: return from \<^verbatim>\<open>RunRelay\<close>, go on with a delay, or run still.\<close>

datatype round = Returns "goerr option" | Again int | Running

definition relay_retry :: "('k, 'c, 'h) relay_host \<Rightarrow> (RelayStatus \<Rightarrow> 'h \<Rightarrow> 'h) \<Rightarrow> int \<Rightarrow> goerr \<Rightarrow> uptime \<Rightarrow>
    'h \<Rightarrow> round \<times> 'h" where
  "relay_retry rh update delay e u h =
     (if is_terminal e
      then (Returns (Some e),
        update (message_status ''Enrollment revoked or unauthorized; reset required'') h)
      else case rh_clock rh h of (now, h) \<Rightarrow>
        let delay = resetRelayReconnectDelay delay
              (relayConnectionHadStableUptime (up_hadStable u) (up_connectedSince u) now);
            h = update (message_status (''Disconnected; retrying'' @ ellipsis)) h in
        (case fullJitterSleep rh delay h of
           (Some _, h) \<Rightarrow> (Returns None, h)
         | (None, h) \<Rightarrow> (Again (growRelayReconnectDelay delay), h)))"

definition relay_round :: "('k, 'c, 'h) relay_host \<Rightarrow> Config \<Rightarrow> (RelayStatus \<Rightarrow> 'h \<Rightarrow> 'h) \<Rightarrow> nat \<Rightarrow> int \<Rightarrow>
    'h \<Rightarrow> round \<times> 'h" where
  "relay_round rh config update fuel delay h =
     (case rh_cancelled rh h of
        (True, h) \<Rightarrow> (Returns None, h)
      | (False, h) \<Rightarrow>
          (case runRelayConnection rh config (track_uptime rh update) fuel
                  \<lparr>up_connectedSince = None, up_hadStable = False\<rparr>
                  (update (message_status (''Connecting to relay'' @ ellipsis)) h) of
             (None, u, h) \<Rightarrow> (Running, h)
           | (Some e, u, h) \<Rightarrow>
               (case rh_cancelled rh h of
                  (True, h) \<Rightarrow> (Returns None, h)
                | (False, h) \<Rightarrow> relay_retry rh update delay e u h)))"

fun relay_rounds :: "('k, 'c, 'h) relay_host \<Rightarrow> Config \<Rightarrow> (RelayStatus \<Rightarrow> 'h \<Rightarrow> 'h) \<Rightarrow> nat \<Rightarrow> int \<Rightarrow>
    'h \<Rightarrow> goerr option option \<times> 'h" where
  "relay_rounds rh config update 0 delay h = (None, h)"
| "relay_rounds rh config update (Suc fuel) delay h =
     (case relay_round rh config update fuel delay h of
        (Returns r, h) \<Rightarrow> (Some r, h)
      | (Running, h) \<Rightarrow> (None, h)
      | (Again delay, h) \<Rightarrow> relay_rounds rh config update fuel delay h)"

definition RunRelay :: "cdeps \<Rightarrow> ('k, 'c, 'h) relay_host \<Rightarrow> Config \<Rightarrow> (RelayStatus \<Rightarrow> 'h \<Rightarrow> 'h) \<Rightarrow> nat \<Rightarrow>
    'h \<Rightarrow> goerr option option \<times> 'h" where
  "RunRelay d rh config update fuel h =
     (case Config_validate d config of
        Some e \<Rightarrow> (Some (Some e), h)
      | None \<Rightarrow> relay_rounds rh config update fuel (seconds 1) h)"

end
