(* ===== verification/HostContract.thy ===== *)
theory HostContract
  imports RelayClient
begin

text \<open>
  Operations that keep an invariant of the host, and what the relay client keeps of it (locale
  \<open>net_contract\<close>: every operation of the network keeps it). \<open>beside\<close> runs an operation beside a second part
  of the state, which it leaves alone.
\<close>

section \<open>Operations beside a second state\<close>

definition beside :: "('h \<Rightarrow> 'a \<times> 'h) \<Rightarrow> 'h \<times> 'l \<Rightarrow> 'a \<times> 'h \<times> 'l" where
  "beside f s = (case f (fst s) of (r, h) \<Rightarrow> (r, h, snd s))"

definition beside_net :: "'h net \<Rightarrow> ('h \<times> 'l) net" where
  "beside_net n =
     \<lparr>net_parser = net_parser n, net_uuid = beside (net_uuid n), net_random32 = beside (net_random32 n),
      net_keypair = beside (net_keypair n), net_dial = (\<lambda>u a. beside (net_dial n u a)),
      net_transmit = (\<lambda>c m. beside (net_transmit n c m)), net_receive = (\<lambda>c. beside (net_receive n c)),
      net_close = (\<lambda>c s. (net_close n c (fst s), snd s))\<rparr>"

lemma beside_eq: "beside f s = (r, s') \<longleftrightarrow> f (fst s) = (r, fst s') \<and> snd s' = snd s"
  by (cases s') (auto simp: beside_def split: prod.splits)

lemma beside_net_sel [simp]:
  "net_parser (beside_net n) = net_parser n" "net_uuid (beside_net n) = beside (net_uuid n)"
  "net_random32 (beside_net n) = beside (net_random32 n)" "net_keypair (beside_net n) = beside (net_keypair n)"
  "net_dial (beside_net n) u a = beside (net_dial n u a)"
  "net_transmit (beside_net n) c m = beside (net_transmit n c m)"
  "net_receive (beside_net n) c = beside (net_receive n c)"
  "net_close (beside_net n) c s = (net_close n c (fst s), snd s)"
  by (simp_all add: beside_net_def)

section \<open>Operations that keep an invariant\<close>

definition host_keeps :: "('h \<Rightarrow> bool) \<Rightarrow> ('h \<Rightarrow> 'a \<times> 'h) \<Rightarrow> bool" where
  "host_keeps P f \<longleftrightarrow> (\<forall>h. P h \<longrightarrow> P (snd (f h)))"

lemma host_keepsI: "(\<And>h r h'. P h \<Longrightarrow> f h = (r, h') \<Longrightarrow> P h') \<Longrightarrow> host_keeps P f"
  unfolding host_keeps_def by (metis prod.collapse)

lemma host_keepsD: "host_keeps P f \<Longrightarrow> P h \<Longrightarrow> f h = (r, h') \<Longrightarrow> P h'"
  unfolding host_keeps_def by (metis snd_conv)

lemma beside_keeps: "host_keeps (\<lambda>s. Q (snd s)) (beside f)"
  by (rule host_keepsI) (simp add: beside_eq)

lemma keeps_after:
  "(\<And>s. Q (snd s) \<Longrightarrow> Q (snd (g s))) \<Longrightarrow> host_keeps (\<lambda>s. Q (snd s)) (\<lambda>s. beside f (g s))"
  by (rule host_keepsI) (simp add: beside_eq)

lemma beside_first: "host_keeps P f \<Longrightarrow> host_keeps (\<lambda>s. P (fst s)) (beside f)"
  by (rule host_keepsI) (auto simp: beside_eq dest: host_keepsD)

lemma queuePending_grows: "queuePending peer raw = Inr peer' \<Longrightarrow>
    maxPendingRelayResponses - length (rp_pending peer') < maxPendingRelayResponses - length (rp_pending peer)"
  by (auto simp: queuePending_def split: if_splits)

locale net_contract =
  fixes P :: "'h \<Rightarrow> bool" and n :: "'h net"
  assumes uuid: "host_keeps P (net_uuid n)"
    and random32: "host_keeps P (net_random32 n)"
    and keypair: "host_keeps P (net_keypair n)"
    and dial: "host_keeps P (net_dial n u a)"
    and transmit: "host_keeps P (net_transmit n c m)"
    and net_receive: "host_keeps P (net_receive n c)"
    and close: "P h \<Longrightarrow> P (net_close n c h)"
begin

lemmas netD = host_keepsD [OF uuid] host_keepsD [OF random32] host_keepsD [OF keypair]
  host_keepsD [OF transmit] host_keepsD [OF net_receive]

lemma dialRelay_keeps: "dialRelay n u a h = (r, h') \<Longrightarrow> P h \<Longrightarrow> P h'"
  by (auto simp: dialRelay_def split: prod.splits sum.splits option.splits dest: host_keepsD [OF dial])

lemma await_reply_keeps: "await_reply n peer i t h = (r, peer', h') \<Longrightarrow> P h \<Longrightarrow> P h'"
proof (induction "maxPendingRelayResponses - length (rp_pending peer)" arbitrary: peer h rule: less_induct)
  case less
  obtain answer h1 where a: "net_receive n (rp_connection peer) h = (answer, h1)" by (metis surj_pair)
  note P1 = host_keepsD [OF net_receive less.prems(2) a]
  have queued: "P h'" if "queuePending peer raw = Inr q" "await_reply n q i t h1 = (r, peer', h')" for raw q
    using less.hyps [OF queuePending_grows [OF that(1)] that(2) P1] .
  show ?case
    using less.prems(1) a P1
    by (subst (asm) await_reply.simps) (auto split: sum.splits if_splits dest: queued)
qed

lemma request_into_keeps: "request_into n peer t body decode h = (r, peer', h') \<Longrightarrow> P h \<Longrightarrow> P h'"
  by (auto simp: request_into_def request_def split: prod.splits sum.splits option.splits
      dest: host_keepsD [OF uuid] host_keepsD [OF transmit] dest!: await_reply_keeps)

lemma beside_contract: "net_contract (\<lambda>s. P (fst s)) (beside_net n)"
  using uuid random32 keypair dial transmit net_receive close
  by unfold_locales (auto intro!: beside_first)

end

text \<open>What a network beside a state leaves of that state: everything.\<close>

interpretation second_state: net_contract "\<lambda>s. Q (snd s)" "beside_net n"
  by unfold_locales (auto intro: beside_keeps)

end
