(* ===== verification/RelayTrust.thy ===== *)
theory RelayTrust
  imports RelayLoop HostContract
begin

text \<open>
  Whom the companion trusts while it serves the relay (\<^verbatim>\<open>RunRelay\<close> of \<^verbatim>\<open>internal/companion/relay.go\<close>): an
  invariant of the host that everything keeps but the execution of operations, keeps as long as only
  permitted operations of the enrolled controller, authenticated by its Noise key, are executed (locale
  \<open>relay_contract\<close>). Its instances are the log of the executed operations and the log of the delays.
\<close>

section \<open>The control processor keeps an invariant\<close>

lemma response_keeps:
  assumes "host_keeps Q (ce_uuid env)" and "processor_response env p i result s = (r, p', s')" and "Q s"
  shows "Q s' \<and> cp_allowed p' = cp_allowed p"
  using assms(2,3) by (auto simp: processor_response_def split: sum.splits prod.splits
      dest: host_keepsD [OF assms(1)])

lemma handle_keeps:
  assumes "host_keeps Q (ce_now env)" and "host_keeps Q (ce_uuid env)"
    and "\<And>operation t. T operation \<Longrightarrow> host_keeps Q (ce_execute env t operation)"
    and "\<And>operation. operation \<in> set (cp_allowed p) \<Longrightarrow> T operation"
    and "processor_handle env p plaintext s = (r, p', s')" and "Q s"
  shows "Q s' \<and> cp_allowed p' = cp_allowed p"
proof -
  have request: "Q s' \<and> cp_allowed p' = cp_allowed p"
    if run: "handle_request env p envelope s = (r, p', s')" for envelope
  proof -
    obtain now s1 where now: "ce_now env s = (now, s1)" by (metis surj_pair)
    note Q1 = host_keepsD [OF assms(1) assms(6) now]
    have executed: "Q s2" if "operation \<in> set (cp_allowed p)" "ce_execute env t operation s1 = (x, s2)"
      for operation t x s2
      using host_keepsD [OF assms(3) [OF assms(4)] Q1] that by blast
    show ?thesis
      using run now Q1 assms(6)
      by (auto simp: handle_request_def split: option.splits if_splits prod.splits
          dest: executed dest!: response_keeps [OF assms(2)])
  qed
  show ?thesis
    using assms(5,6) request
    by (auto simp: processor_handle_def handle_hello_def split: sum.splits if_splits option.splits)
qed

text \<open>The controller of a configuration, if a handshake message of it was ever read.\<close>

definition authenticated :: "('k, 'c) noise \<Rightarrow> Config \<Rightarrow> bool" where
  "authenticated ns config \<longleftrightarrow>
     (\<exists>k packet k' key. decode32 (cf_ControllerNoiseKey config) = Some key \<and>
        n_read ns k packet = Some ([], key, k'))"

definition trusted :: "('k, 'c) noise \<Rightarrow> Config \<Rightarrow> string \<Rightarrow> bool" where
  "trusted ns config operation \<longleftrightarrow>
     operation \<in> set (grantedPermissions (cf_PermissionMask config)) \<and> authenticated ns config"

locale relay_contract = net: net_contract P "rh_net rh"
  for P :: "'h \<Rightarrow> bool" and rh :: "('k, 'c, 'h) relay_host" +
  fixes config :: Config
  assumes env_now: "host_keeps P (ce_now (rh_env rh))"
    and env_uuid: "host_keeps P (ce_uuid (rh_env rh))"
    and clock: "host_keeps P (rh_clock rh)"
    and cancelled: "host_keeps P (rh_cancelled rh)"
    and age: "host_keeps P (rh_random rh 21)"
    and timer: "host_keeps P (rh_timer rh v)"
    and connected: "P h \<Longrightarrow> P (rh_connected rh c v h)"
    and select: "host_keeps P (rh_select rh b)"
    and startPages: "P h \<Longrightarrow> P (rh_startPages rh h)"
    and stopPages: "P h \<Longrightarrow> P (rh_stopPages rh h)"
    and execute: "trusted (rh_noise rh) config operation \<Longrightarrow> host_keeps P (ce_execute (rh_env rh) t operation)"
begin

lemmas hostD = net.netD
  host_keepsD [OF env_now] host_keepsD [OF env_uuid] host_keepsD [OF clock] host_keepsD [OF cancelled] host_keepsD [OF age]
  host_keepsD [OF timer] host_keepsD [OF select]

lemmas hostI = net.close connected startPages stopPages

text \<open>Channels of the configured controller: secured only after its key was read.\<close>

definition channel_ok :: "('k, 'c) secureChannel \<Rightarrow> bool" where
  "channel_ok ch \<longleftrightarrow> decode32 (cf_ControllerNoiseKey config) = Some (sc_peerKey ch) \<and>
     cp_allowed (sc_processor ch) = grantedPermissions (cf_PermissionMask config) \<and>
     (sc_sendCipher ch \<noteq> None \<longrightarrow> authenticated (rh_noise rh) config)"

definition loop_ok :: "('k, 'c, 'u) relay_loop \<Rightarrow> bool" where
  "loop_ok l \<longleftrightarrow> (case rl_secure l of None \<Rightarrow> True | Some ch \<Rightarrow> channel_ok ch) \<and>
     (rl_pages l \<longrightarrow> rl_secure l \<noteq> None)"

lemma newSecureChannel_ok: "newSecureChannel (rh_noise rh) config i = Inr ch \<Longrightarrow> channel_ok ch"
  by (auto simp: newSecureChannel_def channel_ok_def newControlProcessor_def
      split: option.splits sum.splits)

lemma channel_env_keeps:
  "host_keeps (\<lambda>s. P (fst s)) (ce_now (channel_env (rh_env rh) (rh_clock rh)))"
  "host_keeps (\<lambda>s. P (fst s)) (ce_uuid (channel_env (rh_env rh) (rh_clock rh)))"
  "trusted (rh_noise rh) config operation \<Longrightarrow>
   host_keeps (\<lambda>s. P (fst s)) (ce_execute (channel_env (rh_env rh) (rh_clock rh)) t operation)"
    apply (rule host_keepsI, auto simp: channel_env_def split: prod.splits dest: hostD)
   apply (rule host_keepsI, auto simp: channel_env_def split: prod.splits dest: hostD)
  apply (rule host_keepsI, auto simp: channel_env_def split: prod.splits sum.splits
      dest: hostD dest!: host_keepsD [OF execute])
  done

lemma processor_keeps:
  assumes "processor_handle (channel_env (rh_env rh) (rh_clock rh)) p plaintext (h, t) = (r, p', h', t')"
    and "P h" and "\<And>operation. operation \<in> set (cp_allowed p) \<Longrightarrow> trusted (rh_noise rh) config operation"
  shows "P h' \<and> cp_allowed p' = cp_allowed p"
  using handle_keeps [OF channel_env_keeps assms(3,1)] assms(2) by simp

lemma receivePacket_keeps:
  assumes "receivePacket (rh_noise rh) (rh_env rh) (rh_clock rh) ch packet h = (r, ch', h')"
    and "P h" and "channel_ok ch"
  shows "P h' \<and> channel_ok ch'"
proof (cases "sc_sendCipher ch = None \<or> sc_receiveCipher ch = None")
  case True
  with assms have "receiveHandshake (rh_noise rh) (rh_env rh) ch packet h = (r, ch', h')"
    by (auto simp: receivePacket_def split: option.splits)
  with assms(2,3) show ?thesis
    by (auto simp: receiveHandshake_def Let_def controlHello_def channel_ok_def authenticated_def
        split: option.splits sum.splits prod.splits if_splits dest: hostD)
next
  case False
  with assms(3) have auth: "authenticated (rh_noise rh) config" by (auto simp: channel_ok_def)
  with assms False show ?thesis
    by (auto simp: receivePacket_def receiveEncrypted_def Let_def channel_ok_def trusted_def
        split: option.splits sum.splits prod.splits if_splits dest!: processor_keeps)
qed

lemma channel_ok_pending [simp]:
  "channel_ok (ch\<lparr>sc_expectedIn := i\<rparr>) = channel_ok ch" "channel_ok (ch\<lparr>sc_pending := w\<rparr>) = channel_ok ch"
  "channel_ok (ch\<lparr>sc_pendingBytes := b\<rparr>) = channel_ok ch" "channel_ok (ch\<lparr>sc_nextOut := j\<rparr>) = channel_ok ch"
  "channel_ok (ch\<lparr>sc_lastResolvePage := g\<rparr>) = channel_ok ch"
  by (auto simp: channel_ok_def)

abbreviation "deliver \<equiv> receivePacket (rh_noise rh) (rh_env rh) (rh_clock rh)"

lemma drain_keeps:
  "drain deliver ch waiting packet outgoing h = (r, ch', h') \<Longrightarrow> P h \<Longrightarrow> channel_ok ch \<Longrightarrow>
   P h' \<and> channel_ok ch'"
proof (induction "length waiting" arbitrary: ch waiting packet outgoing h rule: less_induct)
  case less
  obtain x ch1 h1 where d: "deliver ch packet h = (x, ch1, h1)" by (metis surj_pair)
  note ok = receivePacket_keeps [OF d less.prems(2,3)]
  show ?case
    using less.prems(1) d ok less.hyps [OF waiting_shrinks]
    by (subst (asm) drain.simps) (fastforce simp: Let_def split: sum.splits option.splits)
qed

lemma receive_keeps:
  "receive deliver ch i encoded h = (r, ch', h') \<Longrightarrow> P h \<Longrightarrow> channel_ok ch \<Longrightarrow> P h' \<and> channel_ok ch'"
  by (auto simp: receive_def split: if_splits option.splits dest: drain_keeps)

lemma sendPacket_keeps:
  "sendPacket (rh_env rh) (net_transmit (rh_net rh) c) ch packet h = (r, ch', h') \<Longrightarrow> P h \<Longrightarrow>
   channel_ok ch \<Longrightarrow> P h' \<and> channel_ok ch'"
  by (auto simp: sendPacket_def split: sum.splits prod.splits dest: hostD)

lemma send_packets_keeps:
  "send_packets rh c ch packets h = (r, ch', h') \<Longrightarrow> P h \<Longrightarrow> channel_ok ch \<Longrightarrow> P h' \<and> channel_ok ch'"
proof (induction packets arbitrary: ch h)
  case (Cons packet packets)
  obtain x ch1 h1 where s: "sendPacket (rh_env rh) (net_transmit (rh_net rh) c) ch packet h = (x, ch1, h1)"
    by (metis surj_pair)
  note ok = sendPacket_keeps [OF s Cons.prems(2,3)]
  show ?case using Cons.prems(1) Cons.IH [of ch1 h1] s ok by (auto split: option.splits)
qed simp

lemma pageChangedEvent_keeps:
  "pageChangedEvent (rh_noise rh) (rh_env rh) ch observation h = (r, ch', h') \<Longrightarrow> P h \<Longrightarrow>
   channel_ok ch \<Longrightarrow> P h' \<and> channel_ok ch'"
  by (auto simp: pageChangedEvent_def Let_def channel_ok_def split: option.splits if_splits sum.splits
      prod.splits dest: hostD)

lemma report_keeps:
  assumes "\<And>status u. host_keeps P (update status u)" and "report update status l h = (l', h')" and "P h"
  shows "P h' \<and> rl_secure l' = rl_secure l \<and> rl_pages l' = rl_pages l"
  using assms(2,3) by (auto simp: report_def split: prod.splits dest: host_keepsD [OF assms(1)])

lemma stopMonitoring_keeps:
  "stopMonitoring rh l h = (l', h') \<Longrightarrow> P h \<Longrightarrow> P h' \<and> rl_secure l' = rl_secure l \<and> \<not> rl_pages l'"
  by (auto simp: stopMonitoring_def hostI split: if_splits)

lemma on_page_keeps:
  "on_page rh c observation l h = (r, l', h') \<Longrightarrow> P h \<Longrightarrow> loop_ok l \<Longrightarrow> P h' \<and> loop_ok l'"
  by (auto simp: on_page_def loop_ok_def split: option.splits prod.splits sum.splits
      dest!: pageChangedEvent_keeps sendPacket_keeps)

lemma on_opened_keeps:
  assumes "\<And>status u. host_keeps P (update status u)" and "on_opened rh config update envelope l h = (r, l', h')"
    and "P h" and "loop_ok l"
  shows "P h' \<and> loop_ok l'"
proof -
  obtain l1 h1 where stop: "stopMonitoring rh l h = (l1, h1)" by (metis surj_pair)
  note ok = stopMonitoring_keeps [OF stop assms(3)]
  show ?thesis
    using assms(2-4) stop ok
    by (auto simp: on_opened_def Let_def loop_ok_def split: option.splits prod.splits sum.splits if_splits
        dest: newSecureChannel_ok dest!: report_keeps [OF assms(1)])
qed

lemma secured_keeps:
  assumes "\<And>status u. host_keeps P (update status u)" and "secured rh update l h = (l', h')" and "P h"
  shows "P h' \<and> rl_secure l' = rl_secure l"
  using assms(2,3)
  by (auto simp: secured_def hostI split: if_splits dest!: report_keeps [OF assms(1)])

lemma on_frame_keeps:
  assumes "\<And>status u. host_keeps P (update status u)" and "on_frame rh c update envelope l h = (r, l', h')"
    and "P h" and "loop_ok l"
  shows "P h' \<and> loop_ok l'"
proof (cases "rl_secure l")
  case None
  with assms(2-4) show ?thesis by (auto simp: on_frame_def split: sum.splits option.splits)
next
  case (Some ch)
  then have ch: "channel_ok ch" using assms(4) by (simp add: loop_ok_def)
  obtain x where x: "currentSessionFrame envelope (rl_secure l) = x" by blast
  show ?thesis
  proof (cases "\<exists>frame. x = Inr (Some frame)")
    case False
    with assms(2-4) Some x show ?thesis by (auto simp: on_frame_def split: sum.splits option.splits)
  next
    case True
    then obtain frame where frame: "x = Inr (Some frame)" by blast
    obtain y ch1 h1 where rec: "receive deliver ch (fb_Seq frame) (fb_Payload frame) h = (y, ch1, h1)"
      by (metis surj_pair)
    note ok1 = receive_keeps [OF rec assms(3) ch]
    show ?thesis
      using assms(2) Some x frame rec ok1
      by (auto simp: on_frame_def Let_def loop_ok_def split: sum.splits option.splits prod.splits if_splits
          dest!: send_packets_keeps secured_keeps [OF assms(1)])
  qed
qed

lemma on_closed_keeps:
  assumes "\<And>status u. host_keeps P (update status u)" and "on_closed rh update envelope l h = (r, l', h')"
    and "P h" and "loop_ok l"
  shows "P h' \<and> loop_ok l'"
  using assms(2-4)
  by (auto simp: on_closed_def Let_def loop_ok_def split: option.splits prod.splits if_splits
      dest!: stopMonitoring_keeps report_keeps [OF assms(1)])

lemma relay_step_keeps:
  assumes "\<And>status u. host_keeps P (update status u)" and "relay_step rh config c update event l h = (r, l', h')"
    and "P h" and "loop_ok l"
  shows "P h' \<and> loop_ok l'"
proof -
  have pending: "loop_ok (l\<lparr>rl_pending := x\<rparr>) = loop_ok l" for x by (simp add: loop_ok_def)
  have message: "P h2 \<and> loop_ok l2"
    if "on_message rh config c update raw l1 h1 = (x, l2, h2)" "P h1" "loop_ok l1" for raw l1 h1 x l2 h2
    using that by (auto simp: on_message_def split: sum.splits if_splits
        dest: on_opened_keeps [OF assms(1)] on_frame_keeps [OF assms(1)] on_closed_keeps [OF assms(1)])
  show ?thesis
    using assms(2-4)
    by (auto simp: relay_step_def next_message_def pending
        split: relay_event.splits if_splits prod.splits sum.splits list.splits
        dest: on_page_keeps hostD dest!: message)
qed

lemma relay_events_keeps:
  assumes "\<And>status u. host_keeps P (update status u)"
  shows "relay_events rh config c update fuel l h = (r, l', h') \<Longrightarrow> P h \<Longrightarrow> loop_ok l \<Longrightarrow>
    P h' \<and> loop_ok l'"
proof (induction fuel arbitrary: l h)
  case (Suc fuel)
  obtain event h1 where e: "rh_select rh (rl_pages l) h = (event, h1)" by (metis surj_pair)
  obtain x l2 h2 where s: "relay_step rh config c update event l h1 = (x, l2, h2)" by (metis surj_pair)
  note ok = relay_step_keeps [OF assms s host_keepsD [OF select Suc.prems(2) e] Suc.prems(3)]
  show ?case using Suc.prems(1) Suc.IH [of l2 h2] e s ok by (auto split: option.splits)
qed simp

lemma serve_connection_keeps:
  assumes "\<And>status u. host_keeps P (update status u)"
    and "serve_connection rh config update fuel peer u h = (r, u', h')" and "P h"
  shows "P h'"
proof -
  define l0 where "l0 = \<lparr>rl_secure = (None :: ('k, 'c) secureChannel option), rl_pages = False,
    rl_monitor = False, rl_pending = rp_pending peer, rl_captured = u\<rparr>"
  obtain a h1 where h1: "rh_random rh 21 h = (a, h1)" by (metis surj_pair)
  define h2 where "h2 = rh_connected rh (rp_connection peer) (randomConnectionAge a) h1"
  obtain l h3 where h3: "report update waiting_status l0 h2 = (l, h3)" by (metis surj_pair)
  obtain x l4 h4 where h4: "relay_events rh config (rp_connection peer) update fuel l h3 = (x, l4, h4)"
    by (metis surj_pair)
  obtain l5 h5 where h5: "stopMonitoring rh l4 h4 = (l5, h5)" by (metis surj_pair)
  have "P h2" using host_keepsD [OF age assms(3) h1] by (simp add: h2_def hostI)
  note ok3 = report_keeps [OF assms(1) h3 this]
  have "loop_ok l" using ok3 by (simp add: loop_ok_def l0_def)
  from relay_events_keeps [OF assms(1) h4 _ this] ok3 have "P h4" by blast
  then have "P h5" using stopMonitoring_keeps [OF h5] by blast
  with \<open>P h4\<close> show ?thesis
    using assms(2) h1 h3 h4 h5
    by (auto simp: serve_connection_def Let_def h2_def [symmetric] l0_def [symmetric] hostI
        split: option.splits)
qed

lemma runRelayConnection_keeps:
  assumes "\<And>status u. host_keeps P (update status u)"
    and "runRelayConnection rh config update fuel u h = (r, u', h')" and "P h"
  shows "P h'"
  using assms(2,3)
  by (auto simp: runRelayConnection_def hostI split: prod.splits sum.splits option.splits
      dest!: net.dialRelay_keeps net.request_into_keeps serve_connection_keeps [OF assms(1)])

lemma track_uptime_keeps:
  assumes "\<And>status h. P h \<Longrightarrow> P (update status h)"
  shows "host_keeps P (track_uptime rh update status u)"
  by (rule host_keepsI) (auto simp: track_uptime_def split: prod.splits dest: assms host_keepsD [OF clock])

text \<open>All of \<^verbatim>\<open>RunRelay\<close>, where the delays keep the invariant too.\<close>

lemma relay_round_keeps:
  assumes "\<And>status h. P h \<Longrightarrow> P (update status h)" and "\<And>n. host_keeps P (rh_random rh n)"
    and "relay_round rh config update fuel delay h = (r, h')" and "P h"
  shows "P h'"
proof -
  obtain b h1 where b: "rh_cancelled rh h = (b, h1)" by (metis surj_pair)
  note P1 = host_keepsD [OF cancelled assms(4) b]
  obtain x u h2 where run: "runRelayConnection rh config (track_uptime rh update) fuel
      \<lparr>up_connectedSince = None, up_hadStable = False\<rparr>
      (update (message_status (''Connecting to relay'' @ ellipsis)) h1) = (x, u, h2)" by (metis surj_pair)
  note P2 = runRelayConnection_keeps [OF track_uptime_keeps [OF assms(1)] run assms(1) [OF P1]]
  have sleep: "P h4" if "fullJitterSleep rh m h3 = (y, h4)" and "P h3" for m h3 y h4
    using that by (auto simp: fullJitterSleep_def split: sum.splits prod.splits
        dest: host_keepsD [OF assms(2)] host_keepsD [OF timer])
  have retry: "P h4" if "relay_retry rh update delay e u h3 = (y, h4)" and "P h3" for e h3 y h4
  proof -
    obtain now h5 where now: "rh_clock rh h3 = (now, h5)" by (metis surj_pair)
    note assms(1) [OF that(2)] assms(1) [OF host_keepsD [OF clock that(2) now]]
    with that(1) now show ?thesis
      by (auto simp: relay_retry_def Let_def split: if_splits prod.splits option.splits dest: sleep)
  qed
  show ?thesis
    using assms(3) b run P1 P2
    by (auto simp: relay_round_def split: bool.splits option.splits prod.splits
        dest: host_keepsD [OF cancelled] dest!: retry)
qed

lemma RunRelay_keeps:
  assumes "\<And>status h. P h \<Longrightarrow> P (update status h)" and "\<And>n. host_keeps P (rh_random rh n)"
    and "P h"
  shows "P (snd (RunRelay d rh config update fuel h))"
proof -
  have "P h \<Longrightarrow> P (snd (relay_rounds rh config update n delay h))" for n delay
  proof (induction n arbitrary: delay h)
    case (Suc n)
    obtain r h1 where r: "relay_round rh config update n delay h = (r, h1)" by (metis surj_pair)
    from relay_round_keeps [OF assms(1,2) r Suc.prems] Suc.IH r
    show ?case by (auto split: round.splits)
  qed simp
  with assms(3) show ?thesis by (simp add: RunRelay_def split: option.split)
qed

end

section \<open>The log of a host\<close>

datatype host_event = Executed string | Drawn int

definition logging :: "('k, 'c, 'h) relay_host \<Rightarrow> ('k, 'c, 'h \<times> host_event list) relay_host" where
  "logging rh =
     \<lparr>rh_net = beside_net (rh_net rh),
      rh_env = \<lparr>ce_parser = ce_parser (rh_env rh), ce_now = beside (ce_now (rh_env rh)),
        ce_uuid = beside (ce_uuid (rh_env rh)),
        ce_execute = (\<lambda>deadline operation s.
          beside (ce_execute (rh_env rh) deadline operation) (fst s, snd s @ [Executed operation])),
        ce_marshal = ce_marshal (rh_env rh)\<rparr>,
      rh_noise = rh_noise rh, rh_clock = beside (rh_clock rh), rh_cancelled = beside (rh_cancelled rh),
      rh_random = (\<lambda>n s. beside (rh_random rh n) (fst s, snd s @ [Drawn n])),
      rh_timer = (\<lambda>v. beside (rh_timer rh v)),
      rh_connected = (\<lambda>c v s. (rh_connected rh c v (fst s), snd s)),
      rh_select = (\<lambda>b. beside (rh_select rh b)),
      rh_startPages = (\<lambda>s. (rh_startPages rh (fst s), snd s)),
      rh_stopPages = (\<lambda>s. (rh_stopPages rh (fst s), snd s))\<rparr>"

definition logging_update :: "(RelayStatus \<Rightarrow> 'h \<Rightarrow> 'h) \<Rightarrow> RelayStatus \<Rightarrow> 'h \<times> 'l \<Rightarrow> 'h \<times> 'l" where
  "logging_update update status s = (update status (fst s), snd s)"

definition executed :: "host_event list \<Rightarrow> string set" where
  "executed trail = {operation. Executed operation \<in> set trail}"

text \<open>The longest delays drawn for a reconnection; a draw below 21 is the age of a connection.\<close>

definition longest_delays :: "host_event list \<Rightarrow> int list" where
  "longest_delays trail = concat (map (\<lambda>e. case e of
     Drawn n \<Rightarrow> if n = 21 then [] else [n - 1] | Executed _ \<Rightarrow> []) trail)"

lemma longest_delays_simps [simp]:
  "longest_delays [] = []" "longest_delays (trail @ [Executed operation]) = longest_delays trail"
  "longest_delays (trail @ [Drawn n]) = longest_delays trail @ (if n = 21 then [] else [n - 1])"
  by (simp_all add: longest_delays_def)

lemma executed_simps [simp]:
  "executed [] = {}" "executed (trail @ [Executed operation]) = insert operation (executed trail)"
  "executed (trail @ [Drawn n]) = executed trail"
  by (auto simp: executed_def)

lemma logging_contract:
  assumes "\<And>trail operation. Q trail \<Longrightarrow> trusted (rh_noise rh) config operation \<Longrightarrow> Q (trail @ [Executed operation])"
    and "\<And>trail. Q trail \<Longrightarrow> Q (trail @ [Drawn 21])"
  shows "relay_contract (\<lambda>s. Q (snd s)) (logging rh) config"
  by unfold_locales
    (auto simp: logging_def assms intro!: beside_keeps keeps_after)

interpretation trusted_log: relay_contract
  "\<lambda>s. executed (snd s) \<subseteq> {operation. trusted (rh_noise rh) config operation}" "logging rh" config
  by (rule logging_contract) auto

interpretation delay_log: relay_contract "\<lambda>s. longest_delays (snd s) = ds" "logging rh" config
  by (rule logging_contract) auto

section \<open>Operations of the enrolled controller only\<close>

lemma logging_random: "rh_random (logging rh) n s = beside (rh_random rh n) (fst s, snd s @ [Drawn n])"
  by (simp add: logging_def)

text \<open>C31: whatever the relay sends and however the host behaves, as long as \<^verbatim>\<open>RunRelay\<close> runs, every operation that
  is executed on the host is among the permissions of the enrollment, and none is executed unless a
  handshake message was read whose authenticated static key is the enrolled controller's key.\<close>

theorem executes_for_controller_only:
  "executed (snd (snd (RunRelay d (logging rh) config (logging_update update) fuel (h, [])))) \<subseteq>
     {operation. operation \<in> set (grantedPermissions (cf_PermissionMask config)) \<and>
        authenticated (rh_noise rh) config}"
proof -
  have "host_keeps (\<lambda>s. executed (snd s) \<subseteq> {operation. trusted (rh_noise rh) config operation})
      (rh_random (logging rh) n)" for n
    unfolding logging_def by (simp, rule keeps_after) simp
  from trusted_log.RunRelay_keeps [OF _ this, of "logging_update update" "(h, [])" d fuel]
  show ?thesis by (simp add: logging_update_def trusted_def)
qed

section \<open>The backoff of the reconnection\<close>

definition next_delay_ok :: "int \<Rightarrow> int \<Rightarrow> bool" where
  "next_delay_ok a b \<longleftrightarrow> b = seconds 1 \<or> b = min (2 * a) (seconds 900)"

definition backoff :: "int list \<Rightarrow> int \<Rightarrow> bool" where
  "backoff ms delay \<longleftrightarrow> set ms \<subseteq> {seconds 1..seconds 900} \<and> successively next_delay_ok ms \<and>
     take 1 ms \<in> {[], [seconds 1]} \<and>
     delay = (if ms = [] then seconds 1 else growRelayReconnectDelay (last ms))"

lemma backoff_last:
  assumes "backoff ms delay" and "ms \<noteq> []"
  shows "seconds 1 \<le> last ms \<and> last ms \<le> seconds 900"
proof -
  have "last ms \<in> {seconds 1..seconds 900}" using assms last_in_set unfolding backoff_def by blast
  then show ?thesis by simp
qed

lemma backoff_snoc:
  assumes "backoff ms delay" and "m = seconds 1 \<or> m = delay"
  shows "backoff (ms @ [m]) (growRelayReconnectDelay m)"
proof (cases "ms = []")
  case True
  with assms show ?thesis by (auto simp: backoff_def seconds_def)
next
  case False
  note l = backoff_last [OF assms(1) False]
  have m: "next_delay_ok (last ms) m" "m \<in> {seconds 1..seconds 900}"
    using assms False l
    by (auto simp: backoff_def next_delay_ok_def growRelayReconnectDelay_def seconds_def)
  have "take 1 (ms @ [m]) = take 1 ms" using False by (cases ms) auto
  with m False assms(1) show ?thesis by (simp add: backoff_def successively_append_iff)
qed

lemma backoff_delay: "backoff ms delay \<Longrightarrow> seconds 1 \<le> delay"
  using backoff_last [of ms delay]
  by (cases "ms = []") (auto simp: backoff_def growRelayReconnectDelay_def seconds_def)

lemma delay_round:
  assumes "relay_round (logging rh) config (logging_update update) fuel delay s = (r, s')"
    and "seconds 1 \<le> delay"
  shows "longest_delays (snd s') = longest_delays (snd s) \<and> (\<forall>d. r \<noteq> Again d) \<or>
    (\<exists>m. (m = seconds 1 \<or> m = delay) \<and> longest_delays (snd s') = longest_delays (snd s) @ [m] \<and>
      (\<forall>d. r = Again d \<longrightarrow> d = growRelayReconnectDelay m))"
proof -
  let ?rh = "logging rh" and ?up = "logging_update update"
  have up: "longest_delays (snd (?up status s)) = longest_delays (snd s)" for status s
    by (simp add: logging_update_def)
  obtain b s1 where b: "rh_cancelled ?rh s = (b, s1)" by (metis surj_pair)
  obtain x u s2 where run: "runRelayConnection ?rh config (track_uptime ?rh ?up) fuel
      \<lparr>up_connectedSince = None, up_hadStable = False\<rparr>
      (?up (message_status (''Connecting to relay'' @ ellipsis)) s1) = (x, u, s2)" by (metis surj_pair)
  obtain b' s3 where b': "rh_cancelled ?rh s2 = (b', s3)" by (metis surj_pair)
  have s1: "longest_delays (snd s1) = longest_delays (snd s)"
    using host_keepsD [OF delay_log.cancelled _ b] by simp
  have s2: "longest_delays (snd s2) = longest_delays (snd s)"
    using delay_log.runRelayConnection_keeps [OF delay_log.track_uptime_keeps run] s1 up by metis
  have s3: "longest_delays (snd s3) = longest_delays (snd s)"
    using host_keepsD [OF delay_log.cancelled s2 b'] .
  show ?thesis
  proof (cases "\<exists>e. x = Some e \<and> \<not> b \<and> \<not> b' \<and> \<not> is_terminal e")
    case False
    have up3: "longest_delays (snd (?up status s3)) = longest_delays (snd s)" for status
      using s3 up by simp
    have "s' \<in> {s1, s2, s3, ?up (message_status ''Enrollment revoked or unauthorized; reset required'') s3}
        \<and> (\<forall>d. r \<noteq> Again d)"
      using False assms(1) b run b'
      by (auto simp: relay_round_def relay_retry_def split: bool.splits option.splits)
    with s1 s2 s3 up3 show ?thesis by blast
  next
    case True
    then obtain e where e: "x = Some e" "\<not> b" "\<not> b'" "\<not> is_terminal e" by blast
    obtain now s4 where now: "rh_clock ?rh s3 = (now, s4)" by (metis surj_pair)
    define m where "m = resetRelayReconnectDelay delay
      (relayConnectionHadStableUptime (up_hadStable u) (up_connectedSince u) now)"
    define s5 where "s5 = ?up (message_status (''Disconnected; retrying'' @ ellipsis)) s4"
    obtain f s6 where f: "fullJitterSleep ?rh m s5 = (f, s6)" by (metis surj_pair)
    have m: "m = seconds 1 \<or> m = delay" by (auto simp: m_def resetRelayReconnectDelay_def)
    with assms(2) have "m + 1 \<noteq> 21" by (auto simp: seconds_def)
    have s5: "longest_delays (snd s5) = longest_delays (snd s)"
      using host_keepsD [OF delay_log.clock s3 now] up by (simp add: s5_def)
    obtain v s7 where v: "rh_random ?rh (m + 1) s5 = (v, s7)" by (metis surj_pair)
    then have s7: "longest_delays (snd s7) = longest_delays (snd s) @ [m]"
      using s5 \<open>m + 1 \<noteq> 21\<close> by (auto simp: logging_random beside_def split: prod.splits)
    have s6: "longest_delays (snd s6) = longest_delays (snd s) @ [m]"
    proof (cases v)
      case (Inl e)
      with f v s7 show ?thesis by (simp add: fullJitterSleep_def)
    next
      case (Inr n)
      with f v have "rh_timer ?rh n s7 = (f, s6)" by (simp add: fullJitterSleep_def)
      from host_keepsD [OF delay_log.timer s7 this] show ?thesis .
    qed
    have "(r, s') = (case f of Some _ \<Rightarrow> (Returns None, s6) | None \<Rightarrow> (Again (growRelayReconnectDelay m), s6))"
      using assms(1) b run b' e now f [unfolded m_def s5_def]
      by (simp add: relay_round_def relay_retry_def Let_def m_def split: option.splits)
    with s6 m show ?thesis by (auto split: option.splits)
  qed
qed

lemma delay_rounds:
  "backoff (longest_delays (snd s)) delay \<Longrightarrow>
   relay_rounds (logging rh) config (logging_update update) fuel delay s = (r, s') \<Longrightarrow>
   \<exists>delay'. backoff (longest_delays (snd s')) delay'"
proof (induction fuel arbitrary: delay s)
  case (Suc fuel)
  obtain x s1 where x: "relay_round (logging rh) config (logging_update update) fuel delay s = (x, s1)"
    by (metis surj_pair)
  from delay_round [OF x backoff_delay [OF Suc.prems(1)]] show ?case
  proof
    assume "longest_delays (snd s1) = longest_delays (snd s) \<and> (\<forall>d. x \<noteq> Again d)"
    with Suc.prems x show ?thesis by (auto split: round.splits)
  next
    assume "\<exists>m. (m = seconds 1 \<or> m = delay) \<and> longest_delays (snd s1) = longest_delays (snd s) @ [m] \<and>
      (\<forall>d. x = Again d \<longrightarrow> d = growRelayReconnectDelay m)"
    then obtain m where m: "longest_delays (snd s1) = longest_delays (snd s) @ [m]"
      "backoff (longest_delays (snd s1)) (growRelayReconnectDelay m)"
      "\<forall>d. x = Again d \<longrightarrow> d = growRelayReconnectDelay m"
      using backoff_snoc [OF Suc.prems(1)] by metis
    with Suc.prems(2) x Suc.IH [of s1 "growRelayReconnectDelay m"] show ?thesis
      by (auto split: round.splits)
  qed
qed auto

text \<open>C32: the longest delays that \<^verbatim>\<open>RunRelay\<close> draws its sleeps from lie between a second and 15 minutes; the
  first one is a second, and each further one is twice the one before, at most 15 minutes, or again a
  second.\<close>

theorem reconnect_backoff:
  "let delays = longest_delays (snd (snd (RunRelay d (logging rh) config (logging_update update) fuel (h, []))))
   in set delays \<subseteq> {seconds 1..seconds (15 * 60)} \<and> take 1 delays \<in> {[], [seconds 1]} \<and>
     successively (\<lambda>a b. b = seconds 1 \<or> b = min (2 * a) (seconds (15 * 60))) delays"
proof -
  obtain r s' where run: "relay_rounds (logging rh) config (logging_update update) fuel (seconds 1) (h, []) = (r, s')"
    by (metis surj_pair)
  have "backoff (longest_delays (snd (h, []))) (seconds 1)" by (simp add: backoff_def)
  from delay_rounds [OF this run] show ?thesis
    by (auto simp: RunRelay_def run backoff_def next_delay_ok_def [abs_def] split: option.split)
qed

end
