(* ===== verification/PairingAttempt.thy ===== *)
theory PairingAttempt
  imports RelayLoop
begin

text \<open>
  An attempt to pair by QR code, on the companion's side (\<^verbatim>\<open>internal/companion/pairing.go\<close>). \<open>pairing_run\<close> is the
  goroutine of the attempt; the user decides or stops it from others. Those calls take the lock of the
  attempt, so they are atomic steps on its state: \<open>interfere\<close> lets the host interleave any number of them
  before each access of \<open>pairing_run\<close> to the shared state. The context of an attempt has the deadline of the
  invite: the loops that wait for the relay get a number of messages after which it has passed.
\<close>

section \<open>States of an attempt\<close>

definition pairingShowingQR :: string where "pairingShowingQR = ''showingQR''"
definition pairingHandshaking :: string where "pairingHandshaking = ''handshaking''"
definition pairingAwaitingApproval :: string where "pairingAwaitingApproval = ''awaitingApproval''"
definition pairingCommitting :: string where "pairingCommitting = ''committing''"
definition pairingExpired :: string where "pairingExpired = ''expired''"
definition pairingCancelled :: string where "pairingCancelled = ''cancelled''"
definition pairingRejected :: string where "pairingRejected = ''rejected''"
definition pairingFailed :: string where "pairingFailed = ''failed''"

lemmas phase_defs = pairingShowingQR_def pairingHandshaking_def pairingAwaitingApproval_def
  pairingCommitting_def pairingExpired_def pairingCancelled_def pairingRejected_def pairingFailed_def

record PairingState =
  ps_Phase :: string
  ps_PairID :: string
  ps_ExpiresAt :: int
  ps_ControllerLabel :: string
  ps_ControllerFingerprint :: string
  ps_RequestedPermissions :: "string list"

definition phase_state :: "string \<Rightarrow> string \<Rightarrow> int \<Rightarrow> PairingState" where
  "phase_state phase pairID expiresAt =
     \<lparr>ps_Phase = phase, ps_PairID = pairID, ps_ExpiresAt = expiresAt, ps_ControllerLabel = '''',
      ps_ControllerFingerprint = '''', ps_RequestedPermissions = []\<rparr>"

text \<open>The private key comes first in \<open>at_noiseKeys\<close>; \<open>at_decision\<close> is the channel with room for one decision.\<close>

record 'h pairingAttempt =
  at_cancelled :: bool
  at_peer :: relayPeer
  at_invite :: PairingInvite
  at_label :: string
  at_persist :: "Config \<Rightarrow> 'h \<Rightarrow> goerr option \<times> 'h"
  at_discard :: "'h \<Rightarrow> goerr option \<times> 'h"
  at_decision :: "bool option"
  at_decided :: bool
  at_state :: PairingState
  at_endpoint :: string
  at_secret :: string
  at_noiseKeys :: "string \<times> string"
  at_activated :: bool
  at_nextIn :: int
  at_pending :: "(int \<times> string) list"
  at_pendingBytes :: nat

section \<open>The user's side\<close>

definition decide :: "bool \<Rightarrow> string \<Rightarrow> 'h pairingAttempt \<Rightarrow> goerr option \<times> 'h pairingAttempt" where
  "decide approve pairID pa =
     (if pairID = '''' \<or> pairID \<noteq> inv_PairID (at_invite pa) \<or>
         ps_Phase (at_state pa) \<noteq> pairingAwaitingApproval \<or> at_decided pa
      then (Some (ErrorText ''pairing is not awaiting approval''), pa)
      else (None, pa\<lparr>at_decided := True, at_decision := Some approve\<rparr>))"

definition stop :: "string \<Rightarrow> 'h pairingAttempt \<Rightarrow> goerr option \<times> 'h pairingAttempt" where
  "stop pairID pa =
     (if pairID = '''' \<or> pairID \<noteq> inv_PairID (at_invite pa)
      then (Some (ErrorText ''pairing attempt did not match''), pa)
      else if ps_Phase (at_state pa) \<notin>
        {pairingShowingQR, pairingHandshaking, pairingAwaitingApproval}
      then (Some (ErrorText ''pairing can no longer be cancelled''), pa)
      else (None, pa\<lparr>at_state := phase_state pairingCancelled (inv_PairID (at_invite pa)) 0,
                     at_cancelled := True\<rparr>))"

text \<open>A copy of the state, for the web interface.\<close>

definition snapshot :: "'h pairingAttempt \<Rightarrow> PairingState" where
  "snapshot pa = at_state pa"

datatype ui_action = Decide bool string | Stop string

definition ui_step :: "ui_action \<Rightarrow> 'h pairingAttempt \<Rightarrow> 'h pairingAttempt" where
  "ui_step action pa = (case action of
     Decide approve pairID \<Rightarrow> snd (decide approve pairID pa) | Stop pairID \<Rightarrow> snd (stop pairID pa))"

datatype attempt_event = PairingMessage | PairingReaderStopped | PairingDone goerr

datatype decision_event = Decision | OtherMessage bool | DecisionDone goerr

text \<open>
  The host: \<open>ph_actions\<close> are the calls of the user since the last access, \<open>ph_deadline\<close> tells whether the
  context has expired, \<open>ph_now\<close> is the time in seconds, \<open>ph_select\<close> picks what a waiting \<^verbatim>\<open>select\<close> receives
  and \<open>ph_choose\<close> what the wait for the decision does: the decision, a message of the relay (\<open>True\<close> when the
  reader failed), or the end of the context.
\<close>

record ('k, 'c, 'h) pairing_host =
  ph_net :: "'h net"
  ph_deps :: cdeps
  ph_noise :: "('k, 'c) noise"
  ph_marshal :: "json \<Rightarrow> goerr + string"
  ph_now :: "'h \<Rightarrow> int \<times> 'h"
  ph_deadline :: "'h \<Rightarrow> goerr option \<times> 'h"
  ph_actions :: "'h \<Rightarrow> ui_action list \<times> 'h"
  ph_select :: "'h \<Rightarrow> attempt_event \<times> 'h"
  ph_choose :: "'h \<Rightarrow> decision_event \<times> 'h"

definition interfere :: "('k, 'c, 'h) pairing_host \<Rightarrow> 'h pairingAttempt \<Rightarrow> 'h \<Rightarrow> 'h pairingAttempt \<times> 'h" where
  "interfere ph pa h = (case ph_actions ph h of (actions, h) \<Rightarrow> (fold ui_step actions pa, h))"

definition setState :: "('k, 'c, 'h) pairing_host \<Rightarrow> PairingState \<Rightarrow> 'h pairingAttempt \<Rightarrow> 'h \<Rightarrow>
    'h pairingAttempt \<times> 'h" where
  "setState ph state pa h = (case interfere ph pa h of (pa, h) \<Rightarrow> (pa\<lparr>at_state := state\<rparr>, h))"

definition beginCommit :: "('k, 'c, 'h) pairing_host \<Rightarrow> PairingState \<Rightarrow> 'h pairingAttempt \<Rightarrow> 'h \<Rightarrow>
    bool \<times> 'h pairingAttempt \<times> 'h" where
  "beginCommit ph state pa h =
     (case interfere ph pa h of (pa, h) \<Rightarrow>
        if ps_Phase (at_state pa) \<noteq> pairingAwaitingApproval then (False, pa, h)
        else (True, pa\<lparr>at_state := state\<rparr>, h))"

text \<open>\<^verbatim>\<open>ctx.Err()\<close> of the context of \<open>run\<close>.\<close>

definition ctx_err :: "('k, 'c, 'h) pairing_host \<Rightarrow> 'h pairingAttempt \<Rightarrow> 'h \<Rightarrow> goerr option \<times> 'h" where
  "ctx_err ph pa h =
     (case ph_deadline ph h of
        (Some e, h) \<Rightarrow> (Some e, h)
      | (None, h) \<Rightarrow> (if at_cancelled pa then Some ContextCanceled else None, h))"

definition finishWithError :: "('k, 'c, 'h) pairing_host \<Rightarrow> goerr \<Rightarrow> 'h pairingAttempt \<Rightarrow> 'h \<Rightarrow>
    'h pairingAttempt \<times> 'h" where
  "finishWithError ph e pa h =
     (let finish = (\<lambda>phase h. setState ph (phase_state phase (inv_PairID (at_invite pa)) 0) pa h) in
      if errors_Is e (\<lambda>x. x = DeadlineExceeded) then finish pairingExpired h
      else case ph_now ph h of (now, h) \<Rightarrow>
        if now \<ge> inv_ExpiresAt (at_invite pa) then finish pairingExpired h
        else if errors_Is e (\<lambda>x. x = ContextCanceled) \<or> errors_Is e (\<lambda>x. x = PairingCancelled)
        then finish pairingCancelled h
        else if errors_Is e (\<lambda>x. x = PairingRejected) then finish pairingRejected h
        else finish pairingFailed h)"

section \<open>Messages of the relay\<close>

type_synonym ('a, 'h) attempted = "(goerr + 'a) \<times> 'h pairingAttempt \<times> 'h"

text \<open>The messages that waited during the creation of the pair are read first.\<close>

definition nextPairingServerMessage :: "('k, 'c, 'h) pairing_host \<Rightarrow> 'h pairingAttempt \<Rightarrow> 'h \<Rightarrow>
    (Envelope, 'h) attempted" where
  "nextPairingServerMessage ph pa h =
     (case interfere ph pa h of (pa, h) \<Rightarrow>
      case ph_select ph h of
        (PairingDone e, h) \<Rightarrow> (Inl e, pa, h)
      | (PairingReaderStopped, h) \<Rightarrow> (Inl (ErrorText ''relay reader stopped''), pa, h)
      | (PairingMessage, h) \<Rightarrow>
          (case next_message (ph_net ph) (rp_connection (at_peer pa)) (rp_pending (at_peer pa)) h of
             (r, pending, h) \<Rightarrow>
               let pa = pa\<lparr>at_peer := (at_peer pa)\<lparr>rp_pending := pending\<rparr>\<rparr> in
               (case r of
                  Inl e \<Rightarrow> (Inl e, pa, h)
                | Inr raw \<Rightarrow>
                    (case ParseServer (net_parser (ph_net ph)) (Bytes raw) of
                       Inl e \<Rightarrow> (Inl (ErrorText ''relay returned an invalid pairing message''), pa, h)
                     | Inr envelope \<Rightarrow> (Inr envelope, pa, h)))))"

definition decode_ready :: "json \<Rightarrow> (string \<times> string \<times> int) option" where
  "decode_ready j =
     (if is_struct j then
        case (jstr ''pairId'' j, jstr ''peerSideId'' j, jint ''expiresAt'' j) of
          (Some p, Some s, Some x) \<Rightarrow> Some (p, s, x) | _ \<Rightarrow> None
      else None)"

definition ready_peer :: "PairingInvite \<Rightarrow> json \<Rightarrow> goerr + string" where
  "ready_peer invite j =
     (case decode_ready j of
        None \<Rightarrow> Inl (ErrorText ''relay returned an invalid pairing peer'')
      | Some (pairID, peerSideID, expiresAt) \<Rightarrow>
          if pairID \<noteq> inv_PairID invite \<or> \<not> uuidPattern peerSideID \<or>
             peerSideID = inv_CreatorSideID invite \<or> expiresAt \<noteq> inv_ExpiresAt invite
          then Inl (ErrorText ''relay returned an invalid pairing peer'') else Inr peerSideID)"

fun waitReady :: "('k, 'c, 'h) pairing_host \<Rightarrow> nat \<Rightarrow> 'h pairingAttempt \<Rightarrow> 'h \<Rightarrow> (string, 'h) attempted" where
  "waitReady ph 0 pa h = (Inl DeadlineExceeded, pa, h)"
| "waitReady ph (Suc fuel) pa h =
     (case nextPairingServerMessage ph pa h of
        (Inl e, pa, h) \<Rightarrow> (Inl e, pa, h)
      | (Inr envelope, pa, h) \<Rightarrow>
          if env_Type envelope = ''pair.ready''
          then (ready_peer (at_invite pa) (env_Body envelope), pa, h)
          else if env_Type envelope = ''pair.closed'' \<or> env_Type envelope = ''error''
          then (Inl (ErrorText ''relay closed the pairing attempt''), pa, h)
          else waitReady ph fuel pa h)"

text \<open>A frame in the window: its packet, or an error.\<close>

definition pair_frame_packet :: "'h pairingAttempt \<Rightarrow> int \<Rightarrow> json \<Rightarrow> goerr + int \<times> string" where
  "pair_frame_packet pa sequence j =
     (case decode_FrameBody ''pairId'' j of
        None \<Rightarrow> Inl (ErrorText ''unexpected pairing frame'')
      | Some frame \<Rightarrow>
          if fb_ID frame \<noteq> inv_PairID (at_invite pa) \<or> fb_Seq frame < sequence
          then Inl (ErrorText ''unexpected pairing frame'')
          else if map_of (at_pending pa) (fb_Seq frame) \<noteq> None \<or>
             fb_Seq frame - sequence > int MaxRelayReorderFrames
          then Inl (ErrorText ''unexpected pairing frame'')
          else if length (fb_Payload frame) > b64_encoded_len MaxRelayPayloadBytes
          then Inl (ErrorText ''invalid pairing frame payload'')
          else case b64_decode (fb_Payload frame) of
            None \<Rightarrow> Inl (ErrorText ''invalid pairing frame payload'')
          | Some packet \<Rightarrow>
              if packet = [] \<or> length packet > MaxRelayPayloadBytes \<or>
                 b64_encode packet \<noteq> fb_Payload frame
              then Inl (ErrorText ''invalid pairing frame payload'')
              else Inr (fb_Seq frame, packet))"

definition buffer_packet :: "int \<times> string \<Rightarrow> 'h pairingAttempt \<Rightarrow> 'h pairingAttempt option" where
  "buffer_packet f pa =
     (if length (at_pending pa) \<ge> MaxRelayReorderFrames \<or>
         at_pendingBytes pa + length (snd f) > MaxRelayReorderBytes
      then None
      else Some (pa\<lparr>at_pending := f # at_pending pa,
                    at_pendingBytes := at_pendingBytes pa + length (snd f)\<rparr>))"

lemma fold_ui_pending [simp]: "at_pending (fold ui_step actions pa) = at_pending pa"
  by (induction actions arbitrary: pa) (auto simp: ui_step_def decide_def stop_def split: ui_action.split)

lemma message_pending:
  "nextPairingServerMessage ph pa h = (r, pa', h') \<Longrightarrow> at_pending pa' = at_pending pa"
  by (auto simp: nextPairingServerMessage_def interfere_def Let_def split: prod.splits sum.splits attempt_event.splits)

lemma buffer_grows: "buffer_packet f pa = Some pa' \<Longrightarrow>
    length (at_pending pa) < MaxRelayReorderFrames \<and> length (at_pending pa') = Suc (length (at_pending pa))"
  by (auto simp: buffer_packet_def split: if_splits)

lemma buffer_shrinks: "buffer_packet f pa = Some pa' \<Longrightarrow> at_pending pa = at_pending q \<Longrightarrow>
    MaxRelayReorderFrames - length (at_pending pa') < MaxRelayReorderFrames - length (at_pending q)"
  by (drule buffer_grows) (auto simp: diff_less_mono2)

text \<open>The loop of \<^verbatim>\<open>nextPairPacket\<close>: each turn returns or fills the buffer, so that it ends without fuel.\<close>

function await_packet :: "('k, 'c, 'h) pairing_host \<Rightarrow> int \<Rightarrow> 'h pairingAttempt \<Rightarrow> 'h \<Rightarrow> (string, 'h) attempted"
  where
  "await_packet ph sequence pa h =
     (case nextPairingServerMessage ph pa h of
        (Inl e, pa, h) \<Rightarrow> (Inl e, pa, h)
      | (Inr envelope, pa', h) \<Rightarrow>
          if env_Type envelope = ''pair.frame'' then
            (case pair_frame_packet pa' sequence (env_Body envelope) of
               Inl e \<Rightarrow> (Inl e, pa', h)
             | Inr (i, packet) \<Rightarrow>
                 if i = sequence then (Inr packet, pa'\<lparr>at_nextIn := at_nextIn pa' + 1\<rparr>, h)
                 else (case buffer_packet (i, packet) pa' of
                   None \<Rightarrow> (Inl (ErrorText ''pairing frame reorder buffer full''), pa', h)
                 | Some pa'' \<Rightarrow> await_packet ph sequence pa'' h))
          else if env_Type envelope = ''pair.closed'' \<or> env_Type envelope = ''error''
          then (Inl (ErrorText ''relay closed the pairing attempt''), pa', h)
          else (Inl (ErrorText ''unexpected relay message during pairing''), pa', h))"
  by pat_completeness auto

termination await_packet
  by (relation "measure (\<lambda>(ph, sequence, pa, h). MaxRelayReorderFrames - length (at_pending pa))")
    (auto intro: buffer_shrinks message_pending [OF sym])

declare await_packet.simps [simp del]

definition nextPairPacket :: "('k, 'c, 'h) pairing_host \<Rightarrow> int \<Rightarrow> 'h pairingAttempt \<Rightarrow> 'h \<Rightarrow> (string, 'h) attempted"
  where
  "nextPairPacket ph sequence pa h =
     (if sequence \<noteq> at_nextIn pa then (Inl (ErrorText ''unexpected pairing frame sequence''), pa, h)
      else case map_of (at_pending pa) sequence of
        Some packet \<Rightarrow>
          (Inr packet, pa\<lparr>at_pending := AList.delete sequence (at_pending pa),
             at_pendingBytes := at_pendingBytes pa - length packet, at_nextIn := at_nextIn pa + 1\<rparr>, h)
      | None \<Rightarrow> await_packet ph sequence pa h)"

text \<open>A decision that is awaited but never made ends with the deadline of the context.\<close>

definition waitDecision :: "('k, 'c, 'h) pairing_host \<Rightarrow> 'h pairingAttempt \<Rightarrow> 'h \<Rightarrow> (bool, 'h) attempted" where
  "waitDecision ph pa h =
     (case interfere ph pa h of (pa, h) \<Rightarrow>
      case ph_choose ph h of
        (DecisionDone e, h) \<Rightarrow> (Inl e, pa, h)
      | (OtherMessage readFailed, h) \<Rightarrow>
          (Inl (ErrorText (if readFailed then ''relay disconnected during pairing approval''
             else ''unexpected relay message during pairing approval'')), pa, h)
      | (Decision, h) \<Rightarrow>
          (case at_decision pa of
             None \<Rightarrow> (Inl DeadlineExceeded, pa, h)
           | Some approved \<Rightarrow>
               (case interfere ph (pa\<lparr>at_decision := None\<rparr>) h of (pa, h) \<Rightarrow>
                  (case ctx_err ph pa h of
                     (Some e, h) \<Rightarrow> (Inl e, pa, h)
                   | (None, h) \<Rightarrow> (Inr approved, pa, h)))))"

definition sendPairPacket :: "('k, 'c, 'h) pairing_host \<Rightarrow> int \<Rightarrow> string \<Rightarrow> 'h pairingAttempt \<Rightarrow> 'h \<Rightarrow>
    (unit, 'h) attempted" where
  "sendPairPacket ph sequence packet pa h =
     (if packet = [] \<or> length packet > MaxRelayPayloadBytes
      then (Inl (ErrorText ''invalid pairing packet''), pa, h)
      else case net_uuid (ph_net ph) h of
        (Inl e, h) \<Rightarrow> (Inl e, pa, h)
      | (Inr i, h) \<Rightarrow>
          (case net_transmit (ph_net ph) (rp_connection (at_peer pa)) (wireEnvelope ''pair.frame'' i
                  (frame_json ''pairId'' (inv_PairID (at_invite pa)) sequence (b64_encode packet))) h of
             (Some e, h) \<Rightarrow> (Inl e, pa, h) | (None, h) \<Rightarrow> (Inr (), pa, h)))"

section \<open>The identity of the controller\<close>

definition validateControllerPairingIdentity :: "cdeps \<Rightarrow> parser \<Rightarrow> string \<Rightarrow> string \<Rightarrow> string \<Rightarrow> string \<Rightarrow>
    goerr + PairingIdentityEnvelope" where
  "validateControllerPairingIdentity d v bytes linkID companionEndpointID companionPrivate =
     (let bad = Inl (ErrorText ''invalid controller pairing identity'') in
      case ParsePairing v (Bytes bytes) of
        Inl e \<Rightarrow> bad
      | Inr identity \<Rightarrow>
          let body = pie_Body identity in
          if pib_Role body \<noteq> Controller \<or> pib_LinkID body \<noteq> linkID \<or>
             pib_EndpointID body = companionEndpointID \<or> \<not> validDeviceLabel (pib_DeviceLabel body)
          then bad
          else if \<not> set (pib_Permissions body) \<subseteq> set (pib_Capabilities body) then bad
          else case decode32 (pib_NoiseKey body) of
            None \<Rightarrow> bad
          | Some key \<Rightarrow>
              if \<not> contributoryX25519PublicKey d key companionPrivate then bad else Inr identity)"

section \<open>Committing\<close>

definition decode_completed :: "json \<Rightarrow> (string \<times> string \<times> string \<times> string) option" where
  "decode_completed j =
     (if is_struct j then
        case (jstr ''pairId'' j, jstr ''linkId'' j, jstr ''peerEndpointId'' j, jstr ''peerRole'' j) of
          (Some p, Some l, Some e, Some r) \<Rightarrow> Some (p, l, e, r) | _ \<Rightarrow> None
      else None)"

definition decode_commit_success :: "json \<Rightarrow> (string \<times> bool \<times> bool \<times> string) option" where
  "decode_commit_success j =
     (if is_struct j then
        case (jstr ''requestType'' j, jsub ''result'' j) of
          (Some t, Some r) \<Rightarrow>
            (case (jbool ''pending'' r, jbool ''active'' r, jstr ''linkId'' r) of
               (Some p, Some a, Some l) \<Rightarrow> Some (t, p, a, l) | _ \<Rightarrow> None)
        | _ \<Rightarrow> None
      else None)"

definition decode_failure :: "json \<Rightarrow> (string \<times> bool) option" where
  "decode_failure j =
     (if is_struct j then
        case (jstr ''code'' j, jbool ''retryable'' j) of (Some c, Some r) \<Rightarrow> Some (c, r) | _ \<Rightarrow> None
      else None)"

definition decode_closed :: "json \<Rightarrow> (string \<times> string) option" where
  "decode_closed j =
     (if is_struct j then
        case (jstr ''pairId'' j, jstr ''reason'' j) of (Some p, Some r) \<Rightarrow> Some (p, r) | _ \<Rightarrow> None
      else None)"

definition pairClosedCommitError :: "PairingInvite \<Rightarrow> Envelope \<Rightarrow> goerr" where
  "pairClosedCommitError invite envelope =
     (let unexpected = ErrorText ''relay closed an unexpected pairing'' in
      if env_ReplyTo envelope \<noteq> '''' then unexpected
      else case decode_closed (env_Body envelope) of
        None \<Rightarrow> unexpected
      | Some (pairID, reason) \<Rightarrow>
          if pairID \<noteq> inv_PairID invite then unexpected
          else if reason \<in> {''cancelled'', ''expired'', ''peer-disconnected'', ''failed''}
          then PairingCommitRejected (''pair closed ('' @ reason @ '')'')
          else ErrorText ''relay returned an invalid pairing closure'')"

text \<open>What a message says of the commit: activated (\<open>Inr True\<close>), still pending (\<open>Inr False\<close>), or an error.\<close>

definition commit_answer :: "PairingInvite \<Rightarrow> string \<Rightarrow> string \<Rightarrow> Envelope \<Rightarrow> goerr + bool" where
  "commit_answer invite controllerEndpointID i envelope =
     (let body = env_Body envelope in
      if env_Type envelope = ''pair.completed'' then
        (case decode_completed body of
           None \<Rightarrow> Inl (ErrorText ''relay completed an unexpected pairing'')
         | Some (pairID, linkID, peerEndpointID, peerRole) \<Rightarrow>
             if pairID \<noteq> inv_PairID invite \<or> linkID \<noteq> inv_LinkID invite \<or>
                peerEndpointID \<noteq> controllerEndpointID \<or> peerRole \<noteq> Controller
             then Inl (ErrorText ''relay completed an unexpected pairing'') else Inr True)
      else if env_Type envelope = ''ok'' then
        (if env_ReplyTo envelope \<noteq> i
         then Inl (ErrorText ''relay returned an unmatched pairing response'')
         else case decode_commit_success body of
           None \<Rightarrow> Inl (ErrorText ''relay returned an invalid pairing response'')
         | Some (requestType, pending, active, linkID) \<Rightarrow>
             if requestType \<noteq> ''pair.commit''
             then Inl (ErrorText ''relay returned an invalid pairing response'')
             else if active then
               (if linkID = inv_LinkID invite then Inr True
                else Inl (ErrorText ''relay activated an unexpected pairing''))
             else if \<not> pending then Inl (ErrorText ''relay returned an invalid pairing response'')
             else Inr False)
      else if env_Type envelope = ''error'' then
        (if env_ReplyTo envelope \<noteq> i then Inl (ErrorText ''relay rejected a pairing message'')
         else case decode_failure body of
           None \<Rightarrow> Inl (ErrorText ''relay returned an invalid pairing error'')
         | Some (code, retryable) \<Rightarrow>
             if code = '''' then Inl (ErrorText ''relay returned an invalid pairing error'')
             else if \<not> retryable then Inl (PairingCommitRejected code)
             else Inl (ErrorText (''relay could not confirm the pairing commit: '' @ code)))
      else if env_Type envelope = ''pair.closed'' then Inl (pairClosedCommitError invite envelope)
      else Inl (ErrorText ''unexpected relay message while committing pairing''))"

fun await_commit :: "('k, 'c, 'h) pairing_host \<Rightarrow> string \<Rightarrow> string \<Rightarrow> nat \<Rightarrow> 'h pairingAttempt \<Rightarrow> 'h \<Rightarrow>
    (unit, 'h) attempted" where
  "await_commit ph controllerEndpointID i 0 pa h = (Inl DeadlineExceeded, pa, h)"
| "await_commit ph controllerEndpointID i (Suc fuel) pa h =
     (case nextPairingServerMessage ph pa h of
        (Inl e, pa, h) \<Rightarrow> (Inl e, pa, h)
      | (Inr envelope, pa, h) \<Rightarrow>
          (case commit_answer (at_invite pa) controllerEndpointID i envelope of
             Inl e \<Rightarrow> (Inl e, pa, h)
           | Inr True \<Rightarrow> (Inr (), pa, h)
           | Inr False \<Rightarrow> await_commit ph controllerEndpointID i fuel pa h))"

definition commit :: "('k, 'c, 'h) pairing_host \<Rightarrow> nat \<Rightarrow> json \<Rightarrow> string \<Rightarrow> 'h pairingAttempt \<Rightarrow> 'h \<Rightarrow>
    (unit, 'h) attempted" where
  "commit ph fuel body controllerEndpointID pa h =
     (case net_uuid (ph_net ph) h of
        (Inl e, h) \<Rightarrow> (Inl e, pa, h)
      | (Inr i, h) \<Rightarrow>
          (case net_transmit (ph_net ph) (rp_connection (at_peer pa)) (wireEnvelope ''pair.commit'' i body) h of
             (Some e, h) \<Rightarrow> (Inl e, pa, h)
           | (None, h) \<Rightarrow> await_commit ph controllerEndpointID i fuel pa h))"

definition is_commit_rejected :: "goerr \<Rightarrow> bool" where
  "is_commit_rejected e = errors_Is e (\<lambda>x. case x of PairingCommitRejected _ \<Rightarrow> True | _ \<Rightarrow> False)"

definition resolveCommitFailure :: "Config \<Rightarrow> goerr \<Rightarrow> 'h pairingAttempt \<Rightarrow> 'h \<Rightarrow>
    (Config \<times> bool \<times> goerr) \<times> 'h" where
  "resolveCommitFailure config e pa h =
     (if \<not> is_commit_rejected e then ((config, True, e), h)
      else case at_discard pa h of
        (Some _, h) \<Rightarrow> ((config, True, Joined e (ConfigPersistence '''')), h)
      | (None, h) \<Rightarrow> ((zero_Config, False, e), h))"

definition cancelPair :: "('k, 'c, 'h) pairing_host \<Rightarrow> 'h pairingAttempt \<Rightarrow> 'h \<Rightarrow> 'h" where
  "cancelPair ph pa h =
     (case net_uuid (ph_net ph) h of
        (Inl e, h) \<Rightarrow> h
      | (Inr i, h) \<Rightarrow> snd (net_transmit (ph_net ph) (rp_connection (at_peer pa))
          (wireEnvelope ''pair.cancel'' i (JObj [(''pairId'', JStr (inv_PairID (at_invite pa)))])) h))"

section \<open>Creating an attempt\<close>

definition decode_created :: "json \<Rightarrow> (string \<times> string \<times> int) option" where
  "decode_created j =
     (if is_struct j then
        case (jstr ''pairId'' j, jstr ''sideId'' j, jint ''expiresAt'' j) of
          (Some p, Some s, Some x) \<Rightarrow> Some (p, s, x) | _ \<Rightarrow> None
      else None)"

text \<open>The key of the invite is drawn again while it equals the join token.\<close>

fun draw_psk :: "'h net \<Rightarrow> string \<Rightarrow> nat \<Rightarrow> string \<Rightarrow> 'h \<Rightarrow> ((goerr + string) \<times> 'h) option" where
  "draw_psk n joinToken fuel psk h =
     (if joinToken \<noteq> psk then Some (Inr psk, h)
      else case fuel of
        0 \<Rightarrow> None
      | Suc fuel \<Rightarrow>
          (case net_random32 n h of
             (Inl e, h) \<Rightarrow> Some (Inl e, h) | (Inr psk, h) \<Rightarrow> draw_psk n joinToken fuel psk h))"

definition bind_step :: "(goerr + 'a) \<times> 'h \<Rightarrow> ('a \<Rightarrow> 'h \<Rightarrow> (goerr + 'b) \<times> 'h) \<Rightarrow> (goerr + 'b) \<times> 'h" where
  "bind_step r f = (case r of (Inl e, h) \<Rightarrow> (Inl e, h) | (Inr x, h) \<Rightarrow> f x h)"

definition pairing_invite :: "string \<Rightarrow> string \<times> string \<times> int \<Rightarrow> string \<Rightarrow> string \<Rightarrow> string \<Rightarrow> PairingInvite" where
  "pairing_invite relay created linkID encodedJoinToken psk =
     (case created of (pairID, sideID, expiresAt) \<Rightarrow>
       \<lparr>inv_Protocol = PairingInviteProtocolName, inv_V = 1, inv_RelayURL = relay, inv_PairID = pairID,
        inv_CreatorSideID = sideID, inv_LinkID = linkID, inv_JoinToken = encodedJoinToken,
        inv_PSK = b64_encode psk, inv_ExpiresAt = expiresAt\<rparr>)"

text \<open>Creating the pair at the relay; the connection is closed unless the invite is good.\<close>

definition create_pair :: "('k, 'c, 'h) pairing_host \<Rightarrow> string \<Rightarrow> string \<Rightarrow> string \<Rightarrow> string \<Rightarrow> string \<Rightarrow> 'h \<Rightarrow>
    (goerr + relayPeer \<times> PairingInvite) \<times> 'h" where
  "create_pair ph relay joinTokenHash linkID encodedJoinToken psk h =
     bind_step (dialRelay (ph_net ph) relay PairingAuthorization h) (\<lambda>peer h.
       case request_into (ph_net ph) peer ''pair.create''
              (JObj [(''joinTokenHash'', JStr joinTokenHash)]) decode_created h of
         (Inl e, peer, h) \<Rightarrow> (Inl e, net_close (ph_net ph) (rp_connection peer) h)
       | (Inr created, peer, h) \<Rightarrow>
           let invite = pairing_invite relay created linkID encodedJoinToken psk in
           (case ph_now ph h of (now, h) \<Rightarrow>
             (case ValidatePairingInviteAt (net_parser (ph_net ph)) invite now of
                Some e \<Rightarrow> (Inl (ProtocolError e), net_close (ph_net ph) (rp_connection peer) h)
              | None \<Rightarrow> (Inr (peer, invite), h))))"

definition fresh_attempt :: "relayPeer \<Rightarrow> PairingInvite \<Rightarrow> string \<Rightarrow> (Config \<Rightarrow> 'h \<Rightarrow> goerr option \<times> 'h) \<Rightarrow>
    ('h \<Rightarrow> goerr option \<times> 'h) \<Rightarrow> string \<Rightarrow> string \<Rightarrow> string \<times> string \<Rightarrow> 'h pairingAttempt" where
  "fresh_attempt peer invite label persist discard endpointID endpointSecret noiseKeys =
     \<lparr>at_cancelled = False, at_peer = peer, at_invite = invite, at_label = label, at_persist = persist,
      at_discard = discard, at_decision = None, at_decided = False,
      at_state = phase_state pairingShowingQR (inv_PairID invite) (inv_ExpiresAt invite),
      at_endpoint = endpointID, at_secret = endpointSecret, at_noiseKeys = noiseKeys,
      at_activated = False, at_nextIn = 1, at_pending = [], at_pendingBytes = 0\<rparr>"

definition finish_attempt :: "('k, 'c, 'h) pairing_host \<Rightarrow> string \<Rightarrow> string \<Rightarrow>
    (Config \<Rightarrow> 'h \<Rightarrow> goerr option \<times> 'h) \<Rightarrow> ('h \<Rightarrow> goerr option \<times> 'h) \<Rightarrow> string \<Rightarrow> string \<Rightarrow> 'h \<Rightarrow>
    (goerr + 'h pairingAttempt) \<times> 'h" where
  "finish_attempt ph relay label persist discard joinToken psk h =
     bind_step (net_uuid (ph_net ph) h) (\<lambda>linkID h.
     bind_step (net_uuid (ph_net ph) h) (\<lambda>endpointID h.
     bind_step (net_random32 (ph_net ph) h) (\<lambda>endpointSecret h.
     bind_step (net_keypair (ph_net ph) h) (\<lambda>noiseKeys h.
       let encodedJoinToken = b64_encode joinToken in
       (case JoinTokenHash (k_sha256 (ph_deps ph)) encodedJoinToken of
          Inl e \<Rightarrow> (Inl (ProtocolError e), h)
        | Inr joinTokenHash \<Rightarrow>
            bind_step (create_pair ph relay joinTokenHash linkID encodedJoinToken psk h)
              (\<lambda>(peer, invite) h.
                (Inr (fresh_attempt peer invite label persist discard endpointID endpointSecret noiseKeys), h)))))))"

definition newPairingAttempt :: "('k, 'c, 'h) pairing_host \<Rightarrow> nat \<Rightarrow> string \<Rightarrow> string \<Rightarrow>
    (Config \<Rightarrow> 'h \<Rightarrow> goerr option \<times> 'h) option \<Rightarrow> ('h \<Rightarrow> goerr option \<times> 'h) option \<Rightarrow> 'h \<Rightarrow>
    ((goerr + 'h pairingAttempt) \<times> 'h) option" where
  "newPairingAttempt ph fuel relay label persist discard h =
     (case (persist, discard) of
        (Some persist, Some discard) \<Rightarrow>
          (case relayURL (ph_deps ph) relay of
             Inl e \<Rightarrow> Some (Inl e, h)
           | Inr u \<Rightarrow>
               let label = TrimSpace label in
               if \<not> validDeviceLabel label
               then Some (Inl (ErrorText ''invalid companion device label''), h)
               else (case net_random32 (ph_net ph) h of
                 (Inl e, h) \<Rightarrow> Some (Inl e, h)
               | (Inr joinToken, h) \<Rightarrow>
                   (case net_random32 (ph_net ph) h of
                      (Inl e, h) \<Rightarrow> Some (Inl e, h)
                    | (Inr psk, h) \<Rightarrow>
                        (case draw_psk (ph_net ph) joinToken fuel psk h of
                           None \<Rightarrow> None
                         | Some (Inl e, h) \<Rightarrow> Some (Inl e, h)
                         | Some (Inr psk, h) \<Rightarrow>
                             Some (finish_attempt ph relay label persist discard joinToken psk h)))))
      | _ \<Rightarrow> Some (Inl (ErrorText ''pairing persistence callbacks are required''), h))"

text \<open>\<open>hostname\<close> is the answer of \<^verbatim>\<open>os.Hostname\<close>; a rune that is no character is printed as U+FFFD.\<close>

definition rune_text :: "nat \<times> string \<Rightarrow> string" where
  "rune_text seg = (if fst seg = 0xFFFD then [CHR 0xEF, CHR 0xBF, CHR 0xBD] else snd seg)"

definition companionDeviceLabel :: "string option \<Rightarrow> string" where
  "companionDeviceLabel hostname =
     (let fallback = ''Remote DaVinci Companion'' in
      case hostname of
        None \<Rightarrow> fallback
      | Some label \<Rightarrow>
          if TrimSpace label = '''' then fallback
          else let label = concat (map rune_text (take 80 (segments (TrimSpace label)))) in
            if validDeviceLabel label then label else fallback)"

section \<open>Running an attempt\<close>

text \<open>The result of \<^verbatim>\<open>run\<close>: the configuration, whether it is stored, and the error.\<close>

type_synonym 'h ran = "(Config \<times> bool \<times> goerr option) \<times> 'h pairingAttempt \<times> 'h"

definition attempt_failed :: "('k, 'c, 'h) pairing_host \<Rightarrow> goerr \<Rightarrow> 'h pairingAttempt \<Rightarrow> 'h \<Rightarrow> 'h ran" where
  "attempt_failed ph e pa h =
     (case finishWithError ph e pa h of (pa, h) \<Rightarrow> ((zero_Config, False, Some e), pa, h))"

definition or_finish :: "('k, 'c, 'h) pairing_host \<Rightarrow> ('a, 'h) attempted \<Rightarrow>
    ('a \<Rightarrow> 'h pairingAttempt \<Rightarrow> 'h \<Rightarrow> 'h ran) \<Rightarrow> 'h ran" where
  "or_finish ph r f =
     (case r of
        (Inl e, pa, h) \<Rightarrow> attempt_failed ph e pa h
      | (Inr x, pa, h) \<Rightarrow> f x pa h)"

definition controller_state :: "string \<Rightarrow> PairingInvite \<Rightarrow> PairingIdentityBody \<Rightarrow> PairingState" where
  "controller_state phase invite body =
     \<lparr>ps_Phase = phase, ps_PairID = inv_PairID invite, ps_ExpiresAt = inv_ExpiresAt invite,
      ps_ControllerLabel = pib_DeviceLabel body, ps_ControllerFingerprint = pib_NoiseFingerprint body,
      ps_RequestedPermissions = pib_Permissions body\<rparr>"

definition marshal_identity :: "string \<Rightarrow> PairingIdentityBody \<Rightarrow> json" where
  "marshal_identity i body = JObj
     [(''protocol'', JStr PairingProtocolName), (''v'', JInt 1), (''type'', JStr ''identity''),
      (''id'', JStr i),
      (''body'', JObj [(''linkId'', JStr (pib_LinkID body)), (''endpointId'', JStr (pib_EndpointID body)),
         (''role'', JStr (pib_Role body)), (''noiseKey'', JStr (pib_NoiseKey body)),
         (''noiseFingerprint'', JStr (pib_NoiseFingerprint body)),
         (''deviceLabel'', JStr (pib_DeviceLabel body)),
         (''permissions'', JArr (map JStr (pib_Permissions body))),
         (''capabilities'', JArr (map JStr (pib_Capabilities body)))])]"

definition staged_config :: "'h pairingAttempt \<Rightarrow> PairingIdentityBody \<Rightarrow> 8 word \<Rightarrow> Config" where
  "staged_config pa body permissionMask =
     \<lparr>cf_V = 1, cf_RelayURL = inv_RelayURL (at_invite pa), cf_LinkID = inv_LinkID (at_invite pa),
      cf_EndpointID = at_endpoint pa, cf_Secret = b64_encode (at_secret pa),
      cf_NoisePrivateKey = b64_encode (fst (at_noiseKeys pa)),
      cf_ControllerEndpointID = pib_EndpointID body, cf_ControllerNoiseKey = pib_NoiseKey body,
      cf_ControllerFingerprint = pib_NoiseFingerprint body, cf_ControllerLabel = pib_DeviceLabel body,
      cf_PermissionMask = permissionMask, cf_ActivationPending = True, cf_LinkRevoked = False\<rparr>"

text \<open>The last part: the configuration is stored, then the commit is sent.\<close>

definition run_staged :: "('k, 'c, 'h) pairing_host \<Rightarrow> nat \<Rightarrow> Config \<Rightarrow> 'h pairingAttempt \<Rightarrow> 'h \<Rightarrow> 'h ran" where
  "run_staged ph fuel config pa h =
     (case commit ph fuel
            (commitBody (inv_PairID (at_invite pa)) (inv_CreatorSideID (at_invite pa))
              (inv_LinkID (at_invite pa)) (at_endpoint pa) Companion
              (b64_encode (k_sha256 (ph_deps ph) (at_secret pa))) (cf_ControllerEndpointID config) Controller)
            (cf_ControllerEndpointID config) pa h of
        (Inl e, pa, h) \<Rightarrow>
          (case resolveCommitFailure config e pa h of ((config, staged, e), h) \<Rightarrow>
            (case finishWithError ph e pa h of (pa, h) \<Rightarrow> ((config, staged, Some e), pa, h)))
      | (Inr _, pa, h) \<Rightarrow>
          let pa = pa\<lparr>at_activated := True\<rparr> in
          (case at_persist pa (config\<lparr>cf_ActivationPending := False\<rparr>) h of
             (Some _, h) \<Rightarrow>
               let e = ConfigPersistence '' after relay activation'' in
               (case finishWithError ph e pa h of (pa, h) \<Rightarrow> ((config, True, Some e), pa, h))
           | (None, h) \<Rightarrow> ((config\<lparr>cf_ActivationPending := False\<rparr>, True, None), pa, h)))"

text \<open>The companion's identity, encrypted; then the configuration is stored as pending.\<close>

definition encrypted_identity :: "('k, 'c, 'h) pairing_host \<Rightarrow> 'c \<Rightarrow> 8 word \<Rightarrow> 'h pairingAttempt \<Rightarrow> 'h \<Rightarrow>
    (string, 'h) attempted" where
  "encrypted_identity ph sendCipher permissionMask pa h =
     (let companionKey = b64_encode (snd (at_noiseKeys pa)) in
      case NoiseKeyFingerprint (k_sha256 (ph_deps ph)) companionKey of
        Inl e \<Rightarrow> (Inl (ProtocolError e), pa, h)
      | Inr fingerprint \<Rightarrow>
          (case net_uuid (ph_net ph) h of
             (Inl e, h) \<Rightarrow> (Inl e, pa, h)
           | (Inr identityID, h) \<Rightarrow>
               (case ph_marshal ph (marshal_identity identityID
                   \<lparr>pib_LinkID = inv_LinkID (at_invite pa), pib_EndpointID = at_endpoint pa,
                    pib_Role = Companion, pib_NoiseKey = companionKey, pib_NoiseFingerprint = fingerprint,
                    pib_DeviceLabel = at_label pa, pib_Permissions = grantedPermissions permissionMask,
                    pib_Capabilities = supportedOperations\<rparr>) of
                  Inl e \<Rightarrow> (Inl e, pa, h)
                | Inr identity \<Rightarrow> (fst (n_encrypt (ph_noise ph) sendCipher identity), pa, h))))"

definition run_committing :: "('k, 'c, 'h) pairing_host \<Rightarrow> nat \<Rightarrow> 'c \<Rightarrow> PairingIdentityBody \<Rightarrow> 8 word \<Rightarrow>
    'h pairingAttempt \<Rightarrow> 'h \<Rightarrow> 'h ran" where
  "run_committing ph fuel sendCipher body permissionMask pa h =
     or_finish ph (encrypted_identity ph sendCipher permissionMask pa h) (\<lambda>encrypted pa h.
     or_finish ph (sendPairPacket ph 2 encrypted pa h) (\<lambda>_ pa h.
       let config = staged_config pa body permissionMask in
       (case at_persist pa config h of
          (Some _, h) \<Rightarrow> attempt_failed ph (ConfigPersistence []) pa h
        | (None, h) \<Rightarrow> run_staged ph fuel config pa h)))"

definition run_approval :: "('k, 'c, 'h) pairing_host \<Rightarrow> nat \<Rightarrow> 'c \<Rightarrow> PairingIdentityBody \<Rightarrow>
    'h pairingAttempt \<Rightarrow> 'h \<Rightarrow> 'h ran" where
  "run_approval ph fuel sendCipher body pa h =
     (let permissionMask = requestedPermissionMask (pib_Permissions body) in
      if permissionMask = 0
      then attempt_failed ph (ErrorText ''controller requested no supported permissions'') pa h
      else case setState ph (controller_state pairingAwaitingApproval (at_invite pa) body) pa h of
        (pa, h) \<Rightarrow>
          or_finish ph (waitDecision ph pa h) (\<lambda>approved pa h.
            if \<not> approved then
              (case setState ph (phase_state pairingRejected (inv_PairID (at_invite pa)) 0) pa h of
                 (pa, h) \<Rightarrow> ((zero_Config, False, Some PairingRejected), pa, h))
            else case beginCommit ph (controller_state pairingCommitting (at_invite pa) body) pa h of
              (False, pa, h) \<Rightarrow> attempt_failed ph PairingCancelled pa h
            | (True, pa, h) \<Rightarrow> run_committing ph fuel sendCipher body permissionMask pa h))"

text \<open>The handshake: two packets of the controller, between them the reply.\<close>

definition read_identity :: "('k, 'c, 'h) pairing_host \<Rightarrow> 'c \<Rightarrow> string \<Rightarrow> 'h pairingAttempt \<Rightarrow> 'h \<Rightarrow>
    (PairingIdentityEnvelope, 'h) attempted" where
  "read_identity ph receiveCipher packet pa h =
     (case fst (n_decrypt (ph_noise ph) receiveCipher packet) of
        Inl e \<Rightarrow> (Inl (ErrorText ''controller pairing identity authentication failed''), pa, h)
      | Inr plaintext \<Rightarrow>
          (validateControllerPairingIdentity (ph_deps ph) (net_parser (ph_net ph)) plaintext
             (inv_LinkID (at_invite pa)) (at_endpoint pa) (fst (at_noiseKeys pa)), pa, h))"

definition answer_handshake :: "('k, 'c, 'h) pairing_host \<Rightarrow> 'k \<Rightarrow> string \<Rightarrow> 'h pairingAttempt \<Rightarrow> 'h \<Rightarrow>
    (string \<times> 'c \<times> 'c, 'h) attempted" where
  "answer_handshake ph handshake packet pa h =
     (case n_read (ph_noise ph) handshake packet of
        None \<Rightarrow> (Inl (ErrorText ''controller pairing handshake failed''), pa, h)
      | Some (payload, static, k) \<Rightarrow>
          if payload \<noteq> [] then (Inl (ErrorText ''controller pairing handshake failed''), pa, h)
          else (case n_write (ph_noise ph) k of
            None \<Rightarrow> (Inl (ErrorText ''noise''), pa, h)
          | Some (reply, receiveCipher, sendCipher, k) \<Rightarrow> (Inr (reply, receiveCipher, sendCipher), pa, h)))"

definition run_handshake :: "('k, 'c, 'h) pairing_host \<Rightarrow> nat \<Rightarrow> 'k \<Rightarrow> 'h pairingAttempt \<Rightarrow> 'h \<Rightarrow> 'h ran" where
  "run_handshake ph fuel handshake pa h =
     or_finish ph (nextPairPacket ph 1 pa h) (\<lambda>packet pa h.
     or_finish ph (answer_handshake ph handshake packet pa h) (\<lambda>(reply, receiveCipher, sendCipher) pa h.
     or_finish ph (sendPairPacket ph 1 reply pa h) (\<lambda>_ pa h.
     or_finish ph (nextPairPacket ph 2 pa h) (\<lambda>packet pa h.
     or_finish ph (read_identity ph receiveCipher packet pa h) (\<lambda>controller pa h.
       run_approval ph fuel sendCipher (pie_Body controller) pa h)))))"

definition new_handshake :: "('k, 'c, 'h) pairing_host \<Rightarrow> string \<Rightarrow> 'h pairingAttempt \<Rightarrow> 'h \<Rightarrow>
    ('k, 'h) attempted" where
  "new_handshake ph peerSideID pa h =
     (let invite = at_invite pa in
      case PairingNoisePrologue (v_url (net_parser (ph_net ph))) (inv_RelayURL invite) (inv_PairID invite)
             (inv_CreatorSideID invite) peerSideID (inv_LinkID invite) (inv_ExpiresAt invite) of
        Inl e \<Rightarrow> (Inl (ProtocolError e), pa, h)
      | Inr prologue \<Rightarrow>
          (case b64_decode (inv_PSK invite) of
             None \<Rightarrow> (Inl (ErrorText ''invalid pairing PSK''), pa, h)
           | Some psk \<Rightarrow>
               if length psk \<noteq> 32 then (Inl (ErrorText ''invalid pairing PSK''), pa, h)
               else let pa = pa\<lparr>at_invite := invite\<lparr>inv_JoinToken := [], inv_PSK := []\<rparr>\<rparr> in
                 (case n_new (ph_noise ph) prologue psk of
                    None \<Rightarrow> (Inl (ErrorText ''noise''), pa, h) | Some k \<Rightarrow> (Inr k, pa, h))))"

definition run_attempt :: "('k, 'c, 'h) pairing_host \<Rightarrow> nat \<Rightarrow> 'h pairingAttempt \<Rightarrow> 'h \<Rightarrow> 'h ran" where
  "run_attempt ph fuel pa h =
     or_finish ph (waitReady ph fuel pa h) (\<lambda>peerSideID pa h.
       case setState ph (phase_state pairingHandshaking (inv_PairID (at_invite pa))
              (inv_ExpiresAt (at_invite pa))) pa h of
         (pa, h) \<Rightarrow>
           or_finish ph (new_handshake ph peerSideID pa h) (\<lambda>handshake pa h.
             run_handshake ph fuel handshake pa h))"

text \<open>The deferred part: an attempt that did not activate cancels the pair; its secrets are cleared.\<close>

definition pairing_run :: "('k, 'c, 'h) pairing_host \<Rightarrow> nat \<Rightarrow> 'h pairingAttempt \<Rightarrow> 'h \<Rightarrow> 'h ran" where
  "pairing_run ph fuel pa h =
     (case run_attempt ph fuel pa h of (r, pa, h) \<Rightarrow>
        let h = (if at_activated pa then h else cancelPair ph pa h);
            zero = (\<lambda>s. replicate (length s) (CHR 0x00)) in
        (r, pa\<lparr>at_secret := zero (at_secret pa),
               at_noiseKeys := (zero (fst (at_noiseKeys pa)), snd (at_noiseKeys pa)),
               at_invite := (at_invite pa)\<lparr>inv_JoinToken := [], inv_PSK := []\<rparr>\<rparr>,
         net_close (ph_net ph) (rp_connection (at_peer pa)) h))"

definition pairingStatus :: "string \<Rightarrow> string" where
  "pairingStatus phase =
     (if phase = pairingShowingQR then ''Waiting for iPhone or iPad to scan or paste pairing code''
      else if phase = pairingHandshaking then ''Controller found; securing pairing''
      else if phase = pairingAwaitingApproval then ''Controller is waiting for approval''
      else if phase = pairingCommitting then ''Finishing secure pairing''
      else if phase = pairingExpired then ''Pairing code expired''
      else if phase = pairingCancelled then ''Pairing cancelled''
      else if phase = pairingRejected then ''Pairing rejected''
      else ''Pairing failed'')"

definition terminalPairingPhase :: "string \<Rightarrow> bool" where
  "terminalPairingPhase phase \<longleftrightarrow>
     phase \<in> {pairingExpired, pairingCancelled, pairingRejected, pairingFailed}"

end
