(* ===== verification/PairingSafety.thy ===== *)
theory PairingSafety
  imports PairingAttempt HostContract
begin

text \<open>
  What an attempt to pair guarantees (\<^verbatim>\<open>internal/companion/pairing.go\<close>), wherever the calls of the user fall
  between the steps of the attempt: nothing is stored and no commit is sent unless the user approved this
  pair, and nothing if the user stopped it. \<open>watching\<close> adds to a host the log of what matters here.
\<close>

section \<open>The log of an attempt\<close>

datatype attempt_log = Acted ui_action | Stored Config | Dropped | Wrote json

definition watching_net :: "'h net \<Rightarrow> ('h \<times> attempt_log list) net" where
  "watching_net n =
     \<lparr>net_parser = net_parser n, net_uuid = beside (net_uuid n), net_random32 = beside (net_random32 n),
      net_keypair = beside (net_keypair n), net_dial = (\<lambda>u a. beside (net_dial n u a)),
      net_transmit = (\<lambda>c m s. beside (net_transmit n c m) (fst s, snd s @ [Wrote m])),
      net_receive = (\<lambda>c. beside (net_receive n c)), net_close = (\<lambda>c s. (net_close n c (fst s), snd s))\<rparr>"

definition watching :: "('k, 'c, 'h) pairing_host \<Rightarrow> ('k, 'c, 'h \<times> attempt_log list) pairing_host" where
  "watching ph =
     \<lparr>ph_net = watching_net (ph_net ph), ph_deps = ph_deps ph, ph_noise = ph_noise ph,
      ph_marshal = ph_marshal ph, ph_now = beside (ph_now ph), ph_deadline = beside (ph_deadline ph),
      ph_actions = (\<lambda>s. case ph_actions ph (fst s) of (actions, h) \<Rightarrow>
        (actions, h, snd s @ map Acted actions)),
      ph_select = beside (ph_select ph), ph_choose = beside (ph_choose ph)\<rparr>"

definition watching_persist :: "(Config \<Rightarrow> 'h \<Rightarrow> goerr option \<times> 'h) \<Rightarrow> Config \<Rightarrow> 'h \<times> attempt_log list \<Rightarrow>
    goerr option \<times> 'h \<times> attempt_log list" where
  "watching_persist persist config s = beside (persist config) (fst s, snd s @ [Stored config])"

definition watching_discard :: "('h \<Rightarrow> goerr option \<times> 'h) \<Rightarrow> 'h \<times> attempt_log list \<Rightarrow>
    goerr option \<times> 'h \<times> attempt_log list" where
  "watching_discard discard s = beside discard (fst s, snd s @ [Dropped])"

text \<open>What binds the companion to the controller: storing its enrollment, or committing the pair.\<close>

definition binds :: "attempt_log \<Rightarrow> bool" where
  "binds e = (case e of Stored c \<Rightarrow> True | Dropped \<Rightarrow> True
     | Wrote m \<Rightarrow> jfield ''type'' m = Some (JStr ''pair.commit'') | Acted a \<Rightarrow> False)"

text \<open>The parts of an attempt that the calls of the user and the messages of the relay leave alone.\<close>

definition settled :: "'h pairingAttempt \<Rightarrow> bool" where
  "settled pa \<longleftrightarrow> \<not> at_cancelled pa \<and>
     ps_Phase (at_state pa) \<notin> {pairingShowingQR, pairingHandshaking, pairingAwaitingApproval}"

definition open_approval :: "'h pairingAttempt \<Rightarrow> bool" where
  "open_approval pa \<longleftrightarrow> (ps_Phase (at_state pa) = pairingAwaitingApproval \<longrightarrow> \<not> at_cancelled pa)"

definition decision_ok :: "'h pairingAttempt \<Rightarrow> attempt_log list \<Rightarrow> bool" where
  "decision_ok pa t \<longleftrightarrow> (at_decision pa = Some True \<longrightarrow> Acted (Decide True (inv_PairID (at_invite pa))) \<in> set t)"

definition grows :: "'h pairingAttempt \<Rightarrow> attempt_log list \<Rightarrow> 'h pairingAttempt \<Rightarrow> attempt_log list \<Rightarrow> bool" where
  "grows pa t pa' t' \<longleftrightarrow> (\<exists>more. t' = t @ more \<and> filter binds more = []) \<and>
     inv_PairID (at_invite pa') = inv_PairID (at_invite pa) \<and>
     at_persist pa' = at_persist pa \<and> at_discard pa' = at_discard pa \<and>
     (decision_ok pa t \<longrightarrow> decision_ok pa' t')"

definition calm :: "'h pairingAttempt \<Rightarrow> attempt_log list \<Rightarrow> 'h pairingAttempt \<Rightarrow> attempt_log list \<Rightarrow> bool" where
  "calm pa t pa' t' \<longleftrightarrow> grows pa t pa' t' \<and> (settled pa \<longrightarrow> settled pa') \<and> (open_approval pa \<longrightarrow> open_approval pa')"

lemma grows_refl: "grows pa t pa t" by (simp add: grows_def)

lemma grows_trans: "grows pa t pa1 t1 \<Longrightarrow> grows pa1 t1 pa' t' \<Longrightarrow> grows pa t pa' t'"
  by (fastforce simp: grows_def)

lemma calm_refl [simp]: "calm pa t pa t" by (simp add: calm_def grows_refl)

lemma calm_trans: "calm pa t pa1 t1 \<Longrightarrow> calm pa1 t1 pa' t' \<Longrightarrow> calm pa t pa' t'"
  unfolding calm_def using grows_trans by blast

lemma not_binding [simp]: "\<not> binds (Acted a)" "ty \<noteq> ''pair.commit'' \<Longrightarrow> \<not> binds (Wrote (wireEnvelope ty i body))"
  "binds (Stored c)" "binds Dropped" "binds (Wrote (wireEnvelope ''pair.commit'' i body))"
  by (simp_all add: binds_def wireEnvelope_def jfield_def)

lemma no_actions_bind [simp]: "filter binds (map Acted actions) = []"
  by (simp add: filter_empty_conv)

lemma grows_wrote [simp]: "ty \<noteq> ''pair.commit'' \<Longrightarrow> grows pa t pa (t @ [Wrote (wireEnvelope ty i body)])"
  by (auto simp: grows_def decision_ok_def)

lemma calm_wrote [simp]: "ty \<noteq> ''pair.commit'' \<Longrightarrow> calm pa t pa (t @ [Wrote (wireEnvelope ty i body)])"
  by (simp add: calm_def)

text \<open>Fields that none of the above looks at.\<close>

lemma calm_fields [simp]:
  "calm pa t (pa'\<lparr>at_peer := p\<rparr>) t' = calm pa t pa' t'" "calm pa t (pa'\<lparr>at_pending := w\<rparr>) t' = calm pa t pa' t'"
  "calm pa t (pa'\<lparr>at_pendingBytes := n\<rparr>) t' = calm pa t pa' t'"
  "calm pa t (pa'\<lparr>at_nextIn := i\<rparr>) t' = calm pa t pa' t'"
  "calm pa t (pa'\<lparr>at_activated := b\<rparr>) t' = calm pa t pa' t'"
  by (simp_all add: calm_def grows_def settled_def open_approval_def decision_ok_def)

lemma ui_step_calm: "calm pa t (ui_step action pa) (t @ [Acted action])"
  by (auto simp: calm_def grows_def settled_def open_approval_def decision_ok_def ui_step_def decide_def
      stop_def phase_state_def phase_defs split: ui_action.split)

lemma actions_calm: "calm pa t (fold ui_step actions pa) (t @ map Acted actions)"
proof (induction actions arbitrary: pa t)
  case (Cons a as)
  from calm_trans [OF ui_step_calm Cons.IH] show ?case by fastforce
qed simp

lemma watching_sel [simp]:
  "ph_net (watching ph) = watching_net (ph_net ph)" "ph_deps (watching ph) = ph_deps ph"
  "ph_noise (watching ph) = ph_noise ph" "ph_marshal (watching ph) = ph_marshal ph"
  by (simp_all add: watching_def)

lemma watching_quiet:
  "ph_now (watching ph) s = (r, s') \<Longrightarrow> snd s' = snd s" "ph_deadline (watching ph) s = (r1, s') \<Longrightarrow> snd s' = snd s"
  "ph_select (watching ph) s = (r2, s') \<Longrightarrow> snd s' = snd s" "ph_choose (watching ph) s = (r3, s') \<Longrightarrow> snd s' = snd s"
  "net_uuid (watching_net n) s = (r4, s') \<Longrightarrow> snd s' = snd s"
  "net_receive (watching_net n) c s = (r4, s') \<Longrightarrow> snd s' = snd s"
  by (auto simp: watching_def watching_net_def beside_def split: prod.splits)

lemma watching_transmit: "net_transmit (watching_net n) c m s = (r, s') \<Longrightarrow> snd s' = snd s @ [Wrote m]"
  by (auto simp: watching_net_def beside_def split: prod.splits)

section \<open>Steps of an attempt are calm\<close>

lemma interfere_calm:
  assumes "interfere (watching ph) pa s = (pa', s')"
  shows "calm pa (snd s) pa' (snd s')"
  using assms actions_calm [of pa "snd s"]
  by (auto simp: interfere_def watching_def split: prod.splits)

lemma next_message_quiet: "next_message (watching_net n) c pending s = (r, pending', s') \<Longrightarrow> snd s' = snd s"
  by (auto simp: next_message_def split: list.splits prod.splits dest: watching_quiet(6))

lemma message_calm:
  assumes "nextPairingServerMessage (watching ph) pa s = (r, pa', s')"
  shows "calm pa (snd s) pa' (snd s')"
proof -
  obtain pa1 s1 where i: "interfere (watching ph) pa s = (pa1, s1)" by (metis surj_pair)
  note c = interfere_calm [OF i]
  show ?thesis
    using assms i c
    by (auto simp: nextPairingServerMessage_def Let_def split: prod.splits sum.splits attempt_event.splits
        dest!: watching_quiet(3) next_message_quiet)
qed

lemma waitReady_calm: "waitReady (watching ph) fuel pa s = (r, pa', s') \<Longrightarrow> calm pa (snd s) pa' (snd s')"
proof (induction fuel arbitrary: pa s)
  case (Suc fuel)
  obtain x pa1 s1 where m: "nextPairingServerMessage (watching ph) pa s = (x, pa1, s1)" by (metis surj_pair)
  note c = message_calm [OF m]
  show ?case
    using Suc.prems m c calm_trans [OF c Suc.IH]
    by (auto split: sum.splits if_splits)
qed simp

lemma await_packet_calm:
  "await_packet (watching ph) i pa s = (r, pa', s') \<Longrightarrow> calm pa (snd s) pa' (snd s')"
proof (induction "MaxRelayReorderFrames - length (at_pending pa)" arbitrary: pa s rule: less_induct)
  case less
  obtain x pa1 s1 where m: "nextPairingServerMessage (watching ph) pa s = (x, pa1, s1)" by (metis surj_pair)
  note c = message_calm [OF m]
  have more: "calm pa (snd s) pa' (snd s')"
    if b: "buffer_packet f pa1 = Some q" and "await_packet (watching ph) i q s1 = (r, pa', s')" for f q
  proof -
    have "calm pa (snd s) q (snd s1)" using b c by (auto simp: buffer_packet_def split: if_splits)
    moreover have "calm q (snd s1) pa' (snd s')"
      using less.hyps [OF buffer_shrinks [OF b message_pending [OF m]] that(2)] .
    ultimately show ?thesis by (rule calm_trans)
  qed
  show ?case
    using less.prems m c
    by (subst (asm) await_packet.simps)
      (auto split: sum.splits if_splits option.splits prod.splits dest: more)
qed

lemma nextPairPacket_calm:
  "nextPairPacket (watching ph) i pa s = (r, pa', s') \<Longrightarrow> calm pa (snd s) pa' (snd s')"
  by (auto simp: nextPairPacket_def split: if_splits option.splits dest: await_packet_calm)

lemma sendPairPacket_calm:
  "sendPairPacket (watching ph) i packet pa s = (r, pa', s') \<Longrightarrow> calm pa (snd s) pa' (snd s')"
  by (auto simp: sendPairPacket_def split: if_splits sum.splits prod.splits option.splits
      dest!: watching_quiet(5) watching_transmit)

lemma new_handshake_calm:
  "new_handshake (watching ph) peer pa s = (r, pa', s') \<Longrightarrow> calm pa (snd s) pa' (snd s')"
  by (auto simp: new_handshake_def Let_def calm_def grows_def settled_def open_approval_def decision_ok_def
      split: sum.splits option.splits if_splits)

lemma handshake_calm:
  "answer_handshake (watching ph) k packet pa s = (r, pa', s') \<Longrightarrow> calm pa (snd s) pa' (snd s')"
  "read_identity (watching ph) c packet pa s = (r', pa', s') \<Longrightarrow> calm pa (snd s) pa' (snd s')"
  by (auto simp: answer_handshake_def read_identity_def split: option.splits if_splits sum.splits)

lemma encrypted_identity_calm:
  "encrypted_identity (watching ph) c bits pa s = (r, pa', s') \<Longrightarrow> calm pa (snd s) pa' (snd s')"
  by (auto simp: encrypted_identity_def Let_def split: sum.splits prod.splits dest!: watching_quiet(5))

lemma await_commit_calm:
  "await_commit (watching ph) e i fuel pa s = (r, pa', s') \<Longrightarrow> calm pa (snd s) pa' (snd s')"
proof (induction fuel arbitrary: pa s)
  case (Suc fuel)
  obtain x pa1 s1 where m: "nextPairingServerMessage (watching ph) pa s = (x, pa1, s1)" by (metis surj_pair)
  note c = message_calm [OF m]
  show ?case
    using Suc.prems m c calm_trans [OF c Suc.IH]
    by (auto split: sum.splits bool.splits)
qed simp

section \<open>The state changes\<close>

lemma setState_grows:
  assumes "setState (watching ph) state pa s = (pa', s')"
  shows "grows pa (snd s) pa' (snd s')"
    and "ps_Phase state \<notin> {pairingShowingQR, pairingHandshaking, pairingAwaitingApproval} \<Longrightarrow>
      settled pa \<Longrightarrow> settled pa'"
  using assms interfere_calm [of ph pa s]
  by (auto simp: setState_def calm_def grows_def settled_def decision_ok_def split: prod.splits)

lemma final_phases: "phase \<in> {pairingExpired, pairingCancelled, pairingFailed, pairingRejected} \<Longrightarrow>
    phase \<notin> {pairingShowingQR, pairingHandshaking, pairingAwaitingApproval}"
  by (auto simp: phase_defs)

lemma finishWithError_grows:
  assumes "finishWithError (watching ph) e pa s = (pa', s')"
  shows "grows pa (snd s) pa' (snd s') \<and> (settled pa \<longrightarrow> settled pa')"
proof -
  obtain now s1 where now: "ph_now (watching ph) s = (now, s1)" by (metis surj_pair)
  then have s1: "snd s1 = snd s" by (rule watching_quiet)
  have finish: "grows pa (snd s) pa' (snd s') \<and> (settled pa \<longrightarrow> settled pa')"
    if "setState (watching ph) (phase_state phase (inv_PairID (at_invite pa)) 0) pa s2 = (pa', s')"
      "snd s2 = snd s" "phase \<in> {pairingExpired, pairingCancelled, pairingFailed, pairingRejected}"
    for phase s2
    using setState_grows [OF that(1)] final_phases [OF that(3)] that(2) by (auto simp: phase_state_def)
  show ?thesis
    using assms now s1
    by (auto simp: finishWithError_def Let_def split: if_splits dest!: finish)
qed

lemma ctx_err_calm:
  assumes "ctx_err (watching ph) pa s = (r, s')"
  shows "snd s' = snd s \<and> (r = None \<longrightarrow> \<not> at_cancelled pa)"
  using assms by (auto simp: ctx_err_def split: prod.splits option.splits dest: watching_quiet(2))

lemma waitDecision_calm:
  assumes "waitDecision (watching ph) pa s = (r, pa', s')"
  shows "calm pa (snd s) pa' (snd s') \<and> (r = Inr True \<longrightarrow> open_approval pa' \<and>
    (decision_ok pa (snd s) \<longrightarrow> Acted (Decide True (inv_PairID (at_invite pa'))) \<in> set (snd s')))"
proof -
  obtain pa1 s1 where i: "interfere (watching ph) pa s = (pa1, s1)" by (metis surj_pair)
  note c1 = interfere_calm [OF i]
  obtain ev s2 where ev: "ph_choose (watching ph) s1 = (ev, s2)" by (metis surj_pair)
  note s2 = watching_quiet(4) [OF ev]
  show ?thesis
  proof (cases "ev = Decision \<and> at_decision pa1 \<noteq> None")
    case False
    with assms i ev c1 s2 show ?thesis
      by (auto simp: waitDecision_def split: decision_event.splits option.splits)
  next
    case True
    then obtain approved where dec: "ev = Decision" "at_decision pa1 = Some approved" by blast
    have cleared: "calm pa (snd s) (pa1\<lparr>at_decision := None\<rparr>) (snd s2)"
      using c1 s2 by (auto simp: calm_def grows_def settled_def open_approval_def decision_ok_def)
    obtain pa2 s3 where j: "interfere (watching ph) (pa1\<lparr>at_decision := None\<rparr>) s2 = (pa2, s3)"
      by (metis surj_pair)
    note c2 = interfere_calm [OF j]
    obtain x s4 where x: "ctx_err (watching ph) pa2 s3 = (x, s4)" by (metis surj_pair)
    note s4 = ctx_err_calm [OF x]
    have "calm pa (snd s) pa2 (snd s4)" using calm_trans [OF cleared c2] s4 by simp
    moreover have "decision_ok pa (snd s) \<Longrightarrow> approved \<Longrightarrow>
        Acted (Decide True (inv_PairID (at_invite pa2))) \<in> set (snd s4)"
      using c1 c2 dec s2 s4 by (auto simp: calm_def grows_def decision_ok_def)
    ultimately show ?thesis
      using assms i ev dec j x s4 by (auto simp: waitDecision_def open_approval_def split: option.splits)
  qed
qed

lemma beginCommit_settled:
  assumes "beginCommit (watching ph) state pa s = (b, pa', s')"
  shows "grows pa (snd s) pa' (snd s')"
    and "b \<Longrightarrow> open_approval pa \<Longrightarrow> ps_Phase state = pairingCommitting \<Longrightarrow> settled pa'"
  using assms interfere_calm [of ph pa s]
  by (auto simp: beginCommit_def calm_def grows_def settled_def open_approval_def decision_ok_def phase_defs
      split: prod.splits if_splits)

section \<open>The outcome of an attempt\<close>

text \<open>
  What is stored and committed, in order, and the result with it. The pending configuration comes first; \<open>ws\<close> is
  the commit, if it was sent. Then: the save failed and nothing was sent; or the commit failed, but not by
  a rejection of the relay, and nothing is touched any more; or the relay rejected the commit, and then and only
  then the configuration is dropped (the error tells whether that succeeded); or the commit was confirmed,
  and the configuration is saved as active (the error tells again).
\<close>

definition staged_then :: "Config \<times> bool \<times> goerr option \<Rightarrow> attempt_log list \<Rightarrow> bool" where
  "staged_then res b \<longleftrightarrow>
     (\<exists>c ws. cf_ActivationPending c \<and> length ws \<le> 1 \<and> (\<forall>w \<in> set ws. \<exists>m. w = Wrote m) \<and>
        (b = [Stored c] \<and> res = (zero_Config, False, Some (ConfigPersistence [])) \<or>
         b = Stored c # ws \<and> (\<exists>e. \<not> is_commit_rejected e \<and> res = (c, True, Some e)) \<or>
         b = Stored c # ws @ [Dropped] \<and> (\<exists>e. is_commit_rejected e \<and>
           (res = (zero_Config, False, Some e) \<or> res = (c, True, Some (Joined e (ConfigPersistence []))))) \<or>
         ws \<noteq> [] \<and> b = Stored c # ws @ [Stored (c\<lparr>cf_ActivationPending := False\<rparr>)] \<and>
           (res = (c\<lparr>cf_ActivationPending := False\<rparr>, True, None) \<or>
            res = (c, True, Some (ConfigPersistence '' after relay activation'')))))"

definition outcome :: "string \<Rightarrow> Config \<times> bool \<times> goerr option \<Rightarrow> bool \<Rightarrow> attempt_log list \<Rightarrow> bool" where
  "outcome pairID res cancelled t \<longleftrightarrow>
     filter binds t = [] \<and> (\<exists>e. res = (zero_Config, False, Some e)) \<or>
     \<not> cancelled \<and> (\<exists>pre post. t = pre @ post \<and> filter binds pre = [] \<and>
        Acted (Decide True pairID) \<in> set pre \<and> (filter binds post = [] \<and> (\<exists>e. res = (zero_Config, False, Some e)) \<or> staged_then res (filter binds post)))"

text \<open>An attempt before its commit: nothing bound, and a waiting approval was given.\<close>

definition unbound :: "string \<Rightarrow> 'h pairingAttempt \<Rightarrow> attempt_log list \<Rightarrow> bool" where
  "unbound pairID pa t \<longleftrightarrow> inv_PairID (at_invite pa) = pairID \<and> decision_ok pa t \<and> filter binds t = []"

lemma unbound_grows: "unbound i pa t \<Longrightarrow> grows pa t pa' t' \<Longrightarrow> unbound i pa' t'"
  by (auto simp: unbound_def grows_def)

lemma unbound_calm: "unbound i pa t \<Longrightarrow> calm pa t pa' t' \<Longrightarrow> unbound i pa' t'"
  unfolding calm_def using unbound_grows by blast

text \<open>\<open>yields\<close> is what the rest of an attempt owes; a failure pays it.\<close>

definition yields :: "string \<Rightarrow> (('h \<times> attempt_log list) ran) \<Rightarrow> bool" where
  "yields i r = (case r of (res, pa, s) \<Rightarrow> outcome i res (at_cancelled pa) (snd s))"

lemma failed_yields: "unbound i pa (snd s) \<Longrightarrow> yields i (attempt_failed (watching ph) e pa s)"
  by (auto simp: attempt_failed_def yields_def outcome_def dest!: finishWithError_grows
      dest: unbound_grows simp: unbound_def grows_def split: prod.splits)

lemma or_finish_yields:
  assumes "unbound i pa (snd s)"
    and "\<And>r pa' s'. g = (r, pa', s') \<Longrightarrow> calm pa (snd s) pa' (snd s')"
    and "\<And>x pa' s'. g = (Inr x, pa', s') \<Longrightarrow> unbound i pa' (snd s') \<Longrightarrow> yields i (f x pa' s')"
  shows "yields i (or_finish (watching ph) g f)"
proof -
  obtain r pa' s' where g: "g = (r, pa', s')" by (metis surj_pair)
  note u = unbound_calm [OF assms(1) assms(2) [OF g]]
  show ?thesis using g u assms(3) failed_yields [OF u] by (cases r) (auto simp: or_finish_def)
qed

text \<open>The last part, after the approval.\<close>

definition approved :: "string \<Rightarrow> ('h \<times> attempt_log list) pairingAttempt \<Rightarrow> attempt_log list \<Rightarrow> bool" where
  "approved i pa t \<longleftrightarrow> unbound i pa t \<and> settled pa \<and> Acted (Decide True i) \<in> set t"

lemma approved_calm: "approved i pa t \<Longrightarrow> calm pa t pa' t' \<Longrightarrow> approved i pa' t'"
  by (auto simp: approved_def unbound_def calm_def grows_def)

lemma rejected_joined: "is_commit_rejected e \<Longrightarrow> is_commit_rejected (Joined e e')"
  by (auto simp: is_commit_rejected_def errors_Is_def)

lemma settled_finish:
  assumes "finishWithError (watching ph) e pa s = (pa', s')" and "settled pa"
  shows "\<not> at_cancelled pa' \<and> (\<exists>more. snd s' = snd s @ more \<and> filter binds more = [])"
  using finishWithError_grows [OF assms(1)] assms(2) by (auto simp: grows_def settled_def)

lemma commit_log:
  assumes "commit (watching ph) fuel body e pa s = (r, pa', s')"
  shows "\<exists>ws more. snd s' = snd s @ ws @ more \<and> filter binds more = [] \<and> calm pa (snd s @ ws) pa' (snd s') \<and>
    (ws = [] \<and> isl r \<or> (\<exists>m. ws = [Wrote m] \<and> binds (Wrote m)))"
proof -
  obtain x s1 where u: "net_uuid (watching_net (ph_net ph)) s = (x, s1)" by (metis surj_pair)
  note s1 = watching_quiet(5) [OF u]
  show ?thesis
  proof (cases x)
    case (Inl e)
    with assms u s1 have "snd s' = snd s" "pa' = pa" "isl r" by (auto simp: commit_def)
    then show ?thesis by (intro exI [of _ "[]"]) simp
  next
    case (Inr i)
    define m where "m = wireEnvelope ''pair.commit'' i body"
    obtain y s2 where w: "net_transmit (watching_net (ph_net ph)) (rp_connection (at_peer pa)) m s1 = (y, s2)"
      by (metis surj_pair)
    have s2: "snd s2 = snd s @ [Wrote m]" using watching_transmit [OF w] s1 by simp
    have "calm pa (snd s2) pa' (snd s')"
      using assms u Inr w await_commit_calm [of ph e i fuel pa s2 r pa' s']
      by (auto simp: commit_def m_def split: option.splits)
    moreover from this obtain more where "snd s' = snd s2 @ more" "filter binds more = []"
      by (auto simp: calm_def grows_def)
    ultimately have "snd s' = snd s @ [Wrote m] @ more \<and> filter binds more = [] \<and>
        calm pa (snd s @ [Wrote m]) pa' (snd s') \<and> binds (Wrote m)"
      by (simp add: s2 m_def)
    then show ?thesis by blast
  qed
qed

lemma settled_yields:
  assumes "approved i pa (snd s)" and "settled pa1" and "finishWithError (watching ph) e pa1 s1 = (pa', s')"
    and "snd s1 = snd s @ post" and "staged_then res (filter binds post)"
  shows "yields i (res, pa', s')"
proof -
  obtain more where m: "\<not> at_cancelled pa'" "snd s' = (snd s @ post) @ more" "filter binds more = []"
    using settled_finish [OF assms(3,2)] assms(4) by auto
  have "snd s' = snd s @ (post @ more)" "filter binds (post @ more) = filter binds post" using m by simp_all
  then show ?thesis
    using assms(1,5) m(1) unfolding yields_def outcome_def approved_def unbound_def by fastforce
qed

lemma persist_log: "watching_persist persist config s = (r, s') \<Longrightarrow> snd s' = snd s @ [Stored config]"
  by (auto simp: watching_persist_def beside_def split: prod.splits)

lemma discard_log: "watching_discard discard s = (r, s') \<Longrightarrow> snd s' = snd s @ [Dropped]"
  by (auto simp: watching_discard_def beside_def split: prod.splits)

lemma run_staged_yields:
  assumes appr: "approved i pa (snd s)" and persist: "at_persist pa = watching_persist persist"
    and discard: "at_discard pa = watching_discard discard" and pending: "cf_ActivationPending config"
    and s1: "snd s1 = snd s @ [Stored config]"
  shows "yields i (run_staged (watching ph) fuel config pa s1)"
proof -
  obtain r pa2 s2 where c: "commit (watching ph) fuel
      (commitBody (inv_PairID (at_invite pa)) (inv_CreatorSideID (at_invite pa))
        (inv_LinkID (at_invite pa)) (at_endpoint pa) Companion
        (b64_encode (k_sha256 (ph_deps ph) (at_secret pa))) (cf_ControllerEndpointID config) Controller)
      (cf_ControllerEndpointID config) pa s1 = (r, pa2, s2)" by (metis surj_pair)
  from commit_log [OF c] obtain ws more where l: "snd s2 = snd s1 @ ws @ more \<and> filter binds more = [] \<and>
      calm pa (snd s1 @ ws) pa2 (snd s2) \<and> (ws = [] \<and> isl r \<or> (\<exists>m. ws = [Wrote m] \<and> binds (Wrote m)))"
    by blast
  then have log: "snd s2 = snd s @ ([Stored config] @ ws @ more)" "filter binds more = []"
    and calm: "calm pa (snd s1 @ ws) pa2 (snd s2)"
    and ws: "ws = [] \<and> isl r \<or> (\<exists>m. ws = [Wrote m] \<and> binds (Wrote m))"
    using s1 by auto
  have st: "settled pa2" and cb: "at_persist pa2 = watching_persist persist" "at_discard pa2 = watching_discard discard"
    using calm appr persist discard by (auto simp: calm_def grows_def approved_def)
  have bound: "filter binds ws = ws" using ws by auto
  show ?thesis
  proof (cases r)
    case (Inl e)
    obtain res3 s3 where d: "resolveCommitFailure config e pa2 s2 = (res3, s3)" by (metis surj_pair)
    obtain config3 staged3 e3 where res3: "res3 = (config3, staged3, e3)" by (metis surj_pair)
    obtain pa4 s4 where f: "finishWithError (watching ph) e3 pa2 s3 = (pa4, s4)" by (metis surj_pair)
    have "\<exists>post. snd s3 = snd s @ post \<and> staged_then (config3, staged3, Some e3) (filter binds post)"
    proof (cases "is_commit_rejected e")
      case False
      with d res3 have "s3 = s2" "config3 = config" "staged3" "e3 = e" by (auto simp: resolveCommitFailure_def)
      moreover have "staged_then (config, True, Some e) (filter binds ([Stored config] @ ws @ more))"
        unfolding staged_then_def
        by (rule exI [of _ config], rule exI [of _ ws]) (use False ws pending bound log(2) in auto)
      ultimately show ?thesis using log(1) by auto
    next
      case True
      obtain x s5 where x: "watching_discard discard s2 = (x, s5)" by (metis surj_pair)
      have s3: "snd s3 = snd s @ ([Stored config] @ ws @ more @ [Dropped])"
        and e3: "(config3, staged3, e3) \<in> {(zero_Config, False, e), (config, True, Joined e (ConfigPersistence []))}"
        using d res3 True cb x discard_log [OF x] log rejected_joined
        by (auto simp: resolveCommitFailure_def split: option.splits)
      have "staged_then (config3, staged3, Some e3) (filter binds ([Stored config] @ ws @ more @ [Dropped]))"
        unfolding staged_then_def
        by (rule exI [of _ config], rule exI [of _ ws]) (use True ws pending bound log(2) e3 in auto)
      with s3 show ?thesis by blast
    qed
    then obtain post where "snd s3 = snd s @ post" "staged_then (config3, staged3, Some e3) (filter binds post)"
      by blast
    from settled_yields [OF appr st f this] show ?thesis
      using c Inl d res3 f by (simp add: run_staged_def)
  next
    case (Inr u)
    define config' where "config' = config\<lparr>cf_ActivationPending := False\<rparr>"
    define pa3 where "pa3 = pa2\<lparr>at_activated := True\<rparr>"
    obtain x s3 where x: "watching_persist persist config' s2 = (x, s3)" by (metis surj_pair)
    define post where "post = [Stored config] @ ws @ more @ [Stored config']"
    have s3: "snd s3 = snd s @ post" using persist_log [OF x] log by (simp add: post_def)
    have bp: "filter binds post = Stored config # ws @ [Stored config']"
      using bound log(2) by (simp add: post_def)
    have st3: "settled pa3" using st by (simp add: pa3_def settled_def)
    have run: "run_staged (watching ph) fuel config pa s1 = (case x of
        Some _ \<Rightarrow> (case finishWithError (watching ph) (ConfigPersistence '' after relay activation'') pa3 s3 of
          (pa, h) \<Rightarrow> ((config, True, Some (ConfigPersistence '' after relay activation'')), pa, h))
      | None \<Rightarrow> ((config', True, None), pa3, s3))"
      using c Inr cb x by (simp add: run_staged_def Let_def pa3_def config'_def split: option.splits)
    show ?thesis
    proof (cases x)
      case None
      have "staged_then (config', True, None) (filter binds post)"
        unfolding staged_then_def bp
        by (rule exI [of _ config], rule exI [of _ ws])
          (use ws pending Inr in \<open>auto simp: config'_def\<close>)
      with appr s3 st3 None show ?thesis
        unfolding run yields_def outcome_def approved_def unbound_def settled_def by fastforce
    next
      case (Some e)
      obtain pa4 s4 where f: "finishWithError (watching ph) (ConfigPersistence '' after relay activation'') pa3 s3 = (pa4, s4)"
        by (metis surj_pair)
      have "staged_then (config, True, Some (ConfigPersistence '' after relay activation'')) (filter binds post)"
        unfolding staged_then_def bp
        by (rule exI [of _ config], rule exI [of _ ws])
          (use ws pending Inr in \<open>auto simp: config'_def\<close>)
      from settled_yields [OF appr st3 f s3 this] show ?thesis by (simp add: run Some f)
    qed
  qed
qed


lemma run_committing_yields:
  assumes "approved i pa (snd s)" and "at_persist pa = watching_persist persist"
    and "at_discard pa = watching_discard discard"
  shows "yields i (run_committing (watching ph) fuel c body bits pa s)"
proof -
  have store: "yields i (case at_persist pa2 (staged_config pa2 body bits) s2 of
      (Some e, h) \<Rightarrow> attempt_failed (watching ph) (ConfigPersistence []) pa2 h
    | (None, h) \<Rightarrow> run_staged (watching ph) fuel (staged_config pa2 body bits) pa2 h)"
    if appr: "approved i pa2 (snd s2)" and cb: "at_persist pa2 = watching_persist persist"
      "at_discard pa2 = watching_discard discard" for pa2 s2
  proof -
    obtain x s3 where x: "watching_persist persist (staged_config pa2 body bits) s2 = (x, s3)"
      by (metis surj_pair)
    note s3 = persist_log [OF x]
    show ?thesis
    proof (cases x)
      case None
      with run_staged_yields [OF appr cb _ s3] x cb show ?thesis by (simp add: staged_config_def)
    next
      case (Some e)
      obtain pa4 s4 where f: "finishWithError (watching ph) (ConfigPersistence []) pa2 s3 = (pa4, s4)"
        by (metis surj_pair)
      have "staged_then (zero_Config, False, Some (ConfigPersistence [])) (filter binds [Stored (staged_config pa2 body bits)])"
        unfolding staged_then_def
        by (rule exI [of _ "staged_config pa2 body bits"], rule exI [of _ "[]"]) (simp add: staged_config_def)
      from settled_yields [OF appr _ f s3 this] appr x cb Some f show ?thesis
        by (simp add: attempt_failed_def approved_def)
    qed
  qed
  have keep: "approved i pa2 (snd s2) \<and> at_persist pa2 = watching_persist persist \<and>
      at_discard pa2 = watching_discard discard"
    if "calm pa1 (snd s1) pa2 (snd s2)" "approved i pa1 (snd s1)" "at_persist pa1 = watching_persist persist"
      "at_discard pa1 = watching_discard discard" for pa1 s1 pa2 s2
    using that approved_calm [OF that(2,1)] by (simp add: calm_def grows_def)
  have u: "unbound i pa (snd s)" using assms(1) by (simp add: approved_def)
  show ?thesis
    unfolding run_committing_def Let_def
  proof (rule or_finish_yields [OF u encrypted_identity_calm], assumption)
    fix encrypted pa1 s1
    assume g: "encrypted_identity (watching ph) c bits pa s = (Inr encrypted, pa1, s1)" and u1: "unbound i pa1 (snd s1)"
    note k1 = keep [OF encrypted_identity_calm [OF g] assms]
    show "yields i (or_finish (watching ph) (sendPairPacket (watching ph) 2 encrypted pa1 s1) (\<lambda>_ pa h.
        case at_persist pa (staged_config pa body bits) h of
          (None, h) \<Rightarrow> run_staged (watching ph) fuel (staged_config pa body bits) pa h
        | (Some e, h) \<Rightarrow> attempt_failed (watching ph) (ConfigPersistence []) pa h))"
    proof (rule or_finish_yields [OF u1 sendPairPacket_calm], assumption)
      fix x pa2 s2
      assume "sendPairPacket (watching ph) 2 encrypted pa1 s1 = (Inr x, pa2, s2)"
      from keep [OF sendPairPacket_calm [OF this]] k1 store [of pa2 s2]
      show "yields i (case at_persist pa2 (staged_config pa2 body bits) s2 of
          (None, h) \<Rightarrow> run_staged (watching ph) fuel (staged_config pa2 body bits) pa2 h
        | (Some e, h) \<Rightarrow> attempt_failed (watching ph) (ConfigPersistence []) pa2 h)"
        by (simp add: option.case_distrib prod.case_distrib cong: option.case_cong)
    qed
  qed
qed

lemma run_approval_yields:
  assumes "unbound i pa (snd s)" and "at_persist pa = watching_persist persist"
    and "at_discard pa = watching_discard discard"
  shows "yields i (run_approval (watching ph) fuel c body pa s)"
proof (cases "requestedPermissionMask (pib_Permissions body) = 0")
  case True
  with failed_yields [OF assms(1)] show ?thesis by (simp add: run_approval_def)
next
  case False
  obtain pa1 s1 where a: "setState (watching ph) (controller_state pairingAwaitingApproval (at_invite pa) body) pa s = (pa1, s1)"
    by (metis surj_pair)
  note g1 = setState_grows(1) [OF a]
  note u1 = unbound_grows [OF assms(1) g1]
  have cb1: "at_persist pa1 = watching_persist persist" "at_discard pa1 = watching_discard discard"
    using g1 assms by (simp_all add: grows_def)
  have run: "run_approval (watching ph) fuel c body pa s =
      or_finish (watching ph) (waitDecision (watching ph) pa1 s1) (\<lambda>ok pa h.
        if \<not> ok then
          (case setState (watching ph) (phase_state pairingRejected (inv_PairID (at_invite pa)) 0) pa h of
             (pa, h) \<Rightarrow> ((zero_Config, False, Some PairingRejected), pa, h))
        else case beginCommit (watching ph) (controller_state pairingCommitting (at_invite pa) body) pa h of
          (True, pa, h) \<Rightarrow> run_committing (watching ph) fuel c body (requestedPermissionMask (pib_Permissions body)) pa h
        | (False, pa, h) \<Rightarrow> attempt_failed (watching ph) PairingCancelled pa h)"
    using False a by (simp add: run_approval_def)
  show ?thesis
    unfolding run
  proof (rule or_finish_yields [OF u1 conjunct1 [OF waitDecision_calm]], assumption)
    fix ok pa2 s2
    assume w: "waitDecision (watching ph) pa1 s1 = (Inr ok, pa2, s2)" and u2: "unbound i pa2 (snd s2)"
    note d = waitDecision_calm [OF w]
    have cb2: "at_persist pa2 = watching_persist persist" "at_discard pa2 = watching_discard discard"
      using d cb1 by (simp_all add: calm_def grows_def)
    obtain pa3 s3 where r: "setState (watching ph) (phase_state pairingRejected (inv_PairID (at_invite pa2)) 0) pa2 s2 = (pa3, s3)"
      by (metis surj_pair)
    obtain b pa4 s4 where bc: "beginCommit (watching ph) (controller_state pairingCommitting (at_invite pa2) body) pa2 s2 = (b, pa4, s4)"
      by (metis surj_pair)
    note g4 = beginCommit_settled(1) [OF bc]
    note u4 = unbound_grows [OF u2 g4]
    have rejected: "yields i ((zero_Config, False, Some PairingRejected), pa3, s3)"
      using unbound_grows [OF u2 setState_grows(1) [OF r]] by (simp add: yields_def outcome_def unbound_def)
    have committed: "yields i (run_committing (watching ph) fuel c body (requestedPermissionMask (pib_Permissions body)) pa4 s4)"
      if "ok" "b"
    proof (rule run_committing_yields)
      have "settled pa4" using beginCommit_settled(2) [OF bc that(2)] d that(1) by (simp add: controller_state_def)
      moreover have "Acted (Decide True i) \<in> set (snd s4)"
        using d u1 u2 that(1) g4 by (auto simp: unbound_def grows_def)
      ultimately show "approved i pa4 (snd s4)" using u4 by (simp add: approved_def)
    qed (use g4 cb2 in \<open>simp_all add: grows_def\<close>)
    show "yields i (if \<not> ok then
         (case setState (watching ph) (phase_state pairingRejected (inv_PairID (at_invite pa2)) 0) pa2 s2 of
            (pa, h) \<Rightarrow> ((zero_Config, False, Some PairingRejected), pa, h))
       else case beginCommit (watching ph) (controller_state pairingCommitting (at_invite pa2) body) pa2 s2 of
         (True, pa, h) \<Rightarrow> run_committing (watching ph) fuel c body (requestedPermissionMask (pib_Permissions body)) pa h
       | (False, pa, h) \<Rightarrow> attempt_failed (watching ph) PairingCancelled pa h)"
      using r bc rejected committed failed_yields [OF u4] by (auto split: bool.splits)
  qed
qed

text \<open>An attempt whose callbacks are watched, before the approval.\<close>

definition awaiting :: "string \<Rightarrow> (Config \<Rightarrow> 'h \<Rightarrow> goerr option \<times> 'h) \<Rightarrow> ('h \<Rightarrow> goerr option \<times> 'h) \<Rightarrow>
    ('h \<times> attempt_log list) pairingAttempt \<Rightarrow> 'h \<times> attempt_log list \<Rightarrow> bool" where
  "awaiting i persist discard pa s \<longleftrightarrow> unbound i pa (snd s) \<and> at_persist pa = watching_persist persist \<and>
     at_discard pa = watching_discard discard"

lemma awaiting_grows: "awaiting i p d pa s \<Longrightarrow> grows pa (snd s) pa' (snd s') \<Longrightarrow> awaiting i p d pa' s'"
  using unbound_grows [of i pa "snd s" pa' "snd s'"] by (auto simp: awaiting_def grows_def)

lemma or_finish_awaiting:
  assumes "awaiting i p d pa s"
    and "\<And>r pa' s'. g = (r, pa', s') \<Longrightarrow> calm pa (snd s) pa' (snd s')"
    and "\<And>x pa' s'. awaiting i p d pa' s' \<Longrightarrow> yields i (f x pa' s')"
  shows "yields i (or_finish (watching ph) g f)"
proof (rule or_finish_yields)
  show "unbound i pa (snd s)" using assms(1) by (simp add: awaiting_def)
  show "calm pa (snd s) pa' (snd s')" if "g = (r, pa', s')" for r pa' s' using assms(2) [OF that] .
  show "yields i (f x pa' s')" if "g = (Inr x, pa', s')" for x pa' s'
    using assms(3) awaiting_grows [OF assms(1)] assms(2) [OF that] unfolding calm_def by blast
qed

lemma run_handshake_yields:
  assumes "awaiting i p d pa s"
  shows "yields i (run_handshake (watching ph) fuel k pa s)"
  unfolding run_handshake_def
  by (rule or_finish_awaiting [OF assms nextPairPacket_calm], assumption,
      erule or_finish_awaiting [OF _ handshake_calm(1)], assumption, clarify,
      erule or_finish_awaiting [OF _ sendPairPacket_calm], assumption,
      erule or_finish_awaiting [OF _ nextPairPacket_calm], assumption,
      erule or_finish_awaiting [OF _ handshake_calm(2)], assumption)
    (auto simp: awaiting_def intro: run_approval_yields)

lemma run_attempt_yields:
  assumes "awaiting i p d pa s"
  shows "yields i (run_attempt (watching ph) fuel pa s)"
  unfolding run_attempt_def
proof (rule or_finish_awaiting [OF assms waitReady_calm], assumption)
  fix x pa1 and s1 :: "'a \<times> attempt_log list"
  assume a: "awaiting i p d pa1 s1"
  obtain pa2 s2 where st: "setState (watching ph) (phase_state pairingHandshaking (inv_PairID (at_invite pa1))
      (inv_ExpiresAt (at_invite pa1))) pa1 s1 = (pa2, s2)" by (metis surj_pair)
  have "yields i (or_finish (watching ph) (new_handshake (watching ph) x pa2 s2)
      (\<lambda>handshake pa h. run_handshake (watching ph) fuel handshake pa h))"
    by (rule or_finish_awaiting [OF awaiting_grows [OF a setState_grows(1) [OF st]] new_handshake_calm], assumption)
      (rule run_handshake_yields)
  then show "yields i (case setState (watching ph) (phase_state pairingHandshaking (inv_PairID (at_invite pa1))
      (inv_ExpiresAt (at_invite pa1))) pa1 s1 of (pa, h) \<Rightarrow>
      or_finish (watching ph) (new_handshake (watching ph) x pa h)
        (\<lambda>handshake pa h. run_handshake (watching ph) fuel handshake pa h))"
    by (simp add: st)
qed

lemma outcome_more: "outcome i res b t \<Longrightarrow> filter binds us = [] \<Longrightarrow> outcome i res b (t @ us)"
  unfolding outcome_def by (metis append.assoc append.right_neutral filter_append)

lemma pairing_run_yields:
  assumes "awaiting i p d pa s"
  shows "yields i (pairing_run (watching ph) fuel pa s)"
proof -
  obtain res pa1 s1 where r: "run_attempt (watching ph) fuel pa s = (res, pa1, s1)" by (metis surj_pair)
  have o: "outcome i res (at_cancelled pa1) (snd s1)"
    using run_attempt_yields [OF assms, of ph fuel] r by (simp add: yields_def)
  have "\<exists>more. snd (cancelPair (watching ph) pa1 s1) = snd s1 @ more \<and> filter binds more = []"
    by (auto simp: cancelPair_def split: sum.splits prod.splits dest!: watching_quiet(5)
        simp: watching_transmit [OF prod.collapse [symmetric]])
  then obtain more where more: "snd (if at_activated pa1 then s1 else cancelPair (watching ph) pa1 s1) =
      snd s1 @ more" "filter binds more = []" by (cases "at_activated pa1") auto
  with outcome_more [OF o] show ?thesis
    by (simp add: pairing_run_def r Let_def yields_def watching_net_def)
qed

section \<open>Approval before anything binds\<close>

text \<open>C25: an attempt, however the user's calls interleave with it and whatever the relay and the controller
  send, stores no enrollment and sends no commit before the user has approved exactly this pair; and if it
  ever does, the user has not stopped the attempt, neither before nor after.\<close>

theorem approved_before_binding:
  "case pairing_run (watching ph) fuel (fresh_attempt peer invite label (watching_persist persist)
      (watching_discard discard) endpointID secret noiseKeys) (h, []) of
     (res, attempt, (h', trail)) \<Rightarrow>
       filter binds trail = [] \<or>
       (at_cancelled attempt = False \<and> (\<exists>before after. trail = before @ after \<and> filter binds before = [] \<and>
          Acted (Decide True (inv_PairID invite)) \<in> set before))"
proof -
  have "awaiting (inv_PairID invite) persist discard (fresh_attempt peer invite label (watching_persist persist)
      (watching_discard discard) endpointID secret noiseKeys) (h, [])"
    by (simp add: awaiting_def unbound_def fresh_attempt_def decision_ok_def)
  from pairing_run_yields [OF this, of ph fuel] show ?thesis
    unfolding yields_def outcome_def by (fastforce split: prod.splits)
qed


end
