(* ===== verification/WebApp.thy ===== *)
theory WebApp
  imports PairingAttempt ConfigStorage HostContract
begin

text \<open>
  The companion's local web interface (\<^verbatim>\<open>internal/companion/web.go\<close>): the guards of the HTTP server, the
  bootstrap of the UI token, and the handlers that enroll, pair, reset and forget a controller. A handler
  that changes the enrollment holds \<^verbatim>\<open>enrollMu\<close> from start to end, so it is one step; the statuses of a relay
  connection and the end of a pairing attempt are steps of their own. A relay context is a number, live
  while the app holds its cancel function. The UI's page, the response headers and the parsing of the
  request line are left to the HTTP library.
\<close>

section \<open>The application\<close>

record 'h App =
  ap_relayURL :: string
  ap_config :: "Config option"
  ap_pairing :: "'h pairingAttempt option"
  ap_done :: bool
  ap_status :: RelayStatus
  ap_cancel :: "nat option"
  ap_next :: nat
  ap_relays :: "(nat \<times> Config) list"
  ap_uiToken :: string
  ap_bootstrapToken :: string

text \<open>
  \<open>wh_hostIP\<close> is \<^verbatim>\<open>net.SplitHostPort\<close>, \<^verbatim>\<open>net.ParseIP\<close> and \<^verbatim>\<open>IsLoopback\<close> together: whether the address of a host is
  a loopback one, if it is an address. \<open>wh_mediaType\<close> is \<^verbatim>\<open>mime.ParseMediaType\<close>; \<open>wh_fuel\<close> bounds the messages
  that a pairing attempt may wait for, and the draws of its key.
\<close>

record ('k, 'c, 'h) web_host =
  wh_pairing :: "('k, 'c, 'h) pairing_host"
  wh_store :: "'h ConfigStore"
  wh_hostIP :: "string \<Rightarrow> bool option"
  wh_mediaType :: "string \<Rightarrow> string option"
  wh_hostname :: "string option"
  wh_execute :: "string \<Rightarrow> 'h \<Rightarrow> (goerr + json) \<times> 'h"
  wh_fuel :: nat
  wh_ui :: string

abbreviation wh_net :: "('k, 'c, 'h) web_host \<Rightarrow> 'h net" where
  "wh_net wh \<equiv> ph_net (wh_pairing wh)"

abbreviation wh_deps :: "('k, 'c, 'h) web_host \<Rightarrow> cdeps" where
  "wh_deps wh \<equiv> ph_deps (wh_pairing wh)"

definition startRelay :: "Config \<Rightarrow> 'h App \<Rightarrow> 'h App" where
  "startRelay config app = app\<lparr>ap_cancel := Some (ap_next app), ap_next := Suc (ap_next app),
     ap_relays := (ap_next app, config) # ap_relays app,
     ap_status := message_status (''Connecting to relay'' @ ellipsis)\<rparr>"

definition set_status :: "string \<Rightarrow> 'h App \<Rightarrow> 'h App" where
  "set_status m app = app\<lparr>ap_status := message_status m\<rparr>"

definition stop_relay :: "'h App \<Rightarrow> 'h App" where
  "stop_relay app = app\<lparr>ap_cancel := None\<rparr>"

text \<open>The tokens are 32 random bytes each.\<close>

definition NewAppWithStore :: "('k, 'c, 'h) web_host \<Rightarrow> string \<Rightarrow> 'h \<Rightarrow> (goerr + 'h App) \<times> 'h" where
  "NewAppWithStore wh relay h =
     (case relayURL (wh_deps wh) relay of
        Inl e \<Rightarrow> (Inl e, h)
      | Inr u \<Rightarrow>
          bind_step (net_random32 (wh_net wh) h) (\<lambda>token h.
          bind_step (net_random32 (wh_net wh) h) (\<lambda>bootstrap h.
            let app = \<lparr>ap_relayURL = relay, ap_config = None, ap_pairing = None, ap_done = False,
              ap_status = message_status ''Not enrolled'', ap_cancel = None, ap_next = 0, ap_relays = [],
              ap_uiToken = b64_encode token, ap_bootstrapToken = b64_encode bootstrap\<rparr> in
            (case cs_Load (wh_store wh) h of
               (Inl e, h) \<Rightarrow> if is_NotExist e then (Inr app, h) else (Inl e, h)
             | (Inr config, h) \<Rightarrow>
                 (case Config_validate (wh_deps wh) config of
                    Some e \<Rightarrow> (Inl e, h)
                  | None \<Rightarrow>
                      let app = app\<lparr>ap_config := Some config, ap_relayURL := cf_RelayURL config\<rparr> in
                      (Inr (if cf_LinkRevoked config
                        then set_status ''Link revoked; reset to remove local credentials'' app
                        else startRelay config app), h))))))"

definition NewNativeApp :: "('k, 'c, 'h) web_host \<Rightarrow> 'h ConfigStore \<Rightarrow> string \<Rightarrow> 'h \<Rightarrow> (goerr + 'h App) \<times> 'h" where
  "NewNativeApp wh legacy relay h =
     (case relayURL (wh_deps wh) relay of
        Inl e \<Rightarrow> (Inl e, h)
      | Inr u \<Rightarrow>
          (case MigrateConfigStore (wh_deps wh) (Some legacy) (Some (wh_store wh)) h of
             (Some e, h) \<Rightarrow> (Inl e, h)
           | (None, h) \<Rightarrow> NewAppWithStore wh relay h))"

definition NativeLaunchURL :: "'h App \<Rightarrow> string \<Rightarrow> string" where
  "NativeLaunchURL app base = base @ ''?token='' @ ap_uiToken app"

definition BrowserLaunchURL :: "'h App \<Rightarrow> string \<Rightarrow> string" where
  "BrowserLaunchURL app base = base @ ''/?bootstrap='' @ ap_bootstrapToken app"

definition Close :: "'h App \<Rightarrow> 'h App" where
  "Close app = app\<lparr>ap_cancel := None,
     ap_pairing := map_option (\<lambda>pa. pa\<lparr>at_cancelled := True\<rparr>) (ap_pairing app)\<rparr>"

text \<open>A status of the relay with the number \<open>i\<close>, which runs for \<open>config\<close>.\<close>

definition applyRelayStatus :: "('k, 'c, 'h) web_host \<Rightarrow> nat \<Rightarrow> Config \<Rightarrow> RelayStatus \<Rightarrow> 'h App \<Rightarrow> 'h \<Rightarrow>
    'h App \<times> 'h" where
  "applyRelayStatus wh i config status app h =
     (if ap_cancel app \<noteq> Some i then (app, h)
      else case ap_config app of
        None \<Rightarrow> (app, h)
      | Some current \<Rightarrow>
          if cf_EndpointID current \<noteq> cf_EndpointID config then (app, h)
          else if rs_Connected status \<and> cf_ActivationPending current then
            let activated = current\<lparr>cf_ActivationPending := False\<rparr> in
            (case cs_Save (wh_store wh) activated h of
               (None, h) \<Rightarrow> (app\<lparr>ap_config := Some activated, ap_status := status\<rparr>, h)
             | (Some e, h) \<Rightarrow> (app\<lparr>ap_status := status\<rparr>, h))
          else (app\<lparr>ap_status := status\<rparr>, h))"

record AppState =
  as_Configured :: bool
  as_RelayURL :: string
  as_EndpointID :: string
  as_LinkID :: string
  as_ControllerLabel :: string
  as_Connected :: bool
  as_Secure :: bool
  as_Status :: string
  as_Pairing :: "PairingState option"
  as_EnrollmentResponse :: "EnrollmentResponse option"

definition app_state :: "cdeps \<Rightarrow> 'h App \<Rightarrow> AppState" where
  "app_state d app =
     (let secure = rs_Secure (ap_status app);
          state = \<lparr>as_Configured = ap_config app \<noteq> None, as_RelayURL = ap_relayURL app,
            as_EndpointID = '''', as_LinkID = '''', as_ControllerLabel = '''',
            as_Connected = rs_Connected (ap_status app), as_Secure = secure,
            as_Status = rs_Message (ap_status app), as_Pairing = map_option snapshot (ap_pairing app),
            as_EnrollmentResponse = None\<rparr> in
      case ap_config app of
        None \<Rightarrow> state
      | Some config \<Rightarrow> state\<lparr>as_EndpointID := cf_EndpointID config, as_LinkID := cf_LinkID config,
          as_ControllerLabel := displayDeviceLabel (cf_ControllerLabel config),
          as_EnrollmentResponse :=
            (if cf_ControllerFingerprint config = '''' \<and> \<not> secure
             then (case manualEnrollmentResponse d config of Inl e \<Rightarrow> None | Inr r \<Rightarrow> Some r)
             else None)\<rparr>)"

section \<open>Requests and replies\<close>

record web_request =
  wr_Host :: string
  wr_Path :: string
  wr_Method :: string
  wr_Token :: string
  wr_Origin :: string
  wr_ContentType :: string
  wr_RawQuery :: string
  wr_Query :: "(string \<times> string list) list"
  wr_Body :: string

datatype reply =
    Failure int string
  | Refused int
  | Result int json
  | CurrentState AppState
  | Enrolled int EnrollmentResponse
  | Invitation PairingInvite
  | TokenPage string
  | Page string

type_synonym 'h handled_request = "reply \<times> 'h App \<times> 'h"

text \<open>The message of an error.\<close>

fun error_text :: "goerr \<Rightarrow> string" where
  "error_text (ErrorText t) = t"
| "error_text (OperationError code) = code"
| "error_text (RelayUpgradeError n) = ''relay WebSocket upgrade failed with status '' @ itoa n"
| "error_text (RelayResponseError t c r a) = ''relay rejected '' @ t @ '': '' @ code_string c"
| "error_text (EnrollmentTerminal t) = ''enrollment is no longer authorized: '' @ t"
| "error_text (ConfigPersistence t) = ''could not persist companion credentials'' @ t"
| "error_text (PairingCommitRejected t) = ''relay rejected the pairing commit: '' @ t"
| "error_text PairingCancelled = ''QR pairing was cancelled''"
| "error_text PairingRejected = ''QR pairing was rejected''"
| "error_text ContextCanceled = ''context canceled''"
| "error_text DeadlineExceeded = ''context deadline exceeded''"
| "error_text NotExist = ''file does not exist''"
| "error_text ConfigStoreMismatch = ''stored companion configurations do not match''"
| "error_text KeychainUnavailable = ''macOS Keychain requires darwin with cgo enabled''"
| "error_text (ProtocolError e) = ve_Message e"
| "error_text (Wrapped t e) = t @ '': '' @ error_text e"
| "error_text (Joined a b) = error_text a @ [CHR 0x0A] @ error_text b"

text \<open>A body is at most 1024 bytes and exactly one JSON document without unknown fields.\<close>

definition decodeJSONBody :: "cdeps \<Rightarrow> string list \<Rightarrow> string \<Rightarrow> json option" where
  "decodeJSONBody d names body = (if length body > 1024 then None else strict_object names (k_json d body))"

text \<open>A body that must be the empty object; \<^verbatim>\<open>null\<close> is not.\<close>

definition empty_body :: "cdeps \<Rightarrow> string \<Rightarrow> bool" where
  "empty_body d body \<longleftrightarrow> length body \<le> 1024 \<and> k_json d body = Some (JObj [])"

definition body_field :: "cdeps \<Rightarrow> string \<Rightarrow> string \<Rightarrow> string option" where
  "body_field d name body = Option.bind (decodeJSONBody d [name] body) (jstr name)"

section \<open>Access\<close>

definition validUIToken :: "cdeps \<Rightarrow> 'h App \<Rightarrow> string \<Rightarrow> bool" where
  "validUIToken d app token \<longleftrightarrow> ap_uiToken app \<noteq> '''' \<and> k_sha256 d (ap_uiToken app) = k_sha256 d token"

definition consumeBootstrap :: "cdeps \<Rightarrow> string \<Rightarrow> 'h App \<Rightarrow> bool \<times> 'h App" where
  "consumeBootstrap d token app =
     (if ap_bootstrapToken app = '''' then (False, app)
      else if k_sha256 d (ap_bootstrapToken app) \<noteq> k_sha256 d token then (False, app)
      else (True, app\<lparr>ap_bootstrapToken := ''''\<rparr>))"

definition handleIndex :: "('k, 'c, 'h) web_host \<Rightarrow> web_request \<Rightarrow> 'h App \<Rightarrow> 'h \<Rightarrow> 'h handled_request" where
  "handleIndex wh req app h =
     (if wr_RawQuery req = '''' then (Page (wh_ui wh), app, h)
      else case wr_Query req of
        [(k, [token])] \<Rightarrow>
          if k \<noteq> ''bootstrap'' then (Refused 403, app, h)
          else (case consumeBootstrap (wh_deps wh) token app of
            (True, app) \<Rightarrow> (TokenPage (ap_uiToken app), app, h) | (False, app) \<Rightarrow> (Refused 403, app, h))
      | _ \<Rightarrow> (Refused 403, app, h))"

section \<open>Handlers\<close>

definition handleState :: "('k, 'c, 'h) web_host \<Rightarrow> 'h App \<Rightarrow> 'h \<Rightarrow> 'h handled_request" where
  "handleState wh app h = (CurrentState (app_state (wh_deps wh) app), app, h)"

definition handleRelayWake :: "('k, 'c, 'h) web_host \<Rightarrow> string \<Rightarrow> 'h App \<Rightarrow> 'h \<Rightarrow> 'h handled_request" where
  "handleRelayWake wh body app h =
     (if \<not> empty_body (wh_deps wh) body then (Failure 400 ''invalid relay wake request'', app, h)
      else case ap_config app of
        None \<Rightarrow> (Failure 409 ''no active controller enrollment'', app, h)
      | Some config \<Rightarrow>
          if cf_LinkRevoked config then (Failure 409 ''no active controller enrollment'', app, h)
          else (Result 200 (JObj [(''woken'', JBool True)]), startRelay config app, h))"

text \<open>An attempt that has not ended, or whose phase is not a last one, is in the way of another one.\<close>

definition pairing_active :: "'h App \<Rightarrow> bool" where
  "pairing_active app \<longleftrightarrow> (case ap_pairing app of None \<Rightarrow> False
     | Some pa \<Rightarrow> \<not> ap_done app \<or> \<not> terminalPairingPhase (ps_Phase (snapshot pa)))"

definition handlePairingStart :: "('k, 'c, 'h) web_host \<Rightarrow> string \<Rightarrow> 'h App \<Rightarrow> 'h \<Rightarrow> 'h handled_request option" where
  "handlePairingStart wh body app h =
     (if \<not> empty_body (wh_deps wh) body then Some (Failure 400 ''invalid pairing start request'', app, h)
      else if ap_config app \<noteq> None then Some (Failure 409 ''reset the current enrollment first'', app, h)
      else if pairing_active app then Some (Failure 409 ''a pairing attempt is already active'', app, h)
      else map_option (\<lambda>r. case r of
          (Inl e, h) \<Rightarrow> (Failure 502 ''could not create pairing invitation'', app, h)
        | (Inr attempt, h) \<Rightarrow>
            (Invitation (at_invite attempt),
             app\<lparr>ap_pairing := Some attempt, ap_done := False,
                 ap_status := message_status (pairingStatus (ps_Phase (snapshot attempt)))\<rparr>, h))
        (newPairingAttempt (wh_pairing wh) (wh_fuel wh) (ap_relayURL app)
           (companionDeviceLabel (wh_hostname wh)) (Some (cs_Save (wh_store wh)))
           (Some (cs_Delete (wh_store wh))) h))"

text \<open>\<open>attempt\<close> is the attempt when its \<^verbatim>\<open>run\<close> has returned: the one that the app holds.\<close>

definition reconcilePairing :: "'h pairingAttempt \<Rightarrow> Config \<times> bool \<times> goerr option \<Rightarrow> 'h App \<Rightarrow> 'h App" where
  "reconcilePairing attempt result app =
     (case result of (config, staged, err) \<Rightarrow>
        if staged \<and> cf_V config = 1 then
          startRelay config (set_status
            ((if err = None then ''Controller paired; connecting to relay''
              else ''Pairing activation unconfirmed; reconciling with relay'') @ ellipsis)
            (app\<lparr>ap_config := Some config, ap_pairing := None, ap_done := True\<rparr>))
        else set_status (pairingStatus (ps_Phase (snapshot attempt)))
               (app\<lparr>ap_pairing := Some attempt, ap_done := True\<rparr>))"

definition finishPairing :: "('k, 'c, 'h) web_host \<Rightarrow> 'h App \<Rightarrow> 'h \<Rightarrow> 'h App \<times> 'h" where
  "finishPairing wh app h =
     (case ap_pairing app of
        None \<Rightarrow> (app, h)
      | Some attempt \<Rightarrow>
          if ap_done app then (app, h)
          else (case pairing_run (wh_pairing wh) (wh_fuel wh) attempt h of
            (result, attempt, h) \<Rightarrow> (reconcilePairing attempt result app, h)))"

definition pairingActionPairID :: "cdeps \<Rightarrow> string \<Rightarrow> string option" where
  "pairingActionPairID d body =
     (case body_field d ''pairId'' body of
        None \<Rightarrow> None | Some pairID \<Rightarrow> if uuidPattern pairID then Some pairID else None)"

definition on_attempt :: "('h pairingAttempt \<Rightarrow> goerr option \<times> 'h pairingAttempt) \<Rightarrow> 'h App \<Rightarrow> 'h App option" where
  "on_attempt act app =
     (case ap_pairing app of
        None \<Rightarrow> None
      | Some pa \<Rightarrow>
          if ap_done app then None
          else (case act pa of (Some e, pa) \<Rightarrow> None | (None, pa) \<Rightarrow> Some (app\<lparr>ap_pairing := Some pa\<rparr>)))"

definition handlePairingDecision :: "('k, 'c, 'h) web_host \<Rightarrow> bool \<Rightarrow> string \<Rightarrow> 'h App \<Rightarrow> 'h \<Rightarrow> 'h handled_request"
  where
  "handlePairingDecision wh approve body app h =
     (case pairingActionPairID (wh_deps wh) body of
        None \<Rightarrow> (Failure 400 ''invalid pairing action'', app, h)
      | Some pairID \<Rightarrow>
          (case on_attempt (decide approve pairID) app of
             None \<Rightarrow> (Failure 409 ''pairing is not awaiting approval'', app, h)
           | Some app \<Rightarrow>
               (Result 200 (JObj [(if approve then ''approved'' else ''rejected'', JBool True)]), app, h)))"

definition handlePairingCancel :: "('k, 'c, 'h) web_host \<Rightarrow> string \<Rightarrow> 'h App \<Rightarrow> 'h \<Rightarrow> 'h handled_request" where
  "handlePairingCancel wh body app h =
     (case pairingActionPairID (wh_deps wh) body of
        None \<Rightarrow> (Failure 400 ''invalid pairing action'', app, h)
      | Some pairID \<Rightarrow>
          (case on_attempt (stop pairID) app of
             None \<Rightarrow> (Failure 409 ''pairing attempt did not match'', app, h)
           | Some app \<Rightarrow> (Result 200 (JObj [(''cancelled'', JBool True)]), app, h)))"

definition enrolled :: "int \<Rightarrow> EnrollmentResponse \<Rightarrow> Config \<Rightarrow> 'h App \<Rightarrow> 'h \<Rightarrow> 'h handled_request" where
  "enrolled status response config app h =
     (Enrolled status response, startRelay config (app\<lparr>ap_config := Some config\<rparr>), h)"

definition handleEnroll :: "('k, 'c, 'h) web_host \<Rightarrow> string \<Rightarrow> 'h App \<Rightarrow> 'h \<Rightarrow> 'h handled_request" where
  "handleEnroll wh body app h =
     (if length body > 16 * 1024 then (Failure 400 ''enrollment request is too large'', app, h)
      else case ParseEnrollmentRequest (wh_deps wh) body of
        Inl e \<Rightarrow> (Failure 400 (error_text e), app, h)
      | Inr enrollment \<Rightarrow>
          if ap_config app \<noteq> None then (Failure 409 ''reset the current enrollment first'', app, h)
          else if pairing_active app then (Failure 409 ''cancel the active pairing attempt first'', app, h)
          else let app = app\<lparr>ap_pairing := None\<rparr> in
            (case Provision (wh_deps wh) (wh_net wh) (ap_relayURL app) enrollment
                    [Some (cs_Save (wh_store wh))] h of
               ((config, response, None), h) \<Rightarrow> enrolled 200 response config app h
             | ((config, response, Some e), h) \<Rightarrow>
                 if cf_V config = 1 then
                   enrolled 202 (response\<lparr>en_Warning :=
                     ''Relay activation could not be confirmed; the saved enrollment is being reconciled.''\<rparr>)
                     config app h
                 else if errors_Is e (\<lambda>x. case x of ConfigPersistence _ \<Rightarrow> True | _ \<Rightarrow> False)
                 then (Failure 500 ''could not save companion credentials'', app, h)
                 else (Failure 502 (error_text e), app, h)))"

text \<open>
  The reset revokes the enrollment with a callback that stores a checkpoint and, if that succeeds, keeps
  it in the app and in the handler's own variable: both are the second part of the state here.
\<close>

definition checkpointing :: "'h ConfigStore \<Rightarrow> Config \<Rightarrow> 'h \<times> Config \<Rightarrow> goerr option \<times> 'h \<times> Config" where
  "checkpointing store checkpoint s =
     (case cs_Save store checkpoint (fst s) of
        (Some e, h) \<Rightarrow> (Some e, h, snd s) | (None, h) \<Rightarrow> (None, h, checkpoint))"

definition reset_confirmed :: "('k, 'c, 'h) web_host \<Rightarrow> Config \<Rightarrow> 'h App \<Rightarrow> 'h \<Rightarrow> 'h handled_request" where
  "reset_confirmed wh config app h =
     (let app = set_status (''Revoking controller link'' @ ellipsis) (stop_relay app) in
      case RevokeEnrollment (wh_deps wh) (beside_net (wh_net wh)) config
             (Some (checkpointing (wh_store wh))) (h, config) of
        (Some e, h, config) \<Rightarrow>
          let app = set_status ''Reset failed; enrollment retained'' (app\<lparr>ap_config := Some config\<rparr>) in
          (Failure 502 ''could not revoke enrollment'',
           if cf_LinkRevoked config then app else startRelay config app, h)
      | (None, h, config) \<Rightarrow>
          (case cs_Delete (wh_store wh) h of
             (Some e, h) \<Rightarrow>
               (Failure 500 ''enrollment revoked but local credentials could not be removed'',
                set_status ''Enrollment revoked; could not remove local credentials''
                  (app\<lparr>ap_config := Some config\<rparr>), h)
           | (None, h) \<Rightarrow>
               (Result 200 (JObj [(''reset'', JBool True)]),
                set_status ''Not enrolled'' (app\<lparr>ap_config := None\<rparr>), h)))"

definition handleReset :: "('k, 'c, 'h) web_host \<Rightarrow> string \<Rightarrow> 'h App \<Rightarrow> 'h \<Rightarrow> 'h handled_request" where
  "handleReset wh body app h =
     (case body_field (wh_deps wh) ''confirmation'' body of
        None \<Rightarrow> (Failure 400 ''invalid reset confirmation'', app, h)
      | Some confirmation \<Rightarrow>
          (case ap_config app of
             None \<Rightarrow> (Failure 409 ''no controller is enrolled'', app, h)
           | Some config \<Rightarrow>
               if confirmation \<noteq> cf_LinkID config
               then (Failure 400 ''reset confirmation did not match the active link'', app, h)
               else reset_confirmed wh config app h))"

definition handleForget :: "('k, 'c, 'h) web_host \<Rightarrow> string \<Rightarrow> 'h App \<Rightarrow> 'h \<Rightarrow> 'h handled_request" where
  "handleForget wh body app h =
     (case body_field (wh_deps wh) ''confirmation'' body of
        None \<Rightarrow> (Failure 400 ''invalid local-forget confirmation'', app, h)
      | Some confirmation \<Rightarrow>
          (case ap_config app of
             None \<Rightarrow> (Failure 409 ''no controller is enrolled'', app, h)
           | Some config \<Rightarrow>
               if confirmation \<noteq> cf_LinkID config
               then (Failure 400 ''local-forget confirmation did not match the active link'', app, h)
               else let app = set_status (''Removing local enrollment'' @ ellipsis) (stop_relay app) in
                 (case cs_Delete (wh_store wh) h of
                    (Some e, h) \<Rightarrow>
                      (Failure 500 ''local credentials could not be removed'',
                       set_status ''Could not remove local credentials; enrollment retained'' app, h)
                  | (None, h) \<Rightarrow>
                      (Result 200 (JObj [(''forgotten'', JBool True), (''warning'',
                         JStr ''Remote relay identity may remain and must be revoked separately.'')]),
                       set_status ''Not enrolled'' (app\<lparr>ap_config := None\<rparr>), h))))"

definition handleAction :: "('k, 'c, 'h) web_host \<Rightarrow> string \<Rightarrow> 'h App \<Rightarrow> 'h \<Rightarrow> 'h handled_request" where
  "handleAction wh body app h =
     (case body_field (wh_deps wh) ''operation'' body of
        None \<Rightarrow> (Failure 400 ''invalid action'', app, h)
      | Some operation \<Rightarrow>
          (case wh_execute wh operation h of
             (Inl e, h) \<Rightarrow> (Failure 409 (error_text e), app, h)
           | (Inr result, h) \<Rightarrow> (Result 200 result, app, h)))"

section \<open>The server\<close>

text \<open>The guards before the routes: a refusal, if there is one.\<close>

definition is_api :: "string \<Rightarrow> bool" where
  "is_api path \<longleftrightarrow> HasPrefix path ''/api/''"

definition guard :: "('k, 'c, 'h) web_host \<Rightarrow> web_request \<Rightarrow> 'h App \<Rightarrow> reply option" where
  "guard wh req app =
     (if wh_hostIP wh (wr_Host req) \<noteq> Some True then Some (Refused 403)
      else if is_api (wr_Path req) \<and> \<not> validUIToken (wh_deps wh) app (wr_Token req)
      then Some (Refused 403)
      else if wr_Method req = ''POST'' then
        (if wr_Origin req \<noteq> '''' \<and> wr_Origin req \<noteq> ''http://'' @ wr_Host req
         then Some (Refused 403)
         else if wh_mediaType wh (wr_ContentType req) \<noteq> Some ''application/json''
         then Some (Refused 415) else None)
      else None)"

definition post_route :: "('k, 'c, 'h) web_host \<Rightarrow> string \<Rightarrow> string \<Rightarrow> 'h App \<Rightarrow> 'h \<Rightarrow> 'h handled_request option" where
  "post_route wh path body app h =
     (if path = ''/api/enroll'' then Some (handleEnroll wh body app h)
      else if path = ''/api/pairing/start'' then handlePairingStart wh body app h
      else if path = ''/api/pairing/approve'' then Some (handlePairingDecision wh True body app h)
      else if path = ''/api/pairing/reject'' then Some (handlePairingDecision wh False body app h)
      else if path = ''/api/pairing/cancel'' then Some (handlePairingCancel wh body app h)
      else if path = ''/api/relay/wake'' then Some (handleRelayWake wh body app h)
      else if path = ''/api/reset'' then Some (handleReset wh body app h)
      else if path = ''/api/forget'' then Some (handleForget wh body app h)
      else if path = ''/api/action'' then Some (handleAction wh body app h)
      else Some (Refused 405, app, h))"

text \<open>A request for a page may come with the method \<^verbatim>\<open>HEAD\<close>; \<open>None\<close> is the key of an invite still to be drawn.\<close>

definition serve :: "('k, 'c, 'h) web_host \<Rightarrow> web_request \<Rightarrow> 'h App \<Rightarrow> 'h \<Rightarrow> 'h handled_request option" where
  "serve wh req app h =
     (case guard wh req app of
        Some refusal \<Rightarrow> Some (refusal, app, h)
      | None \<Rightarrow>
          if wr_Method req = ''POST'' then post_route wh (wr_Path req) (wr_Body req) app h
          else if wr_Method req \<in> {''GET'', ''HEAD''} then
            Some (if wr_Path req = ''/api/state'' then handleState wh app h
              else handleIndex wh req app h)
          else Some (Refused 405, app, h))"

end
