(* ===== verification/CredentialStore.thy ===== *)
theory CredentialStore
  imports Migration HostContract
begin

text \<open>
  What saving to a configuration store promises (locale \<open>credential_store\<close>, beyond \<open>config_store\<close>): a record
  that was saved is the one held, as far as the text it is stored as reads back, and a failed save leaves
  the one before. The file store on a machine keeps the promise, also as the second part of a host.
\<close>

section \<open>The promise of a save\<close>

text \<open>\<open>reload\<close> is what comes back of a saved record, \<open>valid\<close> what a store accepts.\<close>

locale credential_store = config_store store held rest
  for store :: "'s ConfigStore" and held :: "'s \<Rightarrow> Config option" and rest :: "'s \<Rightarrow> 'r" +
  fixes reload :: "Config \<Rightarrow> Config option" and valid :: "Config \<Rightarrow> bool"
  assumes save_ok: "cs_Save store c s = (None, s') \<Longrightarrow> held s' = reload c \<and> valid c"
    and save_failed: "cs_Save store c s = (Some e, s') \<Longrightarrow> held s' = held s"

definition beside_second :: "('m \<Rightarrow> 'a \<times> 'm) \<Rightarrow> 'n \<times> 'm \<Rightarrow> 'a \<times> 'n \<times> 'm" where
  "beside_second f s = (case f (snd s) of (r, m) \<Rightarrow> (r, fst s, m))"

definition beside_store :: "'m ConfigStore \<Rightarrow> ('n \<times> 'm) ConfigStore" where
  "beside_store store = \<lparr>cs_Load = beside_second (cs_Load store),
     cs_Save = (\<lambda>c. beside_second (cs_Save store c)), cs_Delete = beside_second (cs_Delete store)\<rparr>"

lemma beside_second_eq: "beside_second f s = (r, s') \<longleftrightarrow> f (snd s) = (r, snd s') \<and> fst s' = fst s"
  by (cases s') (auto simp: beside_second_def split: prod.splits)

context credential_store
begin

lemma beside_credentials:
  "credential_store (beside_store store) (\<lambda>s. held (snd s)) (\<lambda>s. rest (snd s)) reload valid"
  by unfold_locales
    (auto simp: beside_store_def beside_second_eq
      dest: load_ok load_none load_keeps save_rest delete_ok delete_failed delete_rest save_ok save_failed)

end

section \<open>The file store of a machine\<close>

definition file_reload :: "config_codec \<Rightarrow> Config \<Rightarrow> Config option" where
  "file_reload cc c = (case cc_print_indent cc c of
     Inl e \<Rightarrow> None | Inr t \<Rightarrow> decoded cc (Some (t @ [CHR 0x0A])))"

definition file_valid :: "config_codec \<Rightarrow> Config \<Rightarrow> bool" where
  "file_valid cc c \<longleftrightarrow> Config_validate (cc_deps cc) c = None \<and>
     (\<exists>t. cc_print_indent cc c = Inr t \<and> length (t @ [CHR 0x0A]) \<le> maxStoredConfigBytes)"

text \<open>What is printed reads back: the codec is \<^verbatim>\<open>encoding/json\<close> on a struct of strings, numbers and flags.\<close>

definition prints_back :: "config_codec \<Rightarrow> bool" where
  "prints_back cc \<longleftrightarrow> (\<forall>c t. cc_print_indent cc c = Inr t \<longrightarrow> cc_read_json cc (t @ [CHR 0x0A]) = Some c)"

lemma reload_valid: "prints_back cc \<Longrightarrow> file_valid cc c \<Longrightarrow> file_reload cc c = Some c"
  by (auto simp: prints_back_def file_valid_def file_reload_def decoded_def decodeStoredConfig_def)

lemma machine_rename:
  "mc_file s old = Some f \<Longrightarrow> fs_rename machine_fs old new s = (None, mc_put new f (mc_drop old s))"
  by (simp add: machine_fs_def)

lemma mc_edit_at: "at_handle s handle = Some (path, x) \<Longrightarrow> mc_edit f handle s = (None, mc_put path (f x) s)"
  by (simp add: mc_edit_def)

lemma at_handle_put: "at_handle s handle = Some (path, x) \<Longrightarrow> at_handle (mc_put path y s) handle = Some (path, y)"
  by (cases y) (auto simp: at_handle_def mc_put_def mc_file_def split: if_splits option.splits)

lemma write_temporary_machine:
  assumes "at_handle s handle = Some (temporary, i, b)" and "temporary \<noteq> path"
    and "write_temporary machine_fs path temporary handle bytes s = (r, s')"
  shows "r = None \<and> map_option snd (mc_file s' path) = Some (b @ bytes)"
proof -
  define s1 where "s1 = mc_put temporary (i\<lparr>fi_perm := 384\<rparr>, b) s"
  define s2 where "s2 = mc_put temporary (i\<lparr>fi_perm := 384\<rparr>, b @ bytes) s1"
  have h1: "at_handle s1 handle = Some (temporary, i\<lparr>fi_perm := 384\<rparr>, b)"
    using at_handle_put [OF assms(1)] by (simp add: s1_def)
  have steps: "fs_chmod machine_fs handle 384 s = (None, s1)" "fs_write machine_fs handle bytes s1 = (None, s2)"
    "fs_sync machine_fs handle s2 = (None, s2)" "fs_close machine_fs handle s2 = (None, s2)"
    using mc_edit_at [OF assms(1)] mc_edit_at [OF h1] by (simp_all add: machine_fs_def s1_def s2_def)
  have "mc_file s2 temporary = Some (i\<lparr>fi_perm := 384\<rparr>, b @ bytes)" by (simp add: s2_def)
  from assms(3) machine_rename [OF this, of path] show ?thesis
    by (auto simp: write_temporary_def or_close_def after_def steps)
qed

lemma file_Save_effect:
  assumes "file_Save cc machine_fs path c s = (x, s')"
  shows "case x of None \<Rightarrow> file_held cc path s' = file_reload cc c \<and> file_valid cc c
    | Some e \<Rightarrow> file_held cc path s' = file_held cc path s"
proof (cases "file_valid cc c")
  case False
  with assms show ?thesis
    by (auto simp: file_Save_def file_valid_def after_def machine_fs_def Let_def not_le
        split: option.splits sum.splits if_splits prod.splits)
next
  case True
  then obtain t where t: "cc_print_indent cc c = Inr t" "length (t @ [CHR 0x0A]) \<le> maxStoredConfigBytes"
    "Config_validate (cc_deps cc) c = None" by (auto simp: file_valid_def)
  define name where "name = path @ ''/.companion-'' @ itoa (int (mc_next s)) @ ''.json''"
  have dir: "fs_mkdirAll machine_fs (fs_dir machine_fs path) 448 s = (None, s)" "fs_dir machine_fs path = path"
    by (simp_all add: machine_fs_def)
  show ?thesis
  proof (cases "mc_file s name")
    case (Some f)
    then have "fs_createTemp machine_fs path s = (Inl (ErrorText ''file exists''), s)"
      by (simp add: machine_fs_def Let_def name_def)
    with assms t dir show ?thesis by (auto simp: file_Save_def after_def Let_def)
  next
    case None
    define i where "i = \<lparr>fi_regular = True, fi_perm = 384, fi_identity = mc_next s\<rparr>"
    define s1 where "s1 = mc_put name (i, []) (s\<lparr>mc_handles := mc_handles s @ [name], mc_next := Suc (mc_next s)\<rparr>)"
    have temp: "fs_createTemp machine_fs path s = (Inr (name, length (mc_handles s)), s1)"
      using None by (simp add: machine_fs_def Let_def name_def s1_def i_def)
    have h: "at_handle s1 (length (mc_handles s)) = Some (name, i, [])"
      by (simp add: at_handle_def s1_def mc_put_def mc_file_def)
    have fresh: "name \<noteq> path" by (simp add: name_def)
    obtain r s2 where w: "write_temporary machine_fs path name (length (mc_handles s)) (t @ [CHR 0x0A]) s1 = (r, s2)"
      by (metis surj_pair)
    note done_ = write_temporary_machine [OF h fresh w]
    have "mc_file (snd (fs_remove machine_fs name s2)) path = mc_file s2 path"
      using fresh by (simp add: machine_fs_def)
    with assms t dir temp w done_ True show ?thesis
      by (auto simp: file_Save_def after_def Let_def file_held_def file_reload_def)
  qed
qed

interpretation file_credentials: credential_store "FileConfigStore cc machine_fs path" "file_held cc path"
  "item_held cc" "file_reload cc" "file_valid cc"
proof
  fix c s s'
  assume "cs_Save (FileConfigStore cc machine_fs path) c s = (None, s')"
  then show "file_held cc path s' = file_reload cc c \<and> file_valid cc c"
    using file_Save_effect [of cc path c s None s'] by (simp add: FileConfigStore_def)
next
  fix c s e s'
  assume "cs_Save (FileConfigStore cc machine_fs path) c s = (Some e, s')"
  then show "file_held cc path s' = file_held cc path s"
    using file_Save_effect [of cc path c s "Some e" s'] by (simp add: FileConfigStore_def)
qed

interpretation machine_credentials: credential_store "beside_store (FileConfigStore cc machine_fs path)"
  "\<lambda>s. file_held cc path (snd s)" "\<lambda>s. item_held cc (snd s)" "file_reload cc" "file_valid cc"
  by (rule file_credentials.beside_credentials)

end
