(* ===== verification/PairingStore.thy ===== *)
theory PairingStore
  imports PairingAttempt CredentialStore
begin

text \<open>
  What an attempt to pair leaves in the configuration store (\<^verbatim>\<open>internal/companion/pairing.go\<close>): the attempt
  touches it only through its two callbacks (locale \<open>attempt_contract\<close>), so that when it returns, the store
  holds the configuration it returns, or none (locale \<open>storing_attempt\<close>).
\<close>

section \<open>The host of an attempt keeps an invariant\<close>

definition attempt_stays :: "('h \<Rightarrow> bool) \<Rightarrow> 'h pairingAttempt \<Rightarrow> 'h \<Rightarrow> 'h pairingAttempt \<Rightarrow> 'h \<Rightarrow> bool" where
  "attempt_stays P pa h pa' h' \<longleftrightarrow> (P h \<longrightarrow> P h') \<and> at_persist pa' = at_persist pa \<and> at_discard pa' = at_discard pa"

lemma stays_refl [simp]: "attempt_stays P pa h pa h" by (simp add: attempt_stays_def)

lemma stays_trans: "attempt_stays P pa h pa1 h1 \<Longrightarrow> attempt_stays P pa1 h1 pa' h' \<Longrightarrow> attempt_stays P pa h pa' h'"
  by (simp add: attempt_stays_def)

lemma stays_fields [simp]:
  "attempt_stays P pa h (pa'\<lparr>at_peer := p\<rparr>) h' = attempt_stays P pa h pa' h'"
  "attempt_stays P pa h (pa'\<lparr>at_pending := w\<rparr>) h' = attempt_stays P pa h pa' h'"
  "attempt_stays P pa h (pa'\<lparr>at_pendingBytes := k\<rparr>) h' = attempt_stays P pa h pa' h'"
  "attempt_stays P pa h (pa'\<lparr>at_nextIn := i\<rparr>) h' = attempt_stays P pa h pa' h'"
  "attempt_stays P pa h (pa'\<lparr>at_state := st\<rparr>) h' = attempt_stays P pa h pa' h'"
  "attempt_stays P pa h (pa'\<lparr>at_invite := v\<rparr>) h' = attempt_stays P pa h pa' h'"
  "attempt_stays P pa h (pa'\<lparr>at_activated := b\<rparr>) h' = attempt_stays P pa h pa' h'"
  "attempt_stays P (pa\<lparr>at_decision := d\<rparr>) h pa' h' = attempt_stays P pa h pa' h'"
  by (simp_all add: attempt_stays_def)

lemma actions_callbacks [simp]:
  "at_persist (fold ui_step actions pa) = at_persist pa" "at_discard (fold ui_step actions pa) = at_discard pa"
  by (induction actions arbitrary: pa) (auto simp: ui_step_def decide_def stop_def split: ui_action.split)

locale attempt_contract = net_contract P "ph_net ph" for P :: "'h \<Rightarrow> bool" and ph :: "('k, 'c, 'h) pairing_host" +
  assumes now: "host_keeps P (ph_now ph)"
    and deadline: "host_keeps P (ph_deadline ph)"
    and actions: "host_keeps P (ph_actions ph)"
    and select: "host_keeps P (ph_select ph)"
    and choose: "host_keeps P (ph_choose ph)"
begin

lemmas hostD = host_keepsD [OF now] host_keepsD [OF deadline] host_keepsD [OF actions]
  host_keepsD [OF select] host_keepsD [OF choose]

lemma interfere_stays: "interfere ph pa h = (pa', h') \<Longrightarrow> attempt_stays P pa h pa' h'"
  by (auto simp: interfere_def attempt_stays_def dest: hostD split: prod.splits)

lemma next_message_keeps: "next_message (ph_net ph) c pending h = (r, pending', h') \<Longrightarrow> P h \<Longrightarrow> P h'"
  by (auto simp: next_message_def dest: netD split: list.splits prod.splits)

lemma message_stays:
  assumes "nextPairingServerMessage ph pa h = (r, pa', h')"
  shows "attempt_stays P pa h pa' h'"
proof -
  obtain pa1 h1 where i: "interfere ph pa h = (pa1, h1)" by (metis surj_pair)
  note s = interfere_stays [OF i]
  show ?thesis
    using assms i s
    by (auto simp: nextPairingServerMessage_def Let_def attempt_stays_def split: prod.splits sum.splits
        attempt_event.splits dest: hostD next_message_keeps)
qed

lemma waitReady_stays: "waitReady ph fuel pa h = (r, pa', h') \<Longrightarrow> attempt_stays P pa h pa' h'"
proof (induction fuel arbitrary: pa h)
  case (Suc fuel)
  obtain x pa1 h1 where m: "nextPairingServerMessage ph pa h = (x, pa1, h1)" by (metis surj_pair)
  note s = message_stays [OF m]
  show ?case
    using Suc.prems m s stays_trans [OF s Suc.IH] by (auto split: sum.splits if_splits)
qed simp

lemma await_packet_stays: "await_packet ph i pa h = (r, pa', h') \<Longrightarrow> attempt_stays P pa h pa' h'"
proof (induction "MaxRelayReorderFrames - length (at_pending pa)" arbitrary: pa h rule: less_induct)
  case less
  obtain x pa1 h1 where m: "nextPairingServerMessage ph pa h = (x, pa1, h1)" by (metis surj_pair)
  note s = message_stays [OF m]
  have more: "attempt_stays P pa h pa' h'"
    if b: "buffer_packet f pa1 = Some q" and "await_packet ph i q h1 = (r, pa', h')" for f q
  proof -
    have "attempt_stays P pa h q h1" using b s by (auto simp: buffer_packet_def split: if_splits)
    moreover have "attempt_stays P q h1 pa' h'"
      using less.hyps [OF buffer_shrinks [OF b message_pending [OF m]] that(2)] .
    ultimately show ?thesis by (rule stays_trans)
  qed
  show ?case
    using less.prems m s
    by (subst (asm) await_packet.simps) (auto split: sum.splits if_splits option.splits prod.splits dest: more)
qed

lemma nextPairPacket_stays: "nextPairPacket ph i pa h = (r, pa', h') \<Longrightarrow> attempt_stays P pa h pa' h'"
  by (auto simp: nextPairPacket_def split: if_splits option.splits dest: await_packet_stays)

lemma sendPairPacket_stays: "sendPairPacket ph i packet pa h = (r, pa', h') \<Longrightarrow> attempt_stays P pa h pa' h'"
  by (auto simp: sendPairPacket_def attempt_stays_def dest: netD
      split: if_splits sum.splits prod.splits option.splits)

lemma handshake_stays:
  "new_handshake ph peer pa h = (r1, pa', h') \<Longrightarrow> attempt_stays P pa h pa' h'"
  "answer_handshake ph k packet pa h = (r2, pa', h') \<Longrightarrow> attempt_stays P pa h pa' h'"
  "read_identity ph c packet pa h = (r3, pa', h') \<Longrightarrow> attempt_stays P pa h pa' h'"
  "encrypted_identity ph c bits pa h = (r4, pa', h') \<Longrightarrow> attempt_stays P pa h pa' h'"
     apply (auto simp: new_handshake_def Let_def split: sum.splits option.splits if_splits)[1]
    apply (auto simp: answer_handshake_def split: option.splits if_splits prod.splits)[1]
   apply (auto simp: read_identity_def split: sum.splits)[1]
  apply (auto simp: encrypted_identity_def Let_def attempt_stays_def dest: netD split: sum.splits prod.splits)
  done

lemma await_commit_stays: "await_commit ph e i fuel pa h = (r, pa', h') \<Longrightarrow> attempt_stays P pa h pa' h'"
proof (induction fuel arbitrary: pa h)
  case (Suc fuel)
  obtain x pa1 h1 where m: "nextPairingServerMessage ph pa h = (x, pa1, h1)" by (metis surj_pair)
  note s = message_stays [OF m]
  show ?case
    using Suc.prems m s stays_trans [OF s Suc.IH] by (auto split: sum.splits bool.splits)
qed simp

lemma commit_stays:
  assumes "commit ph fuel body e pa h = (r, pa', h')"
  shows "attempt_stays P pa h pa' h'"
proof -
  obtain x h1 where u: "net_uuid (ph_net ph) h = (x, h1)" by (metis surj_pair)
  have h1: "attempt_stays P pa h pa h1" using netD(1) [OF _ u] by (simp add: attempt_stays_def)
  show ?thesis
  proof (cases x)
    case (Inl e) with assms u h1 show ?thesis by (simp add: commit_def)
  next
    case (Inr i)
    obtain y h2 where w: "net_transmit (ph_net ph) (rp_connection (at_peer pa)) (wireEnvelope ''pair.commit'' i body) h1 = (y, h2)"
      by (metis surj_pair)
    have h2: "attempt_stays P pa h1 pa h2" using netD(4) [OF _ w] by (simp add: attempt_stays_def)
    from assms u w Inr stays_trans [OF h1 h2] stays_trans [OF stays_trans [OF h1 h2] await_commit_stays]
    show ?thesis by (auto simp: commit_def split: option.splits)
  qed
qed

lemma state_stays:
  "setState ph state pa h = (pa', h') \<Longrightarrow> attempt_stays P pa h pa' h'"
  "beginCommit ph state pa h = (b, pa', h') \<Longrightarrow> attempt_stays P pa h pa' h'"
  by (auto simp: setState_def beginCommit_def dest: interfere_stays split: prod.splits if_splits)

lemma finishWithError_stays:
  assumes "finishWithError ph e pa h = (pa', h')"
  shows "attempt_stays P pa h pa' h'"
proof -
  obtain t h1 where t: "ph_now ph h = (t, h1)" by (metis surj_pair)
  have h1: "attempt_stays P pa h pa h1" using hostD(1) [OF _ t] by (simp add: attempt_stays_def)
  show ?thesis
    using assms t stays_trans [OF h1 state_stays(1)]
    by (auto simp: finishWithError_def Let_def split: if_splits dest: state_stays(1))
qed

lemma waitDecision_stays:
  assumes "waitDecision ph pa h = (r, pa', h')"
  shows "attempt_stays P pa h pa' h'"
proof -
  obtain pa1 h1 where i: "interfere ph pa h = (pa1, h1)" by (metis surj_pair)
  note s1 = interfere_stays [OF i]
  obtain ev h2 where ev: "ph_choose ph h1 = (ev, h2)" by (metis surj_pair)
  have s2: "attempt_stays P pa h pa1 h2" using s1 hostD(5) [OF _ ev] by (simp add: attempt_stays_def)
  obtain pa3 h3 where j: "interfere ph (pa1\<lparr>at_decision := None\<rparr>) h2 = (pa3, h3)" by (metis surj_pair)
  have s3: "attempt_stays P pa h pa3 h3" using stays_trans [OF s2] interfere_stays [OF j] by simp
  obtain x h4 where x: "ctx_err ph pa3 h3 = (x, h4)" by (metis surj_pair)
  then have "P h3 \<Longrightarrow> P h4" by (auto simp: ctx_err_def dest: hostD split: prod.splits option.splits)
  with s3 have s4: "attempt_stays P pa h pa3 h4" by (simp add: attempt_stays_def)
  from assms i ev j x s2 s4 show ?thesis
    by (auto simp: waitDecision_def split: decision_event.splits option.splits)
qed

lemma cancelPair_keeps: "P h \<Longrightarrow> P (cancelPair ph pa h)"
  by (auto simp: cancelPair_def dest: netD split: prod.splits sum.splits)
    (metis netD(1,4) prod.collapse)

lemma draw_psk_keeps: "draw_psk (ph_net ph) t fuel psk h = Some (r, h') \<Longrightarrow> P h \<Longrightarrow> P h'"
proof (induction fuel arbitrary: psk h)
  case 0 then show ?case by (simp add: draw_psk.simps split: if_splits)
next
  case (Suc fuel)
  obtain x h1 where x: "net_random32 (ph_net ph) h = (x, h1)" by (metis surj_pair)
  note P1 = netD(2) [OF Suc.prems(2) x]
  from Suc.prems x P1 Suc.IH show ?case
    by (subst (asm) draw_psk.simps) (auto simp del: draw_psk.simps split: if_splits sum.splits)
qed

lemma bind_step_keeps:
  assumes "bind_step g f = (r, h')" and "P (snd g)" and "\<And>x h. P h \<Longrightarrow> f x h = (r, h') \<Longrightarrow> P h'"
  shows "P h'"
  using assms by (cases g) (auto simp: bind_step_def split: sum.splits)

lemma create_pair_keeps:
  assumes "create_pair ph relay hash linkID token psk h = (r, h')" and "P h"
  shows "P h'"
proof -
  obtain x h1 where d: "dialRelay (ph_net ph) relay PairingAuthorization h = (x, h1)" by (metis surj_pair)
  note P1 = dialRelay_keeps [OF d assms(2)]
  show ?thesis
  proof (cases x)
    case (Inl e) with assms d P1 show ?thesis by (simp add: create_pair_def bind_step_def)
  next
    case (Inr peer)
    obtain y peer' h2 where q: "request_into (ph_net ph) peer ''pair.create''
        (JObj [(''joinTokenHash'', JStr hash)]) decode_created h1 = (y, peer', h2)" by (metis surj_pair)
    note P2 = request_into_keeps [OF q P1]
    obtain t h3 where t: "ph_now ph h2 = (t, h3)" by (metis surj_pair)
    note P3 = hostD(1) [OF P2 t]
    from assms(1) d Inr q P2 t P3 show ?thesis
      by (auto simp: create_pair_def bind_step_def Let_def dest: close split: sum.splits option.splits)
  qed
qed

lemma finish_attempt_keeps:
  assumes "finish_attempt ph relay label persist discard joinToken psk h = (r, h')" and "P h"
  shows "P h' \<and> (\<forall>pa. r = Inr pa \<longrightarrow> at_persist pa = persist \<and> at_discard pa = discard)"
proof
  show "P h'"
    using assms unfolding finish_attempt_def Let_def
    by (elim bind_step_keeps) (auto dest: netD create_pair_keeps elim!: bind_step_keeps
        split: sum.splits prod.splits, (metis netD create_pair_keeps prod.collapse)+)
  show "\<forall>pa. r = Inr pa \<longrightarrow> at_persist pa = persist \<and> at_discard pa = discard"
    using assms(1) unfolding finish_attempt_def Let_def
    by (auto simp: bind_step_def fresh_attempt_def split: sum.splits prod.splits)
qed

lemma newPairingAttempt_keeps:
  assumes "newPairingAttempt ph fuel relay label (Some persist) (Some discard) h = Some (r, h')" and "P h"
  shows "P h' \<and> (\<forall>pa. r = Inr pa \<longrightarrow> at_persist pa = persist \<and> at_discard pa = discard)"
proof -
  obtain x h1 where x: "net_random32 (ph_net ph) h = (x, h1)" by (metis surj_pair)
  note P1 = netD(2) [OF assms(2) x]
  obtain y h2 where y: "net_random32 (ph_net ph) h1 = (y, h2)" by (metis surj_pair)
  note P2 = netD(2) [OF P1 y]
  show ?thesis
    using assms x P1 y P2
    by (auto simp: newPairingAttempt_def Let_def simp del: draw_psk.simps
        split: sum.splits if_splits option.splits prod.splits dest: draw_psk_keeps finish_attempt_keeps)
qed

end

section \<open>The store at the end of an attempt\<close>

text \<open>
  \<open>in_store\<close> is what a store holds after a save of \<open>c\<close>. \<open>settles\<close> is what an attempt owes: its result is stored,
  or nothing is.
\<close>

definition in_store :: "('s \<Rightarrow> Config option) \<Rightarrow> (Config \<Rightarrow> Config option) \<Rightarrow> (Config \<Rightarrow> bool) \<Rightarrow> Config \<Rightarrow> 's \<Rightarrow> bool" where
  "in_store held reload valid c s \<longleftrightarrow> held s = Some c \<or> (held s = reload c \<and> valid c)"

definition settles :: "('s \<Rightarrow> Config option) \<Rightarrow> (Config \<Rightarrow> Config option) \<Rightarrow> (Config \<Rightarrow> bool) \<Rightarrow> 's ran \<Rightarrow> bool" where
  "settles held reload valid r = (case r of ((c, staged, e), pa, s) \<Rightarrow>
     if staged then cf_V c = 1 \<and> in_store held reload valid c s else held s = None)"

text \<open>An attempt with the store's callbacks.\<close>

definition stores_to :: "'s ConfigStore \<Rightarrow> 's pairingAttempt \<Rightarrow> bool" where
  "stores_to store pa \<longleftrightarrow> at_persist pa = cs_Save store \<and> at_discard pa = cs_Delete store"

locale storing_attempt = credential_store store held rest reload valid
  for store :: "'s ConfigStore" and held :: "'s \<Rightarrow> Config option" and rest :: "'s \<Rightarrow> 'r" and reload valid +
  fixes ph :: "('k, 'c, 's) pairing_host"
  assumes apart: "attempt_contract (\<lambda>s. held s = x) ph"
begin

sublocale host: attempt_contract "\<lambda>s. held s = x" ph for x by (rule apart)

lemma stays_held: "(\<And>x. attempt_stays (\<lambda>s. held s = x) pa s pa' s') \<Longrightarrow>
    held s' = held s \<and> at_persist pa' = at_persist pa \<and> at_discard pa' = at_discard pa"
  by (simp add: attempt_stays_def)

lemma finish_held: "finishWithError ph e pa s = (pa', s') \<Longrightarrow>
    held s' = held s \<and> at_persist pa' = at_persist pa \<and> at_discard pa' = at_discard pa"
  by (rule stays_held) (rule host.finishWithError_stays)

lemma settles_rejected: "settles held reload valid ((c, False, e), pa, s) \<longleftrightarrow> held s = None"
  by (simp add: settles_def)

lemma in_store_held: "in_store held reload valid c s \<Longrightarrow> held s' = held s \<Longrightarrow> in_store held reload valid c s'"
  by (simp add: in_store_def)

lemma saved_in_store: "cs_Save store c s = (None, s') \<Longrightarrow> in_store held reload valid c s'"
  using save_ok by (auto simp: in_store_def)

lemma attempt_failed_settles: "held s = None \<Longrightarrow> settles held reload valid (attempt_failed ph e pa s)"
  by (auto simp: attempt_failed_def settles_def dest!: finish_held split: prod.splits)

lemma or_finish_settles:
  assumes "held s = None" and "stores_to store pa"
    and "\<And>r pa' s' x. g = (r, pa', s') \<Longrightarrow> attempt_stays (\<lambda>s. held s = x) pa s pa' s'"
    and "\<And>y pa' s'. held s' = None \<Longrightarrow> stores_to store pa' \<Longrightarrow> settles held reload valid (f y pa' s')"
  shows "settles held reload valid (or_finish ph g f)"
proof -
  obtain r pa1 s1 where g: "g = (r, pa1, s1)" by (metis surj_pair)
  from stays_held [OF assms(3) [OF g]] assms(1,2) have "held s1 = None" "stores_to store pa1"
    by (simp_all add: stores_to_def)
  with g assms(4) attempt_failed_settles show ?thesis by (simp add: or_finish_def split: sum.splits)
qed

lemma resolve_settles:
  assumes "resolveCommitFailure c e pa s = ((c', staged, e'), s')" and "stores_to store pa"
    and "cf_V c = 1" and "in_store held reload valid c s"
  shows "if staged then cf_V c' = 1 \<and> in_store held reload valid c' s' else held s' = None"
  using assms
  by (auto simp: resolveCommitFailure_def stores_to_def split: if_splits prod.splits option.splits
      dest!: delete_ok delete_failed elim: in_store_held)

lemma run_staged_settles:
  assumes "stores_to store pa" and "cf_V c = 1" and "in_store held reload valid c s"
  shows "settles held reload valid (run_staged ph fuel c pa s)"
proof -
  obtain x pa1 s1 where co: "commit ph fuel (commitBody (inv_PairID (at_invite pa)) (inv_CreatorSideID (at_invite pa))
      (inv_LinkID (at_invite pa)) (at_endpoint pa) Companion (b64_encode (k_sha256 (ph_deps ph) (at_secret pa)))
      (cf_ControllerEndpointID c) Controller) (cf_ControllerEndpointID c) pa s = (x, pa1, s1)" by (metis surj_pair)
  from stays_held [OF host.commit_stays [OF co]] assms
  have h1: "in_store held reload valid c s1" "stores_to store pa1"
    by (simp_all add: stores_to_def in_store_def)
  show ?thesis
  proof (cases x)
    case (Inl e)
    obtain c' staged e' s2 where r: "resolveCommitFailure c e pa1 s1 = ((c', staged, e'), s2)" by (metis surj_pair)
    obtain pa3 s3 where f: "finishWithError ph e' pa1 s2 = (pa3, s3)" by (metis surj_pair)
    from resolve_settles [OF r h1(2) assms(2) h1(1)] finish_held [OF f] co Inl r f show ?thesis
      by (auto simp: run_staged_def settles_def in_store_def split: if_splits)
  next
    case (Inr u)
    obtain y s2 where p: "cs_Save store (c\<lparr>cf_ActivationPending := False\<rparr>) s1 = (y, s2)" by (metis surj_pair)
    obtain pa3 s3 where f: "finishWithError ph (ConfigPersistence '' after relay activation'')
        (pa1\<lparr>at_activated := True\<rparr>) s2 = (pa3, s3)" by (metis surj_pair)
    show ?thesis
    proof (cases y)
      case None
      with saved_in_store [OF p [unfolded None]] co Inr p h1(2) assms(2) show ?thesis
        by (simp add: run_staged_def settles_def stores_to_def Let_def)
    next
      case (Some e)
      with save_failed [OF p [unfolded Some]] h1 co Inr p f finish_held [OF f] assms(2) show ?thesis
        by (simp add: run_staged_def settles_def stores_to_def Let_def in_store_def)
    qed
  qed
qed

lemma run_committing_settles:
  assumes "held s = None" and "stores_to store pa"
  shows "settles held reload valid (run_committing ph fuel cipher body bits pa s)"
  unfolding run_committing_def Let_def
proof (rule or_finish_settles [OF assms host.handshake_stays(4)], assumption,
    erule or_finish_settles [OF _ _ host.sendPairPacket_stays], assumption, assumption)
  fix z :: unit and pa1 s1
  assume a: "held s1 = None" "stores_to store pa1"
  obtain y s2 where p: "cs_Save store (staged_config pa1 body bits) s1 = (y, s2)" by (metis surj_pair)
  show "settles held reload valid (case at_persist pa1 (staged_config pa1 body bits) s1 of
      (None, h) \<Rightarrow> run_staged ph fuel (staged_config pa1 body bits) pa1 h
    | (Some e, h) \<Rightarrow> attempt_failed ph (ConfigPersistence []) pa1 h)"
  proof (cases y)
    case None
    have "cf_V (staged_config pa1 body bits) = 1" by (simp add: staged_config_def)
    with None p a run_staged_settles [OF a(2) _ saved_in_store [OF p [unfolded None]]] show ?thesis
      by (simp add: stores_to_def)
  next
    case (Some e)
    with save_failed [OF p [unfolded Some]] p a attempt_failed_settles show ?thesis
      by (simp add: stores_to_def)
  qed
qed

lemma run_approval_settles:
  assumes "held s = None" and "stores_to store pa"
  shows "settles held reload valid (run_approval ph fuel cipher body pa s)"
proof -
  obtain pa1 s1 where st: "setState ph (controller_state pairingAwaitingApproval (at_invite pa) body) pa s = (pa1, s1)"
    by (metis surj_pair)
  from stays_held [OF host.state_stays(1) [OF st]] assms have a1: "held s1 = None" "stores_to store pa1"
    by (simp_all add: stores_to_def)
  have rest: "settles held reload valid (if \<not> ok then
       (case setState ph (phase_state pairingRejected (inv_PairID (at_invite pa2)) 0) pa2 s2 of
          (pa, h) \<Rightarrow> ((zero_Config, False, Some PairingRejected), pa, h))
     else case beginCommit ph (controller_state pairingCommitting (at_invite pa2) body) pa2 s2 of
       (True, pa, h) \<Rightarrow> run_committing ph fuel cipher body bits pa h
     | (False, pa, h) \<Rightarrow> attempt_failed ph PairingCancelled pa h)"
    if a2: "held s2 = None" "stores_to store pa2" for ok pa2 s2 bits
  proof -
    obtain pa3 s3 where r: "setState ph (phase_state pairingRejected (inv_PairID (at_invite pa2)) 0) pa2 s2 = (pa3, s3)"
      by (metis surj_pair)
    obtain b pa4 s4 where bc: "beginCommit ph (controller_state pairingCommitting (at_invite pa2) body) pa2 s2 = (b, pa4, s4)"
      by (metis surj_pair)
    from stays_held [OF host.state_stays(1) [OF r]] stays_held [OF host.state_stays(2) [OF bc]] a2
    have "held s3 = None" "held s4 = None" "stores_to store pa4" by (simp_all add: stores_to_def)
    with r bc run_committing_settles attempt_failed_settles show ?thesis
      by (simp add: settles_rejected split: bool.split)
  qed
  show ?thesis
    using st attempt_failed_settles [OF assms(1)]
      or_finish_settles [OF a1 host.waitDecision_stays rest, where g = "waitDecision ph pa1 s1"]
    by (simp add: run_approval_def Let_def)
qed

lemma run_handshake_settles:
  assumes "held s = None" and "stores_to store pa"
  shows "settles held reload valid (run_handshake ph fuel k pa s)"
  unfolding run_handshake_def
  by (rule or_finish_settles [OF assms host.nextPairPacket_stays], assumption,
      erule or_finish_settles [OF _ _ host.handshake_stays(2)], assumption, assumption, clarify,
      erule or_finish_settles [OF _ _ host.sendPairPacket_stays], assumption, assumption,
      erule or_finish_settles [OF _ _ host.nextPairPacket_stays], assumption, assumption,
      erule or_finish_settles [OF _ _ host.handshake_stays(3)], assumption, assumption,
      erule run_approval_settles)

lemma run_attempt_settles:
  assumes "held s = None" and "stores_to store pa"
  shows "settles held reload valid (run_attempt ph fuel pa s)"
  unfolding run_attempt_def
proof (rule or_finish_settles [OF assms host.waitReady_stays], assumption)
  fix y pa1 s1
  assume a: "held s1 = None" "stores_to store pa1"
  obtain pa2 s2 where st: "setState ph (phase_state pairingHandshaking (inv_PairID (at_invite pa1))
      (inv_ExpiresAt (at_invite pa1))) pa1 s1 = (pa2, s2)" by (metis surj_pair)
  from stays_held [OF host.state_stays(1) [OF st]] a have a2: "held s2 = None" "stores_to store pa2"
    by (simp_all add: stores_to_def)
  have "settles held reload valid (or_finish ph (new_handshake ph y pa2 s2)
      (\<lambda>handshake pa h. run_handshake ph fuel handshake pa h))"
    by (rule or_finish_settles [OF a2 host.handshake_stays(1)], assumption) (rule run_handshake_settles)
  then show "settles held reload valid (case setState ph (phase_state pairingHandshaking (inv_PairID (at_invite pa1))
      (inv_ExpiresAt (at_invite pa1))) pa1 s1 of (pa, h) \<Rightarrow>
      or_finish ph (new_handshake ph y pa h) (\<lambda>handshake pa h. run_handshake ph fuel handshake pa h))"
    by (simp add: st)
qed

lemma pairing_run_settles:
  assumes "held s = None" and "stores_to store pa"
  shows "settles held reload valid (pairing_run ph fuel pa s)"
proof -
  obtain res pa1 s1 where r: "run_attempt ph fuel pa s = (res, pa1, s1)" by (metis surj_pair)
  define s2 where "s2 = (if at_activated pa1 then s1 else cancelPair ph pa1 s1)"
  have "held (net_close (ph_net ph) (rp_connection (at_peer pa1)) s2) = held s1"
    using host.close [of s2 "held s2"] host.cancelPair_keeps [of s1 "held s1" pa1] by (simp add: s2_def)
  with run_attempt_settles [OF assms, of fuel] r show ?thesis
    by (auto simp: pairing_run_def Let_def settles_def in_store_def s2_def [symmetric] split: prod.splits if_splits)
qed

end

end
