(* ===== verification/WebSafety.thy ===== *)
theory WebSafety
  imports WebApp PairingStore ChannelOrder
begin

text \<open>
  What the local web interface guarantees (\<^verbatim>\<open>internal/companion/web.go\<close>): the enrollment that the app works
  with is the one in the configuration store (locale \<open>web_contract\<close>), only a request that names a loopback
  host and carries the UI token changes or shows anything, and the page with that token is served once.
\<close>

section \<open>Revoking with an invariant\<close>


section \<open>Enrolling with a store\<close>


lemma zero_V [simp]: "cf_V zero_Config = 0" by (simp add: zero_Config_def)


section \<open>The app and the store\<close>


definition attempt_apart :: "'s ConfigStore \<Rightarrow> 's App \<Rightarrow> bool" where
  "attempt_apart store app \<longleftrightarrow> (case ap_pairing app of None \<Rightarrow> True
     | Some pa \<Rightarrow> ap_done app \<or> (ap_config app = None \<and> stores_to store pa))"

lemma attempt_apart_fields [simp]:
  "attempt_apart store (app\<lparr>ap_status := st\<rparr>) = attempt_apart store app"
  "attempt_apart store (app\<lparr>ap_cancel := k\<rparr>) = attempt_apart store app"
  "attempt_apart store (startRelay c app) = attempt_apart store app"
  "attempt_apart store (set_status m app) = attempt_apart store app"
  "attempt_apart store (stop_relay app) = attempt_apart store app"
  "attempt_apart store (app\<lparr>ap_bootstrapToken := b\<rparr>) = attempt_apart store app"
  by (simp_all add: attempt_apart_def startRelay_def set_status_def stop_relay_def split: option.split)

lemma config_fields [simp]:
  "ap_config (startRelay c app) = ap_config app" "ap_config (set_status m app) = ap_config app"
  "ap_config (stop_relay app) = ap_config app" "ap_pairing (set_status m app) = ap_pairing app"
  "ap_pairing (startRelay c app) = ap_pairing app" "ap_done (startRelay c app) = ap_done app"
  "ap_done (set_status m app) = ap_done app"
  "ap_pairing (stop_relay app) = ap_pairing app" "ap_done (stop_relay app) = ap_done app"
  by (simp_all add: startRelay_def set_status_def stop_relay_def)






section \<open>Runs of the app\<close>

text \<open>
  What happens to an app: a request with its reply, a status of a relay connection that it has started, the
  end of an attempt to pair, and its closing. \<open>app_run\<close> are the runs from its creation, with the replies.
\<close>

inductive app_step :: "('k, 'c, 'h) web_host \<Rightarrow> 'h App \<times> 'h \<Rightarrow> reply option \<Rightarrow> 'h App \<times> 'h \<Rightarrow> bool" for wh where
  served: "serve wh req app h = Some (r, app', h') \<Longrightarrow> app_step wh (app, h) (Some r) (app', h')"
| status: "(i, config) \<in> set (ap_relays app) \<Longrightarrow> applyRelayStatus wh i config st app h = (app', h') \<Longrightarrow>
    app_step wh (app, h) None (app', h')"
| paired: "finishPairing wh app h = (app', h') \<Longrightarrow> app_step wh (app, h) None (app', h')"
| closed: "app_step wh (app, h) None (Close app, h)"

inductive app_run :: "('k, 'c, 'h) web_host \<Rightarrow> string \<Rightarrow> 'h \<Rightarrow> reply option list \<Rightarrow> 'h App \<times> 'h \<Rightarrow> bool"
  for wh relay h0 where
  created: "NewAppWithStore wh relay h0 = (Inr app, h) \<Longrightarrow> app_run wh relay h0 [] (app, h)"
| step: "app_run wh relay h0 rs s \<Longrightarrow> app_step wh s r s' \<Longrightarrow> app_run wh relay h0 (rs @ [r]) s'"

inductive_cases app_stepE: "app_step wh (app, h) r (app', h')"


section \<open>While an attempt to pair runs\<close>






section \<open>An app on a machine\<close>

text \<open>A host beside a machine, whose files hold the configuration.\<close>

definition beside_pairing :: "('k, 'c, 'n) pairing_host \<Rightarrow> ('k, 'c, 'n \<times> 'm) pairing_host" where
  "beside_pairing ph =
     \<lparr>ph_net = beside_net (ph_net ph), ph_deps = ph_deps ph, ph_noise = ph_noise ph,
      ph_marshal = ph_marshal ph, ph_now = beside (ph_now ph), ph_deadline = beside (ph_deadline ph),
      ph_actions = beside (ph_actions ph), ph_select = beside (ph_select ph), ph_choose = beside (ph_choose ph)\<rparr>"

definition on_machine :: "config_codec \<Rightarrow> string \<Rightarrow> ('k, 'c, 'n) web_host \<Rightarrow> ('k, 'c, 'n \<times> machine) web_host" where
  "on_machine cc path wh =
     \<lparr>wh_pairing = beside_pairing (wh_pairing wh),
      wh_store = beside_store (FileConfigStore cc machine_fs path), wh_hostIP = wh_hostIP wh,
      wh_mediaType = wh_mediaType wh, wh_hostname = wh_hostname wh,
      wh_execute = (\<lambda>operation. beside (wh_execute wh operation)), wh_fuel = wh_fuel wh, wh_ui = wh_ui wh\<rparr>"



section \<open>The app and its file agree\<close>


text \<open>An enrollment that awaits its activation, in a file, and a codec that prints it and its active form.\<close>

definition web_codec :: config_codec where
  "web_codec = \<lparr>cc_deps = sample_cdeps,
     cc_print_indent = (\<lambda>c. if c = sample_config then Inr ''active''
       else if c = sample_config\<lparr>cf_ActivationPending := True\<rparr> then Inr ''pending'' else Inl (ErrorText ''json'')),
     cc_print = (\<lambda>c. Inl (ErrorText ''json'')),
     cc_read_json = (\<lambda>b. if hd b = CHR ''a'' then Some sample_config
       else Some (sample_config\<lparr>cf_ActivationPending := True\<rparr>))\<rparr>"

definition web_machine :: machine where
  "web_machine = \<lparr>mc_files = [(''file'', \<lparr>fi_regular = True, fi_perm = 384, fi_identity = 0\<rparr>, ''pending'')],
     mc_items = [], mc_handles = [], mc_next = 1\<rparr>"

definition sample_pairing_host :: "(unit, unit, string list) pairing_host" where
  "sample_pairing_host = \<lparr>ph_net = script_net, ph_deps = sample_cdeps, ph_noise = plain_noise,
     ph_marshal = (\<lambda>j. Inl (ErrorText ''json'')), ph_now = (\<lambda>h. (0, h)), ph_deadline = (\<lambda>h. (None, h)),
     ph_actions = (\<lambda>h. ([], h)), ph_select = (\<lambda>h. (PairingMessage, h)), ph_choose = (\<lambda>h. (Decision, h))\<rparr>"

definition sample_web_host :: "(unit, unit, string list) web_host" where
  "sample_web_host = \<lparr>wh_pairing = sample_pairing_host,
     wh_store = \<lparr>cs_Load = (\<lambda>h. (Inl NotExist, h)), cs_Save = (\<lambda>c h. (None, h)), cs_Delete = (\<lambda>h. (None, h))\<rparr>,
     wh_hostIP = (\<lambda>a. Some (a = ''127.0.0.1:80'')), wh_mediaType = Some, wh_hostname = None,
     wh_execute = (\<lambda>operation h. (Inr JNull, h)), wh_fuel = 1, wh_ui = ''page''\<rparr>"

abbreviation machine_host :: "(unit, unit, string list \<times> machine) web_host" where
  "machine_host \<equiv> on_machine web_codec ''file'' sample_web_host"


lemma machine_host_sel [simp]:
  "wh_net machine_host = beside_net script_net" "wh_deps machine_host = sample_cdeps"
  "wh_store machine_host = beside_store (FileConfigStore web_codec machine_fs ''file'')"
  "wh_hostIP machine_host = wh_hostIP sample_web_host"
  by (simp_all add: on_machine_def beside_pairing_def sample_web_host_def sample_pairing_host_def)

lemma pending_config_valid: "Config_validate sample_cdeps (sample_config\<lparr>cf_ActivationPending := True\<rparr>) = None"
proof -
  have "Config_validate d (c\<lparr>cf_ActivationPending := b\<rparr>) = Config_validate d c" for d c b
    by (cases "relayURL d (cf_RelayURL c)"; cases "decode32 (cf_Secret c)";
        cases "decode32 (cf_NoisePrivateKey c)"; cases "decode32 (cf_ControllerNoiseKey c)")
      (simp_all add: Config_validate_def Let_def)
  then show ?thesis using sample_config_valid by simp
qed

lemma pending_loaded: "decodeStoredConfig web_codec ''pending'' = Inr (sample_config\<lparr>cf_ActivationPending := True\<rparr>)"
  by (simp add: decodeStoredConfig_def web_codec_def pending_config_valid maxStoredConfigBytes_def)

definition created_app :: "('n \<times> machine) App" where
  "created_app = startRelay (sample_config\<lparr>cf_ActivationPending := True\<rparr>)
     \<lparr>ap_relayURL = ''wss://relay'', ap_config = Some (sample_config\<lparr>cf_ActivationPending := True\<rparr>),
      ap_pairing = None, ap_done = False, ap_status = message_status ''Not enrolled'', ap_cancel = None,
      ap_next = 0, ap_relays = [], ap_uiToken = b64_encode (replicate 32 CHR 0x01),
      ap_bootstrapToken = b64_encode (replicate 32 CHR 0x01)\<rparr>"

lemma sample_created: "\<exists>m. NewAppWithStore machine_host ''wss://relay'' ([], web_machine) =
    (Inr created_app, ([], m)) \<and> mc_files m = mc_files web_machine \<and> mc_next m = 1"
proof -
  have url: "\<exists>u. relayURL sample_cdeps ''wss://relay'' = Inr u" by (simp add: relayURL_def sample_cdeps_def)
  have load: "\<exists>m. file_Load web_codec machine_fs ''file'' web_machine =
      (Inr (sample_config\<lparr>cf_ActivationPending := True\<rparr>), m) \<and> mc_files m = mc_files web_machine \<and> mc_next m = 1"
    by (simp add: file_Load_def machine_fs_def mc_file_def at_handle_def private_file_def web_machine_def
        maxStoredConfigBytes_def pending_loaded)
  have plain: "cf_RelayURL sample_config = ''wss://relay''" "\<not> cf_LinkRevoked sample_config"
    by (simp_all add: sample_config_def zero_Config_def)
  show ?thesis
    using url load
    by (auto simp: NewAppWithStore_def bind_step_def beside_def beside_store_def beside_second_def
        FileConfigStore_def pending_config_valid Let_def created_app_def plain)
qed


section \<open>Access\<close>

text \<open>What an unauthorised caller can get: a refusal, or the page of the interface, which is the same for all.\<close>

definition public_reply :: "('k, 'c, 'h) web_host \<Rightarrow> reply \<Rightarrow> bool" where
  "public_reply wh r \<longleftrightarrow> r = Page (wh_ui wh) \<or> (\<exists>n. r = Refused n)"

text \<open>The request carries the token of the UI; one that may change something is a JSON \<^verbatim>\<open>POST\<close> of the same origin.\<close>

definition authorised :: "('k, 'c, 'h) web_host \<Rightarrow> web_request \<Rightarrow> 'h App \<Rightarrow> bool" where
  "authorised wh req app \<longleftrightarrow> is_api (wr_Path req) \<and> validUIToken (wh_deps wh) app (wr_Token req) \<and>
     (wr_Method req = ''POST'' \<longrightarrow> wr_Origin req \<in> {'''', ''http://'' @ wr_Host req} \<and>
        wh_mediaType wh (wr_ContentType req) = Some ''application/json'')"

lemma post_paths: "post_route wh path body app h = Some (r, app', h') \<Longrightarrow> is_api path \<or> (r = Refused 405 \<and> app' = app \<and> h' = h)"
  by (auto simp: post_route_def is_api_def HasPrefix_def split: if_splits)

text \<open>C34: a request that changes the app or its host, or is answered with anything but a refusal or the
  public page, has a \<^verbatim>\<open>Host\<close> header that names a loopback address (so it is not one that a foreign name was
  rebound to) and either carries the UI token (and then reads the state, or is a JSON POST of the same
  origin), or it is the one that exchanges the bootstrap token, which changes nothing but that token.\<close>

theorem only_authorised_requests:
  assumes "serve wh req app h = Some (r, app', h')" and "\<not> (public_reply wh r \<and> app' = app \<and> h' = h)"
  shows "wh_hostIP wh (wr_Host req) = Some True \<and>
    ((authorised wh req app \<and> (wr_Method req = ''POST'' \<or> app' = app \<and> h' = h)) \<or>
     (\<exists>token. wr_Query req = [(''bootstrap'', [token])] \<and> ap_bootstrapToken app \<noteq> '''' \<and>
        k_sha256 (wh_deps wh) token = k_sha256 (wh_deps wh) (ap_bootstrapToken app) \<and>
        r = TokenPage (ap_uiToken app) \<and> app' = app\<lparr>ap_bootstrapToken := ''''\<rparr> \<and> h' = h))"
proof (cases "guard wh req app")
  case (Some refusal)
  with assms show ?thesis
    by (auto simp: serve_def guard_def public_reply_def split: if_splits)
next
  case None
  then have host: "wh_hostIP wh (wr_Host req) = Some True" by (auto simp: guard_def split: if_splits)
  show ?thesis
  proof (cases "wr_Method req = ''POST''")
    case True
    with assms None have "post_route wh (wr_Path req) (wr_Body req) app h = Some (r, app', h')"
      by (simp add: serve_def)
    from post_paths [OF this] assms(2) have "is_api (wr_Path req)" by (auto simp: public_reply_def)
    with None True host show ?thesis by (auto simp: guard_def authorised_def split: if_splits)
  next
    case False
    with assms None host show ?thesis
      by (auto simp: serve_def handleState_def handleIndex_def consumeBootstrap_def public_reply_def
          authorised_def guard_def is_api_def HasPrefix_def split: if_splits list.splits prod.splits)
  qed
qed

definition open_page :: "string \<Rightarrow> web_request" where
  "open_page token = \<lparr>wr_Host = ''127.0.0.1:80'', wr_Path = ''/'', wr_Method = ''GET'', wr_Token = '''',
     wr_Origin = '''', wr_ContentType = '''', wr_RawQuery = ''bootstrap='' @ token,
     wr_Query = [(''bootstrap'', [token])], wr_Body = ''''\<rparr>"

lemma sample_opened: "serve machine_host (open_page (b64_encode (replicate 32 CHR 0x01))) created_app s =
    Some (TokenPage (b64_encode (replicate 32 CHR 0x01)), created_app\<lparr>ap_bootstrapToken := ''''\<rparr>, s)"
proof -
  have "ap_bootstrapToken (created_app :: (string list \<times> machine) App) = b64_encode (replicate 32 CHR 0x01)"
    "ap_uiToken (created_app :: (string list \<times> machine) App) = b64_encode (replicate 32 CHR 0x01)"
    by (simp_all add: created_app_def startRelay_def)
  moreover have "wh_hostIP machine_host ''127.0.0.1:80'' = Some True"
    by simp (simp add: sample_web_host_def)
  ultimately show ?thesis
    by (simp add: serve_def guard_def open_page_def is_api_def HasPrefix_def handleIndex_def consumeBootstrap_def)
qed




theorem only_authorised_requests_witness:
  "serve machine_host (open_page (b64_encode (replicate 32 CHR 0x01))) created_app ([], web_machine) =
     Some (TokenPage (b64_encode (replicate 32 CHR 0x01)), created_app\<lparr>ap_bootstrapToken := ''''\<rparr>, ([], web_machine)) \<and>
   \<not> public_reply machine_host (TokenPage (b64_encode (replicate 32 CHR 0x01))) \<and>
   wh_hostIP machine_host (wr_Host (open_page (b64_encode (replicate 32 CHR 0x01)))) = Some True"
proof (intro conjI)
  note o = sample_opened [of "([], web_machine)"]
  show "serve machine_host (open_page (b64_encode (replicate 32 CHR 0x01))) created_app ([], web_machine) =
     Some (TokenPage (b64_encode (replicate 32 CHR 0x01)), created_app\<lparr>ap_bootstrapToken := ''''\<rparr>, ([], web_machine))"
    by (rule o)
  show p: "\<not> public_reply machine_host (TokenPage (b64_encode (replicate 32 CHR 0x01)))"
    by (simp add: public_reply_def)
  from only_authorised_requests [OF o] p
  show "wh_hostIP machine_host (wr_Host (open_page (b64_encode (replicate 32 CHR 0x01)))) = Some True" by blast
qed


section \<open>The page with the UI token\<close>

lemma bootstrap_fields [simp]:
  "ap_bootstrapToken (startRelay c app) = ap_bootstrapToken app"
  "ap_bootstrapToken (set_status m app) = ap_bootstrapToken app"
  "ap_bootstrapToken (stop_relay app) = ap_bootstrapToken app"
  "ap_bootstrapToken (Close app) = ap_bootstrapToken app"
  "ap_bootstrapToken (reconcilePairing pa res app) = ap_bootstrapToken app"
  by (auto simp: startRelay_def set_status_def stop_relay_def Close_def reconcilePairing_def split: prod.split)

definition token_page :: "reply option \<Rightarrow> bool" where
  "token_page r \<longleftrightarrow> (\<exists>token. r = Some (TokenPage token))"

definition pages_left :: "'h App \<Rightarrow> nat" where
  "pages_left app = (if ap_bootstrapToken app = '''' then 0 else 1)"

lemma on_attempt_bootstrap: "on_attempt act app = Some app' \<Longrightarrow> ap_bootstrapToken app' = ap_bootstrapToken app"
  by (auto simp: on_attempt_def split: option.splits if_splits prod.splits)

lemma enroll_bootstrap: "handleEnroll wh body app h = (r, app', h') \<Longrightarrow>
    ap_bootstrapToken app' = ap_bootstrapToken app \<and> \<not> token_page (Some r)"
  by (auto simp: handleEnroll_def enrolled_def Let_def token_page_def
      split: if_splits sum.splits prod.splits option.splits)

lemma start_bootstrap: "handlePairingStart wh body app h = Some (r, app', h') \<Longrightarrow>
    ap_bootstrapToken app' = ap_bootstrapToken app \<and> \<not> token_page (Some r)"
  by (auto simp: handlePairingStart_def token_page_def case_prod_beta split: if_splits)
    (auto split: sum.splits)

lemma handler_bootstrap:
  "handlePairingDecision wh b body app h = (r, app', h') \<Longrightarrow> ap_bootstrapToken app' = ap_bootstrapToken app \<and> \<not> token_page (Some r)"
  "handlePairingCancel wh body app h = (r, app', h') \<Longrightarrow> ap_bootstrapToken app' = ap_bootstrapToken app \<and> \<not> token_page (Some r)"
  "handleRelayWake wh body app h = (r, app', h') \<Longrightarrow> ap_bootstrapToken app' = ap_bootstrapToken app \<and> \<not> token_page (Some r)"
  "handleForget wh body app h = (r, app', h') \<Longrightarrow> ap_bootstrapToken app' = ap_bootstrapToken app \<and> \<not> token_page (Some r)"
  "handleAction wh body app h = (r, app', h') \<Longrightarrow> ap_bootstrapToken app' = ap_bootstrapToken app \<and> \<not> token_page (Some r)"
  by (auto simp: handlePairingDecision_def handlePairingCancel_def handleRelayWake_def handleForget_def
      handleAction_def token_page_def Let_def split: option.splits if_splits prod.splits sum.splits
      dest: on_attempt_bootstrap)

lemma reset_bootstrap: "handleReset wh body app h = (r, app', h') \<Longrightarrow>
    ap_bootstrapToken app' = ap_bootstrapToken app \<and> \<not> token_page (Some r)"
  by (auto simp: handleReset_def reset_confirmed_def token_page_def Let_def
      split: option.splits if_splits prod.splits)

definition keeps_pages :: "'h App \<Rightarrow> reply \<Rightarrow> 'h App \<Rightarrow> bool" where
  "keeps_pages app r app' \<longleftrightarrow> ap_bootstrapToken app' = ap_bootstrapToken app \<and> \<not> token_page (Some r)"

lemmas handlers_keep = enroll_bootstrap start_bootstrap handler_bootstrap reset_bootstrap

lemma post_pages: "post_route wh path body app h = Some (r, app', h') \<Longrightarrow> keeps_pages app r app'"
  unfolding post_route_def keeps_pages_def
  by (auto simp: token_page_def split: if_splits dest: handlers_keep [unfolded token_page_def])

lemma index_pages: "handleIndex wh req app h = (r, app', h') \<Longrightarrow>
    keeps_pages app r app' \<or> pages_left app' < pages_left app"
  by (auto simp: handleIndex_def consumeBootstrap_def keeps_pages_def pages_left_def token_page_def
      split: if_splits list.splits prod.splits)

lemma serve_pages:
  assumes "serve wh req app h = Some (r, app', h')"
  shows "keeps_pages app r app' \<or> pages_left app' < pages_left app"
proof (cases "guard wh req app")
  case (Some refusal)
  with assms show ?thesis by (auto simp: serve_def keeps_pages_def guard_def token_page_def split: if_splits)
next
  case None
  with assms show ?thesis
    using post_pages [of wh "wr_Path req" "wr_Body req" app h r app' h'] index_pages [of wh req app h r app' h']
    by (auto simp: serve_def handleState_def keeps_pages_def token_page_def split: if_splits)
qed

lemma step_pages:
  assumes "app_step wh (app, h) r (app', h')"
  shows "(if token_page r then 1 else 0) + pages_left app' \<le> pages_left app"
  using assms
  by (rule app_stepE)
    (auto simp: applyRelayStatus_def finishPairing_def Let_def pages_left_def keeps_pages_def token_page_def
      dest!: serve_pages split: if_splits option.splits prod.splits)

text \<open>C35: in a whole run of the app, whatever is requested and whatever happens in between, the page that
  carries the UI token is served at most once.\<close>

theorem token_page_served_once:
  assumes "app_run wh relay h0 rs s"
  shows "length (filter token_page rs) \<le> 1"
proof -
  have "length (filter token_page rs) + pages_left (fst s) \<le> 1"
    using assms
  proof (induction rule: app_run.induct)
    case (created app h) then show ?case by (simp add: pages_left_def)
  next
    case (step rs s r s')
    obtain app h app' h' where s: "s = (app, h)" "s' = (app', h')" by (metis surj_pair)
    have "length (filter token_page [r]) = (if token_page r then 1 else 0)" by simp
    with step_pages [OF step.hyps(2) [unfolded s]] step.IH show ?case
      unfolding s fst_conv filter_append length_append by linarith
  qed
  then show ?thesis by simp
qed

theorem token_page_served_once_witness:
  "\<exists>rs s. app_run machine_host ''wss://relay'' ([], web_machine) rs s \<and> length (filter token_page rs) = 1"
proof -
  obtain m where m: "NewAppWithStore machine_host ''wss://relay'' ([], web_machine) = (Inr created_app, ([], m))"
    using sample_created by blast
  from app_run.step [OF app_run.created [OF m] app_step.served [OF sample_opened]]
  have run: "app_run machine_host ''wss://relay'' ([], web_machine) [Some (TokenPage (b64_encode (replicate 32 CHR 0x01)))] (created_app\<lparr>ap_bootstrapToken := ''''\<rparr>, ([], m))" by simp
  from token_page_served_once [OF run] have "length (filter token_page [Some (TokenPage (b64_encode (replicate 32 CHR 0x01)))]) = 1" by (simp add: token_page_def)
  with run show ?thesis by blast
qed

end
