(* ===== verification/CleanupBound.thy ===== *)
theory CleanupBound
  imports World StoreLogic
begin

text \<open>
  The recursion of \<^verbatim>\<open>cleanup\<close> and \<^verbatim>\<open>notify\<close> in \<^verbatim>\<open>handler.go\<close> ends: a clean-up goes on to notify others only after
  it has deleted the row of its connection, and no step of it adds one. So the fuel of the model's
  \<open>cleanup\<close> is never used up, and its amount is irrelevant, as soon as it exceeds the number of connections.
\<close>

section \<open>The connections of a table\<close>

definition connections :: "table \<Rightarrow> string set" where
  "connections t = {i. t (KConnection, i) \<noteq> None}"

definition away :: "twrite \<Rightarrow> bool" where
  "away w \<longleftrightarrow> fst (write_key w) \<noteq> KConnection"

lemma away_connections:
  assumes "list_all away ws"
  shows "connections (apply_writes ws t) = connections t"
proof -
  have "apply_writes ws t (KConnection, i) = t (KConnection, i)" for i
  proof (rule apply_writes_other, rule)
    assume "(KConnection, i) \<in> write_key ` set ws"
    then obtain w where "w \<in> set ws" "write_key w = (KConnection, i)" by auto
    with assms show False by (auto simp: away_def list_all_iff)
  qed
  then show ?thesis by (simp add: connections_def)
qed

lemma write_fields [simp]:
  "write_key (deleteConnection c) = (KConnection, c)" "away (closePairWrite p c)"
  "away (removeEndpointWrite e c x)" "away (cancelWrite p)" "away (closeWrite z n)"
  "away (unlinkWrite l z)" "away (unpointWrite e z f)" "away (endpointFence e c)"
  by (simp_all add: deleteConnection_def closePairWrite_def removeEndpointWrite_def cancelWrite_def
      closeWrite_def unlinkWrite_def unpointWrite_def endpointFence_def away_def)

text \<open>Deleting the row of a connection, which must be there.\<close>

lemma delete_connections:
  assumes "writes_ok (deleteConnection c # ws) t" and "list_all away ws"
  shows "connections (apply_writes (deleteConnection c # ws) t) \<subset> connections t"
proof -
  have "c \<in> connections t" using assms(1)
    by (simp add: writes_ok_def write_ok_def deleteConnection_def connections_def)
  moreover have "connections (apply_write (deleteConnection c) t) = connections t - {c}"
    by (auto simp: deleteConnection_def connections_def)
  moreover have "connections (apply_writes (deleteConnection c # ws) t) = connections (apply_write (deleteConnection c) t)"
    using away_connections [OF assms(2)] by (simp add: apply_writes_Cons)
  ultimately show ?thesis by auto
qed

section \<open>What the store leaves\<close>

text \<open>\<open>leaves p R\<close>: \<open>p\<close> adds no connection, and its result satisfies \<open>R\<close>, whatever fails.\<close>

definition leaves :: "'a prog \<Rightarrow> ('a \<Rightarrow> bool) \<Rightarrow> bool" where
  "leaves p R \<longleftrightarrow> (\<forall>t. wp False any_post p t (\<lambda>r t'. R r \<and> connections t' \<subseteq> connections t))"

lemma leavesI: "(\<And>t. wp False any_post p t (\<lambda>r t'. R r \<and> connections t' \<subseteq> connections t)) \<Longrightarrow> leaves p R"
  by (simp add: leaves_def)

lemma leaves_wp:
  assumes "leaves p R" and "\<And>r t'. R r \<Longrightarrow> connections t' \<subseteq> connections t \<Longrightarrow> Q r t'"
  shows "wp False any_post p t Q"
  by (rule wp_mono [OF assms(1) [unfolded leaves_def, rule_format]]) (use assms(2) in simp)

definition finished :: "err + 'a \<Rightarrow> bool" where
  "finished r \<longleftrightarrow> r \<noteq> Inl EUnfinished"

lemma finished_simps [simp]: "finished (Inr x)" "finished (Inl (EApi e))" "finished (Inl (EText m))"
  "finished (Inl (serviceError c))" "finished (Inl (retryableError c))" "finished (Inl (EService v))"
  by (simp_all add: finished_def serviceError_def retryableError_def)

lemma wp_away_transact:
  assumes "list_all away ws" and "\<And>e t'. finished (Inl e) \<Longrightarrow> connections t' \<subseteq> connections t \<Longrightarrow> Q (Some e) t'"
    and "\<And>t'. connections t' \<subseteq> connections t \<Longrightarrow> Q None t'"
  shows "wp False any_post (transactP ws) t Q"
  by (rule wp_transactP) (auto intro: assms simp: away_connections [OF assms(1)])

lemma leaves_CancelPair: "leaves (CancelPair p c n) finished"
proof (rule leavesI)
  fix t
  have update: "connections (apply_write (cancelWrite q) t) = connections t" for q
    using away_connections [of "[cancelWrite q]" t] by (simp add: apply_writes_def)
  show "wp False any_post (CancelPair p c n) t (\<lambda>r t'. finished r \<and> connections t' \<subseteq> connections t)"
    by (auto simp: CancelPair_def PairByID_def wp_bindP wp_bindE updateP_def update
        split: option.splits sum.splits)
qed

section \<open>Disconnecting\<close>

text \<open>A disconnection that found its connection has deleted it.\<close>

definition sheds :: "string set \<Rightarrow> (err + 'a option) \<Rightarrow> table \<Rightarrow> bool" where
  "sheds c r t \<longleftrightarrow> finished r \<and> connections t \<subseteq> c \<and> (\<forall>x. r = Inr (Some x) \<longrightarrow> connections t \<subset> c)"

definition attempt_sheds :: "string set \<Rightarrow> (err + 'a option) attempt \<Rightarrow> table \<Rightarrow> bool" where
  "attempt_sheds c r t \<longleftrightarrow> (case r of Continue \<Rightarrow> connections t \<subseteq> c | Return x \<Rightarrow> sheds c x t)"

lemma attempt_sheds_simps [simp]:
  "attempt_sheds c Continue t \<longleftrightarrow> connections t \<subseteq> c" "attempt_sheds c (Return r) t \<longleftrightarrow> sheds c r t"
  by (simp_all add: attempt_sheds_def)

lemma sheds_simps [simp]:
  "sheds c (Inl e) t \<longleftrightarrow> e \<noteq> EUnfinished \<and> connections t \<subseteq> c" "sheds c (Inr None) t \<longleftrightarrow> connections t \<subseteq> c"
  "sheds c (Inr (Some x)) t \<longleftrightarrow> connections t \<subset> c"
  by (auto simp: sheds_def finished_def)

lemma wp_delete_transact:
  assumes "connections t \<subseteq> c" and "list_all away ws"
    and "\<And>e t'. finished (Inl e) \<Longrightarrow> connections t' \<subseteq> c \<Longrightarrow> Q (Some e) t'"
    and "\<And>t'. connections t' \<subset> c \<Longrightarrow> Q None t'"
  shows "wp False any_post (transactP (deleteConnection i # ws)) t Q"
proof (rule wp_transactP)
  assume w: "writes_ok (deleteConnection i # ws) t"
  note d = delete_connections [OF w assms(2)]
  with assms(1) show "Q None (apply_writes (deleteConnection i # ws) t)" by (intro assms(4)) auto
  show "Q (Some (EApi e)) (apply_writes (deleteConnection i # ws) t)" for e
    using d assms(1) by (intro assms(3)) auto
next
  show "Q (Some (EApi e)) t" for e using assms(1) by (intro assms(3)) auto
qed

lemma wp_delete_attempt:
  assumes "connections t \<subseteq> c" and "list_all away ws"
  shows "wp False any_post (bindP (transactP (deleteConnection i # ws)) (afterWrite (Some x))) t (attempt_sheds c)"
  unfolding wp_bindP wp_afterWrite
  by (rule wp_delete_transact [OF assms]) (auto simp: finished_def)

lemma leaves_linkOps: "leaves (linkOps z omit) (\<lambda>r. finished r \<and> (\<forall>ws. r = Inr ws \<longrightarrow> list_all away ws))"
  by (rule leavesI) (auto simp: linkOps_def Store_Link_def wp_bindE split: option.splits)

lemma wp_endpointOps:
  "wp False any_post (endpointOps i omit fences es) t
     (\<lambda>r t'. t' = t \<and> finished r \<and> (\<forall>ws f. r = Inr (ws, f) \<longrightarrow> list_all away ws))"
proof (induction es)
  case (Cons e es)
  show ?case
    by (auto simp: wp_bindE GetEndpoint_def Cons.IH split: option.splits sum.splits intro!: wp_mono [OF Cons.IH])
qed simp

lemma fenceOps_away: "list_all away (fenceOps omit fences fenced)"
  by (auto simp: fenceOps_def list_all_iff)

lemma wp_transition:
  assumes sub: "connections t \<subseteq> c" and aw: "list_all away ws"
    and err: "\<And>e t'. e \<noteq> EUnfinished \<Longrightarrow> connections t' \<subseteq> c \<Longrightarrow> Q (Inl e) t'"
    and done_: "\<And>b t'. connections t' \<subset> c \<Longrightarrow> Q (Inr b) t'"
  shows "wp False any_post (transactSessionTransition z n (deleteConnection i # ws) omit fences) t Q"
proof -
  have tail: "wp False any_post (bindP (transactP (deleteConnection i # vs))
      (\<lambda>e. case e of None \<Rightarrow> okP b | Some x \<Rightarrow> failP x)) t1 Q"
    if "connections t1 \<subseteq> c" "list_all away vs" for vs t1 b
    unfolding wp_bindP
    by (rule wp_delete_transact [OF that]) (auto intro: err done_ simp: finished_def)
  show ?thesis
    unfolding transactSessionTransition_def Let_def wp_bindE [of _ _ "linkOps z omit"]
  proof (rule leaves_wp [OF leaves_linkOps], goal_cases)
    case (1 r t1)
    show ?case
    proof (cases r)
      case (Inl e)
      with 1 sub show ?thesis by (auto intro!: err simp: finished_def)
    next
      case (Inr lops)
      with 1 sub have l: "list_all away lops" "connections t1 \<subseteq> c" by auto
      show ?thesis
        unfolding Inr sum.case wp_bindE
      proof (rule wp_mono [OF wp_endpointOps], goal_cases)
        case (1 r2 t2)
        show ?case
        proof (cases r2)
          case (Inl e)
          with 1 l show ?thesis by (auto intro!: err simp: finished_def)
        next
          case (Inr p)
          with 1 l have "list_all away (fst p)" "connections t2 \<subseteq> c" by (cases p; auto)+
          then show ?thesis
            using l aw fenceOps_away [of omit fences "snd p"] unfolding Inr sum.case
            by (auto simp: case_prod_beta intro!: tail)
        qed
      qed
    qed
  qed
qed

lemma wp_Disconnect: "wp False any_post (Disconnect i n) t (sheds (connections t))"
  unfolding Disconnect_def
proof (rule wp_retry [where I = "\<lambda>t'. connections t' \<subseteq> connections t"])
  show "wp False any_post (failP (retryableError Conflict)) t' (sheds (connections t))"
    if "connections t' \<subseteq> connections t" for t' using that by (simp add: retryableError_def)
next
  fix t1 assume t1: "connections t1 \<subseteq> connections t"
  let ?C = "connections t"
  note delete = wp_delete_attempt [OF t1]
  have alone: "wp False any_post (bindP (transactP [deleteConnection i]) (afterWrite (Some x))) t1 (attempt_sheds ?C)" for x :: DisconnectResult
    by (rule delete) simp
  have both: "wp False any_post (bindP (transactP [deleteConnection i, v]) (afterWrite (Some x))) t1 (attempt_sheds ?C)"
    if "away v" for x :: DisconnectResult and v by (rule delete) (simp add: that)
  have ended: "wp False any_post (bindP (transactSessionTransition z n [deleteConnection i, v] omit fences) (afterTransition (\<lambda>b. Some (f b))))
      t1 (attempt_sheds ?C)" if "away v" for z v omit fences and f :: "bool \<Rightarrow> DisconnectResult"
    unfolding wp_bindP wp_afterTransition
    by (rule wp_transition [OF t1]) (use that in auto)
  have endpoint: "wp False any_post (disconnectEndpoint c i n e) t1 (attempt_sheds ?C)" for c e
  proof (cases "e_ActiveSessionID e = []")
    case True
    then show ?thesis using both by (simp add: disconnectEndpoint_def)
  next
    case False
    then show ?thesis
      using t1 both ended unfolding disconnectEndpoint_def Let_def
      by (cases "t1 (KSession, e_ActiveSessionID e)") (simp_all add: wp_tryR)
  qed
  have pairing: "wp False any_post (disconnectPairing c i) t1
      (\<lambda>r t'. t' = t1 \<and> finished r \<and> (\<forall>ws. r = Inr ws \<longrightarrow> ws = [deleteConnection i] \<or> (\<exists>v. ws = [deleteConnection i, v] \<and> away v)))"
    for c
    by (simp add: disconnectPairing_def wp_bindE split: option.split)
  have lobby: "wp False any_post (tryR (disconnectPairing c i) (\<lambda>ws. bindP (transactP ws) (afterWrite (Some x)))) t1
      (attempt_sheds ?C)" for c and x :: DisconnectResult
    unfolding wp_tryR
    by (rule wp_mono [OF pairing]) (use t1 alone both in \<open>auto simp: finished_def split: sum.split\<close>)
  have "wp False any_post (Disconnect_attempt i n) t1 (attempt_sheds ?C)"
  proof (cases "t1 (KConnection, i)")
    case None
    with t1 show ?thesis by (simp add: Disconnect_attempt_def wp_tryR)
  next
    case (Some item)
    define c where "c = unmarshal_Connection item"
    show ?thesis
    proof (cases "c_EndpointID c = []")
      case True
      with Some t1 lobby show ?thesis by (simp add: Disconnect_attempt_def wp_tryR [of _ _ "get_as _ _"] c_def)
    next
      case False
      with Some t1 alone endpoint show ?thesis
        by (cases "t1 (KEndpoint, c_EndpointID c)")
          (simp_all add: Disconnect_attempt_def wp_tryR c_def GetEndpoint_def)
    qed
  qed
  then show "wp False any_post (Disconnect_attempt i n) t1
      (\<lambda>r t'. case r of Continue \<Rightarrow> connections t' \<subseteq> ?C | Return x \<Rightarrow> sheds ?C x t')"
    by (rule wp_mono) (auto split: attempt.split)
qed simp

section \<open>Fuel is irrelevant\<close>

text \<open>
  \<open>agree N R p q\<close>: from a table with fewer than \<open>N\<close> connections the two programs run alike, whatever the services
  answer; they add no connection and their result satisfies \<open>R\<close>.
\<close>

definition few :: "nat \<Rightarrow> table \<Rightarrow> bool" where
  "few N t \<longleftrightarrow> finite (connections t) \<and> card (connections t) < N"

lemma few_mono: "few N t \<Longrightarrow> connections t' \<subseteq> connections t \<Longrightarrow> few N t'"
  unfolding few_def by (meson card_mono finite_subset le_less_trans)

lemma few_less: "few (Suc N) t \<Longrightarrow> connections t' \<subset> connections t \<Longrightarrow> few N t'"
  unfolding few_def using psubset_card_mono [of "connections t" "connections t'"]
  by (auto intro: finite_subset)

definition agree :: "'s world \<Rightarrow> ('s \<Rightarrow> table) \<Rightarrow> nat \<Rightarrow> ('a \<Rightarrow> bool) \<Rightarrow> 'a prog \<Rightarrow> 'a prog \<Rightarrow> bool" where
  "agree w view N R p q \<longleftrightarrow> (\<forall>s. few N (view s) \<longrightarrow> run w p s = run w q s \<and>
     R (fst (run w p s)) \<and> connections (view (snd (run w p s))) \<subseteq> connections (view s))"

lemma agree_Ret: "R x \<Longrightarrow> agree w view N R (Ret x) (Ret x)"
  by (simp add: agree_def)

lemma agree_ok: "agree w view N finished (okP x) (okP x)"
  by (simp add: agree_def prog_defs)

lemma agree_fail: "finished (Inl e :: err + 'a) \<Longrightarrow> agree w view N finished (failP e :: (err + 'a) prog) (failP e)"
  by (simp add: agree_def prog_defs)

lemma agree_bindP:
  assumes "agree w view N R p q" and "\<And>x. R x \<Longrightarrow> agree w view N R' (f x) (g x)"
  shows "agree w view N R' (bindP p f) (bindP q g)"
  unfolding agree_def
proof (intro allI impI)
  fix s assume s: "few N (view s)"
  obtain x s1 where r: "run w p s = (x, s1)" by (metis surj_pair)
  with assms(1) s have q: "run w q s = (x, s1)" "R x" "connections (view s1) \<subseteq> connections (view s)"
    using assms(1) [unfolded agree_def, rule_format, OF s] by (metis fst_conv snd_conv)+
  from assms(2) [OF q(2), unfolded agree_def, rule_format, OF few_mono [OF s q(3)]] q r
  show "run w (bindP p f) s = run w (bindP q g) s \<and> R' (fst (run w (bindP p f) s)) \<and>
      connections (view (snd (run w (bindP p f) s))) \<subseteq> connections (view s)"
    by (simp add: run_bindP) (metis subset_trans)
qed

lemma agree_bindE:
  assumes "agree w view N finished p q" and "\<And>x. agree w view N finished (f x) (g x)"
  shows "agree w view N finished (bindE p f) (bindE q g)"
  unfolding bindE_def
  by (rule agree_bindP [OF assms(1)]) (use assms(2) in \<open>auto intro: agree_Ret simp: finished_def split: sum.split\<close>)

definition cleaners_agree :: "'s world \<Rightarrow> ('s \<Rightarrow> table) \<Rightarrow> nat \<Rightarrow> cleaner \<Rightarrow> cleaner \<Rightarrow> bool" where
  "cleaners_agree w view N cl cl' \<longleftrightarrow> (\<forall>c reason b. agree w view N finished (cl c reason b) (cl' c reason b))"

context dynamo
begin

lemma agree_leaves:
  assumes "leaves p R"
  shows "agree w view N R p p"
  unfolding agree_def
proof (intro allI impI)
  fix s
  obtain x s1 where r: "run w p s = (x, s1)" by (metis surj_pair)
  from wp_sound [OF assms [unfolded leaves_def, rule_format] r] r
  show "run w p s = run w p s \<and> R (fst (run w p s)) \<and> connections (view (snd (run w p s))) \<subseteq> connections (view s)"
    by simp
qed

lemma call_view: "view (snd (w_now w s)) = view s" "view (snd (w_id w s)) = view s" "view (snd (w_post w c m s)) = view s"
  by (metis now_view id_view post_view prod.collapse)+

lemma agree_call:
  "agree w view N (\<lambda>_. True) nowP nowP" "agree w view N (\<lambda>_. True) idP idP"
  "agree w view N (\<lambda>e. \<forall>x. e = Some x \<longrightarrow> x \<noteq> EUnfinished) (postP c m) (postP c m)"
  by (auto simp: agree_def nowP_def idP_def postP_def call_view case_prod_beta)

lemma agree_notify:
  assumes "cleaners_agree w view N cl cl'"
  shows "agree w view N finished (notify cl c m) (notify cl' c m)"
proof -
  have step: "agree w view N finished (bindP (postP c m) (\<lambda>e. case e of None \<Rightarrow> okP True
      | Some x \<Rightarrow> if \<not> gone x then failP x else bindE (cl c ''peer-disconnected'' False) (\<lambda>_. okP False)))
    (bindP (postP c m) (\<lambda>e. case e of None \<Rightarrow> okP True
      | Some x \<Rightarrow> if \<not> gone x then failP x else bindE (cl' c ''peer-disconnected'' False) (\<lambda>_. okP False)))"
    by (rule agree_bindP [OF agree_call(3)])
      (use assms in \<open>auto simp: cleaners_agree_def finished_def split: option.split
        intro: agree_ok agree_fail agree_bindE\<close>)
  then show ?thesis by (auto simp: notify_def notifyWithPairEvent_def intro: agree_ok)
qed

lemma agree_notifyEach:
  assumes "cleaners_agree w view N cl cl'"
  shows "agree w view N finished (notifyEach cl m skip cs) (notifyEach cl' m skip cs)"
  by (induction cs) (auto intro: agree_ok agree_bindE agree_notify [OF assms])

lemma agree_closed:
  assumes "cleaners_agree w view N cl cl'"
  shows "agree w view N finished (notifyClosedSession cl z reason skip) (notifyClosedSession cl' z reason skip)"
  unfolding notifyClosedSession_def
  by (auto simp del: notifyEach.simps split: option.split
      intro!: agree_ok agree_bindP [OF agree_call(2)] agree_notifyEach [OF assms])

lemma agree_pair:
  assumes "cleaners_agree w view N cl cl'"
  shows "agree w view N finished (cleanupPair cl p c reason b) (cleanupPair cl' p c reason b)"
  unfolding cleanupPair_def
  by (rule agree_bindP [OF agree_call(1)], rule agree_bindP [OF agree_leaves [OF leaves_CancelPair]])
    (auto simp: peerConnection_def finished_def serviceError_def split: sum.split option.split if_splits
      intro!: agree_ok agree_fail agree_bindP [OF agree_call(2)] agree_bindE agree_notify [OF assms])

text \<open>One step of the clean-up: what it calls runs with one connection less.\<close>

lemma agree_step:
  assumes "cleaners_agree w view N cl cl'"
  shows "cleaners_agree w view (Suc N) (cleanup_step cl) (cleanup_step cl')"
  unfolding cleaners_agree_def cleanup_step_def
proof (intro allI, rule agree_bindP [OF agree_call(1)])
  fix c reason b now
  let ?f = "\<lambda>cl found. case found of None \<Rightarrow> okP () | Some result \<Rightarrow>
      bindE (if c_PairingID (dr_Connection result) \<noteq> '''' then
          cleanupPair cl (c_PairingID (dr_Connection result)) c reason b else okP ())
        (\<lambda>_. notifyClosedSession cl (dr_Session result) reason c)"
  have rest: "agree w view N finished (?f cl (Some result)) (?f cl' (Some result))" for result
    by (auto intro!: agree_bindE agree_pair [OF assms] agree_ok agree_closed [OF assms])
  show "agree w view (Suc N) finished (bindE (Disconnect c now) (?f cl)) (bindE (Disconnect c now) (?f cl'))"
    unfolding agree_def
  proof (intro allI impI)
    fix s assume s: "few (Suc N) (view s)"
    obtain r s1 where r: "run w (Disconnect c now) s = (r, s1)" by (metis surj_pair)
    note shed = wp_sound [OF wp_Disconnect r]
    show "run w (bindE (Disconnect c now) (?f cl)) s = run w (bindE (Disconnect c now) (?f cl')) s \<and>
        finished (fst (run w (bindE (Disconnect c now) (?f cl)) s)) \<and>
        connections (view (snd (run w (bindE (Disconnect c now) (?f cl)) s))) \<subseteq> connections (view s)"
    proof (cases "\<exists>result. r = Inr (Some result)")
      case True
      then obtain result where res: "r = Inr (Some result)" by blast
      with shed have sub: "connections (view s1) \<subset> connections (view s)" by simp
      from rest [of result, unfolded agree_def, rule_format, OF few_less [OF s sub]] sub r res
      show ?thesis by (auto simp: bindE_def run_bindP)
    next
      case False
      then consider e where "r = Inl e" | "r = Inr None" by (cases r) auto
      then show ?thesis using shed r by cases (auto simp: bindE_def run_bindP okP_def finished_def)
    qed
  qed
qed

lemma cleanup_agree: "N \<le> n \<Longrightarrow> N \<le> m \<Longrightarrow> cleaners_agree w view N (cleanup n) (cleanup m)"
proof (induction N arbitrary: n m)
  case 0 then show ?case by (simp add: cleaners_agree_def agree_def few_def)
next
  case (Suc N)
  then obtain n' m' where nm: "n = Suc n'" "m = Suc m'" by (metis Suc_le_D)
  from agree_step [OF Suc.IH [of n' m']] Suc.prems nm show ?case by simp
qed

end

text \<open>C36: cleaning up a connection ends by itself. From a table with finitely many connections, whichever
  requests fail and whichever sockets are gone, every fuel above their number gives the same run of the
  recursive clean-up, and it never ends for lack of fuel: the recursion is at most as deep as there are
  connections, since each level has deleted one.\<close>

theorem cleanup_ends:
  assumes "dynamo w view" and "finite (connections (view s))"
    and "card (connections (view s)) < n" and "card (connections (view s)) < m"
  shows "run w (cleanup n c reason b) s = run w (cleanup m c reason b) s \<and>
    fst (run w (cleanup n c reason b) s) \<noteq> Inl EUnfinished"
proof -
  define N where "N = Suc (card (connections (view s)))"
  have "few N (view s)" "N \<le> n" "N \<le> m" using assms(2-4) by (simp_all add: N_def few_def)
  with dynamo.cleanup_agree [OF assms(1), of N n m] show ?thesis
    unfolding cleaners_agree_def agree_def finished_def by blast
qed

definition two_connections :: ref_state where
  "two_connections = \<lparr>rs_table = [(KConnection, ''a'') \<mapsto> empty_item, (KConnection, ''b'') \<mapsto> empty_item],
     rs_now = 100, rs_next = 0, rs_sent = [], rs_gone = [''a'']\<rparr>"

lemma two_connections_set: "connections (rs_table two_connections) = {''a'', ''b''}"
  by (auto simp: connections_def two_connections_def split: if_splits)

theorem cleanup_ends_witness:
  "run ref_world (cleanup 3 ''a'' ''gone'' True) two_connections =
     run ref_world (cleanup 100 ''a'' ''gone'' True) two_connections \<and>
   fst (run ref_world (cleanup 3 ''a'' ''gone'' True) two_connections) \<noteq> Inl EUnfinished"
  by (rule cleanup_ends [OF ref.dynamo_axioms]) (simp_all add: two_connections_set)

end
