(* ===== verification/LatencySummary.thy ===== *)
theory LatencySummary
  imports RelayClient
begin

text \<open>
  \<^verbatim>\<open>cmd/latency-summary/main.go\<close>: one duration per line, summarised by nearest-rank percentiles. Floating-point
  numbers are a parameter: the operations of \<^verbatim>\<open>float64\<close>, \<^verbatim>\<open>math\<close> and \<^verbatim>\<open>strconv\<close> that the program uses are the
  fields of \<open>floats\<close>. The flags come parsed; a file and the standard input are the lines of a scanner and
  the error with which it ends.
\<close>

section \<open>Reading samples\<close>

record 'f floats =
  fl_of_int :: "int \<Rightarrow> 'f"
  fl_add :: "'f \<Rightarrow> 'f \<Rightarrow> 'f"
  fl_mul :: "'f \<Rightarrow> 'f \<Rightarrow> 'f"
  fl_div :: "'f \<Rightarrow> 'f \<Rightarrow> 'f"
  fl_less :: "'f \<Rightarrow> 'f \<Rightarrow> bool"
  fl_geq :: "'f \<Rightarrow> 'f \<Rightarrow> bool"
  fl_is_nan :: "'f \<Rightarrow> bool"
  fl_is_inf :: "'f \<Rightarrow> bool"
  fl_round :: "'f \<Rightarrow> 'f"
  fl_parse :: "string \<Rightarrow> 'f option"
  fl_to_int :: "'f \<Rightarrow> int"
  fl_ratio95 :: 'f

definition unitFactor :: "'f floats \<Rightarrow> string \<Rightarrow> goerr + 'f" where
  "unitFactor fl unit =
     (if unit = ''ns'' then Inr (fl_of_int fl 1)
      else if unit = ''us'' then Inr (fl_of_int fl 1000)
      else if unit = ''ms'' then Inr (fl_of_int fl 1000000)
      else if unit = ''s'' then Inr (fl_of_int fl 1000000000)
      else Inl (ErrorText ''unit must be ns, us, ms, or s''))"

definition sample_of :: "'f floats \<Rightarrow> 'f \<Rightarrow> string \<Rightarrow> int option" where
  "sample_of fl factor line =
     (case fl_parse fl line of
        None \<Rightarrow> None
      | Some v \<Rightarrow>
          let nanoseconds = fl_mul fl v factor; rounded = fl_round fl nanoseconds in
          if fl_is_nan fl nanoseconds \<or> fl_is_inf fl nanoseconds \<or> fl_less fl rounded (fl_of_int fl 1) \<or>
             fl_geq fl rounded (fl_of_int fl (2 ^ 63 - 1))
          then None else Some (fl_to_int fl rounded))"

fun read_lines :: "'f floats \<Rightarrow> 'f \<Rightarrow> nat \<Rightarrow> string list \<Rightarrow> goerr + int list" where
  "read_lines fl factor lineNumber [] = Inr []"
| "read_lines fl factor lineNumber (text # lines) =
     (let line = TrimSpace text in
      if line = '''' \<or> HasPrefix line ''#'' then read_lines fl factor (Suc lineNumber) lines
      else case sample_of fl factor line of
        None \<Rightarrow> Inl (ErrorText (''line '' @ itoa (int lineNumber) @ '' is not a positive finite duration''))
      | Some x \<Rightarrow> map_sum id (\<lambda>xs. x # xs) (read_lines fl factor (Suc lineNumber) lines))"

definition readSamples :: "'f floats \<Rightarrow> string list \<times> goerr option \<Rightarrow> 'f \<Rightarrow> goerr + int list" where
  "readSamples fl reader factor =
     (case read_lines fl factor 1 (fst reader) of
        Inl e \<Rightarrow> Inl e
      | Inr samples \<Rightarrow> (case snd reader of Some e \<Rightarrow> Inl e | None \<Rightarrow> Inr samples))"

section \<open>Summarising\<close>

record 'f summary =
  su_Segment :: string
  su_Samples :: nat
  su_P50Milliseconds :: 'f
  su_P95Milliseconds :: 'f
  su_P99Milliseconds :: 'f
  su_MaximumMilliseconds :: 'f

text \<open>The rank is 1 or more when there is a sample, as there is where it is used.\<close>

definition ranked :: "int list \<Rightarrow> nat \<Rightarrow> int" where
  "ranked samples percentile = sort samples ! ((percentile * length samples + 99) div 100 - 1)"

definition milliseconds :: "'f floats \<Rightarrow> int \<Rightarrow> 'f" where
  "milliseconds fl duration = fl_div fl (fl_of_int fl duration) (fl_of_int fl 1000000)"

definition summarize :: "'f floats \<Rightarrow> string \<Rightarrow> int list \<Rightarrow> 'f summary" where
  "summarize fl segment samples =
     \<lparr>su_Segment = segment, su_Samples = length samples,
      su_P50Milliseconds = milliseconds fl (ranked samples 50),
      su_P95Milliseconds = milliseconds fl (ranked samples 95),
      su_P99Milliseconds = milliseconds fl (ranked samples 99),
      su_MaximumMilliseconds = milliseconds fl (ranked samples 100)\<rparr>"

record latency_flags =
  lf_Segment :: string
  lf_Unit :: string
  lf_Args :: "string list"

definition latency_run :: "'f floats \<Rightarrow> goerr + latency_flags \<Rightarrow>
    (string \<Rightarrow> goerr + (string list \<times> goerr option)) \<Rightarrow> string list \<times> goerr option \<Rightarrow> goerr + 'f summary" where
  "latency_run fl parsed open_file stdin =
     (case parsed of
        Inl e \<Rightarrow> Inl e
      | Inr flags \<Rightarrow>
          let segment = lf_Segment flags in
          if segment = '''' \<or> length segment > 80 \<or> CHR 0x0D \<in> set segment \<or> CHR 0x0A \<in> set segment
          then Inl (ErrorText ''segment must be a non-empty single-line label of at most 80 bytes'')
          else if length (lf_Args flags) > 1 then Inl (ErrorText ''provide at most one sample file'')
          else (case (case lf_Args flags of [path] \<Rightarrow> open_file path | _ \<Rightarrow> Inr stdin) of
             Inl e \<Rightarrow> Inl e
           | Inr reader \<Rightarrow>
               (case unitFactor fl (lf_Unit flags) of
                  Inl e \<Rightarrow> Inl e
                | Inr factor \<Rightarrow>
                    (case readSamples fl reader factor of
                       Inl e \<Rightarrow> Inl e
                     | Inr samples \<Rightarrow>
                         if samples = [] then Inl (ErrorText ''no duration samples'')
                         else Inr (summarize fl segment samples)))))"

section \<open>The nearest rank\<close>

text \<open>The number of samples below and up to the sample of a rank.\<close>

lemma below_rank:
  assumes "sorted xs" and "k < length xs"
  shows "length (filter (\<lambda>x. x < xs ! k) xs) \<le> k"
proof -
  have "{i. i < length xs \<and> xs ! i < xs ! k} \<subseteq> {..<k}"
    using assms sorted_nth_mono [of xs k] by (force simp: not_le [symmetric])
  from card_mono [OF _ this] show ?thesis by (simp add: length_filter_conv_card)
qed

lemma up_to_rank:
  assumes "sorted xs" and "k < length xs"
  shows "Suc k \<le> length (filter (\<lambda>x. x \<le> xs ! k) xs)"
proof -
  have "{..k} \<subseteq> {i. i < length xs \<and> xs ! i \<le> xs ! k}"
    using assms sorted_nth_mono [of xs] by auto
  from card_mono [OF _ this] show ?thesis by (simp add: length_filter_conv_card)
qed

lemma sorted_counts: "length (filter P (sort xs)) = length (filter P xs)"
  by (simp add: filter_sort)

lemma rank_bounds:
  assumes "0 < n" and "1 \<le> p" and "p \<le> (100 :: nat)"
  shows "(p * n + 99) div 100 - 1 < n" and "p * n \<le> 100 * Suc ((p * n + 99) div 100 - 1)"
    and "100 * ((p * n + 99) div 100 - 1) < p * n"
proof -
  define m where "m = p * n"
  define q where "q = (m + 99) div 100"
  have m: "m \<le> 100 * n" "1 \<le> m" using assms by (simp_all add: m_def Suc_le_eq)
  have q: "100 * q \<le> m + 99" "m + 99 < 100 * q + 100"
    using div_mult_mod_eq [of "m + 99" 100] mod_less_divisor [of 100 "m + 99"] unfolding q_def by linarith+
  with m have "1 \<le> q" by linarith
  then obtain r where r: "q = Suc r" by (metis Suc_le_D One_nat_def)
  have "r < n" "m \<le> 100 * Suc r" "100 * r < m" using m q unfolding r by simp_all
  then have "q - 1 < n" "m \<le> 100 * Suc (q - 1)" "100 * (q - 1) < m" by (simp_all add: r)
  then show "(p * n + 99) div 100 - 1 < n" "p * n \<le> 100 * Suc ((p * n + 99) div 100 - 1)"
    "100 * ((p * n + 99) div 100 - 1) < p * n" by (simp_all only: m_def q_def)
qed

lemma ranked_nearest:
  assumes "samples \<noteq> []" and "1 \<le> p" and "p \<le> 100"
  shows "ranked samples p \<in> set samples"
    and "p * length samples \<le> 100 * length (filter (\<lambda>x. x \<le> ranked samples p) samples)"
    and "100 * length (filter (\<lambda>x. x < ranked samples p) samples) < p * length samples"
proof -
  define n where "n = length samples"
  define k where "k = (p * n + 99) div 100 - 1"
  have v: "ranked samples p = sort samples ! k" by (simp add: ranked_def k_def n_def)
  have k: "k < n" "p * n \<le> 100 * Suc k" "100 * k < p * n"
    using rank_bounds [of n p] assms unfolding k_def n_def by auto
  then have len: "k < length (sort samples)" by (simp add: n_def)
  show "ranked samples p \<in> set samples" unfolding v using nth_mem [OF len] by simp
  from up_to_rank [OF sorted_sort len] k(2)
  show "p * length samples \<le> 100 * length (filter (\<lambda>x. x \<le> ranked samples p) samples)"
    unfolding v sorted_counts n_def by (meson mult_le_mono2 order_trans)
  from below_rank [OF sorted_sort len] k(3)
  show "100 * length (filter (\<lambda>x. x < ranked samples p) samples) < p * length samples"
    unfolding v sorted_counts n_def by (meson mult_le_mono2 le_less_trans)
qed

end
