(* ===== verification/RelayPerf.thy ===== *)
theory RelayPerf
  imports LatencySummary
begin

text \<open>
  \<^verbatim>\<open>cmd/relay-perf/main.go\<close>: a load generator for a disposable relay. Modelled are the checks of a run, the
  pacing and the making of a pair, its connections, the round trips and the clean-up of one pair, over the
  network of the companion's relay client; \<open>PerfRun\<close> runs them for many pairs. A context that ends is an
  error of the call it interrupts, and the loops that wait for a message get the number of messages that
  arrive before.
\<close>

section \<open>The configuration of a run\<close>

definition second :: int where "second = 1000000000"
definition perf_maxPairs :: int where "perf_maxPairs = 60"
definition maxSetupWorkers :: int where "maxSetupWorkers = 32"
definition maxRunDuration :: int where "maxRunDuration = 24 * 3600 * second"
definition maxFramesPerSec :: int where "maxFramesPerSec = 60"
definition maxSamples :: int where "maxSamples = 10000000"
definition pairCreatesPerSourceMinute :: int where "pairCreatesPerSourceMinute = 5"
definition pairCreateInterval :: int where
  "pairCreateInterval = go_div (60 * second) pairCreatesPerSourceMinute"

record runConfig =
  rc_relayURL :: string
  rc_pairs :: int
  rc_roundTripsPS :: int
  rc_duration :: int
  rc_payloadBytes :: int
  rc_setupWorkers :: int
  rc_disposableOptIn :: string

text \<open>
  \<^verbatim>\<open>net/url\<close>: \<^verbatim>\<open>ParseRequestURI\<close>, \<^verbatim>\<open>Parse\<close> of the production URL, and the host name and the port of a URL.
  \<open>pd_lower\<close> lowers a rune outside ASCII whose lower case is not an ASCII letter.
\<close>

record perf_deps =
  pd_parse_uri :: "string \<Rightarrow> URL option"
  pd_production :: URL
  pd_Hostname :: "URL \<Rightarrow> string"
  pd_Port :: "URL \<Rightarrow> string"
  pd_lower :: "nat \<times> string \<Rightarrow> string"

text \<open>\<^verbatim>\<open>strings.ToLower\<close>: the two letters outside ASCII whose lower case is in ASCII are the Kelvin sign and I with a dot.\<close>

definition lower_rune :: "(nat \<times> string \<Rightarrow> string) \<Rightarrow> nat \<times> string \<Rightarrow> string" where
  "lower_rune other seg =
     (let r = fst seg in
      if r < 128 then [if 65 \<le> r \<and> r \<le> 90 then char_of (r + 32) else char_of r]
      else if r = 0x212A then ''k'' else if r = 0x130 then ''i'' else other seg)"

definition lower_text :: "(nat \<times> string \<Rightarrow> string) \<Rightarrow> string \<Rightarrow> string" where
  "lower_text other s = concat (map (lower_rune other) (segments s))"

definition trim_dot :: "string \<Rightarrow> string" where
  "trim_dot s = (if s \<noteq> '''' \<and> last s = CHR ''.'' then butlast s else s)"

definition ParseUint16 :: "string \<Rightarrow> int option" where
  "ParseUint16 s = (case parse_digits s of None \<Rightarrow> None | Some v \<Rightarrow> if v < 2 ^ 16 then Some v else None)"

definition effectiveRelayPort :: "perf_deps \<Rightarrow> URL \<Rightarrow> string" where
  "effectiveRelayPort d relay =
     (let port = pd_Port d relay in
      if port = '''' then ''443''
      else case ParseUint16 port of None \<Rightarrow> port | Some v \<Rightarrow> itoa v)"

definition sameRelayAuthority :: "perf_deps \<Rightarrow> URL \<Rightarrow> URL \<Rightarrow> bool" where
  "sameRelayAuthority d left right \<longleftrightarrow>
     trim_dot (lower_text (pd_lower d) (pd_Hostname d left)) =
       trim_dot (lower_text (pd_lower d) (pd_Hostname d right)) \<and>
     effectiveRelayPort d left = effectiveRelayPort d right"

definition runConfig_validate :: "perf_deps \<Rightarrow> runConfig \<Rightarrow> goerr option" where
  "runConfig_validate d config =
     (if rc_disposableOptIn config \<noteq> ''1''
      then Some (ErrorText ''set REMOTE_DAVINCI_PERF_DISPOSABLE=1 only after confirming an isolated disposable stack'')
      else case pd_parse_uri d (rc_relayURL config) of
        None \<Rightarrow> Some (ErrorText ''relay must be a credential-free wss:// URL without query or fragment'')
      | Some u \<Rightarrow>
          if u_Scheme u \<noteq> ''wss'' \<or> u_Host u = '''' \<or> u_HasUser u \<or> u_ForceQuery u \<or> u_RawQuery u \<noteq> '''' \<or>
             u_Fragment u \<noteq> '''' \<or> u_String u \<noteq> rc_relayURL config
          then Some (ErrorText ''relay must be a credential-free wss:// URL without query or fragment'')
          else if sameRelayAuthority d u (pd_production d)
          then Some (ErrorText ''relay-perf refuses the configured production relay; deploy an isolated stack'')
          else if rc_pairs config < 1 \<or> rc_pairs config > perf_maxPairs
          then Some (ErrorText ''pairs must be from 1 through 60'')
          else if rc_roundTripsPS config < 0 \<or> rc_roundTripsPS config > rc_pairs config * maxFramesPerSec
          then Some (ErrorText ''rps must be from 0'')
          else if rc_duration config < second \<or> rc_duration config > maxRunDuration
          then Some (ErrorText ''duration must be from 1s through 24h0m0s'')
          else let roundedSeconds = go_div (rc_duration config + second - 1) second in
            if rc_roundTripsPS config > 0 \<and> rc_roundTripsPS config > go_div maxSamples roundedSeconds
            then Some (ErrorText ''rps and duration may produce at most 10000000 samples; shorten or shard the run'')
            else if rc_payloadBytes config < 1 \<or> rc_payloadBytes config > int MaxRelayPayloadBytes
            then Some (ErrorText ''payload-bytes must be from 1 through 16384'')
            else if rc_setupWorkers config < 1 \<or> rc_setupWorkers config > maxSetupWorkers
            then Some (ErrorText ''setup-workers must be from 1 through 32'')
            else None)"

text \<open>The flags come parsed, with the number of arguments that are left.\<close>

definition parseConfig :: "perf_deps \<Rightarrow> goerr + runConfig \<times> nat \<Rightarrow> string \<Rightarrow> goerr + runConfig" where
  "parseConfig d parsed optIn =
     (case parsed of
        Inl e \<Rightarrow> Inl e
      | Inr (config, remaining) \<Rightarrow>
          if remaining \<noteq> 0 then Inl (ErrorText ''unexpected positional arguments'')
          else let config = config\<lparr>rc_disposableOptIn := optIn\<rparr> in
            (case runConfig_validate d config of Some e \<Rightarrow> Inl e | None \<Rightarrow> Inr config))"

section \<open>Peers\<close>

record perfPeer =
  pp_connection :: nat
  pp_events :: "Envelope list"

definition perf_dialRelay :: "'h net \<Rightarrow> string \<Rightarrow> string \<Rightarrow> 'h \<Rightarrow> (goerr + perfPeer) \<times> 'h" where
  "perf_dialRelay n relay authorization h =
     (case net_dial n relay authorization h of
        (Inl (e, Some status), h) \<Rightarrow>
          (Inl (ErrorText (''relay WebSocket upgrade failed with status '' @ itoa status)), h)
      | (Inl (e, None), h) \<Rightarrow> (Inl (ErrorText ''relay WebSocket upgrade failed''), h)
      | (Inr connection, h) \<Rightarrow> (Inr \<lparr>pp_connection = connection, pp_events = []\<rparr>, h))"

definition peer_send :: "'h net \<Rightarrow> perfPeer \<Rightarrow> string \<Rightarrow> json \<Rightarrow> 'h \<Rightarrow> goerr option \<times> 'h" where
  "peer_send n peer messageType body h =
     (case net_uuid n h of
        (Inl e, h) \<Rightarrow> (Some e, h)
      | (Inr i, h) \<Rightarrow> net_transmit n (pp_connection peer) (wireEnvelope messageType i body) h)"

definition peer_read :: "'h net \<Rightarrow> perfPeer \<Rightarrow> 'h \<Rightarrow> (goerr + Envelope) \<times> 'h" where
  "peer_read n peer h =
     (case net_receive n (pp_connection peer) h of
        (Inl e, h) \<Rightarrow> (Inl e, h)
      | (Inr raw, h) \<Rightarrow>
          (case ParseServer (net_parser n) (Bytes raw) of
             Inl e \<Rightarrow> (Inl (ErrorText ''relay returned an invalid frame''), h)
           | Inr envelope \<Rightarrow> (Inr envelope, h)))"

definition correlated :: "string \<Rightarrow> (json \<Rightarrow> 'a option) \<Rightarrow> Envelope \<Rightarrow> goerr + 'a" where
  "correlated messageType decode envelope =
     (let body = env_Body envelope in
      if env_Type envelope = ''error''
      then Inl (ErrorText (''relay rejected '' @ messageType @ '': '' @
        (case jstr ''code'' body of None \<Rightarrow> '''' | Some code \<Rightarrow> code)))
      else if env_Type envelope \<noteq> ''ok'' \<or> \<not> is_struct body \<or> jstr ''requestType'' body \<noteq> Some messageType
      then Inl (ErrorText ''relay returned an invalid correlated response'')
      else case decode (jraw ''result'' body) of None \<Rightarrow> Inl (ErrorText ''json'') | Some x \<Rightarrow> Inr x)"

fun await_correlated :: "'h net \<Rightarrow> nat \<Rightarrow> perfPeer \<Rightarrow> string \<Rightarrow> string \<Rightarrow> (json \<Rightarrow> 'a option) \<Rightarrow> 'h \<Rightarrow>
    (goerr + 'a) \<times> perfPeer \<times> 'h" where
  "await_correlated n 0 peer i messageType decode h = (Inl DeadlineExceeded, peer, h)"
| "await_correlated n (Suc fuel) peer i messageType decode h =
     (case peer_read n peer h of
        (Inl e, h) \<Rightarrow> (Inl e, peer, h)
      | (Inr envelope, h) \<Rightarrow>
          if env_ReplyTo envelope \<noteq> i
          then await_correlated n fuel (peer\<lparr>pp_events := pp_events peer @ [envelope]\<rparr>) i messageType decode h
          else (correlated messageType decode envelope, peer, h))"

definition peer_request :: "'h net \<Rightarrow> nat \<Rightarrow> perfPeer \<Rightarrow> string \<Rightarrow> json \<Rightarrow> (json \<Rightarrow> 'a option) \<Rightarrow> 'h \<Rightarrow>
    (goerr + 'a) \<times> perfPeer \<times> 'h" where
  "peer_request n fuel peer messageType body decode h =
     (case net_uuid n h of
        (Inl e, h) \<Rightarrow> (Inl e, peer, h)
      | (Inr i, h) \<Rightarrow>
          (case net_transmit n (pp_connection peer) (wireEnvelope messageType i body) h of
             (Some e, h) \<Rightarrow> (Inl e, peer, h)
           | (None, h) \<Rightarrow> await_correlated n fuel peer i messageType decode h))"

fun take_event :: "string \<Rightarrow> Envelope list \<Rightarrow> (Envelope \<times> Envelope list) option" where
  "take_event messageType [] = None"
| "take_event messageType (e # es) =
     (if env_Type e = messageType then Some (e, es)
      else map_option (\<lambda>(x, rest). (x, e # rest)) (take_event messageType es))"

fun peer_event :: "'h net \<Rightarrow> nat \<Rightarrow> perfPeer \<Rightarrow> string \<Rightarrow> 'h \<Rightarrow> (goerr + Envelope) \<times> perfPeer \<times> 'h" where
  "peer_event n fuel peer messageType h =
     (case take_event messageType (pp_events peer) of
        Some (envelope, rest) \<Rightarrow> (Inr envelope, peer\<lparr>pp_events := rest\<rparr>, h)
      | None \<Rightarrow>
          (case fuel of
             0 \<Rightarrow> (Inl DeadlineExceeded, peer, h)
           | Suc fuel \<Rightarrow>
               (case peer_read n peer h of
                  (Inl e, h) \<Rightarrow> (Inl e, peer, h)
                | (Inr envelope, h) \<Rightarrow>
                    if env_Type envelope = ''error''
                    then (Inl (ErrorText ''relay returned an asynchronous error''), peer, h)
                    else if env_Type envelope = messageType then (Inr envelope, peer, h)
                    else peer_event n fuel (peer\<lparr>pp_events := pp_events peer @ [envelope]\<rparr>) messageType h)))"

declare peer_event.simps [simp del]

section \<open>Pairs\<close>

record loadPair =
  lp_relayURL :: string
  lp_linkID :: string
  lp_controllerID :: string
  lp_companionID :: string
  lp_controllerAuth :: string
  lp_companionAuth :: string
  lp_sessionID :: string
  lp_controller :: "perfPeer option"
  lp_companion :: "perfPeer option"

definition bearerAuthorization :: "string \<Rightarrow> string \<Rightarrow> string" where
  "bearerAuthorization endpointID secret = ''Bearer rd1.'' @ endpointID @ ''.'' @ secret"

definition validateProvisionedPair :: "Config \<Rightarrow> EnrollmentResponse \<Rightarrow> string \<Rightarrow> goerr option" where
  "validateProvisionedPair config enrollment controllerID =
     (if cf_LinkID config = '''' \<or> cf_EndpointID config = '''' \<or> cf_Secret config = '''' \<or>
         en_LinkID enrollment \<noteq> cf_LinkID config \<or> en_ControllerEndpointID enrollment \<noteq> controllerID \<or>
         en_CompanionEndpointID enrollment \<noteq> cf_EndpointID config
      then Some (ErrorText ''relay provisioned inconsistent performance identities'') else None)"

definition provisionPairWith :: "(string \<Rightarrow> string) \<Rightarrow> 'h net \<Rightarrow>
    (string \<Rightarrow> EnrollmentRequest \<Rightarrow> 'h \<Rightarrow> provisioned \<times> 'h) \<Rightarrow> string \<Rightarrow> 'h \<Rightarrow>
    (loadPair option \<times> goerr option) \<times> 'h" where
  "provisionPairWith sha256 n provision relay h =
     (case net_uuid n h of
        (Inl e, h) \<Rightarrow> ((None, Some e), h)
      | (Inr controllerID, h) \<Rightarrow>
     (case net_random32 n h of
        (Inl e, h) \<Rightarrow> ((None, Some e), h)
      | (Inr controllerSecret, h) \<Rightarrow>
     (case net_keypair n h of
        (Inl e, h) \<Rightarrow> ((None, Some e), h)
      | (Inr controllerKey, h) \<Rightarrow>
     (case provision relay
             \<lparr>er_V = 1, er_ControllerEndpointID = controllerID,
              er_ControllerCredentialHash = b64_encode (sha256 controllerSecret),
              er_ControllerNoiseKey = b64_encode (snd controllerKey),
              er_DeviceLabel = ''Disposable relay performance probe''\<rparr> h of
        ((config, enrollment, err), h) \<Rightarrow>
          let pair = \<lparr>lp_relayURL = relay, lp_linkID = cf_LinkID config, lp_controllerID = controllerID,
                lp_companionID = cf_EndpointID config,
                lp_controllerAuth = bearerAuthorization controllerID (b64_encode controllerSecret),
                lp_companionAuth = bearerAuthorization (cf_EndpointID config) (cf_Secret config),
                lp_sessionID = '''', lp_controller = None, lp_companion = None\<rparr> in
          (case err of
             Some e \<Rightarrow>
               (if cf_LinkID config \<noteq> '''' \<and> cf_EndpointID config \<noteq> '''' \<and> cf_Secret config \<noteq> ''''
                then Some pair else None, Some e)
           | None \<Rightarrow> (Some pair, validateProvisionedPair config enrollment controllerID), h)))))"

definition provisionPair :: "cdeps \<Rightarrow> 'h net \<Rightarrow> string \<Rightarrow> 'h \<Rightarrow> (loadPair option \<times> goerr option) \<times> 'h" where
  "provisionPair d n = provisionPairWith (k_sha256 d) n (\<lambda>relay req. Provision d n relay req [])"

text \<open>The pacer holds its lock for a whole call: its state is the time before which it waits.\<close>

record 'h pace =
  pc_now :: "'h \<Rightarrow> int \<times> 'h"
  pc_wait :: "int \<Rightarrow> 'h \<Rightarrow> goerr option \<times> 'h"
  pc_ctx_err :: "'h \<Rightarrow> goerr option \<times> 'h"

definition pacer_provision :: "'h pace \<Rightarrow> int \<Rightarrow> int \<Rightarrow> ('h \<Rightarrow> ('p option \<times> goerr option) \<times> 'h) \<Rightarrow> 'h \<Rightarrow>
    ('p option \<times> goerr option) \<times> int \<times> 'h" where
  "pacer_provision pc interval due provision h =
     (case pc_now pc h of (now, h) \<Rightarrow>
      case (if due - now > 0 then pc_wait pc (due - now) h else (None, h)) of
        (Some e, h) \<Rightarrow> ((None, Some e), due, h)
      | (None, h) \<Rightarrow>
          (case pc_ctx_err pc h of
             (Some e, h) \<Rightarrow> ((None, Some e), due, h)
           | (None, h) \<Rightarrow>
               (case provision h of (r, h) \<Rightarrow>
                  (case pc_now pc h of (now, h) \<Rightarrow> (r, now + interval, h)))))"

definition decode_opened_event :: "json \<Rightarrow> (string \<times> string \<times> string) option" where
  "decode_opened_event j =
     (if is_struct j then
        case (jstr ''sessionId'' j, jstr ''linkId'' j, jstr ''peerEndpointId'' j) of
          (Some s, Some l, Some p) \<Rightarrow> Some (s, l, p) | _ \<Rightarrow> None
      else None)"

definition decode_session :: "json \<Rightarrow> string option" where
  "decode_session j = (if is_struct j then jstr ''sessionId'' j else None)"

definition await_opened :: "'h net \<Rightarrow> nat \<Rightarrow> string \<times> string \<times> string \<Rightarrow> perfPeer \<Rightarrow> 'h \<Rightarrow>
    goerr option \<times> perfPeer \<times> 'h" where
  "await_opened n fuel expected peer h =
     (case peer_event n fuel peer ''session.opened'' h of
        (Inl e, peer, h) \<Rightarrow> (Some e, peer, h)
      | (Inr envelope, peer, h) \<Rightarrow>
          (if decode_opened_event (env_Body envelope) = Some expected then None
           else Some (ErrorText ''relay opened an inconsistent performance session''), peer, h))"

definition pair_connect :: "'h net \<Rightarrow> nat \<Rightarrow> loadPair \<Rightarrow> string \<Rightarrow> 'h \<Rightarrow> goerr option \<times> loadPair \<times> 'h" where
  "pair_connect n fuel pair relay h =
     (case perf_dialRelay n relay (lp_controllerAuth pair) h of
        (Inl e, h) \<Rightarrow> (Some e, pair, h)
      | (Inr controller, h) \<Rightarrow>
     (let pair = pair\<lparr>lp_controller := Some controller\<rparr> in
      case perf_dialRelay n relay (lp_companionAuth pair) h of
        (Inl e, h) \<Rightarrow> (Some e, pair, h)
      | (Inr companion, h) \<Rightarrow>
     (let pair = pair\<lparr>lp_companion := Some companion\<rparr> in
      case peer_request n fuel controller ''session.open'' (JObj [(''linkId'', JStr (lp_linkID pair))])
             decode_session h of
        (Inl e, controller, h) \<Rightarrow> (Some e, pair\<lparr>lp_controller := Some controller\<rparr>, h)
      | (Inr sessionID, controller, h) \<Rightarrow>
     (let pair = pair\<lparr>lp_controller := Some controller\<rparr> in
      if sessionID = '''' then (Some (ErrorText ''relay returned an empty session ID''), pair, h)
      else case await_opened n fuel (sessionID, lp_linkID pair, lp_companionID pair) controller h of
        (Some e, controller, h) \<Rightarrow> (Some e, pair\<lparr>lp_controller := Some controller\<rparr>, h)
      | (None, controller, h) \<Rightarrow>
     (let pair = pair\<lparr>lp_controller := Some controller\<rparr> in
      case await_opened n fuel (sessionID, lp_linkID pair, lp_controllerID pair) companion h of
        (Some e, companion, h) \<Rightarrow> (Some e, pair\<lparr>lp_companion := Some companion\<rparr>, h)
      | (None, companion, h) \<Rightarrow>
          (None, pair\<lparr>lp_companion := Some companion, lp_sessionID := sessionID\<rparr>, h))))))"

definition compactPairs :: "'p option list \<Rightarrow> 'p list" where
  "compactPairs pairs = concat (map (\<lambda>p. case p of None \<Rightarrow> [] | Some x \<Rightarrow> [x]) pairs)"

definition firstError :: "goerr option \<Rightarrow> goerr option \<Rightarrow> goerr option" where
  "firstError first contextErr = (if first \<noteq> None then first else contextErr)"

section \<open>Round trips\<close>

definition pair_closeNow :: "'h net \<Rightarrow> loadPair \<Rightarrow> 'h \<Rightarrow> loadPair \<times> 'h" where
  "pair_closeNow n pair h =
     (let h = (case lp_controller pair of Some p \<Rightarrow> net_close n (pp_connection p) h | None \<Rightarrow> h);
          h = (case lp_companion pair of Some p \<Rightarrow> net_close n (pp_connection p) h | None \<Rightarrow> h) in
      (pair\<lparr>lp_controller := None, lp_companion := None\<rparr>, h))"

definition go_mod :: "int \<Rightarrow> int \<Rightarrow> int" where
  "go_mod a b = a - go_div a b * b"

text \<open>The share of a pair in the round trips of a second.\<close>

definition pair_rate :: "runConfig \<Rightarrow> nat \<Rightarrow> nat \<Rightarrow> int" where
  "pair_rate config pairs index =
     (let rate = go_div (rc_roundTripsPS config) (int pairs) in
      if int index < go_mod (rc_roundTripsPS config) (int pairs) then rate + 1 else rate)"

definition measure_payload :: "runConfig \<Rightarrow> string" where
  "measure_payload config = b64_encode (map (\<lambda>index. char_of (index mod 256)) [0..<nat (rc_payloadBytes config)])"

definition measure_rates :: "runConfig \<Rightarrow> loadPair list \<Rightarrow> goerr + (loadPair \<times> int) list" where
  "measure_rates config pairs =
     (if int (length pairs) \<noteq> rc_pairs config then Inl (ErrorText ''not all requested pairs are connected'')
      else Inr (map (\<lambda>index. (pairs ! index, pair_rate config (length pairs) index)) [0..<length pairs]))"

definition requireFrame :: "'h net \<Rightarrow> nat \<Rightarrow> perfPeer \<Rightarrow> FrameBody \<Rightarrow> 'h \<Rightarrow> goerr option \<times> perfPeer \<times> 'h" where
  "requireFrame n fuel peer want h =
     (case peer_event n fuel peer ''session.frame'' h of
        (Inl e, peer, h) \<Rightarrow> (Some e, peer, h)
      | (Inr envelope, peer, h) \<Rightarrow>
          (if decode_FrameBody ''sessionId'' (env_Body envelope) = Some want then None
           else Some (ErrorText ''relay forwarded an inconsistent performance frame''), peer, h))"

text \<open>The pair is connected: its peers are those of \<open>pair_connect\<close>.\<close>

definition roundTrip :: "'h net \<Rightarrow> nat \<Rightarrow> string \<Rightarrow> perfPeer \<times> perfPeer \<Rightarrow> int \<Rightarrow> string \<Rightarrow> 'h \<Rightarrow>
    goerr option \<times> (perfPeer \<times> perfPeer) \<times> 'h" where
  "roundTrip n fuel sessionID peers sequence payload h =
     (let body = \<lparr>fb_ID = sessionID, fb_Seq = sequence, fb_Payload = payload\<rparr>;
          wire = frame_json ''sessionId'' sessionID sequence payload in
      case peers of (controller, companion) \<Rightarrow>
     (case peer_send n controller ''session.frame'' wire h of
        (Some e, h) \<Rightarrow> (Some e, (controller, companion), h)
      | (None, h) \<Rightarrow>
     (case requireFrame n fuel companion body h of
        (Some e, companion, h) \<Rightarrow> (Some e, (controller, companion), h)
      | (None, companion, h) \<Rightarrow>
     (case peer_send n companion ''session.frame'' wire h of
        (Some e, h) \<Rightarrow> (Some e, (controller, companion), h)
      | (None, h) \<Rightarrow>
     (case requireFrame n fuel controller body h of
        (r, controller, h) \<Rightarrow> (r, (controller, companion), h))))))"

text \<open>What the select of \<^verbatim>\<open>measurePair\<close> returns with, and whether its scheduling has stopped meanwhile.\<close>

datatype wakeup = LoadDone goerr | StopScheduling | TickerFired

record 'h load = "'h pace" +
  ld_select :: "int option \<Rightarrow> 'h \<Rightarrow> wakeup \<times> 'h"
  ld_stopped :: "'h \<Rightarrow> bool \<times> 'h"

definition sampleCollector_add :: "int list \<Rightarrow> int \<Rightarrow> int list" where
  "sampleCollector_add samples sample = samples @ [sample]"

section \<open>The result of a run\<close>

record 'f perf_result =
  pr_RelayHost :: string
  pr_Pairs :: int
  pr_Connections :: int
  pr_TargetRoundTripsPerSecond :: int
  pr_ObservedRoundTripsPerSecond :: 'f
  pr_DurationSeconds :: 'f
  pr_PayloadBytes :: int
  pr_Samples :: nat
  pr_P50Milliseconds :: 'f
  pr_P95Milliseconds :: 'f
  pr_P99Milliseconds :: 'f
  pr_MaximumMilliseconds :: 'f

definition duration_Seconds :: "'f floats \<Rightarrow> int \<Rightarrow> 'f" where
  "duration_Seconds fl d = fl_add fl (fl_of_int fl (go_div d second))
     (fl_div fl (fl_of_int fl (go_mod d second)) (fl_of_int fl second))"

definition percentile :: "int list \<Rightarrow> int \<Rightarrow> int" where
  "percentile samples v =
     (if samples = [] \<or> v < 1 \<or> v > 100 then 0
      else let rank = go_div (v * int (length samples) + 99) 100 in sort samples ! nat (rank - 1))"

definition perf_milliseconds :: "'f floats \<Rightarrow> int \<Rightarrow> 'f" where
  "perf_milliseconds fl duration = fl_div fl (fl_of_int fl duration) (fl_of_int fl 1000000)"

definition perf_summarize :: "'f floats \<Rightarrow> string \<Rightarrow> runConfig \<Rightarrow> int list \<Rightarrow> int \<Rightarrow> 'f perf_result" where
  "perf_summarize fl host config samples elapsed =
     (let zero = fl_of_int fl 0;
          ranked = (\<lambda>v. if samples = [] then zero else perf_milliseconds fl (percentile samples v)) in
      \<lparr>pr_RelayHost = host, pr_Pairs = rc_pairs config, pr_Connections = rc_pairs config * 2,
       pr_TargetRoundTripsPerSecond = rc_roundTripsPS config,
       pr_ObservedRoundTripsPerSecond =
         (if elapsed > 0 then fl_div fl (fl_of_int fl (int (length samples))) (duration_Seconds fl elapsed) else zero),
       pr_DurationSeconds = duration_Seconds fl elapsed, pr_PayloadBytes = rc_payloadBytes config,
       pr_Samples = length samples,
       pr_P50Milliseconds = ranked 50, pr_P95Milliseconds = ranked 95, pr_P99Milliseconds = ranked 99,
       pr_MaximumMilliseconds = ranked 100\<rparr>)"

definition validateAchievedRate :: "'f floats \<Rightarrow> runConfig \<Rightarrow> nat \<Rightarrow> goerr option" where
  "validateAchievedRate fl config samples =
     (if rc_roundTripsPS config = 0 then None
      else let observed = fl_div fl (fl_of_int fl (int samples)) (duration_Seconds fl (rc_duration config));
             minimum = fl_mul fl (fl_of_int fl (rc_roundTripsPS config)) (fl_ratio95 fl) in
        if fl_less fl observed minimum
        then Some (ErrorText ''closed-loop latency samples are not valid at this load'') else None)"

section \<open>Cleaning up\<close>

definition errors_Join :: "goerr list \<Rightarrow> goerr option" where
  "errors_Join es = (case es of [] \<Rightarrow> None | e # es \<Rightarrow> Some (foldl Joined e es))"

definition revoke_pair_link :: "'h net \<Rightarrow> nat \<Rightarrow> loadPair \<Rightarrow> perfPeer \<Rightarrow> bool \<times> goerr list \<Rightarrow> 'h \<Rightarrow>
    (bool \<times> goerr list) \<times> perfPeer \<times> 'h" where
  "revoke_pair_link n fuel pair peer acc h =
     (case acc of (linkRevoked, failures) \<Rightarrow>
      if linkRevoked then (acc, peer, h)
      else (case peer_request n fuel peer ''link.revoke'' (JObj [(''linkId'', JStr (lp_linkID pair))]) decode_Revoked h of
              (Inl e, peer, h) \<Rightarrow> ((False, failures @ [e]), peer, h)
            | (Inr revoked, peer, h) \<Rightarrow> ((revoked, failures), peer, h)))"

definition revoke_pair_endpoint :: "'h net \<Rightarrow> nat \<Rightarrow> perfPeer \<Rightarrow> goerr list \<Rightarrow> 'h \<Rightarrow> goerr list \<times> perfPeer \<times> 'h" where
  "revoke_pair_endpoint n fuel peer failures h =
     (case peer_request n fuel peer ''endpoint.revoke'' (JObj []) decode_Revoked h of
        (Inr True, peer, h) \<Rightarrow> (failures, peer, h)
      | (r, peer, h) \<Rightarrow>
          (case firstError (case r of Inl e \<Rightarrow> Some e | Inr _ \<Rightarrow> None)
                  (Some (ErrorText ''relay did not acknowledge endpoint revocation'')) of
             Some e \<Rightarrow> failures @ [e] | None \<Rightarrow> failures, peer, h))"

text \<open>One side of \<^verbatim>\<open>cleanupPair\<close>'s loop.\<close>

definition cleanup_side :: "'h net \<Rightarrow> nat \<Rightarrow> loadPair \<Rightarrow> string \<Rightarrow> bool \<times> goerr list \<Rightarrow> 'h \<Rightarrow> (bool \<times> goerr list) \<times> 'h" where
  "cleanup_side n fuel pair authorization acc h =
     (case perf_dialRelay n (lp_relayURL pair) authorization h of
        (Inl e, h) \<Rightarrow> ((fst acc, snd acc @ [e]), h)
      | (Inr peer, h) \<Rightarrow>
     (case revoke_pair_link n fuel pair peer acc h of
        ((linkRevoked, failures), peer, h) \<Rightarrow>
     (case revoke_pair_endpoint n fuel peer failures h of
        (failures, peer, h) \<Rightarrow> ((linkRevoked, failures), net_close n (pp_connection peer) h))))"

definition perf_cleanupPair :: "'h net \<Rightarrow> nat \<Rightarrow> loadPair \<Rightarrow> 'h \<Rightarrow> goerr option \<times> 'h" where
  "perf_cleanupPair n fuel pair h =
     (case cleanup_side n fuel pair (lp_controllerAuth pair) (False, []) h of (acc, h) \<Rightarrow>
     (case cleanup_side n fuel pair (lp_companionAuth pair) acc h of ((linkRevoked, failures), h) \<Rightarrow>
       (errors_Join (if linkRevoked then failures
          else failures @ [ErrorText ''relay did not acknowledge link revocation'']), h)))"

section \<open>Percentiles\<close>

lemma percentile_ranked:
  assumes "samples \<noteq> []" and "1 \<le> p" and "p \<le> 100"
  shows "percentile samples p = ranked samples (nat p)"
proof -
  define n where "n = length samples"
  obtain k where k: "p = int k" using assms(2) by (cases p) auto
  have "go_div (p * int n + 99) 100 = (int k * int n + 99) div 100" by (simp add: k go_div_nonneg)
  also have "\<dots> = int (k * n + 99) div int 100" by simp
  also have "\<dots> = int ((k * n + 99) div 100)" by (rule zdiv_int [symmetric])
  finally have "nat (go_div (p * int n + 99) 100 - 1) = (k * n + 99) div 100 - 1" by (simp add: nat_diff_distrib')
  then show ?thesis using assms by (simp add: percentile_def ranked_def Let_def n_def k)
qed

text \<open>The percentiles of both measuring programs are the same, the nearest rank: of a list with samples, for a
  percentage from 1 to 100, the result is one of the samples, at least that percentage of the samples lies at or
  below it, and less than that percentage lies below it; so no smaller sample would do.\<close>

theorem percentile_nearest_rank:
  assumes "samples \<noteq> []" and "1 \<le> p" and "p \<le> 100"
  shows "percentile samples p = ranked samples (nat p) \<and> percentile samples p \<in> set samples \<and>
    p * int (length samples) \<le> 100 * int (length (filter (\<lambda>x. x \<le> percentile samples p) samples)) \<and>
    100 * int (length (filter (\<lambda>x. x < percentile samples p) samples)) < p * int (length samples)"
proof -
  obtain k where k: "p = int k" "1 \<le> k" "k \<le> 100" using assms(2,3) by (cases p) auto
  note r = ranked_nearest [OF assms(1) k(2,3)]
  have e: "percentile samples p = ranked samples k" using percentile_ranked [OF assms] by (simp add: k(1))
  note e = e [unfolded k(1)]
  show ?thesis
    using r(1) r(2) [folded of_nat_le_iff [where 'a = int]] r(3) [folded of_nat_less_iff [where 'a = int]]
    unfolding k(1) e by simp
qed

theorem percentile_nearest_rank_witness:
  "percentile [30, 10, 20] 50 = ranked [30, 10, 20] (nat 50) \<and> percentile [30, 10, 20] 50 \<in> set [30, 10, 20 :: int] \<and>
   50 * int (length [30, 10, 20 :: int]) \<le> 100 * int (length (filter (\<lambda>x. x \<le> percentile [30, 10, 20] 50) [30, 10, 20])) \<and>
   100 * int (length (filter (\<lambda>x. x < percentile [30, 10, 20] 50) [30, 10, 20])) < 50 * int (length [30, 10, 20 :: int])"
  by (rule percentile_nearest_rank) simp_all

section \<open>The load of a run\<close>

lemma shares_sum:
  assumes "0 \<le> r" and "r \<le> int n"
  shows "(\<Sum>i\<leftarrow>[0..<n]. if int i < r then q + 1 else q) = q * int n + r"
proof -
  have "(\<Sum>i\<leftarrow>[0..<m]. if int i < r then q + 1 else q) = q * int m + min r (int m)" for m
    using assms(1) by (induction m) (auto simp: algebra_simps min_def)
  then show ?thesis using assms(2) by simp
qed

lemma go_divide:
  assumes "0 \<le> a" and "0 < b"
  shows "a = go_div a b * b + go_mod a b" and "0 \<le> go_mod a b" and "go_mod a b < b"
  using go_div_bounds [OF assms] by (simp_all add: go_mod_def algebra_simps)

lemma pair_rates_sum:
  assumes "0 \<le> rc_roundTripsPS config" and "0 < n"
  shows "(\<Sum>i\<leftarrow>[0..<n]. pair_rate config n i) = rc_roundTripsPS config"
proof -
  note d = go_divide [OF assms(1), of "int n"]
  have "(\<Sum>i\<leftarrow>[0..<n]. pair_rate config n i) =
      go_div (rc_roundTripsPS config) (int n) * int n + go_mod (rc_roundTripsPS config) (int n)"
    unfolding pair_rate_def Let_def using shares_sum [OF d(2)] d(3) assms(2) by simp
  with d(1) assms(2) show ?thesis by simp
qed

lemma pair_rate_bound:
  assumes "0 \<le> rc_roundTripsPS config" and "0 < n" and "rc_roundTripsPS config \<le> int n * k"
  shows "0 \<le> pair_rate config n i \<and> pair_rate config n i \<le> k"
proof -
  define q where "q = go_div (rc_roundTripsPS config) (int n)"
  define r where "r = go_mod (rc_roundTripsPS config) (int n)"
  have d: "rc_roundTripsPS config = q * int n + r" "0 \<le> r" "r < int n"
    using go_divide [OF assms(1), of "int n"] assms(2) by (simp_all add: q_def r_def)
  have "0 \<le> q" using assms by (simp add: q_def go_div_nonneg pos_imp_zdiv_nonneg_iff)
  have "q \<le> k"
  proof (rule ccontr)
    assume "\<not> q \<le> k"
    then have "int n * (k + 1) \<le> int n * q" by (intro mult_left_mono) simp_all
    with d assms(2,3) show False by (simp add: algebra_simps)
  qed
  moreover have "q + 1 \<le> k" if "0 < r"
  proof (rule ccontr)
    assume "\<not> q + 1 \<le> k"
    then have "k * int n \<le> q * int n" by (intro mult_right_mono) simp_all
    with d(1) that assms(3) show False by (simp add: mult.commute)
  qed
  ultimately show ?thesis
    using \<open>0 \<le> q\<close> by (auto simp: pair_rate_def Let_def q_def [symmetric] r_def [symmetric])
qed

lemma validated_run:
  assumes "runConfig_validate d config = None"
  shows "1 \<le> rc_pairs config" and "0 \<le> rc_roundTripsPS config"
    and "rc_roundTripsPS config \<le> rc_pairs config * 60"
    and "second \<le> rc_duration config"
    and "rc_roundTripsPS config \<le> go_div maxSamples (go_div (rc_duration config + second - 1) second) \<or> rc_roundTripsPS config = 0"
    and "1 \<le> rc_payloadBytes config" and "rc_payloadBytes config \<le> int MaxRelayPayloadBytes"
    and "\<exists>u. pd_parse_uri d (rc_relayURL config) = Some u \<and> \<not> sameRelayAuthority d u (pd_production d)"
    and "rc_disposableOptIn config = ''1''"
  using assms unfolding runConfig_validate_def maxFramesPerSec_def
  by (auto simp: Let_def split: if_splits option.splits)

lemma samples_of_run:
  assumes "runConfig_validate d config = None"
  shows "rc_roundTripsPS config * rc_duration config \<le> maxSamples * second"
proof (cases "rc_roundTripsPS config = 0")
  case True then show ?thesis by (simp add: maxSamples_def second_def)
next
  case False
  define secs where "secs = go_div (rc_duration config + second - 1) second"
  have s: "0 < second" by (simp add: second_def)
  note v = validated_run [OF assms]
  have "rc_duration config + second - 1 < (secs + 1) * second"
    unfolding secs_def by (rule go_div_bounds(2)) (use v(4) s in simp_all)
  then have d: "rc_duration config \<le> secs * second" by (simp add: algebra_simps)
  have "0 < secs * second" using d v(4) s by linarith
  then have "0 < secs" using s by (simp add: zero_less_mult_iff)
  have "rc_roundTripsPS config * secs \<le> go_div maxSamples secs * secs"
    using v(5) False \<open>0 < secs\<close> by (intro mult_right_mono) (simp_all add: secs_def)
  also have "\<dots> \<le> maxSamples" using go_div_bounds(1) [of maxSamples secs] \<open>0 < secs\<close> by (simp add: maxSamples_def)
  finally have "rc_roundTripsPS config * secs * second \<le> maxSamples * second" using s by simp
  moreover have "rc_roundTripsPS config * rc_duration config \<le> rc_roundTripsPS config * (secs * second)"
    using d v(2) by (intro mult_left_mono) simp_all
  ultimately show ?thesis by (simp add: mult.assoc)
qed

text \<open>What a run that passed its checks puts on the relay. The relay is not the production relay under any
  spelling of its host and port, and the operator confirmed that it is disposable. The pairs share the round
  trips of a second so that their rates add up to the requested number, each is between 0 and the 60 frames a
  second that the relay allows, and two differ by at most one; no more than ten million samples are
  scheduled; and a payload has the requested size, which the relay accepts.\<close>

theorem load_within_limits:
  assumes "runConfig_validate d config = None" and "measure_rates config pairs = Inr shares"
  shows "rc_disposableOptIn config = ''1'' \<and>
    (\<exists>u. pd_parse_uri d (rc_relayURL config) = Some u \<and> \<not> sameRelayAuthority d u (pd_production d)) \<and>
    map fst shares = pairs \<and> sum_list (map snd shares) = rc_roundTripsPS config \<and>
    (\<forall>r\<in>set (map snd shares). 0 \<le> r \<and> r \<le> 60 \<and> (\<forall>r'\<in>set (map snd shares). r \<le> r' + 1)) \<and>
    rc_roundTripsPS config * rc_duration config \<le> 10000000 * second \<and>
    (\<exists>bytes. b64_decode (measure_payload config) = Some bytes \<and> int (length bytes) = rc_payloadBytes config \<and>
      length bytes \<le> MaxRelayPayloadBytes)"
proof -
  note v = validated_run [OF assms(1)]
  from assms(2) have n: "int (length pairs) = rc_pairs config"
      and s: "shares = map (\<lambda>i. (pairs ! i, pair_rate config (length pairs) i)) [0..<length pairs]"
    by (auto simp: measure_rates_def split: if_splits)
  have pos: "0 < length pairs" using v(1) n by linarith
  have rates: "map snd shares = map (pair_rate config (length pairs)) [0..<length pairs]" by (simp add: s comp_def)
  have "map fst shares = pairs" by (simp add: s comp_def map_nth)
  moreover have "sum_list (map snd shares) = rc_roundTripsPS config"
    unfolding rates by (rule pair_rates_sum [OF v(2) pos])
  moreover have "0 \<le> pair_rate config (length pairs) i \<and> pair_rate config (length pairs) i \<le> 60" for i
    using pair_rate_bound [OF v(2) pos, of 60] v(3) n by simp
  moreover have "pair_rate config (length pairs) i \<le> pair_rate config (length pairs) j + 1" for i j
    by (simp add: pair_rate_def Let_def)
  ultimately show ?thesis
    using v samples_of_run [OF assms(1)] unfolding rates by (simp add: measure_payload_def maxSamples_def)
qed

definition plain_deps :: perf_deps where
  "plain_deps =
     \<lparr>pd_parse_uri = (\<lambda>s. Some \<lparr>u_Scheme = ''wss'', u_Host = ''relay'', u_HasUser = False, u_ForceQuery = False,
        u_RawQuery = '''', u_Fragment = '''', u_String = s\<rparr>),
      pd_production = \<lparr>u_Scheme = ''wss'', u_Host = ''prod'', u_HasUser = False, u_ForceQuery = False,
        u_RawQuery = '''', u_Fragment = '''', u_String = ''wss://prod''\<rparr>,
      pd_Hostname = u_Host, pd_Port = (\<lambda>u. ''''), pd_lower = snd\<rparr>"

definition plain_run :: runConfig where
  "plain_run = \<lparr>rc_relayURL = ''wss://relay'', rc_pairs = 2, rc_roundTripsPS = 5, rc_duration = 30 * second,
     rc_payloadBytes = 256, rc_setupWorkers = 1, rc_disposableOptIn = ''1''\<rparr>"

definition plain_pair :: loadPair where
  "plain_pair = \<lparr>lp_relayURL = ''wss://relay'', lp_linkID = '''', lp_controllerID = '''', lp_companionID = '''',
     lp_controllerAuth = '''', lp_companionAuth = '''', lp_sessionID = '''', lp_controller = None, lp_companion = None\<rparr>"

text \<open>ASCII text without capital letters is in lower case.\<close>

lemma lower_plain:
  assumes "\<forall>c\<in>set s. of_char c < (128 :: nat) \<and> \<not> (65 \<le> (of_char c :: nat) \<and> of_char c \<le> (90 :: nat))"
  shows "lower_text other s = s"
proof -
  have "segments s = map (\<lambda>c. (of_char c, [c])) s" by (rule segments_ascii) (use assms in \<open>simp add: list_all_iff\<close>)
  then have "lower_text other s = concat (map (\<lambda>c. lower_rune other (of_char c, [c])) s)"
    by (simp add: lower_text_def comp_def)
  also have "map (\<lambda>c. lower_rune other (of_char c, [c])) s = map (\<lambda>c. [c]) s"
    using assms by (intro map_cong) (auto simp: lower_rune_def Let_def)
  finally show ?thesis by simp
qed

lemma plain_lower:
  "lower_text snd ''relay'' = ''relay''" "lower_text snd ''prod'' = ''prod''"
  by (rule lower_plain; simp)+

lemma plain_valid: "runConfig_validate plain_deps plain_run = None"
  by (simp add: runConfig_validate_def plain_deps_def plain_run_def sameRelayAuthority_def plain_lower
      trim_dot_def perf_maxPairs_def maxFramesPerSec_def maxRunDuration_def second_def maxSamples_def
      MaxRelayPayloadBytes_def maxSetupWorkers_def go_div_def)

lemma plain_rates: "measure_rates plain_run [plain_pair, plain_pair] = Inr [(plain_pair, 3), (plain_pair, 2)]"
  by (simp add: measure_rates_def plain_run_def pair_rate_def go_div_def go_mod_def upt_rec)

theorem load_within_limits_witness:
  "map snd [(plain_pair, 3 :: int), (plain_pair, 2)] = [3, 2] \<and>
   (\<exists>bytes. b64_decode (measure_payload plain_run) = Some bytes \<and> int (length bytes) = rc_payloadBytes plain_run \<and>
      length bytes \<le> MaxRelayPayloadBytes)"
  using load_within_limits [OF plain_valid plain_rates] by simp

end
