(* ===== verification/WorkerPool.thy ===== *)
theory WorkerPool
  imports RelayPerf "HOL-Library.Multiset"
begin

text \<open>
  The pools of goroutines of \<^verbatim>\<open>cmd/relay-perf/main.go\<close>. In each of them a feeder hands jobs over an unbuffered
  channel to workers that wait for one, until the jobs are out or a context ends; then it closes the channel and
  waits for the workers. A pool makes one move at a time, and a list of moves is a schedule. The operations of a
  job are a parameter; a worker that fails may record that, cancel the context of the pool and leave.
\<close>

section \<open>A pool and its moves\<close>

datatype 't worker = Waiting | Busy 't | Left

text \<open>What a worker does next after a piece of work: another piece of the same job, another job, or leave after
  it has cancelled the context.\<close>

datatype 't next_task = Again 't | Finished | Quit

text \<open>\<open>po_parent\<close> is the error of the caller's context, \<open>po_ctx\<close> that of the pool's own, which ends with it.\<close>

record ('t, 's) pool =
  po_queue :: "'t list"
  po_open :: bool
  po_stopped :: bool
  po_workers :: "'t worker list"
  po_parent :: "goerr option"
  po_ctx :: "goerr option"
  po_shared :: 's

type_synonym ('t, 's) work = "'t \<Rightarrow> goerr option \<Rightarrow> 's \<Rightarrow> 't next_task \<times> 's"

datatype move = Hand nat | Close | StopFeeding | Work nat | Leave nat | Expire bool

definition worker_at :: "('t, 's) pool \<Rightarrow> nat \<Rightarrow> 't worker option" where
  "worker_at p w = (if w < length (po_workers p) then Some (po_workers p ! w) else None)"

definition place :: "'t next_task \<Rightarrow> 't worker" where
  "place r = (case r of Again t \<Rightarrow> Busy t | Finished \<Rightarrow> Waiting | Quit \<Rightarrow> Left)"

definition keep_first :: "goerr option \<Rightarrow> goerr \<Rightarrow> goerr option" where
  "keep_first c e = (if c = None then Some e else c)"

fun pool_move :: "('t, 's) work \<Rightarrow> move \<Rightarrow> ('t, 's) pool \<Rightarrow> ('t, 's) pool option" where
  "pool_move work (Hand w) p =
     (if po_open p \<and> worker_at p w = Some Waiting then
        (case po_queue p of
           [] \<Rightarrow> None
         | t # queue \<Rightarrow> Some (p\<lparr>po_queue := queue, po_workers := (po_workers p)[w := Busy t]\<rparr>))
      else None)"
| "pool_move work Close p =
     (if po_open p \<and> po_queue p = [] then Some (p\<lparr>po_open := False\<rparr>) else None)"
| "pool_move work StopFeeding p =
     (if po_open p \<and> po_queue p \<noteq> [] \<and> po_ctx p \<noteq> None
      then Some (p\<lparr>po_open := False, po_stopped := True\<rparr>) else None)"
| "pool_move work (Work w) p =
     (case worker_at p w of
        Some (Busy t) \<Rightarrow>
          (case work t (po_ctx p) (po_shared p) of (r, s) \<Rightarrow>
            Some (p\<lparr>po_workers := (po_workers p)[w := place r], po_shared := s,
              po_ctx := (if r = Quit then keep_first (po_ctx p) ContextCanceled else po_ctx p)\<rparr>))
      | _ \<Rightarrow> None)"
| "pool_move work (Leave w) p =
     (if \<not> po_open p \<and> worker_at p w = Some Waiting
      then Some (p\<lparr>po_workers := (po_workers p)[w := Left]\<rparr>) else None)"
| "pool_move work (Expire late) p =
     (if po_parent p = None then
        let e = (if late then DeadlineExceeded else ContextCanceled) in
        Some (p\<lparr>po_parent := Some e, po_ctx := keep_first (po_ctx p) e\<rparr>)
      else None)"

fun run_moves :: "('t, 's) work \<Rightarrow> move list \<Rightarrow> ('t, 's) pool \<Rightarrow> ('t, 's) pool option" where
  "run_moves work [] p = Some p"
| "run_moves work (m # ms) p = (case pool_move work m p of None \<Rightarrow> None | Some p \<Rightarrow> run_moves work ms p)"

text \<open>The channel is closed and \<^verbatim>\<open>workers.Wait\<close> returns.\<close>

definition returned :: "('t, 's) pool \<Rightarrow> bool" where
  "returned p \<longleftrightarrow> \<not> po_open p \<and> (\<forall>w\<in>set (po_workers p). w = Left)"

definition feeding :: "'t list \<Rightarrow> nat \<Rightarrow> 's \<Rightarrow> ('t, 's) pool" where
  "feeding jobs workers s =
     \<lparr>po_queue = jobs, po_open = True, po_stopped = False, po_workers = replicate workers Waiting,
      po_parent = None, po_ctx = None, po_shared = s\<rparr>"

section \<open>Where the jobs are\<close>

definition busy :: "'t worker \<Rightarrow> 't list" where
  "busy w = (case w of Busy t \<Rightarrow> [t] | _ \<Rightarrow> [])"

lemma busy_simps [simp]: "busy Waiting = []" "busy (Busy t) = [t]" "busy Left = []"
  by (simp_all add: busy_def)

text \<open>The jobs that are not done: waiting for a worker, or with one.\<close>

definition open_jobs :: "('t, 's) pool \<Rightarrow> 't multiset" where
  "open_jobs p = mset (po_queue p) + mset (concat (map busy (po_workers p)))"

lemma worker_at_Some: "worker_at p w = Some x \<longleftrightarrow> w < length (po_workers p) \<and> po_workers p ! w = x"
  by (auto simp: worker_at_def)

lemma concat_update:
  assumes "i < length xs"
  shows "mset (concat (map f (xs[i := x]))) + mset (f (xs ! i)) = mset (concat (map f xs)) + mset (f x)"
proof -
  obtain as y bs where "xs = as @ y # bs" "i = length as"
    using id_take_nth_drop [OF assms] assms by (metis length_take min.absorb4)
  then show ?thesis by simp
qed

lemmas busy_update = concat_update [where f = busy]

text \<open>Every move leaves the open jobs as they are, but the work on one of them.\<close>

lemma move_cases [consumes 1, case_names Other Work]:
  assumes "pool_move work m p = Some p'"
  obtains "open_jobs p' = open_jobs p" and "po_shared p' = po_shared p"
    | t r s where "t \<in># open_jobs p" and "work t (po_ctx p) (po_shared p) = (r, s)" and "po_shared p' = s"
        and "open_jobs p' + {#t#} = open_jobs p + mset (busy (place r))"
        and "r = Quit \<Longrightarrow> po_ctx p' \<noteq> None"
proof (cases m)
  case (Hand w)
  with assms obtain t q where t: "po_queue p = t # q" "worker_at p w = Some Waiting"
      "p' = p\<lparr>po_queue := q, po_workers := (po_workers p)[w := Busy t]\<rparr>"
    by (auto split: if_splits list.splits)
  then show ?thesis
    using busy_update [of w "po_workers p" "Busy t"] that(1)
    by (simp add: open_jobs_def worker_at_Some)
next
  case (Work w)
  with assms obtain t r s where t: "worker_at p w = Some (Busy t)" "work t (po_ctx p) (po_shared p) = (r, s)"
      "p' = p\<lparr>po_workers := (po_workers p)[w := place r], po_shared := s,
        po_ctx := (if r = Quit then keep_first (po_ctx p) ContextCanceled else po_ctx p)\<rparr>"
    by (auto split: option.splits worker.splits prod.splits)
  then have w: "w < length (po_workers p)" "po_workers p ! w = Busy t" by (simp_all add: worker_at_Some)
  have "t \<in># open_jobs p"
    using w nth_mem [OF w(1)] by (auto simp: open_jobs_def intro!: bexI [of _ "Busy t"])
  moreover have "open_jobs p' + {#t#} = open_jobs p + mset (busy (place r))"
    using busy_update [OF w(1), of "place r"] w(2) t(3) by (simp add: open_jobs_def)
  ultimately show ?thesis using that(2) t by (simp add: keep_first_def)
next
  case (Leave w)
  with assms have "worker_at p w = Some Waiting" "p' = p\<lparr>po_workers := (po_workers p)[w := Left]\<rparr>"
    by (auto split: if_splits)
  then show ?thesis
    using busy_update [of w "po_workers p" Left] that(1) by (simp add: open_jobs_def worker_at_Some)
qed (use assms that(1) in \<open>auto simp: open_jobs_def Let_def split: if_splits\<close>)

text \<open>An invariant of the open jobs and the shared state, and one rule to prove it.\<close>

lemma run_invariant:
  assumes "run_moves work ms p = Some p'" and "I p"
    and "\<And>m p p'. I p \<Longrightarrow> pool_move work m p = Some p' \<Longrightarrow> I p'"
  shows "I p'"
  using assms(1,2)
proof (induction ms arbitrary: p)
  case (Cons m ms)
  then obtain q where "pool_move work m p = Some q" "run_moves work ms q = Some p'" by (auto split: option.splits)
  with Cons.IH assms(3) [OF Cons.prems(2)] show ?case by blast
qed simp

lemma run_job_invariant:
  assumes "run_moves work ms p = Some p'" and "J (open_jobs p) (po_shared p)"
    and "\<And>t js c s r s'. J (add_mset t js) s \<Longrightarrow> work t c s = (r, s') \<Longrightarrow> J (js + mset (busy (place r))) s'"
  shows "J (open_jobs p') (po_shared p')"
  using assms(1,2)
proof (rule run_invariant)
  fix m p p'
  assume J: "J (open_jobs p) (po_shared p)" and "pool_move work m p = Some p'"
  from this(2) show "J (open_jobs p') (po_shared p')"
  proof (cases rule: move_cases)
    case (Work t r s)
    then obtain js where js: "open_jobs p = add_mset t js" by (meson multi_member_split)
    with Work(4) have "open_jobs p' = js + mset (busy (place r))" by simp
    with assms(3) [OF J [unfolded js] Work(2)] Work(3) show ?thesis by simp
  qed (use J in simp)
qed

section \<open>The end of a pool\<close>

text \<open>How a pool that started with feeding can be: a feeder that left jobs behind saw the end of the context, and
  a worker left early only after the context was cancelled.\<close>

definition pool_orderly :: "('t, 's) pool \<Rightarrow> bool" where
  "pool_orderly p \<longleftrightarrow>
     (po_open p \<longrightarrow> \<not> po_stopped p \<and> (Left \<in> set (po_workers p) \<longrightarrow> po_ctx p \<noteq> None)) \<and>
     (\<not> po_open p \<and> \<not> po_stopped p \<longrightarrow> po_queue p = []) \<and> (po_stopped p \<longrightarrow> po_ctx p \<noteq> None)"

lemma pool_orderly_feeding: "pool_orderly (feeding jobs workers s)"
  by (simp add: pool_orderly_def feeding_def)

lemma pool_orderly_move:
  assumes "pool_orderly p" and "pool_move work m p = Some p'"
  shows "pool_orderly p'"
proof (cases m)
  case (Work w)
  with assms(2) obtain t r s where t: "worker_at p w = Some (Busy t)" "work t (po_ctx p) (po_shared p) = (r, s)"
      "p' = p\<lparr>po_workers := (po_workers p)[w := place r], po_shared := s,
        po_ctx := (if r = Quit then keep_first (po_ctx p) ContextCanceled else po_ctx p)\<rparr>"
    by (auto split: option.splits worker.splits prod.splits)
  have "r \<noteq> Quit \<Longrightarrow> Left \<in> set ((po_workers p)[w := place r]) \<Longrightarrow> Left \<in> set (po_workers p)"
    using set_update_subset_insert [of "po_workers p" w "place r"] by (cases r) (auto simp: place_def)
  then show ?thesis using assms(1) t(3) by (auto simp: pool_orderly_def keep_first_def)
next
  case (Hand w)
  with assms(2) obtain t q where "po_queue p = t # q"
      "p' = p\<lparr>po_queue := q, po_workers := (po_workers p)[w := Busy t]\<rparr>" "po_open p"
    by (auto split: if_splits list.splits)
  then show ?thesis
    using assms(1) set_update_subset_insert [of "po_workers p" w "Busy t"] by (auto simp: pool_orderly_def)
qed (use assms in \<open>auto simp: pool_orderly_def keep_first_def Let_def split: if_splits\<close>)

lemma pool_orderly_run: "run_moves work ms p = Some p' \<Longrightarrow> pool_orderly p \<Longrightarrow> pool_orderly p'"
  by (erule run_invariant) (simp_all add: pool_orderly_move)

text \<open>A context that nobody ends has no error.\<close>

lemma context_kept:
  assumes "run_moves work ms p = Some p'" and "po_ctx p = None" and "\<And>late. Expire late \<notin> set ms"
    and "\<And>t c s s'. work t c s \<noteq> (Quit, s')"
  shows "po_ctx p' = None"
  using assms(1-3)
proof (induction ms arbitrary: p)
  case (Cons m ms)
  then obtain q where q: "pool_move work m p = Some q" "run_moves work ms q = Some p'" by (auto split: option.splits)
  have "m \<noteq> Expire late" for late using Cons.prems(3) [of late] by auto
  then have "po_ctx q = None"
    using q(1) Cons.prems(2) assms(4)
    by (cases m) (fastforce split: if_splits list.splits option.splits worker.splits prod.splits)+
  with Cons.IH [OF q(2)] Cons.prems(3) show ?case by simp
qed simp

lemma workers_kept: "pool_move work m p = Some p' \<Longrightarrow> length (po_workers p') = length (po_workers p)"
  by (cases m) (auto simp: Let_def split: if_splits list.splits option.splits worker.splits prod.splits)

lemma workers_run: "run_moves work ms p = Some p' \<Longrightarrow> length (po_workers p') = length (po_workers p)"
  by (erule run_invariant [where I = "\<lambda>q. length (po_workers q) = length (po_workers p)"]) (simp_all add: workers_kept)

lemma queue_run: "run_moves work ms p = Some p' \<Longrightarrow> length (po_queue p') \<le> length (po_queue p)"
proof (erule run_invariant [where I = "\<lambda>q. length (po_queue q) \<le> length (po_queue p)"])
  fix m q q'
  assume "length (po_queue q) \<le> length (po_queue p)" and "pool_move work m q = Some q'"
  then show "length (po_queue q') \<le> length (po_queue p)"
    by (cases m) (auto simp: Let_def split: if_splits list.splits option.splits worker.splits prod.splits)
qed simp

lemma returned_jobs:
  assumes "returned p" and "pool_orderly p"
  shows "open_jobs p = mset (po_queue p)" and "po_stopped p \<or> open_jobs p = {#}"
proof -
  have "concat (map busy (po_workers p)) = []" using assms(1) by (auto simp: returned_def)
  then show "open_jobs p = mset (po_queue p)" by (simp add: open_jobs_def)
  then show "po_stopped p \<or> open_jobs p = {#}" using assms by (auto simp: pool_orderly_def returned_def)
qed

text \<open>A pool is never stuck: as long as it has not returned, it has a move that does not wait for the end of the
  caller's context.\<close>

lemma pool_progress:
  assumes "pool_orderly p" and "po_workers p = [] \<Longrightarrow> po_queue p = []" and "\<not> returned p"
  shows "\<exists>m p'. (\<forall>late. m \<noteq> Expire late) \<and> pool_move work m p = Some p'"
proof -
  consider (busy) w t where "w < length (po_workers p)" "po_workers p ! w = Busy t"
    | (waiting) w where "w < length (po_workers p)" "po_workers p ! w = Waiting"
    | (left) "\<forall>w\<in>set (po_workers p). w = Left"
    by (metis in_set_conv_nth worker.exhaust)
  then show ?thesis
  proof cases
    case busy
    obtain r s where "work t (po_ctx p) (po_shared p) = (r, s)" by (metis surj_pair)
    with busy show ?thesis by (intro exI [of _ "Work w"]) (simp add: worker_at_def)
  next
    case waiting
    show ?thesis
    proof (cases "po_open p")
      case True
      show ?thesis
      proof (cases "po_queue p")
        case Nil
        with True show ?thesis by (intro exI [of _ Close]) simp
      next
        case (Cons t q)
        with True waiting show ?thesis by (intro exI [of _ "Hand w"]) (simp add: worker_at_def)
      qed
    next
      case False
      with waiting show ?thesis by (intro exI [of _ "Leave w"]) (simp add: worker_at_def)
    qed
  next
    case left
    then have o: "po_open p" using assms(3) by (simp add: returned_def)
    show ?thesis
    proof (cases "po_queue p = []")
      case True
      with o show ?thesis by (intro exI [of _ Close]) simp
    next
      case False
      then have "Left \<in> set (po_workers p)" using left assms(2) by (metis list.set_sel(1))
      then have "po_ctx p \<noteq> None" using assms(1) o by (simp add: pool_orderly_def)
      with o False show ?thesis by (intro exI [of _ StopFeeding]) simp
    qed
  qed
qed

section \<open>The length of a schedule\<close>

text \<open>The interface of a job: each piece of it leaves less of it.\<close>

locale worker_job =
  fixes work :: "('t, 's) work" and size_of :: "'t \<Rightarrow> nat"
  assumes shrinks: "work t c s = (Again t', s') \<Longrightarrow> size_of t' < size_of t"
begin

definition worker_weight :: "'t worker \<Rightarrow> nat" where
  "worker_weight w = (case w of Waiting \<Rightarrow> 1 | Busy t \<Rightarrow> size_of t + 2 | Left \<Rightarrow> 0)"

definition weight :: "('t, 's) pool \<Rightarrow> nat" where
  "weight p = sum_list (map (\<lambda>t. size_of t + 2) (po_queue p)) + sum_list (map worker_weight (po_workers p)) +
     (if po_open p then 1 else 0) + (if po_parent p = None then 1 else 0)"

lemma weight_update:
  assumes "w < length ws"
  shows "sum_list (map worker_weight (ws[w := x])) + worker_weight (ws ! w) =
    sum_list (map worker_weight ws) + worker_weight x"
proof -
  obtain xs y ys where "ws = xs @ y # ys" "w = length xs"
    using id_take_nth_drop [OF assms] assms by (metis length_take min.absorb4)
  then show ?thesis by simp
qed

lemma move_shrinks:
  assumes "pool_move work m p = Some p'"
  shows "weight p' < weight p"
proof (cases m)
  case (Hand w)
  with assms obtain t q where t: "po_queue p = t # q" "worker_at p w = Some Waiting" "po_open p"
      "p' = p\<lparr>po_queue := q, po_workers := (po_workers p)[w := Busy t]\<rparr>"
    by (auto split: if_splits list.splits)
  then show ?thesis
    using weight_update [of w "po_workers p" "Busy t"]
    by (simp add: weight_def worker_at_Some worker_weight_def)
next
  case (Work w)
  with assms obtain t r s where t: "worker_at p w = Some (Busy t)" "work t (po_ctx p) (po_shared p) = (r, s)"
      "p' = p\<lparr>po_workers := (po_workers p)[w := place r], po_shared := s,
        po_ctx := (if r = Quit then keep_first (po_ctx p) ContextCanceled else po_ctx p)\<rparr>"
    by (auto split: option.splits worker.splits prod.splits)
  have "worker_weight (place r) < worker_weight (Busy t)"
    using shrinks [of t] t(2) by (cases r) (auto simp: worker_weight_def place_def)
  with t show ?thesis
    using weight_update [of w "po_workers p" "place r"] by (simp add: weight_def worker_at_Some)
next
  case (Leave w)
  with assms have "worker_at p w = Some Waiting" "p' = p\<lparr>po_workers := (po_workers p)[w := Left]\<rparr>"
    by (auto split: if_splits)
  then show ?thesis
    using weight_update [of w "po_workers p" Left] by (simp add: weight_def worker_at_Some worker_weight_def)
qed (use assms in \<open>auto simp: weight_def Let_def split: if_splits\<close>)

lemma schedule_bounded: "run_moves work ms p = Some p' \<Longrightarrow> length ms + weight p' \<le> weight p"
proof (induction ms arbitrary: p)
  case (Cons m ms)
  then obtain q where "pool_move work m p = Some q" "run_moves work ms q = Some p'" by (auto split: option.splits)
  with Cons.IH [of q] move_shrinks [of m p q] show ?case by simp
qed simp

end

end
