(* ===== verification/PerfRun.thy ===== *)
theory PerfRun
  imports WorkerPool
begin

text \<open>
  \<^verbatim>\<open>run\<close>, \<^verbatim>\<open>preparePairs\<close>, \<^verbatim>\<open>measure\<close> and \<^verbatim>\<open>cleanupPairs\<close> of \<^verbatim>\<open>cmd/relay-perf/main.go\<close>, over the pools of
  \<^verbatim>\<open>WorkerPool\<close>: a run takes a schedule of the moves of its three pools. The pieces of a job are the making of a
  pair, for which the pacer holds its lock, its connection, one pass of the loop of \<^verbatim>\<open>measurePair\<close>, and the
  clean-up of one pair.
\<close>

section \<open>The operations of a run\<close>

record 'h perf_ops =
  ca_load :: "'h load"
  ca_provision :: "'h \<Rightarrow> (loadPair option \<times> goerr option) \<times> 'h"
  ca_connect :: "loadPair \<Rightarrow> 'h \<Rightarrow> goerr option \<times> loadPair \<times> 'h"
  ca_roundTrip :: "string \<Rightarrow> perfPeer \<times> perfPeer \<Rightarrow> int \<Rightarrow> string \<Rightarrow> 'h \<Rightarrow> goerr option \<times> (perfPeer \<times> perfPeer) \<times> 'h"
  ca_closeNow :: "loadPair \<Rightarrow> 'h \<Rightarrow> loadPair \<times> 'h"
  ca_cleanupPair :: "loadPair \<Rightarrow> 'h \<Rightarrow> goerr option \<times> 'h"

definition perf_calls :: "cdeps \<Rightarrow> 'h net \<Rightarrow> 'h load \<Rightarrow> nat \<Rightarrow> string \<Rightarrow> 'h perf_ops" where
  "perf_calls d n l fuel relay =
     \<lparr>ca_load = l, ca_provision = provisionPair d n relay,
      ca_connect = (\<lambda>pair. pair_connect n fuel pair relay), ca_roundTrip = roundTrip n fuel,
      ca_closeNow = pair_closeNow n, ca_cleanupPair = perf_cleanupPair n fuel\<rparr>"

section \<open>Preparing the pairs\<close>

datatype setup_job = ProvisionPair nat | ConnectPair nat loadPair

record 'h setup_state =
  su_pairs :: "loadPair option list"
  su_firstErr :: "goerr option"
  su_due :: int
  su_host :: 'h

text \<open>The clock of the pacer, under the context of the workers.\<close>

definition pace_under :: "'h load \<Rightarrow> goerr option \<Rightarrow> 'h pace" where
  "pace_under l c = \<lparr>pc_now = pc_now l, pc_wait = pc_wait l,
     pc_ctx_err = (\<lambda>h. case c of Some e \<Rightarrow> (Some e, h) | None \<Rightarrow> pc_ctx_err l h)\<rparr>"

definition setup_failed :: "nat \<Rightarrow> goerr \<Rightarrow> 'h setup_state \<Rightarrow> 'h setup_state" where
  "setup_failed index e s = s\<lparr>su_firstErr :=
     keep_first (su_firstErr s) (Wrapped (''prepare pair '' @ itoa (int index + 1)) e)\<rparr>"

text \<open>No provisioner returns neither a pair nor an error, see \<open>provisionPair_result\<close>.\<close>

fun setup_work :: "'h perf_ops \<Rightarrow> (setup_job, 'h setup_state) work" where
  "setup_work ca (ProvisionPair index) c s =
     (case pacer_provision (pace_under (ca_load ca) c) pairCreateInterval (su_due s) (ca_provision ca) (su_host s) of
        ((pair, err), due, h) \<Rightarrow>
          let s = s\<lparr>su_pairs := (case pair of None \<Rightarrow> su_pairs s | Some p \<Rightarrow> (su_pairs s)[index := Some p]),
                su_due := due, su_host := h\<rparr> in
          (case (err, pair) of
             (Some e, _) \<Rightarrow> (Quit, setup_failed index e s)
           | (None, Some p) \<Rightarrow> (Again (ConnectPair index p), s)
           | (None, None) \<Rightarrow> (Quit, setup_failed index (ErrorText ''nil pair'') s)))"
| "setup_work ca (ConnectPair index pair) c s =
     (case ca_connect ca pair (su_host s) of (err, pair, h) \<Rightarrow>
        let s = s\<lparr>su_pairs := (su_pairs s)[index := Some pair], su_host := h\<rparr> in
        (case err of None \<Rightarrow> (Finished, s) | Some e \<Rightarrow> (Quit, setup_failed index e s)))"

definition start_setup :: "runConfig \<Rightarrow> 'h \<Rightarrow> (setup_job, 'h setup_state) pool" where
  "start_setup config h =
     feeding (map ProvisionPair [0..<nat (rc_pairs config)]) (nat (min (rc_setupWorkers config) (rc_pairs config)))
       \<lparr>su_pairs = replicate (nat (rc_pairs config)) None, su_firstErr = None, su_due = 0, su_host = h\<rparr>"

definition preparePairs :: "'h perf_ops \<Rightarrow> runConfig \<Rightarrow> move list \<Rightarrow> 'h \<Rightarrow>
    ((loadPair list \<times> goerr option) \<times> 'h) option" where
  "preparePairs ca config moves h =
     (case run_moves (setup_work ca) moves (start_setup config h) of
        None \<Rightarrow> None
      | Some p \<Rightarrow>
          if returned p then
            let s = po_shared p in
            Some ((compactPairs (su_pairs s),
              if po_stopped p then firstError (su_firstErr s) (po_ctx p) else su_firstErr s), su_host s)
          else None)"

section \<open>Measuring\<close>

record load_job =
  lj_sessionID :: string
  lj_peers :: "(perfPeer \<times> perfPeer) option"
  lj_rate :: int
  lj_sequence :: int

record 'h loading =
  lo_samples :: "int list"
  lo_firstErr :: "goerr option"
  lo_host :: 'h

definition load_failed :: "goerr \<Rightarrow> 'h \<Rightarrow> 'h loading \<Rightarrow> load_job next_task \<times> 'h loading" where
  "load_failed e h s = (Quit, s\<lparr>lo_firstErr := keep_first (lo_firstErr s) e, lo_host := h\<rparr>)"

text \<open>A round trip that is due; prepared pairs are connected, see \<open>prepared_connected\<close>.\<close>

definition load_round :: "'h perf_ops \<Rightarrow> string \<Rightarrow> load_job \<Rightarrow> 'h \<Rightarrow> 'h loading \<Rightarrow> load_job next_task \<times> 'h loading" where
  "load_round ca payload job h s =
     (case lj_peers job of
        None \<Rightarrow> load_failed (ErrorText ''nil peer'') h s
      | Some peers \<Rightarrow>
     (case pc_now (ca_load ca) h of (started, h) \<Rightarrow>
     (case ca_roundTrip ca (lj_sessionID job) peers (lj_sequence job + 1) payload h of
        (Some e, peers, h) \<Rightarrow> load_failed (Wrapped ''relay round trip failed'' e) h s
      | (None, peers, h) \<Rightarrow>
     (case pc_now (ca_load ca) h of (now, h) \<Rightarrow>
        (Again (job\<lparr>lj_peers := Some peers, lj_sequence := lj_sequence job + 1\<rparr>),
         s\<lparr>lo_samples := sampleCollector_add (lo_samples s) (now - started), lo_host := h\<rparr>)))))"

text \<open>One pass of the loop of \<^verbatim>\<open>measurePair\<close>; without a rate the pair only holds its connections.\<close>

definition measurePair :: "'h perf_ops \<Rightarrow> string \<Rightarrow> (load_job, 'h loading) work" where
  "measurePair ca payload job c s =
     (if lj_rate job = 0 then
        (case ld_select (ca_load ca) None (lo_host s) of
           (LoadDone e, h) \<Rightarrow> load_failed e h s
         | (_, h) \<Rightarrow> (Finished, s\<lparr>lo_host := h\<rparr>))
      else
        (case ld_select (ca_load ca) (Some (go_div second (lj_rate job))) (lo_host s) of
           (LoadDone e, h) \<Rightarrow> load_failed e h s
         | (StopScheduling, h) \<Rightarrow> (Finished, s\<lparr>lo_host := h\<rparr>)
         | (TickerFired, h) \<Rightarrow>
             (case ld_stopped (ca_load ca) h of
                (True, h) \<Rightarrow> (Finished, s\<lparr>lo_host := h\<rparr>)
              | (False, h) \<Rightarrow> load_round ca payload job h s)))"

definition load_job_of :: "loadPair \<times> int \<Rightarrow> load_job" where
  "load_job_of share =
     (case share of (pair, rate) \<Rightarrow>
        \<lparr>lj_sessionID = lp_sessionID pair,
         lj_peers = (case (lp_controller pair, lp_companion pair) of (Some a, Some b) \<Rightarrow> Some (a, b) | _ \<Rightarrow> None),
         lj_rate = rate, lj_sequence = 0\<rparr>)"

text \<open>Every pair has its own worker, and there are no further jobs.\<close>

definition start_measure :: "(loadPair \<times> int) list \<Rightarrow> 'h \<Rightarrow> (load_job, 'h loading) pool" where
  "start_measure shares h =
     \<lparr>po_queue = [], po_open = False, po_stopped = False, po_workers = map (\<lambda>share. Busy (load_job_of share)) shares,
      po_parent = None, po_ctx = None, po_shared = \<lparr>lo_samples = [], lo_firstErr = None, lo_host = h\<rparr>\<rparr>"

definition measure :: "'h perf_ops \<Rightarrow> runConfig \<Rightarrow> loadPair list \<Rightarrow> move list \<Rightarrow> 'h \<Rightarrow>
    ((int list \<times> goerr option) \<times> 'h) option" where
  "measure ca config pairs moves h =
     (case measure_rates config pairs of
        Inl e \<Rightarrow> Some (([], Some e), h)
      | Inr shares \<Rightarrow>
          (case run_moves (measurePair ca (measure_payload config)) moves (start_measure shares h) of
             None \<Rightarrow> None
           | Some p \<Rightarrow>
               if returned p then
                 let s = po_shared p in
                 Some ((lo_samples s, if po_parent p \<noteq> None then po_parent p else lo_firstErr s), lo_host s)
               else None))"

section \<open>Cleaning up\<close>

record 'h cleaning =
  cl_failures :: "goerr list"
  cl_host :: 'h

definition cleanup_work :: "'h perf_ops \<Rightarrow> (loadPair, 'h cleaning) work" where
  "cleanup_work ca pair c s =
     (case ca_cleanupPair ca pair (cl_host s) of (err, h) \<Rightarrow>
        (Finished, s\<lparr>cl_failures := cl_failures s @ (case err of None \<Rightarrow> [] | Some e \<Rightarrow> [e]), cl_host := h\<rparr>))"

fun close_pairs :: "'h perf_ops \<Rightarrow> loadPair list \<Rightarrow> 'h \<Rightarrow> loadPair list \<times> 'h" where
  "close_pairs ca [] h = ([], h)"
| "close_pairs ca (pair # pairs) h =
     (case ca_closeNow ca pair h of (pair, h) \<Rightarrow>
     (case close_pairs ca pairs h of (pairs, h) \<Rightarrow> (pair # pairs, h)))"

definition start_cleanup :: "loadPair list \<Rightarrow> int \<Rightarrow> 'h \<Rightarrow> (loadPair, 'h cleaning) pool" where
  "start_cleanup pairs concurrency h =
     feeding pairs (nat (min concurrency (int (length pairs)))) \<lparr>cl_failures = [], cl_host = h\<rparr>"

definition opt_list :: "'a option \<Rightarrow> 'a list" where
  "opt_list x = (case x of None \<Rightarrow> [] | Some y \<Rightarrow> [y])"

definition cleanupPairs :: "'h perf_ops \<Rightarrow> loadPair list \<Rightarrow> int \<Rightarrow> move list \<Rightarrow> 'h \<Rightarrow> (goerr option \<times> 'h) option" where
  "cleanupPairs ca pairs concurrency moves h =
     (case close_pairs ca pairs h of (pairs, h) \<Rightarrow>
     (case run_moves (cleanup_work ca) moves (start_cleanup pairs concurrency h) of
        None \<Rightarrow> None
      | Some p \<Rightarrow>
          if returned p then
            let s = po_shared p in
            Some (errors_Join (if po_stopped p then cl_failures s @ opt_list (po_ctx p) else cl_failures s), cl_host s)
          else None))"

section \<open>The whole run\<close>

record schedule =
  sch_setup :: "move list"
  sch_load :: "move list"
  sch_cleanup :: "move list"

text \<open>
  The result is the error of \<^verbatim>\<open>run\<close>, or the summary that it prints. \<open>host_of\<close> is the host that \<^verbatim>\<open>url.Parse\<close>
  finds in the URL. A schedule that does not let every pool return has no result.
\<close>

definition perf_run :: "perf_deps \<Rightarrow> (string \<Rightarrow> string) \<Rightarrow> 'f floats \<Rightarrow> (string \<Rightarrow> 'h perf_ops) \<Rightarrow>
    goerr + runConfig \<times> nat \<Rightarrow> string \<Rightarrow> schedule \<Rightarrow> 'h \<Rightarrow> ((goerr + 'f perf_result) \<times> 'h) option" where
  "perf_run d host_of fl calls parsed optIn sch h =
     (case parseConfig d parsed optIn of
        Inl e \<Rightarrow> Some (Inl e, h)
      | Inr config \<Rightarrow>
     (let ca = calls (rc_relayURL config) in
      case preparePairs ca config (sch_setup sch) h of
        None \<Rightarrow> None
      | Some ((pairs, Some setupErr), h) \<Rightarrow>
          (case cleanupPairs ca pairs (rc_setupWorkers config) (sch_cleanup sch) h of
             None \<Rightarrow> None
           | Some (cleanupErr, h) \<Rightarrow>
               Some (Inl (case cleanupErr of None \<Rightarrow> setupErr | Some e \<Rightarrow> Joined setupErr e), h))
      | Some ((pairs, None), h) \<Rightarrow>
     (case measure ca config pairs (sch_load sch) h of
        None \<Rightarrow> None
      | Some ((samples, err), h) \<Rightarrow>
     (let loadErr = (case err of None \<Rightarrow> validateAchievedRate fl config (length samples) | Some e \<Rightarrow> Some e) in
      case cleanupPairs ca pairs (rc_setupWorkers config) (sch_cleanup sch) h of
        None \<Rightarrow> None
      | Some (cleanupErr, h) \<Rightarrow>
          (case errors_Join (opt_list loadErr @ opt_list cleanupErr) of
             Some e \<Rightarrow> Some (Inl e, h)
           | None \<Rightarrow> Some (Inr (perf_summarize fl (host_of (rc_relayURL config)) config samples
               (rc_duration config)), h))))))"

section \<open>The pools return\<close>

definition setup_size :: "setup_job \<Rightarrow> nat" where
  "setup_size j = (case j of ProvisionPair i \<Rightarrow> 1 | ConnectPair i p \<Rightarrow> 0)"

lemma setup_shrinks: "setup_work ca t c s = (Again t', s') \<Longrightarrow> setup_size t' < setup_size t"
  by (cases t) (auto simp: setup_size_def Let_def split: prod.splits option.splits)

interpretation prep: worker_job "setup_work ca" setup_size
  by unfold_locales (rule setup_shrinks)

interpretation clean: worker_job "cleanup_work ca" "\<lambda>_. 0"
  by unfold_locales (simp add: cleanup_work_def split: prod.splits)

lemma replicate_weight: "sum_list (map f (replicate n x)) = n * (f x :: nat)"
  by (induction n) simp_all

lemma setup_weight: "prep.weight (start_setup config h) =
    3 * nat (rc_pairs config) + nat (min (rc_setupWorkers config) (rc_pairs config)) + 2"
  by (simp add: prep.weight_def start_setup_def feeding_def prep.worker_weight_def setup_size_def sum_list_triv
      comp_def replicate_weight del: map_replicate)

lemma cleanup_weight: "clean.weight (start_cleanup pairs concurrency h) =
    2 * length pairs + nat (min concurrency (int (length pairs))) + 2"
  by (simp add: clean.weight_def start_cleanup_def feeding_def clean.worker_weight_def sum_list_triv replicate_weight
      del: map_replicate)

end
