(* ===== verification/PerfSafety.thy ===== *)
theory PerfSafety
  imports PerfRun Enrollment
begin

text \<open>
  What a run of \<^verbatim>\<open>cmd/relay-perf/main.go\<close> leaves behind, whatever its schedule: the pairs that were provisioned,
  and those that were cleaned up. The operations of the run are watched by a history of both.
\<close>

section \<open>A history of the pairs\<close>

record history =
  hi_made :: "loadPair list"
  hi_cleaned :: "(loadPair \<times> goerr option) list"

definition lifted :: "('h \<Rightarrow> 'x \<times> 'h) \<Rightarrow> 'h \<times> history \<Rightarrow> 'x \<times> 'h \<times> history" where
  "lifted f = (\<lambda>(h, g). case f h of (x, h) \<Rightarrow> (x, h, g))"

definition lifted2 :: "('h \<Rightarrow> 'x \<times> 'y \<times> 'h) \<Rightarrow> 'h \<times> history \<Rightarrow> 'x \<times> 'y \<times> 'h \<times> history" where
  "lifted2 f = (\<lambda>(h, g). case f h of (x, y, h) \<Rightarrow> (x, y, h, g))"

text \<open>The operations on the same host, with the pairs that are made and cleaned up recorded.\<close>

definition watched :: "'h perf_ops \<Rightarrow> ('h \<times> history) perf_ops" where
  "watched ca =
     \<lparr>ca_load = \<lparr>pc_now = lifted (pc_now (ca_load ca)), pc_wait = (\<lambda>t. lifted (pc_wait (ca_load ca) t)),
        pc_ctx_err = lifted (pc_ctx_err (ca_load ca)), ld_select = (\<lambda>i. lifted (ld_select (ca_load ca) i)),
        ld_stopped = lifted (ld_stopped (ca_load ca))\<rparr>,
      ca_provision = (\<lambda>(h, g). case ca_provision ca h of ((pair, err), h) \<Rightarrow>
        ((pair, err), h, g\<lparr>hi_made := hi_made g @ opt_list pair\<rparr>)),
      ca_connect = (\<lambda>pair. lifted2 (ca_connect ca pair)),
      ca_roundTrip = (\<lambda>sessionID peers sequence payload. lifted2 (ca_roundTrip ca sessionID peers sequence payload)),
      ca_closeNow = (\<lambda>pair. lifted (ca_closeNow ca pair)),
      ca_cleanupPair = (\<lambda>pair (h, g). case ca_cleanupPair ca pair h of (err, h) \<Rightarrow>
        (err, h, g\<lparr>hi_cleaned := hi_cleaned g @ [(pair, err)]\<rparr>))\<rparr>"

lemmas lifted_simps = lifted_def lifted2_def

text \<open>A pair without its connections: what the relay knows of it.\<close>

definition identity :: "loadPair \<Rightarrow> loadPair" where
  "identity pair = pair\<lparr>lp_sessionID := '''', lp_controller := None, lp_companion := None\<rparr>"

definition connected :: "loadPair \<Rightarrow> bool" where
  "connected pair \<longleftrightarrow> lp_sessionID pair \<noteq> '''' \<and> lp_controller pair \<noteq> None \<and> lp_companion pair \<noteq> None"

abbreviation identities :: "loadPair list \<Rightarrow> loadPair multiset" where
  "identities pairs \<equiv> mset (map identity pairs)"

lemma opt_list_simps [simp]: "opt_list None = []" "opt_list (Some x) = [x]"
  by (simp_all add: opt_list_def)

lemma compactPairs_opt: "compactPairs = concat \<circ> map opt_list"
  by (simp add: compactPairs_def opt_list_def [abs_def] fun_eq_iff)

lemma compactPairs_update:
  assumes "i < length ps"
  shows "identities (compactPairs (ps[i := Some p])) + identities (opt_list (ps ! i)) =
    identities (compactPairs ps) + {#identity p#}"
  using arg_cong [OF concat_update [OF assms, of opt_list "Some p"], of "image_mset identity"]
  by (simp add: compactPairs_opt)

lemma setup_failed_simps [simp]:
  "su_firstErr (setup_failed i e s) \<noteq> None" "su_pairs (setup_failed i e s) = su_pairs s"
  "su_host (setup_failed i e s) = su_host s"
  by (simp_all add: setup_failed_def keep_first_def)

section \<open>The interface of the operations\<close>

text \<open>A pair stays the same for the relay while it is connected and closed, and connecting it succeeds only with a
  session and both connections.\<close>

locale pair_calls =
  fixes ca :: "'h perf_ops"
  assumes connect_identity: "ca_connect ca pair h = (err, pair', h') \<Longrightarrow> identity pair' = identity pair"
    and connect_connected: "ca_connect ca pair h = (None, pair', h') \<Longrightarrow> connected pair'"
    and close_identity: "ca_closeNow ca pair h = (pair', h') \<Longrightarrow> identity pair' = identity pair"
begin

definition job_index :: "setup_job \<Rightarrow> nat" where
  "job_index j = (case j of ProvisionPair i \<Rightarrow> i | ConnectPair i p \<Rightarrow> i)"

text \<open>While the pairs are prepared: each open job has its own slot, empty before the pair is made and with the pair
  afterwards; the slots hold the pairs that were made; and without a failure the slots of the jobs that are done
  are connected.\<close>

definition preparing :: "nat \<Rightarrow> setup_job multiset \<Rightarrow> ('h \<times> history) setup_state \<Rightarrow> bool" where
  "preparing n js s \<longleftrightarrow>
     image_mset job_index js \<subseteq># mset_set {0..<n} \<and> length (su_pairs s) = n \<and>
     (\<forall>j\<in>#js. su_pairs s ! job_index j = (case j of ProvisionPair i \<Rightarrow> None | ConnectPair i p \<Rightarrow> Some p)) \<and>
     identities (hi_made (snd (su_host s))) = identities (compactPairs (su_pairs s)) \<and>
     hi_cleaned (snd (su_host s)) = [] \<and>
     (su_firstErr s = None \<longrightarrow>
        (\<forall>i<n. i \<notin># image_mset job_index js \<longrightarrow> (\<exists>p. su_pairs s ! i = Some p \<and> connected p)))"

lemma preparingD:
  assumes "preparing n (add_mset j js) s"
  shows "job_index j < n" and "\<And>k. k \<in># js \<Longrightarrow> job_index k \<noteq> job_index j"
    and "image_mset job_index js \<subseteq># mset_set {0..<n}"
proof -
  have sub: "add_mset (job_index j) (image_mset job_index js) \<subseteq># mset_set {0..<n}"
    using assms by (simp add: preparing_def)
  then show "job_index j < n" using mset_subset_eqD [OF sub, of "job_index j"] by simp
  show "image_mset job_index js \<subseteq># mset_set {0..<n}"
    by (rule subset_mset.order_trans [OF _ sub]) simp
  have "Suc (count (image_mset job_index js) (job_index j)) \<le> count (mset_set {0..<n}) (job_index j)"
    using mset_subset_eq_count [OF sub, of "job_index j"] by simp
  also have "\<dots> \<le> 1" by (simp add: count_mset_set')
  finally have "job_index j \<notin># image_mset job_index js" by (simp add: count_eq_zero_iff)
  then show "job_index k \<noteq> job_index j" if "k \<in># js" for k
    using imageI [OF that, of job_index] by auto
qed

text \<open>One piece of work on a slot.\<close>

lemma preparing_step:
  assumes P: "preparing n (add_mset j js) s"
    and ps: "su_pairs s' = (case filled of None \<Rightarrow> su_pairs s | Some p \<Rightarrow> (su_pairs s)[job_index j := Some p])"
    and made: "identities (hi_made (snd (su_host s'))) + identities (opt_list (su_pairs s ! job_index j)) =
      identities (hi_made (snd (su_host s))) +
        identities (opt_list (case filled of None \<Rightarrow> su_pairs s ! job_index j | Some p \<Rightarrow> Some p))"
    and "hi_cleaned (snd (su_host s')) = hi_cleaned (snd (su_host s))"
    and err: "su_firstErr s' = None \<Longrightarrow> su_firstErr s = None \<and>
      (\<exists>p. filled = Some p \<and> (if ks = {#} then connected p else ks = {#ConnectPair (job_index j) p#}))"
    and ks: "ks = {#} \<or> (\<exists>p. filled = Some p \<and> ks = {#ConnectPair (job_index j) p#})"
  shows "preparing n (js + ks) s'"
proof -
  note d = preparingD [OF P]
  note p = P [unfolded preparing_def]
  have len: "length (su_pairs s) = n" using p by simp
  have sub: "image_mset job_index (js + ks) \<subseteq># mset_set {0..<n}"
    using ks d(3) p by (auto simp: job_index_def)
  have slots: "su_pairs s' ! job_index k = (case k of ProvisionPair i \<Rightarrow> None | ConnectPair i p \<Rightarrow> Some p)"
    if "k \<in># js + ks" for k
  proof (cases "k \<in># js")
    case True
    with d(2) [OF True] p show ?thesis by (auto simp: ps split: option.splits)
  next
    case False
    with that ks obtain q where "filled = Some q" "k = ConnectPair (job_index j) q" by auto
    with d(1) len show ?thesis by (simp add: ps job_index_def)
  qed
  have made': "identities (hi_made (snd (su_host s'))) = identities (compactPairs (su_pairs s'))"
  proof (cases filled)
    case None
    with made p ps show ?thesis by simp
  next
    case (Some q)
    have "identities (compactPairs (su_pairs s')) + identities (opt_list (su_pairs s ! job_index j)) =
        identities (hi_made (snd (su_host s'))) + identities (opt_list (su_pairs s ! job_index j))"
      using compactPairs_update [of "job_index j" "su_pairs s" q] d(1) len p made Some by (simp add: ps)
    then show ?thesis by simp
  qed
  have conn: "\<exists>q. su_pairs s' ! i = Some q \<and> connected q"
    if e: "su_firstErr s' = None" and i: "i < n" "i \<notin># image_mset job_index (js + ks)" for i
  proof (cases "i = job_index j")
    case True
    with i(2) have "ks = {#}" using ks by (auto simp: job_index_def)
    with err [OF e] True d(1) len show ?thesis by (auto simp: ps)
  next
    case False
    with i err [OF e] p have "\<exists>q. su_pairs s ! i = Some q \<and> connected q" by simp
    with False show ?thesis by (simp add: ps split: option.split)
  qed
  show ?thesis
    unfolding preparing_def using sub slots made' conn p assms(4) len
    by (auto simp: ps split: option.splits)
qed

lemma pacer_watched:
  assumes "pacer_provision (pace_under (ca_load (watched ca)) c) interval due (ca_provision (watched ca)) (h, g) =
    ((pair, err), due', h', g')"
  shows "g' = g\<lparr>hi_made := hi_made g @ opt_list pair\<rparr>"
  using assms
  by (auto simp: pacer_provision_def watched_def pace_under_def lifted_simps
      split: prod.splits option.splits if_splits)

lemma setup_work_preparing:
  assumes P: "preparing n (add_mset j js) s" and w: "setup_work (watched ca) j c s = (r, s')"
  shows "preparing n (js + mset (busy (place r))) s'"
proof (cases j)
  case (ProvisionPair i)
  obtain h g where hg: "su_host s = (h, g)" by (metis surj_pair)
  obtain pair err due h' g' where v: "pacer_provision (pace_under (ca_load (watched ca)) c) pairCreateInterval
      (su_due s) (ca_provision (watched ca)) (su_host s) = ((pair, err), due, h', g')"
    by (metis surj_pair)
  note g = pacer_watched [OF v [unfolded hg]]
  have idx: "job_index j = i" "su_pairs s ! i = None"
    using P by (simp_all add: preparing_def job_index_def ProvisionPair)
  show ?thesis
    by (rule preparing_step [OF P, where filled = pair])
      (use w v g hg idx in \<open>auto simp: ProvisionPair place_def Let_def
        split: option.splits\<close>)
next
  case (ConnectPair i p)
  obtain h g where hg: "su_host s = (h, g)" by (metis surj_pair)
  obtain err p' h' where v: "ca_connect ca p h = (err, p', h')" by (metis surj_pair)
  then have v': "ca_connect (watched ca) p (su_host s) = (err, p', h', g)"
    by (simp add: watched_def lifted_simps hg)
  have idx: "job_index j = i" "su_pairs s ! i = Some p"
    using P by (simp_all add: preparing_def job_index_def ConnectPair)
  note c = connect_identity [OF v] connect_connected [of p h p' h'] 
  show ?thesis
    by (rule preparing_step [OF P, where filled = "Some p'"])
      (use w v v' c hg idx in \<open>auto simp: ConnectPair place_def Let_def
        split: option.splits\<close>)
qed

lemma preparing_start:
  "preparing (nat (rc_pairs config)) (open_jobs (start_setup config (h, \<lparr>hi_made = [], hi_cleaned = []\<rparr>)))
     (po_shared (start_setup config (h, \<lparr>hi_made = [], hi_cleaned = []\<rparr>)))"
proof -
  have "concat (replicate n []) = []" for n by (induction n) simp_all
  moreover have "mset (map (job_index \<circ> ProvisionPair) [0..<n]) = mset_set {0..<n}" for n
    by (simp add: job_index_def comp_def)
  ultimately show ?thesis
    by (auto simp: preparing_def start_setup_def feeding_def open_jobs_def compactPairs_opt job_index_def comp_def
        simp flip: mset_map)
qed

text \<open>What \<^verbatim>\<open>preparePairs\<close> returns: all pairs that were made, and without an error as many as were asked for, each
  connected.\<close>

lemma prepared:
  assumes "preparePairs (watched ca) config moves (h, \<lparr>hi_made = [], hi_cleaned = []\<rparr>) = Some ((pairs, err), h', g)"
  shows "identities pairs = identities (hi_made g)" and "hi_cleaned g = []"
    and "err = None \<Longrightarrow> length pairs = nat (rc_pairs config)" and "err = None \<Longrightarrow> p \<in> set pairs \<Longrightarrow> connected p"
proof -
  let ?start = "start_setup config (h, \<lparr>hi_made = [], hi_cleaned = []\<rparr>)"
  obtain p where run: "run_moves (setup_work (watched ca)) moves ?start = Some p" "returned p"
      and res: "pairs = compactPairs (su_pairs (po_shared p))" "su_host (po_shared p) = (h', g)"
        "err = (if po_stopped p then firstError (su_firstErr (po_shared p)) (po_ctx p) else su_firstErr (po_shared p))"
    using assms by (auto simp: preparePairs_def Let_def split: option.splits if_splits)
  have o: "pool_orderly p" by (rule pool_orderly_run [OF run(1)]) (simp add: start_setup_def pool_orderly_feeding)
  have P: "preparing (nat (rc_pairs config)) (open_jobs p) (po_shared p)"
    by (rule run_job_invariant [OF run(1), where J = "preparing (nat (rc_pairs config))"])
      (rule preparing_start, rule setup_work_preparing)
  then show "identities pairs = identities (hi_made g)" "hi_cleaned g = []"
    using res by (simp_all add: preparing_def)
  define ps where "ps = su_pairs (po_shared p)"
  have all: "length ps = nat (rc_pairs config)" "\<forall>x\<in>set ps. \<exists>q. x = Some q \<and> connected q" if "err = None"
  proof -
    from that res(3) o have "\<not> po_stopped p" "su_firstErr (po_shared p) = None"
      by (auto simp: firstError_def pool_orderly_def split: if_splits)
    with returned_jobs(2) [OF run(2) o] P
    show "length ps = nat (rc_pairs config)" "\<forall>x\<in>set ps. \<exists>q. x = Some q \<and> connected q"
      by (auto simp: preparing_def ps_def all_set_conv_all_nth)
  qed
  have "length (compactPairs ps) = length ps \<and> (\<forall>q\<in>set (compactPairs ps). connected q)"
    if "\<forall>x\<in>set ps. \<exists>q. x = Some q \<and> connected q" for ps
    using that by (induction ps) (auto simp: compactPairs_opt)
  from this [OF all(2)] all(1) show "err = None \<Longrightarrow> length pairs = nat (rc_pairs config)"
      "err = None \<Longrightarrow> p \<in> set pairs \<Longrightarrow> connected p" for p
    unfolding res(1) ps_def by metis+
qed

lemma measure_history:
  assumes "measure (watched ca) config pairs moves h = Some (r, h')"
  shows "snd h' = snd h"
proof (cases "measure_rates config pairs")
  case (Inr shares)
  with assms obtain p where run: "run_moves (measurePair (watched ca) (measure_payload config)) moves
      (start_measure shares h) = Some p" and h': "h' = lo_host (po_shared p)"
    by (auto simp: measure_def Let_def split: option.splits if_splits)
  have "snd (lo_host (po_shared p)) = snd h"
    by (rule run_job_invariant [OF run, where J = "\<lambda>js s. snd (lo_host s) = snd h"])
      (auto simp: start_measure_def measurePair_def load_round_def load_failed_def watched_def lifted_simps
        split: if_splits prod.splits wakeup.splits option.splits bool.splits)
  with h' show ?thesis by simp
qed (use assms in \<open>simp add: measure_def\<close>)

lemma close_pairs_kept:
  "close_pairs (watched ca) pairs (h, g) = (pairs', h', g') \<Longrightarrow> identities pairs' = identities pairs \<and> g' = g"
proof (induction pairs arbitrary: h g pairs')
  case (Cons p ps)
  from Cons.prems obtain p' h1 ps' where "ca_closeNow ca p h = (p', h1)"
      "close_pairs (watched ca) ps (h1, g) = (ps', h', g')" "pairs' = p' # ps'"
    by (auto simp: watched_def lifted_simps split: prod.splits)
  with Cons.IH close_identity show ?case by auto
qed simp

text \<open>While the pairs are cleaned up: each is in the history or waits, and the failures are those of the history.\<close>

definition cleaning_up :: "loadPair list \<Rightarrow> loadPair list \<Rightarrow> loadPair multiset \<Rightarrow> ('h \<times> history) cleaning \<Rightarrow> bool" where
  "cleaning_up made pairs js s \<longleftrightarrow>
     hi_made (snd (cl_host s)) = made \<and>
     identities (map fst (hi_cleaned (snd (cl_host s)))) + image_mset identity js = identities pairs \<and>
     cl_failures s = concat (map (opt_list \<circ> snd) (hi_cleaned (snd (cl_host s))))"

lemma cleanup_work_cleaning:
  assumes "cleaning_up made pairs (add_mset p js) s" and "cleanup_work (watched ca) p c s = (r, s')"
  shows "cleaning_up made pairs (js + mset (busy (place r))) s'"
proof -
  obtain h g where hg: "cl_host s = (h, g)" by (metis surj_pair)
  obtain err h' where "ca_cleanupPair ca p h = (err, h')" by (metis surj_pair)
  with assms hg show ?thesis
    by (auto simp: cleaning_up_def cleanup_work_def watched_def place_def opt_list_def)
qed

lemma errors_Join_None: "errors_Join es = None \<longleftrightarrow> es = []"
  by (simp add: errors_Join_def split: list.splits)

lemma cleaned_up:
  assumes "cleanupPairs (watched ca) pairs concurrency moves (h, g) = Some (err, h', g')" and "hi_cleaned g = []"
  shows "hi_made g' = hi_made g"
    and "identities (map fst (hi_cleaned g')) \<subseteq># identities pairs"
    and "\<forall>late. Expire late \<notin> set moves \<Longrightarrow> identities (map fst (hi_cleaned g')) = identities pairs"
    and "err = None \<Longrightarrow> identities (map fst (hi_cleaned g')) = identities pairs \<and> (\<forall>x\<in>set (hi_cleaned g'). snd x = None)"
proof -
  obtain pairs' h1 g1 where cl: "close_pairs (watched ca) pairs (h, g) = (pairs', h1, g1)" by (metis surj_pair)
  have kept: "identities pairs' = identities pairs" "g1 = g" using close_pairs_kept [OF cl] by blast+
  let ?start = "start_cleanup pairs' concurrency (h1, g)"
  obtain p where run: "run_moves (cleanup_work (watched ca)) moves ?start = Some p" "returned p"
      and res: "cl_host (po_shared p) = (h', g')" "err = errors_Join (if po_stopped p
          then cl_failures (po_shared p) @ opt_list (po_ctx p) else cl_failures (po_shared p))"
    using assms(1) cl kept(2) by (auto simp: cleanupPairs_def Let_def split: option.splits if_splits)
  have o: "pool_orderly p" by (rule pool_orderly_run [OF run(1)]) (simp add: start_cleanup_def pool_orderly_feeding)
  have "concat (replicate n []) = []" for n by (induction n) simp_all
  then have "cleaning_up (hi_made g) pairs (open_jobs ?start) (po_shared ?start)"
    using assms(2) kept by (simp add: cleaning_up_def start_cleanup_def feeding_def open_jobs_def)
  then have C: "cleaning_up (hi_made g) pairs (open_jobs p) (po_shared p)"
    by (rule run_job_invariant [OF run(1), where J = "cleaning_up (hi_made g) pairs"]) (rule cleanup_work_cleaning)
  show "hi_made g' = hi_made g" using C res(1) by (simp add: cleaning_up_def)
  show "identities (map fst (hi_cleaned g')) \<subseteq># identities pairs"
    using C res(1) by (metis cleaning_up_def mset_subset_eq_add_left snd_conv)
  have handed: "\<not> po_stopped p \<Longrightarrow> identities (map fst (hi_cleaned g')) = identities pairs"
    using C res(1) returned_jobs(2) [OF run(2) o] by (auto simp: cleaning_up_def)
  show "identities (map fst (hi_cleaned g')) = identities pairs" if "\<forall>late. Expire late \<notin> set moves"
  proof -
    have "po_ctx p = None"
      by (rule context_kept [OF run(1)])
        (use that in \<open>auto simp: start_cleanup_def feeding_def cleanup_work_def split: prod.splits\<close>)
    with o handed show ?thesis by (auto simp: pool_orderly_def)
  qed
  show "identities (map fst (hi_cleaned g')) = identities pairs \<and> (\<forall>x\<in>set (hi_cleaned g'). snd x = None)"
    if "err = None"
  proof -
    from that res(2) o have "\<not> po_stopped p" "cl_failures (po_shared p) = []"
      by (auto simp: errors_Join_None pool_orderly_def split: if_splits)
    with handed C res(1) show ?thesis by (auto simp: cleaning_up_def opt_list_def split: option.splits)
  qed
qed

text \<open>The whole run: what the history holds at its end.\<close>

lemma run_history:
  assumes "perf_run d host_of fl (\<lambda>relay. watched ca) parsed optIn sch (h, \<lparr>hi_made = [], hi_cleaned = []\<rparr>) =
    Some (r, h', g)"
  shows "identities (map fst (hi_cleaned g)) \<subseteq># identities (hi_made g)"
    and "\<forall>late. Expire late \<notin> set (sch_cleanup sch) \<Longrightarrow> identities (map fst (hi_cleaned g)) = identities (hi_made g)"
    and "r = Inr summary \<Longrightarrow> identities (map fst (hi_cleaned g)) = identities (hi_made g) \<and>
      (\<forall>x\<in>set (hi_cleaned g). snd x = None) \<and> int (length (hi_made g)) = pr_Pairs summary"
proof -
  let ?h = "(h, \<lparr>hi_made = [], hi_cleaned = []\<rparr>)"
  let ?G = "\<lambda>r g. identities (map fst (hi_cleaned g)) \<subseteq># identities (hi_made g) \<and>
    ((\<forall>late. Expire late \<notin> set (sch_cleanup sch)) \<longrightarrow> identities (map fst (hi_cleaned g)) = identities (hi_made g)) \<and>
    (\<forall>summary. r = Inr summary \<longrightarrow> identities (map fst (hi_cleaned g)) = identities (hi_made g) \<and>
      (\<forall>x\<in>set (hi_cleaned g). snd x = None) \<and> int (length (hi_made g)) = pr_Pairs summary)"
  have "?G r g"
  proof (cases "parseConfig d parsed optIn")
    case (Inl e)
    with assms show ?thesis by (auto simp: perf_run_def)
  next
    case (Inr config)
    have pos: "0 \<le> rc_pairs config"
      using Inr validated_run(1) [of d config]
      by (auto simp: parseConfig_def Let_def split: sum.splits if_splits option.splits)
    from assms Inr obtain pairs err h1 g1 where p: "preparePairs (watched ca) config (sch_setup sch) ?h = Some ((pairs, err), h1, g1)"
      by (cases "preparePairs (watched ca) config (sch_setup sch) ?h") (auto simp: perf_run_def Let_def)
    note prep = prepared [OF p]
    show ?thesis
    proof (cases err)
      case (Some e)
      with assms Inr p obtain ce where "cleanupPairs (watched ca) pairs (rc_setupWorkers config) (sch_cleanup sch) (h1, g1) =
          Some (ce, h', g)" and r: "\<exists>x. r = Inl x"
        by (auto simp: perf_run_def Let_def split: option.splits)
      from cleaned_up [OF this(1) prep(2)] prep(1) r show ?thesis by auto
    next
      case None
      with assms Inr p obtain samples lerr h2 g2 where
          m: "measure (watched ca) config pairs (sch_load sch) (h1, g1) = Some ((samples, lerr), h2, g2)"
        by (cases "measure (watched ca) config pairs (sch_load sch) (h1, g1)") (auto simp: perf_run_def Let_def)
      have g2: "g2 = g1" using measure_history [OF m] by simp
      from assms Inr p None m obtain ce where
          c: "cleanupPairs (watched ca) pairs (rc_setupWorkers config) (sch_cleanup sch) (h2, g2) = Some (ce, h', g)"
          and r: "r = Inr summary \<Longrightarrow> ce = None \<and> pr_Pairs summary = rc_pairs config" for summary
        by (auto simp: perf_run_def Let_def errors_Join_None opt_list_def perf_summarize_def
            split: option.splits)
      have n: "int (length (hi_made g)) = rc_pairs config"
        using arg_cong [OF prep(1), of size] prep(3) [OF None] cleaned_up(1) [OF c] prep(2) pos by (simp add: g2)
      from cleaned_up [OF c] prep(1,2) r n show ?thesis by (auto simp: g2)
    qed
  qed
  then show "identities (map fst (hi_cleaned g)) \<subseteq># identities (hi_made g)"
    "\<forall>late. Expire late \<notin> set (sch_cleanup sch) \<Longrightarrow> identities (map fst (hi_cleaned g)) = identities (hi_made g)"
    "r = Inr summary \<Longrightarrow> identities (map fst (hi_cleaned g)) = identities (hi_made g) \<and>
      (\<forall>x\<in>set (hi_cleaned g). snd x = None) \<and> int (length (hi_made g)) = pr_Pairs summary"
    by blast+
qed

end

section \<open>The operations keep the interface\<close>

lemma pair_connect_kept:
  assumes "pair_connect n fuel pair relay h = (err, pair', h')"
  shows "identity pair' = identity pair" and "err = None \<Longrightarrow> connected pair'"
proof -
  have "identity pair' = identity pair \<and> (err = None \<longrightarrow> connected pair')"
    using assms unfolding pair_connect_def Let_def
    by (auto simp: identity_def connected_def split: prod.splits sum.splits option.splits if_splits)
  then show "identity pair' = identity pair" "err = None \<Longrightarrow> connected pair'" by blast+
qed

interpretation perf: pair_calls "perf_calls cd n l fuel relay"
  by unfold_locales
    (auto simp: perf_calls_def pair_connect_kept pair_closeNow_def Let_def, simp add: identity_def)

text \<open>The makers of a pair, which never return neither a pair nor an error.\<close>

lemma provisionPair_result: "provisionPair cd n relay h = ((None, err), h') \<Longrightarrow> err \<noteq> None"
  by (auto simp: provisionPair_def provisionPairWith_def Let_def split: prod.splits sum.splits option.splits if_splits)

text \<open>The pairs that are measured are connected.\<close>

lemma prepared_connected:
  assumes "preparePairs (watched (perf_calls cd n l fuel relay)) config moves (h, \<lparr>hi_made = [], hi_cleaned = []\<rparr>) =
      Some ((pairs, None), h', g)" and "p \<in> set pairs"
  shows "lj_peers (load_job_of (p, rate)) \<noteq> None"
  using perf.prepared(4) [OF assms(1) refl assms(2)] by (auto simp: connected_def load_job_of_def)

section \<open>What a clean-up without a failure did\<close>

lemma await_correlated_trace:
  "await_correlated (tracing n) fuel peer i t decode s = (r, peer', s') \<Longrightarrow>
    pp_connection peer' = pp_connection peer \<and> snd s' = snd s"
proof (induction fuel arbitrary: peer s)
  case (Suc fuel)
  from Suc.prems show ?case
    by (auto simp: peer_read_def split: prod.splits sum.splits if_splits dest: Suc.IH)
qed simp

lemma peer_request_trace:
  assumes "peer_request (tracing n) fuel peer t body decode s = (Inr x, peer', s')"
  shows "pp_connection peer' = pp_connection peer \<and>
    (\<exists>i. snd s' = snd s @ [Sent (pp_connection peer) (wireEnvelope t i body)])"
  using assms
  by (auto simp: peer_request_def split: prod.splits sum.splits option.splits dest!: await_correlated_trace)

abbreviation link_revocation :: "loadPair \<Rightarrow> net_event \<Rightarrow> bool" where
  "link_revocation pair e \<equiv>
     (\<exists>c i. e = Sent c (wireEnvelope ''link.revoke'' i (JObj [(''linkId'', JStr (lp_linkID pair))])))"

lemma cleanup_side_trace:
  assumes "cleanup_side (tracing n) fuel pair authorization (revoked, failures) s = ((revoked', []), s')"
  shows "failures = [] \<and> (\<exists>c i links. snd s' = snd s @ links @ [Sent c (wireEnvelope ''endpoint.revoke'' i (JObj []))] \<and>
    (\<forall>e\<in>set links. link_revocation pair e) \<and> (links = [] \<longrightarrow> revoked' = revoked))"
proof -
  obtain peer s1 where d: "perf_dialRelay (tracing n) (lp_relayURL pair) authorization s = (Inr peer, s1)"
    using assms by (auto simp: cleanup_side_def split: prod.splits sum.splits)
  then have s1: "snd s1 = snd s"
    by (auto simp: perf_dialRelay_def split: prod.splits sum.splits option.splits)
  obtain l f1 peer1 s2 where l: "revoke_pair_link (tracing n) fuel pair peer (revoked, failures) s1 = ((l, f1), peer1, s2)"
    by (metis surj_pair)
  obtain f2 peer2 s3 where e: "revoke_pair_endpoint (tracing n) fuel peer1 f1 s2 = (f2, peer2, s3)"
    by (metis surj_pair)
  have r: "f2 = []" "l = revoked'" "snd s' = snd s3"
    using assms d l e by (auto simp: cleanup_side_def)
  have f1: "f1 = [] \<and> (\<exists>i. snd s3 = snd s2 @ [Sent (pp_connection peer1) (wireEnvelope ''endpoint.revoke'' i (JObj []))])"
    using e r(1)
    by (auto simp: revoke_pair_endpoint_def firstError_def split: prod.splits sum.splits bool.splits if_splits
        dest!: peer_request_trace)
  have "failures = [] \<and> (\<exists>links. snd s2 = snd s1 @ links \<and> (\<forall>e\<in>set links. link_revocation pair e) \<and>
      (links = [] \<longrightarrow> l = revoked))"
    using l f1 by (auto simp: revoke_pair_link_def split: prod.splits sum.splits if_splits dest!: peer_request_trace)
  with f1 r s1 show ?thesis by auto
qed

text \<open>It revoked the link and both endpoints of the pair.\<close>

lemma cleanup_revoked:
  assumes "perf_cleanupPair (tracing n) fuel pair s = (None, s')"
  shows "\<exists>c i c' i' links links'. snd s' = snd s @
      links @ [Sent c (wireEnvelope ''endpoint.revoke'' i (JObj []))] @
      links' @ [Sent c' (wireEnvelope ''endpoint.revoke'' i' (JObj []))] \<and>
    links @ links' \<noteq> [] \<and> (\<forall>e\<in>set (links @ links'). link_revocation pair e)"
proof -
  obtain r1 f1 s1 where a: "cleanup_side (tracing n) fuel pair (lp_controllerAuth pair) (False, []) s = ((r1, f1), s1)"
    by (metis surj_pair)
  obtain r2 f2 where b: "cleanup_side (tracing n) fuel pair (lp_companionAuth pair) (r1, f1) s1 = ((r2, f2), s')"
    and r2: "r2" "f2 = []"
    using assms a by (auto simp: perf_cleanupPair_def errors_Join_def split: prod.splits if_splits list.splits)
  note b = cleanup_side_trace [OF b [unfolded r2(2)]]
  then have "f1 = []" by blast
  note a = cleanup_side_trace [OF a [unfolded this]]
  from a b r2(1) show ?thesis by (smt (verit) Un_iff append.assoc append_is_Nil_conv set_append)
qed

section \<open>No pair is left behind\<close>

text \<open>C37: a load run cleans up after itself, whatever the order in which its goroutines run, and whether its pairs
  are prepared, connected and measured or not: every clean-up is one of a pair that was provisioned, and there are
  no more of them than of the pair; as long as the context of the clean-up does not end, every pair that was
  provisioned is cleaned up; and a run that prints its summary has provisioned as many pairs as asked for and
  cleaned up each of them once, with no failure.\<close>

theorem no_pair_left_behind:
  assumes "perf_run d host_of fl (\<lambda>relay. watched (perf_calls cd n l fuel relay)) parsed optIn sch
      (h, \<lparr>hi_made = [], hi_cleaned = []\<rparr>) = Some (r, h', g)"
  shows "identities (map fst (hi_cleaned g)) \<subseteq># identities (hi_made g) \<and>
    ((\<forall>late. Expire late \<notin> set (sch_cleanup sch)) \<longrightarrow>
      identities (map fst (hi_cleaned g)) = identities (hi_made g)) \<and>
    (\<forall>summary. r = Inr summary \<longrightarrow> identities (map fst (hi_cleaned g)) = identities (hi_made g) \<and>
      (\<forall>x\<in>set (hi_cleaned g). snd x = None) \<and> int (length (hi_made g)) = pr_Pairs summary)"
proof -
  define relay where "relay = (case parseConfig d parsed optIn of Inl e \<Rightarrow> '''' | Inr config \<Rightarrow> rc_relayURL config)"
  have "perf_run d host_of fl (\<lambda>_. watched (perf_calls cd n l fuel relay)) parsed optIn sch
      (h, \<lparr>hi_made = [], hi_cleaned = []\<rparr>) = Some (r, h', g)"
    using assms by (simp add: perf_run_def relay_def Let_def split: sum.splits)
  note run = perf.run_history [OF this]
  from run(1,2) run(3) show ?thesis by blast
qed

section \<open>The pools return\<close>

text \<open>C38: preparing and cleaning up come to an end under every schedule: a schedule of a pool that started has at
  most as many moves as stated, so that no sequence of them goes on forever; and a pool that has not
  returned is never stuck, it has a move that is not the end of the caller's context, even when workers left after
  a failure.\<close>

theorem pools_return:
  assumes "1 \<le> rc_pairs config" and "1 \<le> rc_setupWorkers config"
    and "run_moves (setup_work ca) moves (start_setup config h) = Some p"
    and "run_moves (cleanup_work ca) moves' (start_cleanup pairs (rc_setupWorkers config) h') = Some q"
  shows "length moves \<le> 3 * nat (rc_pairs config) + nat (min (rc_setupWorkers config) (rc_pairs config)) + 2 \<and>
    (returned p \<or> (\<exists>m p'. (\<forall>late. m \<noteq> Expire late) \<and> pool_move (setup_work ca) m p = Some p')) \<and>
    length moves' \<le> 2 * length pairs + nat (min (rc_setupWorkers config) (int (length pairs))) + 2 \<and>
    (returned q \<or> (\<exists>m q'. (\<forall>late. m \<noteq> Expire late) \<and> pool_move (cleanup_work ca) m q = Some q'))"
proof -
  have "pool_orderly p" by (rule pool_orderly_run [OF assms(3)]) (simp add: start_setup_def pool_orderly_feeding)
  moreover have "po_workers p \<noteq> []"
    using workers_run [OF assms(3)] assms(1,2) by (auto simp: start_setup_def feeding_def)
  ultimately have p: "returned p \<or> (\<exists>m p'. (\<forall>late. m \<noteq> Expire late) \<and> pool_move (setup_work ca) m p = Some p')"
    using pool_progress [of p "setup_work ca"] by blast
  have "pool_orderly q" by (rule pool_orderly_run [OF assms(4)]) (simp add: start_cleanup_def pool_orderly_feeding)
  moreover have "po_workers q = [] \<Longrightarrow> po_queue q = []"
    using workers_run [OF assms(4)] queue_run [OF assms(4)] assms(2)
    by (auto simp: start_cleanup_def feeding_def min_def split: if_splits)
  ultimately have q: "returned q \<or> (\<exists>m q'. (\<forall>late. m \<noteq> Expire late) \<and> pool_move (cleanup_work ca) m q = Some q')"
    using pool_progress [of q "cleanup_work ca"] by blast
  show ?thesis
    using p q add_leD1 [OF prep.schedule_bounded [OF assms(3)]] add_leD1 [OF clean.schedule_bounded [OF assms(4)]]
    unfolding setup_weight cleanup_weight by (intro conjI)
qed

text \<open>A run over the scripted relay: its only pair is made, its connection fails, and the clean-up fails too.\<close>

definition idle_load :: "(string list \<times> net_event list) load" where
  "idle_load = \<lparr>pc_now = (\<lambda>h. (0, h)), pc_wait = (\<lambda>t h. (None, h)), pc_ctx_err = (\<lambda>h. (None, h)),
     ld_select = (\<lambda>i h. (StopScheduling, h)), ld_stopped = (\<lambda>h. (False, h))\<rparr>"

definition rational_floats :: "rat floats" where
  "rational_floats = \<lparr>fl_of_int = of_int, fl_add = (+), fl_mul = (*), fl_div = (/), fl_less = (<), fl_geq = (\<ge>),
     fl_is_nan = (\<lambda>_. False), fl_is_inf = (\<lambda>_. False), fl_round = (\<lambda>x. of_int (round x)), fl_parse = (\<lambda>_. None),
     fl_to_int = floor, fl_ratio95 = 95 / 100\<rparr>"

definition probe_run :: runConfig where
  "probe_run = \<lparr>rc_relayURL = ''wss://relay'', rc_pairs = 1, rc_roundTripsPS = 0, rc_duration = 30 * second,
     rc_payloadBytes = 256, rc_setupWorkers = 1, rc_disposableOptIn = ''1''\<rparr>"

definition probe_label :: string where
  "probe_label = ''Disposable relay performance probe''"

lemma probe_segments: "segments probe_label = map (\<lambda>c. (of_char c, [c])) probe_label"
  by (rule segments_ascii) (simp add: probe_label_def)

lemma probe_label_valid: "validDeviceLabel probe_label"
  unfolding validDeviceLabel_def TrimSpace_def RuneCountInString_def runes_def probe_segments Let_def
  by (simp add: probe_label_def IsSpace_def category_Cc_def category_Cf_def category_Zl_def category_Zp_def
      in_ranges_def)

lemma probe_parsed: "parseConfig plain_deps (Inr (probe_run, 0)) ''1'' = Inr probe_run"
  by (simp add: parseConfig_def runConfig_validate_def plain_deps_def probe_run_def sameRelayAuthority_def plain_lower
      trim_dot_def perf_maxPairs_def maxFramesPerSec_def maxRunDuration_def second_def maxSamples_def
      MaxRelayPayloadBytes_def maxSetupWorkers_def go_div_def)

definition probe_request :: EnrollmentRequest where
  "probe_request = \<lparr>er_V = 1, er_ControllerEndpointID = session_id,
     er_ControllerCredentialHash = b64_encode (replicate 32 CHR 0x01),
     er_ControllerNoiseKey = b64_encode (replicate 32 CHR 0x03), er_DeviceLabel = probe_label\<rparr>"

lemma probe_request_valid: "validateEnrollment sample_cdeps probe_request = None"
proof -
  have "decode32 (b64_encode (replicate 32 c)) = Some (replicate 32 c)" for c by (simp add: decode32_iff)
  then show ?thesis
    by (simp add: validateEnrollment_def probe_request_def session_id_uuid probe_label_valid
        contributoryX25519PublicKey_def) (simp add: sample_cdeps_def x25519ValidationPrivate_def)
qed

definition probe_config :: Config where
  "probe_config = zero_Config\<lparr>cf_V := 1, cf_RelayURL := ''wss://relay'', cf_LinkID := session_id,
     cf_EndpointID := session_id, cf_Secret := b64_encode (replicate 32 CHR 0x01),
     cf_NoisePrivateKey := b64_encode (replicate 32 CHR 0x02),
     cf_ControllerEndpointID := session_id, cf_ControllerNoiseKey := b64_encode (replicate 32 CHR 0x03),
     cf_ControllerLabel := probe_label\<rparr>"

definition probe_enrollment :: EnrollmentResponse where
  "probe_enrollment = \<lparr>en_V = 1, en_RelayURL = ''wss://relay'', en_LinkID = session_id,
     en_ControllerEndpointID = session_id, en_CompanionEndpointID = session_id,
     en_CompanionNoiseKey = b64_encode (replicate 32 CHR 0x02), en_Warning = ''''\<rparr>"

lemma probe_enrolled:
  "\<exists>tr. Provision sample_cdeps (tracing script_net) ''wss://relay'' probe_request []
     ([''created'', ''joined'', ''pending'', ''active''], []) = ((probe_config, probe_enrollment, None), ([], tr))"
proof -
  have url: "\<exists>u. relayURL sample_cdeps ''wss://relay'' = Inr u"
    by (simp add: relayURL_def sample_cdeps_def)
  have key: "decode32 (b64_encode (replicate 32 CHR 0x02)) = Some (replicate 32 CHR 0x02)"
    by (simp add: decode32_iff)
  have public: "k_public sample_cdeps k = Inr k" for k by (simp add: sample_cdeps_def)
  show ?thesis
    using url
    by (auto simp: Provision_def probe_request_valid or_fail_def provision_paired_def sample_dial
        then_close_def or_fail_peer_def script_replies provision_joined_def Let_def
        manualEnrollmentResponse_def key public commit_both_def save_with_def activate_def
        probe_config_def probe_enrollment_def)
      (simp_all add: zero_Config_def probe_request_def)
qed

lemma probe_provisioned:
  "\<exists>pair tr. provisionPair sample_cdeps (tracing script_net) ''wss://relay''
     ([''created'', ''joined'', ''pending'', ''active''], []) = ((Some pair, None), ([], tr))"
proof -
  obtain tr where p: "Provision sample_cdeps (tracing script_net) ''wss://relay'' probe_request []
     ([''created'', ''joined'', ''pending'', ''active''], []) = ((probe_config, probe_enrollment, None), ([], tr))"
    using probe_enrolled by blast
  have "validateProvisionedPair probe_config probe_enrollment session_id = None"
    by (simp add: validateProvisionedPair_def probe_config_def probe_enrollment_def session_id_def)
  moreover have "k_sha256 sample_cdeps = (\<lambda>b. b)" by (simp add: sample_cdeps_def)
  ultimately show ?thesis
    using p by (simp add: provisionPair_def provisionPairWith_def Let_def probe_request_def probe_label_def)
qed

text \<open>After the script has ended every request fails.\<close>

lemma silent_request:
  "peer_request (tracing script_net) (Suc fuel) \<lparr>pp_connection = c, pp_events = es\<rparr> t body decode ([], tr) =
     (Inl (ErrorText ''closed''), \<lparr>pp_connection = c, pp_events = es\<rparr>,
      ([], tr @ [Sent c (wireEnvelope t session_id body)]))"
  by (simp add: peer_request_def peer_read_def script_net_def tracing_def)

lemma silent_dial: "perf_dialRelay (tracing script_net) u a s = (Inr \<lparr>pp_connection = 1, pp_events = []\<rparr>, s)"
  by (simp add: perf_dialRelay_def)

lemma silent_connect: "\<exists>pair' tr'. pair_connect (tracing script_net) (Suc fuel) pair u ([], tr) =
    (Some (ErrorText ''closed''), pair', ([], tr'))"
  by (simp add: pair_connect_def silent_dial silent_request Let_def)

lemma silent_cleanup: "\<exists>e tr'. perf_cleanupPair (tracing script_net) (Suc fuel) pair ([], tr) = (Some e, ([], tr'))"
  by (simp add: perf_cleanupPair_def cleanup_side_def silent_dial revoke_pair_link_def silent_request
      revoke_pair_endpoint_def firstError_def errors_Join_def)

abbreviation probe_calls :: "(string list \<times> net_event list) perf_ops" where
  "probe_calls \<equiv> perf_calls sample_cdeps (tracing script_net) idle_load (Suc 0) ''wss://relay''"

abbreviation probe_start :: "(string list \<times> net_event list) \<times> history" where
  "probe_start \<equiv> (([''created'', ''joined'', ''pending'', ''active''], []), \<lparr>hi_made = [], hi_cleaned = []\<rparr>)"

lemma probe_prepared:
  "\<exists>e pair tr made. preparePairs (watched probe_calls) probe_run [Hand 0, Work 0, Work 0, Close] probe_start =
     Some (([pair], Some e), ([], tr), \<lparr>hi_made = [made], hi_cleaned = []\<rparr>)"
proof -
  obtain pair tr where p: "provisionPair sample_cdeps (tracing script_net) ''wss://relay''
     ([''created'', ''joined'', ''pending'', ''active''], []) = ((Some pair, None), ([], tr))"
    using probe_provisioned by blast
  obtain pair' tr' where c: "pair_connect (tracing script_net) (Suc 0) pair ''wss://relay'' ([], tr) =
      (Some (ErrorText ''closed''), pair', ([], tr'))"
    using silent_connect by blast
  have pp: "pacer_provision (pace_under (ca_load (watched probe_calls)) None) pairCreateInterval 0
      (ca_provision (watched probe_calls)) probe_start =
      ((Some pair, None), pairCreateInterval, ([], tr), \<lparr>hi_made = [pair], hi_cleaned = []\<rparr>)"
    by (simp add: pacer_provision_def pace_under_def watched_def perf_calls_def idle_load_def lifted_simps p)
  have cc: "ca_connect (watched probe_calls) pair (([], tr), g) = (Some (ErrorText ''closed''), pair', ([], tr'), g)" for g
    using c by (simp add: watched_def perf_calls_def lifted_simps)
  show ?thesis
    by (simp add: preparePairs_def start_setup_def feeding_def worker_at_def place_def probe_run_def pp cc Let_def
        setup_failed_def keep_first_def returned_def compactPairs_def)
qed

theorem no_pair_left_behind_witness:
  "\<exists>e h' g. perf_run plain_deps (\<lambda>u. ''relay'') rational_floats (\<lambda>relay. watched (perf_calls sample_cdeps (tracing script_net) idle_load (Suc 0) relay))
      (Inr (probe_run, 0)) ''1''
      \<lparr>sch_setup = [Hand 0, Work 0, Work 0, Close], sch_load = [], sch_cleanup = [Hand 0, Work 0, Close, Leave 0]\<rparr>
      probe_start = Some (Inl e, h', g) \<and>
    length (hi_made g) = 1 \<and> identities (map fst (hi_cleaned g)) = identities (hi_made g)"
proof -
  obtain e pair tr made where p: "preparePairs (watched probe_calls) probe_run [Hand 0, Work 0, Work 0, Close] probe_start =
     Some (([pair], Some e), ([], tr), \<lparr>hi_made = [made], hi_cleaned = []\<rparr>)"
    using probe_prepared by blast
  obtain pair' h1 where cl: "ca_closeNow probe_calls pair ([], tr) = (pair', h1)" by (metis surj_pair)
  obtain ce h2 where cp: "ca_cleanupPair probe_calls pair' h1 = (ce, h2)" by (metis surj_pair)
  have cw: "ca_closeNow (watched probe_calls) pair (([], tr), g) = (pair', h1, g)"
    and cpw: "ca_cleanupPair (watched probe_calls) pair' (h1, g) = (ce, h2, g\<lparr>hi_cleaned := hi_cleaned g @ [(pair', ce)]\<rparr>)" for g
    using cl cp by (simp_all add: watched_def lifted_simps)
  have "\<exists>x h g. cleanupPairs (watched probe_calls) [pair] 1 [Hand 0, Work 0, Close, Leave 0]
      (([], tr), \<lparr>hi_made = [made], hi_cleaned = []\<rparr>) = Some (x, h, g) \<and> hi_made g = [made]"
    by (simp add: cleanupPairs_def cw start_cleanup_def feeding_def worker_at_def place_def cleanup_work_def cpw
        returned_def Let_def)
  then obtain x h g where c: "cleanupPairs (watched probe_calls) [pair] 1 [Hand 0, Work 0, Close, Leave 0]
      (([], tr), \<lparr>hi_made = [made], hi_cleaned = []\<rparr>) = Some (x, h, g)" "hi_made g = [made]" by blast
  have url: "rc_relayURL probe_run = ''wss://relay''" "rc_setupWorkers probe_run = 1" by (simp_all add: probe_run_def)
  have "\<exists>e. perf_run plain_deps (\<lambda>u. ''relay'') rational_floats (\<lambda>relay. watched (perf_calls sample_cdeps (tracing script_net) idle_load (Suc 0) relay))
      (Inr (probe_run, 0)) ''1''
      \<lparr>sch_setup = [Hand 0, Work 0, Work 0, Close], sch_load = [], sch_cleanup = [Hand 0, Work 0, Close, Leave 0]\<rparr>
      probe_start = Some (Inl e, h, g)"
    unfolding perf_run_def probe_parsed by (simp add: url p c)
  then obtain e where run: "perf_run plain_deps (\<lambda>u. ''relay'') rational_floats
      (\<lambda>relay. watched (perf_calls sample_cdeps (tracing script_net) idle_load (Suc 0) relay)) (Inr (probe_run, 0)) ''1''
      \<lparr>sch_setup = [Hand 0, Work 0, Work 0, Close], sch_load = [], sch_cleanup = [Hand 0, Work 0, Close, Leave 0]\<rparr>
      probe_start = Some (Inl e, h, g)" by blast
  from no_pair_left_behind [OF run] have "identities (map fst (hi_cleaned g)) = identities (hi_made g)" by simp
  with run c(2) show ?thesis by auto
qed

theorem pools_return_witness:
  "\<exists>p. run_moves (setup_work probe_calls) [Hand 0, Expire True] (start_setup probe_run ([], [])) = Some p \<and>
    (\<exists>m p'. (\<forall>late. m \<noteq> Expire late) \<and> pool_move (setup_work probe_calls) m p = Some p')"
proof -
  obtain p where p: "run_moves (setup_work probe_calls) [Hand 0, Expire True] (start_setup probe_run ([], [])) = Some p"
      and unfinished: "\<not> returned p"
    by (simp add: start_setup_def feeding_def worker_at_def probe_run_def Let_def returned_def)
  have q: "run_moves (cleanup_work probe_calls) [] (start_cleanup [] (rc_setupWorkers probe_run) ([], [])) =
      Some (start_cleanup [] (rc_setupWorkers probe_run) ([], []))"
    by simp
  from pools_return [OF _ _ p q] p unfinished show ?thesis by (simp add: probe_run_def)
qed

end
