(* ===== verification/CommittedCredential.thy ===== *)
theory CommittedCredential
  imports Enrollment
begin

text \<open>
  What \<^verbatim>\<open>Provision\<close> commits with the relay: the endpoint and the hash of the secret of the configuration it returns.
\<close>

section \<open>The credential that is committed\<close>

text \<open>The companion's half of the commit for a configuration with this secret.\<close>

definition companion_commit :: "(string \<Rightarrow> string) \<Rightarrow> Config \<Rightarrow> string \<Rightarrow> string \<Rightarrow> string \<Rightarrow> PairCommitBody" where
  "companion_commit sha config secret pairID sideID =
     \<lparr>pcb_PairID = pairID, pcb_SideID = sideID, pcb_LinkID = cf_LinkID config,
      pcb_Self = \<lparr>ec_EndpointID = cf_EndpointID config, ec_Role = Companion,
        ec_CredentialHash = b64_encode (sha secret)\<rparr>,
      pcb_Peer = \<lparr>re_EndpointID = cf_ControllerEndpointID config, re_Role = Controller\<rparr>\<rparr>"

definition told :: "cdeps \<Rightarrow> provisioned \<Rightarrow> net_event list \<Rightarrow> bool" where
  "told d res t \<longleftrightarrow>
     (case res of (config, response, err) \<Rightarrow> cf_V config = 1 \<longrightarrow>
        (\<exists>secret c i p s. cf_Secret config = b64_encode secret \<and>
           Sent c (wireEnvelope ''pair.commit'' i
             (marshal_PairCommitBody (companion_commit (k_sha256 d) config secret p s))) \<in> set t))"

definition tells :: "cdeps \<Rightarrow> ('h \<times> net_event list \<Rightarrow> provisioned \<times> ('h \<times> net_event list)) \<Rightarrow> bool" where
  "tells d f \<longleftrightarrow> (\<forall>s. told d (fst (f s)) (snd (snd (f s))))"

lemma tellsI: "(\<And>s res s'. f s = (res, s') \<Longrightarrow> told d res (snd s')) \<Longrightarrow> tells d f"
  unfolding tells_def by (metis prod.collapse)

lemma told_failed [simp]: "told d (failed e) t"
  by (simp add: told_def failed_def zero_Config_def)

lemma tells_fail: "tells d (\<lambda>s. (failed e, s))"
  by (simp add: tells_def)

lemma tells_or_fail: "(\<And>x. tells d (f x)) \<Longrightarrow> tells d (\<lambda>s. or_fail (g s) f)"
  by (auto simp: tells_def or_fail_def split: prod.splits sum.splits)

lemma tells_request: "(\<And>x p. tells d (f x p)) \<Longrightarrow> tells d (\<lambda>s. or_fail_peer (g s) f)"
  by (auto simp: tells_def or_fail_peer_def split: prod.splits sum.splits)

lemma tells_closing: "tells d f \<Longrightarrow> tells d (\<lambda>s. then_close (tracing n) peer (f s))"
  by (simp add: tells_def)

lemma activate_keeps:
  assumes "activate (tracing n) (Some (tracing_save save)) config response joiner m s = ((config', r, err), s')"
  shows "config' \<in> {config, config\<lparr>cf_ActivationPending := True\<rparr>, config\<lparr>cf_ActivationPending := False\<rparr>}"
    and "set (snd s) \<subseteq> set (snd s')"
  using assms
  by (auto simp: activate_def save_with_def tracing_save_def
      split: prod.splits sum.splits option.splits if_splits dest!: request_into_trace)

lemma commit_both_tells:
  assumes "commit_both (tracing n) (Some (tracing_save save)) config response creator joiner
      (marshal_PairCommitBody (companion_commit (k_sha256 d) config secret p sd)) m' s = (res, s')"
    and "cf_Secret config = b64_encode secret"
  shows "told d res (snd s')"
proof -
  let ?m = "marshal_PairCommitBody (companion_commit (k_sha256 d) config secret p sd)"
  obtain r creator' s1 where r: "request_into (tracing n) creator ''pair.commit'' ?m decode_Pending s = (r, creator', s1)"
    by (metis surj_pair)
  show ?thesis
  proof (cases "\<exists>h. r = Inr True \<and> save (config\<lparr>cf_ActivationPending := True\<rparr>) (fst s1) = (None, h)")
    case False
    then have "\<exists>e. res = failed e"
      using assms(1) r
      by (auto simp: commit_both_def or_fail_peer_def Let_def save_with_def tracing_save_def
          split: sum.splits prod.splits option.splits if_splits)
    then show ?thesis by auto
  next
    case True
    then obtain h i where ok: "r = Inr True" "save (config\<lparr>cf_ActivationPending := True\<rparr>) (fst s1) = (None, h)"
      and s1: "snd s1 = snd s @ [Sent (rp_connection creator) (wireEnvelope ''pair.commit'' i ?m)]"
      using request_into_trace [OF r] by auto
    define config1 where "config1 = config\<lparr>cf_ActivationPending := True\<rparr>"
    obtain config' response' err where res: "res = (config', response', err)" by (metis surj_pair)
    have "activate (tracing n) (Some (tracing_save save)) config1 response joiner m' (h, snd s1 @ [Saved config1]) =
        ((config', response', err), s')"
      using assms(1) r ok res
      by (simp add: commit_both_def or_fail_peer_def Let_def save_with_def tracing_save_def config1_def)
    note a = activate_keeps [OF this]
    have same: "companion_commit (k_sha256 d) config' secret p sd = companion_commit (k_sha256 d) config secret p sd"
        "cf_Secret config' = b64_encode secret"
      using a(1) assms(2) by (auto simp: config1_def companion_commit_def)
    have "Sent (rp_connection creator) (wireEnvelope ''pair.commit'' i ?m) \<in> set (snd s')"
      using a(2) s1 by auto
    then have "Sent (rp_connection creator) (wireEnvelope ''pair.commit'' i
        (marshal_PairCommitBody (companion_commit (k_sha256 d) config' secret p sd))) \<in> set (snd s')"
      by (simp only: same)
    with same(2) show ?thesis unfolding told_def res prod.case by blast
  qed
qed

lemma joined_tells:
  "tells d (provision_joined d (tracing n) relay req (Some (tracing_save save)) e l secret private created
    joined creator joiner)"
proof (rule tellsI)
  fix s res s'
  assume run: "provision_joined d (tracing n) relay req (Some (tracing_save save)) e l secret private created
    joined creator joiner s = (res, s')"
  define config where "config = zero_Config\<lparr>cf_V := 1, cf_RelayURL := relay, cf_LinkID := l,
      cf_EndpointID := e, cf_Secret := b64_encode secret, cf_NoisePrivateKey := b64_encode private,
      cf_ControllerEndpointID := er_ControllerEndpointID req, cf_ControllerNoiseKey := er_ControllerNoiseKey req,
      cf_ControllerLabel := er_DeviceLabel req\<rparr>"
  have body: "commitBody (cr_PairID created) (cr_SideID created) l e Companion (b64_encode (k_sha256 d secret))
      (er_ControllerEndpointID req) Controller =
    marshal_PairCommitBody (companion_commit (k_sha256 d) config secret (cr_PairID created) (cr_SideID created))"
    by (simp add: commitBody_def companion_commit_def config_def)
  have sec: "cf_Secret config = b64_encode secret" by (simp add: config_def)
  from run show "told d res (snd s')"
    unfolding provision_joined_def Let_def config_def [symmetric] body
    by (auto split: sum.splits if_splits dest: commit_both_tells [OF _ sec])
qed

lemma provision_tells:
  "tells d (Provision d (tracing n) relay req [Some (tracing_save save)])"
  unfolding Provision_def provision_paired_def
  by (cases "relayURL d relay"; cases "validateEnrollment d req")
    (simp_all add: tells_fail, intro tells_or_fail tells_closing tells_request joined_tells)

end
