(* ===== verification/Admission.thy ===== *)
theory Admission
  imports CommittedCredential Pairing
begin

text \<open>
  The companion and the relay together: the credential that the companion commits when it is enrolled is the one
  that the relay asks for when the companion connects.
\<close>

section \<open>Connecting with a credential\<close>

text \<open>The \<^verbatim>\<open>Authorization\<close> header of an event, the only one with that name.\<close>

definition authorized_with :: "WebSocketEvent \<Rightarrow> string \<Rightarrow> bool" where
  "authorized_with ev h \<longleftrightarrow>
     (\<exists>k. filter (\<lambda>(k, v). ToLower k = ToLower ''authorization'') (ev_Headers ev) = [(k, h)])"

lemma find_unique:
  assumes "k \<in> set ys" and "p k" and "\<And>x. x \<in> set ys \<Longrightarrow> p x \<Longrightarrow> x = k"
  shows "List.find p ys = Some k"
  using assms(1,3)
proof (induction ys)
  case (Cons y ys)
  show ?case
  proof (cases "p y")
    case True
    with Cons.prems(2) [of y] show ?thesis by simp
  next
    case False
    then have "k \<in> set ys" using Cons.prems(1) assms(2) by auto
    from Cons.IH [OF this] Cons.prems(2) False show ?thesis by simp
  qed
qed simp

lemma map_of_filtered:
  assumes "filter (\<lambda>(k, v). p k) xs = [(k, h)]"
  shows "map_of xs k = Some h" and "p k" and "k \<in> set (map fst xs)"
    and "\<And>x. x \<in> set (map fst xs) \<Longrightarrow> p x \<Longrightarrow> x = k"
proof -
  have s: "(x, v) \<in> set xs \<and> p x \<longleftrightarrow> x = k \<and> v = h" for x v
  proof -
    have "(x, v) \<in> set (filter (\<lambda>(k, v). p k) xs) \<longleftrightarrow> (x, v) = (k, h)" by (simp add: assms)
    then show ?thesis by simp
  qed
  have kh: "(k, h) \<in> set xs" "p k" using s [of k h] by blast+
  show "p k" by (rule kh(2))
  show m: "k \<in> set (map fst xs)" using imageI [OF kh(1), of fst] by simp
  show "x = k" if x: "x \<in> set (map fst xs)" and px: "p x" for x
  proof -
    obtain v where "(x, v) \<in> set xs" using x by (auto simp del: split_paired_Ex)
    with px s [of x v] show ?thesis by blast
  qed
  show "map_of xs k = Some h"
  proof (cases "map_of xs k")
    case None
    with m show ?thesis by (simp add: map_of_eq_None_iff)
  next
    case (Some v)
    from map_of_SomeD [OF this] kh(2) s [of k v] have "v = h" by blast
    with Some show ?thesis by simp
  qed
qed

lemma wp_header:
  assumes "authorized_with ev h" and "Q h t"
  shows "wp rel P (header (ev_Headers ev) ''authorization'') t Q"
proof -
  obtain k where k: "filter (\<lambda>(k, v). ToLower k = ToLower ''authorization'') (ev_Headers ev) = [(k, h)]"
    using assms(1) by (auto simp: authorized_with_def)
  note m = map_of_filtered [OF k]
  have "List.find (\<lambda>k. ToLower k = ToLower ''authorization'') ys = Some k"
    if "mset ys = mset (remdups (map fst (ev_Headers ev)))" for ys
  proof (rule find_unique)
    have "set ys = set (map fst (ev_Headers ev))"
      using mset_eq_setD [OF that] by simp
    then show "k \<in> set ys" "\<And>x. x \<in> set ys \<Longrightarrow> ToLower x = ToLower ''authorization'' \<Longrightarrow> x = k"
      using m(3,4) by auto
  qed (rule m(2))
  then show ?thesis using assms(2) m(1) by (simp add: header_def)
qed

lemma bearer_parsed:
  assumes "uuidPattern E" and "length secret = 32"
  shows "ParseAuthorization (bearerPrefix @ E @ ''.'' @ b64_encode secret) =
    Inr \<lparr>pa_Scheme = BearerScheme, pa_EndpointID = E, pa_Secret = b64_encode secret\<rparr>"
proof -
  have len: "length E = 36" by (rule uuid_length [OF assms(1)])
  have c: "canonicalBase64URL (b64_encode secret) = Some secret"
    using assms(2) by (auto simp: canonicalBase64URL_iff)
  have "list_all (\<lambda>c. dec_char c \<noteq> None) (b64_encode secret)"
    by (induction secret rule: b64_encode.induct) (simp_all add: sextet_bounds)
  then have "bearerPattern (bearerPrefix @ E @ ''.'' @ b64_encode secret) = Some (E, b64_encode secret)"
    using assms len by (simp add: bearerPattern_def Let_def length_b64_encode b64_encoded_len_def)
  moreover have "bearerPrefix @ E @ ''.'' @ b64_encode secret \<noteq> PairingAuthorization"
    by (simp add: bearerPrefix_def PairingAuthorization_def)
  ultimately show ?thesis using c assms(2) by (simp add: ParseAuthorization_def)
qed

abbreviation row_at :: "table \<Rightarrow> row_key \<Rightarrow> attr \<Rightarrow> av option" where "row_at \<equiv> RelayInv.at"

text \<open>An endpoint with this credential that is not revoked, not connected and in no session.\<close>

definition idle_endpoint :: "table \<Rightarrow> string \<Rightarrow> string \<Rightarrow> bool" where
  "idle_endpoint t E credential \<longleftrightarrow>
     row_at t (KEndpoint, E) A_credentialHash = Some (AvS credential) \<and> row_at t (KEndpoint, E) A_revokedAt = None \<and>
     row_at t (KEndpoint, E) A_connectionId = None \<and> row_at t (KEndpoint, E) A_activeSessionId = None"

lemma idle_row:
  assumes "idle_endpoint t E credential"
  obtains i where "t (KEndpoint, E) = Some i"
    and "e_CredentialHash (unmarshal_Endpoint i) = credential" and "e_RevokedAt (unmarshal_Endpoint i) = 0"
    and "e_ConnectionID (unmarshal_Endpoint i) = ''''" and "e_ActiveSessionID (unmarshal_Endpoint i) = ''''"
  using assms
  by (cases "t (KEndpoint, E)") (auto simp: idle_endpoint_def RelayInv.at_def unmarshal_defs)

text \<open>The endpoint is connected through this connection, which is a new row.\<close>

definition connected_through :: "table \<Rightarrow> table \<Rightarrow> string \<Rightarrow> string \<Rightarrow> bool" where
  "connected_through t t' E connectionID \<longleftrightarrow>
     row_at t' (KEndpoint, E) A_connectionId = Some (AvS connectionID) \<and>
     row_at t' (KConnection, connectionID) A_endpointId = Some (AvS E) \<and>
     (\<forall>k. k \<noteq> (KEndpoint, E) \<longrightarrow> k \<noteq> (KConnection, connectionID) \<longrightarrow> t' k = t k)"

lemma wp_connect:
  assumes idle: "idle_endpoint t E credential" and E: "E \<noteq> ''''" "credential \<noteq> ''''"
    and c: "c_EndpointID connection = E" "c_AuthMode connection = ''endpoint''" "c_ConnectionID connection \<noteq> ''''"
    and new: "t (KConnection, c_ConnectionID connection) = None"
  shows "wp True P (Connect connection credential) t
    (\<lambda>r t'. r = Inr None \<and> connected_through t t' E (c_ConnectionID connection))"
proof -
  obtain i where i: "t (KEndpoint, E) = Some i"
      "e_CredentialHash (unmarshal_Endpoint i) = credential" "e_RevokedAt (unmarshal_Endpoint i) = 0"
      "e_ConnectionID (unmarshal_Endpoint i) = ''''" "e_ActiveSessionID (unmarshal_Endpoint i) = ''''"
    by (rule idle_row [OF idle])
  define ops where "ops = [connectPut connection, connectEndpointWrite connection credential (unmarshal_Endpoint i)]"
  have keys: "map write_key ops = [(KConnection, c_ConnectionID connection), (KEndpoint, E)]"
    by (simp add: ops_def connectPut_def connectEndpointWrite_def c)
  have ok: "list_all (write_ok t) ops"
    using idle i new E
    by (auto simp: ops_def connectPut_def connectEndpointWrite_def write_ok_def c idle_endpoint_def RelayInv.at_def)
  have "connected_through t (apply_writes ops t) E (c_ConnectionID connection)"
    using i c E by (auto simp: ops_def connectPut_def connectEndpointWrite_def connected_through_def RelayInv.at_def
        update_item_def marshal_defs)
  then have "wp True P (Connect_attempt connection credential) t (\<lambda>r t'. case r of
      Continue \<Rightarrow> False | Return x \<Rightarrow> x = Inr None \<and> connected_through t t' E (c_ConnectionID connection))"
    using i ok keys E c(3) [symmetric]
    by (simp add: Connect_attempt_def wp_tryR GetEndpoint_def c sameConnectionRow_def connectCommit_def
        connectOps_def wp_bindP wp_afterWrite ops_def)
  then have "wp True P (bindP (Connect_attempt connection credential) (\<lambda>r. case r of
      Continue \<Rightarrow> retry 4 (Connect_attempt connection credential) (failP (retryableError Conflict))
    | Return x \<Rightarrow> Ret x)) t (\<lambda>r t'. r = Inr None \<and> connected_through t t' E (c_ConnectionID connection))"
    unfolding wp_bindP by (rule wp_mono) (auto split: attempt.splits)
  then have "wp True P (retry (Suc 4) (Connect_attempt connection credential) (failP (retryableError Conflict))) t
      (\<lambda>r t'. r = Inr None \<and> connected_through t t' E (c_ConnectionID connection))"
    by (simp only: retry.simps)
  then show ?thesis using E c by (simp add: Connect_def)
qed

text \<open>What the relay answers to a connection with this secret, when the endpoint has this credential.\<close>

definition admitted_by :: "(string \<Rightarrow> string) \<Rightarrow> string \<Rightarrow> string \<Rightarrow> string \<Rightarrow> string \<Rightarrow> table \<Rightarrow>
    err + WebSocketResponse \<Rightarrow> table \<Rightarrow> bool" where
  "admitted_by sha E credential secret connectionID t r t' \<longleftrightarrow>
     (if b64_encode (sha secret) = credential then r = Inr (status 200) \<and> connected_through t t' E connectionID
      else r = Inr (status 401) \<and> t' = t)"

lemma wp_handle_connect:
  assumes idle: "idle_endpoint t E credential" and E: "uuidPattern E" and sec: "length secret = 32"
    and cred: "credential \<noteq> ''''"
    and ev: "ev_RouteKey ev = ''$connect''" "authorized_with ev (bearerPrefix @ E @ ''.'' @ b64_encode secret)"
    and c: "ev_ConnectionID ev \<noteq> ''''" "t (KConnection, ev_ConnectionID ev) = None"
  shows "wp True P (Handle d fuel ev) t (admitted_by (d_sha256 d) E credential secret (ev_ConnectionID ev) t)"
proof -
  obtain i where i: "t (KEndpoint, E) = Some i"
      "e_CredentialHash (unmarshal_Endpoint i) = credential" "e_RevokedAt (unmarshal_Endpoint i) = 0"
      "e_ConnectionID (unmarshal_Endpoint i) = ''''" "e_ActiveSessionID (unmarshal_Endpoint i) = ''''"
    by (rule idle_row [OF idle])
  have digest: "credentialDigest d (b64_encode secret) = b64_encode (d_sha256 d secret)"
    by (simp add: credentialDigest_def)
  have accept: "wp True P (acceptConnection d cl ev ''endpoint'' E credential) t
      (\<lambda>r t'. r = Inr (status 200) \<and> connected_through t t' E (ev_ConnectionID ev))" for cl
  proof -
    define conn where "conn n = \<lparr>c_ConnectionID = ev_ConnectionID ev, c_AuthMode = ''endpoint'', c_EndpointID = E,
      c_SourceKey = SourceKey d (sourceIP (ev_SourceIP ev)), c_PairingID = '''', c_ConnectedAt = n,
      c_ExpiresAt = n + 2 * 60 * 60 + 5 * 60\<rparr>" for n
    have con: "wp True P (Connect (conn n) credential) t
        (\<lambda>r t'. r = Inr None \<and> connected_through t t' E (ev_ConnectionID ev))" for n
      using wp_connect [OF idle uuid_not_Nil [OF E] cred, of "conn n"] c by (simp add: conn_def)
    show ?thesis
      unfolding acceptConnection_def wp_bindP Let_def nowP_def wp.simps wp_bindE conn_def [symmetric]
      by (simp add: wp_bindE, rule allI, rule wp_mono [OF con], auto)
  qed
  have "wp True P (handleConnect d cl ev) t (admitted_by (d_sha256 d) E credential secret (ev_ConnectionID ev) t)" for cl
    unfolding handleConnect_def wp_bindP
  proof (rule wp_header [OF ev(2)])
    show "wp True P (case ParseAuthorization (bearerPrefix @ E @ ''.'' @ b64_encode secret) of
        Inl x \<Rightarrow> okP (status 401)
      | Inr authorization \<Rightarrow> (case pa_Scheme authorization of
           PairingScheme \<Rightarrow> acceptConnection d cl ev ''pairing'' '''' ''''
         | BearerScheme \<Rightarrow> bindE (GetEndpoint (pa_EndpointID authorization)) (\<lambda>found.
             let credentialHash = credentialDigest d (pa_Secret authorization) in
             case found of None \<Rightarrow> okP (status 401)
             | Some endpoint \<Rightarrow>
                 if e_RevokedAt endpoint \<noteq> 0 \<or> \<not> constantTimeEqual (e_CredentialHash endpoint) credentialHash
                 then okP (status 401)
                 else acceptConnection d cl ev ''endpoint'' (pa_EndpointID authorization) credentialHash))) t
      (admitted_by (d_sha256 d) E credential secret (ev_ConnectionID ev) t)"
    proof (cases "b64_encode (d_sha256 d secret) = credential")
      case True
      then have "constantTimeEqual (e_CredentialHash (unmarshal_Endpoint i)) (credentialDigest d (b64_encode secret))"
        using i by (simp add: constantTimeEqual_def digest)
      moreover have "admitted_by (d_sha256 d) E credential secret (ev_ConnectionID ev) t =
          (\<lambda>r t'. r = Inr (status 200) \<and> connected_through t t' E (ev_ConnectionID ev))"
        using True by (auto simp: admitted_by_def fun_eq_iff)
      ultimately show ?thesis
        using True i digest accept [of cl] unfolding bearer_parsed [OF E sec]
        by (simp add: GetEndpoint_def wp_bindE)
    next
      case False
      then have "\<not> constantTimeEqual (e_CredentialHash (unmarshal_Endpoint i)) (credentialDigest d (b64_encode secret))"
        using i by (auto simp: constantTimeEqual_def digest)
      with False i show ?thesis
        unfolding bearer_parsed [OF E sec] by (simp add: GetEndpoint_def wp_bindE admitted_by_def)
    qed
  qed
  then show ?thesis by (simp add: Handle_def Handle_with_def ev(1))
qed

section \<open>The commit as the relay reads it\<close>

lemma folded_commit_keys:
  "foldName ''pairId'' = ''pairid''" "foldName ''sideId'' = ''sideid''" "foldName ''linkId'' = ''linkid''"
  "foldName ''self'' = ''self''" "foldName ''peer'' = ''peer''" "foldName ''endpointId'' = ''endpointid''"
  "foldName ''role'' = ''role''" "foldName ''credentialHash'' = ''credentialhash''"
  by (simp_all add: foldName_ascii lower_TI) (simp_all add: lower_char_def byte_in_def char_of_def bit_0)

text \<open>The relay decodes the body that the companion sent, after its parser wrote it in order again.\<close>

lemma commit_decoded:
  "decode_PairCommitBody (marshal_order (normalizeIntegers (marshal_PairCommitBody b))) = Some b"
proof -
  have e: "marshal_order (normalizeIntegers (marshal_PairCommitBody b)) = JObj
     [(''linkId'', JStr (pcb_LinkID b)), (''pairId'', JStr (pcb_PairID b)),
      (''peer'', JObj [(''endpointId'', JStr (re_EndpointID (pcb_Peer b))), (''role'', JStr (re_Role (pcb_Peer b)))]),
      (''self'', JObj [(''credentialHash'', JStr (ec_CredentialHash (pcb_Self b))),
         (''endpointId'', JStr (ec_EndpointID (pcb_Self b))), (''role'', JStr (ec_Role (pcb_Self b)))]),
      (''sideId'', JStr (pcb_SideID b))]"
    by (simp add: marshal_PairCommitBody_def shadowed_numbers)
  show ?thesis
    unfolding e
    by (simp add: decode_PairCommitBody_def decode_EndpointCommit_def decode_RoutingEndpoint_def field_simps_of
        jsub_def is_struct_def folded_commit_keys)
qed

section \<open>An enrollment opens the relay\<close>

text \<open>C29: a successful enrollment can be used: among what \<^verbatim>\<open>Provision\<close> sent is the commit of the
  companion's endpoint with the hash of the secret that the returned configuration holds, and when the
  relay's row of this endpoint is the one of that commit, idle, a connection with the configuration's bearer
  header is accepted and bound to the endpoint; with any other secret it is accepted exactly when the secret
  has the same hash, and refused with 401 and an unchanged table otherwise.\<close>

theorem enrollment_opens_relay:
  assumes "Provision dc (tracing n) relay req [Some (tracing_save save)] (h, []) =
      ((config, enrolled, err), (h', trace))"
    and "Config_validate dc config = None" and "decode32 (cf_Secret config) = Some secret"
    and "reliable_dynamo w view" and "d_sha256 d = k_sha256 dc"
    and "endpoint_of (view s) (commitOf (companion_commit (k_sha256 dc) config secret pairID sideID) c)"
    and "row_at (view s) (KEndpoint, cf_EndpointID config) A_connectionId = None"
    and "row_at (view s) (KEndpoint, cf_EndpointID config) A_activeSessionId = None"
    and "b64_encode (k_sha256 dc secret) \<noteq> ''''" and "length presented = 32"
    and "ev_RouteKey ev = ''$connect''"
    and "authorized_with ev (bearer (config\<lparr>cf_Secret := b64_encode presented\<rparr>))"
    and "ev_ConnectionID ev \<noteq> ''''" and "view s (KConnection, ev_ConnectionID ev) = None"
    and "run w (Handle d fuel ev) s = (r, s')"
  shows "(\<exists>c i p sd. Sent c (wireEnvelope ''pair.commit'' i
        (marshal_PairCommitBody (companion_commit (k_sha256 dc) config secret p sd))) \<in> set trace) \<and>
    (if k_sha256 dc presented = k_sha256 dc secret
     then r = Inr (status 200) \<and>
       connected_through (view s) (view s') (cf_EndpointID config) (ev_ConnectionID ev)
     else r = Inr (status 401) \<and> view s' = view s)"
proof -
  have v: "cf_V config = 1" "uuidPattern (cf_EndpointID config)"
    using assms(2) by (auto simp: Config_validate_def Let_def split: if_splits)
  have sec: "cf_Secret config = b64_encode secret" using assms(3) by (simp add: decode32_iff)
  have "told dc (config, enrolled, err) trace"
    using provision_tells [of dc n relay req save] unfolding tells_def by (metis assms(1) fst_conv snd_conv)
  with v(1) sec have sent: "\<exists>c i p sd. Sent c (wireEnvelope ''pair.commit'' i
      (marshal_PairCommitBody (companion_commit (k_sha256 dc) config secret p sd))) \<in> set trace"
    by (auto simp: told_def b64_encode_inj)
  have idle: "idle_endpoint (view s) (cf_EndpointID config) (b64_encode (k_sha256 dc secret))"
    using assms(6-8) by (simp add: idle_endpoint_def endpoint_of_def commitOf_def companion_commit_def)
  have ev: "authorized_with ev (bearerPrefix @ cf_EndpointID config @ ''.'' @ b64_encode presented)"
    using assms(12) by (simp add: bearer_def bearerPrefix_def)
  from reliable_dynamo.wp_reliable_sound [OF assms(4)
      wp_handle_connect [OF idle v(2) assms(10,9,11) ev assms(13,14)] assms(15)]
  have "admitted_by (k_sha256 dc) (cf_EndpointID config) (b64_encode (k_sha256 dc secret)) presented
      (ev_ConnectionID ev) (view s) r (view s')"
    by (simp only: assms(5))
  with sent show ?thesis by (simp add: admitted_by_def b64_encode_inj split: if_splits)
qed

text \<open>The enrollment of the scripted relay, its endpoint as the activation writes it, and a connection with it.\<close>

definition sample_secret :: string where
  "sample_secret = replicate 32 CHR 0x01"

definition sample_commitment :: PairCommit where
  "sample_commitment = commitOf (companion_commit (\<lambda>b. b) sample_config sample_secret ''pair'' '''') ''c''"

definition enrolled_state :: ref_state where
  "enrolled_state = ref_start\<lparr>rs_table := apply_write (endpointWrite (commitEndpoint sample_commitment 0)) (\<lambda>_. None)\<rparr>"

definition opening_event :: WebSocketEvent where
  "opening_event = \<lparr>ev_ConnectionID = ''new'', ev_RouteKey = ''$connect'', ev_SourceIP = ''192.0.2.1'',
     ev_Headers = [(''Authorization'', bearer (sample_config\<lparr>cf_Secret := b64_encode sample_secret\<rparr>))],
     ev_Body = ''''\<rparr>"

lemma enrolled_rows:
  "endpoint_of (rs_table enrolled_state) sample_commitment"
  "row_at (rs_table enrolled_state) (KEndpoint, session_id) A_connectionId = None"
  "row_at (rs_table enrolled_state) (KEndpoint, session_id) A_activeSessionId = None"
  "rs_table enrolled_state (KConnection, ''new'') = None"
proof -
  have "write_ok (\<lambda>_. None) (endpointWrite (commitEndpoint sample_commitment 0))"
    by (simp add: endpointWrite_def commitEndpoint_def write_ok_def)
  then show "endpoint_of (rs_table enrolled_state) sample_commitment"
    by (simp add: enrolled_state_def activated_endpoint_row)
qed (simp_all add: enrolled_state_def endpointWrite_def commitEndpoint_def sample_commitment_def commitOf_def
    companion_commit_def sample_config_def RelayInv.at_def update_item_def empty_item_def)

lemma opening_event_authorized:
  "authorized_with opening_event (bearer (sample_config\<lparr>cf_Secret := b64_encode sample_secret\<rparr>))"
proof -
  have "ToLower ''Authorization'' = ToLower ''authorization''" by code_simp
  then show ?thesis by (simp add: authorized_with_def opening_event_def)
qed

theorem enrollment_opens_relay_witness:
  "\<exists>s'. run ref_world (Handle sample_deps 3 opening_event) enrolled_state = (Inr (status 200), s') \<and>
     connected_through (rs_table enrolled_state) (rs_table s') session_id ''new''"
proof -
  obtain x tr where p: "Provision sample_cdeps (tracing script_net) ''wss://relay'' sample_request
     [Some (tracing_save (\<lambda>c h. (None, h)))] ([''created'', ''joined'', ''pending'', ''active''], []) =
     ((sample_config, x, None), ([], tr))"
    using sample_provisioned by blast
  obtain r s' where run: "run ref_world (Handle sample_deps 3 opening_event) enrolled_state = (r, s')"
    by (metis surj_pair)
  have sha: "k_sha256 sample_cdeps = (\<lambda>b. b)" "d_sha256 sample_deps = k_sha256 sample_cdeps"
    by (simp_all add: sample_cdeps_def sample_deps_def ref_deps_def)
  have e: "cf_EndpointID sample_config = session_id" "cf_Secret sample_config = b64_encode sample_secret"
    by (simp_all add: sample_config_def sample_secret_def)
  have len: "length sample_secret = 32" "b64_encode (k_sha256 sample_cdeps sample_secret) \<noteq> ''''"
    by (simp_all add: sample_secret_def sha)
  have sec: "decode32 (cf_Secret sample_config) = Some sample_secret" by (simp add: decode32_iff e len)
  have ev: "ev_RouteKey opening_event = ''$connect''" "ev_ConnectionID opening_event = ''new''" "ev_ConnectionID opening_event \<noteq> ''''"
    by (simp_all add: opening_event_def)
  from enrollment_opens_relay [OF p sample_config_valid sec ref.reliable_dynamo_axioms sha(2)
      enrolled_rows(1) [unfolded sample_commitment_def, folded sha(1)]
      enrolled_rows(2,3) [folded e(1)] len(2,1) ev(1) opening_event_authorized ev(3)
      enrolled_rows(4) [folded ev(2)] run]
  have "r = Inr (status 200) \<and> connected_through (rs_table enrolled_state) (rs_table s') session_id ''new''"
    by (simp add: e ev)
  with run show ?thesis by blast
qed

end
