(* ===== verification/ReplyDelivery.thy ===== *)
theory ReplyDelivery
  imports Enrollment RelayLoop
begin

text \<open>
  The companion waits for the reply to a request while the relay may send it other messages. The reply is
  found if at most 32 of them, of at most as many bytes as are kept, arrive before it, and the connection loop
  then reads them in the order of their arrival.
\<close>

section \<open>Messages that arrive\<close>

text \<open>The host after a connection has delivered these messages, one receive each.\<close>

fun arrivals :: "'h net \<Rightarrow> nat \<Rightarrow> string list \<Rightarrow> 'h \<Rightarrow> 'h option" where
  "arrivals n c [] h = Some h"
| "arrivals n c (m # ms) h =
     (case net_receive n c h of (Inr raw, h) \<Rightarrow> if raw = m then arrivals n c ms h else None | _ \<Rightarrow> None)"

text \<open>The messages that a connection with these pending ones hands over in \<open>k\<close> reads.\<close>

fun read_relay :: "'h net \<Rightarrow> nat \<Rightarrow> nat \<Rightarrow> string list \<Rightarrow> 'h \<Rightarrow> (goerr + string) list \<times> string list \<times> 'h" where
  "read_relay n c 0 pending h = ([], pending, h)"
| "read_relay n c (Suc k) pending h =
     (case next_message n c pending h of
        (r, pending, h) \<Rightarrow> (case read_relay n c k pending h of (rs, pending, h) \<Rightarrow> (r # rs, pending, h)))"

text \<open>A valid message of the relay that is no reply to this request.\<close>

definition unrelated :: "'h net \<Rightarrow> string \<Rightarrow> string \<Rightarrow> bool" where
  "unrelated n i raw \<longleftrightarrow>
     (case ParseServer (net_parser n) (Bytes raw) of Inl e \<Rightarrow> False | Inr envelope \<Rightarrow> env_ReplyTo envelope \<noteq> i)"

abbreviation queue_bytes :: "string list \<Rightarrow> nat" where
  "queue_bytes ms \<equiv> sum_list (map length ms)"

definition queued :: "relayPeer \<Rightarrow> string list \<Rightarrow> relayPeer" where
  "queued peer ms = peer\<lparr>rp_pending := rp_pending peer @ ms, rp_pendingBytes := rp_pendingBytes peer + queue_bytes ms\<rparr>"

lemma queued_Nil [simp]: "queued peer [] = peer"
  by (simp add: queued_def)

lemma queued_Cons: "queued (queued peer [m]) ms = queued peer (m # ms)"
  by (simp add: queued_def)

lemma queued_sel [simp]:
  "rp_connection (queued peer ms) = rp_connection peer" "rp_pending (queued peer ms) = rp_pending peer @ ms"
  "rp_pendingBytes (queued peer ms) = rp_pendingBytes peer + queue_bytes ms"
  by (simp_all add: queued_def)

lemma queue_room:
  assumes "length (rp_pending peer) < maxPendingRelayResponses"
    and "rp_pendingBytes peer + length m \<le> maxPendingRelayWireBytes"
  shows "queuePending peer m = Inr (queued peer [m])"
  using assms by (simp add: queuePending_def queued_def)

lemma await_skips:
  assumes "unrelated n i m" and "net_receive n (rp_connection peer) h = (Inr m, h')"
    and "length (rp_pending peer) < maxPendingRelayResponses"
    and "rp_pendingBytes peer + length m \<le> maxPendingRelayWireBytes"
  shows "await_reply n peer i t h = await_reply n (queued peer [m]) i t h'"
  using assms by (subst await_reply.simps) (auto simp: unrelated_def queue_room split: sum.splits)

lemma await_finds:
  assumes "\<forall>m\<in>set others. unrelated n i m"
    and "arrivals n (rp_connection peer) (others @ [reply]) h = Some h'"
    and "ParseServer (net_parser n) (Bytes reply) = Inr envelope" and "env_ReplyTo envelope = i"
    and "length (rp_pending peer) + length others \<le> maxPendingRelayResponses"
    and "rp_pendingBytes peer + queue_bytes others \<le> maxPendingRelayWireBytes"
  shows "await_reply n peer i t h = (reply_result envelope t, queued peer others, h')"
  using assms
proof (induction others arbitrary: peer h)
  case Nil
  then show ?case by (subst await_reply.simps) (auto split: prod.splits sum.splits if_splits)
next
  case (Cons m ms)
  from Cons.prems(2) obtain h1 where m: "net_receive n (rp_connection peer) h = (Inr m, h1)"
      and ms: "arrivals n (rp_connection peer) (ms @ [reply]) h1 = Some h'"
    by (auto split: prod.splits sum.splits if_splits)
  have "await_reply n peer i t h = await_reply n (queued peer [m]) i t h1"
    using Cons.prems m by (intro await_skips) simp_all
  also have "\<dots> = (reply_result envelope t, queued (queued peer [m]) ms, h')"
    using Cons.prems ms by (intro Cons.IH) simp_all
  finally show ?case by (simp add: queued_Cons)
qed

lemma read_queued: "read_relay n c (length ms) ms h = (map Inr ms, [], h)"
  by (induction ms) (simp_all add: next_message_def)

text \<open>C39: a request whose message was sent, to which the relay sends a reply, returns with that reply: up to
  32 valid messages that are no reply to it may arrive first, with those already waiting and within the bytes
  that are kept. None of them is lost: the connection loop reads the messages that waited and then these,
  each once and in their order, before it receives from the connection again.\<close>

theorem reply_delivered:
  assumes "net_uuid n h = (Inr i, h1)"
    and "net_transmit n (rp_connection peer) (wireEnvelope t i body) h1 = (None, h2)"
    and "arrivals n (rp_connection peer) (others @ [reply]) h2 = Some h3"
    and "\<forall>m\<in>set others. unrelated n i m"
    and "ParseServer (net_parser n) (Bytes reply) = Inr envelope" and "env_ReplyTo envelope = i"
    and "length (rp_pending peer) + length others \<le> 32"
    and "rp_pendingBytes peer + queue_bytes others \<le> maxPendingRelayWireBytes"
  shows "\<exists>peer'. request n peer t body h = (reply_result envelope t, peer', h3) \<and>
    rp_connection peer' = rp_connection peer \<and>
    (\<forall>hh. read_relay n (rp_connection peer') (length (rp_pending peer) + length others) (rp_pending peer') hh =
       (map Inr (rp_pending peer @ others), [], hh))"
proof (intro exI [of _ "queued peer others"] conjI allI)
  show "request n peer t body h = (reply_result envelope t, queued peer others, h3)"
    using assms(1,2) await_finds [OF assms(4,3,5,6), of t] assms(7,8)
    by (simp add: request_def maxPendingRelayResponses_def)
  show "read_relay n (rp_connection (queued peer others)) (length (rp_pending peer) + length others)
      (rp_pending (queued peer others)) hh = (map Inr (rp_pending peer @ others), [], hh)" for hh
    using read_queued [of n "rp_connection peer" "rp_pending peer @ others" hh] by simp
qed simp

section \<open>A relay that interrupts\<close>

definition event_document :: json where
  "event_document = JObj
     [(''body'', JObj []), (''id'', JStr session_id), (''protocol'', JStr ProtocolName),
      (''type'', JStr ''link.revoked''), (''v'', JNum ''1'')]"

definition busy_net :: "string list net" where
  "busy_net = script_net\<lparr>net_parser := (net_parser script_net)
     \<lparr>v_Unmarshal := \<lambda>raw. if raw = ''event'' then Some event_document else script_document raw\<rparr>\<rparr>"

definition event_envelope :: Envelope where
  "event_envelope = \<lparr>env_Protocol = ProtocolName, env_V = 1, env_Type = ''link.revoked'', env_ID = session_id,
     env_ReplyTo = '''', env_Body = JObj []\<rparr>"

lemma event_parsed: "ParseServer (net_parser busy_net) (Bytes ''event'') = Inr event_envelope"
proof -
  have e: "marshal_order (normalizeIntegers event_document) = JObj
      [(''body'', JObj []), (''id'', JStr session_id), (''protocol'', JStr ProtocolName),
       (''type'', JStr ''link.revoked''), (''v'', JInt 1)]"
    by (simp add: event_document_def shadowed_numbers)
  have "decode_Envelope (marshal_order (normalizeIntegers event_document)) = Some event_envelope"
    unfolding e by (simp add: decode_Envelope_def field_simps_of is_struct_def event_envelope_def)
  moreover have "numbersWithinLimits event_document"
    by (simp add: event_document_def number_within_limits_def maxJSONNumberBytes_def is_exponent_mark_def)
  moreover have "preflightFramePayload event_document = None"
    by (simp add: preflightFramePayload_def event_document_def)
  ultimately show ?thesis
    by (simp add: ParseServer_def parse_rendezvous_def parse_def inputJSON_def script_net_def busy_net_def
        MaxWebSocketFrameBytes_def rendezvousSemantics_def event_envelope_def)
qed

lemma busy_reply: "ParseServer (net_parser busy_net) (Bytes ''revoked'') =
    Inr (reply_envelope ''link.revoke'' (JObj [(''revoked'', JBool True)]))"
proof -
  have "ParseServer (net_parser busy_net) (Bytes ''revoked'') = ParseServer (net_parser script_net) (Bytes ''revoked'')"
    by (simp add: ParseServer_def parse_rendezvous_def parse_def inputJSON_def busy_net_def script_net_def
        script_document_def cong: option.case_cong)
  also have "\<dots> = Inr (reply_envelope ''link.revoke'' (JObj [(''revoked'', JBool True)]))"
    by (rule reply_parsed) (simp_all add: script_document_def)
  finally show ?thesis .
qed

lemma busy_net_sel:
  "net_uuid busy_net h = (Inr session_id, h)" "net_transmit busy_net c m h = (None, h)"
  "net_receive busy_net c (x # h) = (Inr x, h)"
  by (simp_all add: busy_net_def)

definition busy_peer :: relayPeer where
  "busy_peer = \<lparr>rp_connection = 1, rp_pending = [''event''], rp_pendingBytes = 5\<rparr>"

theorem reply_delivered_witness:
  "\<exists>peer'. request busy_net busy_peer ''link.revoke'' (JObj []) [''event'', ''event'', ''revoked'', ''event''] =
      (reply_result (reply_envelope ''link.revoke'' (JObj [(''revoked'', JBool True)])) ''link.revoke'', peer', [''event'']) \<and>
    rp_connection peer' = rp_connection busy_peer \<and>
    (\<forall>hh. read_relay busy_net (rp_connection peer') (length (rp_pending busy_peer) + length [''event'', ''event''])
       (rp_pending peer') hh = (map Inr (rp_pending busy_peer @ [''event'', ''event'']), [], hh))"
proof (rule reply_delivered [OF busy_net_sel(1) busy_net_sel(2) _ _ busy_reply])
  show "arrivals busy_net (rp_connection busy_peer) ([''event'', ''event''] @ [''revoked''])
      [''event'', ''event'', ''revoked'', ''event''] = Some [''event'']"
    by (simp add: busy_net_sel)
  show "\<forall>m\<in>set [''event'', ''event'']. unrelated busy_net session_id m"
    by (simp add: unrelated_def event_parsed event_envelope_def session_id_def)
qed (simp_all add: reply_envelope_def busy_peer_def maxPendingRelayWireBytes_def MaxWebSocketFrameBytes_def
    MaxRelayReorderFrames_def)

end
