(* ===== verification/CompanionCommand.thy ===== *)
theory CompanionCommand
  imports WebApp
begin

text \<open>
  \<^verbatim>\<open>cmd/companion/main.go\<close>: the checks before the web application starts, the report of a failed start to the
  parent process, the URL that opens the interface and the end of the server. The flags come parsed. Addresses,
  sockets, the HTTP server, the parent's input and the output are functions of the host; the logger and the
  time limits of the HTTP server are left out.
\<close>

section \<open>The host of the command\<close>

record command_flags =
  fg_Listen :: string
  fg_Config :: string
  fg_Relay :: string
  fg_OpenBrowser :: bool
  fg_Native :: bool
  fg_AllowInsecure :: bool

text \<open>
  \<open>sv_loopback\<close> is whether a host parses as a loopback IP, \<open>sv_serve\<close> waits for the end of the context (the
  result of the shutdown) or of the server (its error), \<open>sv_is_closed\<close> recognises \<^verbatim>\<open>http.ErrServerClosed\<close>.
\<close>

record ('k, 'c, 'h) server_host =
  sv_web :: "('k, 'c, 'h) web_host"
  sv_file :: "string \<Rightarrow> 'h ConfigStore"
  sv_keychain :: "'h ConfigStore"
  sv_split :: "string \<Rightarrow> string option"
  sv_loopback :: "string \<Rightarrow> bool"
  sv_listen :: "string \<Rightarrow> 'h \<Rightarrow> (goerr + string) \<times> 'h"
  sv_close_listener :: "'h \<Rightarrow> 'h"
  sv_json :: "json \<Rightarrow> 'h \<Rightarrow> goerr option \<times> 'h"
  sv_print :: "string \<Rightarrow> 'h \<Rightarrow> 'h"
  sv_await_done :: "'h \<Rightarrow> 'h"
  sv_open :: "string \<Rightarrow> 'h \<Rightarrow> 'h"
  sv_serve :: "'h App \<Rightarrow> 'h \<Rightarrow> (goerr option + goerr) \<times> 'h"
  sv_is_closed :: "goerr \<Rightarrow> bool"

text \<open>The two factories: \<^verbatim>\<open>companion.NewApp\<close> and \<^verbatim>\<open>companion.NewNativeApp\<close> with their stores.\<close>

definition NewApp :: "('k, 'c, 'h) server_host \<Rightarrow> string \<Rightarrow> string \<Rightarrow> 'h \<Rightarrow> (goerr + 'h App) \<times> 'h" where
  "NewApp sv path relay = NewAppWithStore ((sv_web sv)\<lparr>wh_store := sv_file sv path\<rparr>) relay"

definition native_app :: "('k, 'c, 'h) server_host \<Rightarrow> string \<Rightarrow> string \<Rightarrow> 'h \<Rightarrow> (goerr + 'h App) \<times> 'h" where
  "native_app sv path relay = NewNativeApp ((sv_web sv)\<lparr>wh_store := sv_keychain sv\<rparr>) (sv_file sv path) relay"

section \<open>Starting and serving\<close>

definition startup_code :: "goerr \<Rightarrow> string" where
  "startup_code err =
     (if errors_Is err (\<lambda>e. e = ConfigStoreMismatch) then ''CONFIG_MISMATCH''
      else if errors_Is err (\<lambda>e. e = KeychainUnavailable) then ''KEYCHAIN_UNAVAILABLE''
      else ''STARTUP_FAILED'')"

definition nativeStartupError :: "('k, 'c, 'h) server_host \<Rightarrow> bool \<Rightarrow> goerr \<Rightarrow> 'h \<Rightarrow> goerr option \<times> 'h" where
  "nativeStartupError sv parent err h =
     (if \<not> parent then (Some err, h)
      else case sv_json sv (JObj [(''error'', JObj [(''code'', JStr (startup_code err))]), (''v'', JInt 1)]) h of
        (_, h) \<Rightarrow> (Some err, sv_await_done sv h))"

text \<open>The URL of the interface, told to the parent process or printed.\<close>

definition announce :: "('k, 'c, 'h) server_host \<Rightarrow> bool \<Rightarrow> 'h App \<Rightarrow> string \<Rightarrow> 'h \<Rightarrow> (goerr + string) \<times> 'h" where
  "announce sv parent app baseURL h =
     (if parent
      then let url = NativeLaunchURL app baseURL in
        (case sv_json sv (JObj [(''v'', JInt 1), (''version'', JStr Version), (''url'', JStr url)]) h of
           (Some e, h) \<Rightarrow> (Inl e, h)
         | (None, h) \<Rightarrow> (Inr url, h))
      else let url = BrowserLaunchURL app baseURL in
        (Inr url, sv_print sv (''Remote DaVinci companion: '' @ url) h))"

definition served :: "('k, 'c, 'h) server_host \<Rightarrow> 'h App \<Rightarrow> 'h \<Rightarrow> goerr option \<times> 'h" where
  "served sv app h =
     (case sv_serve sv app h of
        (Inl shutdown, h) \<Rightarrow> (shutdown, h)
      | (Inr err, h) \<Rightarrow> (if sv_is_closed sv err then None else Some err, h))"

definition serve_app :: "('k, 'c, 'h) server_host \<Rightarrow> string \<Rightarrow> bool \<Rightarrow> bool \<Rightarrow> 'h App \<Rightarrow> 'h \<Rightarrow>
    goerr option \<times> 'h App \<times> 'h" where
  "serve_app sv address openBrowser parent app h =
     (case sv_listen sv address h of
        (Inl err, h) \<Rightarrow> (case nativeStartupError sv parent err h of (r, h) \<Rightarrow> (r, Close app, h))
      | (Inr actual, h) \<Rightarrow>
          (case announce sv parent app (''http://'' @ actual) h of
             (Inl e, h) \<Rightarrow> (Some e, Close app, sv_close_listener sv h)
           | (Inr url, h) \<Rightarrow>
               let h = (if openBrowser \<and> \<not> parent then sv_open sv url h else h) in
               (case served sv app h of (r, h) \<Rightarrow> (r, Close app, sv_close_listener sv h))))"

definition runServer :: "('k, 'c, 'h) server_host \<Rightarrow> string \<Rightarrow> string \<Rightarrow> string \<Rightarrow> bool \<Rightarrow> bool \<Rightarrow>
    (string \<Rightarrow> string \<Rightarrow> 'h \<Rightarrow> (goerr + 'h App) \<times> 'h) \<Rightarrow> 'h \<Rightarrow> goerr option \<times> 'h App option \<times> 'h" where
  "runServer sv address configPath relay openBrowser parent newApp h =
     (if (case sv_split sv address of None \<Rightarrow> True | Some host \<Rightarrow> \<not> sv_loopback sv host)
      then (Some (ErrorText ''listen address must be a loopback IP and port''), None, h)
      else (case newApp configPath relay h of
              (Inl err, h) \<Rightarrow> (case nativeStartupError sv parent err h of (r, h) \<Rightarrow> (r, None, h))
            | (Inr app, h) \<Rightarrow>
                (case serve_app sv address openBrowser parent app h of (r, app, h) \<Rightarrow> (r, Some app, h))))"

definition command_run :: "('k, 'c, 'h) server_host \<Rightarrow> string \<Rightarrow> string \<Rightarrow> string \<Rightarrow> bool \<Rightarrow> bool \<Rightarrow> 'h \<Rightarrow>
    goerr option \<times> 'h App option \<times> 'h" where
  "command_run sv address configPath relay openBrowser allowInsecureFileConfig h =
     (if \<not> allowInsecureFileConfig
      then (Some (ErrorText ''standalone file credential storage requires -allow-insecure-file-config''), None, h)
      else runServer sv address configPath relay openBrowser False (NewApp sv) h)"

definition runNative :: "('k, 'c, 'h) server_host \<Rightarrow> string \<Rightarrow> string \<Rightarrow> 'h \<Rightarrow> goerr option \<times> 'h App option \<times> 'h" where
  "runNative sv configPath relay h =
     runServer sv ''127.0.0.1:0'' configPath relay False True (native_app sv) h"

text \<open>The exit status of the process.\<close>

definition command_main :: "('k, 'c, 'h) server_host \<Rightarrow> command_flags \<Rightarrow> 'h \<Rightarrow> nat \<times> 'h" where
  "command_main sv flags h =
     (case (if fg_Native flags then runNative sv (fg_Config flags) (fg_Relay flags) h
            else command_run sv (fg_Listen flags) (fg_Config flags) (fg_Relay flags) (fg_OpenBrowser flags)
              (fg_AllowInsecure flags) h) of
        (err, app, h) \<Rightarrow> (if err = None then 0 else 1, h))"

section \<open>Lemmas\<close>

text \<open>
  A server that got an application has listened on a loopback address only, and leaves it closed: its relay
  stopped and its pairing attempt cancelled.
\<close>

lemma Close_closed:
  "ap_cancel (Close app) = None" "(ap_pairing (Close app) = Some pa) \<Longrightarrow> at_cancelled pa"
  by (auto simp: Close_def)

lemma server_closes:
  assumes "runServer sv address configPath relay openBrowser parent newApp h = (r, Some app, h')"
  shows "\<exists>host. sv_split sv address = Some host \<and> sv_loopback sv host"
    and "ap_cancel app = None" and "ap_pairing app = Some pa \<Longrightarrow> at_cancelled pa"
proof -
  from assms obtain app1 where host: "\<exists>host. sv_split sv address = Some host \<and> sv_loopback sv host"
      and app: "app = Close app1"
    by (auto simp: runServer_def serve_app_def Let_def split: if_splits option.splits prod.splits sum.splits)
  show "\<exists>host. sv_split sv address = Some host \<and> sv_loopback sv host" by (rule host)
  show "ap_cancel app = None" "ap_pairing app = Some pa \<Longrightarrow> at_cancelled pa"
    by (simp_all add: app Close_closed)
qed

text \<open>Only a native start uses the Keychain, and a standalone one without permission starts nothing.\<close>

lemma standalone_needs_permission:
  "\<not> fg_Native flags \<Longrightarrow> \<not> fg_AllowInsecure flags \<Longrightarrow> command_main sv flags h = (1, h)"
  by (simp add: command_main_def command_run_def)

end
