(* ===== verification/PageMonitor.thy ===== *)
theory PageMonitor
  imports CompanionModel
begin

text \<open>
  The page monitor of the companion (\<^verbatim>\<open>monitorResolvePages\<close> and \<^verbatim>\<open>runResolvePageMonitor\<close> of
  \<^verbatim>\<open>internal/companion/companion.go\<close>): a process prints the page that Resolve shows, and is started again after a
  growing delay when it ends. The process and the channel belong to the host. Both loops have fuel, the lines
  and the runs; \<open>None\<close> is a monitor that is still running.
\<close>

section \<open>One run of the process\<close>

text \<open>
  \<open>pm_offer\<close> sends an observation unless the context ends first, \<open>pm_timer\<close> waits for a time unless it does.
\<close>

record 'h page_host =
  pm_pipe :: "'h \<Rightarrow> goerr option \<times> 'h"
  pm_start :: "'h \<Rightarrow> goerr option \<times> 'h"
  pm_scan :: "'h \<Rightarrow> string option \<times> 'h"
  pm_scan_err :: "'h \<Rightarrow> goerr option \<times> 'h"
  pm_kill :: "'h \<Rightarrow> 'h"
  pm_wait :: "'h \<Rightarrow> goerr option \<times> 'h"
  pm_ctx_err :: "'h \<Rightarrow> goerr option \<times> 'h"
  pm_offer :: "resolvePageObservation \<Rightarrow> 'h \<Rightarrow> goerr option \<times> 'h"
  pm_timer :: "int \<Rightarrow> 'h \<Rightarrow> bool \<times> 'h"

definition process_ended :: "'h page_host \<Rightarrow> 'h \<Rightarrow> goerr option \<times> 'h" where
  "process_ended pm h =
     (case pm_scan_err pm h of (scanErr, h) \<Rightarrow>
      case pm_wait pm h of (waitErr, h) \<Rightarrow>
      case pm_ctx_err pm h of (ctxErr, h) \<Rightarrow>
        (if ctxErr \<noteq> None then ctxErr else if scanErr \<noteq> None then scanErr else waitErr, h))"

text \<open>The flag is the variable \<^verbatim>\<open>observed\<close> of the caller, which an observation that was sent sets.\<close>

fun scan_pages :: "'h page_host \<Rightarrow> nat \<Rightarrow> bool \<Rightarrow> 'h \<Rightarrow> (goerr option \<times> bool \<times> 'h) option" where
  "scan_pages pm 0 observed h = None"
| "scan_pages pm (Suc lines) observed h =
     (case pm_scan pm h of
        (None, h) \<Rightarrow> (case process_ended pm h of (r, h) \<Rightarrow> Some (r, observed, h))
      | (Some line, h) \<Rightarrow>
          (case (case parseResolvePageObservation line of
                   Inl e \<Rightarrow> (Some e, observed, h)
                 | Inr observation \<Rightarrow>
                     (case pm_offer pm observation h of (e, h) \<Rightarrow> (e, if e = None then True else observed, h))) of
             (Some e, observed, h) \<Rightarrow> (case pm_wait pm (pm_kill pm h) of (_, h) \<Rightarrow> Some (Some e, observed, h))
           | (None, observed, h) \<Rightarrow> scan_pages pm lines observed h))"

definition runResolvePageMonitor :: "'h page_host \<Rightarrow> nat \<Rightarrow> 'h \<Rightarrow> (goerr option \<times> bool \<times> 'h) option" where
  "runResolvePageMonitor pm lines h =
     (case pm_pipe pm h of
        (Some e, h) \<Rightarrow> Some (Some e, False, h)
      | (None, h) \<Rightarrow>
          (case pm_start pm h of
             (Some e, h) \<Rightarrow> Some (Some e, False, h)
           | (None, h) \<Rightarrow> scan_pages pm lines False h))"

section \<open>Starting it again\<close>

fun monitorResolvePages :: "'h page_host \<Rightarrow> nat \<Rightarrow> nat \<Rightarrow> int \<Rightarrow> 'h \<Rightarrow> 'h option" where
  "monitorResolvePages pm lines 0 retryDelay h = None"
| "monitorResolvePages pm lines (Suc runs) retryDelay h =
     (case pm_ctx_err pm h of
        (Some _, h) \<Rightarrow> Some h
      | (None, h) \<Rightarrow>
          (case runResolvePageMonitor pm lines h of
             None \<Rightarrow> None
           | Some (_, observed, h) \<Rightarrow>
               (case pm_ctx_err pm h of
                  (Some _, h) \<Rightarrow> Some h
                | (None, h) \<Rightarrow>
                    let retryDelay = resolvePageMonitorRetryDelay retryDelay observed in
                    (case pm_timer pm retryDelay h of
                       (False, h) \<Rightarrow> Some h
                     | (True, h) \<Rightarrow> monitorResolvePages pm lines runs retryDelay h))))"

text \<open>The delay is from a second to a quarter of an hour, a second after an observation, and else grows.\<close>

lemma retry_delay_bounds:
  assumes "previous = 0 \<or> 1000000000 \<le> previous"
  shows "1000000000 \<le> resolvePageMonitorRetryDelay previous observed"
    and "resolvePageMonitorRetryDelay previous observed \<le> 900000000000"
    and "resolvePageMonitorRetryDelay previous True = 1000000000"
  using assms by (auto simp: resolvePageMonitorRetryDelay_def)

end
