(* ===== verification/RelayCommand.thy ===== *)
theory RelayCommand
  imports Handler CompanionModel
begin

text \<open>
  The start of the relay (\<^verbatim>\<open>services/rendezvous-relay/cmd/relay/main.go\<close>) and the defaults of its handler: the
  environment it needs, the calls of the gateway's management API, and the identifiers and locators it draws.
  The AWS configuration, the client of the management API and JSON's text are given as functions.
\<close>

section \<open>The management API\<close>

record GatewayEvent = WebSocketEvent +
  ev_DomainName :: string
  ev_Stage :: string

definition managementEndpoint :: "GatewayEvent \<Rightarrow> err + string" where
  "managementEndpoint event =
     (if ev_DomainName event = '''' \<or> ev_Stage event = '''' then Inl (EText ''missing WebSocket management endpoint'')
      else Inr (''https://'' @ ev_DomainName event @ ''/'' @ ev_Stage event))"

definition post_message :: "(Message \<Rightarrow> err + string) \<Rightarrow> (string \<Rightarrow> string \<Rightarrow> string \<Rightarrow> 'h \<Rightarrow> err option \<times> 'h) \<Rightarrow>
    string \<Rightarrow> Message \<Rightarrow> GatewayEvent \<Rightarrow> 'h \<Rightarrow> err option \<times> 'h" where
  "post_message MarshalMessage PostToConnection connectionID message event h =
     (case managementEndpoint event of
        Inl e \<Rightarrow> (Some e, h)
      | Inr endpoint \<Rightarrow>
          (case MarshalMessage message of
             Inl e \<Rightarrow> (Some e, h)
           | Inr data \<Rightarrow> PostToConnection endpoint connectionID data h))"

definition drop_connection :: "(string \<Rightarrow> string \<Rightarrow> 'h \<Rightarrow> err option \<times> 'h) \<Rightarrow> string \<Rightarrow> GatewayEvent \<Rightarrow> 'h \<Rightarrow>
    err option \<times> 'h" where
  "drop_connection DeleteConnection connectionID event h =
     (case managementEndpoint event of
        Inl e \<Rightarrow> (Some e, h)
      | Inr endpoint \<Rightarrow> DeleteConnection endpoint connectionID h)"

section \<open>The start\<close>

text \<open>The exit status, or the table and the limit with which the function is started; \<open>None\<close> is a panic.\<close>

definition relay_main :: "string \<Rightarrow> string \<Rightarrow> bool \<Rightarrow> (nat + string \<times> int) option" where
  "relay_main tableName rawLimit configured =
     (if tableName = '''' then Some (Inl 1)
      else case pairActivationsPerSourceHour rawLimit of
        None \<Rightarrow> Some (Inl 1)
      | Some limit \<Rightarrow>
          if \<not> configured then Some (Inl 1)
          else map_option (\<lambda>l. Inr (tableName, l)) (NewDynamoStore [limit]))"

text \<open>A limit that the environment may set never makes the store panic.\<close>

lemma relay_main_starts: "relay_main tableName rawLimit configured \<noteq> None"
  by (auto simp: relay_main_def configured_limit_accepted split: option.splits)

section \<open>Identifiers and locators\<close>

text \<open>Both panic when there is no randomness. A locator has six digits.\<close>

definition handler_uuid :: "string option \<Rightarrow> string option" where
  "handler_uuid random = map_option uuid_of_bytes random"

definition randomLocator :: "int option \<Rightarrow> string option" where
  "randomLocator random = map_option (\<lambda>v. replicate (6 - length (itoa v)) CHR ''0'' @ itoa v) random"

lemma length_digits10: "n < 10 ^ Suc k \<Longrightarrow> length (digits10 n) \<le> Suc k"
proof (induction k arbitrary: n)
  case 0
  then show ?case by (simp add: digits10.simps [of n])
next
  case (Suc k)
  then have "n div 10 < 10 ^ Suc k" by (simp add: div_less_iff_less_mult mult.commute)
  from Suc.IH [OF this] show ?case by (simp add: digits10.simps [of n])
qed

lemma locator_format:
  assumes "0 \<le> v" and "v < 1000000"
  shows "\<exists>s. randomLocator (Some v) = Some s \<and> length s = 6 \<and> (\<forall>c\<in>set s. is_digit c)"
proof -
  have "nat v < 10 ^ Suc 5" using assms by simp
  then have "length (itoa v) \<le> 6" using length_digits10 [of "nat v" 5] assms by (simp add: itoa_def)
  moreover have "\<forall>c\<in>set (itoa v). is_digit c" using digits10_digits assms by (auto simp: itoa_def)
  moreover have "is_digit CHR ''0''" by (simp add: is_digit_def)
  ultimately show ?thesis by (auto simp: randomLocator_def)
qed

end
