(* ===== verification/Spec2Isabelle.thy ===== *)
theory Spec2Isabelle
  imports RelayConcurrency Refusals ChannelOrder Migration RelayTrust PairingSafety WebSafety CleanupBound PerfSafety Admission ReplyDelivery CompanionCommand PageMonitor RelayCommand
begin

text \<open>
  Remote DaVinci: a companion on the user's computer and a controller (an iPad) are paired once and then talk
  through a rendezvous relay that never sees what they say. This library models the Go code of the repository:
  the relay (\<^verbatim>\<open>services/rendezvous-relay\<close>), the wire protocol (\<^verbatim>\<open>protocol\<close>), the companion
  (\<^verbatim>\<open>internal/companion\<close>) and the commands (\<^verbatim>\<open>cmd\<close>).

  \<^bold>\<open>The parts of the program.\<close> The relay is a Lambda function: an API gateway calls \<^verbatim>\<open>Handle\<close> for each event of a
  WebSocket connection, the function keeps everything in one DynamoDB table and posts messages to other
  connections. Many invocations run at once, each may fail between two requests, and DynamoDB's conditions are
  the only synchronisation. A pair of endpoints is made by two sides that create, join and commit a pair; the
  link it yields lets them open one session at a time, whose frames the relay passes on. The companion is a local
  web application. It enrols by a manual exchange (\<^verbatim>\<open>Provision\<close>) or by a QR code (an attempt of
  \<^verbatim>\<open>pairing.go\<close>), keeps its enrollment in a file or in the Keychain, and while it is enrolled runs \<^verbatim>\<open>RunRelay\<close>: a
  connection to the relay, on which each session is a Noise channel that carries control requests.

  \<^bold>\<open>Theories and code.\<close>

  \<^item> Shared: \<open>Prelude\<close> (integers, decimal text), \<open>GoText\<close> (UTF-8, runes,
  \<^verbatim>\<open>strings\<close>), \<open>Base64\<close> (raw base64url), \<open>Protocol\<close> (\<^verbatim>\<open>protocol.go\<close>: constants, bodies, \<^verbatim>\<open>encoding/json\<close>'s case
  folding), \<open>Validation\<close> (\<^verbatim>\<open>validate.go\<close>).
  \<^item> Relay: \<open>Dynamo\<close> (items, conditions and updates as DynamoDB documents them), \<open>Program\<close> (operations as
  trees of requests and their answers, and the locales \<open>dynamo\<close> and \<open>reliable_dynamo\<close> of the services),
  \<open>RelayModel\<close> (\<^verbatim>\<open>model.go\<close>), \<open>StoreBase\<close>, \<open>StoreConnections\<close>, \<open>StorePairs\<close>, \<open>StoreSessions\<close> (\<^verbatim>\<open>store.go\<close>, every
  method), \<open>Handler\<close> and \<open>Dispatch\<close> (\<^verbatim>\<open>handler.go\<close>, every route), \<open>RelayCommand\<close> (\<^verbatim>\<open>cmd/relay\<close>).
  \<^item> Relay, proofs: \<open>RelyGuarantee\<close> (programs among others that keep a relation on the table), \<open>RelayInv\<close> (the
  invariant \<open>Inv\<close> and the order \<open>evolves\<close> of tables), \<open>RelayPlain\<close>, \<open>RelayWrites\<close>, \<open>RelaySafe\<close>, \<open>RelayOps\<close>,
  \<open>RelayEvolve\<close>, \<open>RelayGuarantees\<close>, \<open>HandlerSafe\<close> (every write, transaction, operation and route keeps them),
  \<open>World\<close> (a table in memory, the interpretation of the locales), \<open>RelayConcurrency\<close> (any interleaving of
  invocations), \<open>Sequential\<close>, \<open>StoreLogic\<close> (weakest preconditions of a single invocation), \<open>RateLimits\<close>,
  \<open>Pairing\<close>, \<open>Refusals\<close>, \<open>CleanupBound\<close>.
  \<^item> Companion: \<open>CompanionModel\<close>, \<open>ControlProcessor\<close>, \<open>RelayClient\<close>, \<open>PageMonitor\<close> (\<^verbatim>\<open>companion.go\<close>), \<open>SecureChannel\<close> and \<open>RelayLoop\<close>
  (\<^verbatim>\<open>relay.go\<close>), \<open>PairingAttempt\<close> (\<^verbatim>\<open>pairing.go\<close>), \<open>ConfigStorage\<close> (\<^verbatim>\<open>storage.go\<close> and the Keychain files),
  \<open>WebApp\<close> (\<^verbatim>\<open>web.go\<close>), \<open>CompanionCommand\<close> (\<^verbatim>\<open>cmd/companion\<close>).
  \<^item> Companion, proofs: \<open>ChannelOrder\<close> (locale \<open>delivery\<close>), \<open>Enrollment\<close>, \<open>Migration\<close> (locales \<open>config_store\<close> and
  \<open>migration\<close>), \<open>CredentialStore\<close> (\<open>credential_store\<close>), \<open>HostContract\<close> (\<open>net_contract\<close>), \<open>RelayTrust\<close>
  (\<open>relay_contract\<close>), \<open>PairingSafety\<close>, \<open>PairingStore\<close> (\<open>attempt_contract\<close>, \<open>storing_attempt\<close>), \<open>WebSafety\<close>
  (\<open>web_contract\<close>), \<open>ReplyDelivery\<close>, \<open>CommittedCredential\<close> (what \<^verbatim>\<open>Provision\<close> commits). Each locale is interpreted on the model's own stores, networks and hosts.
  \<^item> Companion and relay together: \<open>Admission\<close> (the credential that was committed opens the relay).
  \<^item> Measuring tools: \<open>LatencySummary\<close> (\<^verbatim>\<open>cmd/latency-summary\<close>), \<open>RelayPerf\<close>, \<open>WorkerPool\<close> and \<open>PerfRun\<close>
  (\<^verbatim>\<open>cmd/relay-perf\<close>: the work on one pair, its pools of goroutines as lists of moves with the locale
  \<open>worker_job\<close>, the whole run), \<open>PerfSafety\<close> (locale \<open>pair_calls\<close>).

  \<^bold>\<open>How code becomes definitions.\<close> A function of the code is a function of the same name; one that has a side
  effect takes the state of its host last and returns it changed. A Go error is a value (\<open>err\<close> in the relay,
  \<open>goerr\<close> in the companion), \<^verbatim>\<open>(T, error)\<close> a sum. A struct is a record, a JSON document a \<open>json\<close>, decoding a
  function into an option. The relay's operations are programs (\<open>Program\<close>), so one definition is run alone, among
  others, and on services that fail. In the companion, what other goroutines or the user do is given by the
  host: the events that a \<^verbatim>\<open>select\<close> receives (\<open>RelayLoop\<close>), the user's calls between two steps of a pairing
  attempt (\<open>interfere\<close> in \<open>PairingAttempt\<close>). Times of the relay are in seconds and milliseconds, those of the
  companion in nanoseconds, as integers; they stay far below \<^verbatim>\<open>2^63\<close>.

  \<^bold>\<open>What the properties show.\<close>

  \<^item> The relay's table (C1 to C8): its invariant holds in every interleaving of failing invocations; two active
  sessions never share an endpoint or a link; revocations are permanent; sessions and pairs follow their
  life cycles; an active pair has its reciprocal commits, link and endpoints; locks agree with sessions.
  \<^item> Single invocations (C9 to C16, C36): exact rate limits and their retry times, quotas that activate
  nothing when exceeded, activation, admission of one joiner, refusals that change nothing, and a clean-up that
  ends.
  \<^item> The secure channel and the control protocol (C17 to C24, C31, C32): frames are delivered once and in order;
  requests are executed once, for the enrolled controller only, within its permissions and a bound; what the
  parsers accept and what escapes them; reconnection delays.
  \<^item> Enrollment (C25 to C30): nothing binds the companion before the user approved; what is stored goes along
  with what was committed; revocations are marked; the stored secret opens the relay, and no other does;
  migration loses no record.
  \<^item> The web application (C33 to C35): it agrees with its file; who may call it; its token page is served once.
  \<^item> The rest (C37 to C40): a measuring run cleans up every pair it made and its pools return under every
  schedule; the reply that overtaking messages do not lose; identifiers.

  \<^bold>\<open>Bounds and fuel.\<close> The recursive clean-up of the relay (\<open>cleanup\<close>) has fuel; C36 shows that a fuel above the
  number of connections is enough. The relay connection of the companion may run as long as the process: the
  fuel of \<open>relay_events\<close> and \<open>relay_rounds\<close> is a number of events and connections, and its properties hold for every
  number. The waits of a pairing attempt read messages until the invite expires; their fuel bounds the messages,
  and the properties hold for each. \<open>draw_psk\<close> repeats a draw that equals the join token; \<open>await_reply\<close> needs no fuel, since
  it keeps at most 32 other messages. The waits of \<open>RelayPerf\<close> have the number of messages that arrive before
  their context ends; its pools take a schedule of any length, and C38 bounds the schedules that prepare and clean up.

  \<^bold>\<open>Parameters.\<close> Not in the repository, and so arguments of the definitions with documented behaviour as
  hypotheses where it matters: DynamoDB and the API gateway, SHA-256, Noise and X25519, the JSON text decoder and
  the JSON-schema validator, URL and IP parsing, the Unicode tables outside the ranges used, the file system, the
  Keychain, the HTTP library's routing and origin parsing, floating-point numbers, random numbers and clocks.

  \<^bold>\<open>Not modelled.\<close> Logging; what AWS, AppleScript and Python do when they are called; sockets, and
  time limits other than as errors of a call; the interleaving of goroutines inside a
  piece of work, a step or an event of those above; the HTML of the interface. DynamoDB's deletion of expired rows is left out of the
  concurrent model: the code treats an expired row as absent, except for the write described in the findings.
\<close>

end
